(* ===== verification/Circuit_Breaker.thy ===== *)
theory Circuit_Breaker
  imports Rust_Prelude
begin

text \<open>
  The failure classifier and the circuit breaker of
  \<^verbatim>\<open>actium-node-core/src/runtime_control_plane.rs\<close>: \<open>RuntimeFailureCode\<close>,
  \<open>classify_runtime_failure\<close>, \<open>CircuitBreakerV1\<close> with its policy, and
  \<open>bounded_backoff_seconds\<close>.
\<close>

section \<open>Failure codes and classification\<close>

datatype failure_class = Deterministic | Transient | Unknown_class

datatype runtime_failure_code =
    JwtExpired | SignatureInvalid | AuthorityRevoked | GenerationRollback | ConfigInvalid
  | MissingSecret | IncompatibleRuntime | PermissionDenied | DnsTimeout
  | RemoteDependencyUnavailable | DatabaseUnavailable | RelayUnavailable
  | ResourcePressure | DependencyNotReady | UnknownFailure

fun code_as_str :: "runtime_failure_code \<Rightarrow> string" where
  "code_as_str JwtExpired = ''JWT_EXPIRED''"
| "code_as_str SignatureInvalid = ''SIGNATURE_INVALID''"
| "code_as_str AuthorityRevoked = ''AUTHORITY_REVOKED''"
| "code_as_str GenerationRollback = ''GENERATION_ROLLBACK''"
| "code_as_str ConfigInvalid = ''CONFIG_INVALID''"
| "code_as_str MissingSecret = ''MISSING_SECRET''"
| "code_as_str IncompatibleRuntime = ''INCOMPATIBLE_RUNTIME''"
| "code_as_str PermissionDenied = ''PERMISSION_DENIED''"
| "code_as_str DnsTimeout = ''DNS_TIMEOUT''"
| "code_as_str RemoteDependencyUnavailable = ''REMOTE_DEPENDENCY_UNAVAILABLE''"
| "code_as_str DatabaseUnavailable = ''DATABASE_UNAVAILABLE''"
| "code_as_str RelayUnavailable = ''RELAY_UNAVAILABLE''"
| "code_as_str ResourcePressure = ''RESOURCE_PRESSURE''"
| "code_as_str DependencyNotReady = ''DEPENDENCY_NOT_READY''"
| "code_as_str UnknownFailure = ''UNKNOWN_FAILURE''"

record failure_classification =
  fc_class :: failure_class
  fc_code :: runtime_failure_code
  fc_retry_allowed :: bool
  fc_quarantine :: bool
  fc_reason :: string

type_synonym needle_table = "(runtime_failure_code \<times> string list) list"

definition deterministic_table :: needle_table where
  "deterministic_table =
     [(JwtExpired, [''jwtexpired'', ''err_jwt_expired'', ''offline_until'', ''token expired'']),
      (SignatureInvalid, [''signature invalid'', ''invalid signature'', ''invalidissuer'']),
      (AuthorityRevoked, [''authority revoked'', ''revoked authority'']),
      (GenerationRollback, [''generation rollback'', ''anti-rollback'', ''rollback detected'']),
      (ConfigInvalid, [''config invalid'', ''configuration invalid'', ''invalid configuration'']),
      (MissingSecret, [''missing secret'', ''secret unavailable'', ''secret required'']),
      (IncompatibleRuntime, [''incompatible runtime'', ''unsupported runtime'', ''schema mismatch'']),
      (PermissionDenied, [''permission denied'', ''operation not permitted'', ''eacces''])]"

definition transient_table :: needle_table where
  "transient_table =
     [(DnsTimeout, [''dns'', ''name or service not known'', ''temporary failure in name resolution'']),
      (RemoteDependencyUnavailable,
        [''connection refused'', ''connection reset'', ''remote dependency'', ''temporarily unavailable'']),
      (DatabaseUnavailable, [''database starting'', ''postgres'', ''database unavailable'']),
      (RelayUnavailable, [''relay unavailable'', ''relay timeout''])]"

text \<open>The \<open>for (code, needles)\<close> loop: the first row with a matching needle.\<close>

fun first_match :: "needle_table \<Rightarrow> string \<Rightarrow> runtime_failure_code option" where
  "first_match [] text = None"
| "first_match ((code, needles) # rows) text =
     (if list_ex (str_contains text) needles then Some code else first_match rows text)"

definition classify_runtime_failure :: "string \<Rightarrow> failure_classification" where
  "classify_runtime_failure message =
     (let text = to_ascii_lowercase message in
      case first_match deterministic_table text of
        Some code \<Rightarrow> \<lparr>fc_class = Deterministic, fc_code = code, fc_retry_allowed = False,
          fc_quarantine = True,
          fc_reason = code_as_str code @ '' requires operator or authority action.''\<rparr>
      | None \<Rightarrow>
        (case first_match transient_table text of
           Some code \<Rightarrow> \<lparr>fc_class = Transient, fc_code = code, fc_retry_allowed = True,
             fc_quarantine = False,
             fc_reason = code_as_str code @ '' may recover after bounded backoff.''\<rparr>
         | None \<Rightarrow> \<lparr>fc_class = Unknown_class, fc_code = UnknownFailure, fc_retry_allowed = True,
             fc_quarantine = False,
             fc_reason = ''Unknown failure receives bounded retries only.''\<rparr>))"

lemma code_as_str_inj: "code_as_str a = code_as_str b \<Longrightarrow> a = b"
  by (cases a; cases b; simp)

lemma first_match_mem: "first_match rows text = Some code \<Longrightarrow> code \<in> fst ` set rows"
  by (induction rows) (auto split: if_splits)

lemma first_match_None_iff:
  "first_match rows text = None \<longleftrightarrow> (\<forall>(code, ns) \<in> set rows. \<forall>n \<in> set ns. \<not> sublist n text)"
  by (induction rows) (auto simp: list_ex_iff str_contains_iff_sublist split: if_splits)

text \<open>A needle of an earlier row decides the code whatever the later rows hold.\<close>

lemma first_match_first:
  "\<forall>n \<in> set ns. \<not> sublist n text \<Longrightarrow> first_match ((c, ns) # rows) text = first_match rows text"
  "\<exists>n \<in> set ns. sublist n text \<Longrightarrow> first_match ((c, ns) # rows) text = Some c"
  by (auto simp: list_ex_iff str_contains_iff_sublist)

lemma ascii_lower_char_idem [simp]: "ascii_lower_char (ascii_lower_char c) = ascii_lower_char c"
  by (simp add: ascii_lower_char_def Let_def of_char_of take_bit_eq_mod)

lemma ascii_lower_upper_char [simp]: "ascii_lower_char (ascii_upper_char c) = ascii_lower_char c"
proof (cases "is_ascii_lower c")
  case True
  then have b: "97 \<le> (of_char c :: nat)" "(of_char c :: nat) \<le> 122"
    by (simp_all add: is_ascii_lower_def Let_def)
  then have "(of_char (ascii_upper_char c) :: nat) = of_char c - 32"
    by (simp add: ascii_upper_char_def Let_def of_char_of take_bit_eq_mod)
  moreover have "65 \<le> (of_char c :: nat) - 32" "(of_char c :: nat) - 32 \<le> 90"
    using b by arith+
  ultimately show ?thesis using b by (simp add: ascii_lower_char_def Let_def)
next
  case False
  then show ?thesis by (auto simp: ascii_upper_char_def is_ascii_lower_def Let_def)
qed

lemma to_ascii_lowercase_idem [simp]:
  "to_ascii_lowercase (to_ascii_lowercase s) = to_ascii_lowercase s"
  "to_ascii_lowercase (to_ascii_uppercase s) = to_ascii_lowercase s"
  by (simp_all add: to_ascii_lowercase_def to_ascii_uppercase_def)

section \<open>The circuit breaker\<close>

datatype circuit_state = Closed | Open | HalfOpen

record circuit_breaker =
  cb_state :: circuit_state
  cb_failure_count :: u32
  cb_failure_window_started_at :: "u64 option"
  cb_last_failure_at :: "u64 option"
  cb_backoff_until :: "u64 option"
  cb_quarantine_reason :: "string option"

definition circuit_breaker_default :: circuit_breaker where
  "circuit_breaker_default = \<lparr>cb_state = Closed, cb_failure_count = 0,
     cb_failure_window_started_at = None, cb_last_failure_at = None,
     cb_backoff_until = None, cb_quarantine_reason = None\<rparr>"

record circuit_breaker_policy =
  cp_max_failures :: u32
  cp_failure_window_seconds :: u64
  cp_max_unknown_retries :: u32

definition circuit_breaker_policy_default :: circuit_breaker_policy where
  "circuit_breaker_policy_default =
     \<lparr>cp_max_failures = 3, cp_failure_window_seconds = 300, cp_max_unknown_retries = 3\<rparr>"

definition can_attempt :: "circuit_breaker \<Rightarrow> u64 \<Rightarrow> bool" where
  "can_attempt cb now = (case cb_state cb of
     Closed \<Rightarrow> is_none_or (cb_backoff_until cb) (\<lambda>value. value \<le> now)
   | HalfOpen \<Rightarrow> True
   | Open \<Rightarrow> is_some_and (cb_backoff_until cb) (\<lambda>value. value \<le> now))"

definition backoff_base :: "u32 \<Rightarrow> u64" where
  "backoff_base failure_count =
     (if failure_count = 0 \<or> failure_count = 1 then 5
      else if failure_count = 2 then 15
      else if failure_count = 3 then 30
      else if failure_count = 4 then 60
      else if failure_count = 5 then 120
      else 300)"

definition bounded_backoff_seconds :: "u32 \<Rightarrow> u64 \<Rightarrow> u64" where
  "bounded_backoff_seconds failure_count jitter_seed =
     (let base = backoff_base failure_count
      in base + (jitter_seed mod (max (base div 5) 1)))"

definition open_failure_window :: "circuit_breaker \<Rightarrow> u64 \<Rightarrow> circuit_breaker_policy \<Rightarrow> circuit_breaker" where
  "open_failure_window cb now policy =
     (if is_none_or (cb_failure_window_started_at cb)
           (\<lambda>start. cp_failure_window_seconds policy < sat_sub now start)
      then cb\<lparr>cb_failure_window_started_at := Some now, cb_failure_count := 0\<rparr> else cb)"

definition trips_circuit ::
  "failure_classification \<Rightarrow> u32 \<Rightarrow> circuit_breaker_policy \<Rightarrow> bool" where
  "trips_circuit classification count policy =
     (fc_quarantine classification
      \<or> (fc_class classification = Unknown_class \<and> cp_max_unknown_retries policy \<le> count)
      \<or> cp_max_failures policy \<le> count)"

definition record_failure ::
  "circuit_breaker \<Rightarrow> failure_classification \<Rightarrow> u64 \<Rightarrow> circuit_breaker_policy \<Rightarrow> u64 \<Rightarrow> circuit_breaker" where
  "record_failure cb0 classification now policy jitter_seed =
     (let cb1 = open_failure_window cb0 now policy;
          count = sat_add (cb_failure_count cb1) 1;
          cb2 = cb1\<lparr>cb_failure_count := count, cb_last_failure_at := Some now\<rparr>
      in if trips_circuit classification count policy
         then cb2\<lparr>cb_state := Open,
                  cb_quarantine_reason := Some (code_as_str (fc_code classification)),
                  cb_backoff_until := None\<rparr>
         else cb2\<lparr>cb_state := Closed,
                  cb_backoff_until := Some (sat_add now (bounded_backoff_seconds count jitter_seed))\<rparr>)"

definition begin_half_open :: "circuit_breaker \<Rightarrow> u64 \<Rightarrow> circuit_breaker \<times> bool" where
  "begin_half_open cb now =
     (if cb_state cb = Open \<and> is_some_and (cb_backoff_until cb) (\<lambda>value. value \<le> now)
      then (cb\<lparr>cb_state := HalfOpen\<rparr>, True) else (cb, False))"

definition record_success :: "circuit_breaker \<Rightarrow> circuit_breaker" where
  "record_success cb = cb\<lparr>cb_state := Closed, cb_failure_count := 0,
     cb_failure_window_started_at := None, cb_last_failure_at := None,
     cb_backoff_until := None, cb_quarantine_reason := None\<rparr>"

lemma record_success_default: "record_success cb = circuit_breaker_default"
  by (cases cb) (simp add: record_success_def circuit_breaker_default_def)

subsection \<open>Backoff\<close>

lemma mod_word_less: "0 < m \<Longrightarrow> unat (s mod m) < unat m" for s m :: u64
  by (simp add: unat_mod_distrib word_less_nat_alt)

lemma backoff_base_cases:
  "backoff_base n \<in> {5, 15, 30, 60, 120, 300}"
  by (simp add: backoff_base_def)

lemma backoff_range:
  "unat (backoff_base n) \<le> unat (bounded_backoff_seconds n seed)"
  "unat (bounded_backoff_seconds n seed) < unat (backoff_base n) + unat (backoff_base n) div 5"
proof -
  have "unat (backoff_base n) \<le> unat (bounded_backoff_seconds n seed) \<and>
    unat (bounded_backoff_seconds n seed) < unat (backoff_base n) + unat (backoff_base n) div 5"
    if "backoff_base n = b" "0 < b div 5" "unat b \<le> 300" for b
  proof -
    have m: "unat (seed mod (b div 5)) < unat b div 5"
      using mod_word_less [OF that(2), of seed] by (simp add: unat_div_distrib)
    have "1 \<le> b div 5"
      using that(2) by (simp add: word_le_nat_alt word_less_nat_alt Suc_le_eq)
    then have "max (b div 5) 1 = b div 5" by (rule max_absorb1)
    moreover have "unat (b + seed mod (b div 5)) = unat b + unat (seed mod (b div 5))"
      using m that(3) by (simp add: unat_word_ariths)
    ultimately show ?thesis
      using m that(1) by (simp add: bounded_backoff_seconds_def Let_def)
  qed
  moreover have "0 < backoff_base n div 5 \<and> unat (backoff_base n) \<le> 300"
    using backoff_base_cases [of n] by (auto simp: word_less_nat_alt unat_div_distrib)
  ultimately show "unat (backoff_base n) \<le> unat (bounded_backoff_seconds n seed)"
    and "unat (bounded_backoff_seconds n seed) < unat (backoff_base n) + unat (backoff_base n) div 5"
    by blast+
qed

subsection \<open>Runs of the breaker\<close>

text \<open>
  The three state changing operations as a step relation: a recorded failure, a half-open
  probe and a recorded success, each at an arbitrary time.
\<close>

inductive breaker_step :: "circuit_breaker_policy \<Rightarrow> circuit_breaker \<Rightarrow> circuit_breaker \<Rightarrow> bool"
  for policy where
  failure_step: "breaker_step policy cb (record_failure cb classification now policy seed)"
| half_open_step: "breaker_step policy cb (fst (begin_half_open cb now))"
| success_step: "breaker_step policy cb (record_success cb)"

inductive breaker_reachable :: "circuit_breaker_policy \<Rightarrow> circuit_breaker \<Rightarrow> bool"
  for policy where
  breaker_init: "breaker_reachable policy circuit_breaker_default"
| breaker_next: "breaker_reachable policy cb \<Longrightarrow> breaker_step policy cb cb' \<Longrightarrow>
    breaker_reachable policy cb'"

inductive_cases breaker_stepE: "breaker_step policy cb cb'"

definition breaker_inv :: "circuit_breaker \<Rightarrow> bool" where
  "breaker_inv cb \<longleftrightarrow> cb_state cb \<noteq> HalfOpen
     \<and> (cb_state cb = Open \<longrightarrow> cb_backoff_until cb = None \<and> cb_quarantine_reason cb \<noteq> None
          \<and> cb_failure_window_started_at cb \<noteq> None)"

lemma breaker_inv_default: "breaker_inv circuit_breaker_default"
  by (simp add: breaker_inv_def circuit_breaker_default_def)

lemma open_window_started: "cb_failure_window_started_at (open_failure_window cb now policy) \<noteq> None"
  by (cases "cb_failure_window_started_at cb") (simp_all add: open_failure_window_def)

lemma record_failure_state:
  "cb_state (record_failure cb c now policy seed) =
     (if trips_circuit c (cb_failure_count (record_failure cb c now policy seed)) policy
      then Open else Closed)"
  by (simp add: record_failure_def Let_def)

lemma breaker_inv_record_failure: "breaker_inv (record_failure cb c now policy seed)"
  using open_window_started [of cb now policy]
  by (simp add: record_failure_def breaker_inv_def Let_def)

lemma breaker_inv_half_open: "breaker_inv cb \<Longrightarrow> begin_half_open cb now = (cb, False)"
  by (auto simp: begin_half_open_def breaker_inv_def)

lemma breaker_step_inv: "breaker_step policy cb cb' \<Longrightarrow> breaker_inv cb \<Longrightarrow> breaker_inv cb'"
  by (erule breaker_stepE)
    (simp_all add: breaker_inv_record_failure breaker_inv_half_open record_success_default
      breaker_inv_default)

lemma breaker_reachable_inv: "breaker_reachable policy cb \<Longrightarrow> breaker_inv cb"
  by (induction rule: breaker_reachable.induct) (auto intro: breaker_inv_default breaker_step_inv)

lemma open_blocks: "breaker_inv cb \<Longrightarrow> cb_state cb = Open \<Longrightarrow> \<not> can_attempt cb now"
  by (simp add: breaker_inv_def can_attempt_def)

subsection \<open>Consecutive failures\<close>

type_synonym failure_report = "failure_classification \<times> u64 \<times> u64"

definition record_failures ::
  "circuit_breaker_policy \<Rightarrow> circuit_breaker \<Rightarrow> failure_report list \<Rightarrow> circuit_breaker" where
  "record_failures policy cb fs =
     foldl (\<lambda>cb (c, now, seed). record_failure cb c now policy seed) cb fs"

definition in_window :: "circuit_breaker_policy \<Rightarrow> u64 \<Rightarrow> failure_report \<Rightarrow> bool" where
  "in_window policy t0 f = (case f of (c, now, seed) \<Rightarrow>
     sat_sub now t0 \<le> cp_failure_window_seconds policy)"

lemma record_failure_in_window:
  assumes "cb_failure_window_started_at cb = Some t0" "in_window policy t0 (c, now, seed)"
  shows "cb_failure_window_started_at (record_failure cb c now policy seed) = Some t0"
    and "cb_failure_count (record_failure cb c now policy seed) = sat_add (cb_failure_count cb) 1"
  using assms by (auto simp: record_failure_def open_failure_window_def in_window_def Let_def
      dest: leD)

lemma record_failures_in_window:
  assumes "cb_failure_window_started_at cb = Some t0" "\<forall>f \<in> set fs. in_window policy t0 f"
  shows "cb_failure_window_started_at (record_failures policy cb fs) = Some t0 \<and>
    unat (cb_failure_count (record_failures policy cb fs))
      = min (unat (cb_failure_count cb) + length fs) (2 ^ 32 - 1)"
  using assms(2)
proof (induction fs rule: rev_induct)
  case Nil
  have "unat (cb_failure_count cb) < 2 ^ 32" using unsigned_less [of "cb_failure_count cb"] by simp
  then show ?case using assms(1) by (simp add: record_failures_def)
next
  case (snoc f fs)
  obtain c now seed where f: "f = (c, now, seed)" by (cases f)
  let ?cb = "record_failures policy cb fs"
  from snoc have IH: "cb_failure_window_started_at ?cb = Some t0"
    "unat (cb_failure_count ?cb) = min (unat (cb_failure_count cb) + length fs) (2 ^ 32 - 1)"
    and w: "in_window policy t0 (c, now, seed)" by (auto simp: f)
  have "record_failures policy cb (fs @ [f]) = record_failure ?cb c now policy seed"
    by (simp add: record_failures_def f)
  then show ?case
    using record_failure_in_window [OF IH(1) w] IH(2) by (simp add: unat_sat_add)
qed

lemma record_failure_first:
  "cb_failure_window_started_at (record_failure circuit_breaker_default c now policy seed) = Some now"
  "cb_failure_count (record_failure circuit_breaker_default c now policy seed) = 1"
  by (simp_all add: record_failure_def open_failure_window_def circuit_breaker_default_def Let_def
      sat_add_def)

section \<open>Properties\<close>

text \<open>
  C1. In every state the breaker can reach, an open circuit admits no attempt at any time
  and never turns half open: \<open>record_failure\<close> clears \<open>backoff_until\<close> when it opens the
  circuit, so neither \<open>can_attempt\<close> nor \<open>begin_half_open\<close> can ever succeed on it.
\<close>

theorem open_circuit_is_final_until_recorded:
  assumes "breaker_reachable policy cb" "cb_state cb = Open"
  shows "\<not> can_attempt cb now \<and> begin_half_open cb now = (cb, False)
    \<and> cb_quarantine_reason cb \<noteq> None"
  using breaker_reachable_inv [OF assms(1)] assms(2)
  by (simp add: open_blocks breaker_inv_half_open) (simp add: breaker_inv_def)

definition opened_example :: circuit_breaker where
  "opened_example = record_failure circuit_breaker_default
     (classify_runtime_failure ''JWTExpired'') 100 circuit_breaker_policy_default 1"

lemma classify_jwt_example:
  "fc_class (classify_runtime_failure ''JWTExpired'') = Deterministic"
  "fc_quarantine (classify_runtime_failure ''JWTExpired'')"
  by code_simp+

lemma opened_example_open: "cb_state opened_example = Open"
  by (simp add: opened_example_def record_failure_def trips_circuit_def classify_jwt_example Let_def)

theorem open_circuit_is_final_until_recorded_witness:
  "\<not> can_attempt opened_example 5000 \<and> begin_half_open opened_example 5000 = (opened_example, False)
    \<and> cb_quarantine_reason opened_example \<noteq> None"
proof (rule open_circuit_is_final_until_recorded [OF _ opened_example_open])
  show "breaker_reachable circuit_breaker_policy_default opened_example"
    unfolding opened_example_def by (rule breaker_next [OF breaker_init]) (rule failure_step)
qed

text \<open>
  Retries are bounded: once at least \<open>max_failures\<close> failures of any class have been
  recorded inside one failure window, starting from a fresh breaker, the circuit is open.
\<close>

theorem failures_in_window_open_circuit:
  assumes "unat (cp_max_failures policy) \<le> Suc (length fs)"
    and "\<forall>f \<in> set fs. in_window policy t0 f"
  shows "cb_state (record_failures policy circuit_breaker_default ((c0, t0, seed0) # fs)) = Open"
proof -
  let ?cb = "record_failure circuit_breaker_default c0 t0 policy seed0"
  have run: "record_failures policy circuit_breaker_default ((c0, t0, seed0) # fs)
      = record_failures policy ?cb fs" by (simp add: record_failures_def)
  have max: "unat (cp_max_failures policy) < 2 ^ 32"
    using unsigned_less [of "cp_max_failures policy"] by simp
  show ?thesis
  proof (cases fs rule: rev_cases)
    case Nil
    have "cp_max_failures policy \<le> 1" using assms(1) Nil by (simp add: word_le_nat_alt)
    then show ?thesis
      using record_failure_first [of c0 t0 policy seed0]
      by (simp add: Nil record_failures_def record_failure_state trips_circuit_def)
  next
    case (snoc gs g)
    obtain c now seed where g: "g = (c, now, seed)" by (cases g)
    let ?last = "record_failures policy ?cb fs"
    have "unat (cb_failure_count ?last) = min (1 + length fs) (2 ^ 32 - 1)"
      using record_failures_in_window [OF record_failure_first(1) assms(2)]
        record_failure_first(2) [of c0 t0 policy seed0] by simp
    then have "cp_max_failures policy \<le> cb_failure_count ?last"
      using assms(1) max by (simp add: word_le_nat_alt min_def)
    moreover have "?last = record_failure (record_failures policy ?cb gs) c now policy seed"
      by (simp add: snoc g record_failures_def)
    ultimately have "cb_state ?last = Open"
      using record_failure_state [of "record_failures policy ?cb gs" c now policy seed]
      by (simp add: trips_circuit_def)
    then show ?thesis using run by simp
  qed
qed

theorem failures_in_window_open_circuit_witness:
  "cb_state (record_failures circuit_breaker_policy_default circuit_breaker_default
     [(classify_runtime_failure ''exit 1'', 1, 1), (classify_runtime_failure ''dns'', 2, 2),
      (classify_runtime_failure ''exit 1'', 301, 3)]) = Open"
  by (rule failures_in_window_open_circuit)
    (simp_all add: circuit_breaker_policy_default_def in_window_def sat_sub_def)

text \<open>
  The quarantine of the breaker does not outlive its failure window: a failure that does
  not trip the circuit by itself, recorded after the window has passed, closes an open
  circuit again and leaves it attemptable once its backoff is over. (The breaker is closed
  by a failure, although nothing succeeded in between.)
\<close>

theorem late_failure_closes_open_circuit:
  assumes "cb_failure_window_started_at cb = Some start"
    and "cp_failure_window_seconds policy < sat_sub now start"
    and "\<not> fc_quarantine c" "1 < cp_max_failures policy" "1 < cp_max_unknown_retries policy"
  shows "let cb' = record_failure cb c now policy seed in
    cb_state cb' = Closed \<and> cb_failure_count cb' = 1 \<and>
    cb_quarantine_reason cb' = cb_quarantine_reason cb \<and>
    can_attempt cb' (sat_add now (bounded_backoff_seconds 1 seed))"
proof -
  have "sat_add 0 1 = (1 :: u32)" by (simp add: sat_add_def)
  then show ?thesis
    using assms by (simp add: record_failure_def open_failure_window_def trips_circuit_def
        can_attempt_def Let_def not_le)
qed

theorem late_failure_closes_open_circuit_witness:
  "cb_state opened_example = Open \<and>
   cb_state (record_failure opened_example (classify_runtime_failure ''exit 1'') 500
     circuit_breaker_policy_default 1) = Closed"
proof -
  have q: "\<not> fc_quarantine (classify_runtime_failure ''exit 1'')" by code_simp
  have w: "cb_failure_window_started_at opened_example = Some 100"
    by (simp add: opened_example_def record_failure_first)
  show ?thesis
    using late_failure_closes_open_circuit [OF w _ q, of circuit_breaker_policy_default 500 1]
      opened_example_open
    by (simp add: circuit_breaker_policy_default_def sat_sub_def Let_def)
qed

text \<open>
  C40. The backoff is bounded and grows: it lies between its base and the base plus a fifth,
  never below 5 nor at 360 seconds or more, and a larger base gives a strictly longer wait
  whatever the jitter seeds are.
\<close>

theorem backoff_bounds_and_growth:
  "5 \<le> bounded_backoff_seconds n seed \<and> bounded_backoff_seconds n seed < 360 \<and>
   (backoff_base m < backoff_base n \<longrightarrow>
     bounded_backoff_seconds m seed' < bounded_backoff_seconds n seed)"
proof (intro conjI impI)
  have b: "5 \<le> unat (backoff_base n)" "unat (backoff_base n) \<le> 300"
    using backoff_base_cases [of n] by auto
  then show "5 \<le> bounded_backoff_seconds n seed" "bounded_backoff_seconds n seed < 360"
    using backoff_range [where n = n and seed = seed]
    by (simp_all add: word_le_nat_alt word_less_nat_alt)
  assume "backoff_base m < backoff_base n"
  then have "unat (backoff_base m) + unat (backoff_base m) div 5 \<le> unat (backoff_base n)"
    using backoff_base_cases [of m] backoff_base_cases [of n] by (auto simp: word_less_nat_alt)
  then show "bounded_backoff_seconds m seed' < bounded_backoff_seconds n seed"
    using backoff_range(1) [of n seed] backoff_range(2) [of m seed']
    by (simp add: word_less_nat_alt)
qed

theorem backoff_bounds_and_growth_witness:
  "bounded_backoff_seconds 1 7 < bounded_backoff_seconds 2 9"
  using backoff_bounds_and_growth [of 2 9 1 7] by (simp add: backoff_base_def)

text \<open>
  The classifier is consistent and ignores ASCII case: a message is quarantined and not
  retried exactly when it is deterministic, which is when it contains a needle of the
  deterministic table; the deterministic rows take precedence over the transient ones.
\<close>

theorem classify_runtime_failure_spec:
  "(let r = classify_runtime_failure m in
     (fc_quarantine r \<longleftrightarrow> fc_class r = Deterministic) \<and>
     (fc_retry_allowed r \<longleftrightarrow> fc_class r \<noteq> Deterministic) \<and>
     (fc_class r = Deterministic \<longleftrightarrow>
        (\<exists>(code, ns) \<in> set deterministic_table. \<exists>n \<in> set ns. sublist n (to_ascii_lowercase m))) \<and>
     (fc_class r = Unknown_class \<longleftrightarrow> fc_code r = UnknownFailure) \<and>
     classify_runtime_failure (to_ascii_uppercase m) = r)"
proof -
  let ?t = "to_ascii_lowercase m"
  have tr: "first_match transient_table ?t \<noteq> Some UnknownFailure"
    "first_match deterministic_table ?t \<noteq> Some UnknownFailure"
    using first_match_mem [of transient_table ?t UnknownFailure]
      first_match_mem [of deterministic_table ?t UnknownFailure]
    by (auto simp: transient_table_def deterministic_table_def)
  have case_ins: "classify_runtime_failure (to_ascii_uppercase m) = classify_runtime_failure m"
    by (simp add: classify_runtime_failure_def)
  have det: "(\<exists>(code, ns) \<in> set deterministic_table. \<exists>n \<in> set ns. sublist n ?t)
      \<longleftrightarrow> first_match deterministic_table ?t \<noteq> None"
    using first_match_None_iff [of deterministic_table ?t] by auto
  show ?thesis unfolding det using case_ins
    by (cases "first_match deterministic_table ?t"; cases "first_match transient_table ?t")
      (use tr in \<open>auto simp: classify_runtime_failure_def Let_def\<close>)
qed

end
