(* ===== verification/Control_Plane.thy ===== *)
theory Control_Plane
  imports Circuit_Breaker
begin

text \<open>
  The decision functions of \<^verbatim>\<open>actium-node-core/src/runtime_control_plane.rs\<close>: admission
  (\<open>evaluate_runtime_admission\<close>, \<open>resources_admit\<close>, \<open>ResourceGuardV1\<close>), leases, host
  pressure, the supervisor watchdog and \<open>reconcile_runtime_state\<close>. All are pure functions of
  the evidence they are given; reading \<^verbatim>\<open>/proc\<close> is not modelled.
\<close>

section \<open>Data\<close>

datatype rollout_mode = Legacy | Observed | Managed

datatype lifecycle_state =
    Discovered | Preflight | Admitted | Starting | Running | Ready | Degraded | Blocked
  | Quarantined | Recovering | Stopped | Failed

datatype runtime_backend = Docker | Systemd | Native | Containerd | Vm

datatype host_pressure = Healthy | Pressure | Critical | Emergency | Unknown

datatype lease_state =
  Valid | RenewalAvailable | RenewalRequired | LeaseCritical | Expired | LeaseUnknown

record runtime_identity =
  ri_organization :: string
  ri_product :: string
  ri_site :: string
  ri_host :: string
  ri_node :: string
  ri_capability :: string
  ri_runtime_instance :: string

record authority_evidence =
  ae_required :: bool
  ae_issuer :: "string option"
  ae_authority_id :: "string option"
  ae_key_id :: "string option"
  ae_trust_epoch :: "u64 option"
  ae_generation :: "u64 option"
  ae_expected_generation :: "u64 option"
  ae_not_before :: "u64 option"
  ae_expires_at :: "u64 option"
  ae_offline_until :: "u64 option"
  ae_renew_after :: "u64 option"
  ae_signature_valid :: "bool option"
  ae_revoked :: bool

definition authority_evidence_default :: authority_evidence where
  "authority_evidence_default = \<lparr>ae_required = False, ae_issuer = None, ae_authority_id = None,
     ae_key_id = None, ae_trust_epoch = None, ae_generation = None, ae_expected_generation = None,
     ae_not_before = None, ae_expires_at = None, ae_offline_until = None, ae_renew_after = None,
     ae_signature_valid = None, ae_revoked = False\<rparr>"

record resource_snapshot =
  rs_memory_available_bytes :: "u64 option"
  rs_swap_total_bytes :: "u64 option"
  rs_swap_used_bytes :: "u64 option"
  rs_cpu_pressure_micros :: "u64 option"
  rs_io_pressure_micros :: "u64 option"
  rs_load_1m_micros :: "u64 option"
  rs_disk_available_bytes :: "u64 option"
  rs_inode_available :: "u64 option"

definition resource_snapshot_default :: resource_snapshot where
  "resource_snapshot_default = \<lparr>rs_memory_available_bytes = None, rs_swap_total_bytes = None,
     rs_swap_used_bytes = None, rs_cpu_pressure_micros = None, rs_io_pressure_micros = None,
     rs_load_1m_micros = None, rs_disk_available_bytes = None, rs_inode_available = None\<rparr>"

record resource_policy =
  rp_memory_soft_bytes :: "u64 option"
  rp_memory_hard_bytes :: "u64 option"
  rp_max_swap_used_bytes :: "u64 option"
  rp_max_cpu_pressure_micros :: "u64 option"
  rp_max_io_pressure_micros :: "u64 option"
  rp_min_disk_available_bytes :: "u64 option"
  rp_min_inode_available :: "u64 option"

definition resource_policy_default :: resource_policy where
  "resource_policy_default = \<lparr>rp_memory_soft_bytes = None, rp_memory_hard_bytes = None,
     rp_max_swap_used_bytes = None, rp_max_cpu_pressure_micros = None,
     rp_max_io_pressure_micros = None, rp_min_disk_available_bytes = None,
     rp_min_inode_available = None\<rparr>"

record health_signals =
  hs_liveness :: bool
  hs_readiness :: bool
  hs_authority :: bool
  hs_dependencies :: bool
  hs_resource_health :: bool

definition health_signals_default :: health_signals where
  "health_signals_default = \<lparr>hs_liveness = False, hs_readiness = False, hs_authority = False,
     hs_dependencies = False, hs_resource_health = True\<rparr>"

record capability_manifest =
  cm_schema :: u8
  cm_capability :: string
  cm_backend :: runtime_backend
  cm_authority :: authority_evidence
  cm_resources :: resource_policy
  cm_required_secrets :: "string list"
  cm_mounts :: "string list"
  cm_ports :: "u16 list"
  cm_dependencies :: "string list"
  cm_requires_liveness :: bool
  cm_requires_readiness :: bool
  cm_supervised_recovery :: bool
  cm_rollout_mode :: rollout_mode

definition capability_manifest_new :: "string \<Rightarrow> runtime_backend \<Rightarrow> capability_manifest" where
  "capability_manifest_new capability backend =
     \<lparr>cm_schema = 1, cm_capability = capability, cm_backend = backend,
      cm_authority = authority_evidence_default, cm_resources = resource_policy_default,
      cm_required_secrets = [], cm_mounts = [], cm_ports = [], cm_dependencies = [],
      cm_requires_liveness = True, cm_requires_readiness = True, cm_supervised_recovery = True,
      cm_rollout_mode = Legacy\<rparr>"

record admission_context =
  ac_identity :: runtime_identity
  ac_authority :: authority_evidence
  ac_config_valid :: bool
  ac_required_secrets_present :: bool
  ac_mounts_ready :: bool
  ac_ports_ready :: bool
  ac_dependencies_ready :: bool
  ac_resources :: resource_snapshot
  ac_resource_policy :: resource_policy
  ac_host_pressure :: host_pressure
  ac_now_unix_seconds :: u64

record admission_decision =
  ad_admitted :: bool
  ad_lifecycle_state :: lifecycle_state
  ad_reason_code :: "string option"
  ad_reason :: string
  ad_intervention_required :: bool

record observed_state =
  os_lifecycle_state :: lifecycle_state
  os_health :: health_signals
  os_last_observed_at :: u64
  os_failure :: "failure_classification option"

section \<open>Resources and host pressure\<close>

definition exceeds :: "u64 option \<Rightarrow> u64 option \<Rightarrow> bool" where
  "exceeds limit observed = is_some_and limit (\<lambda>l. is_some_and observed (\<lambda>v. l < v))"

definition falls_below :: "u64 option \<Rightarrow> u64 option \<Rightarrow> bool" where
  "falls_below limit observed = is_some_and limit (\<lambda>l. is_some_and observed (\<lambda>v. v < l))"

definition resources_admit :: "resource_snapshot \<Rightarrow> resource_policy \<Rightarrow> bool" where
  "resources_admit snapshot policy =
     (if falls_below (rp_memory_hard_bytes policy) (rs_memory_available_bytes snapshot) then False
      else if exceeds (rp_max_swap_used_bytes policy) (rs_swap_used_bytes snapshot) then False
      else if exceeds (rp_max_cpu_pressure_micros policy) (rs_cpu_pressure_micros snapshot) then False
      else if exceeds (rp_max_io_pressure_micros policy) (rs_io_pressure_micros snapshot) then False
      else if falls_below (rp_min_disk_available_bytes policy) (rs_disk_available_bytes snapshot) then False
      else if falls_below (rp_min_inode_available policy) (rs_inode_available snapshot) then False
      else True)"

record resource_guard =
  rg_runtime_id :: string
  rg_policy :: resource_policy
  rg_sovereign_plane :: bool

record resource_guard_decision =
  gd_admitted :: bool
  gd_reason_code :: "string option"
  gd_reason :: string

definition resource_guard_evaluate ::
  "resource_guard \<Rightarrow> resource_snapshot \<Rightarrow> resource_guard_decision" where
  "resource_guard_evaluate guard snapshot =
     (if rg_sovereign_plane guard
      then \<lparr>gd_admitted = True, gd_reason_code = None, gd_reason = ''Sovereign plane has priority.''\<rparr>
      else (let admitted = resources_admit snapshot (rg_policy guard) in
        \<lparr>gd_admitted = admitted,
         gd_reason_code = (if \<not> admitted then Some ''RESOURCE_PRESSURE'' else None),
         gd_reason = (if admitted then ''Resource guard passed.''
                      else ''Resource guard blocked workload admission.'')\<rparr>))"

definition percent_of :: "u64 \<times> u64 \<Rightarrow> u64" where
  "percent_of p = (case p of (swap_total, swap) \<Rightarrow>
     if swap_total = 0 then 0 else sat_mul swap 100 div swap_total)"

definition swap_ratio :: "resource_snapshot \<Rightarrow> u64 option \<Rightarrow> u64 option" where
  "swap_ratio snapshot total_memory_bytes =
     opt_or (map_option percent_of (opt_zip (rs_swap_total_bytes snapshot) (rs_swap_used_bytes snapshot)))
       (map_option percent_of (opt_zip total_memory_bytes (rs_swap_used_bytes snapshot)))"

definition pressure_beyond ::
  "resource_snapshot \<Rightarrow> u64 option \<Rightarrow> u64 \<Rightarrow> u64 \<Rightarrow> u64 \<Rightarrow> bool" where
  "pressure_beyond snapshot ratio memory_floor ratio_ceiling psi_ceiling =
     (is_some_and (rs_memory_available_bytes snapshot) (\<lambda>value. value < memory_floor)
      \<or> is_some_and ratio (\<lambda>value. ratio_ceiling \<le> value)
      \<or> is_some_and (rs_cpu_pressure_micros snapshot) (\<lambda>value. psi_ceiling \<le> value)
      \<or> is_some_and (rs_io_pressure_micros snapshot) (\<lambda>value. psi_ceiling \<le> value))"

definition evaluate_host_pressure :: "resource_snapshot \<Rightarrow> u64 option \<Rightarrow> host_pressure" where
  "evaluate_host_pressure snapshot total_memory_bytes =
     (let ratio = swap_ratio snapshot total_memory_bytes in
      if pressure_beyond snapshot ratio (128 * 1024 * 1024) 90 900000 then Emergency
      else if pressure_beyond snapshot ratio (256 * 1024 * 1024) 75 700000 then Critical
      else if pressure_beyond snapshot ratio (512 * 1024 * 1024) 50 500000 then Pressure
      else if rs_memory_available_bytes snapshot \<noteq> None \<or> rs_load_1m_micros snapshot \<noteq> None
      then Healthy else Unknown)"

record host_pressure_controller =
  hp_state :: host_pressure

definition controller_from_snapshot :: "resource_snapshot \<Rightarrow> host_pressure_controller" where
  "controller_from_snapshot snapshot = \<lparr>hp_state = evaluate_host_pressure snapshot None\<rparr>"

definition allows_new_workload :: "host_pressure_controller \<Rightarrow> bool" where
  "allows_new_workload c = (case hp_state c of
     Healthy \<Rightarrow> True | Pressure \<Rightarrow> True | Unknown \<Rightarrow> True | Critical \<Rightarrow> False | Emergency \<Rightarrow> False)"

definition preserves_sovereign_plane :: "host_pressure_controller \<Rightarrow> bool" where
  "preserves_sovereign_plane c = True"

section \<open>Admission\<close>

definition deny :: "string \<Rightarrow> string \<Rightarrow> lifecycle_state \<Rightarrow> admission_decision" where
  "deny code reason state = \<lparr>ad_admitted = False, ad_lifecycle_state = state,
     ad_reason_code = Some code, ad_reason = reason, ad_intervention_required = True\<rparr>"

definition generation_rolled_back :: "authority_evidence \<Rightarrow> bool" where
  "generation_rolled_back a = (case (ae_expected_generation a, ae_generation a) of
     (Some expected, Some observed) \<Rightarrow> observed < expected | _ \<Rightarrow> False)"

text \<open>The block guarded by \<open>authority.required\<close>: \<open>None\<close> when no branch returns.\<close>

definition authority_denial :: "authority_evidence \<Rightarrow> u64 \<Rightarrow> admission_decision option" where
  "authority_denial a now =
     (if \<not> ae_required a then None
      else if ae_authority_id a = None \<or> ae_key_id a = None \<or> ae_signature_valid a \<noteq> Some True
      then Some (deny ''AUTHORITY_EVIDENCE_MISSING'' ''Runtime authority evidence is incomplete.'' Quarantined)
      else if ae_revoked a
      then Some (deny ''AUTHORITY_REVOKED'' ''Runtime authority is revoked.'' Quarantined)
      else if ae_signature_valid a = Some False
      then Some (deny ''SIGNATURE_INVALID'' ''Runtime authority signature is invalid.'' Quarantined)
      else if generation_rolled_back a
      then Some (deny ''GENERATION_ROLLBACK'' ''Runtime authority generation rolled back.'' Quarantined)
      else if is_some_and (ae_expires_at a) (\<lambda>value. value \<le> now)
           \<or> is_some_and (ae_offline_until a) (\<lambda>value. value \<le> now)
      then Some (deny ''AUTHORITY_LEASE_EXPIRED'' ''Runtime authority lease is expired.'' Quarantined)
      else if is_some_and (ae_not_before a) (\<lambda>value. now < value)
      then Some (deny ''AUTHORITY_NOT_YET_VALID'' ''Runtime authority is not yet valid.'' Blocked)
      else None)"

definition evaluate_runtime_admission :: "admission_context \<Rightarrow> admission_decision" where
  "evaluate_runtime_admission ctx =
     (if ac_host_pressure ctx = Critical \<or> ac_host_pressure ctx = Emergency
      then deny ''HOST_PRESSURE'' ''Host pressure blocks new runtime starts.'' Blocked
      else if \<not> ac_config_valid ctx
      then deny ''CONFIG_INVALID'' ''Runtime configuration is invalid.'' Quarantined
      else if \<not> ac_required_secrets_present ctx
      then deny ''MISSING_SECRET'' ''A required runtime secret is unavailable.'' Quarantined
      else if \<not> ac_mounts_ready ctx
      then deny ''MOUNT_UNAVAILABLE'' ''A required runtime mount is unavailable.'' Blocked
      else if \<not> ac_ports_ready ctx
      then deny ''PORT_UNAVAILABLE'' ''A required runtime port is unavailable.'' Blocked
      else if \<not> ac_dependencies_ready ctx
      then deny ''DEPENDENCY_NOT_READY'' ''A runtime dependency is not ready.'' Blocked
      else (case authority_denial (ac_authority ctx) (ac_now_unix_seconds ctx) of
          Some decision \<Rightarrow> decision
        | None \<Rightarrow>
            if \<not> resources_admit (ac_resources ctx) (ac_resource_policy ctx)
            then deny ''RESOURCE_PRESSURE'' ''Host resources do not satisfy the runtime policy.'' Blocked
            else \<lparr>ad_admitted = True, ad_lifecycle_state = Admitted, ad_reason_code = None,
                   ad_reason = ''Runtime admission passed.'', ad_intervention_required = False\<rparr>))"

section \<open>Leases, watchdog and reconciliation\<close>

record lease_manager =
  lm_lease_expires_at :: "u64 option"
  lm_renew_after :: "u64 option"
  lm_offline_until :: "u64 option"
  lm_last_renewal :: "u64 option"
  lm_renewal_state :: lease_state

definition lease_manager_default :: lease_manager where
  "lease_manager_default = \<lparr>lm_lease_expires_at = None, lm_renew_after = None,
     lm_offline_until = None, lm_last_renewal = None, lm_renewal_state = LeaseUnknown\<rparr>"

text \<open>\<open>[expires_at, offline_until].into_iter().flatten().min()\<close>.\<close>

definition opt_min :: "u64 option \<Rightarrow> u64 option \<Rightarrow> u64 option" where
  "opt_min a b = (case a of None \<Rightarrow> b
     | Some x \<Rightarrow> (case b of None \<Rightarrow> Some x | Some y \<Rightarrow> Some (min x y)))"

definition evaluate_lease ::
  "u64 option \<Rightarrow> u64 option \<Rightarrow> u64 option \<Rightarrow> u64 \<Rightarrow> lease_state" where
  "evaluate_lease expires_at renew_after offline_until now =
     (let expiry = opt_min expires_at offline_until in
      if is_some_and expiry (\<lambda>value. value \<le> now) then Expired
      else if is_some_and renew_after (\<lambda>value. value \<le> now) then RenewalRequired
      else if is_some_and expiry (\<lambda>value. sat_sub value now \<le> 7 * 24 * 60 * 60) then RenewalAvailable
      else if expiry \<noteq> None then Valid else LeaseUnknown)"

record supervisor_watchdog =
  wd_heartbeat_interval_seconds :: u64
  wd_last_heartbeat_at :: "u64 option"

definition watchdog_new :: "u64 \<Rightarrow> supervisor_watchdog" where
  "watchdog_new interval =
     \<lparr>wd_heartbeat_interval_seconds = max interval 5, wd_last_heartbeat_at = None\<rparr>"

definition watchdog_heartbeat :: "supervisor_watchdog \<Rightarrow> u64 \<Rightarrow> supervisor_watchdog" where
  "watchdog_heartbeat w now = w\<lparr>wd_last_heartbeat_at := Some now\<rparr>"

definition watchdog_is_alive :: "supervisor_watchdog \<Rightarrow> u64 \<Rightarrow> bool" where
  "watchdog_is_alive w now = is_some_and (wd_last_heartbeat_at w)
     (\<lambda>last. sat_sub now last \<le> sat_mul (wd_heartbeat_interval_seconds w) 3)"

definition reconcile_runtime_state ::
  "bool \<Rightarrow> observed_state \<Rightarrow> admission_decision \<Rightarrow> circuit_breaker \<Rightarrow> rollout_mode \<Rightarrow> lifecycle_state" where
  "reconcile_runtime_state desired_running current admission circuit mode =
     (if \<not> desired_running then Stopped
      else if mode = Legacy then os_lifecycle_state current
      else if \<not> ad_admitted admission then ad_lifecycle_state admission
      else if cb_state circuit = Open then Quarantined
      else if hs_readiness (os_health current) then Ready
      else if hs_liveness (os_health current) then Running
      else Starting)"

section \<open>Lemmas\<close>

lemma resources_admit_iff:
  "resources_admit s p \<longleftrightarrow>
     \<not> falls_below (rp_memory_hard_bytes p) (rs_memory_available_bytes s)
   \<and> \<not> exceeds (rp_max_swap_used_bytes p) (rs_swap_used_bytes s)
   \<and> \<not> exceeds (rp_max_cpu_pressure_micros p) (rs_cpu_pressure_micros s)
   \<and> \<not> exceeds (rp_max_io_pressure_micros p) (rs_io_pressure_micros s)
   \<and> \<not> falls_below (rp_min_disk_available_bytes p) (rs_disk_available_bytes s)
   \<and> \<not> falls_below (rp_min_inode_available p) (rs_inode_available s)"
  by (simp add: resources_admit_def)

text \<open>When the authority block denies, and what its denials look like.\<close>

definition authority_in_force :: "authority_evidence \<Rightarrow> u64 \<Rightarrow> bool" where
  "authority_in_force a now \<longleftrightarrow> ae_authority_id a \<noteq> None \<and> ae_key_id a \<noteq> None
     \<and> ae_signature_valid a = Some True \<and> \<not> ae_revoked a \<and> \<not> generation_rolled_back a
     \<and> is_none_or (ae_expires_at a) (\<lambda>t. now < t) \<and> is_none_or (ae_offline_until a) (\<lambda>t. now < t)
     \<and> is_none_or (ae_not_before a) (\<lambda>t. t \<le> now)"

lemma authority_denial_None_iff:
  "authority_denial a now = None \<longleftrightarrow> (ae_required a \<longrightarrow> authority_in_force a now)"
  by (auto simp: authority_denial_def authority_in_force_def result_simps not_le not_less)

definition is_denial :: "admission_decision \<Rightarrow> bool" where
  "is_denial d \<longleftrightarrow> \<not> ad_admitted d \<and> ad_lifecycle_state d \<in> {Blocked, Quarantined}
     \<and> ad_reason_code d \<noteq> None \<and> ad_intervention_required d"

lemma is_denial_deny [simp]: "st \<in> {Blocked, Quarantined} \<Longrightarrow> is_denial (deny code reason st)"
  by (simp add: is_denial_def deny_def)

lemma authority_denial_is_denial:
  "authority_denial a now = Some d \<Longrightarrow> is_denial d \<and> ad_reason_code d \<noteq> Some ''SIGNATURE_INVALID''"
  by (auto simp: authority_denial_def deny_def is_denial_def split: if_splits)

lemma lease_expired_iff:
  "evaluate_lease e r off now = Expired \<longleftrightarrow>
     is_some_and e (\<lambda>t. t \<le> now) \<or> is_some_and off (\<lambda>t. t \<le> now)"
  by (cases e; cases off) (auto simp: evaluate_lease_def opt_min_def Let_def min_def)

lemma sat_sub_mono: "a \<le> b \<Longrightarrow> sat_sub v b \<le> sat_sub v a" for a b v :: "'a::len word"
  by (simp add: word_le_nat_alt unat_sat_sub)

lemma sat_mul_mono: "a \<le> b \<Longrightarrow> sat_mul a c \<le> sat_mul b c" for a b c :: "'a::len word"
  by (simp add: word_le_nat_alt unat_sat_mul min_le_iff_disj)

lemma word_div_mono: "a \<le> b \<Longrightarrow> a div c \<le> b div c" for a b c :: u64
  by (simp add: word_le_nat_alt unat_div_distrib div_le_mono)

lemma percent_of_mono: "a \<le> b \<Longrightarrow> percent_of (t, a) \<le> percent_of (t, b)"
  by (simp add: percent_of_def word_div_mono sat_mul_mono)

text \<open>One snapshot is at least as strained as another with the same readings present.\<close>

definition opt_le :: "u64 option \<Rightarrow> u64 option \<Rightarrow> bool" where
  "opt_le a b = (case (a, b) of (Some x, Some y) \<Rightarrow> x \<le> y | (None, None) \<Rightarrow> True | _ \<Rightarrow> False)"

definition more_strained :: "resource_snapshot \<Rightarrow> resource_snapshot \<Rightarrow> bool" where
  "more_strained s t \<longleftrightarrow> opt_le (rs_memory_available_bytes s) (rs_memory_available_bytes t)
     \<and> rs_swap_total_bytes s = rs_swap_total_bytes t
     \<and> opt_le (rs_swap_used_bytes t) (rs_swap_used_bytes s)
     \<and> opt_le (rs_cpu_pressure_micros t) (rs_cpu_pressure_micros s)
     \<and> opt_le (rs_io_pressure_micros t) (rs_io_pressure_micros s)"

fun pressure_rank :: "host_pressure \<Rightarrow> nat" where
  "pressure_rank Healthy = 0"
| "pressure_rank Unknown = 0"
| "pressure_rank Pressure = 1"
| "pressure_rank Critical = 2"
| "pressure_rank Emergency = 3"

lemma opt_le_cases:
  assumes "opt_le a b"
  obtains "a = None" "b = None" | x y where "a = Some x" "b = Some y" "x \<le> y"
  using assms by (cases a; cases b) (auto simp: opt_le_def)

lemma swap_ratio_mono:
  assumes "more_strained s t"
  shows "opt_le (swap_ratio t m) (swap_ratio s m)"
proof -
  from assms have "rs_swap_total_bytes s = rs_swap_total_bytes t"
    and "opt_le (rs_swap_used_bytes t) (rs_swap_used_bytes s)" by (simp_all add: more_strained_def)
  then show ?thesis
    by (cases "rs_swap_total_bytes t"; cases m; elim opt_le_cases)
      (auto simp: swap_ratio_def opt_le_def percent_of_mono)
qed

lemma opt_le_is_some_and:
  "opt_le a b \<Longrightarrow> is_some_and a (\<lambda>v. c \<le> v) \<Longrightarrow> is_some_and b (\<lambda>v. c \<le> v)"
  "opt_le a b \<Longrightarrow> is_some_and b (\<lambda>v. v < c) \<Longrightarrow> is_some_and a (\<lambda>v. v < c)"
  by (auto elim!: opt_le_cases)

lemma pressure_beyond_mono:
  assumes "more_strained s t" "pressure_beyond t (swap_ratio t m) floor ceil psi"
  shows "pressure_beyond s (swap_ratio s m) floor ceil psi"
  using assms swap_ratio_mono [OF assms(1), of m]
  unfolding pressure_beyond_def more_strained_def
  by (blast dest: opt_le_is_some_and)

lemma admission_denied_is_denial:
  "\<not> ad_admitted (evaluate_runtime_admission ctx) \<Longrightarrow> is_denial (evaluate_runtime_admission ctx)"
  using authority_denial_is_denial [of "ac_authority ctx" "ac_now_unix_seconds ctx"]
  by (auto simp: evaluate_runtime_admission_def split: option.splits if_splits)

lemma admission_reason_not_signature_invalid:
  "ad_reason_code (evaluate_runtime_admission ctx) \<noteq> Some ''SIGNATURE_INVALID''"
  using authority_denial_is_denial [of "ac_authority ctx" "ac_now_unix_seconds ctx"]
  by (auto simp: evaluate_runtime_admission_def deny_def split: option.splits)

lemma admission_admitted_iff:
  "ad_admitted (evaluate_runtime_admission ctx) \<longleftrightarrow>
      ac_host_pressure ctx \<notin> {Critical, Emergency} \<and> ac_config_valid ctx
    \<and> ac_required_secrets_present ctx \<and> ac_mounts_ready ctx \<and> ac_ports_ready ctx
    \<and> ac_dependencies_ready ctx
    \<and> authority_denial (ac_authority ctx) (ac_now_unix_seconds ctx) = None
    \<and> resources_admit (ac_resources ctx) (ac_resource_policy ctx)"
  using authority_denial_is_denial [of "ac_authority ctx" "ac_now_unix_seconds ctx"]
  by (auto simp: evaluate_runtime_admission_def deny_def is_denial_def split: option.splits)

lemma reconcile_denied:
  "mode \<noteq> Legacy \<Longrightarrow> is_denial admission \<Longrightarrow> desired \<Longrightarrow>
   reconcile_runtime_state desired current admission circuit mode \<in> {Blocked, Quarantined}"
  by (auto simp: reconcile_runtime_state_def is_denial_def)

text \<open>
  The refusals of admission in their order of precedence, each with the condition under which
  it applies, its reason code and the state it puts the runtime in. The conditions say what
  is wrong on its own, not what the checks before them have established: the first that holds
  decides.
\<close>

definition authority_refusals :: "authority_evidence \<Rightarrow> u64 \<Rightarrow> (bool \<times> string \<times> lifecycle_state) list" where
  "authority_refusals a now =
     [(ae_required a \<and> (ae_authority_id a = None \<or> ae_key_id a = None \<or> ae_signature_valid a \<noteq> Some True),
        ''AUTHORITY_EVIDENCE_MISSING'', Quarantined),
      (ae_required a \<and> ae_revoked a, ''AUTHORITY_REVOKED'', Quarantined),
      (ae_required a \<and> generation_rolled_back a, ''GENERATION_ROLLBACK'', Quarantined),
      (ae_required a \<and> \<not> (is_none_or (ae_expires_at a) (\<lambda>t. now < t)
                            \<and> is_none_or (ae_offline_until a) (\<lambda>t. now < t)),
        ''AUTHORITY_LEASE_EXPIRED'', Quarantined),
      (ae_required a \<and> \<not> is_none_or (ae_not_before a) (\<lambda>t. t \<le> now),
        ''AUTHORITY_NOT_YET_VALID'', Blocked)]"

definition admission_refusals :: "admission_context \<Rightarrow> (bool \<times> string \<times> lifecycle_state) list" where
  "admission_refusals ctx =
     [(ac_host_pressure ctx \<in> {Critical, Emergency}, ''HOST_PRESSURE'', Blocked),
      (\<not> ac_config_valid ctx, ''CONFIG_INVALID'', Quarantined),
      (\<not> ac_required_secrets_present ctx, ''MISSING_SECRET'', Quarantined),
      (\<not> ac_mounts_ready ctx, ''MOUNT_UNAVAILABLE'', Blocked),
      (\<not> ac_ports_ready ctx, ''PORT_UNAVAILABLE'', Blocked),
      (\<not> ac_dependencies_ready ctx, ''DEPENDENCY_NOT_READY'', Blocked)]
     @ authority_refusals (ac_authority ctx) (ac_now_unix_seconds ctx)
     @ [(\<not> resources_admit (ac_resources ctx) (ac_resource_policy ctx), ''RESOURCE_PRESSURE'', Blocked)]"

definition refuses_with :: "admission_decision \<Rightarrow> bool \<times> string \<times> lifecycle_state \<Rightarrow> bool" where
  "refuses_with d r \<longleftrightarrow> \<not> ad_admitted d \<and> ad_reason_code d = Some (fst (snd r))
     \<and> ad_lifecycle_state d = snd (snd r) \<and> ad_intervention_required d"

lemma refuses_with_deny [simp]: "refuses_with (deny code reason st) (b, code', st') \<longleftrightarrow> code = code' \<and> st = st'"
  by (simp add: refuses_with_def deny_def)

lemma authority_denial_first:
  "case authority_denial a now of
     None \<Rightarrow> find fst (authority_refusals a now) = None
   | Some d \<Rightarrow> (case find fst (authority_refusals a now) of None \<Rightarrow> False | Some r \<Rightarrow> refuses_with d r)"
  by (simp add: authority_denial_def authority_refusals_def result_simps not_le not_less)

lemma admission_refused_first:
  "case find fst (admission_refusals ctx) of
     None \<Rightarrow> ad_admitted (evaluate_runtime_admission ctx)
       \<and> ad_lifecycle_state (evaluate_runtime_admission ctx) = Admitted
       \<and> ad_reason_code (evaluate_runtime_admission ctx) = None
       \<and> \<not> ad_intervention_required (evaluate_runtime_admission ctx)
   | Some (_, code, state) \<Rightarrow> \<not> ad_admitted (evaluate_runtime_admission ctx)
       \<and> ad_reason_code (evaluate_runtime_admission ctx) = Some code
       \<and> ad_lifecycle_state (evaluate_runtime_admission ctx) = state
       \<and> ad_intervention_required (evaluate_runtime_admission ctx)"
  using authority_denial_first [of "ac_authority ctx" "ac_now_unix_seconds ctx"]
  by (simp add: evaluate_runtime_admission_def admission_refusals_def find_append deny_def
        refuses_with_def split: option.splits prod.splits)

fun lease_rank :: "lease_state \<Rightarrow> nat" where
  "lease_rank LeaseUnknown = 0"
| "lease_rank Valid = 0"
| "lease_rank RenewalAvailable = 1"
| "lease_rank RenewalRequired = 2"
| "lease_rank Expired = 3"
| "lease_rank LeaseCritical = 4"

section \<open>Properties\<close>

text \<open>
  C2. Admission is sound, complete and fail closed, and every refusal is the one of the first
  check that fails. A runtime is admitted exactly when the host is not under critical
  pressure, its configuration, secrets, mounts, ports and dependencies are there, a required
  authority is in force (identified, signed, unrevoked, not rolled back, inside its validity
  window) and the resource policy holds; it then is in the state \<open>Admitted\<close>, with no reason
  code and nothing to intervene on. Otherwise the decision carries the reason code and the
  lifecycle state of the first entry of \<open>admission_refusals\<close> that applies, and asks for
  intervention: for instance a revoked authority quarantines the runtime with
  \<open>AUTHORITY_REVOKED\<close> whatever its lease and the resources are, and a lease that is not yet
  valid blocks it with \<open>AUTHORITY_NOT_YET_VALID\<close> only if it has not expired either. The code
  \<open>SIGNATURE_INVALID\<close> is never produced: the evidence check before it already catches an
  invalid signature. The circuit breaker plays no part in this gate.
\<close>

theorem admission_characterised:
  "(ad_admitted (evaluate_runtime_admission ctx) \<longleftrightarrow>
      ac_host_pressure ctx \<notin> {Critical, Emergency} \<and> ac_config_valid ctx
    \<and> ac_required_secrets_present ctx \<and> ac_mounts_ready ctx \<and> ac_ports_ready ctx
    \<and> ac_dependencies_ready ctx
    \<and> (if ae_required (ac_authority ctx)
        then authority_in_force (ac_authority ctx) (ac_now_unix_seconds ctx) else True)
    \<and> resources_admit (ac_resources ctx) (ac_resource_policy ctx))
   \<and> (case find fst (admission_refusals ctx) of
        None \<Rightarrow> ad_admitted (evaluate_runtime_admission ctx)
          \<and> ad_lifecycle_state (evaluate_runtime_admission ctx) = Admitted
          \<and> ad_reason_code (evaluate_runtime_admission ctx) = None
          \<and> \<not> ad_intervention_required (evaluate_runtime_admission ctx)
      | Some (_, code, state) \<Rightarrow> \<not> ad_admitted (evaluate_runtime_admission ctx)
          \<and> ad_reason_code (evaluate_runtime_admission ctx) = Some code
          \<and> ad_lifecycle_state (evaluate_runtime_admission ctx) = state
          \<and> ad_intervention_required (evaluate_runtime_admission ctx))
   \<and> (ad_admitted (evaluate_runtime_admission ctx) \<or> is_denial (evaluate_runtime_admission ctx))
   \<and> ad_reason_code (evaluate_runtime_admission ctx) \<noteq> Some ''SIGNATURE_INVALID''"
  using admission_denied_is_denial admission_reason_not_signature_invalid
    admission_refused_first [of ctx]
  by (auto simp: admission_admitted_iff authority_denial_None_iff)

text \<open>
  Outside \<open>LEGACY\<close>, reconciliation only yields a starting, running or ready state when
  the runtime is wanted, its admission passed and its circuit is not open.
\<close>

theorem reconcile_never_starts_denied:
  assumes "mode \<noteq> Legacy"
    and "reconcile_runtime_state desired current (evaluate_runtime_admission ctx) circuit mode
           \<in> {Starting, Running, Ready}"
  shows "desired \<and> ad_admitted (evaluate_runtime_admission ctx) \<and> cb_state circuit \<noteq> Open"
proof -
  have d: "desired" using assms(2) by (cases desired) (simp_all add: reconcile_runtime_state_def)
  moreover have adm: "ad_admitted (evaluate_runtime_admission ctx)"
  proof (rule ccontr)
    assume "\<not> ?thesis"
    from reconcile_denied [OF assms(1) admission_denied_is_denial [OF this] d, of current circuit]
    show False using assms(2) by auto
  qed
  moreover have "cb_state circuit \<noteq> Open"
    using assms adm d by (auto simp: reconcile_runtime_state_def)
  ultimately show ?thesis by simp
qed

definition admission_example :: "authority_evidence \<Rightarrow> u64 \<Rightarrow> admission_context" where
  "admission_example authority now =
     \<lparr>ac_identity = \<lparr>ri_organization = ''org'', ri_product = ''p'', ri_site = ''s'', ri_host = ''h'',
        ri_node = ''n'', ri_capability = ''site-core'', ri_runtime_instance = ''r''\<rparr>,
      ac_authority = authority, ac_config_valid = True, ac_required_secrets_present = True,
      ac_mounts_ready = True, ac_ports_ready = True, ac_dependencies_ready = True,
      ac_resources = resource_snapshot_default, ac_resource_policy = resource_policy_default,
      ac_host_pressure = Healthy, ac_now_unix_seconds = now\<rparr>"

definition observed_example :: observed_state where
  "observed_example = \<lparr>os_lifecycle_state = Degraded,
     os_health = health_signals_default\<lparr>hs_liveness := True, hs_readiness := True\<rparr>,
     os_last_observed_at = 1, os_failure = None\<rparr>"

theorem reconcile_never_starts_denied_witness:
  "ad_admitted (evaluate_runtime_admission (admission_example authority_evidence_default 11))"
proof -
  have "reconcile_runtime_state True observed_example
      (evaluate_runtime_admission (admission_example authority_evidence_default 11))
      circuit_breaker_default Managed \<in> {Starting, Running, Ready}"
    by code_simp
  from reconcile_never_starts_denied [OF _ this] show ?thesis by simp
qed

text \<open>
  Leases only move forward: as time passes the state of a lease never gets better, an
  expired lease denies admission to a runtime whose authority is required, and the state
  \<open>Critical\<close> of the source's enumeration is never computed.
\<close>

theorem lease_progress:
  assumes "now \<le> later"
  shows "lease_rank (evaluate_lease e r off now) \<le> lease_rank (evaluate_lease e r off later)
    \<and> evaluate_lease e r off now \<noteq> LeaseCritical
    \<and> (evaluate_lease e r off now = Expired \<longrightarrow> ae_required a \<longrightarrow> ae_expires_at a = e \<longrightarrow>
        ae_offline_until a = off \<longrightarrow> ac_authority ctx = a \<longrightarrow> ac_now_unix_seconds ctx = later \<longrightarrow>
        \<not> ad_admitted (evaluate_runtime_admission ctx))"
proof (intro conjI impI)
  have le: "is_some_and x (\<lambda>v. v \<le> later)" if "is_some_and x (\<lambda>v. v \<le> now)" for x
    using that assms by (auto simp: result_simps)
  have sub: "is_some_and x (\<lambda>v. sat_sub v later \<le> c)"
    if "is_some_and x (\<lambda>v. sat_sub v now \<le> c)" for x c
    using that order_trans [OF sat_sub_mono [OF assms]] by (auto simp: result_simps)
  show "lease_rank (evaluate_lease e r off now) \<le> lease_rank (evaluate_lease e r off later)"
    using le [of "opt_min e off"] le [of r] sub [of "opt_min e off"]
    by (simp add: evaluate_lease_def Let_def)
  show "evaluate_lease e r off now \<noteq> LeaseCritical"
    by (simp add: evaluate_lease_def Let_def)
  assume "evaluate_lease e r off now = Expired" and a: "ae_required a" "ae_expires_at a = e"
    "ae_offline_until a = off" "ac_authority ctx = a" "ac_now_unix_seconds ctx = later"
  then have "is_some_and e (\<lambda>t. t \<le> later) \<or> is_some_and off (\<lambda>t. t \<le> later)"
    using le [of e] le [of off] by (auto simp: lease_expired_iff)
  then show "\<not> ad_admitted (evaluate_runtime_admission ctx)"
    using a by (auto simp: admission_admitted_iff authority_denial_None_iff authority_in_force_def
        result_simps)
qed

definition expired_authority :: authority_evidence where
  "expired_authority = authority_evidence_default\<lparr>ae_required := True, ae_authority_id := Some ''a'',
     ae_key_id := Some ''k'', ae_signature_valid := Some True, ae_expires_at := Some 10\<rparr>"

theorem lease_progress_witness:
  "\<not> ad_admitted (evaluate_runtime_admission (admission_example expired_authority 11))"
  using lease_progress [of 10 11 "Some 10" None None expired_authority
      "admission_example expired_authority 11"]
  by (simp add: expired_authority_def admission_example_def authority_evidence_default_def
      lease_expired_iff)

text \<open>
  Host pressure is monotone: when no reading improves, the computed pressure does not
  drop; in particular a host that blocks new workloads keeps blocking them until some
  reading improves.
\<close>

theorem host_pressure_monotone:
  assumes "more_strained s t"
  shows "pressure_rank (evaluate_host_pressure t m) \<le> pressure_rank (evaluate_host_pressure s m)
    \<and> (allows_new_workload (controller_from_snapshot s) \<longrightarrow>
         allows_new_workload (controller_from_snapshot t))"
proof -
  have mono: "pressure_rank (evaluate_host_pressure t m) \<le> pressure_rank (evaluate_host_pressure s m)"
    for m using pressure_beyond_mono [OF assms]
    by (auto simp: evaluate_host_pressure_def Let_def)
  moreover have "allows_new_workload (controller_from_snapshot u)
      \<longleftrightarrow> pressure_rank (evaluate_host_pressure u None) < 2" for u
    by (cases "evaluate_host_pressure u None")
      (simp_all add: allows_new_workload_def controller_from_snapshot_def)
  ultimately show ?thesis using le_less_trans [OF mono [of None]] by auto
qed

theorem host_pressure_monotone_witness:
  "pressure_rank (evaluate_host_pressure
      (resource_snapshot_default\<lparr>rs_memory_available_bytes := Some 300000000\<rparr>) None)
   \<le> pressure_rank (evaluate_host_pressure
      (resource_snapshot_default\<lparr>rs_memory_available_bytes := Some 200000000\<rparr>) None)"
  by (rule host_pressure_monotone [THEN conjunct1])
    (simp add: more_strained_def opt_le_def resource_snapshot_default_def)

text \<open>
  The watchdog is alive for exactly three intervals after its last heartbeat, with an
  interval of at least five seconds, and never before the first one.
\<close>

theorem watchdog_liveness:
  "\<not> watchdog_is_alive (watchdog_new i) now
   \<and> (watchdog_is_alive (watchdog_heartbeat (watchdog_new i) beat) now \<longleftrightarrow>
        unat now - unat beat \<le> min (3 * max (unat i) 5) (2 ^ 64 - 1))"
proof -
  have "unat (max i 5) = max (unat i) 5"
    by (auto simp: max_def word_le_nat_alt)
  then show ?thesis
    by (simp add: watchdog_is_alive_def watchdog_new_def watchdog_heartbeat_def word_le_nat_alt
        unat_sat_sub unat_sat_mul mult.commute)
qed

end
