(* ===== verification/Topology.thy ===== *)
theory Topology
  imports Rust_Prelude
begin

text \<open>
  The runtime topology of a deployment, \<^verbatim>\<open>actium-node-core/src/topology.rs\<close>: which runtime
  units a deployment has, their names, dependencies, start-up gates and resource budgets.

  The \<^verbatim>\<open>uuid\<close> and \<^verbatim>\<open>sha2\<close> crates are parameters (record \<open>ids\<close>): \<open>uuid_parse\<close> is
  \<open>Uuid::parse_str\<close> followed by \<open>to_string\<close>, \<open>uuid_v5\<close> the version 5 identifier of a name in
  the fixed runtime unit namespace as text, \<open>sha256\<close> the digest of a byte string.
\<close>

section \<open>Data\<close>

record ids =
  uuid_parse :: "string \<Rightarrow> string option"
  uuid_v5 :: "string \<Rightarrow> string"
  sha256 :: "string \<Rightarrow> string"

record fabric_identity =
  fi_fabric_id :: string
  fi_compose_project :: string
  fi_network_name :: string
  fi_host_id :: "string option"

datatype startup_cohort = Bootstrap | RuntimeCohort

datatype startup_gate = SiteCoreAlive | AgentReporting | SteadyReady

record unit_binding =
  ub_secrets_directory :: string
  ub_database_role :: "string option"
  ub_database_schema :: "string option"
  ub_nats_account :: "string option"
  ub_nats_user :: "string option"
  ub_nats_subject_prefix :: "string option"
  ub_storage_buckets :: "string list"

record resource_budget_t =
  rb_cpus :: string
  rb_memory_limit :: string
  rb_memory_reservation :: string
  rb_pids_limit :: u32
  rb_log_max_size :: string
  rb_log_max_files :: u8

record runtime_unit =
  ru_runtime_unit_id :: string
  ru_capability :: string
  ru_compose_project :: string
  ru_compose_file :: string
  ru_depends_on :: "string list"
  ru_startup_cohort :: startup_cohort
  ru_startup_gate :: startup_gate
  ru_binding :: unit_binding
  ru_resources :: resource_budget_t

record runtime_topology =
  rt_schema :: u8
  rt_host_installation_id :: string
  rt_host_id :: "string option"
  rt_deployment_id :: string
  rt_deployment_code :: string
  rt_deployment_network_name :: string
  rt_fabric :: fabric_identity
  rt_units :: "runtime_unit list"

record runtime_unit_health =
  uh_runtime_unit_id :: string
  uh_capability :: string
  uh_compose_project :: string
  uh_state :: string
  uh_commissioned :: bool
  uh_total_services :: nat
  uh_alive_services :: nat
  uh_ready_services :: nat
  uh_failures :: "string list"

section \<open>Operations\<close>

definition short_hash :: "ids \<Rightarrow> string \<Rightarrow> string" where
  "short_hash ids value = hex_bytes (take 10 (sha256 ids value))"

definition require_uuid :: "ids \<Rightarrow> string \<Rightarrow> string \<Rightarrow> string + string" where
  "require_uuid ids value field = (case uuid_parse ids (trim value) of
     Some u \<Rightarrow> Inr u | None \<Rightarrow> Inl (field @ '' debe ser UUID.''))"

definition validate_project :: "string \<Rightarrow> string \<Rightarrow> string \<Rightarrow> string + unit" where
  "validate_project value0 field project_prefix =
     (let value = trim value0 in
      if value = [] \<or> 63 < length value \<or> \<not> prefix project_prefix value
         \<or> list_ex (\<lambda>b. \<not> (is_ascii_lower b \<or> is_ascii_digit b \<or> b = CHR ''-'')) value
      then Inl (field @ '' no pertenece al namespace '' @ project_prefix @ ''.'')
      else Inr ())"

definition channel_project_prefix :: "string \<Rightarrow> string + string" where
  "channel_project_prefix channel =
     (if trim channel = ''lab'' then Inr ''actium-lab-''
      else if trim channel = ''stable'' then Inr ''actium-node-''
      else Inl ''manager_channel debe ser lab o stable.'')"

definition startup_cohort_of :: "string \<Rightarrow> startup_cohort" where
  "startup_cohort_of capability =
     (if capability \<in> {''site-core'', ''agent''} then Bootstrap else RuntimeCohort)"

definition startup_gate_of :: "string \<Rightarrow> startup_gate" where
  "startup_gate_of capability =
     (if capability = ''site-core'' then SiteCoreAlive
      else if capability = ''agent'' then AgentReporting else SteadyReady)"

definition normalize_capability :: "string \<Rightarrow> string + string" where
  "normalize_capability profile =
     (let value = trim profile in
      if value \<in> {''site-core'', ''telemetry'', ''people'', ''control'', ''radio-control'',
                  ''radio-saf'', ''connectivity'', ''observability''} then Inr value
      else if value = ''radio-turn'' then Inr ''turn''
      else if value = ''radio-livekit'' then Inr ''livekit''
      else Inl (''Perfil sin runtime unit en schema 1: '' @ value @ ''.''))"

definition known_capabilities :: "string list" where
  "known_capabilities = [''site-core'', ''agent'', ''telemetry'', ''people'', ''control'', ''turn'',
     ''livekit'', ''radio-control'', ''radio-saf'', ''connectivity'', ''observability'']"

definition compose_file :: "string \<Rightarrow> string + string" where
  "compose_file capability =
     (if capability \<in> set known_capabilities then Inr (''compose.'' @ capability @ ''.yml'')
      else Inl (''Capability sin Compose: '' @ capability @ ''.''))"

definition capability_rank :: "string \<Rightarrow> nat" where
  "capability_rank capability =
     (if capability = ''site-core'' then 0
      else if capability = ''agent'' then 1
      else if capability = ''telemetry'' then 2
      else if capability = ''people'' then 3
      else if capability = ''control'' then 4
      else if capability = ''turn'' then 5
      else if capability = ''livekit'' then 6
      else if capability = ''radio-control'' then 7
      else if capability = ''radio-saf'' then 8
      else if capability = ''connectivity'' then 9
      else if capability = ''observability'' then 10
      else 2 ^ 64 - 1)"

text \<open>
  \<open>chars().map(..).collect()\<close> on UTF-8 bytes: one output character per character, so the
  continuation bytes of a multi-byte character give nothing.
\<close>

definition is_utf8_continuation :: "char \<Rightarrow> bool" where
  "is_utf8_continuation c = (let n = (of_char c :: nat) in 0x80 \<le> n \<and> n \<le> 0xBF)"

definition dns_sanitize :: "string \<Rightarrow> string" where
  "dns_sanitize s = concat (map (\<lambda>c. if is_utf8_continuation c then []
     else if is_ascii_alphanumeric c then [c] else ''-'') s)"

definition trim_dashes :: "string \<Rightarrow> string" where
  "trim_dashes s = rev (dropWhile (\<lambda>c. c = CHR ''-'') (rev (dropWhile (\<lambda>c. c = CHR ''-'') s)))"

definition project_base_max_len :: nat where
  "project_base_max_len = 38"

definition project_name :: "string \<Rightarrow> string \<Rightarrow> string \<Rightarrow> string \<Rightarrow> string" where
  "project_name deployment_code capability token project_prefix =
     (let base = trim_dashes (dns_sanitize (to_ascii_lowercase (trim deployment_code)))
                   @ ''-'' @ capability;
          project0 = trim_dashes base;
          project1 = (if prefix project_prefix project0 then project0 else project_prefix @ project0);
          project2 = (if project_base_max_len < length project1
                      then trim_dashes (take project_base_max_len project1) else project1)
      in project2 @ ''-'' @ take 8 token)"

definition path_join :: "string \<Rightarrow> string \<Rightarrow> string" where
  "path_join a b = (if prefix ''/'' b then b
     else if a = [] \<or> last a = CHR ''/'' then a @ b else a @ ''/'' @ b)"

definition binding_for :: "string \<Rightarrow> string \<Rightarrow> string \<Rightarrow> string \<Rightarrow> unit_binding" where
  "binding_for node_root runtime_unit_id capability token =
     (let data_bound = capability \<in> {''site-core'', ''telemetry'', ''people'', ''control'',
                                     ''radio-control'', ''radio-saf''};
          nats_bound = capability \<in> {''telemetry'', ''radio-control'', ''radio-saf''}
      in \<lparr>ub_secrets_directory =
            map (\<lambda>c. if c = CHR 0x5C then CHR ''/'' else c)
              (path_join (path_join node_root ''secrets/runtime-units'') runtime_unit_id),
          ub_database_role = (if data_bound then Some (''u_'' @ token) else None),
          ub_database_schema = (if data_bound then Some (''unit_'' @ token) else None),
          ub_nats_account = (if nats_bound then Some (''A_'' @ to_ascii_uppercase token) else None),
          ub_nats_user = (if nats_bound then Some (''n_'' @ token) else None),
          ub_nats_subject_prefix = (if nats_bound then Some (''actium.unit.'' @ token) else None),
          ub_storage_buckets =
            (if capability = ''radio-saf'' then [''radio-saf-'' @ token]
             else if capability = ''control'' then [''aegis-control-evidence''] else [])\<rparr>)"

definition budget_row :: "string \<Rightarrow> string \<times> string \<times> string \<times> u32" where
  "budget_row capability =
     (if capability = ''agent'' then (''0.25'', ''192m'', ''64m'', 128)
      else if capability = ''site-core'' then (''0.50'', ''512m'', ''128m'', 256)
      else if capability = ''telemetry'' then (''1.00'', ''1024m'', ''256m'', 384)
      else if capability = ''people'' then (''0.50'', ''512m'', ''128m'', 192)
      else if capability = ''control'' then (''1.00'', ''1024m'', ''256m'', 384)
      else if capability = ''connectivity'' then (''0.25'', ''256m'', ''64m'', 128)
      else if capability = ''observability'' then (''0.75'', ''1024m'', ''256m'', 384)
      else if capability = ''radio-control'' then (''0.50'', ''512m'', ''128m'', 256)
      else if capability = ''radio-saf'' then (''0.75'', ''1024m'', ''256m'', 384)
      else if capability = ''turn'' then (''0.50'', ''384m'', ''64m'', 256)
      else if capability = ''livekit'' then (''1.50'', ''1536m'', ''384m'', 512)
      else (''0.25'', ''256m'', ''64m'', 128))"

definition resource_budget :: "string \<Rightarrow> resource_budget_t" where
  "resource_budget capability =
     (case budget_row capability of (cpus, memory_limit, memory_reservation, pids_limit) \<Rightarrow>
       \<lparr>rb_cpus = cpus, rb_memory_limit = memory_limit, rb_memory_reservation = memory_reservation,
        rb_pids_limit = pids_limit, rb_log_max_size = ''10m'', rb_log_max_files = 3\<rparr>)"

text \<open>The loop over the profiles: normalise each, keep the first occurrence.\<close>

fun collect_capabilities :: "string list \<Rightarrow> string list \<Rightarrow> string + string list" where
  "collect_capabilities capabilities [] = Inr capabilities"
| "collect_capabilities capabilities (profile # profiles) =
     res_bind (normalize_capability profile) (\<lambda>capability.
       collect_capabilities
         (if capability \<in> set capabilities then capabilities else capabilities @ [capability])
         profiles)"

definition build_unit ::
  "ids \<Rightarrow> string \<Rightarrow> string \<Rightarrow> string \<Rightarrow> string \<Rightarrow> string \<Rightarrow> string + runtime_unit" where
  "build_unit ids deployment_uuid deployment_code project_prefix node_root capability =
     (let runtime_unit_id = uuid_v5 ids (deployment_uuid @ '':'' @ capability);
          token = short_hash ids runtime_unit_id;
          compose_project = project_name deployment_code capability token project_prefix;
          binding = binding_for node_root runtime_unit_id capability token
      in res_bind (compose_file capability) (\<lambda>file. Inr
        \<lparr>ru_runtime_unit_id = runtime_unit_id, ru_capability = capability,
         ru_compose_project = compose_project, ru_compose_file = file, ru_depends_on = [],
         ru_startup_cohort = startup_cohort_of capability,
         ru_startup_gate = startup_gate_of capability,
         ru_binding = binding, ru_resources = resource_budget capability\<rparr>))"

definition id_for :: "runtime_unit list \<Rightarrow> string \<Rightarrow> string option" where
  "id_for units capability =
     map_option ru_runtime_unit_id (find (\<lambda>u. ru_capability u = capability) units)"

definition opt_to_list :: "'a option \<Rightarrow> 'a list" where
  "opt_to_list x = (case x of None \<Rightarrow> [] | Some v \<Rightarrow> [v])"

definition link_unit ::
  "string option \<Rightarrow> string option \<Rightarrow> string option \<Rightarrow> runtime_unit \<Rightarrow> string + runtime_unit" where
  "link_unit telemetry_id turn_id livekit_id unit =
     res_bind
       (if ru_capability unit = ''connectivity'' then
          (case telemetry_id of
             None \<Rightarrow> Inl ''Connectivity requiere una runtime unit Telemetry en el mismo deployment.''
           | Some dependency \<Rightarrow> Inr (unit\<lparr>ru_depends_on := ru_depends_on unit @ [dependency]\<rparr>))
        else Inr unit)
       (\<lambda>unit1. Inr
         (if ru_capability unit1 = ''radio-control''
          then unit1\<lparr>ru_depends_on := ru_depends_on unit1 @ opt_to_list turn_id @ opt_to_list livekit_id\<rparr>
          else unit1))"

definition gate_matches_cohort :: "runtime_unit \<Rightarrow> bool" where
  "gate_matches_cohort u = (case (ru_startup_cohort u, ru_startup_gate u) of
     (Bootstrap, SiteCoreAlive) \<Rightarrow> True | (Bootstrap, AgentReporting) \<Rightarrow> True
   | (RuntimeCohort, SteadyReady) \<Rightarrow> True | _ \<Rightarrow> False)"

fun validate_unit_list :: "string set \<Rightarrow> runtime_unit list \<Rightarrow> string + unit" where
  "validate_unit_list ids [] = Inr ()"
| "validate_unit_list ids (u # us) =
     (if \<not> gate_matches_cohort u
      then Inl (''La runtime unit '' @ ru_runtime_unit_id u
             @ '' declara una cohorte y gate contradictorios.'')
      else if \<not> list_all (\<lambda>d. d \<in> ids) (ru_depends_on u)
      then Inl (''La runtime unit '' @ ru_runtime_unit_id u
             @ '' depende de una identidad inexistente.'')
      else validate_unit_list ids us)"

definition validate_topology_units :: "runtime_unit list \<Rightarrow> string + unit" where
  "validate_topology_units units =
     (let ids = set (map ru_runtime_unit_id units);
          projects = set (map ru_compose_project units)
      in if card ids \<noteq> length units \<or> card projects \<noteq> length units
         then Inl ''La topologia genero identidades o proyectos duplicados.''
         else validate_unit_list ids units)"

definition materialize_for_channel ::
  "ids \<Rightarrow> string \<Rightarrow> string \<Rightarrow> string \<Rightarrow> string \<Rightarrow> string list \<Rightarrow> fabric_identity \<Rightarrow> string
     \<Rightarrow> string + runtime_topology" where
  "materialize_for_channel ids manager_channel host_installation_id deployment_id deployment_code
       profiles fabric node_root =
     res_bind (channel_project_prefix manager_channel) (\<lambda>project_prefix.
     res_bind (require_uuid ids host_installation_id ''host_installation_id'') (\<lambda>_.
     res_bind (require_uuid ids deployment_id ''deployment_id'') (\<lambda>deployment_uuid.
     res_bind (require_uuid ids (fi_fabric_id fabric) ''fabric_id'') (\<lambda>_.
     res_bind (validate_project (fi_compose_project fabric) ''proyecto Fabric'' project_prefix) (\<lambda>_.
     res_bind (validate_project (fi_network_name fabric) ''red Fabric'' project_prefix) (\<lambda>_.
     let deployment_network_name =
       project_name deployment_code ''local'' (short_hash ids deployment_uuid) project_prefix in
     res_bind (validate_project deployment_network_name ''red local del deployment'' project_prefix) (\<lambda>_.
     res_bind (collect_capabilities [''agent''] profiles) (\<lambda>capabilities.
     res_bind (res_map (build_unit ids deployment_uuid deployment_code project_prefix node_root)
         (sort_key capability_rank capabilities)) (\<lambda>units.
     res_bind (res_map (link_unit (id_for units ''telemetry'') (id_for units ''turn'')
         (id_for units ''livekit'')) units) (\<lambda>linked.
     res_bind (validate_topology_units linked) (\<lambda>_. Inr
       \<lparr>rt_schema = 3, rt_host_installation_id = host_installation_id,
        rt_host_id = fi_host_id fabric, rt_deployment_id = deployment_id,
        rt_deployment_code = deployment_code,
        rt_deployment_network_name = deployment_network_name,
        rt_fabric = fabric, rt_units = linked\<rparr>)))))))))))"

definition materialize ::
  "ids \<Rightarrow> string \<Rightarrow> string \<Rightarrow> string \<Rightarrow> string list \<Rightarrow> fabric_identity \<Rightarrow> string
     \<Rightarrow> string + runtime_topology" where
  "materialize ids = materialize_for_channel ids ''lab''"

definition topology_unit :: "runtime_topology \<Rightarrow> string \<Rightarrow> string + runtime_unit" where
  "topology_unit t runtime_unit_id =
     (case find (\<lambda>u. ru_runtime_unit_id u = runtime_unit_id) (rt_units t) of
        Some u \<Rightarrow> Inr u
      | None \<Rightarrow> Inl (''Runtime unit no administrada: '' @ runtime_unit_id @ ''.''))"

text \<open>\<open>&mut self\<close>: the topology afterwards and the result.\<close>

definition bind_host_id ::
  "ids \<Rightarrow> runtime_topology \<Rightarrow> string \<Rightarrow> runtime_topology \<times> (string + bool)" where
  "bind_host_id ids t host_id =
     (case require_uuid ids host_id ''host_id'' of
        Inl e \<Rightarrow> (t, Inl e)
      | Inr _ \<Rightarrow>
         (case rt_host_id t of
            Some current \<Rightarrow>
              if current \<noteq> host_id
              then (t, Inl (''El deployment ya esta ligado al host autoritativo '' @ current
                        @ ''; se rechazo '' @ host_id @ ''.''))
              else (t, Inr False)
          | None \<Rightarrow>
              (case fi_host_id (rt_fabric t) of
                 Some current \<Rightarrow>
                   if current \<noteq> host_id
                   then (t, Inl (''Fabric pertenece al host autoritativo '' @ current
                             @ ''; se rechazo '' @ host_id @ ''.''))
                   else (t\<lparr>rt_host_id := Some host_id,
                          rt_fabric := (rt_fabric t)\<lparr>fi_host_id := Some host_id\<rparr>\<rparr>, Inr True)
               | None \<Rightarrow>
                   (t\<lparr>rt_host_id := Some host_id,
                      rt_fabric := (rt_fabric t)\<lparr>fi_host_id := Some host_id\<rparr>\<rparr>, Inr True))))"

section \<open>Names\<close>

definition dns_char :: "char \<Rightarrow> bool" where
  "dns_char b \<longleftrightarrow> is_ascii_lower b \<or> is_ascii_digit b \<or> b = CHR ''-''"

lemma length_trim_dashes: "length (trim_dashes s) \<le> length s"
  using length_dropWhile_le [of "\<lambda>c. c = CHR ''-''" s]
    length_dropWhile_le [of "\<lambda>c. c = CHR ''-''" "rev (dropWhile (\<lambda>c. c = CHR ''-'') s)"]
  by (simp add: trim_dashes_def)

lemma set_trim_dashes: "set (trim_dashes s) \<subseteq> set s"
  by (auto simp: trim_dashes_def dest!: set_dropWhileD)

text \<open>The name without its token suffix, and the shape of every project name.\<close>

definition project_core :: "string \<Rightarrow> string" where
  "project_core p = (if 38 < length p then trim_dashes (take 38 p) else p)"

definition project_stem :: "string \<Rightarrow> string \<Rightarrow> string" where
  "project_stem code capability =
     trim_dashes (trim_dashes (dns_sanitize (to_ascii_lowercase (trim code))) @ ''-'' @ capability)"

definition in_namespace :: "string \<Rightarrow> string \<Rightarrow> string" where
  "in_namespace pre stem = (if prefix pre stem then stem else pre @ stem)"

lemma project_name_shape:
  "project_name code capability token pre =
     project_core (in_namespace pre (project_stem code capability)) @ ''-'' @ take 8 token"
  by (simp add: project_name_def project_core_def project_stem_def in_namespace_def
      project_base_max_len_def Let_def)

lemma length_project_core: "length (project_core p) \<le> 38"
  using length_trim_dashes [of "take 38 p"] by (simp add: project_core_def)

lemma project_name_length: "length (project_name code capability token pre) \<le> 47"
  using length_project_core [of "in_namespace pre (project_stem code capability)"]
  by (simp add: project_name_shape)

lemma lower_char_not_upper: "\<not> is_ascii_upper (ascii_lower_char c)"
proof (cases "is_ascii_upper c")
  case True
  then have "(of_char (ascii_lower_char c) :: nat) = of_char c + 32"
    by (simp add: is_ascii_upper_def ascii_lower_char_def Let_def of_char_of take_bit_eq_mod)
  with True show ?thesis by (simp add: is_ascii_upper_def Let_def)
next
  case False
  then show ?thesis by (auto simp: is_ascii_upper_def ascii_lower_char_def Let_def)
qed

lemma dns_sanitize_dns: "c \<in> set (dns_sanitize (to_ascii_lowercase s)) \<Longrightarrow> dns_char c"
  by (auto simp: dns_sanitize_def to_ascii_lowercase_def dns_char_def is_ascii_alphanumeric_def
      lower_char_not_upper split: if_splits)

lemma project_name_dns:
  assumes "\<forall>c \<in> set capability. dns_char c" "\<forall>c \<in> set token. dns_char c"
    "\<forall>c \<in> set pre. dns_char c"
  shows "\<forall>c \<in> set (project_name code capability token pre). dns_char c"
proof -
  have dash: "dns_char (CHR ''-'')" by (simp add: dns_char_def)
  have "\<forall>c \<in> set (project_stem code capability). dns_char c"
    unfolding project_stem_def using assms(1) dash dns_sanitize_dns
    by (auto dest!: set_trim_dashes [THEN subsetD])
  then have "\<forall>c \<in> set (in_namespace pre (project_stem code capability)). dns_char c"
    using assms(3) by (auto simp: in_namespace_def)
  then have "\<forall>c \<in> set (project_core (in_namespace pre (project_stem code capability))). dns_char c"
    by (auto simp: project_core_def dest!: set_trim_dashes [THEN subsetD] in_set_takeD)
  then show ?thesis
    using assms(2) dash by (auto simp: project_name_shape dest: in_set_takeD)
qed

lemma trim_dashes_keep:
  assumes "q \<noteq> []" "hd q \<noteq> CHR ''-''" "last q \<noteq> CHR ''-''"
  shows "trim_dashes (q @ r) = q @ rev (dropWhile (\<lambda>c. c = CHR ''-'') (rev r))"
proof -
  have "dropWhile (\<lambda>c. c = CHR ''-'') (q @ r) = q @ r"
    using assms(1,2) by (cases q) auto
  moreover have "dropWhile (\<lambda>c. c = CHR ''-'') (rev q) = rev q"
    using assms(1,3) by (cases "rev q") (auto simp: last_rev [symmetric] hd_rev)
  ultimately show ?thesis
    by (cases "\<forall>c \<in> set (rev r). c = CHR ''-''")
      (auto simp: trim_dashes_def dropWhile_append dropWhile_eq_Nil_conv)
qed

lemma trim_end_prefix: "prefix (rev (dropWhile P (rev s))) s"
  using suffix_dropWhile [of P "rev s"] unfolding suffix_to_prefix rev_rev_ident .

lemma prefix_head: "prefix w (d # r) \<Longrightarrow> prefix [d] (w @ [d] @ t)"
  by (cases w) auto

lemma trim_dashes_namespace:
  assumes "q \<noteq> []" "hd q \<noteq> CHR ''-''" "last q \<noteq> CHR ''-''"
  shows "prefix (q @ ''-'') (trim_dashes (q @ ''-'' @ r) @ ''-'' @ t)"
proof -
  let ?w = "rev (dropWhile (\<lambda>c. c = CHR ''-'') (rev (''-'' @ r)))"
  have eq: "trim_dashes (q @ ''-'' @ r) = q @ ?w"
    using trim_dashes_keep [OF assms, of "''-'' @ r"] .
  have "prefix ''-'' (?w @ ''-'' @ t)"
    using prefix_head [OF trim_end_prefix [of "\<lambda>c. c = CHR ''-''" "CHR ''-'' # r"]] by simp
  then show ?thesis unfolding eq by simp
qed

lemma project_name_namespace:
  assumes "q \<noteq> []" "hd q \<noteq> CHR ''-''" "last q \<noteq> CHR ''-''" "length q < 38"
  shows "prefix (q @ ''-'') (project_name code capability token (q @ ''-''))"
proof -
  define p1 where "p1 = in_namespace (q @ ''-'') (project_stem code capability)"
  have "prefix (q @ ''-'') p1" by (simp add: p1_def in_namespace_def)
  then obtain r where r: "p1 = q @ ''-'' @ r" by (auto elim: prefixE)
  define r' where "r' = take (38 - length q - 1) r"
  have "take 38 p1 = q @ ''-'' @ r'"
    using assms(4) by (simp add: r r'_def take_Cons')
  then show ?thesis
    using trim_dashes_namespace [OF assms(1-3), of r' "take 8 token"]
    by (auto simp: project_name_shape project_core_def p1_def [symmetric] r)
qed

text \<open>The tokens are hexadecimal text, and the two namespaces of the source are covered.\<close>

lemma hex_digit_dns: "n < 16 \<Longrightarrow> dns_char (hex_digit n)"
  by (auto simp: hex_digit_def dns_char_def is_ascii_lower_def is_ascii_digit_def Let_def
      of_char_of take_bit_eq_mod)

lemma hex_bytes_dns: "c \<in> set (hex_bytes s) \<Longrightarrow> dns_char c"
proof -
  have "(of_char b :: nat) div 16 < 16" for b :: char
  proof -
    have "(of_char b :: nat) = of_char b mod 256" using of_char_mod_256 [of b] by simp
    also have "\<dots> < 16 * 16" by simp
    finally show ?thesis by (simp add: less_mult_imp_div_less)
  qed
  then show "c \<in> set (hex_bytes s) \<Longrightarrow> dns_char c"
    by (auto simp: hex_bytes_def hex_byte_def intro: hex_digit_dns)
qed

lemma dns_not_ws: "dns_char c \<Longrightarrow> \<not> is_ascii_ws c \<and> (of_char c :: nat) < 0x80"
  by (auto simp: dns_char_def is_ascii_lower_def is_ascii_digit_def is_ascii_ws_def Let_def)

lemma ascii_no_ws_part:
  assumes "(of_char c :: nat) < 0x80"
  shows "\<not> ws_pair c b" "\<not> ws_pair b c" "\<not> ws_triple c a b" "\<not> ws_triple a b c"
proof -
  have "c \<noteq> d" if "0x80 \<le> (of_char d :: nat)" for d using that assms by auto
  from this [of "CHR 0xC2"] this [of "CHR 0xE1"] this [of "CHR 0xE2"] this [of "CHR 0xE3"]
    this [of "CHR 0x85"] this [of "CHR 0xA0"] this [of "CHR 0x80"] this [of "CHR 0x9F"]
  have "c \<notin> {CHR 0xC2, CHR 0xE1, CHR 0xE2, CHR 0xE3, CHR 0x85, CHR 0xA0, CHR 0x80, CHR 0x9F}"
    by simp
  moreover have "\<not> e2_80_ws c" using assms by (simp add: e2_80_ws_def Let_def)
  ultimately show "\<not> ws_pair c b" "\<not> ws_pair b c" "\<not> ws_triple c a b" "\<not> ws_triple a b c"
    by (simp_all only: ws_pair_def ws_triple_def insert_iff de_Morgan_disj) blast+
qed

lemma trim_dns: "\<forall>c \<in> set s. dns_char c \<Longrightarrow> trim s = s"
proof (rule trim_id)
  assume a: "\<forall>c \<in> set s. dns_char c"
  have hd: "ws_len (c # r) = 0 \<and> ws_len_rev (c # r) = 0" if "dns_char c" for c r
    using dns_not_ws [OF that] ascii_no_ws_part [of c]
    by (simp add: ws_len_def ws_len_rev_def split: list.split)
  show "ws_len s = 0" using a hd by (cases s) (auto simp: ws_len_def [of "[]"])
  show "ws_len_rev (rev s) = 0"
    using a hd by (cases "rev s") (auto simp: ws_len_rev_def [of "[]"] dest: arg_cong [of _ _ set])
qed

lemma namespace_cases:
  assumes "channel_project_prefix channel = Inr pre"
  obtains q where "pre = q @ ''-''" "q \<in> {''actium-lab'', ''actium-node''}"
  using assms by (auto simp: channel_project_prefix_def split: if_splits)

section \<open>Units\<close>

lemma normalize_known: "normalize_capability p = Inr c \<Longrightarrow> c \<in> set known_capabilities"
  by (auto simp: normalize_capability_def known_capabilities_def Let_def split: if_splits)

lemma collect_capabilities_spec:
  assumes "collect_capabilities caps ps = Inr r" "distinct caps" "set caps \<subseteq> set known_capabilities"
  shows "distinct r \<and> set caps \<subseteq> set r \<and> set r \<subseteq> set known_capabilities
    \<and> (\<forall>p \<in> set ps. \<exists>c \<in> set r. normalize_capability p = Inr c)"
  using assms
proof (induction ps arbitrary: caps)
  case (Cons p ps)
  then obtain c where c: "normalize_capability p = Inr c"
    and rest: "collect_capabilities (if c \<in> set caps then caps else caps @ [c]) ps = Inr r"
    by (auto simp: result_simps)
  let ?caps = "if c \<in> set caps then caps else caps @ [c]"
  have "distinct ?caps" "set ?caps \<subseteq> set known_capabilities" "c \<in> set ?caps"
    using Cons.prems normalize_known [OF c] by auto
  with Cons.IH [OF rest] c show ?case by (auto split: if_splits)
qed simp

lemma build_unit_spec:
  "build_unit ids dep code pre root cap = Inr u \<Longrightarrow>
   ru_capability u = cap \<and> ru_depends_on u = [] \<and> gate_matches_cohort u
   \<and> ru_runtime_unit_id u = uuid_v5 ids (dep @ '':'' @ cap)
   \<and> ru_compose_project u = project_name code cap (short_hash ids (ru_runtime_unit_id u)) pre"
  by (auto simp: build_unit_def Let_def result_simps gate_matches_cohort_def startup_cohort_of_def
      startup_gate_of_def split: if_splits)

lemma link_unit_spec:
  assumes "link_unit tel turn lk u = Inr v" "ru_depends_on u = []"
  shows "ru_capability v = ru_capability u" "ru_runtime_unit_id v = ru_runtime_unit_id u"
    "d \<in> set (ru_depends_on v) \<Longrightarrow>
       (ru_capability u = ''connectivity'' \<and> tel = Some d)
     \<or> (ru_capability u = ''radio-control'' \<and> (turn = Some d \<or> lk = Some d))"
  using assms
  by (auto simp: link_unit_def result_simps opt_to_list_def split: if_splits option.splits)

lemma id_for_Some:
  assumes "id_for units cap = Some d"
  obtains j where "j < length units" "ru_capability (units ! j) = cap"
    "ru_runtime_unit_id (units ! j) = d"
  using assms by (auto simp: id_for_def find_Some_iff)

lemma earlier_by_rank:
  assumes "sorted (map f us)" "i < length us" "j < length us" "f (us ! j) < f (us ! i)"
  shows "j < i"
proof (rule ccontr)
  assume "\<not> j < i"
  then have "f (us ! i) \<le> f (us ! j)"
    using sorted_nth_mono [OF assms(1), of i j] assms(2,3) by simp
  with assms(4) show False by simp
qed

lemma validate_topology_units_distinct:
  "validate_topology_units us = Inr () \<Longrightarrow>
   distinct (map ru_runtime_unit_id us) \<and> distinct (map ru_compose_project us)"
  by (auto simp: validate_topology_units_def Let_def intro: card_distinct split: if_splits)

text \<open>What a successful materialisation is made of.\<close>

lemma materialize_steps:
  assumes "materialize_for_channel ids ch hid dep code profiles fabric root = Inr t"
  obtains pre uuid caps units where
    "channel_project_prefix ch = Inr pre"
    "collect_capabilities [''agent''] profiles = Inr caps"
    "res_map (build_unit ids uuid code pre root) (sort_key capability_rank caps) = Inr units"
    "res_map (link_unit (id_for units ''telemetry'') (id_for units ''turn'')
        (id_for units ''livekit'')) units = Inr (rt_units t)"
    "validate_topology_units (rt_units t) = Inr ()"
  using assms by (auto simp: materialize_for_channel_def result_simps Let_def)

text \<open>Every linked unit has the capability of its place in the sorted list, and its dependencies come before it.\<close>

lemma linked_units_ordered:
  assumes units: "res_map (build_unit ids uuid code pre root) (sort_key capability_rank caps) = Inr units"
    and linked: "res_map (link_unit (id_for units ''telemetry'') (id_for units ''turn'')
        (id_for units ''livekit'')) units = Inr us"
  shows "map ru_capability us = sort_key capability_rank caps"
    and "i < length us \<Longrightarrow> d \<in> set (ru_depends_on (us ! i)) \<Longrightarrow>
          \<exists>j < i. ru_runtime_unit_id (us ! j) = d"
proof -
  let ?srt = "sort_key capability_rank caps"
  have len: "length units = length ?srt" "length us = length units"
    using res_map_Inr_length [OF units] res_map_Inr_length [OF linked] by simp_all
  have b: "ru_capability (units ! i) = ?srt ! i \<and> ru_depends_on (units ! i) = []"
    if "i < length units" for i
    using build_unit_spec [OF res_map_Inr_nth [OF units, of i]] that len by simp
  note l = link_unit_spec [OF res_map_Inr_nth [OF linked]]
  show cap: "map ru_capability us = ?srt"
    using b l(1) len by (auto intro!: nth_equalityI)
  have sorted: "sorted (map (capability_rank \<circ> ru_capability) units)"
  proof -
    have "map (capability_rank \<circ> ru_capability) units = map capability_rank ?srt"
      using b len by (auto intro!: nth_equalityI)
    then show ?thesis by simp
  qed
  assume i: "i < length us" and d: "d \<in> set (ru_depends_on (us ! i))"
  have "(ru_capability (units ! i) = ''connectivity'' \<and> id_for units ''telemetry'' = Some d)
     \<or> (ru_capability (units ! i) = ''radio-control''
         \<and> (id_for units ''turn'' = Some d \<or> id_for units ''livekit'' = Some d))"
    using l(3) [of i d] b i d len by simp
  then obtain c where c: "id_for units c = Some d"
    "capability_rank c < capability_rank (ru_capability (units ! i))"
    by (auto simp: capability_rank_def)
  from c(1) obtain j where j: "j < length units" "ru_capability (units ! j) = c"
    "ru_runtime_unit_id (units ! j) = d" by (rule id_for_Some)
  have "j < i"
    using earlier_by_rank [OF sorted, of i j] i j(1,2) c(2) len by simp
  moreover have "ru_runtime_unit_id (us ! j) = d"
    using l(2) [of j] b [of j] j by simp
  ultimately show "\<exists>j < i. ru_runtime_unit_id (us ! j) = d" by blast
qed

section \<open>Properties\<close>

text \<open>
  C3. The order of the units is a start order: when a topology is materialised, its units
  have distinct identifiers and compose projects, include the agent and the capability of
  every requested profile, are sorted by capability rank, and every dependency of a unit is
  the identifier of a unit that comes strictly before it (so the dependency graph is acyclic).
\<close>

theorem topology_start_order:
  assumes "materialize_for_channel ids ch hid dep code profiles fabric root = Inr t"
  shows "distinct (map ru_runtime_unit_id (rt_units t)) \<and> distinct (map ru_compose_project (rt_units t))
    \<and> ''agent'' \<in> ru_capability ` set (rt_units t)
    \<and> (\<forall>p \<in> set profiles. \<exists>u \<in> set (rt_units t). normalize_capability p = Inr (ru_capability u))
    \<and> sorted (map (\<lambda>u. capability_rank (ru_capability u)) (rt_units t))
    \<and> (\<forall>i < length (rt_units t). \<forall>d \<in> set (ru_depends_on (rt_units t ! i)).
         \<exists>j < i. ru_runtime_unit_id (rt_units t ! j) = d)"
proof -
  from assms obtain pre uuid caps units where
    caps: "collect_capabilities [''agent''] profiles = Inr caps" and
    units: "res_map (build_unit ids uuid code pre root) (sort_key capability_rank caps) = Inr units" and
    linked: "res_map (link_unit (id_for units ''telemetry'') (id_for units ''turn'')
        (id_for units ''livekit'')) units = Inr (rt_units t)" and
    valid: "validate_topology_units (rt_units t) = Inr ()"
    by (rule materialize_steps)
  note ord = linked_units_ordered [OF units linked]
  have img: "ru_capability ` set (rt_units t) = set caps"
    using ord(1) by (metis list.set_map set_sort)
  have c: "''agent'' \<in> set caps \<and> (\<forall>p \<in> set profiles. \<exists>c \<in> set caps. normalize_capability p = Inr c)"
    using collect_capabilities_spec [OF caps] by (simp add: known_capabilities_def)
  have "\<forall>p \<in> set profiles. \<exists>u \<in> set (rt_units t). normalize_capability p = Inr (ru_capability u)"
    using c unfolding img [symmetric] by blast
  moreover have "sorted (map (\<lambda>u. capability_rank (ru_capability u)) (rt_units t))"
    using ord(1) sorted_sort_key [of capability_rank caps]
    by (metis (no_types, lifting) list.map_comp comp_apply map_eq_conv)
  ultimately show ?thesis
    using validate_topology_units_distinct [OF valid] ord(2) c img by blast
qed

definition ids_example :: ids where
  "ids_example = \<lparr>uuid_parse = (\<lambda>s. Some s), uuid_v5 = (\<lambda>s. s), sha256 = (\<lambda>s. s)\<rparr>"

definition fabric_example :: fabric_identity where
  "fabric_example = \<lparr>fi_fabric_id = ''f'', fi_compose_project = ''actium-lab-fabric-01'',
     fi_network_name = ''actium-lab-fabric-01'', fi_host_id = None\<rparr>"

definition topology_example :: "string + runtime_topology" where
  "topology_example = materialize_for_channel ids_example ''lab'' ''h'' ''d'' ''Deployment 01''
     [''telemetry'', ''connectivity''] fabric_example ''/srv/n''"

lemma topology_example_ok:
  "case topology_example of Inr t \<Rightarrow> map ru_depends_on (rt_units t) = [[], [], [''d:telemetry'']]
   | Inl _ \<Rightarrow> False"
  by code_simp

lemma topology_example_Inr: obtains t where "topology_example = Inr t"
proof (rule sum.exhaust [of topology_example])
  fix e assume "topology_example = Inl e"
  from topology_example_ok [unfolded this] show thesis by simp
qed (rule that)

theorem topology_start_order_witness:
  "\<exists>t. topology_example = Inr t \<and> distinct (map ru_runtime_unit_id (rt_units t))
     \<and> ''agent'' \<in> ru_capability ` set (rt_units t)"
proof -
  obtain t where t: "topology_example = Inr t" by (rule topology_example_Inr)
  from topology_start_order [OF t [unfolded topology_example_def]] t show ?thesis by blast
qed

text \<open>
  Project names are valid by construction: for a known channel and any deployment code,
  the name of a unit (or of the deployment network) stays in the channel's namespace, is made
  of lower case letters, digits and dashes, passes \<open>validate_project\<close>, and leaves room in a
  63 byte DNS label for the longest service suffix.
\<close>

theorem project_names_valid:
  assumes "channel_project_prefix channel = Inr pre"
    and "capability \<in> insert ''local'' (set known_capabilities)"
  shows "validate_project (project_name code capability (short_hash ids x) pre) field pre = Inr ()
    \<and> length (project_name code capability (short_hash ids x) pre) + length ''-control-runtime'' \<le> 63"
proof -
  let ?n = "project_name code capability (short_hash ids x) pre"
  obtain q where q: "pre = q @ ''-''" "q \<in> {''actium-lab'', ''actium-node''}"
    using assms(1) by (rule namespace_cases)
  have len: "length ?n \<le> 47" by (rule project_name_length)
  have "\<forall>c \<in> set capability. dns_char c"
    using assms(2) by (auto simp: known_capabilities_def dns_char_def is_ascii_lower_def Let_def)
  moreover have "\<forall>c \<in> set (short_hash ids x). dns_char c"
    by (auto simp: short_hash_def intro: hex_bytes_dns)
  moreover have "\<forall>c \<in> set pre. dns_char c"
    using q by (auto simp: dns_char_def is_ascii_lower_def Let_def)
  ultimately have dns: "\<forall>c \<in> set ?n. dns_char c" by (rule project_name_dns)
  have "prefix (q @ ''-'') (project_name code capability (short_hash ids x) (q @ ''-''))"
    by (rule project_name_namespace) (use q(2) in auto)
  then have "prefix pre ?n" using q(1) by simp
  moreover have "pre \<noteq> []" using q(1) by simp
  ultimately have "validate_project ?n field pre = Inr ()"
    using dns len by (auto simp: validate_project_def trim_dns dns_char_def list_ex_iff Let_def)
  then show ?thesis using len by simp
qed

theorem project_names_valid_witness:
  "validate_project (project_name ''deployment con un nombre deliberadamente muy largo para dns''
      ''control'' (short_hash ids_example ''d:control'') ''actium-lab-'') ''unit'' ''actium-lab-'' = Inr ()"
proof -
  have a: "channel_project_prefix ''lab'' = Inr ''actium-lab-''" by code_simp
  have b: "''control'' \<in> insert ''local'' (set known_capabilities)" by code_simp
  from project_names_valid [OF a b] show ?thesis by blast
qed

text \<open>
  Binding a topology to a host is final: after a successful binding the topology carries
  that host, binding the same host again changes nothing and reports so, and binding another
  host is refused and leaves the topology as it was.
\<close>

theorem bind_host_id_final:
  assumes "bind_host_id ids t h = (t', Inr changed)"
  shows "rt_host_id t' = Some h \<and> bind_host_id ids t' h = (t', Inr False)
    \<and> (\<forall>h'. h' \<noteq> h \<longrightarrow> (\<exists>e. bind_host_id ids t' h' = (t', Inl e)))
    \<and> rt_units t' = rt_units t"
  using assms
  by (auto simp: bind_host_id_def split: sum.splits option.splits if_splits)

theorem bind_host_id_final_witness:
  "\<exists>t t'. topology_example = Inr t \<and> bind_host_id ids_example t ''host-1'' = (t', Inr True)
     \<and> rt_host_id t' = Some ''host-1''"
proof -
  obtain t where t: "topology_example = Inr t" by (rule topology_example_Inr)
  have n: "rt_host_id t = None \<and> fi_host_id (rt_fabric t) = None"
    using t by (auto simp: topology_example_def materialize_for_channel_def result_simps Let_def
        fabric_example_def)
  have "snd (bind_host_id ids_example t ''host-1'') = Inr True"
    using n by (simp add: bind_host_id_def require_uuid_def ids_example_def)
  then obtain t' where b: "bind_host_id ids_example t ''host-1'' = (t', Inr True)"
    by (metis prod.collapse)
  from bind_host_id_final [OF b] b t show ?thesis by blast
qed

end
