(* ===== verification/Control_State.thy ===== *)
theory Control_State
  imports Control_Plane Topology
begin

text \<open>
  The durable control state of a deployment (\<open>RuntimeControlStateV1\<close>, its event and receipt
  logs, \<open>snapshot\<close>) from \<^verbatim>\<open>actium-node-core/src/runtime_control_plane.rs\<close> and the gate that
  runs before a topology is started, from \<^verbatim>\<open>actium-node-core/src/runtime.rs\<close>:
  \<open>ensure_runtime_control_records\<close>, \<open>reconcile_runtime_control_gate\<close>,
  \<open>runtime_control_allows_start\<close>, \<open>runtime_control_plane_status\<close>.

  Docker, the clock, the resource probe, the log file and the state file are outside the model:
  one run of the gate gets what they answer in a \<open>gate_world\<close>, and its requests to them are
  collected in order in \<open>gs_effects\<close>.
\<close>

section \<open>Capped logs\<close>

text \<open>
  The contract of both logs of the state: pushing appends, and the oldest entries are dropped
  beyond the cap. Nothing else of the log changes.
\<close>

locale capped_log =
  fixes cap :: nat
    and entries :: "'s \<Rightarrow> 'e list"
    and push :: "'e \<Rightarrow> 's \<Rightarrow> 's"
  assumes cap_pos: "0 < cap"
    and entries_push: "entries (push e s) = drop (Suc (length (entries s)) - cap) (entries s @ [e])"
begin

lemma push_bounded: "length (entries (push e s)) \<le> cap"
  by (simp add: entries_push)

lemma push_last: "last (entries (push e s)) = e"
  using cap_pos by (simp add: entries_push)

lemma push_below_cap: "length (entries s) < cap \<Longrightarrow> entries (push e s) = entries s @ [e]"
  by (simp add: entries_push)

text \<open>After any pushes the log is the longest recent suffix that fits.\<close>

lemma fold_push_entries:
  "length (entries s) \<le> cap \<Longrightarrow>
   entries (fold push es s) = drop (length (entries s) + length es - cap) (entries s @ es)"
proof (induction es arbitrary: s)
  case Nil
  then show ?case by simp
next
  case (Cons e es)
  let ?k = "Suc (length (entries s)) - cap"
  have len: "length (entries (push e s)) = Suc (length (entries s)) - ?k"
    by (simp add: entries_push)
  have k: "?k \<le> Suc (length (entries s))" by simp
  have one: "Suc 0 - cap = 0" using cap_pos by simp
  have "entries (fold push (e # es) s)
      = drop (length (entries (push e s)) + length es - cap) (entries (push e s) @ es)"
    using Cons.IH [of "push e s"] push_bounded by simp
  also have "entries (push e s) @ es = drop ?k (entries s @ e # es)"
    using k one by (simp add: entries_push)
  also have "drop (length (entries (push e s)) + length es - cap) (drop ?k (entries s @ e # es))
      = drop (length (entries s) + length (e # es) - cap) (entries s @ e # es)"
  proof -
    have "length (entries (push e s)) + length es - cap + ?k = length (entries s) + length (e # es) - cap"
      using Cons.prems cap_pos by (cases "length (entries s) = cap") (simp_all add: len)
    then show ?thesis by (simp only: drop_drop)
  qed
  finally show ?case .
qed

lemma fold_push_bounded: "length (entries s) \<le> cap \<Longrightarrow> length (entries (fold push es s)) \<le> cap"
  by (simp add: fold_push_entries)

end

section \<open>The control state\<close>

record runtime_event =
  ev_event_type :: string
  ev_runtime_id :: string
  ev_capability :: string
  ev_reason_code :: "string option"
  ev_timestamp :: u64
  ev_generation :: "u64 option"
  ev_authority_generation :: "u64 option"
  ev_detail :: string

record recovery_receipt =
  rr_schema :: u8
  rr_runtime_id :: string
  rr_previous_state :: lifecycle_state
  rr_failure_reason :: "string option"
  rr_recovery_reason :: string
  rr_attempt :: u32
  rr_started_at :: u64
  rr_completed_at :: u64
  rr_result :: string

record control_record =
  rc_runtime_id :: string
  rc_capability :: string
  rc_manifest :: capability_manifest
  rc_desired_running :: bool
  rc_observed :: observed_state
  rc_circuit_breaker :: circuit_breaker
  rc_lease :: lease_manager
  rc_last_event :: "runtime_event option"

record control_state =
  cs_schema :: u8
  cs_contract :: string
  cs_node_id :: string
  cs_rollout_mode :: rollout_mode
  cs_generation :: u64
  cs_host_pressure :: host_pressure
  cs_last_heartbeat_at :: "u64 option"
  cs_runtimes :: "control_record list"
  cs_events :: "runtime_event list"
  cs_recovery_receipts :: "recovery_receipt list"
  cs_updated_at :: u64

definition control_state_new :: "string \<Rightarrow> u64 \<Rightarrow> control_state" where
  "control_state_new node_id now =
     \<lparr>cs_schema = 1, cs_contract = ''actium.runtime.control-plane.v1'', cs_node_id = node_id,
      cs_rollout_mode = Legacy, cs_generation = 0, cs_host_pressure = Unknown,
      cs_last_heartbeat_at = None, cs_runtimes = [], cs_events = [], cs_recovery_receipts = [],
      cs_updated_at = now\<rparr>"

definition control_validate :: "control_state \<Rightarrow> string + unit" where
  "control_validate s =
     (if cs_schema s \<noteq> 1 then Inl ''RUNTIME_CONTROL_STATE_SCHEMA_UNSUPPORTED''
      else if cs_contract s \<noteq> ''actium.runtime.control-plane.v1''
      then Inl ''RUNTIME_CONTROL_PLANE_CONTRACT_MISMATCH''
      else if card (set (map rc_runtime_id (cs_runtimes s))) \<noteq> length (cs_runtimes s)
      then Inl ''RUNTIME_CONTROL_DUPLICATE_RUNTIME''
      else Inr ())"

definition control_heartbeat :: "u64 \<Rightarrow> control_state \<Rightarrow> control_state" where
  "control_heartbeat now s = s\<lparr>cs_last_heartbeat_at := Some now, cs_updated_at := now\<rparr>"

definition record_event :: "runtime_event \<Rightarrow> control_state \<Rightarrow> control_state" where
  "record_event event s =
     (let pushed = cs_events s @ [event];
          kept = (if 256 < length pushed then drop (length pushed - 256) pushed else pushed)
      in s\<lparr>cs_events := kept,
           cs_runtimes := update_first (\<lambda>r. rc_runtime_id r = ev_runtime_id event)
             (\<lambda>r. r\<lparr>rc_last_event := Some event\<rparr>) (cs_runtimes s)\<rparr>)"

definition record_receipt :: "recovery_receipt \<Rightarrow> control_state \<Rightarrow> control_state" where
  "record_receipt receipt s =
     (let pushed = cs_recovery_receipts s @ [receipt]
      in s\<lparr>cs_recovery_receipts :=
           (if 64 < length pushed then drop (length pushed - 64) pushed else pushed)\<rparr>)"

record control_snapshot =
  sn_contract :: string
  sn_node_id :: string
  sn_rollout_mode :: rollout_mode
  sn_host_pressure :: host_pressure
  sn_last_heartbeat_at :: "u64 option"
  sn_runtimes :: "control_record list"
  sn_recent_events :: "runtime_event list"

definition control_snapshot_of :: "control_state \<Rightarrow> control_snapshot" where
  "control_snapshot_of s =
     \<lparr>sn_contract = cs_contract s, sn_node_id = cs_node_id s, sn_rollout_mode = cs_rollout_mode s,
      sn_host_pressure = cs_host_pressure s, sn_last_heartbeat_at = cs_last_heartbeat_at s,
      sn_runtimes = cs_runtimes s, sn_recent_events = take 32 (rev (cs_events s))\<rparr>"

text \<open>
  \<open>load_runtime_control_state\<close> and \<open>persist_runtime_control_state\<close> with the file as an
  argument: \<open>None\<close> when there is no file, otherwise what \<open>serde_json\<close> makes of it.
\<close>

definition load_control_state ::
  "(string + control_state) option \<Rightarrow> string \<Rightarrow> u64 \<Rightarrow> string + control_state" where
  "load_control_state file node_id now =
     (case file of None \<Rightarrow> Inr (control_state_new node_id now)
      | Some parsed \<Rightarrow> res_bind parsed (\<lambda>s. res_bind (control_validate s) (\<lambda>_. Inr s)))"

definition persist_control_state ::
  "(control_state \<Rightarrow> string + unit) \<Rightarrow> control_state \<Rightarrow> string + unit" where
  "persist_control_state write s = res_bind (control_validate s) (\<lambda>_. write s)"

section \<open>The gate\<close>

definition control_record_new :: "rollout_mode \<Rightarrow> runtime_unit \<Rightarrow> control_record" where
  "control_record_new mode u =
     \<lparr>rc_runtime_id = ru_runtime_unit_id u, rc_capability = ru_capability u,
      rc_manifest = (capability_manifest_new (ru_capability u) Docker)
        \<lparr>cm_dependencies := ru_depends_on u, cm_rollout_mode := mode\<rparr>,
      rc_desired_running = True,
      rc_observed = \<lparr>os_lifecycle_state = Discovered, os_health = health_signals_default,
        os_last_observed_at = 0, os_failure = None\<rparr>,
      rc_circuit_breaker = circuit_breaker_default, rc_lease = lease_manager_default,
      rc_last_event = None\<rparr>"

fun ensure_records :: "runtime_unit list \<Rightarrow> control_state \<Rightarrow> control_state" where
  "ensure_records [] s = s"
| "ensure_records (u # us) s =
     (if list_ex (\<lambda>r. rc_runtime_id r = ru_runtime_unit_id u) (cs_runtimes s)
      then ensure_records us s
      else ensure_records us
        (s\<lparr>cs_runtimes := cs_runtimes s @ [control_record_new (cs_rollout_mode s) u]\<rparr>))"

definition find_record :: "string \<Rightarrow> control_state \<Rightarrow> control_record option" where
  "find_record rid s = find (\<lambda>r. rc_runtime_id r = rid) (cs_runtimes s)"

definition observed_state_from_health :: "runtime_unit_health \<Rightarrow> u64 \<Rightarrow> observed_state" where
  "observed_state_from_health health now =
     (let liveness = 0 < uh_alive_services health;
          readiness = (uh_state health = ''ready'' \<and> 0 < uh_ready_services health)
      in \<lparr>os_lifecycle_state =
            (if readiness then Ready else if liveness then Running
             else if uh_total_services health = 0 then Discovered else Degraded),
          os_health = \<lparr>hs_liveness = liveness, hs_readiness = readiness, hs_authority = False,
            hs_dependencies = True, hs_resource_health = True\<rparr>,
          os_last_observed_at = now, os_failure = None\<rparr>)"

text \<open>What the world answers during one run of the gate.\<close>

record gate_world =
  gw_now :: u64
  gw_resources :: resource_snapshot
  gw_health :: "runtime_unit \<Rightarrow> string + runtime_unit_health"
  gw_logs :: "runtime_unit \<Rightarrow> string option"
  gw_append :: "runtime_event \<Rightarrow> string + unit"
  gw_quarantine :: "runtime_unit \<Rightarrow> string + unit"

datatype gate_effect = AppendEvent runtime_event | QuarantineUnit runtime_unit

record gate_state =
  gs_control :: control_state
  gs_blocked :: "string option"
  gs_effects :: "gate_effect list"

definition unit_mode :: "control_state \<Rightarrow> control_record \<Rightarrow> rollout_mode" where
  "unit_mode s r = (if cs_rollout_mode s \<noteq> Legacy then cs_rollout_mode s
     else cm_rollout_mode (rc_manifest r))"

definition unit_failure ::
  "gate_world \<Rightarrow> rollout_mode \<Rightarrow> runtime_unit \<Rightarrow> runtime_unit_health \<Rightarrow> failure_classification option" where
  "unit_failure w mode u health =
     (let base = join ''; '' (uh_failures health);
          failure_text =
            (if mode = Managed \<and> uh_state health \<noteq> ''ready''
             then (case gw_logs w u of Some logs \<Rightarrow> base @ '' '' @ logs | None \<Rightarrow> base)
             else base)
      in if uh_state health = ''ready'' \<or> is_blank failure_text then None
         else Some (classify_runtime_failure failure_text))"

definition unit_admission ::
  "gate_world \<Rightarrow> runtime_topology \<Rightarrow> control_state \<Rightarrow> runtime_unit \<Rightarrow> control_record \<Rightarrow> admission_decision" where
  "unit_admission w t s u r = evaluate_runtime_admission
     \<lparr>ac_identity = \<lparr>ri_organization = [], ri_product = [], ri_site = rt_deployment_id t,
        ri_host = unwrap_or (rt_host_id t) [], ri_node = rt_host_installation_id t,
        ri_capability = ru_capability u, ri_runtime_instance = ru_runtime_unit_id u\<rparr>,
      ac_authority = cm_authority (rc_manifest r),
      ac_config_valid = True,
      ac_required_secrets_present = (cm_required_secrets (rc_manifest r) = []),
      ac_mounts_ready = True, ac_ports_ready = True,
      ac_dependencies_ready = list_all (\<lambda>d. is_none_or (find_record d s)
        (\<lambda>x. hs_readiness (os_health (rc_observed x)))) (ru_depends_on u),
      ac_resources = gw_resources w,
      ac_resource_policy = cm_resources (rc_manifest r),
      ac_host_pressure = evaluate_host_pressure (gw_resources w) None,
      ac_now_unix_seconds = gw_now w\<rparr>"

definition breaker_after ::
  "u64 \<Rightarrow> runtime_unit_health \<Rightarrow> failure_classification option \<Rightarrow> circuit_breaker \<Rightarrow> circuit_breaker" where
  "breaker_after now health failure cb = (case failure of
     Some f \<Rightarrow> record_failure cb f now circuit_breaker_policy_default now
   | None \<Rightarrow> if uh_state health = ''ready'' then record_success cb else cb)"

definition event_type_of :: "lifecycle_state \<Rightarrow> string" where
  "event_type_of s = (case s of
     Quarantined \<Rightarrow> ''RUNTIME_QUARANTINED''
   | Blocked \<Rightarrow> ''RUNTIME_ADMISSION_DENIED''
   | Ready \<Rightarrow> ''RUNTIME_READY''
   | Running \<Rightarrow> ''RUNTIME_STARTED''
   | Starting \<Rightarrow> ''RECOVERY_STARTED''
   | Degraded \<Rightarrow> ''RUNTIME_DEGRADED''
   | _ \<Rightarrow> ''RUNTIME_OBSERVED'')"

text \<open>The record of a unit after one evaluation.\<close>

definition record_after ::
  "gate_world \<Rightarrow> rollout_mode \<Rightarrow> runtime_unit_health \<Rightarrow> failure_classification option
     \<Rightarrow> admission_decision \<Rightarrow> control_record \<Rightarrow> control_record" where
  "record_after w mode health failure admission r =
     (let observed = observed_state_from_health health (gw_now w);
          breaker = breaker_after (gw_now w) health failure (rc_circuit_breaker r);
          next = reconcile_runtime_state (rc_desired_running r) observed admission breaker mode
      in r\<lparr>rc_circuit_breaker := breaker,
           rc_observed := \<lparr>os_lifecycle_state = next, os_health = os_health observed,
             os_last_observed_at = gw_now w, os_failure = failure\<rparr>\<rparr>)"

definition put_record :: "control_record \<Rightarrow> control_state \<Rightarrow> control_state" where
  "put_record r s = s\<lparr>cs_runtimes :=
     update_first (\<lambda>x. rc_runtime_id x = rc_runtime_id r) (\<lambda>_. r) (cs_runtimes s)\<rparr>"

definition last_reason :: "control_record \<Rightarrow> string option" where
  "last_reason r = (case rc_last_event r of None \<Rightarrow> None | Some e \<Rightarrow> ev_reason_code e)"

definition gate_event ::
  "gate_world \<Rightarrow> runtime_unit \<Rightarrow> control_record \<Rightarrow> failure_classification option
     \<Rightarrow> admission_decision \<Rightarrow> lifecycle_state \<Rightarrow> runtime_event" where
  "gate_event w u r failure admission next =
     \<lparr>ev_event_type = event_type_of next, ev_runtime_id = ru_runtime_unit_id u,
      ev_capability = ru_capability u,
      ev_reason_code = opt_or (ad_reason_code admission)
        (map_option (\<lambda>f. code_as_str (fc_code f)) failure),
      ev_timestamp = gw_now w, ev_generation = None,
      ev_authority_generation = ae_generation (cm_authority (rc_manifest r)),
      ev_detail = ad_reason admission\<rparr>"

definition gate_receipt ::
  "gate_world \<Rightarrow> runtime_unit \<Rightarrow> lifecycle_state \<Rightarrow> failure_classification option
     \<Rightarrow> control_record \<Rightarrow> recovery_receipt" where
  "gate_receipt w u previous failure r =
     \<lparr>rr_schema = 1, rr_runtime_id = ru_runtime_unit_id u, rr_previous_state = previous,
      rr_failure_reason = map_option (\<lambda>f. code_as_str (fc_code f)) failure,
      rr_recovery_reason = ''bounded_runtime_reconciliation'',
      rr_attempt = cb_failure_count (rc_circuit_breaker r),
      rr_started_at = gw_now w, rr_completed_at = gw_now w, rr_result = ''RECOVERED''\<rparr>"

definition blocked_text :: "runtime_unit \<Rightarrow> admission_decision \<Rightarrow> string option \<Rightarrow> string" where
  "blocked_text u admission circuit_reason =
     ru_capability u @ '': '' @ ad_reason admission @ '' ('' @
       unwrap_or (opt_or circuit_reason (ad_reason_code admission)) ''RUNTIME_CONTROL_BLOCKED'' @ '')''"

text \<open>
  The three parts of an evaluation after the decision: the event when the state or the reason
  changed, the receipt of a recovery, and in \<open>MANAGED\<close> mode the quarantine of a denied unit.
\<close>

definition gate_log_event ::
  "gate_world \<Rightarrow> runtime_event \<Rightarrow> bool \<Rightarrow> gate_state \<Rightarrow> gate_state \<times> (string + unit)" where
  "gate_log_event w e changed g =
     (if changed
      then let g1 = g\<lparr>gs_effects := gs_effects g @ [AppendEvent e]\<rparr>
           in (case gw_append w e of
                 Inl err \<Rightarrow> (g1, Inl err)
               | Inr _ \<Rightarrow> (g1\<lparr>gs_control := record_event e (gs_control g1)\<rparr>, Inr ()))
      else (g, Inr ()))"

definition gate_log_recovery ::
  "recovery_receipt \<Rightarrow> lifecycle_state \<Rightarrow> lifecycle_state \<Rightarrow> gate_state \<Rightarrow> gate_state" where
  "gate_log_recovery rec previous next g =
     (if previous \<in> {Quarantined, Blocked, Recovering} \<and> next = Ready
      then g\<lparr>gs_control := record_receipt rec (gs_control g)\<rparr> else g)"

definition gate_enforce ::
  "gate_world \<Rightarrow> runtime_unit \<Rightarrow> bool \<Rightarrow> bool \<Rightarrow> string \<Rightarrow> gate_state \<Rightarrow> gate_state \<times> (string + unit)" where
  "gate_enforce w u stopped state_changed reason g =
     (if stopped
      then (if state_changed
            then let g1 = g\<lparr>gs_effects := gs_effects g @ [QuarantineUnit u]\<rparr>
                 in (case gw_quarantine w u of
                       Inl err \<Rightarrow> (g1, Inl err)
                     | Inr _ \<Rightarrow> (g1\<lparr>gs_blocked := Some reason\<rparr>, Inr ()))
            else (g\<lparr>gs_blocked := Some reason\<rparr>, Inr ()))
      else (g, Inr ()))"

definition must_stop :: "rollout_mode \<Rightarrow> admission_decision \<Rightarrow> circuit_breaker \<Rightarrow> bool" where
  "must_stop mode admission cb = (mode = Managed \<and> (\<not> ad_admitted admission \<or> cb_state cb = Open))"

definition gate_unit ::
  "gate_world \<Rightarrow> runtime_topology \<Rightarrow> runtime_unit \<Rightarrow> gate_state \<Rightarrow> gate_state \<times> (string + unit)" where
  "gate_unit w t u g =
     (case find_record (ru_runtime_unit_id u) (gs_control g) of
        None \<Rightarrow> (g, Inr ())
      | Some r \<Rightarrow>
         (case gw_health w u of
            Inl err \<Rightarrow> (g, Inl err)
          | Inr health \<Rightarrow>
             (let mode = unit_mode (gs_control g) r;
                  failure = unit_failure w mode u health;
                  admission = unit_admission w t (gs_control g) u r;
                  r1 = record_after w mode health failure admission r;
                  previous = os_lifecycle_state (rc_observed r);
                  next = os_lifecycle_state (rc_observed r1);
                  g1 = g\<lparr>gs_control := put_record r1 (gs_control g)\<rparr>
              in (case gate_log_event w (gate_event w u r failure admission next)
                       (previous \<noteq> next \<or> last_reason r \<noteq> ad_reason_code admission) g1 of
                    (g2, Inl err) \<Rightarrow> (g2, Inl err)
                  | (g2, Inr _) \<Rightarrow>
                      gate_enforce w u (must_stop mode admission (rc_circuit_breaker r1)) (previous \<noteq> next)
                        (blocked_text u admission (cb_quarantine_reason (rc_circuit_breaker r1)))
                        (gate_log_recovery (gate_receipt w u previous failure r1) previous next g2)))))"

fun gate_units ::
  "gate_world \<Rightarrow> runtime_topology \<Rightarrow> runtime_unit list \<Rightarrow> gate_state \<Rightarrow> gate_state \<times> (string + unit)" where
  "gate_units w t [] g = (g, Inr ())"
| "gate_units w t (u # us) g =
     (case gate_unit w t u g of
        (g1, Inl err) \<Rightarrow> (g1, Inl err)
      | (g1, Inr _) \<Rightarrow> gate_units w t us g1)"

record reconcile_report =
  rep_node :: string
  rep_message :: string
  rep_idle :: bool
  rep_skipped_busy :: bool

text \<open>
  \<open>reconcile_runtime_control_gate\<close>: the state in memory at the end (written by \<open>write\<close> when
  the result is not an error), the effects, and the report that stops the start.
\<close>

definition gate_start :: "gate_world \<Rightarrow> runtime_topology \<Rightarrow> control_state \<Rightarrow> gate_state" where
  "gate_start w t loaded =
     \<lparr>gs_control = (ensure_records (rt_units t) loaded)
        \<lparr>cs_host_pressure := evaluate_host_pressure (gw_resources w) None\<rparr>,
      gs_blocked = None, gs_effects = []\<rparr>"

definition blocked_report :: "string \<Rightarrow> string \<Rightarrow> reconcile_report" where
  "blocked_report label reason =
     \<lparr>rep_node = label,
      rep_message = label @ '': Runtime Control Plane bloqueo el arranque; estado QUARANTINED/BLOCKED. '' @ reason,
      rep_idle = False, rep_skipped_busy = False\<rparr>"

definition reconcile_control_gate ::
  "gate_world \<Rightarrow> (control_state \<Rightarrow> string + unit) \<Rightarrow> (string + control_state) option
     \<Rightarrow> runtime_topology \<Rightarrow> string
     \<Rightarrow> gate_effect list \<times> (string + control_state \<times> reconcile_report option)" where
  "reconcile_control_gate w write file t label =
     (case load_control_state file (rt_deployment_id t) (gw_now w) of
        Inl err \<Rightarrow> ([], Inl err)
      | Inr loaded \<Rightarrow>
         (case gate_units w t (rt_units t) (gate_start w t loaded) of
            (g, Inl err) \<Rightarrow> (gs_effects g, Inl err)
          | (g, Inr _) \<Rightarrow>
             (let final = control_heartbeat (gw_now w) (gs_control g)
              in (gs_effects g,
                  res_bind (persist_control_state write final) (\<lambda>_.
                    Inr (final, map_option (blocked_report label) (gs_blocked g)))))))"

text \<open>
  \<open>runtime_control_allows_start\<close>, asked before a single unit (or the whole node) is started.
\<close>

definition record_mode :: "control_state \<Rightarrow> string \<Rightarrow> rollout_mode option" where
  "record_mode s rid = map_option (\<lambda>r. cm_rollout_mode (rc_manifest r)) (find_record rid s)"

definition control_allows_start ::
  "(string + control_state) option \<Rightarrow> string \<Rightarrow> u64 \<Rightarrow> resource_snapshot \<Rightarrow> string option \<Rightarrow> string + unit" where
  "control_allows_start file deployment_id now resources runtime_unit_id =
     (if file = None then Inr ()
      else res_bind (load_control_state file deployment_id now) (\<lambda>control.
        if \<not> (cs_rollout_mode control = Managed
            \<or> is_some_and runtime_unit_id (\<lambda>rid. record_mode control rid = Some Managed))
        then Inr ()
        else if evaluate_host_pressure resources None \<in> {Critical, Emergency}
        then Inl ''RUNTIME_ADMISSION_DENIED: HOST_PRESSURE''
        else (case runtime_unit_id of None \<Rightarrow> Inr () | Some rid \<Rightarrow>
          (case find_record rid control of None \<Rightarrow> Inr () | Some r \<Rightarrow>
            if os_lifecycle_state (rc_observed r) \<in> {Blocked, Quarantined}
               \<or> cb_state (rc_circuit_breaker r) = Open
            then Inl (''RUNTIME_ADMISSION_DENIED: '' @
              unwrap_or (opt_or (last_reason r) (cb_quarantine_reason (rc_circuit_breaker r)))
                ''RUNTIME_CONTROL_BLOCKED'')
            else Inr ()))))"

text \<open>\<open>runtime_control_plane_status\<close>: a read-only view; only the observed states are refreshed.\<close>

fun observe_units ::
  "u64 \<Rightarrow> (runtime_unit \<Rightarrow> string + runtime_unit_health) \<Rightarrow> runtime_unit list \<Rightarrow> control_state
     \<Rightarrow> string + control_state" where
  "observe_units now health [] s = Inr s"
| "observe_units now health (u # us) s =
     res_bind (health u) (\<lambda>h. observe_units now health us
       (s\<lparr>cs_runtimes := update_first (\<lambda>r. rc_runtime_id r = ru_runtime_unit_id u)
            (\<lambda>r. r\<lparr>rc_observed := observed_state_from_health h now\<rparr>) (cs_runtimes s)\<rparr>))"

definition control_plane_status ::
  "u64 \<Rightarrow> resource_snapshot \<Rightarrow> (runtime_unit \<Rightarrow> string + runtime_unit_health)
     \<Rightarrow> (string + control_state) option \<Rightarrow> runtime_topology \<Rightarrow> string + control_snapshot" where
  "control_plane_status now resources health file t =
     res_bind (load_control_state file (rt_deployment_id t) now) (\<lambda>loaded.
     res_bind (observe_units now health (rt_units t) (ensure_records (rt_units t)
       (loaded\<lparr>cs_host_pressure := evaluate_host_pressure resources None\<rparr>))) (\<lambda>s.
     Inr (control_snapshot_of s)))"

section \<open>The logs keep their bound\<close>

interpretation events: capped_log 256 cs_events record_event
  by unfold_locales (simp_all add: record_event_def Let_def)

interpretation receipts: capped_log 64 cs_recovery_receipts record_receipt
  by unfold_locales (simp_all add: record_receipt_def Let_def)

definition logs_bounded :: "control_state \<Rightarrow> bool" where
  "logs_bounded s = (length (cs_events s) \<le> 256 \<and> length (cs_recovery_receipts s) \<le> 64)"

lemma record_event_bounded [simp]: "logs_bounded s \<Longrightarrow> logs_bounded (record_event e s)"
  using events.push_bounded [of e s]
  by (simp add: logs_bounded_def) (simp add: record_event_def Let_def)

lemma record_receipt_bounded [simp]: "logs_bounded s \<Longrightarrow> logs_bounded (record_receipt r s)"
  using receipts.push_bounded [of r s]
  by (simp add: logs_bounded_def) (simp add: record_receipt_def Let_def)

section \<open>Lookup and update of records\<close>

lemma find_record_id: "find_record rid s = Some r \<Longrightarrow> rc_runtime_id r = rid"
  by (auto simp: find_record_def dest: find_SomeD)

lemma find_record_fields [simp]:
  "find_record rid (s\<lparr>cs_events := a\<rparr>) = find_record rid s"
  "find_record rid (s\<lparr>cs_recovery_receipts := b\<rparr>) = find_record rid s"
  "find_record rid (s\<lparr>cs_host_pressure := h\<rparr>) = find_record rid s"
  "find_record rid (s\<lparr>cs_last_heartbeat_at := l, cs_updated_at := n\<rparr>) = find_record rid s"
  by (simp_all add: find_record_def)

lemma find_put_record:
  "find_record rid (put_record r s) =
     (if rid = rc_runtime_id r \<and> find_record rid s \<noteq> None then Some r else find_record rid s)"
proof (cases "rid = rc_runtime_id r")
  case True
  have "find (\<lambda>x. rc_runtime_id x = rc_runtime_id r)
      (update_first (\<lambda>x. rc_runtime_id x = rc_runtime_id r) (\<lambda>_. r) xs)
    = map_option (\<lambda>_. r) (find (\<lambda>x. rc_runtime_id x = rc_runtime_id r) xs)" for xs
    by (rule find_update_first) simp
  then show ?thesis using True by (auto simp: find_record_def put_record_def)
next
  case False
  then show ?thesis
    by (simp add: find_record_def put_record_def find_update_first_other)
qed

lemma find_record_event:
  "find_record rid (record_event e s) =
     (if rid = ev_runtime_id e
      then map_option (\<lambda>r. r\<lparr>rc_last_event := Some e\<rparr>) (find_record rid s)
      else find_record rid s)"
  by (simp add: find_record_def record_event_def Let_def find_update_first find_update_first_other)

lemma record_receipt_fields [simp]:
  "find_record rid (record_receipt x s) = find_record rid s"
  "cs_rollout_mode (record_receipt x s) = cs_rollout_mode s"
  "cs_host_pressure (record_receipt x s) = cs_host_pressure s"
  "map rc_runtime_id (cs_runtimes (record_receipt x s)) = map rc_runtime_id (cs_runtimes s)"
  by (simp_all add: record_receipt_def Let_def find_record_def)

lemma record_event_fields [simp]:
  "cs_rollout_mode (record_event e s) = cs_rollout_mode s"
  "cs_host_pressure (record_event e s) = cs_host_pressure s"
  "map rc_runtime_id (cs_runtimes (record_event e s)) = map rc_runtime_id (cs_runtimes s)"
  by (simp_all add: record_event_def Let_def map_update_first)

lemma put_record_fields [simp]:
  "cs_rollout_mode (put_record r s) = cs_rollout_mode s"
  "cs_host_pressure (put_record r s) = cs_host_pressure s"
  "logs_bounded (put_record r s) = logs_bounded s"
  "map rc_runtime_id (cs_runtimes (put_record r s)) = map rc_runtime_id (cs_runtimes s)"
  by (simp_all add: put_record_def logs_bounded_def map_update_first)

lemma record_after_fields [simp]:
  "rc_runtime_id (record_after w m h f a r) = rc_runtime_id r"
  "rc_manifest (record_after w m h f a r) = rc_manifest r"
  "rc_desired_running (record_after w m h f a r) = rc_desired_running r"
  "rc_last_event (record_after w m h f a r) = rc_last_event r"
  by (simp_all add: record_after_def Let_def)

lemmas record_lookup = find_put_record find_record_event

section \<open>Missing records are created once\<close>

lemma control_record_new_fields [simp]:
  "rc_runtime_id (control_record_new m u) = ru_runtime_unit_id u"
  "rc_desired_running (control_record_new m u) = True"
  "rc_last_event (control_record_new m u) = None"
  "cm_rollout_mode (rc_manifest (control_record_new m u)) = m"
  by (simp_all add: control_record_new_def)

lemma ensure_records_fields [simp]:
  "cs_schema (ensure_records us s) = cs_schema s"
  "cs_contract (ensure_records us s) = cs_contract s"
  "cs_rollout_mode (ensure_records us s) = cs_rollout_mode s"
  "cs_events (ensure_records us s) = cs_events s"
  "cs_recovery_receipts (ensure_records us s) = cs_recovery_receipts s"
  by (induction us s rule: ensure_records.induct) auto

lemma ensure_records_extends:
  "\<exists>new. cs_runtimes (ensure_records us s) = cs_runtimes s @ new
     \<and> (\<forall>r \<in> set new. \<exists>u \<in> set us. r = control_record_new (cs_rollout_mode s) u)"
proof (induction us s rule: ensure_records.induct)
  case (1 s)
  then show ?case by simp
next
  case (2 u us s)
  show ?case
  proof (cases "list_ex (\<lambda>r. rc_runtime_id r = ru_runtime_unit_id u) (cs_runtimes s)")
    case True
    from "2.IH"(1) [OF True] show ?thesis using True by (auto 0 3)
  next
    case False
    from "2.IH"(2) [OF False] show ?thesis using False by (auto 0 3)
  qed
qed

lemma ensure_records_ids:
  "set (map rc_runtime_id (cs_runtimes (ensure_records us s)))
     = set (map rc_runtime_id (cs_runtimes s)) \<union> set (map ru_runtime_unit_id us)"
  by (induction us s rule: ensure_records.induct) (auto simp: list_ex_key)

lemma ensure_records_distinct:
  "distinct (map rc_runtime_id (cs_runtimes s)) \<Longrightarrow>
   distinct (map rc_runtime_id (cs_runtimes (ensure_records us s)))"
  by (induction us s rule: ensure_records.induct) (auto simp: list_ex_key)

lemma ensure_records_idem_aux:
  "set (map ru_runtime_unit_id us) \<subseteq> set (map rc_runtime_id (cs_runtimes s)) \<Longrightarrow>
   ensure_records us s = s"
  by (induction us s rule: ensure_records.induct) (auto simp: list_ex_key)

lemma find_record_ensured:
  "u \<in> set us \<Longrightarrow> find_record (ru_runtime_unit_id u) (ensure_records us s) \<noteq> None"
  using ensure_records_ids [of us s]
  by (auto simp: find_record_def find_None_iff set_eq_iff image_iff) metis

section \<open>One evaluation of the gate\<close>

definition start_refused :: "control_record \<Rightarrow> bool" where
  "start_refused r = (os_lifecycle_state (rc_observed r) \<in> {Blocked, Quarantined}
     \<or> cb_state (rc_circuit_breaker r) = Open)"

text \<open>The parts of an evaluation leave alone what they do not own.\<close>

definition frame :: "control_state \<Rightarrow> control_state \<Rightarrow> bool" where
  "frame s s' = (cs_rollout_mode s' = cs_rollout_mode s \<and> cs_host_pressure s' = cs_host_pressure s
     \<and> map rc_runtime_id (cs_runtimes s') = map rc_runtime_id (cs_runtimes s)
     \<and> (logs_bounded s \<longrightarrow> logs_bounded s'))"

lemma frame_refl [simp]: "frame s s"
  by (simp add: frame_def)

lemma frame_trans: "frame a b \<Longrightarrow> frame b c \<Longrightarrow> frame a c"
  by (simp add: frame_def)

lemma frame_updates [simp]:
  "frame s (put_record r s)" "frame s (record_event e s)" "frame s (record_receipt x s)"
  by (simp_all add: frame_def)

lemma gate_log_event_Inr:
  assumes "gate_log_event w e c g = (g', Inr ())"
  shows "gs_blocked g' = gs_blocked g"
    and "gs_control g' = (if c then record_event e (gs_control g) else gs_control g)"
    and "gs_effects g' = gs_effects g @ (if c then [AppendEvent e] else [])"
  using assms by (auto simp: gate_log_event_def Let_def split: if_splits sum.splits)

lemma gate_log_recovery_fields [simp]:
  "gs_blocked (gate_log_recovery x p n g) = gs_blocked g"
  "gs_effects (gate_log_recovery x p n g) = gs_effects g"
  "find_record rid (gs_control (gate_log_recovery x p n g)) = find_record rid (gs_control g)"
  "frame s (gs_control g) \<Longrightarrow> frame s (gs_control (gate_log_recovery x p n g))"
  by (auto simp: gate_log_recovery_def intro: frame_trans)

lemma gate_enforce_Inr:
  assumes "gate_enforce w u stopped c reason g = (g', Inr ())"
  shows "gs_blocked g' = (if stopped then Some reason else gs_blocked g)"
    and "gs_control g' = gs_control g"
    and "gs_effects g' = gs_effects g @ (if stopped \<and> c then [QuarantineUnit u] else [])"
  using assms by (auto simp: gate_enforce_def Let_def split: if_splits sum.splits)

text \<open>Everything a successful evaluation of one unit does, in one place.\<close>

lemma gate_unit_Inr:
  assumes run: "gate_unit w t u g = (g', Inr ())"
    and found: "find_record (ru_runtime_unit_id u) (gs_control g) = Some r"
  obtains health r1 e c where
    "gw_health w u = Inr health"
    "r1 = record_after w (unit_mode (gs_control g) r) health
       (unit_failure w (unit_mode (gs_control g) r) u health)
       (unit_admission w t (gs_control g) u r) r"
    "e = gate_event w u r (unit_failure w (unit_mode (gs_control g) r) u health)
       (unit_admission w t (gs_control g) u r) (os_lifecycle_state (rc_observed r1))"
    "c \<longleftrightarrow> os_lifecycle_state (rc_observed r) \<noteq> os_lifecycle_state (rc_observed r1)
       \<or> last_reason r \<noteq> ad_reason_code (unit_admission w t (gs_control g) u r)"
    "\<forall>rid. find_record rid (gs_control g') =
       (if rid = ru_runtime_unit_id u then Some (if c then r1\<lparr>rc_last_event := Some e\<rparr> else r1)
        else find_record rid (gs_control g))"
    "frame (gs_control g) (gs_control g')"
    "\<exists>q. gs_effects g' = gs_effects g @ (if c then [AppendEvent e] else []) @ q"
    "must_stop (unit_mode (gs_control g) r) (unit_admission w t (gs_control g) u r)
       (rc_circuit_breaker r1) \<Longrightarrow> gs_blocked g' \<noteq> None"
    "\<not> must_stop (unit_mode (gs_control g) r) (unit_admission w t (gs_control g) u r)
       (rc_circuit_breaker r1) \<Longrightarrow> gs_blocked g' = gs_blocked g"
proof -
  obtain health where h: "gw_health w u = Inr health"
    using run found by (auto simp: gate_unit_def split: sum.splits)
  let ?mode = "unit_mode (gs_control g) r"
  let ?f = "unit_failure w ?mode u health"
  let ?a = "unit_admission w t (gs_control g) u r"
  define r1 where "r1 = record_after w ?mode health ?f ?a r"
  let ?next = "os_lifecycle_state (rc_observed r1)"
  define c where "c \<longleftrightarrow> os_lifecycle_state (rc_observed r) \<noteq> ?next \<or> last_reason r \<noteq> ad_reason_code ?a"
  define e where "e = gate_event w u r ?f ?a ?next"
  from run obtain g2 where
    l: "gate_log_event w e c (g\<lparr>gs_control := put_record r1 (gs_control g)\<rparr>) = (g2, Inr ())" and
    n: "gate_enforce w u (must_stop ?mode ?a (rc_circuit_breaker r1))
      (os_lifecycle_state (rc_observed r) \<noteq> ?next)
      (blocked_text u ?a (cb_quarantine_reason (rc_circuit_breaker r1)))
      (gate_log_recovery (gate_receipt w u (os_lifecycle_state (rc_observed r)) ?f r1)
        (os_lifecycle_state (rc_observed r)) ?next g2) = (g', Inr ())"
    by (auto simp: gate_unit_def found h Let_def c_def e_def r1_def split: prod.splits sum.splits)
  note L = gate_log_event_Inr [OF l] and N = gate_enforce_Inr [OF n]
  have id: "rc_runtime_id r1 = ru_runtime_unit_id u"
    using found by (simp add: r1_def find_record_id)
  have ev: "ev_runtime_id e = ru_runtime_unit_id u" by (simp add: e_def gate_event_def)
  have fr: "frame (gs_control g) (gs_control g2)"
    using frame_trans [OF frame_updates(1) frame_updates(2)] by (simp add: L(2))
  show thesis
  proof (rule that [OF h r1_def e_def c_def])
    show "\<forall>rid. find_record rid (gs_control g') =
       (if rid = ru_runtime_unit_id u then Some (if c then r1\<lparr>rc_last_event := Some e\<rparr> else r1)
        else find_record rid (gs_control g))"
      using ev id found by (simp add: N(2) L(2) record_lookup)
    show "frame (gs_control g) (gs_control g')" using fr by (simp add: N(2))
  qed (auto simp: N(1,3) L(1,3))
qed

text \<open>Errors of an evaluation come from the world only.\<close>

lemma gate_unit_no_error:
  assumes "gw_health w u = Inr h" "\<And>e. gw_append w e = Inr ()" "\<And>v. gw_quarantine w v = Inr ()"
  shows "snd (gate_unit w t u g) = Inr ()"
  using assms
  by (auto simp: gate_unit_def gate_log_event_def gate_enforce_def Let_def
      split: option.split prod.split sum.split)

text \<open>The verdict the gate reaches and the one \<open>runtime_control_allows_start\<close> reads agree.\<close>

lemma denied_lifecycle:
  "\<not> ad_admitted (evaluate_runtime_admission ctx) \<Longrightarrow>
   ad_lifecycle_state (evaluate_runtime_admission ctx) \<in> {Blocked, Quarantined}"
  by (auto simp: evaluate_runtime_admission_def authority_denial_def deny_def Let_def
      split: if_splits option.splits)

lemma start_refused_after:
  assumes "mode = Managed" "\<not> must_stop mode a (rc_circuit_breaker (record_after w mode h f a r))"
  shows "\<not> start_refused (record_after w mode h f a r)"
  using assms
  by (auto simp: must_stop_def start_refused_def record_after_def Let_def reconcile_runtime_state_def)

lemma start_refused_after_stop:
  assumes "must_stop mode (evaluate_runtime_admission ctx)
      (rc_circuit_breaker (record_after w mode h f (evaluate_runtime_admission ctx) r))"
    and "rc_desired_running r"
  shows "start_refused (record_after w mode h f (evaluate_runtime_admission ctx) r)"
  using assms denied_lifecycle [of ctx]
  by (auto simp: must_stop_def start_refused_def record_after_def Let_def reconcile_runtime_state_def)

lemma start_refused_last_event [simp]:
  "start_refused (r\<lparr>rc_last_event := e\<rparr>) = start_refused r"
  by (simp add: start_refused_def)

lemma unit_admission_pressure:
  "evaluate_host_pressure (gw_resources w) None \<in> {Critical, Emergency} \<Longrightarrow>
   \<not> ad_admitted (unit_admission w t s u r)"
  by (auto simp: unit_admission_def evaluate_runtime_admission_def deny_def Let_def)

definition units_known :: "runtime_unit list \<Rightarrow> control_state \<Rightarrow> bool" where
  "units_known us s = (\<forall>u \<in> set us. find_record (ru_runtime_unit_id u) s \<noteq> None)"

text \<open>One unit in \<open>MANAGED\<close> mode: the blocked flag and the verdict of its record move together.\<close>

lemma gate_unit_verdict:
  assumes run: "gate_unit w t u g = (g', Inr ())"
    and known: "find_record (ru_runtime_unit_id u) (gs_control g) = Some r"
    and managed: "cs_rollout_mode (gs_control g) = Managed"
  shows "\<exists>r'. find_record (ru_runtime_unit_id u) (gs_control g') = Some r'
      \<and> (gs_blocked g' = None \<longrightarrow> gs_blocked g = None \<and> \<not> start_refused r'
           \<and> evaluate_host_pressure (gw_resources w) None \<notin> {Critical, Emergency})
      \<and> (gs_blocked g' \<noteq> None \<longrightarrow> rc_desired_running r \<longrightarrow> gs_blocked g \<noteq> None \<or> start_refused r')"
proof -
  from run known obtain health r1 e c where
    r1: "r1 = record_after w (unit_mode (gs_control g) r) health
       (unit_failure w (unit_mode (gs_control g) r) u health)
       (unit_admission w t (gs_control g) u r) r" and
    fnd: "\<forall>rid. find_record rid (gs_control g') =
       (if rid = ru_runtime_unit_id u then Some (if c then r1\<lparr>rc_last_event := Some e\<rparr> else r1)
        else find_record rid (gs_control g))" and
    stop: "must_stop (unit_mode (gs_control g) r) (unit_admission w t (gs_control g) u r)
       (rc_circuit_breaker r1) \<Longrightarrow> gs_blocked g' \<noteq> None" and
    go: "\<not> must_stop (unit_mode (gs_control g) r) (unit_admission w t (gs_control g) u r)
       (rc_circuit_breaker r1) \<Longrightarrow> gs_blocked g' = gs_blocked g"
    by (rule gate_unit_Inr) blast
  have mode: "unit_mode (gs_control g) r = Managed" using managed by (simp add: unit_mode_def)
  let ?a = "unit_admission w t (gs_control g) u r"
  let ?r' = "if c then r1\<lparr>rc_last_event := Some e\<rparr> else r1"
  have same: "start_refused ?r' = start_refused r1" by simp
  show ?thesis
  proof (cases "must_stop Managed ?a (rc_circuit_breaker r1)")
    case True
    moreover have "rc_desired_running r \<Longrightarrow> start_refused r1"
      using True start_refused_after_stop unfolding r1 mode unit_admission_def by blast
    ultimately show ?thesis using stop fnd same mode by auto
  next
    case False
    then have "\<not> start_refused r1" unfolding r1 mode by (rule start_refused_after [OF refl])
    moreover have "evaluate_host_pressure (gw_resources w) None \<notin> {Critical, Emergency}"
      using False unit_admission_pressure [of w t "gs_control g" u r] by (auto simp: must_stop_def)
    ultimately show ?thesis using False go fnd same mode by auto
  qed
qed

lemma gate_unit_frame:
  assumes run: "gate_unit w t u g = (g', Inr ())"
    and known: "find_record (ru_runtime_unit_id u) (gs_control g) \<noteq> None"
  shows "frame (gs_control g) (gs_control g')"
    and "rid \<noteq> ru_runtime_unit_id u \<Longrightarrow>
         find_record rid (gs_control g') = find_record rid (gs_control g)"
    and "find_record (ru_runtime_unit_id u) (gs_control g') \<noteq> None"
proof -
  obtain r where r: "find_record (ru_runtime_unit_id u) (gs_control g) = Some r" using known by auto
  show "frame (gs_control g) (gs_control g')" by (rule gate_unit_Inr [OF run r])
  show "rid \<noteq> ru_runtime_unit_id u \<Longrightarrow>
      find_record rid (gs_control g') = find_record rid (gs_control g)"
    by (rule gate_unit_Inr [OF run r]) simp
  show "find_record (ru_runtime_unit_id u) (gs_control g') \<noteq> None"
    by (rule gate_unit_Inr [OF run r]) simp
qed

lemma gate_units_frame:
  "gate_units w t us g = (g', Inr ()) \<Longrightarrow> units_known us (gs_control g) \<Longrightarrow>
     frame (gs_control g) (gs_control g')
     \<and> (\<forall>rid. rid \<notin> ru_runtime_unit_id ` set us \<longrightarrow>
          find_record rid (gs_control g') = find_record rid (gs_control g))"
proof (induction us arbitrary: g)
  case Nil
  then show ?case by simp
next
  case (Cons u us)
  then obtain g1 where u: "gate_unit w t u g = (g1, Inr ())" and us: "gate_units w t us g1 = (g', Inr ())"
    by (auto split: prod.splits sum.splits)
  have k: "find_record (ru_runtime_unit_id u) (gs_control g) \<noteq> None"
    using Cons.prems(2) by (simp add: units_known_def)
  note F = gate_unit_frame [OF u k]
  have "units_known us (gs_control g1)"
    using Cons.prems(2) F(2,3) by (auto simp: units_known_def) (metis F(2,3) option.exhaust)
  from Cons.IH [OF us this] F show ?case by (auto intro: frame_trans)
qed

lemma gate_units_verdict:
  "gate_units w t us g = (g', Inr ()) \<Longrightarrow> units_known us (gs_control g) \<Longrightarrow>
   distinct (map ru_runtime_unit_id us) \<Longrightarrow> cs_rollout_mode (gs_control g) = Managed \<Longrightarrow>
     (gs_blocked g' = None \<longrightarrow> gs_blocked g = None \<and>
        (\<forall>u \<in> set us. \<exists>r. find_record (ru_runtime_unit_id u) (gs_control g') = Some r
           \<and> \<not> start_refused r \<and> evaluate_host_pressure (gw_resources w) None \<notin> {Critical, Emergency}))
   \<and> (gs_blocked g' \<noteq> None \<longrightarrow> gs_blocked g = None \<longrightarrow>
       (\<forall>u \<in> set us. \<forall>r. find_record (ru_runtime_unit_id u) (gs_control g) = Some r \<longrightarrow> rc_desired_running r) \<longrightarrow>
        (\<exists>u \<in> set us. \<exists>r. find_record (ru_runtime_unit_id u) (gs_control g') = Some r \<and> start_refused r))"
proof (induction us arbitrary: g)
  case Nil
  then show ?case by simp
next
  case (Cons u us)
  then obtain g1 where u: "gate_unit w t u g = (g1, Inr ())" and us: "gate_units w t us g1 = (g', Inr ())"
    by (auto split: prod.splits sum.splits)
  obtain r where r: "find_record (ru_runtime_unit_id u) (gs_control g) = Some r"
    using Cons.prems(2) by (auto simp: units_known_def)
  note F = gate_unit_frame [OF u, unfolded r, simplified]
  have other: "v \<in> set us \<Longrightarrow> ru_runtime_unit_id v \<noteq> ru_runtime_unit_id u" for v
    using Cons.prems(3) by (auto simp: image_iff)
  have known: "units_known us (gs_control g1)"
    using Cons.prems(2) F(2) other by (auto simp: units_known_def)
  have "cs_rollout_mode (gs_control g1) = Managed" using F(1) Cons.prems(4) by (simp add: frame_def)
  note IH = Cons.IH [OF us known _ this]
  from gate_unit_verdict [OF u r Cons.prems(4)] obtain r' where
    r': "find_record (ru_runtime_unit_id u) (gs_control g1) = Some r'" and
    none: "gs_blocked g1 = None \<longrightarrow> gs_blocked g = None \<and> \<not> start_refused r'
           \<and> evaluate_host_pressure (gw_resources w) None \<notin> {Critical, Emergency}" and
    some: "gs_blocked g1 \<noteq> None \<longrightarrow> rc_desired_running r \<longrightarrow> gs_blocked g \<noteq> None \<or> start_refused r'"
    by (elim exE conjE) (rule that)
  have final: "find_record (ru_runtime_unit_id u) (gs_control g') = Some r'"
    using gate_units_frame [OF us known] Cons.prems(3) r' by simp
  have same: "v \<in> set us \<Longrightarrow>
      find_record (ru_runtime_unit_id v) (gs_control g1) = find_record (ru_runtime_unit_id v) (gs_control g)" for v
    using F(2) other by blast
  have dist: "distinct (map ru_runtime_unit_id us)" using Cons.prems(3) by simp
  show ?case
  proof (intro conjI impI)
    assume b: "gs_blocked g' = None"
    with IH [OF dist] have g1: "gs_blocked g1 = None" by blast
    then show "gs_blocked g = None" using none by blast
    show "\<forall>u \<in> set (u # us). \<exists>r. find_record (ru_runtime_unit_id u) (gs_control g') = Some r
       \<and> \<not> start_refused r \<and> evaluate_host_pressure (gw_resources w) None \<notin> {Critical, Emergency}"
      using IH [OF dist] b none g1 final by simp
  next
    assume b: "gs_blocked g' \<noteq> None" and n: "gs_blocked g = None" and
      d: "\<forall>u \<in> set (u # us). \<forall>r. find_record (ru_runtime_unit_id u) (gs_control g) = Some r \<longrightarrow>
        rc_desired_running r"
    show "\<exists>u \<in> set (u # us). \<exists>r. find_record (ru_runtime_unit_id u) (gs_control g') = Some r
        \<and> start_refused r"
    proof (cases "gs_blocked g1 = None")
      case True
      have "\<forall>u \<in> set us. \<forall>r. find_record (ru_runtime_unit_id u) (gs_control g1) = Some r \<longrightarrow>
          rc_desired_running r" using d same by simp
      then show ?thesis using IH [OF dist] b True by auto
    next
      case False
      then have "start_refused r'" using some d r n by simp
      then show ?thesis using final by simp
    qed
  qed
qed

text \<open>What a run of the whole gate leaves behind.\<close>

lemma reconcile_control_gate_Inr:
  assumes "reconcile_control_gate w write (Some (Inr s)) t label = (effs, Inr (final, report))"
  obtains g where "gate_units w t (rt_units t) (gate_start w t s) = (g, Inr ())"
    "final = control_heartbeat (gw_now w) (gs_control g)" "effs = gs_effects g"
    "report = map_option (blocked_report label) (gs_blocked g)"
    "control_validate s = Inr ()" "control_validate final = Inr ()"
  using assms
  by (auto simp: reconcile_control_gate_def load_control_state_def persist_control_state_def
      result_simps Let_def split: sum.splits prod.splits)

lemma units_known_start: "units_known (rt_units t) (gs_control (gate_start w t s))"
  using find_record_ensured [of _ "rt_units t" s] by (auto simp: units_known_def gate_start_def)

lemma find_record_heartbeat [simp]:
  "find_record rid (control_heartbeat now s) = find_record rid s"
  "cs_rollout_mode (control_heartbeat now s) = cs_rollout_mode s"
  "logs_bounded (control_heartbeat now s) = logs_bounded s"
  by (simp_all add: control_heartbeat_def find_record_def logs_bounded_def)

lemma ensured_desired:
  "\<forall>r \<in> set (cs_runtimes s). rc_desired_running r \<Longrightarrow>
   find_record rid (ensure_records us s) = Some r \<Longrightarrow> rc_desired_running r"
  using ensure_records_extends [of us s] by (fastforce simp: find_record_def dest!: find_SomeD)

lemma allows_start_managed:
  assumes "control_validate s = Inr ()" "cs_rollout_mode s = Managed"
    and "find_record rid s = Some r"
  shows "control_allows_start (Some (Inr s)) dep now resources (Some rid) = Inr () \<longleftrightarrow>
    evaluate_host_pressure resources None \<notin> {Critical, Emergency} \<and> \<not> start_refused r"
  using assms
  by (simp add: control_allows_start_def load_control_state_def start_refused_def)

section \<open>Properties\<close>

text \<open>
  C4. The gate and the start permission agree: after a run of the gate over a \<open>MANAGED\<close>
  deployment that wants its units running, the report lets the start proceed exactly when
  \<open>runtime_control_allows_start\<close>, reading the state the gate has written, permits every unit of
  the topology. A unit that was denied, or whose circuit is open, is therefore refused by both.
\<close>

theorem gate_agrees_with_start_permission:
  assumes run: "reconcile_control_gate w write (Some (Inr s)) t label = (effs, Inr (final, report))"
    and managed: "cs_rollout_mode s = Managed"
    and wanted: "\<forall>r \<in> set (cs_runtimes s). rc_desired_running r"
    and units: "distinct (map ru_runtime_unit_id (rt_units t))"
  shows "report = None \<longleftrightarrow> (\<forall>u \<in> set (rt_units t).
    control_allows_start (Some (Inr final)) dep now (gw_resources w) (Some (ru_runtime_unit_id u)) = Inr ())"
proof -
  from run obtain g where
    g: "gate_units w t (rt_units t) (gate_start w t s) = (g, Inr ())" and
    final: "final = control_heartbeat (gw_now w) (gs_control g)" and
    report: "report = map_option (blocked_report label) (gs_blocked g)" and
    valid: "control_validate final = Inr ()"
    by (rule reconcile_control_gate_Inr)
  have m: "cs_rollout_mode (gs_control (gate_start w t s)) = Managed"
    using managed by (simp add: gate_start_def)
  have mf: "cs_rollout_mode final = Managed"
    using gate_units_frame [OF g units_known_start] m by (simp add: frame_def final)
  have want: "\<forall>u \<in> set (rt_units t). \<forall>r. find_record (ru_runtime_unit_id u)
      (gs_control (gate_start w t s)) = Some r \<longrightarrow> rc_desired_running r"
    using ensured_desired [OF wanted] by (auto simp: gate_start_def)
  note V = gate_units_verdict [OF g units_known_start units m]
  have start: "gs_blocked (gate_start w t s) = None" by (simp add: gate_start_def)
  have allow: "control_allows_start (Some (Inr final)) dep now (gw_resources w) (Some rid) = Inr ()
      \<longleftrightarrow> evaluate_host_pressure (gw_resources w) None \<notin> {Critical, Emergency} \<and> \<not> start_refused r"
    if "find_record rid (gs_control g) = Some r" for rid r
    using allows_start_managed [OF valid mf] that by (simp add: final)
  show ?thesis
  proof
    assume "report = None"
    then have "gs_blocked g = None" by (simp add: report)
    then show "\<forall>u \<in> set (rt_units t). control_allows_start (Some (Inr final)) dep now (gw_resources w)
        (Some (ru_runtime_unit_id u)) = Inr ()"
      using V allow by blast
  next
    assume all: "\<forall>u \<in> set (rt_units t). control_allows_start (Some (Inr final)) dep now (gw_resources w)
        (Some (ru_runtime_unit_id u)) = Inr ()"
    show "report = None"
    proof (rule ccontr)
      assume "report \<noteq> None"
      then have "gs_blocked g \<noteq> None" by (simp add: report)
      then obtain u r where "u \<in> set (rt_units t)"
        "find_record (ru_runtime_unit_id u) (gs_control g) = Some r" "start_refused r"
        using V start want by blast
      then show False using all allow by blast
    qed
  qed
qed

text \<open>A deployment of two units on a host that is out of memory.\<close>

definition unit_example :: "string \<Rightarrow> string \<Rightarrow> runtime_unit" where
  "unit_example rid cap = \<lparr>ru_runtime_unit_id = rid, ru_capability = cap, ru_compose_project = rid,
     ru_compose_file = cap, ru_depends_on = [], ru_startup_cohort = startup_cohort_of cap,
     ru_startup_gate = startup_gate_of cap, ru_binding = binding_for ''/srv'' rid cap rid,
     ru_resources = resource_budget cap\<rparr>"

definition gate_topology_example :: runtime_topology where
  "gate_topology_example = \<lparr>rt_schema = 3, rt_host_installation_id = ''h'', rt_host_id = None,
     rt_deployment_id = ''d'', rt_deployment_code = ''c'', rt_deployment_network_name = ''n'',
     rt_fabric = fabric_example,
     rt_units = [unit_example ''u1'' ''agent'', unit_example ''u2'' ''telemetry'']\<rparr>"

definition world_example :: gate_world where
  "world_example = \<lparr>gw_now = 1000,
     gw_resources = resource_snapshot_default\<lparr>rs_memory_available_bytes := Some 0\<rparr>,
     gw_health = (\<lambda>u. Inr \<lparr>uh_runtime_unit_id = ru_runtime_unit_id u, uh_capability = ru_capability u,
       uh_compose_project = ru_compose_project u, uh_state = ''ready'', uh_commissioned = True,
       uh_total_services = 1, uh_alive_services = 1, uh_ready_services = 1, uh_failures = []\<rparr>),
     gw_logs = (\<lambda>_. None), gw_append = (\<lambda>_. Inr ()), gw_quarantine = (\<lambda>_. Inr ())\<rparr>"

definition managed_example :: control_state where
  "managed_example = (control_state_new ''d'' 0)\<lparr>cs_rollout_mode := Managed\<rparr>"

definition gate_example ::
  "gate_effect list \<times> (string + control_state \<times> reconcile_report option)" where
  "gate_example = reconcile_control_gate world_example (\<lambda>_. Inr ()) (Some (Inr managed_example))
     gate_topology_example ''node''"

definition effect_names :: "gate_effect list \<Rightarrow> string list" where
  "effect_names effs = map (\<lambda>e. case e of AppendEvent x \<Rightarrow> ev_event_type x
     | QuarantineUnit u \<Rightarrow> ru_runtime_unit_id u) effs"

lemma gate_example_blocks:
  "case gate_example of (effs, r) \<Rightarrow> effect_names effs
     = [''RUNTIME_ADMISSION_DENIED'', ''u1'', ''RUNTIME_ADMISSION_DENIED'', ''u2'']
     \<and> (case r of Inr (final, rep) \<Rightarrow> rep \<noteq> None | Inl _ \<Rightarrow> False)"
  by code_simp

theorem gate_agrees_with_start_permission_witness:
  "\<exists>effs final rep. gate_example = (effs, Inr (final, Some rep))
     \<and> (\<exists>u \<in> set (rt_units gate_topology_example).
          control_allows_start (Some (Inr final)) [] 0 (gw_resources world_example)
            (Some (ru_runtime_unit_id u)) \<noteq> Inr ())"
proof -
  obtain effs r where e: "gate_example = (effs, r)" by (rule prod.exhaust)
  obtain final rep where "r = Inr (final, Some rep)"
    using gate_example_blocks [unfolded e] by (cases r) auto
  then have g: "gate_example = (effs, Inr (final, Some rep))" using e by simp
  have "\<forall>r \<in> set (cs_runtimes managed_example). rc_desired_running r"
    "cs_rollout_mode managed_example = Managed"
    "distinct (map ru_runtime_unit_id (rt_units gate_topology_example))" by code_simp+
  from gate_agrees_with_start_permission [OF g [unfolded gate_example_def] this(2,1,3), of "[]" 0]
  show ?thesis using g by auto
qed

text \<open>
  A failing unit fills the event log: once an event with a reason has been recorded for a
  unit, every further evaluation that admits the unit while its health check keeps failing
  appends one more event to the log file and again leaves a reason in the record, even though
  nothing changed. The comparison that should keep repeated events out looks at the admission's
  reason only, while the event stores the reason of the failure when the admission has none.
\<close>

theorem failing_unit_logs_every_run:
  assumes run: "gate_unit w t u g = (g', Inr ())"
    and found: "find_record (ru_runtime_unit_id u) (gs_control g) = Some r"
    and reason: "last_reason r \<noteq> None"
    and admitted: "ad_reason_code (unit_admission w t (gs_control g) u r) = None"
    and failing: "\<And>h. gw_health w u = Inr h \<Longrightarrow> unit_failure w (unit_mode (gs_control g) r) u h \<noteq> None"
  shows "\<exists>e q r'. gs_effects g' = gs_effects g @ AppendEvent e # q
    \<and> find_record (ru_runtime_unit_id u) (gs_control g') = Some r' \<and> last_reason r' \<noteq> None
    \<and> rc_manifest r' = rc_manifest r"
proof -
  from run found obtain health r1 e c where
    h: "gw_health w u = Inr health" and
    r1: "r1 = record_after w (unit_mode (gs_control g) r) health
       (unit_failure w (unit_mode (gs_control g) r) u health)
       (unit_admission w t (gs_control g) u r) r" and
    e: "e = gate_event w u r (unit_failure w (unit_mode (gs_control g) r) u health)
       (unit_admission w t (gs_control g) u r) (os_lifecycle_state (rc_observed r1))" and
    c: "c \<longleftrightarrow> os_lifecycle_state (rc_observed r) \<noteq> os_lifecycle_state (rc_observed r1)
       \<or> last_reason r \<noteq> ad_reason_code (unit_admission w t (gs_control g) u r)" and
    fnd: "\<forall>rid. find_record rid (gs_control g') =
       (if rid = ru_runtime_unit_id u then Some (if c then r1\<lparr>rc_last_event := Some e\<rparr> else r1)
        else find_record rid (gs_control g))" and
    eff: "\<exists>q. gs_effects g' = gs_effects g @ (if c then [AppendEvent e] else []) @ q"
    by (rule gate_unit_Inr)
  have c: c using c reason admitted by simp
  have "ev_reason_code e \<noteq> None"
    using failing [OF h] admitted by (auto simp: e gate_event_def)
  then have "last_reason (r1\<lparr>rc_last_event := Some e\<rparr>) \<noteq> None" by (simp add: last_reason_def)
  moreover have "rc_manifest (r1\<lparr>rc_last_event := Some e\<rparr>) = rc_manifest r" by (simp add: r1)
  ultimately show ?thesis using eff fnd c by auto
qed

definition failing_world :: gate_world where
  "failing_world = world_example\<lparr>gw_resources := resource_snapshot_default,
     gw_health := (\<lambda>u. Inr \<lparr>uh_runtime_unit_id = [], uh_capability = [], uh_compose_project = [],
       uh_state = ''x'', uh_commissioned = True, uh_total_services = 1, uh_alive_services = 1,
       uh_ready_services = 0, uh_failures = [''x'']\<rparr>)\<rparr>"

definition noted_event :: runtime_event where
  "noted_event = \<lparr>ev_event_type = ''RUNTIME_STARTED'', ev_runtime_id = ''u1'',
     ev_capability = ''agent'', ev_reason_code = Some ''UNKNOWN_FAILURE'', ev_timestamp = 1,
     ev_generation = None, ev_authority_generation = None, ev_detail = []\<rparr>"

definition noted_record :: control_record where
  "noted_record = (control_record_new Legacy (unit_example ''u1'' ''agent''))
     \<lparr>rc_last_event := Some noted_event\<rparr>"

definition noted_state :: gate_state where
  "noted_state = \<lparr>gs_control = (control_state_new ''d'' 0)\<lparr>cs_runtimes := [noted_record]\<rparr>,
     gs_blocked = None, gs_effects = []\<rparr>"

lemma failing_world_fails:
  "unit_failure failing_world Legacy (unit_example ''u1'' ''agent'')
     (projr (gw_health failing_world (unit_example ''u1'' ''agent''))) \<noteq> None"
  by code_simp

theorem failing_unit_logs_every_run_witness:
  "\<exists>e q. gs_effects (fst (gate_unit failing_world gate_topology_example
     (unit_example ''u1'' ''agent'') noted_state)) = AppendEvent e # q"
proof -
  let ?u = "unit_example ''u1'' ''agent''"
  have ok: "snd (gate_unit failing_world gate_topology_example ?u noted_state) = Inr ()"
    by (rule gate_unit_no_error) (simp_all add: failing_world_def world_example_def)
  have f: "find_record (ru_runtime_unit_id ?u) (gs_control noted_state) = Some noted_record"
    by (simp add: find_record_def noted_state_def noted_record_def)
  have m: "unit_mode (gs_control noted_state) noted_record = Legacy" by code_simp
  have a: "ad_reason_code (unit_admission failing_world gate_topology_example
      (gs_control noted_state) ?u noted_record) = None" by code_simp
  have l: "last_reason noted_record \<noteq> None" by code_simp
  have "\<exists>e q r'. gs_effects (fst (gate_unit failing_world gate_topology_example ?u noted_state))
      = gs_effects noted_state @ AppendEvent e # q
    \<and> find_record (ru_runtime_unit_id ?u) (gs_control (fst (gate_unit failing_world
        gate_topology_example ?u noted_state))) = Some r'
    \<and> last_reason r' \<noteq> None \<and> rc_manifest r' = rc_manifest noted_record"
  proof (rule failing_unit_logs_every_run [OF _ f l a])
    show "gate_unit failing_world gate_topology_example ?u noted_state
        = (fst (gate_unit failing_world gate_topology_example ?u noted_state), Inr ())"
      using ok by (metis prod.collapse)
    show "unit_failure failing_world (unit_mode (gs_control noted_state) noted_record) ?u h \<noteq> None"
      if "gw_health failing_world ?u = Inr h" for h
      using failing_world_fails that m by simp
  qed
  moreover have "gs_effects noted_state = []" by (simp add: noted_state_def)
  ultimately show ?thesis by auto
qed

text \<open>
  Control records are created once and never lost: for a valid state, registering the units
  of a topology keeps every existing record in its place, gives every unit a record, adds
  nothing else, keeps the state valid, and registering them again changes nothing.
\<close>

theorem ensure_records_once:
  assumes "control_validate s = Inr ()"
  shows "control_validate (ensure_records us s) = Inr ()
    \<and> (\<exists>new. cs_runtimes (ensure_records us s) = cs_runtimes s @ new)
    \<and> set (map rc_runtime_id (cs_runtimes (ensure_records us s)))
        = set (map rc_runtime_id (cs_runtimes s)) \<union> set (map ru_runtime_unit_id us)
    \<and> ensure_records us (ensure_records us s) = ensure_records us s"
proof (intro conjI)
  have "distinct (map rc_runtime_id (cs_runtimes s))"
    using assms by (intro card_distinct) (simp add: control_validate_def split: if_splits)
  then have "distinct (map rc_runtime_id (cs_runtimes (ensure_records us s)))"
    by (rule ensure_records_distinct)
  from distinct_card [OF this]
  show "control_validate (ensure_records us s) = Inr ()"
    using assms by (simp add: control_validate_def split: if_splits)
  show "\<exists>new. cs_runtimes (ensure_records us s) = cs_runtimes s @ new"
    using ensure_records_extends [of us s] by blast
  show "set (map rc_runtime_id (cs_runtimes (ensure_records us s)))
        = set (map rc_runtime_id (cs_runtimes s)) \<union> set (map ru_runtime_unit_id us)"
    by (rule ensure_records_ids)
  show "ensure_records us (ensure_records us s) = ensure_records us s"
    by (rule ensure_records_idem_aux) (simp add: ensure_records_ids [simplified])
qed

theorem ensure_records_once_witness:
  "control_validate (ensure_records (rt_units gate_topology_example) managed_example) = Inr ()"
  by (rule ensure_records_once [THEN conjunct1]) code_simp

text \<open>
  The durable log is a bounded, most-recent-first view: whatever events are recorded, at most
  256 are kept, the snapshot shows the latest 32 of them, newest first, and nothing is lost
  between the cap and the view.
\<close>

theorem snapshot_shows_latest_events:
  "cs_events (fold record_event es (control_state_new node now)) = drop (length es - 256) es
    \<and> sn_recent_events (control_snapshot_of (fold record_event es (control_state_new node now)))
        = take 32 (rev es)"
proof -
  have e: "cs_events (fold record_event es (control_state_new node now)) = drop (length es - 256) es"
    using events.fold_push_entries [of "control_state_new node now" es]
    by (simp add: control_state_new_def)
  have "take 32 (rev (drop (length es - 256) es)) = take 32 (take 256 (rev es))"
    by (cases "length es \<le> 256") (simp_all add: take_rev min_def)
  then show ?thesis using e by (simp add: control_snapshot_of_def min_def)
qed

end
