(* ===== verification/Workload_Error.thy ===== *)
theory Workload_Error
  imports Rust_Prelude
begin

text \<open>
  \<open>WorkloadError\<close> of \<^verbatim>\<open>actium-node-core/src/workload_runtime/mod.rs\<close>, the error type of the
  workload runtime, with its \<open>Display\<close> text (which the reconciler stores in receipts and in the
  journal).
\<close>

datatype workload_error =
    InvalidDigestFormat string
  | DuplicateIdentifierRejected string string
  | SerializationError string
  | ValidationFailed string
  | ProfileVersionDigestConflict string string string string
  | DatabaseError string
  | MutationBusy string string
  | ActiveOperationConflict string string string
  | StateError string
  | ExecutionError string
  | BackendError string
  | HealthCheckFailed string
  | RollbackFailed string
  | Unauthorized string
  | NonceReplay string
  | GenerationRegression string u64 u64
  | GenerationDigestConflict string u64 string string
  | SecretNotFound string
  | ReadinessCheckFailed string

definition quoted :: "string \<Rightarrow> string" where
  "quoted s = CHR 0x27 # s @ [CHR 0x27]"

fun show_workload_error :: "workload_error \<Rightarrow> string" where
  "show_workload_error (SecretNotFound m) = ''Secret not found: '' @ m"
| "show_workload_error (ReadinessCheckFailed m) = ''Readiness check failed: '' @ m"
| "show_workload_error (InvalidDigestFormat m) = ''Invalid digest format: '' @ m"
| "show_workload_error (DuplicateIdentifierRejected entity i) =
     ''Duplicate '' @ entity @ '' identifier rejected: '' @ quoted i"
| "show_workload_error (SerializationError m) = ''Serialization error: '' @ m"
| "show_workload_error (ValidationFailed m) = ''Validation failed: '' @ m"
| "show_workload_error (ProfileVersionDigestConflict p v e n) =
     ''Digest conflict for profile '' @ quoted (p @ ''@'' @ v) @ '': existing '' @ quoted e
       @ '', new '' @ quoted n"
| "show_workload_error (DatabaseError m) = ''Database error: '' @ m"
| "show_workload_error (MutationBusy d a) =
     ''Deployment '' @ quoted d @ '' is busy with active operation '' @ quoted a"
| "show_workload_error (ActiveOperationConflict d oid detail) =
     ''Active operation conflict on deployment '' @ quoted d @ '' (op '' @ quoted oid @ ''): '' @ detail"
| "show_workload_error (StateError m) = ''State error: '' @ m"
| "show_workload_error (ExecutionError m) = ''Execution error: '' @ m"
| "show_workload_error (BackendError m) = ''Backend error: '' @ m"
| "show_workload_error (HealthCheckFailed m) = ''Health check failed: '' @ m"
| "show_workload_error (RollbackFailed m) = ''Rollback failed: '' @ m"
| "show_workload_error (Unauthorized m) = ''Unauthorized: '' @ m"
| "show_workload_error (NonceReplay n) = ''Nonce replay detected: '' @ quoted n"
| "show_workload_error (GenerationRegression d t h) =
     ''Generation regression on deployment '' @ quoted d @ '': target '' @ show_word t
       @ '' < highest '' @ show_word h"
| "show_workload_error (GenerationDigestConflict d g e n) =
     ''Generation digest conflict on deployment '' @ quoted d @ '' gen '' @ show_word g
       @ '': existing '' @ quoted e @ '', new '' @ quoted n"

end
