(* ===== verification/Canonical_Json.thy ===== *)
theory Canonical_Json
  imports Workload_Error "HOL-Library.Multiset"
begin

text \<open>
  JSON values and their canonical text: \<open>canonical_json\<close> of
  \<^verbatim>\<open>actium-node-core/src/attestation.rs\<close>, \<open>rfc8785_canonical_json\<close> and
  \<open>semantic_normalize_value\<close> of \<^verbatim>\<open>workload_runtime/canonical.rs\<close>, and the digest format of
  the latter. Every signature and digest of the program is taken over such a text.

  The crate \<open>serde_json\<close> is outside the model: its string literals are the parameter \<open>esc\<close>, a
  finite float is given by the text the crate prints for it, and an object is the list of its
  members in the order in which the crate's map yields them. What the injectivity theorem needs
  of \<open>esc\<close> is that string literals can be told apart from what follows them
  (\<open>self_delimiting\<close>).
\<close>

section \<open>Values\<close>

datatype json_number = PosInt u64 | NegInt int | Float string

datatype json =
    JNull | JBool bool | JNumber json_number | JString string
  | JArray "json list" | JObject "(string \<times> json) list"

fun number_text :: "json_number \<Rightarrow> string" where
  "number_text (PosInt n) = show_word n"
| "number_text (NegInt i) = ''-'' @ show_nat (nat (- i))"
| "number_text (Float t) = t"

definition member_text :: "(string \<Rightarrow> string) \<Rightarrow> string \<times> string \<Rightarrow> string" where
  "member_text esc kv = esc (fst kv) @ '':'' @ snd kv"

text \<open>
  The two canonicalisers. Serialising a \<open>String\<close> cannot fail, so neither has an error; the
  second one asks a number for \<open>as_i64\<close>, \<open>as_u64\<close> and \<open>as_f64\<close> in turn.
\<close>

fun canonical_json :: "(string \<Rightarrow> string) \<Rightarrow> json \<Rightarrow> string" where
  "canonical_json esc JNull = ''null''"
| "canonical_json esc (JBool b) = (if b then ''true'' else ''false'')"
| "canonical_json esc (JNumber n) = number_text n"
| "canonical_json esc (JString s) = esc s"
| "canonical_json esc (JArray vs) = ''['' @ join '','' (map (canonical_json esc) vs) @ '']''"
| "canonical_json esc (JObject kvs) = ''{'' @
     join '','' (map (member_text esc)
       (sort_key fst (map (map_prod (\<lambda>k. k) (canonical_json esc)) kvs))) @ ''}''"

definition as_i64 :: "json_number \<Rightarrow> int option" where
  "as_i64 n = (case n of
     PosInt u \<Rightarrow> if unat u < 2 ^ 63 then Some (int (unat u)) else None
   | NegInt i \<Rightarrow> Some i
   | Float _ \<Rightarrow> None)"

definition as_u64 :: "json_number \<Rightarrow> u64 option" where
  "as_u64 n = (case n of PosInt u \<Rightarrow> Some u | _ \<Rightarrow> None)"

definition show_int :: "int \<Rightarrow> string" where
  "show_int i = (if i < 0 then ''-'' @ show_nat (nat (- i)) else show_nat (nat i))"

definition rfc8785_number :: "json_number \<Rightarrow> string" where
  "rfc8785_number n = (case as_i64 n of
     Some i \<Rightarrow> show_int i
   | None \<Rightarrow> (case as_u64 n of
       Some u \<Rightarrow> show_word u
     | None \<Rightarrow> number_text n))"

fun push_items :: "bool \<Rightarrow> string \<Rightarrow> string list \<Rightarrow> string" where
  "push_items first out [] = out"
| "push_items first out (t # ts) = push_items False ((if first then out else out @ '','') @ t) ts"

fun rfc8785_canonical_json :: "(string \<Rightarrow> string) \<Rightarrow> json \<Rightarrow> string" where
  "rfc8785_canonical_json esc JNull = ''null''"
| "rfc8785_canonical_json esc (JBool b) = (if b then ''true'' else ''false'')"
| "rfc8785_canonical_json esc (JNumber n) = rfc8785_number n"
| "rfc8785_canonical_json esc (JString s) = esc s"
| "rfc8785_canonical_json esc (JArray vs) =
     push_items True ''['' (map (rfc8785_canonical_json esc) vs) @ '']''"
| "rfc8785_canonical_json esc (JObject kvs) =
     push_items True ''{'' (map (member_text esc)
       (sort_key fst (map (map_prod (\<lambda>k. k) (rfc8785_canonical_json esc)) kvs))) @ ''}''"

section \<open>The canonical text identifies the value\<close>

text \<open>Values up to the order of their members, and the text without sorting.\<close>

fun sort_members :: "json \<Rightarrow> json" where
  "sort_members (JArray vs) = JArray (map sort_members vs)"
| "sort_members (JObject kvs) = JObject (sort_key fst (map (map_prod (\<lambda>k. k) sort_members) kvs))"
| "sort_members v = v"

fun json_text :: "(string \<Rightarrow> string) \<Rightarrow> json \<Rightarrow> string" where
  "json_text esc JNull = ''null''"
| "json_text esc (JBool b) = (if b then ''true'' else ''false'')"
| "json_text esc (JNumber n) = number_text n"
| "json_text esc (JString s) = esc s"
| "json_text esc (JArray vs) = ''['' @ join '','' (map (json_text esc) vs) @ '']''"
| "json_text esc (JObject kvs) = ''{'' @
     join '','' (map (member_text esc) (map (map_prod (\<lambda>k. k) (json_text esc)) kvs)) @ ''}''"

definition delim :: "char \<Rightarrow> bool" where
  "delim c = (c = CHR '','' \<or> c = CHR '']'' \<or> c = CHR ''}'')"

definition numeric_char :: "char \<Rightarrow> bool" where
  "numeric_char c = (is_ascii_digit c \<or> c = CHR ''-'')"

fun number_ok :: "json_number \<Rightarrow> bool" where
  "number_ok (PosInt n) = True"
| "number_ok (NegInt i) = (i < 0)"
| "number_ok (Float t) = (t \<noteq> [] \<and> numeric_char (hd t) \<and> list_all (\<lambda>c. \<not> delim c) t
     \<and> list_ex (\<lambda>c. \<not> numeric_char c) t)"

fun json_ok :: "json \<Rightarrow> bool" where
  "json_ok (JNumber n) = number_ok n"
| "json_ok (JArray vs) = list_all json_ok vs"
| "json_ok (JObject kvs) = (list_all (\<lambda>kv. json_ok (snd kv)) kvs \<and> distinct (map fst kvs))"
| "json_ok v = True"

definition self_delimiting :: "(string \<Rightarrow> string) \<Rightarrow> bool" where
  "self_delimiting esc = ((\<forall>s. \<exists>r. esc s = CHR 0x22 # r)
     \<and> (\<forall>s t x y. esc s @ x = esc t @ y \<longrightarrow> s = t))"

lemma self_delimitingD:
  assumes "self_delimiting esc" "esc s @ x = esc t @ y"
  shows "s = t" "x = y"
proof -
  show "s = t" using assms unfolding self_delimiting_def by blast
  then show "x = y" using assms(2) by simp
qed

lemma push_items_later: "push_items False out ts = out @ concat (map (\<lambda>z. '','' @ z) ts)"
  by (induction ts arbitrary: out) auto

lemma push_items_join: "push_items True out ts = out @ join '','' ts"
  by (cases ts) (simp_all add: push_items_later join_Cons)

lemma rfc8785_number_text: "number_ok n \<Longrightarrow> rfc8785_number n = number_text n"
  by (cases n) (auto simp: rfc8785_number_def as_i64_def as_u64_def show_int_def show_word_def)

lemma sort_key_map_prod_fst:
  "sort_key fst (map (map_prod (\<lambda>k. k) f) kvs) = map (map_prod (\<lambda>k. k) f) (sort_key fst kvs)"
proof -
  have ins: "insort_key fst (map_prod (\<lambda>k. k) f x) (map (map_prod (\<lambda>k. k) f) xs)
      = map (map_prod (\<lambda>k. k) f) (insort_key fst x xs)" for x and xs
    by (induction xs) auto
  show ?thesis by (induction kvs) (simp_all add: ins)
qed

lemma map_prod_cong_snd:
  "(\<And>kv. kv \<in> set kvs \<Longrightarrow> f (snd kv) = g (snd kv)) \<Longrightarrow>
   map (map_prod (\<lambda>k. k) f) kvs = map (map_prod (\<lambda>k. k) g) kvs"
  by (auto simp: map_prod_def case_prod_beta)

lemma map_map_prod:
  "map (map_prod (\<lambda>k. k) f) (map (map_prod (\<lambda>k. k) g) kvs) = map (map_prod (\<lambda>k. k) (\<lambda>x. f (g x))) kvs"
  by (induction kvs) auto

lemma canonical_json_eq: "canonical_json esc v = json_text esc (sort_members v)"
proof (induction esc v rule: canonical_json.induct)
  case (5 esc vs)
  then have m: "map (canonical_json esc) vs = map (json_text esc) (map sort_members vs)" by simp
  show ?case by (simp only: canonical_json.simps sort_members.simps json_text.simps m)
next
  case (6 esc kvs)
  have "map (map_prod (\<lambda>k. k) (canonical_json esc)) kvs
      = map (map_prod (\<lambda>k. k) (\<lambda>v. json_text esc (sort_members v))) kvs"
    using 6 by (intro map_prod_cong_snd) auto
  then show ?case by (simp only: canonical_json.simps sort_members.simps json_text.simps
        sort_key_map_prod_fst map_map_prod)
qed simp_all

text \<open>The two canonicalisers produce the same text.\<close>

lemma rfc8785_eq_canonical:
  "json_ok v \<Longrightarrow> rfc8785_canonical_json esc v = canonical_json esc v"
proof (induction esc v rule: canonical_json.induct)
  case (3 esc n)
  then show ?case by (simp add: rfc8785_number_text)
next
  case (5 esc vs)
  then have m: "map (rfc8785_canonical_json esc) vs = map (canonical_json esc) vs"
    by (simp add: list_all_iff)
  show ?case by (simp only: rfc8785_canonical_json.simps canonical_json.simps push_items_join m
        append_assoc)
next
  case (6 esc kvs)
  have m: "map (map_prod (\<lambda>k. k) (rfc8785_canonical_json esc)) kvs
      = map (map_prod (\<lambda>k. k) (canonical_json esc)) kvs"
    using 6 by (intro map_prod_cong_snd) (auto simp: list_all_iff)
  show ?case by (simp only: rfc8785_canonical_json.simps canonical_json.simps push_items_join m
        append_assoc)
qed simp_all

text \<open>Reading a text back: what follows a value starts with a delimiter.\<close>

definition follow :: "string \<Rightarrow> bool" where
  "follow x = (case x of [] \<Rightarrow> True | c # _ \<Rightarrow> delim c)"

lemma follow_simps [simp]: "follow []" "follow (c # x) = delim c"
  by (simp_all add: follow_def)

lemma delim_simps [simp]: "delim (CHR '','')" "delim (CHR '']'')" "delim (CHR ''}'')"
  by (simp_all add: delim_def)

lemma plain_prefix_unique:
  "list_all (\<lambda>c. \<not> delim c) a \<Longrightarrow> list_all (\<lambda>c. \<not> delim c) b \<Longrightarrow> follow x \<Longrightarrow> follow y \<Longrightarrow>
   a @ x = b @ y \<Longrightarrow> a = b \<and> x = y"
proof (induction a arbitrary: b)
  case Nil
  then show ?case by (cases b) auto
next
  case (Cons c a)
  show ?case
  proof (cases b)
    case Nil
    with Cons.prems show ?thesis by auto
  next
    case (Cons d b')
    with Cons.prems Cons.IH [of b'] show ?thesis by auto
  qed
qed

lemma digit_not_delim: "is_ascii_digit c \<Longrightarrow> \<not> delim c"
  by (auto simp: is_ascii_digit_def delim_def Let_def)

lemma show_nat_plain: "list_all (\<lambda>c. \<not> delim c) (show_nat n)"
  using show_nat_digits [of n] by (auto simp: list_all_iff digit_not_delim)

lemma show_nat_numeric: "list_all numeric_char (show_nat n)"
  using show_nat_digits [of n] by (auto simp: list_all_iff numeric_char_def)

lemma show_nat_not_minus: "show_nat n \<noteq> CHR ''-'' # r"
proof
  assume "show_nat n = CHR ''-'' # r"
  then have "is_ascii_digit (CHR ''-'')" using show_nat_digits [of n] by simp
  then show False by (simp add: is_ascii_digit_def)
qed

lemma minus_not_delim: "\<not> delim (CHR ''-'')"
  by (simp add: delim_def)

lemma number_text_plain: "number_ok n \<Longrightarrow> list_all (\<lambda>c. \<not> delim c) (number_text n)"
  by (cases n) (auto simp: show_word_def show_nat_plain minus_not_delim)

lemma number_text_hd: "number_ok n \<Longrightarrow> \<exists>c r. number_text n = c # r \<and> numeric_char c"
proof (cases n)
  case (PosInt u)
  then show ?thesis using show_nat_numeric [of "unat u"] show_nat_nonempty(1) [of "unat u"]
    by (cases "show_nat (unat u)") (auto simp: show_word_def)
next
  case (NegInt i)
  then show ?thesis by (simp add: numeric_char_def)
next
  case (Float t)
  moreover assume "number_ok n"
  ultimately show ?thesis by (cases t) auto
qed

lemma number_text_inj:
  assumes "number_ok m" "number_ok n" "number_text m = number_text n"
  shows "m = n"
proof -
  have int: "list_all numeric_char (number_text k)" if "\<forall>t. k \<noteq> Float t" for k
    using that by (cases k) (auto simp: show_word_def show_nat_numeric numeric_char_def)
  have flt: "\<not> list_all numeric_char t" if "number_ok (Float t)" for t
    using that by (auto simp: list_ex_iff list_all_iff)
  show ?thesis
  proof (cases m)
    case m: (PosInt u)
    show ?thesis
    proof (cases n)
      case (PosInt v)
      with m assms(3) have "unat u = unat v" by (intro show_nat_inj) (simp add: show_word_def)
      then show ?thesis using m PosInt by (simp add: word_unat_eq_iff)
    next
      case (NegInt i)
      with m assms(3) show ?thesis by (simp add: show_word_def show_nat_not_minus)
    next
      case (Float t)
      with m assms flt [of t] int [of m] show ?thesis by simp
    qed
  next
    case m: (NegInt i)
    show ?thesis
    proof (cases n)
      case (PosInt v)
      with m assms(3) show ?thesis by (metis append_Cons append_Nil number_text.simps(1,2) show_nat_not_minus show_word_def)
    next
      case (NegInt j)
      with m assms show ?thesis by (auto dest!: show_nat_inj)
    next
      case (Float t)
      with m assms flt [of t] int [of m] show ?thesis by simp
    qed
  next
    case m: (Float t)
    show ?thesis
    proof (cases n)
      case (Float s)
      with m assms show ?thesis by simp
    qed (use m assms flt [of t] int [of n] in simp_all)
  qed
qed

text \<open>A separated list of items, read back item by item.\<close>

lemma items_tail_unique:
  assumes dec: "\<And>v w x y. v \<in> set vs \<Longrightarrow> P w \<Longrightarrow> follow x \<Longrightarrow> follow y \<Longrightarrow>
      f v @ x = f w @ y \<Longrightarrow> v = w \<and> x = y"
    and close: "delim c" "c \<noteq> CHR '',''"
    and ok: "\<And>w. w \<in> set ws \<Longrightarrow> P w"
    and eq: "concat (map (\<lambda>z. '','' @ f z) vs) @ c # x = concat (map (\<lambda>z. '','' @ f z) ws) @ c # y"
  shows "vs = ws \<and> x = y"
  using dec ok eq
proof (induction vs arbitrary: ws)
  case Nil
  then show ?case using close(2) by (cases ws) auto
next
  case (Cons v vs)
  show ?case
  proof (cases ws)
    case Nil
    with Cons.prems(3) close(2) show ?thesis by auto
  next
    case ws: (Cons w ws')
    have e: "f v @ concat (map (\<lambda>z. '','' @ f z) vs) @ c # x
        = f w @ concat (map (\<lambda>z. '','' @ f z) ws') @ c # y"
      using Cons.prems(3) by (simp add: ws)
    have fol: "follow (concat (map (\<lambda>z. '','' @ f z) us) @ c # z)" for us z
      using close(1) by (cases us) simp_all
    have "v = w \<and> concat (map (\<lambda>z. '','' @ f z) vs) @ c # x
        = concat (map (\<lambda>z. '','' @ f z) ws') @ c # y"
      by (rule Cons.prems(1) [OF _ _ fol fol e]) (simp_all add: Cons.prems(2) ws)
    then have vw: "v = w" and rest: "concat (map (\<lambda>z. '','' @ f z) vs) @ c # x
        = concat (map (\<lambda>z. '','' @ f z) ws') @ c # y" by simp_all
    have "vs = ws' \<and> x = y"
    proof (rule Cons.IH [OF _ _ rest])
      show "u = w' \<and> x' = y'"
        if "u \<in> set vs" "P w'" "follow x'" "follow y'" "f u @ x' = f w' @ y'" for u w' x' y'
        by (rule Cons.prems(1)) (use that in simp_all)
      show "P w'" if "w' \<in> set ws'" for w' by (rule Cons.prems(2)) (use that ws in simp)
    qed
    then show ?thesis using vw by (simp add: ws)
  qed
qed

lemma items_unique:
  assumes dec: "\<And>v w x y. v \<in> set vs \<Longrightarrow> P w \<Longrightarrow> follow x \<Longrightarrow> follow y \<Longrightarrow>
      f v @ x = f w @ y \<Longrightarrow> v = w \<and> x = y"
    and close: "delim c" "c \<noteq> CHR '',''"
    and lead: "\<And>w. P w \<Longrightarrow> \<exists>d r. f w = d # r \<and> d \<noteq> c"
    and ok: "\<And>w. w \<in> set ws \<Longrightarrow> P w" "\<And>v. v \<in> set vs \<Longrightarrow> P v"
    and eq: "join '','' (map f vs) @ c # x = join '','' (map f ws) @ c # y"
  shows "vs = ws \<and> x = y"
proof (cases vs)
  case Nil
  show ?thesis
  proof (cases ws)
    case ws: (Cons w ws')
    with lead [OF ok(1) [of w]] eq Nil show ?thesis by (auto simp: join_Cons)
  qed (use eq Nil in simp)
next
  case vs: (Cons v vs')
  show ?thesis
  proof (cases ws)
    case Nil
    with lead [OF ok(2) [of v]] eq vs show ?thesis by (auto simp: join_Cons)
  next
    case ws: (Cons w ws')
    have "concat (map (\<lambda>z. '','' @ f z) (v # vs')) @ c # x
        = concat (map (\<lambda>z. '','' @ f z) (w # ws')) @ c # y"
      using eq by (simp add: vs ws join_Cons comp_def)
    then have tails: "concat (map (\<lambda>z. '','' @ f z) vs) @ c # x
        = concat (map (\<lambda>z. '','' @ f z) ws) @ c # y" by (simp only: vs ws)
    show ?thesis by (rule items_tail_unique [OF dec close ok(1) tails])
  qed
qed

text \<open>The first character of a text tells the kind of the value.\<close>

fun kind_char :: "json \<Rightarrow> char \<Rightarrow> bool" where
  "kind_char JNull c = (c = CHR ''n'')"
| "kind_char (JBool b) c = (c = (if b then CHR ''t'' else CHR ''f''))"
| "kind_char (JNumber n) c = numeric_char c"
| "kind_char (JString s) c = (c = CHR 0x22)"
| "kind_char (JArray vs) c = (c = CHR ''['')"
| "kind_char (JObject kvs) c = (c = CHR ''{'')"

lemma json_text_lead:
  assumes "self_delimiting esc" "json_ok v"
  shows "\<exists>c r. json_text esc v = c # r \<and> kind_char v c"
proof (cases v)
  case (JNumber n)
  with assms(2) number_text_hd [of n] show ?thesis by auto
next
  case (JString s)
  with assms(1) show ?thesis by (auto simp: self_delimiting_def)
qed auto

lemma numeric_char_not: 
  "\<not> numeric_char (CHR ''n'')" "\<not> numeric_char (CHR ''t'')" "\<not> numeric_char (CHR ''f'')"
  "\<not> numeric_char (CHR 0x22)" "\<not> numeric_char (CHR ''['')" "\<not> numeric_char (CHR ''{'')"
  "\<not> numeric_char (CHR '']'')" "\<not> numeric_char (CHR ''}'')"
  by (simp_all add: numeric_char_def is_ascii_digit_def)

lemma kind_char_not_close: "kind_char v c \<Longrightarrow> c \<noteq> CHR '']'' \<and> c \<noteq> CHR ''}''"
  by (cases v) (auto simp: numeric_char_not split: if_splits)

fun same_kind :: "json \<Rightarrow> json \<Rightarrow> bool" where
  "same_kind JNull JNull = True"
| "same_kind (JBool a) (JBool b) = (a = b)"
| "same_kind (JNumber m) (JNumber n) = True"
| "same_kind (JString s) (JString t) = True"
| "same_kind (JArray vs) (JArray ws) = True"
| "same_kind (JObject kvs) (JObject kws) = True"
| "same_kind v w = False"

lemma kind_char_same: "kind_char v c \<Longrightarrow> kind_char w c \<Longrightarrow> same_kind v w"
  by (cases v; cases w) (auto simp: numeric_char_not split: if_splits)

lemma json_text_same_kind:
  assumes "self_delimiting esc" "json_ok v" "json_ok w" "json_text esc v @ x = json_text esc w @ y"
  shows "same_kind v w"
  using json_text_lead [OF assms(1,2)] json_text_lead [OF assms(1,3)] assms(4)
  by (auto intro: kind_char_same)

text \<open>An object's members as one item each.\<close>

definition item_text :: "(string \<Rightarrow> string) \<Rightarrow> string \<times> json \<Rightarrow> string" where
  "item_text esc kv = esc (fst kv) @ '':'' @ json_text esc (snd kv)"

lemma json_text_JObject:
  "json_text esc (JObject kvs) = ''{'' @ join '','' (map (item_text esc) kvs) @ ''}''"
proof -
  have "map (member_text esc) (map (map_prod (\<lambda>k. k) (json_text esc)) kvs) = map (item_text esc) kvs"
    by (simp add: item_text_def member_text_def)
  then show ?thesis by (simp only: json_text.simps)
qed

lemma json_text_unique:
  assumes esc: "self_delimiting esc"
  shows "json_ok v \<Longrightarrow> json_ok w \<Longrightarrow> follow x \<Longrightarrow> follow y \<Longrightarrow>
    json_text esc v @ x = json_text esc w @ y \<Longrightarrow> v = w \<and> x = y"
proof (induction v arbitrary: w x y)
  case JNull
  then show ?case using json_text_same_kind [OF esc JNull.prems(1,2,5)] by (cases w) auto
next
  case (JBool b)
  then show ?case using json_text_same_kind [OF esc JBool.prems(1,2,5)] by (cases w) auto
next
  case (JNumber n)
  from json_text_same_kind [OF esc JNumber.prems(1,2,5)] obtain m where w: "w = JNumber m"
    by (cases w) auto
  have "number_text n = number_text m \<and> x = y"
    by (rule plain_prefix_unique [OF number_text_plain number_text_plain JNumber.prems(3,4)])
      (use JNumber.prems w in simp_all)
  then show ?case using number_text_inj JNumber.prems(1,2) w by auto
next
  case (JString s)
  from json_text_same_kind [OF esc JString.prems(1,2,5)] obtain t where w: "w = JString t"
    by (cases w) auto
  then show ?case using self_delimitingD [OF esc, of s x t y] JString.prems(5) by simp
next
  case (JArray vs)
  from json_text_same_kind [OF esc JArray.prems(1,2,5)] obtain ws where w: "w = JArray ws"
    by (cases w) auto
  have "vs = ws \<and> x = y"
  proof (rule items_unique [where f = "json_text esc" and c = "CHR '']''" and P = json_ok])
    show "v = w' \<and> x' = y'" if "v \<in> set vs" "json_ok w'" "follow x'" "follow y'"
      "json_text esc v @ x' = json_text esc w' @ y'" for v w' x' y'
      using JArray.IH [OF that(1) _ that(2-5)] JArray.prems(1) that(1) by (simp add: list_all_iff)
    show "\<exists>d r. json_text esc w' = d # r \<and> d \<noteq> CHR '']''" if "json_ok w'" for w'
      using json_text_lead [OF esc that] kind_char_not_close by blast
    show "join '','' (map (json_text esc) vs) @ CHR '']'' # x
        = join '','' (map (json_text esc) ws) @ CHR '']'' # y"
      using JArray.prems(5) w by simp
  qed (use JArray.prems(1,2) w in \<open>simp_all add: list_all_iff\<close>)
  then show ?case using w by simp
next
  case (JObject kvs)
  from json_text_same_kind [OF esc JObject.prems(1,2,5)] obtain kws where w: "w = JObject kws"
    by (cases w) auto
  have "kvs = kws \<and> x = y"
  proof (rule items_unique [where f = "item_text esc" and c = "CHR ''}''" and P = "\<lambda>kv. json_ok (snd kv)"])
    show "kv = kw \<and> x' = y'" if kv: "kv \<in> set kvs" and kw: "json_ok (snd kw)" and
      f: "follow x'" "follow y'" and e: "item_text esc kv @ x' = item_text esc kw @ y'" for kv kw x' y'
    proof -
      from e have "esc (fst kv) @ '':'' @ json_text esc (snd kv) @ x'
          = esc (fst kw) @ '':'' @ json_text esc (snd kw) @ y'" by (simp add: item_text_def)
      from self_delimitingD [OF esc this] have k: "fst kv = fst kw" and
        v: "json_text esc (snd kv) @ x' = json_text esc (snd kw) @ y'" by simp_all
      have "snd kv \<in> Basic_BNFs.snds kv" by (cases kv) simp
      from JObject.IH [OF kv this _ kw f v] JObject.prems(1) kv
      have "snd kv = snd kw \<and> x' = y'" by (simp add: list_all_iff)
      then show ?thesis using k by (simp add: prod_eq_iff)
    qed
    show "\<exists>d r. item_text esc kw = d # r \<and> d \<noteq> CHR ''}''" for kw
    proof -
      obtain r where "esc (fst kw) = CHR 0x22 # r" using esc unfolding self_delimiting_def by blast
      then show ?thesis by (simp add: item_text_def)
    qed
    show "join '','' (map (item_text esc) kvs) @ CHR ''}'' # x
        = join '','' (map (item_text esc) kws) @ CHR ''}'' # y"
      using JObject.prems(5) unfolding w json_text_JObject by simp
  qed (use JObject.prems(1,2) w in \<open>simp_all add: list_all_iff\<close>)
  then show ?case using w by simp
qed

lemma json_ok_sort_members: "json_ok v \<Longrightarrow> json_ok (sort_members v)"
proof (induction v rule: sort_members.induct)
  case (2 kvs)
  have "distinct (map fst (sort_key fst (map (map_prod (\<lambda>k. k) sort_members) kvs)))"
    using 2 by (simp add: sort_key_map_prod_fst distinct_map inj_on_def comp_def)
  then show ?case using 2 by (auto simp: list_all_iff)
qed (auto simp: list_all_iff)

section \<open>Semantic normalisation\<close>

text \<open>\<open>Value::get(key).and_then(as_str)\<close>.\<close>

definition json_get :: "string \<Rightarrow> json \<Rightarrow> json option" where
  "json_get k v = (case v of JObject kvs \<Rightarrow> map_of kvs k | _ \<Rightarrow> None)"

definition as_str :: "json \<Rightarrow> string option" where
  "as_str v = (case v of JString s \<Rightarrow> Some s | _ \<Rightarrow> None)"

definition get_str :: "string \<Rightarrow> json \<Rightarrow> string option" where
  "get_str k v = (case json_get k v of None \<Rightarrow> None | Some x \<Rightarrow> as_str x)"

definition get_u64 :: "string \<Rightarrow> json \<Rightarrow> u64 option" where
  "get_u64 k v = (case json_get k v of Some (JNumber n) \<Rightarrow> as_u64 n | _ \<Rightarrow> None)"

text \<open>The scan with a \<open>HashSet\<close>: the first identifier seen twice.\<close>

fun first_duplicate :: "string set \<Rightarrow> string list \<Rightarrow> string option" where
  "first_duplicate seen [] = None"
| "first_duplicate seen (x # xs) =
     (if x \<in> seen then Some x else first_duplicate (insert x seen) xs)"

definition reject_duplicates :: "string \<Rightarrow> string list \<Rightarrow> workload_error + unit" where
  "reject_duplicates entity ids = (case first_duplicate {} ids of
     Some x \<Rightarrow> Inl (DuplicateIdentifierRejected entity x) | None \<Rightarrow> Inr ())"

definition some_values :: "'a option list \<Rightarrow> 'a list" where
  "some_values xs = concat (map (\<lambda>x. case x of None \<Rightarrow> [] | Some v \<Rightarrow> [v]) xs)"

definition sort_keyed :: "string \<Rightarrow> string \<Rightarrow> json list \<Rightarrow> workload_error + json list" where
  "sort_keyed key entity items =
     res_bind (reject_duplicates entity (some_values (map (get_str key) items))) (\<lambda>_.
     Inr (sort_key (\<lambda>v. unwrap_or (get_str key v) []) items))"

definition secret_key :: "json \<Rightarrow> string \<times> string \<times> nat" where
  "secret_key v = (unwrap_or (get_str ''secretId'' v) [], unwrap_or (get_str ''purpose'' v) [],
     unat (unwrap_or (get_u64 ''generation'' v) 0))"

definition secret_compound :: "json \<Rightarrow> string" where
  "secret_compound v = fst (secret_key v) @ '':'' @ fst (snd (secret_key v))"

definition sort_secret_refs :: "json list \<Rightarrow> workload_error + json list" where
  "sort_secret_refs items =
     res_bind (reject_duplicates ''secretRef'' (map secret_compound items)) (\<lambda>_.
     Inr (sort_key secret_key items))"

text \<open>What is done to an array before its items are normalised, by the name of the member.\<close>

definition keyed_member :: "string \<Rightarrow> (string \<times> string) option" where
  "keyed_member k =
     (if k = ''modules'' then Some (''moduleId'', ''module'')
      else if k = ''volumeClaims'' \<or> k = ''volumes'' then Some (''volumeId'', ''volume'')
      else if k = ''networkPolicies'' \<or> k = ''networks'' then Some (''networkId'', ''network'')
      else if k = ''components'' then Some (''componentId'', ''component'')
      else None)"

definition arrange_member :: "string \<Rightarrow> json list \<Rightarrow> workload_error + json list" where
  "arrange_member k items =
     (case keyed_member k of
        Some (key, entity) \<Rightarrow> sort_keyed key entity items
      | None \<Rightarrow>
         if k = ''secretRefs'' then sort_secret_refs items
         else if k = ''executionOrder''
         then res_bind (reject_duplicates ''executionOrder'' (some_values (map as_str items)))
           (\<lambda>_. Inr items)
         else Inr items)"

definition special_member :: "string \<Rightarrow> bool" where
  "special_member k = (keyed_member k \<noteq> None \<or> k = ''secretRefs'' \<or> k = ''executionOrder'')"

text \<open>
  \<open>semantic_normalize_value\<close> mutates in place; here the normalised value is returned. The
  items of an \<open>executionOrder\<close> are left as they are, and a special member that is not an array is
  not visited.
\<close>

lemma arrange_member_set: "arrange_member k vs = Inr ws \<Longrightarrow> set ws = set vs"
  by (auto simp: arrange_member_def sort_keyed_def sort_secret_refs_def res_bind_def
      split: option.splits sum.splits if_splits)

lemma list_item_size:
  "x \<in> set vs \<Longrightarrow> 2 * size x < Suc (Suc (2 * size_list size vs))"
  "x \<in> set vs \<Longrightarrow> 2 * size x < Suc (Suc (Suc (2 * size_list size vs)))"
  by (induction vs) auto

lemma member_size:
  "(a, b) \<in> set kvs \<Longrightarrow> 2 * size b < Suc (2 * size_list (size_prod (\<lambda>x. 0) size) kvs)"
  by (induction kvs) auto

function (sequential) semantic_normalize :: "json \<Rightarrow> workload_error + json"
  and normalize_member :: "string \<Rightarrow> json \<Rightarrow> workload_error + json" where
  "semantic_normalize (JObject kvs) =
     res_bind (res_map (\<lambda>kv. res_bind (normalize_member (fst kv) (snd kv)) (\<lambda>v. Inr (fst kv, v))) kvs)
       (\<lambda>kvs'. Inr (JObject kvs'))"
| "semantic_normalize (JArray vs) =
     res_bind (res_map semantic_normalize vs) (\<lambda>vs'. Inr (JArray vs'))"
| "semantic_normalize v = Inr v"
| "normalize_member k (JArray vs) =
     (if special_member k
      then res_bind (arrange_member k vs) (\<lambda>ws.
        if k = ''executionOrder'' then Inr (JArray ws)
        else res_bind (res_map semantic_normalize ws) (\<lambda>xs. Inr (JArray xs)))
      else semantic_normalize (JArray vs))"
| "normalize_member k v = (if special_member k then Inr v else semantic_normalize v)"
  by pat_completeness auto
termination
  by (relation "measure (\<lambda>x. case x of Inl v \<Rightarrow> 2 * size v | Inr (k, v) \<Rightarrow> Suc (2 * size v))")
    (auto dest!: arrange_member_set intro: list_item_size member_size)

section \<open>Digests\<close>

text \<open>SHA-256 is the parameter \<open>sha\<close>: the 32 bytes of the digest of a byte string.\<close>

definition format_sha256_hex :: "string \<Rightarrow> string" where
  "format_sha256_hex digest = ''sha256:'' @ hex_bytes digest"

definition sha256_hex :: "(string \<Rightarrow> string) \<Rightarrow> string \<Rightarrow> string" where
  "sha256_hex sha data = format_sha256_hex (sha data)"

definition to_hex_digit :: "char \<Rightarrow> nat option" where
  "to_hex_digit c = (let n = (of_char c :: nat) in
     if 48 \<le> n \<and> n \<le> 57 then Some (n - 48)
     else if 97 \<le> n \<and> n \<le> 102 then Some (n - 87)
     else if 65 \<le> n \<and> n \<le> 70 then Some (n - 55)
     else None)"

fun parse_hex_pairs :: "string \<Rightarrow> string \<Rightarrow> workload_error + string" where
  "parse_hex_pairs whole (a # b # r) =
     (case (to_hex_digit a, to_hex_digit b) of
        (Some h1, Some h2) \<Rightarrow>
          res_bind (parse_hex_pairs whole r) (\<lambda>bs. Inr (char_of (16 * h1 + h2) # bs))
      | _ \<Rightarrow> Inl (InvalidDigestFormat (''Invalid hex character in '' @ quoted whole)))"
| "parse_hex_pairs whole _ = Inr []"

definition parse_sha256_hex :: "string \<Rightarrow> workload_error + string" where
  "parse_sha256_hex s =
     (if \<not> prefix ''sha256:'' s
      then Inl (InvalidDigestFormat (''Missing '' @ quoted ''sha256:'' @ '' prefix in '' @ quoted s))
      else let hex_part = drop 7 s in
        if length hex_part \<noteq> 64
        then Inl (InvalidDigestFormat (''Expected 64 hex characters, got '' @ show_nat (length hex_part)
          @ '' in '' @ quoted s))
        else parse_hex_pairs s hex_part)"

definition constant_time_digest_eq :: "string \<Rightarrow> string \<Rightarrow> workload_error + bool" where
  "constant_time_digest_eq left right =
     res_bind (parse_sha256_hex left) (\<lambda>l.
     res_bind (parse_sha256_hex right) (\<lambda>r. Inr (l = r)))"

definition canonical_digest_for_value ::
  "(string \<Rightarrow> string) \<Rightarrow> (string \<Rightarrow> string) \<Rightarrow> json \<Rightarrow> workload_error + string" where
  "canonical_digest_for_value esc sha v =
     res_bind (semantic_normalize v) (\<lambda>n. Inr (sha256_hex sha (rfc8785_canonical_json esc n)))"

definition domain_separated_hash :: "(string \<Rightarrow> string) \<Rightarrow> string \<Rightarrow> string \<Rightarrow> string" where
  "domain_separated_hash sha domain payload = format_sha256_hex (sha (domain @ payload))"

definition domain_desired_state :: string where
  "domain_desired_state = ''ACTIUM_WORKLOAD_DESIRED_STATE_V1'' @ [CHR 0x00]"

definition domain_receipt :: string where
  "domain_receipt = ''ACTIUM_WORKLOAD_RECEIPT_V1'' @ [CHR 0x00]"

definition domain_runtime_instance :: string where
  "domain_runtime_instance = ''ACTIUM_WORKLOAD_RUNTIME_INSTANCE_V1'' @ [CHR 0x00]"

definition domain_compose_project :: string where
  "domain_compose_project = ''ACTIUM_WORKLOAD_COMPOSE_PROJECT_V1'' @ [CHR 0x00]"

definition deterministic_runtime_instance_id ::
  "(string \<Rightarrow> string) \<Rightarrow> (string \<Rightarrow> string) \<Rightarrow> string \<Rightarrow> u64 \<Rightarrow> string \<Rightarrow> string" where
  "deterministic_runtime_instance_id esc sha deployment_id generation component_id =
     (let obj = JObject [(''componentId'', JString component_id), (''deploymentId'', JString deployment_id),
          (''generation'', JNumber (PosInt generation))];
          hash = domain_separated_hash sha domain_runtime_instance (rfc8785_canonical_json esc obj)
      in ''actium-'' @ take 32 (drop 7 hash))"

definition deterministic_compose_project_id ::
  "(string \<Rightarrow> string) \<Rightarrow> (string \<Rightarrow> string) \<Rightarrow> string \<Rightarrow> u64 \<Rightarrow> string" where
  "deterministic_compose_project_id esc sha deployment_id generation =
     (let obj = JObject [(''deploymentId'', JString deployment_id),
          (''generation'', JNumber (PosInt generation))];
          hash = domain_separated_hash sha domain_compose_project (rfc8785_canonical_json esc obj)
      in ''actium-'' @ take 32 (drop 7 hash))"

section \<open>Lemmas on normalisation and digests\<close>

lemma first_duplicate_None: "first_duplicate seen xs = None \<longleftrightarrow> distinct xs \<and> seen \<inter> set xs = {}"
  by (induction xs arbitrary: seen) auto

lemma first_duplicate_Some:
  "first_duplicate seen xs = Some x \<Longrightarrow> x \<in> set xs \<and> (x \<in> seen \<or> 2 \<le> count_list xs x)"
proof (induction xs arbitrary: seen)
  case (Cons y ys)
  then show ?case using count_notin [of x ys]
    by (auto split: if_splits) (metis One_nat_def Suc_leI count_list_0_iff neq0_conv)+
qed simp

lemma reject_duplicates_Inr [simp]: "reject_duplicates e xs = Inr u \<longleftrightarrow> distinct xs"
  using first_duplicate_None [of "{}" xs]
  by (auto simp: reject_duplicates_def split: option.splits)

lemma reject_duplicates_distinct: "distinct xs \<Longrightarrow> reject_duplicates e xs = Inr ()"
  using first_duplicate_None [of "{}" xs] by (simp add: reject_duplicates_def)

lemma some_values_map_Some: "\<forall>x \<in> set xs. f x \<noteq> None \<Longrightarrow> some_values (map f xs) = map (\<lambda>x. the (f x)) xs"
  by (induction xs) (auto simp: some_values_def)

text \<open>Sorting by keys that are all different does not depend on the order of the input.\<close>

lemma sort_key_order_independent:
  assumes "mset xs = mset ys" "inj_on f (set xs)"
  shows "sort_key f xs = sort_key f ys"
proof -
  have "sort (map f (sort_key f ys)) = map f (sort_key f xs)"
    by (rule properties_for_sort) (simp_all add: assms(1))
  moreover have "sort (map f (sort_key f ys)) = map f (sort_key f ys)"
    by (rule sorted_sort_id) simp
  ultimately have "map f (sort_key f xs) = map f (sort_key f ys)" by simp
  then show ?thesis
    by (rule map_inj_on) (use assms mset_eq_setD [OF assms(1)] in simp)
qed

lemma hex_digit_back: "n < 16 \<Longrightarrow> to_hex_digit (hex_digit n) = Some n"
  by (auto simp: to_hex_digit_def hex_digit_def Let_def take_bit_eq_mod)

lemma parse_hex_bytes: "parse_hex_pairs w (hex_bytes bs) = Inr bs"
proof (induction bs)
  case Nil
  then show ?case by (simp add: hex_bytes_def)
next
  case (Cons b bs)
  have lt: "(of_char b :: nat) < 256" by (simp add: of_char_def) 
  have "of_char b div 16 < (16::nat)" "of_char b mod 16 < (16::nat)"
    using lt by (auto intro: less_mult_imp_div_less)
  then show ?case using Cons.IH
    by (simp add: hex_bytes_def hex_byte_def hex_digit_back)
qed

lemma length_hex_bytes: "length (hex_bytes bs) = 2 * length bs"
  by (induction bs) (simp_all add: hex_bytes_def hex_byte_def)

text \<open>Normalisation keeps the scalars a value is identified by.\<close>

fun scalar :: "json \<Rightarrow> bool" where
  "scalar (JArray vs) = False"
| "scalar (JObject kvs) = False"
| "scalar v = True"

lemma normalize_scalar:
  "semantic_normalize v = Inr w \<Longrightarrow> (scalar v \<longrightarrow> w = v) \<and> (\<not> scalar v \<longrightarrow> \<not> scalar w)"
  by (cases v) (auto simp: result_simps)

lemma normalize_member_scalar:
  "normalize_member k v = Inr w \<Longrightarrow> (scalar v \<longrightarrow> w = v) \<and> (\<not> scalar v \<longrightarrow> \<not> scalar w)"
  using normalize_scalar [of v w] by (cases v) (auto simp: result_simps split: if_splits)

lemma normalize_members_get:
  "res_map (\<lambda>kv. res_bind (normalize_member (fst kv) (snd kv)) (\<lambda>v. Inr (fst kv, v))) kvs = Inr kvs'
   \<Longrightarrow> case map_of kvs k of None \<Rightarrow> map_of kvs' k = None
       | Some x \<Rightarrow> \<exists>y. map_of kvs' k = Some y \<and> normalize_member k x = Inr y"
proof (induction kvs arbitrary: kvs')
  case (Cons kv kvs)
  then show ?case
    by (cases kv) (fastforce simp: result_simps split: option.splits)
qed simp

lemma normalize_get_scalar:
  assumes "semantic_normalize v = Inr w"
  shows "get_str k w = get_str k v" and "get_u64 k w = get_u64 k v"
proof -
  have "get_str k w = get_str k v \<and> get_u64 k w = get_u64 k v"
  proof (cases v)
    case (JObject kvs)
    then obtain kvs' where w: "w = JObject kvs'" and
      m: "res_map (\<lambda>kv. res_bind (normalize_member (fst kv) (snd kv)) (\<lambda>v. Inr (fst kv, v))) kvs = Inr kvs'"
      using assms by (auto simp: result_simps)
    show ?thesis
    proof (cases "map_of kvs k")
      case None
      with normalize_members_get [OF m, of k] show ?thesis
        by (simp add: JObject w get_str_def get_u64_def json_get_def)
    next
      case (Some x)
      with normalize_members_get [OF m, of k] obtain y where
        y: "map_of kvs' k = Some y" "normalize_member k x = Inr y" by auto
      with normalize_member_scalar [OF y(2)] Some show ?thesis
        by (cases x; cases y) (simp_all add: JObject w get_str_def get_u64_def json_get_def as_str_def)
    qed
  qed (use assms in \<open>auto simp: result_simps get_str_def get_u64_def json_get_def\<close>)
  then show "get_str k w = get_str k v" "get_u64 k w = get_u64 k v" by simp_all
qed

lemma normalize_secret_key: "semantic_normalize v = Inr w \<Longrightarrow> secret_key w = secret_key v"
  by (simp add: secret_key_def normalize_get_scalar)

lemma res_map_same: "(\<And>x. x \<in> set xs \<Longrightarrow> f x = Inr x) \<Longrightarrow> res_map f xs = Inr xs"
  by (induction xs) auto

lemma res_map_keys:
  assumes "res_map f xs = Inr ys" "\<And>x y. f x = Inr y \<Longrightarrow> g y = g x"
  shows "map g ys = map g xs"
proof (rule nth_equalityI)
  show "length (map g ys) = length (map g xs)" using res_map_Inr_length [OF assms(1)] by simp
  show "map g ys ! i = map g xs ! i" if "i < length (map g ys)" for i
    using that res_map_Inr_length [OF assms(1)] res_map_Inr_nth [OF assms(1), of i] assms(2) by simp
qed

lemma map_through:
  assumes "map g xs = map g ys"
  shows "map (\<lambda>v. h (g v)) xs = map (\<lambda>v. h (g v)) ys"
  using arg_cong [OF assms, of "map h"] by (simp add: comp_def)

lemma some_values_mset:
  assumes "mset xs = mset ys"
  shows "mset (some_values xs) = mset (some_values ys)"
proof -
  have "mset (some_values zs) = \<Sum>\<^sub># (image_mset (\<lambda>x. case x of None \<Rightarrow> {#} | Some v \<Rightarrow> {#v#}) (mset zs))"
    for zs :: "'a option list"
    by (induction zs) (auto simp: some_values_def split: option.splits)
  then show ?thesis using assms by simp
qed

text \<open>An arranged array stays as it is, and so does its image under normalisation.\<close>

lemma arrange_member_again:
  assumes a: "arrange_member k vs = Inr ws" and n: "res_map semantic_normalize ws = Inr xs"
    and k: "k \<noteq> ''executionOrder''"
  shows "arrange_member k xs = Inr xs"
proof -
  have keys: "map (get_str key) xs = map (get_str key) ws" for key
    by (rule res_map_keys [OF n normalize_get_scalar(1)])
  have sec: "map secret_key xs = map secret_key ws"
    by (rule res_map_keys [OF n normalize_secret_key])
  have keyed: "sort_keyed key entity xs = Inr xs" if "sort_keyed key entity vs = Inr ws" for key entity
  proof -
    let ?f = "\<lambda>v. unwrap_or (get_str key v) []"
    from that have d: "distinct (some_values (map (get_str key) vs))" and ws: "ws = sort_key ?f vs"
      by (auto simp: sort_keyed_def result_simps)
    have "mset (map (get_str key) ws) = mset (map (get_str key) vs)" by (simp add: ws)
    then have "mset (some_values (map (get_str key) ws)) = mset (some_values (map (get_str key) vs))"
      by (rule some_values_mset)
    then have d': "distinct (some_values (map (get_str key) xs))"
      using d by (simp add: keys) (metis mset_eq_imp_distinct_iff)
    have "map ?f xs = map ?f ws"
      using map_through [OF keys [of key], of "\<lambda>z. unwrap_or z []"] .
    then have "sorted (map ?f xs)" by (simp add: ws)
    then have "sort_key ?f xs = xs" by (rule sort_key_id_if_sorted)
    then show ?thesis using d' by (simp add: sort_keyed_def result_simps)
  qed
  have secrets: "sort_secret_refs xs = Inr xs" if "sort_secret_refs vs = Inr ws"
  proof -
    from that have d: "distinct (map secret_compound vs)" and ws: "ws = sort_key secret_key vs"
      by (auto simp: sort_secret_refs_def result_simps)
    have "map secret_compound xs = map secret_compound ws"
      using map_through [OF sec, of "\<lambda>k. fst k @ '':'' @ fst (snd k)"]
      unfolding secret_compound_def [abs_def] .
    moreover have "mset (map secret_compound ws) = mset (map secret_compound vs)" by (simp add: ws)
    ultimately have d': "distinct (map secret_compound xs)" using d by (metis mset_eq_imp_distinct_iff)
    have "sorted (map secret_key xs)" by (simp add: sec ws)
    then show ?thesis using d' by (simp add: sort_secret_refs_def sort_key_id_if_sorted result_simps)
  qed
  show ?thesis
  proof (cases "keyed_member k")
    case (Some p)
    then show ?thesis using a keyed by (cases p) (simp add: arrange_member_def)
  next
    case None
    show ?thesis
    proof (cases "k = ''secretRefs''")
      case True
      with None a have "sort_secret_refs vs = Inr ws" by (simp add: arrange_member_def)
      from secrets [OF this] None True show ?thesis by (simp add: arrange_member_def)
    next
      case False
      with None k show ?thesis by (simp add: arrange_member_def)
    qed
  qed
qed

lemma semantic_normalize_again:
  "(\<forall>w. semantic_normalize v = Inr w \<longrightarrow> semantic_normalize w = Inr w)"
  "(\<forall>w. normalize_member k u = Inr w \<longrightarrow> normalize_member k w = Inr w)"
proof (induction v and k u rule: semantic_normalize_normalize_member.induct)
  case (1 kvs)
  show ?case
  proof (intro allI impI)
    fix w assume "semantic_normalize (JObject kvs) = Inr w"
    then obtain kvs' where w: "w = JObject kvs'" and m: "res_map
        (\<lambda>kv. res_bind (normalize_member (fst kv) (snd kv)) (\<lambda>v. Inr (fst kv, v))) kvs = Inr kvs'"
      by (auto simp: result_simps)
    have "res_map (\<lambda>kv. res_bind (normalize_member (fst kv) (snd kv)) (\<lambda>v. Inr (fst kv, v))) kvs'
        = Inr kvs'"
    proof (rule res_map_same)
      fix y assume "y \<in> set kvs'"
      from res_map_Inr_set [OF m this] obtain x z where
        x: "x \<in> set kvs" "normalize_member (fst x) (snd x) = Inr z" "y = (fst x, z)"
        by (auto simp: result_simps)
      from "1.IH" [OF x(1)] x(2,3)
      show "res_bind (normalize_member (fst y) (snd y)) (\<lambda>v. Inr (fst y, v)) = Inr y" by simp
    qed
    then show "semantic_normalize w = Inr w" by (simp add: w)
  qed
next
  case (2 vs)
  show ?case
  proof (intro allI impI)
    fix w assume "semantic_normalize (JArray vs) = Inr w"
    then obtain ws where w: "w = JArray ws" and m: "res_map semantic_normalize vs = Inr ws"
      by (auto simp: result_simps)
    have "res_map semantic_normalize ws = Inr ws"
      by (rule res_map_same) (use res_map_Inr_set [OF m] "2.IH" in blast)
    then show "semantic_normalize w = Inr w" by (simp add: w)
  qed
next
  case (4 k vs)
  show ?case
  proof (intro allI impI)
    fix w assume n: "normalize_member k (JArray vs) = Inr w"
    show "normalize_member k w = Inr w"
    proof (cases "special_member k")
      case False
      then have "semantic_normalize (JArray vs) = Inr w" using n by simp
      moreover from this obtain ws where "w = JArray ws" by (auto simp: result_simps)
      ultimately show ?thesis using "4.IH"(2) False by simp
    next
      case sp: True
      then obtain ws where a: "arrange_member k vs = Inr ws" using n by (auto simp: result_simps)
      show ?thesis
      proof (cases "k = ''executionOrder''")
        case True
        then have "keyed_member k = None" by (simp add: keyed_member_def)
        then have "arrange_member k ws = Inr ws" using a True
          by (auto simp: arrange_member_def result_simps)
        moreover have "w = JArray ws" using n sp a True by simp
        ultimately show ?thesis using True sp by simp
      next
        case False
        then obtain xs where m: "res_map semantic_normalize ws = Inr xs" and w: "w = JArray xs"
          using n sp a by (auto simp: result_simps)
        have "arrange_member k xs = Inr xs" by (rule arrange_member_again [OF a m False])
        moreover have "res_map semantic_normalize xs = Inr xs"
          by (rule res_map_same) (use res_map_Inr_set [OF m] "4.IH"(1) [OF sp a False] in blast)
        ultimately show ?thesis using sp False w by simp
      qed
    qed
  qed
qed (simp_all, auto simp: result_simps)

section \<open>Properties\<close>

text \<open>
  C5. The canonical text identifies the value: both canonicalisers print the same text, and for
  well-formed values the texts are equal exactly when the values are equal up to the order of
  object members. A signature or digest over the text therefore binds the value and nothing else.
\<close>

theorem canonical_text_identifies_value:
  assumes "self_delimiting esc" "json_ok v" "json_ok w"
  shows "rfc8785_canonical_json esc v = canonical_json esc v
    \<and> (canonical_json esc v = canonical_json esc w \<longleftrightarrow> sort_members v = sort_members w)"
proof -
  have "canonical_json esc v = canonical_json esc w \<Longrightarrow> sort_members v = sort_members w"
    using json_text_unique [OF assms(1) json_ok_sort_members [OF assms(2)]
        json_ok_sort_members [OF assms(3)], of "[]" "[]"] by (simp add: canonical_json_eq)
  then show ?thesis using rfc8785_eq_canonical [OF assms(2)] by (auto simp: canonical_json_eq)
qed

text \<open>A concrete literal syntax: quotes around the string, quote and backslash escaped.\<close>

definition quote_escape :: "string \<Rightarrow> string" where
  "quote_escape s = CHR 0x22 # concat (map (\<lambda>c. if c = CHR 0x22 \<or> c = CHR 0x5C
     then [CHR 0x5C, c] else [c]) s) @ [CHR 0x22]"

definition escape_char :: "char \<Rightarrow> char \<Rightarrow> char \<Rightarrow> string" where
  "escape_char q b c = (if c = q \<or> c = b then [b, c] else [c])"

lemma escape_chars_unique:
  "q \<noteq> b \<Longrightarrow> concat (map (escape_char q b) s) @ q # x = concat (map (escape_char q b) t) @ q # y \<Longrightarrow> s = t"
proof (induction s arbitrary: t)
  case Nil
  then show ?case by (cases t) (auto simp: escape_char_def split: if_splits)
next
  case (Cons c s)
  then show ?case by (cases t) (auto simp: escape_char_def split: if_splits)
qed

lemma quote_escape_self_delimiting: "self_delimiting quote_escape"
proof -
  have e: "quote_escape s = CHR 0x22 # concat (map (escape_char (CHR 0x22) (CHR 0x5C)) s) @ [CHR 0x22]" for s
    by (simp only: quote_escape_def escape_char_def [abs_def])
  have "s = t" if "quote_escape s @ x = quote_escape t @ y" for s t x y
    by (rule escape_chars_unique [of "CHR 0x22" "CHR 0x5C" s x t y]) (use that in \<open>simp_all add: e\<close>)
  moreover have "\<exists>r. quote_escape s = CHR 0x22 # r" for s by (simp add: quote_escape_def)
  ultimately show ?thesis unfolding self_delimiting_def by blast
qed

theorem canonical_text_identifies_value_witness:
  "canonical_json quote_escape (JObject [(''b'', JNumber (PosInt 1)), (''a'', JBool True)])
   = canonical_json quote_escape (JObject [(''a'', JBool True), (''b'', JNumber (PosInt 1))])"
proof -
  have "json_ok (JObject [(''b'', JNumber (PosInt 1)), (''a'', JBool True)])"
    "json_ok (JObject [(''a'', JBool True), (''b'', JNumber (PosInt 1))])"
    "sort_members (JObject [(''b'', JNumber (PosInt 1)), (''a'', JBool True)])
     = sort_members (JObject [(''a'', JBool True), (''b'', JNumber (PosInt 1))])" by code_simp+
  with canonical_text_identifies_value [OF quote_escape_self_delimiting this(1,2)] show ?thesis
    by simp
qed

text \<open>
  Normalisation is a normal form: normalising a normalised value changes nothing (so a digest
  taken again over it is the same), and the arrays of named entities lose their order: any
  reordering of items with different identifiers normalises to the same value.
\<close>

theorem semantic_normalize_canonical:
  assumes "semantic_normalize v = Inr n"
    and "keyed_member k = Some (key, entity)" "mset vs = mset ws"
    and "\<forall>x \<in> set vs. get_str key x \<noteq> None" "distinct (map (get_str key) vs)"
  shows "semantic_normalize n = Inr n
    \<and> canonical_digest_for_value esc sha n = canonical_digest_for_value esc sha v
    \<and> normalize_member k (JArray vs) = normalize_member k (JArray ws)"
proof -
  have same: "semantic_normalize n = Inr n" using semantic_normalize_again(1) assms(1) by blast
  have set: "set ws = set vs" using assms(3) by (metis mset_eq_setD)
  have dw: "distinct (map (get_str key) ws)"
    using assms(3,5) by (metis mset_eq_imp_distinct_iff mset_map)
  have strs: "distinct (some_values (map (get_str key) us))"
    if "distinct (map (get_str key) us)" "set us = set vs" for us
    using that assms(4) by (auto simp: some_values_map_Some distinct_map inj_on_def) (metis option.sel)
  have "inj_on (\<lambda>v. unwrap_or (get_str key v) []) (set vs)"
    using assms(4,5) by (auto simp: distinct_map inj_on_def) (metis option_combinators(6))
  then have "sort_keyed key entity vs = sort_keyed key entity ws"
    using sort_key_order_independent [OF assms(3)] strs [OF assms(5)] strs [OF dw set]
    by (simp add: sort_keyed_def reject_duplicates_distinct)
  moreover have "special_member k" "k \<noteq> ''executionOrder''"
    using assms(2) by (auto simp: special_member_def keyed_member_def)
  ultimately show ?thesis using same assms(1,2)
    by (simp add: canonical_digest_for_value_def arrange_member_def)
qed

definition components_example :: "string \<Rightarrow> string \<Rightarrow> json list" where
  "components_example a b = [JObject [(''componentId'', JString a)], JObject [(''componentId'', JString b)]]"

theorem semantic_normalize_canonical_witness:
  "normalize_member ''components'' (JArray (components_example ''db'' ''api''))
   = normalize_member ''components'' (JArray (components_example ''api'' ''db''))"
proof -
  have n: "semantic_normalize JNull = Inr JNull" by simp
  have k: "keyed_member ''components'' = Some (''componentId'', ''component'')" by code_simp
  have m: "mset (components_example ''db'' ''api'') = mset (components_example ''api'' ''db'')"
    by (simp add: components_example_def)
  have i: "\<forall>x \<in> set (components_example ''db'' ''api''). get_str ''componentId'' x \<noteq> None"
    "distinct (map (get_str ''componentId'') (components_example ''db'' ''api''))" by code_simp+
  from semantic_normalize_canonical [OF n k m i] show ?thesis by blast
qed

text \<open>
  Digest texts round trip: the text of any 32 byte digest parses back to it, the comparison
  of two such texts is the comparison of the digests, and only texts with the prefix and 64 digits
  parse, always to 32 bytes.
\<close>

theorem sha256_text_roundtrip:
  assumes "length d = 32" "length e = 32"
  shows "parse_sha256_hex (format_sha256_hex d) = Inr d
    \<and> constant_time_digest_eq (format_sha256_hex d) (format_sha256_hex e) = Inr (d = e)
    \<and> (parse_sha256_hex s = Inr b \<longrightarrow> length b = 32 \<and> prefix ''sha256:'' s \<and> length s = 71)"
proof -
  have rt: "parse_sha256_hex (format_sha256_hex x) = Inr x" if "length x = 32" for x
    using that by (simp add: parse_sha256_hex_def format_sha256_hex_def parse_hex_bytes length_hex_bytes)
  have len: "length b = length r div 2" if "parse_hex_pairs w r = Inr b" for w r b
    using that by (induction w r arbitrary: b rule: parse_hex_pairs.induct)
      (auto simp: result_simps split: option.splits)
  have "length b = 32 \<and> prefix ''sha256:'' s \<and> length s = 71" if p: "parse_sha256_hex s = Inr b"
  proof -
    from p have "prefix ''sha256:'' s" and l: "length (drop 7 s) = 64" and
      "parse_hex_pairs s (drop 7 s) = Inr b"
      by (auto simp: parse_sha256_hex_def Let_def split: if_splits)
    moreover have "length s = 71" using l by simp
    ultimately show ?thesis using len by fastforce
  qed
  then show ?thesis using rt assms by (simp add: constant_time_digest_eq_def)
qed

theorem sha256_text_roundtrip_witness:
  "parse_sha256_hex (format_sha256_hex (replicate 32 (CHR 0xAB))) = Inr (replicate 32 (CHR 0xAB))"
  by (rule sha256_text_roundtrip [of _ "replicate 32 (CHR 0xAB)", THEN conjunct1]) simp_all

definition secret_ref :: "string \<Rightarrow> string \<Rightarrow> json" where
  "secret_ref i p = JObject [(''secretId'', JString i), (''purpose'', JString p)]"

text \<open>
  The duplicate check of secret references compares \<open>secretId:purpose\<close> joined by a colon, so
  it also refuses references that are different: whenever an identifier and a purpose can be cut
  at different colons, a document with both references is rejected as a duplicate.
\<close>

theorem distinct_secret_refs_rejected:
  "semantic_normalize (JObject [(''secretRefs'', JArray [secret_ref (a @ '':'' @ b) c, secret_ref a (b @ '':'' @ c)])])
   = Inl (DuplicateIdentifierRejected ''secretRef'' (a @ '':'' @ b @ '':'' @ c))"
  by (simp add: special_member_def keyed_member_def arrange_member_def sort_secret_refs_def
      secret_ref_def secret_compound_def secret_key_def get_str_def json_get_def as_str_def
      reject_duplicates_def)

end
