(* ===== verification/Path_Resolver.thy ===== *)
theory Path_Resolver
  imports Canonical_Json
begin

text \<open>
  The connectivity path resolver of \<^verbatim>\<open>actium-node-core/src/path_resolver.rs\<close>, over the route
  candidates and receipts of \<^verbatim>\<open>actium-node-core/src/remote_ops.rs\<close>. All integers keep their
  width: in the release profile (no overflow checks) the sum in \<open>better_enough\<close> wraps.
\<close>

section \<open>Data\<close>

datatype route_type =
  SiteDirectLan | SiteDirectWanIpv4 | SiteDirectWanIpv6 | ActiumRelay | FederatedActiumNode

record route_candidate =
  ro_route_id :: string
  ro_route_type :: route_type
  ro_endpoint :: string
  ro_priority :: u32
  ro_cost :: u32
  ro_health :: string
  ro_latency_ms :: "u64 option"
  ro_failure_count :: u32
  ro_generation :: u64
  ro_expires_at_ms :: "u64 option"
  ro_authority :: string
  ro_attestation :: "string option"
  ro_trust :: string
  ro_network_cost :: u32
  ro_metered :: bool
  ro_last_success :: "string option"
  ro_success_count :: u32
  ro_relay_id :: "string option"
  ro_site_id :: string

record route_decision_receipt =
  rd_decision_id :: string
  rd_terminal_id :: string
  rd_site_id :: string
  rd_previous_route :: "string option"
  rd_selected_route :: string
  rd_reason :: string
  rd_failure_evidence :: "json option"
  rd_selected_at :: string
  rd_policy_generation :: u64
  rd_candidate_snapshot_digest :: "string option"

datatype route_policy = Auto | DirectOnly | RelayOnly | HighAvailability | CostOptimized | LowLatency

record path_resolver_config =
  pc_failure_threshold :: u32
  pc_recovery_threshold :: u32
  pc_minimum_hold_ms :: u64
  pc_latency_hysteresis_ms :: u64
  pc_probe_backoff_ms :: u64
  pc_stickiness :: bool

definition path_resolver_config_default :: path_resolver_config where
  "path_resolver_config_default = \<lparr>pc_failure_threshold = 3, pc_recovery_threshold = 2,
     pc_minimum_hold_ms = 15000, pc_latency_hysteresis_ms = 40, pc_probe_backoff_ms = 2000,
     pc_stickiness = True\<rparr>"

record path_resolver_state =
  ps_selected_route_id :: "string option"
  ps_selected_at_ms :: u64
  ps_last_probe_at_ms :: u64

definition path_resolver_state_default :: path_resolver_state where
  "path_resolver_state_default = \<lparr>ps_selected_route_id = None, ps_selected_at_ms = 0,
     ps_last_probe_at_ms = 0\<rparr>"

record path_resolve_request =
  pr_policy :: route_policy
  pr_capability :: string
  pr_site_id :: string
  pr_policy_generation :: u64
  pr_now_ms :: u64

datatype eligibility_t =
    Eligible | Recovering | Expired | Unhealthy | Untrusted | Unauthorized | PolicyDenied
  | FutureInactive | WrongSite

section \<open>Policy, trust and eligibility\<close>

definition is_active_route_type :: "route_type \<Rightarrow> bool" where
  "is_active_route_type t = (case t of
     SiteDirectLan \<Rightarrow> True | SiteDirectWanIpv4 \<Rightarrow> True | SiteDirectWanIpv6 \<Rightarrow> True
   | ActiumRelay \<Rightarrow> True | FederatedActiumNode \<Rightarrow> False)"

definition policy_allows :: "route_policy \<Rightarrow> route_type \<Rightarrow> bool" where
  "policy_allows policy t =
     (if \<not> is_active_route_type t then False
      else case policy of
        Auto \<Rightarrow> True | HighAvailability \<Rightarrow> True | CostOptimized \<Rightarrow> True | LowLatency \<Rightarrow> True
      | DirectOnly \<Rightarrow> t \<noteq> ActiumRelay
      | RelayOnly \<Rightarrow> t = ActiumRelay)"

definition health_rank :: "string \<Rightarrow> u8" where
  "health_rank h = (if h = ''HEALTHY'' then 0 else if h = ''DEGRADED'' then 1 else 2)"

definition type_rank :: "route_type \<Rightarrow> u8" where
  "type_rank t = (case t of SiteDirectLan \<Rightarrow> 0 | SiteDirectWanIpv6 \<Rightarrow> 1 | SiteDirectWanIpv4 \<Rightarrow> 2
     | ActiumRelay \<Rightarrow> 3 | FederatedActiumNode \<Rightarrow> 9)"

definition normalize_authority :: "string \<Rightarrow> bool" where
  "normalize_authority v = (to_ascii_uppercase (trim v) \<in> {''AUTHORIZED'', ''VALID''})"

definition normalize_trust :: "string \<Rightarrow> string option" where
  "normalize_trust v = (let u = to_ascii_uppercase (trim v) in
     if u \<in> {''TRUSTED'', ''AUTHORIZED'', ''ENROLLED'', ''UNTRUSTED'', ''UNAUTHORIZED'', ''REVOKED''}
     then Some u else None)"

definition trust_class :: "string \<Rightarrow> string" where
  "trust_class t = unwrap_or (normalize_trust t) ''UNKNOWN''"

definition canonical_trust :: "string \<Rightarrow> string" where
  "canonical_trust t =
     (if trust_class t \<in> {''TRUSTED'', ''AUTHORIZED'', ''ENROLLED''} then ''TRUSTED''
      else if trust_class t \<in> {''UNTRUSTED'', ''UNAUTHORIZED'', ''REVOKED''} then ''UNTRUSTED''
      else ''UNKNOWN'')"

definition canonical_attestation :: "string option \<Rightarrow> string option" where
  "canonical_attestation a = map_option (\<lambda>v. let u = to_ascii_uppercase (trim v) in
     if u \<in> {''READY'', ''PASS'', ''VALID''} then ''READY''
     else if u \<in> {''INVALID'', ''FAILED'', ''REVOKED'', ''FAIL'', ''MISMATCH'', ''EXPIRED'', ''UNTRUSTED''}
     then ''INVALID'' else ''UNKNOWN'') a"

definition attestation_ready :: "string option \<Rightarrow> bool" where
  "attestation_ready a =
     is_some_and a (\<lambda>v. to_ascii_uppercase (trim v) \<in> {''READY'', ''PASS'', ''VALID''})"

definition trust_eligible :: "route_candidate \<Rightarrow> eligibility_t" where
  "trust_eligible c =
     (let trust = canonical_trust (ro_trust c) in
      if trust \<noteq> ''TRUSTED'' then Untrusted
      else case ro_route_type c of
        SiteDirectLan \<Rightarrow> Eligible
      | SiteDirectWanIpv4 \<Rightarrow> (if attestation_ready (ro_attestation c) then Eligible else Unauthorized)
      | SiteDirectWanIpv6 \<Rightarrow> (if attestation_ready (ro_attestation c) then Eligible else Unauthorized)
      | ActiumRelay \<Rightarrow>
          (if trust = ''TRUSTED'' \<and> is_some_and (ro_relay_id c) (\<lambda>r. \<not> is_blank r)
           then Eligible else Untrusted)
      | FederatedActiumNode \<Rightarrow> FutureInactive)"

definition eligibility ::
  "route_candidate \<Rightarrow> route_policy \<Rightarrow> u64 \<Rightarrow> path_resolver_config \<Rightarrow> string \<Rightarrow> eligibility_t" where
  "eligibility c policy now_ms config site_id =
     (if \<not> is_active_route_type (ro_route_type c) then FutureInactive
      else if \<not> policy_allows policy (ro_route_type c) then PolicyDenied
      else if \<not> normalize_authority (ro_authority c) then Unauthorized
      else if is_blank (ro_site_id c) \<or> ro_site_id c \<noteq> site_id then WrongSite
      else if is_some_and (ro_expires_at_ms c) (\<lambda>e. e \<le> now_ms) then Expired
      else if trust_eligible c \<noteq> Eligible then trust_eligible c
      else if ro_health c = ''UNREACHABLE'' \<or> ro_health c = ''UNKNOWN'' then Unhealthy
      else if 1 \<le> ro_failure_count c \<and> ro_success_count c < pc_recovery_threshold config
      then Recovering
      else Eligible)"

section \<open>Scores\<close>

type_synonym route_score = "u8 \<times> u64 \<times> u32 \<times> u8 \<times> u32"

definition capped_latency :: "u64 \<Rightarrow> u32" where
  "capped_latency l = ucast (min l 1000000)"

definition score :: "route_policy \<Rightarrow> route_candidate \<Rightarrow> route_score" where
  "score policy c =
     (let latency = unwrap_or (ro_latency_ms c) u64_max;
          cost = max (ro_network_cost c) (ro_cost c)
      in case policy of
        LowLatency \<Rightarrow> (health_rank (ro_health c), latency, cost, type_rank (ro_route_type c),
          ro_failure_count c)
      | CostOptimized \<Rightarrow> (health_rank (ro_health c), if ro_metered c then 1 else 0, cost,
          type_rank (ro_route_type c), ro_failure_count c)
      | HighAvailability \<Rightarrow> (health_rank (ro_health c), ucast (ro_failure_count c),
          capped_latency latency, type_rank (ro_route_type c), ro_priority c)
      | _ \<Rightarrow> (health_rank (ro_health c), ucast (type_rank (ro_route_type c)),
          capped_latency latency, 0, cost))"

definition better_enough ::
  "route_policy \<Rightarrow> path_resolver_config \<Rightarrow> route_candidate \<Rightarrow> route_candidate \<Rightarrow> bool" where
  "better_enough policy config current candidate =
     (if \<not> pc_stickiness config then score policy candidate < score policy current
      else if pc_failure_threshold config \<le> ro_failure_count current then True
      else let current_latency = unwrap_or (ro_latency_ms current) u64_max;
               next_latency = unwrap_or (ro_latency_ms candidate) u64_max
        in if next_latency + pc_latency_hysteresis_ms config < current_latency then True
           else score policy candidate < score policy current
             \<and> ro_health candidate = ''HEALTHY'' \<and> ro_health current \<noteq> ''HEALTHY'')"

section \<open>The candidate snapshot\<close>

definition route_type_name :: "route_type \<Rightarrow> string" where
  "route_type_name t = (case t of
     SiteDirectLan \<Rightarrow> ''SITE_DIRECT_LAN'' | SiteDirectWanIpv4 \<Rightarrow> ''SITE_DIRECT_WAN_IPV4''
   | SiteDirectWanIpv6 \<Rightarrow> ''SITE_DIRECT_WAN_IPV6'' | ActiumRelay \<Rightarrow> ''ACTIUM_RELAY''
   | FederatedActiumNode \<Rightarrow> ''FEDERATED_ACTIUM_NODE'')"

definition json_u32 :: "u32 \<Rightarrow> json" where
  "json_u32 n = JNumber (PosInt (ucast n))"

definition json_u64 :: "u64 \<Rightarrow> json" where
  "json_u64 n = JNumber (PosInt n)"

definition json_opt :: "('a \<Rightarrow> json) \<Rightarrow> 'a option \<Rightarrow> json" where
  "json_opt f x = (case x of None \<Rightarrow> JNull | Some v \<Rightarrow> f v)"

definition candidate_snapshot :: "route_candidate \<Rightarrow> json" where
  "candidate_snapshot c = JObject
     [(''authority'', JString (if normalize_authority (ro_authority c) then ''AUTHORIZED'' else ''UNKNOWN'')),
      (''attestation'', json_opt JString (canonical_attestation (ro_attestation c))),
      (''endpoint'', JString (ro_endpoint c)),
      (''expiresAtMs'', json_opt json_u64 (ro_expires_at_ms c)),
      (''failureCount'', json_u32 (ro_failure_count c)),
      (''generation'', json_u64 (ro_generation c)),
      (''health'', JString (ro_health c)),
      (''latencyMs'', json_opt json_u64 (ro_latency_ms c)),
      (''metered'', JBool (ro_metered c)),
      (''networkCost'', json_u32 (max (ro_network_cost c) (ro_cost c))),
      (''priority'', json_u32 (ro_priority c)),
      (''relayId'', json_opt JString (ro_relay_id c)),
      (''routeId'', JString (ro_route_id c)),
      (''siteId'', JString (ro_site_id c)),
      (''successCount'', json_u32 (ro_success_count c)),
      (''trust'', JString (canonical_trust (ro_trust c))),
      (''type'', JString (route_type_name (ro_route_type c)))]"

definition candidate_snapshot_digest ::
  "(string \<Rightarrow> string) \<Rightarrow> (string \<Rightarrow> string) \<Rightarrow> route_candidate list \<Rightarrow> string" where
  "candidate_snapshot_digest esc sha candidates =
     hex_bytes (sha (canonical_json esc
       (JArray (map candidate_snapshot (sort_key ro_route_id candidates)))))"

section \<open>The decision\<close>

definition policy_debug :: "route_policy \<Rightarrow> string" where
  "policy_debug p = (case p of Auto \<Rightarrow> ''Auto'' | DirectOnly \<Rightarrow> ''DirectOnly''
     | RelayOnly \<Rightarrow> ''RelayOnly'' | HighAvailability \<Rightarrow> ''HighAvailability''
     | CostOptimized \<Rightarrow> ''CostOptimized'' | LowLatency \<Rightarrow> ''LowLatency'')"

definition path_receipt ::
  "(route_candidate list \<Rightarrow> string) \<Rightarrow> path_resolve_request \<Rightarrow> route_candidate list
     \<Rightarrow> string option \<Rightarrow> string \<Rightarrow> string \<Rightarrow> json option \<Rightarrow> route_decision_receipt" where
  "path_receipt digest request candidates previous selected reason failure =
     \<lparr>rd_decision_id = ''prd-'' @ show_word (pr_now_ms request),
      rd_terminal_id = pr_capability request, rd_site_id = pr_site_id request,
      rd_previous_route = previous, rd_selected_route = selected, rd_reason = reason,
      rd_failure_evidence = failure, rd_selected_at = show_word (pr_now_ms request),
      rd_policy_generation = pr_policy_generation request,
      rd_candidate_snapshot_digest = Some (digest candidates)\<rparr>"

definition eligible_now :: "path_resolve_request \<Rightarrow> path_resolver_config \<Rightarrow> route_candidate \<Rightarrow> bool" where
  "eligible_now request config c =
     (eligibility c (pr_policy request) (pr_now_ms request) config (pr_site_id request) = Eligible)"

definition current_route :: "path_resolver_state \<Rightarrow> route_candidate list \<Rightarrow> route_candidate option" where
  "current_route state candidates = (case ps_selected_route_id state of None \<Rightarrow> None
     | Some rid \<Rightarrow> find (\<lambda>c. ro_route_id c = rid) candidates)"

definition hold_active ::
  "path_resolve_request \<Rightarrow> path_resolver_config \<Rightarrow> path_resolver_state \<Rightarrow> route_candidate option \<Rightarrow> bool" where
  "hold_active request config state current = is_some_and current (\<lambda>c.
     pc_stickiness config
     \<and> sat_sub (pr_now_ms request) (ps_selected_at_ms state) < pc_minimum_hold_ms config
     \<and> ro_failure_count c < pc_failure_threshold config
     \<and> eligible_now request config c)"

definition select_route ::
  "path_resolve_request \<Rightarrow> path_resolver_config \<Rightarrow> route_candidate option \<Rightarrow> route_candidate option
     \<Rightarrow> route_candidate option" where
  "select_route request config current best = (case (current, best) of
     (Some c, Some b) \<Rightarrow>
       if ro_route_id c = ro_route_id b then Some c
       else if \<not> better_enough (pr_policy request) config c b \<and> eligible_now request config c
       then Some c else Some b
   | (None, Some b) \<Rightarrow> Some b
   | (Some c, None) \<Rightarrow> if eligible_now request config c then Some c else None
   | (None, None) \<Rightarrow> None)"

definition first_of :: "'a list \<Rightarrow> 'a option" where
  "first_of xs = (case xs of [] \<Rightarrow> None | x # _ \<Rightarrow> Some x)"

definition route_reason :: "bool \<Rightarrow> route_candidate option \<Rightarrow> string \<Rightarrow> string" where
  "route_reason hold current selected =
     (if map_option ro_route_id current = Some selected
      then (if hold then ''sticky_minimum_hold'' else ''sticky_current_healthy'')
      else if current \<noteq> None then ''failover_better_candidate'' else ''initial_select'')"

text \<open>The rest of \<open>resolve_path\<close>, once the probe backoff does not hold the current route.\<close>

definition resolve_probe ::
  "(route_candidate list \<Rightarrow> string) \<Rightarrow> route_candidate list \<Rightarrow> path_resolve_request
     \<Rightarrow> path_resolver_config \<Rightarrow> path_resolver_state \<Rightarrow> route_candidate option \<Rightarrow> route_candidate option
     \<Rightarrow> path_resolver_state \<times> (string + route_decision_receipt)" where
  "resolve_probe digest candidates request config state0 current best =
     (let state = state0\<lparr>ps_last_probe_at_ms := pr_now_ms request\<rparr>;
          hold = hold_active request config state current;
          selected = (if hold then current else select_route request config current best)
      in case selected of
        None \<Rightarrow> (state, Inl (''PATH_RESOLVER_POLICY_UNSATISFIED:'' @
          to_ascii_uppercase (policy_debug (pr_policy request))))
      | Some s \<Rightarrow>
          (let reason = route_reason hold current (ro_route_id s);
               previous = ps_selected_route_id state;
               state' = (if previous \<noteq> Some (ro_route_id s)
                 then state\<lparr>ps_selected_route_id := Some (ro_route_id s),
                        ps_selected_at_ms := pr_now_ms request\<rparr>
                 else state)
           in (state', Inr (path_receipt digest request candidates previous (ro_route_id s) reason None))))"

definition resolve_path ::
  "(route_candidate list \<Rightarrow> string) \<Rightarrow> route_candidate list \<Rightarrow> path_resolve_request
     \<Rightarrow> path_resolver_config \<Rightarrow> path_resolver_state
     \<Rightarrow> path_resolver_state \<times> (string + route_decision_receipt)" where
  "resolve_path digest candidates request config state =
     (let eligible = sort_key (score (pr_policy request)) (filter (eligible_now request config) candidates);
          current = current_route state candidates
      in case (pr_now_ms request < sat_add (ps_last_probe_at_ms state) (pc_probe_backoff_ms config), current) of
        (True, Some c) \<Rightarrow>
          if eligible_now request config c
          then (state, Inr (path_receipt digest request candidates (ps_selected_route_id state)
                  (ro_route_id c) ''probe_backoff_hold'' None))
          else resolve_probe digest candidates request config state current (first_of eligible)
      | _ \<Rightarrow> resolve_probe digest candidates request config state current (first_of eligible))"

section \<open>Lemmas\<close>

lemmas route_steps = resolve_path_def resolve_probe_def select_route_def path_receipt_def

lemma current_route_in: "current_route state cs = Some c \<Longrightarrow> c \<in> set cs"
  by (auto simp: current_route_def dest: find_SomeD split: option.splits)

lemma current_route_id: "current_route state cs = Some c \<Longrightarrow> ps_selected_route_id state = Some (ro_route_id c)"
  by (auto simp: current_route_def dest: find_SomeD split: option.splits)

lemma first_of_sorted_None: "first_of (sort_key f xs) = None \<longleftrightarrow> xs = []"
  by (auto simp: first_of_def split: list.splits) (metis length_0_conv length_sort)

lemma first_of_sorted_Some:
  "first_of (sort_key f xs) = Some x \<Longrightarrow> x \<in> set xs \<and> (\<forall>y \<in> set xs. f x \<le> f y)"
  by (auto simp: first_of_def split: list.splits dest!: sort_key_hd_min)

lemma hold_active_eligible:
  assumes "hold_active request config state current"
  obtains c where "current = Some c" "eligible_now request config c"
  using assms by (auto simp: hold_active_def is_some_and_iff)

text \<open>The route a decision picks, whichever branch it takes.\<close>

definition backoff_holds ::
  "route_candidate list \<Rightarrow> path_resolve_request \<Rightarrow> path_resolver_config \<Rightarrow> path_resolver_state \<Rightarrow> bool" where
  "backoff_holds candidates request config state =
     (pr_now_ms request < sat_add (ps_last_probe_at_ms state) (pc_probe_backoff_ms config)
      \<and> is_some_and (current_route state candidates) (eligible_now request config))"

definition decided_route ::
  "route_candidate list \<Rightarrow> path_resolve_request \<Rightarrow> path_resolver_config \<Rightarrow> path_resolver_state
     \<Rightarrow> route_candidate option" where
  "decided_route candidates request config state =
     (if backoff_holds candidates request config state
         \<or> hold_active request config (state\<lparr>ps_last_probe_at_ms := pr_now_ms request\<rparr>)
             (current_route state candidates)
      then current_route state candidates
      else select_route request config (current_route state candidates)
        (first_of (sort_key (score (pr_policy request)) (filter (eligible_now request config) candidates))))"

definition selected_state :: "path_resolver_state \<Rightarrow> u64 \<Rightarrow> string \<Rightarrow> path_resolver_state" where
  "selected_state state now rid =
     (if ps_selected_route_id state = Some rid then state
      else state\<lparr>ps_selected_route_id := Some rid, ps_selected_at_ms := now\<rparr>)"

lemma resolve_path_backoff:
  assumes "backoff_holds candidates request config state"
  obtains c where "current_route state candidates = Some c"
    "resolve_path digest candidates request config state
      = (state, Inr (path_receipt digest request candidates (ps_selected_route_id state)
          (ro_route_id c) ''probe_backoff_hold'' None))"
  using assms by (auto simp: backoff_holds_def is_some_and_iff resolve_path_def Let_def)

lemma resolve_path_probe:
  assumes "\<not> backoff_holds candidates request config state"
  shows "resolve_path digest candidates request config state
    = resolve_probe digest candidates request config state (current_route state candidates)
        (first_of (sort_key (score (pr_policy request)) (filter (eligible_now request config) candidates)))"
  using assms
  by (cases "current_route state candidates")
    (auto simp: backoff_holds_def resolve_path_def Let_def split: bool.split)

definition probed_route ::
  "path_resolve_request \<Rightarrow> path_resolver_config \<Rightarrow> path_resolver_state \<Rightarrow> route_candidate option
     \<Rightarrow> route_candidate option \<Rightarrow> route_candidate option" where
  "probed_route request config state current best =
     (if hold_active request config (state\<lparr>ps_last_probe_at_ms := pr_now_ms request\<rparr>) current
      then current else select_route request config current best)"

lemma resolve_probe_None:
  "probed_route request config state current best = None \<Longrightarrow>
   resolve_probe digest candidates request config state current best
     = (state\<lparr>ps_last_probe_at_ms := pr_now_ms request\<rparr>,
        Inl (''PATH_RESOLVER_POLICY_UNSATISFIED:'' @ to_ascii_uppercase (policy_debug (pr_policy request))))"
  unfolding probed_route_def resolve_probe_def Let_def by simp

lemma resolve_probe_Some:
  "probed_route request config state current best = Some s \<Longrightarrow>
   resolve_probe digest candidates request config state current best
     = (selected_state (state\<lparr>ps_last_probe_at_ms := pr_now_ms request\<rparr>) (pr_now_ms request) (ro_route_id s),
        Inr (path_receipt digest request candidates (ps_selected_route_id state) (ro_route_id s)
          (route_reason (hold_active request config (state\<lparr>ps_last_probe_at_ms := pr_now_ms request\<rparr>) current)
            current (ro_route_id s)) None))"
  unfolding probed_route_def resolve_probe_def Let_def
  by (simp add: selected_state_def)

text \<open>The result and the state after a decision, by the decided route.\<close>

lemma resolve_path_decided:
  "case decided_route candidates request config state of
     None \<Rightarrow> resolve_path digest candidates request config state
       = (state\<lparr>ps_last_probe_at_ms := pr_now_ms request\<rparr>,
          Inl (''PATH_RESOLVER_POLICY_UNSATISFIED:'' @ to_ascii_uppercase (policy_debug (pr_policy request))))
   | Some c \<Rightarrow> \<exists>probe reason. resolve_path digest candidates request config state
       = (selected_state (state\<lparr>ps_last_probe_at_ms := probe\<rparr>) (pr_now_ms request) (ro_route_id c),
          Inr (path_receipt digest request candidates (ps_selected_route_id state) (ro_route_id c) reason None))"
proof (cases "backoff_holds candidates request config state")
  case True
  then obtain c where c: "current_route state candidates = Some c" and
    r: "resolve_path digest candidates request config state
      = (state, Inr (path_receipt digest request candidates (ps_selected_route_id state)
          (ro_route_id c) ''probe_backoff_hold'' None))" by (rule resolve_path_backoff)
  have same: "selected_state (state\<lparr>ps_last_probe_at_ms := ps_last_probe_at_ms state\<rparr>)
      (pr_now_ms request) (ro_route_id c) = state"
    using current_route_id [OF c] by (simp add: selected_state_def)
  have "\<exists>probe reason. resolve_path digest candidates request config state
       = (selected_state (state\<lparr>ps_last_probe_at_ms := probe\<rparr>) (pr_now_ms request) (ro_route_id c),
          Inr (path_receipt digest request candidates (ps_selected_route_id state) (ro_route_id c) reason None))"
    unfolding r by (rule exI [of _ "ps_last_probe_at_ms state"], rule exI [of _ "''probe_backoff_hold''"])
      (simp only: same)
  then show ?thesis using c True by (simp add: decided_route_def)
next
  case False
  let ?best = "first_of (sort_key (score (pr_policy request)) (filter (eligible_now request config) candidates))"
  have sel: "decided_route candidates request config state
    = probed_route request config state (current_route state candidates) ?best"
    using False by (simp add: decided_route_def probed_route_def)
  show ?thesis
  proof (cases "decided_route candidates request config state")
    case None
    then show ?thesis using resolve_probe_None sel by (simp add: resolve_path_probe [OF False])
  next
    case (Some c)
    with resolve_probe_Some [of request config state "current_route state candidates" ?best c] sel
    obtain reason where "resolve_path digest candidates request config state
       = (selected_state (state\<lparr>ps_last_probe_at_ms := pr_now_ms request\<rparr>) (pr_now_ms request) (ro_route_id c),
          Inr (path_receipt digest request candidates (ps_selected_route_id state) (ro_route_id c) reason None))"
      unfolding resolve_path_probe [OF False] by metis
    then show ?thesis using Some by auto
  qed
qed

lemma select_route_Some:
  "select_route request config current best = Some c \<Longrightarrow>
     (current = Some c \<and> eligible_now request config c)
   \<or> (\<exists>b. best = Some b \<and> ro_route_id b = ro_route_id c)"
  by (simp add: select_route_def split: option.splits if_splits)

lemma select_route_None: "select_route request config current best = None \<Longrightarrow> best = None"
  by (simp add: select_route_def split: option.splits if_splits)

lemma decided_route_cases:
  obtains c where "current_route state candidates = Some c" "eligible_now request config c"
      "decided_route candidates request config state = Some c"
  | "decided_route candidates request config state = select_route request config
      (current_route state candidates)
      (first_of (sort_key (score (pr_policy request)) (filter (eligible_now request config) candidates)))"
proof (cases "backoff_holds candidates request config state \<or> hold_active request config (state\<lparr>ps_last_probe_at_ms := pr_now_ms request\<rparr>)
        (current_route state candidates)")
  case True
  then obtain c where "current_route state candidates = Some c" "eligible_now request config c"
    by (auto simp: is_some_and_iff backoff_holds_def elim: hold_active_eligible)
  moreover from this True have "decided_route candidates request config state = Some c"
    by (auto simp: decided_route_def Let_def)
  ultimately show thesis by (rule that(1))
next
  case False
  show thesis by (rule that(2)) (use False in \<open>auto simp: decided_route_def Let_def\<close>)
qed

lemma decided_route_eligible:
  assumes d: "decided_route candidates request config state = Some c"
  shows "\<exists>e \<in> set candidates. ro_route_id e = ro_route_id c \<and> eligible_now request config e"
proof (rule decided_route_cases [of state candidates request config])
  fix x assume "current_route state candidates = Some x" "eligible_now request config x"
    "decided_route candidates request config state = Some x"
  then show ?thesis using current_route_in d by auto
next
  let ?best = "first_of (sort_key (score (pr_policy request)) (filter (eligible_now request config) candidates))"
  assume "decided_route candidates request config state
    = select_route request config (current_route state candidates) ?best"
  then have "select_route request config (current_route state candidates) ?best = Some c"
    using d by simp
  from select_route_Some [OF this] show ?thesis
  proof
    assume "current_route state candidates = Some c \<and> eligible_now request config c"
    then show ?thesis using current_route_in by blast
  next
    assume "\<exists>b. ?best = Some b \<and> ro_route_id b = ro_route_id c"
    then show ?thesis using first_of_sorted_Some by fastforce
  qed
qed

lemma decided_route_None:
  "decided_route candidates request config state = None \<longleftrightarrow>
     filter (eligible_now request config) candidates = []"
proof
  let ?e = "filter (eligible_now request config) candidates"
  assume n: "decided_route candidates request config state = None"
  show "?e = []"
  proof (rule decided_route_cases [of state candidates request config])
    assume "decided_route candidates request config state = select_route request config
      (current_route state candidates) (first_of (sort_key (score (pr_policy request)) ?e))"
    with n have "select_route request config (current_route state candidates)
        (first_of (sort_key (score (pr_policy request)) ?e)) = None" by simp
    then have "first_of (sort_key (score (pr_policy request)) ?e) = None" by (rule select_route_None)
    then show "?e = []" by (simp only: first_of_sorted_None)
  qed (use n in simp)
next
  assume e: "filter (eligible_now request config) candidates = []"
  show "decided_route candidates request config state = None"
  proof (cases "decided_route candidates request config state")
    case (Some c)
    from decided_route_eligible [OF this] obtain x
      where "x \<in> set (filter (eligible_now request config) candidates)"
      by (elim bexE conjE) (rule that, simp)
    then show ?thesis unfolding e by simp
  qed
qed

lemma eligible_now_iff:
  "eligible_now request config c \<longleftrightarrow>
     is_active_route_type (ro_route_type c) \<and> policy_allows (pr_policy request) (ro_route_type c)
   \<and> normalize_authority (ro_authority c) \<and> \<not> is_blank (ro_site_id c) \<and> ro_site_id c = pr_site_id request
   \<and> is_none_or (ro_expires_at_ms c) (\<lambda>e. pr_now_ms request < e)
   \<and> trust_eligible c = Eligible \<and> ro_health c \<noteq> ''UNREACHABLE'' \<and> ro_health c \<noteq> ''UNKNOWN''
   \<and> \<not> (1 \<le> ro_failure_count c \<and> ro_success_count c < pc_recovery_threshold config)"
  by (cases "ro_expires_at_ms c") (auto simp: eligible_now_def eligibility_def not_le)

lemma trust_eligible_iff:
  "trust_eligible c = Eligible \<longleftrightarrow> canonical_trust (ro_trust c) = ''TRUSTED'' \<and>
     (case ro_route_type c of SiteDirectLan \<Rightarrow> True
      | ActiumRelay \<Rightarrow> is_some_and (ro_relay_id c) (\<lambda>r. \<not> is_blank r)
      | FederatedActiumNode \<Rightarrow> False
      | _ \<Rightarrow> attestation_ready (ro_attestation c))"
  by (auto simp: trust_eligible_def Let_def split: route_type.split)

lemmas eligibility_rules = eligible_now_iff trust_eligible_iff

text \<open>
  What makes a candidate eligible, independently of the order of the checks: it is an active
  route that the policy admits, authorised and trusted, of the requested (non-blank) site,
  unexpired, of a known and reachable health, recovered from its failures, and a WAN route
  has its attestation ready, a relayed one names its relay.
\<close>

definition route_qualifies :: "path_resolve_request \<Rightarrow> path_resolver_config \<Rightarrow> route_candidate \<Rightarrow> bool" where
  "route_qualifies request config c \<longleftrightarrow>
     ro_route_type c \<noteq> FederatedActiumNode
   \<and> (pr_policy request = DirectOnly \<longrightarrow> ro_route_type c \<noteq> ActiumRelay)
   \<and> (pr_policy request = RelayOnly \<longrightarrow> ro_route_type c = ActiumRelay)
   \<and> normalize_authority (ro_authority c) \<and> canonical_trust (ro_trust c) = ''TRUSTED''
   \<and> \<not> is_blank (ro_site_id c) \<and> ro_site_id c = pr_site_id request
   \<and> (\<forall>e. ro_expires_at_ms c = Some e \<longrightarrow> pr_now_ms request < e)
   \<and> ro_health c \<noteq> ''UNREACHABLE'' \<and> ro_health c \<noteq> ''UNKNOWN''
   \<and> (ro_failure_count c = 0 \<or> pc_recovery_threshold config \<le> ro_success_count c)
   \<and> (ro_route_type c \<in> {SiteDirectWanIpv4, SiteDirectWanIpv6} \<longrightarrow> attestation_ready (ro_attestation c))
   \<and> (ro_route_type c = ActiumRelay \<longrightarrow> (\<exists>r. ro_relay_id c = Some r \<and> \<not> is_blank r))"

lemma one_le_word_iff: "1 \<le> w \<longleftrightarrow> w \<noteq> 0" for w :: "'a::len word"
  by (simp add: word_le_nat_alt Suc_le_eq unat_gt_0)

lemma eligible_now_qualifies: "eligible_now request config c \<longleftrightarrow> route_qualifies request config c"
proof (cases "ro_route_type c")
  case FederatedActiumNode
  then show ?thesis by (simp add: eligible_now_iff route_qualifies_def is_active_route_type_def)
next
  case ActiumRelay
  then show ?thesis
    by (cases "pr_policy request")
      (auto simp: eligibility_rules route_qualifies_def is_active_route_type_def
        policy_allows_def one_le_word_iff not_less result_simps is_some_and_iff)
qed (cases "pr_policy request";
     auto simp: eligibility_rules route_qualifies_def is_active_route_type_def
       policy_allows_def one_le_word_iff not_less result_simps)+

section \<open>Properties\<close>

text \<open>
  C6. The resolver is sound and complete: it returns a route exactly when some candidate is
  eligible, and the route it returns is the one of an eligible candidate. Eligible
  (\<open>route_qualifies\<close>) means everything the checks ask for: an active route type that the policy
  admits, authorised, trusted, of the requested site, unexpired, of a known and reachable
  health, recovered from its failures, a WAN route with its attestation ready, a relayed one
  with its relay named. The state then remembers the route and the receipt the one before it;
  when no candidate is eligible the call fails with the policy in its message and the state
  changes only in the time of its last probe.
\<close>

theorem resolve_path_sound_complete:
  "case resolve_path digest candidates request config state of
     (state', Inr receipt) \<Rightarrow>
       (\<exists>c. c \<in> set candidates \<and> ro_route_id c = rd_selected_route receipt
          \<and> route_qualifies request config c)
       \<and> ps_selected_route_id state' = Some (rd_selected_route receipt)
       \<and> rd_previous_route receipt = ps_selected_route_id state
   | (state', Inl e) \<Rightarrow> (\<nexists>c. c \<in> set candidates \<and> route_qualifies request config c)
       \<and> e = ''PATH_RESOLVER_POLICY_UNSATISFIED:'' @ to_ascii_uppercase (policy_debug (pr_policy request))
       \<and> state' = state\<lparr>ps_last_probe_at_ms := pr_now_ms request\<rparr>"
proof (cases "decided_route candidates request config state")
  case None
  then show ?thesis
    using resolve_path_decided [where candidates = candidates and request = request and config = config
        and state = state and digest = digest]
      decided_route_None [of candidates request config state]
    by (auto simp: filter_empty_conv eligible_now_qualifies)
next
  case (Some s)
  obtain probe reason where r: "resolve_path digest candidates request config state
       = (selected_state (state\<lparr>ps_last_probe_at_ms := probe\<rparr>) (pr_now_ms request) (ro_route_id s),
          Inr (path_receipt digest request candidates (ps_selected_route_id state) (ro_route_id s) reason None))"
    using resolve_path_decided [where candidates = candidates and request = request and config = config
        and state = state and digest = digest] Some by auto
  from decided_route_eligible [OF Some] obtain c where
    "c \<in> set candidates" "ro_route_id c = ro_route_id s" "route_qualifies request config c"
    unfolding eligible_now_qualifies by blast
  then show ?thesis unfolding r
    by (auto simp: path_receipt_def selected_state_def)
qed

text \<open>
  No flapping inside the hold time: with stickiness on, a selected route that is still
  eligible, below the failure threshold and selected less than the minimum hold time ago is
  kept, whatever better candidates have appeared, and neither the selection nor its time changes.
\<close>

theorem sticky_hold_keeps_route:
  assumes "current_route state candidates = Some c" "eligible_now request config c"
    and "pc_stickiness config" "ro_failure_count c < pc_failure_threshold config"
    and "sat_sub (pr_now_ms request) (ps_selected_at_ms state) < pc_minimum_hold_ms config"
  shows "case resolve_path digest candidates request config state of
    (state', r) \<Rightarrow> ps_selected_route_id state' = ps_selected_route_id state
      \<and> ps_selected_at_ms state' = ps_selected_at_ms state
      \<and> (case r of Inr receipt \<Rightarrow> rd_selected_route receipt = ro_route_id c | Inl _ \<Rightarrow> False)"
proof -
  have "hold_active request config (state\<lparr>ps_last_probe_at_ms := pr_now_ms request\<rparr>) (Some c)"
    using assms by (simp add: hold_active_def)
  then have d: "decided_route candidates request config state = Some c"
    using assms(1) by (simp add: decided_route_def)
  show ?thesis
    using resolve_path_decided [where candidates = candidates and request = request and config = config
        and state = state and digest = digest] current_route_id [OF assms(1)]
    by (auto simp: d selected_state_def path_receipt_def)
qed

definition candidate_example :: "string \<Rightarrow> route_type \<Rightarrow> u64 option \<Rightarrow> route_candidate" where
  "candidate_example rid t latency = \<lparr>ro_route_id = rid, ro_route_type = t, ro_endpoint = rid,
     ro_priority = 0, ro_cost = 0, ro_health = ''HEALTHY'', ro_latency_ms = latency,
     ro_failure_count = 0, ro_generation = 1, ro_expires_at_ms = None, ro_authority = ''authorized'',
     ro_attestation = Some ''ready'', ro_trust = ''trusted'', ro_network_cost = 0, ro_metered = False,
     ro_last_success = None, ro_success_count = 0, ro_relay_id = None, ro_site_id = ''s''\<rparr>"

definition request_example :: "u64 \<Rightarrow> path_resolve_request" where
  "request_example now = \<lparr>pr_policy = Auto, pr_capability = ''c'', pr_site_id = ''s'',
     pr_policy_generation = 1, pr_now_ms = now\<rparr>"

definition selected_example :: path_resolver_state where
  "selected_example = \<lparr>ps_selected_route_id = Some ''wan'', ps_selected_at_ms = 1000,
     ps_last_probe_at_ms = 1000\<rparr>"

definition candidates_example :: "route_candidate list" where
  "candidates_example = [candidate_example ''lan'' SiteDirectLan None,
     candidate_example ''wan'' SiteDirectWanIpv4 (Some 50)]"

theorem sticky_hold_keeps_route_witness:
  "ps_selected_route_id (fst (resolve_path (\<lambda>_. []) candidates_example (request_example 9000)
     path_resolver_config_default selected_example)) = Some ''wan''"
proof -
  let ?c = "candidate_example ''wan'' SiteDirectWanIpv4 (Some 50)"
  have "current_route selected_example candidates_example = Some ?c"
    "eligible_now (request_example 9000) path_resolver_config_default ?c"
    "pc_stickiness path_resolver_config_default"
    "ro_failure_count ?c < pc_failure_threshold path_resolver_config_default"
    "sat_sub (pr_now_ms (request_example 9000)) (ps_selected_at_ms selected_example)
       < pc_minimum_hold_ms path_resolver_config_default"
    "ps_selected_route_id selected_example = Some ''wan''" by code_simp+
  from sticky_hold_keeps_route [OF this(1-5), of "\<lambda>_. []"] this(6) show ?thesis
    by (simp add: case_prod_beta)
qed

text \<open>
  An unknown latency counts as the best one: the latency of a candidate without a measurement
  is \<open>u64::MAX\<close>, and adding the hysteresis to it wraps around, so with stickiness on the resolver
  leaves a healthy route of known latency for the best-scored candidate of unknown latency as soon
  as the known latency reaches the hysteresis.
\<close>

theorem unknown_latency_wins:
  assumes "pc_stickiness config" "ro_latency_ms b = None" "ro_latency_ms c = Some l"
    and "0 < pc_latency_hysteresis_ms config" "pc_latency_hysteresis_ms config \<le> l"
    and "ro_route_id c \<noteq> ro_route_id b"
  shows "better_enough (pr_policy request) config c b
    \<and> select_route request config (Some c) (Some b) = Some b"
proof -
  have wrap: "u64_max + pc_latency_hysteresis_ms config = pc_latency_hysteresis_ms config - 1" by simp
  moreover have "pc_latency_hysteresis_ms config - 1 < l"
  proof -
    have "pc_latency_hysteresis_ms config \<noteq> 0" using assms(4) by auto
    then have "unat (pc_latency_hysteresis_ms config - 1) = unat (pc_latency_hysteresis_ms config) - 1"
      by (rule unat_minus_one)
    moreover have "0 < unat (pc_latency_hysteresis_ms config)"
      "unat (pc_latency_hysteresis_ms config) \<le> unat l"
      using assms(4,5) by (simp_all add: word_less_nat_alt word_le_nat_alt)
    ultimately show ?thesis unfolding word_less_nat_alt by linarith
  qed
  ultimately have "u64_max + pc_latency_hysteresis_ms config < l" by (simp only: wrap)
  then have "better_enough (pr_policy request) config c b"
    using assms by (simp add: better_enough_def Let_def)
  then show ?thesis using assms(6) by (simp add: select_route_def)
qed

theorem unknown_latency_wins_witness:
  "select_route (request_example 60000) path_resolver_config_default
     (Some (candidate_example ''wan'' SiteDirectWanIpv4 (Some 50)))
     (Some (candidate_example ''lan'' SiteDirectLan None))
   = Some (candidate_example ''lan'' SiteDirectLan None)"
  by (rule unknown_latency_wins [of path_resolver_config_default
      "candidate_example ''lan'' SiteDirectLan None"
      "candidate_example ''wan'' SiteDirectWanIpv4 (Some 50)" 50, THEN conjunct2])
    (code_simp | simp add: candidate_example_def)+

text \<open>
  The snapshot digest of a decision does not depend on the order in which the candidates are
  listed, when their route ids are different.
\<close>

theorem snapshot_digest_order_independent:
  assumes "mset candidates = mset others" "distinct (map ro_route_id candidates)"
  shows "candidate_snapshot_digest esc sha candidates = candidate_snapshot_digest esc sha others"
proof -
  have "inj_on ro_route_id (set candidates)" using assms(2) by (simp add: distinct_map)
  from sort_key_order_independent [OF assms(1) this] show ?thesis
    by (simp only: candidate_snapshot_digest_def)
qed

theorem snapshot_digest_order_independent_witness:
  "candidate_snapshot_digest quote_escape (\<lambda>x. x) candidates_example
   = candidate_snapshot_digest quote_escape (\<lambda>x. x) (rev candidates_example)"
  by (rule snapshot_digest_order_independent)
    (simp_all add: candidates_example_def candidate_example_def)

end
