(* ===== verification/Json_Members.thy ===== *)
theory Json_Members
  imports Canonical_Json
begin

text \<open>
  How a derived \<open>Serialize\<close> writes numbers, options and lists into a JSON value, and what the
  canonical text says of the members of an object: the rules by which the signed types of the
  program are shown to be determined by their signed bytes.
\<close>

section \<open>Values of the derived serialisers\<close>

definition json_nat_word :: "'a::len word \<Rightarrow> json" where
  "json_nat_word n = JNumber (PosInt (ucast n))"

definition json_strings :: "string list \<Rightarrow> json" where
  "json_strings xs = JArray (map JString xs)"

definition opt_member :: "string \<Rightarrow> ('a \<Rightarrow> json) \<Rightarrow> 'a option \<Rightarrow> (string \<times> json) list" where
  "opt_member k f x = (case x of None \<Rightarrow> [] | Some v \<Rightarrow> [(k, f v)])"

definition opt_json :: "('a \<Rightarrow> json) \<Rightarrow> 'a option \<Rightarrow> json" where
  "opt_json f x = (case x of None \<Rightarrow> JNull | Some v \<Rightarrow> f v)"

section \<open>Members through the sorting\<close>

lemma map_of_insort_key:
  "k \<notin> fst ` set kvs \<Longrightarrow> map_of (insort_key fst (k, x) kvs) j = (if j = k then Some x else map_of kvs j)"
  by (induction kvs) auto

text \<open>Members of an object, read through the sorting of the canonical text.\<close>

lemma map_of_sort_members:
  "distinct (map fst kvs) \<Longrightarrow>
   map_of (sort_key fst (map (map_prod (\<lambda>k. k) sort_members) kvs)) k = map_option sort_members (map_of kvs k)"
proof (induction kvs)
  case (Cons kv kvs)
  obtain a v where kv: "kv = (a, v)" by force
  have "map_of (insort_key fst (a, sort_members v) (sort_key fst (map (map_prod (\<lambda>k. k) sort_members) kvs))) k
      = (if k = a then Some (sort_members v) else map_of (sort_key fst (map (map_prod (\<lambda>k. k) sort_members) kvs)) k)"
    by (rule map_of_insort_key) (use Cons.prems kv in \<open>auto simp: image_comp\<close>)
  then show ?case using Cons kv by auto
qed simp

lemma same_sorted_member:
  assumes "sort_members (JObject kvs) = sort_members (JObject kvs')"
    and "distinct (map fst kvs)" "distinct (map fst kvs')"
  shows "map_option sort_members (map_of kvs k) = map_option sort_members (map_of kvs' k)"
  using assms map_of_sort_members [OF assms(2), of k] map_of_sort_members [OF assms(3), of k] by simp

lemma map_sort_strings: "map sort_members (map JString xs) = map JString xs"
  by simp

lemma sort_members_strings: "map sort_members (map JString xs) = map sort_members (map JString ys) \<Longrightarrow> xs = ys"
  by (auto simp: inj_map_eq_map inj_def comp_def)

lemma sort_members_number: "sort_members (json_nat_word n) = json_nat_word n"
  by (simp add: json_nat_word_def)

lemma json_nat_word_inj: "json_nat_word (m :: u64) = json_nat_word n \<longleftrightarrow> m = n"
  by (simp add: json_nat_word_def)

lemma map_of_opt_member: "map_of (opt_member k f v) j = (if j = k then map_option f v else None)"
  by (auto simp: opt_member_def split: option.split)

lemmas member_lookup = map_of_opt_member map_add_def sort_members_number json_nat_word_inj

lemma same_optional_string:
  "map_option sort_members (map_option JString x) = map_option sort_members (map_option JString y) \<longleftrightarrow> x = y"
  by (cases x; cases y) simp_all

section \<open>Faithful encoders\<close>

text \<open>
  An encoder is faithful when the canonical text of what it writes determines what was written.
  The encoder of a record whose members are always all there is faithful when those of its members
  are: \<open>same_object\<close> reads the equality of two objects member by member.
\<close>

named_theorems encoders \<open>equality of encoded values\<close>

definition faithful :: "('a \<Rightarrow> json) \<Rightarrow> bool" where
  "faithful f \<longleftrightarrow> (\<forall>x y. sort_members (f x) = sort_members (f y) \<longrightarrow> x = y)"

lemma faithfulI: "(\<And>x y. sort_members (f x) = sort_members (f y) \<Longrightarrow> x = y) \<Longrightarrow> faithful f"
  by (simp add: faithful_def)

lemma faithful_iff: "faithful f \<Longrightarrow> sort_members (f x) = sort_members (f y) \<longleftrightarrow> x = y"
  by (auto simp: faithful_def)

lemma faithful_list:
  "faithful f \<Longrightarrow> map sort_members (map f xs) = map sort_members (map f ys) \<longleftrightarrow> xs = ys"
  using inj_map_eq_map [of "\<lambda>x. sort_members (f x)" xs ys]
  by (auto simp: inj_def faithful_def comp_def)

lemma same_array [encoders]:
  "faithful f \<Longrightarrow> sort_members (JArray (map f xs)) = sort_members (JArray (map f ys)) \<longleftrightarrow> xs = ys"
  using faithful_list [of f xs ys] by simp

lemma same_opt_json [encoders]:
  assumes "faithful f" "\<And>x. f x \<noteq> JNull"
  shows "sort_members (opt_json f x) = sort_members (opt_json f y) \<longleftrightarrow> x = y"
proof -
  have n: "sort_members (f z) \<noteq> JNull" for z using assms(2) [of z] by (cases "f z") auto
  then show ?thesis using assms(1)
    by (cases x; cases y) (auto simp: opt_json_def faithful_iff n [symmetric])
qed

lemma faithful_atoms [simp]:
  "faithful JString" "faithful JBool" "faithful (json_nat_word :: u64 \<Rightarrow> json)"
  by (simp_all add: faithful_def json_nat_word_def)

lemma json_nat_word_narrow [encoders]:
  fixes m n :: "'a::len word"
  assumes "LENGTH('a) \<le> 64"
  shows "sort_members (json_nat_word m) = sort_members (json_nat_word n) \<longleftrightarrow> m = n"
proof -
  have same: "unat (ucast w :: u64) = unat w" for w :: "'a word"
  proof -
    have "unat w < 2 ^ LENGTH('a)" by (rule unsigned_less)
    also have "\<dots> \<le> 2 ^ 64" by (rule power_increasing) (use assms in simp_all)
    finally show ?thesis by (simp add: unsigned_ucast_eq take_bit_eq_mod)
  qed
  have "(ucast m :: u64) = ucast n \<longleftrightarrow> m = n"
    using same [of m] same [of n] by (metis word_unat_eq_iff)
  then show ?thesis by (simp add: json_nat_word_def)
qed

lemma same_object:
  assumes "map fst kvs = map fst kvs'" "distinct (map fst kvs)"
  shows "sort_members (JObject kvs) = sort_members (JObject kvs')
    \<longleftrightarrow> map (\<lambda>kv. sort_members (snd kv)) kvs = map (\<lambda>kv. sort_members (snd kv)) kvs'"
proof
  assume eq: "sort_members (JObject kvs) = sort_members (JObject kvs')"
  have len: "length kvs = length kvs'" using assms(1) map_eq_imp_length_eq by blast
  have "sort_members (snd (kvs ! i)) = sort_members (snd (kvs' ! i))" if i: "i < length kvs" for i
  proof -
    have k: "fst (kvs' ! i) = fst (kvs ! i)" using assms(1) i len by (metis nth_map)
    have "map_of kvs (fst (kvs ! i)) = Some (snd (kvs ! i))"
      using assms(2) i by (simp add: map_of_eq_Some_iff)
    moreover have "map_of kvs' (fst (kvs ! i)) = Some (snd (kvs' ! i))"
      using assms i len k by (metis map_of_eq_Some_iff nth_mem prod.collapse)
    ultimately show ?thesis
      using same_sorted_member [OF eq assms(2), of "fst (kvs ! i)"] assms by simp
  qed
  with len show "map (\<lambda>kv. sort_members (snd kv)) kvs = map (\<lambda>kv. sort_members (snd kv)) kvs'"
    by (simp add: list_eq_iff_nth_eq)
next
  assume "map (\<lambda>kv. sort_members (snd kv)) kvs = map (\<lambda>kv. sort_members (snd kv)) kvs'"
  then have "zip (map fst kvs) (map (\<lambda>kv. sort_members (snd kv)) kvs)
      = zip (map fst kvs') (map (\<lambda>kv. sort_members (snd kv)) kvs')" using assms(1) by simp
  moreover have "map (map_prod (\<lambda>k. k) sort_members) ms = zip (map fst ms) (map (\<lambda>kv. sort_members (snd kv)) ms)"
    for ms :: "(string \<times> json) list"
    by (induction ms) auto
  ultimately have "map (map_prod (\<lambda>k. k) sort_members) kvs = map (map_prod (\<lambda>k. k) sort_members) kvs'"
    by (simp only:)
  then show "sort_members (JObject kvs) = sort_members (JObject kvs')" by simp
qed

lemma sort_members_atoms [encoders]:
  "sort_members (JString s) = JString s" "sort_members (JBool b) = JBool b"
  "sort_members (JNumber n) = JNumber n" "sort_members JNull = JNull"
  by simp_all

text \<open>What \<open>json_ok\<close> asks of the parts.\<close>

lemma json_ok_parts [simp]:
  "json_ok (json_nat_word n)" "json_ok (json_strings xs)"
  "(\<And>x. json_ok (f x)) \<Longrightarrow> json_ok (opt_json f y)"
  "(\<And>x. json_ok (f x)) \<Longrightarrow> json_ok (JArray (map f ys))"
  by (auto simp: json_nat_word_def json_strings_def opt_json_def list_all_iff split: option.split)

text \<open>Hexadecimal digests of different bytes differ.\<close>

lemma hex_bytes_inj: "hex_bytes s = hex_bytes t \<longleftrightarrow> s = t"
  using parse_hex_bytes [of _ s] parse_hex_bytes [of _ t] by (metis Inr_inject)

end
