(* ===== verification/Workload_Types.thy ===== *)
theory Workload_Types
  imports Json_Members
begin

text \<open>
  The vocabulary of workloads (\<^verbatim>\<open>actium-node-core/src/workload.rs\<close>) and the data of a
  canonical plan (\<^verbatim>\<open>workload_runtime/planner.rs\<close>) with its JSON form.
\<close>

section \<open>Workloads\<close>

datatype runtime_readiness = DeclaredByContract | RuntimeAvailable | Reserved_readiness

datatype runtime_kind = OciContainer | OciCompose | Vm_kind

definition kind_readiness :: "runtime_kind \<Rightarrow> bool \<Rightarrow> runtime_readiness" where
  "kind_readiness k executor_available = (case k of
     Vm_kind \<Rightarrow> Reserved_readiness
   | _ \<Rightarrow> if executor_available then RuntimeAvailable else DeclaredByContract)"

definition kind_is_supported :: "runtime_kind \<Rightarrow> bool" where
  "kind_is_supported k = (case k of OciContainer \<Rightarrow> True | OciCompose \<Rightarrow> True | Vm_kind \<Rightarrow> False)"

datatype component_status = C_Pending | C_Ready | C_Degraded | C_Failed | C_Stopped

record component_observation =
  ob_component_id :: string
  ob_status :: component_status

definition overall_from_components :: "component_observation list \<Rightarrow> component_status" where
  "overall_from_components cs =
     (if cs = [] then C_Failed
      else if list_all (\<lambda>c. ob_status c = C_Ready) cs then C_Ready
      else if list_ex (\<lambda>c. ob_status c = C_Failed) cs then C_Failed
      else if list_all (\<lambda>c. ob_status c = C_Stopped) cs then C_Stopped
      else if list_ex (\<lambda>c. ob_status c = C_Degraded) cs then C_Degraded
      else C_Pending)"

text \<open>The needles are a quoted key and the colon right behind it.\<close>

definition inline_secret_needles :: "string list" where
  "inline_secret_needles = map (\<lambda>k. CHR 0x22 # k @ [CHR 0x22, CHR '':''])
     [''password'', ''secret'', ''api_key'', ''app_key'']"

definition profile_json_has_inline_secret_values :: "string \<Rightarrow> bool" where
  "profile_json_has_inline_secret_values text =
     list_ex (str_contains (to_ascii_lowercase text)) inline_secret_needles"

section \<open>Plans\<close>

record planned_secret_mount =
  sm_secret_id :: string
  sm_purpose :: string
  sm_mount_path :: string
  sm_injection_mode :: string
  sm_secret_generation :: u64

record planned_ingress_route =
  ir_component_id :: string
  ir_hostname :: string
  ir_service_port :: u16
  ir_tls :: bool

record planned_volume_mount =
  vm_volume_id :: string
  vm_host_path :: string
  vm_container_path :: string
  vm_read_only :: bool

record planned_port_mapping =
  pm_container_port :: u16
  pm_protocol :: string
  pm_ingress_managed :: bool

record planned_health_check =
  hc_probe_type :: string
  hc_component_id :: "string option"
  hc_path :: "string option"
  hc_port :: "u16 option"
  hc_timeout_seconds :: "u32 option"
  hc_command :: "string list option"

record planned_component =
  pc_component_id :: string
  pc_runtime_instance_id :: string
  pc_image :: string
  pc_command :: "string list"
  pc_args :: "string list"
  pc_env :: "(string \<times> string) list"
  pc_secret_mounts :: "planned_secret_mount list"
  pc_volume_mounts :: "planned_volume_mount list"
  pc_network_mode :: string
  pc_port_mappings :: "planned_port_mapping list"
  pc_depends_on :: "string list"
  pc_health_check :: "planned_health_check option"

record planned_upgrade_policy =
  up_strategy :: string
  up_requires_snapshot :: bool
  up_database_migration :: string
  up_rollback_compatibility :: string

record planned_rollback_policy =
  rb_runtime_rollback :: string
  rb_database_rollback :: string

record workload_plan =
  wp_schema :: string
  wp_deployment_id :: string
  wp_generation :: u64
  wp_desired_state :: string
  wp_profile_id :: string
  wp_profile_version :: string
  wp_profile_digest :: string
  wp_desired_digest :: string
  wp_host_capabilities_digest :: string
  wp_compose_project_id :: string
  wp_runtime_kind :: string
  wp_upgrade_policy :: planned_upgrade_policy
  wp_rollback_policy :: planned_rollback_policy
  wp_execution_order :: "string list"
  wp_components :: "planned_component list"
  wp_plan_digest :: string
  wp_readiness_checks :: "planned_health_check list option"
  wp_ingress_routes :: "planned_ingress_route list option"
  wp_planner_version :: "string option"
  wp_planned_at :: "u64 option"

text \<open>The JSON of a plan's parts, as their \<open>Serialize\<close> derivations produce it.\<close>

definition secret_mount_json :: "planned_secret_mount \<Rightarrow> json" where
  "secret_mount_json s = JObject
     [(''secretId'', JString (sm_secret_id s)), (''purpose'', JString (sm_purpose s)),
      (''mountPath'', JString (sm_mount_path s)), (''injectionMode'', JString (sm_injection_mode s)),
      (''secretGeneration'', json_nat_word (sm_secret_generation s))]"

definition volume_mount_json :: "planned_volume_mount \<Rightarrow> json" where
  "volume_mount_json v = JObject
     [(''volumeId'', JString (vm_volume_id v)), (''hostPath'', JString (vm_host_path v)),
      (''containerPath'', JString (vm_container_path v)), (''readOnly'', JBool (vm_read_only v))]"

definition port_mapping_json :: "planned_port_mapping \<Rightarrow> json" where
  "port_mapping_json p = JObject
     [(''containerPort'', json_nat_word (pm_container_port p)), (''protocol'', JString (pm_protocol p)),
      (''ingressManaged'', JBool (pm_ingress_managed p))]"

definition health_check_json :: "planned_health_check \<Rightarrow> json" where
  "health_check_json h = JObject
     ([(''probeType'', JString (hc_probe_type h))]
      @ opt_member ''componentId'' JString (hc_component_id h)
      @ opt_member ''path'' JString (hc_path h)
      @ opt_member ''port'' json_nat_word (hc_port h)
      @ opt_member ''timeoutSeconds'' json_nat_word (hc_timeout_seconds h)
      @ opt_member ''command'' json_strings (hc_command h))"

definition component_json :: "planned_component \<Rightarrow> json" where
  "component_json c = JObject
     ([(''componentId'', JString (pc_component_id c)),
       (''runtimeInstanceId'', JString (pc_runtime_instance_id c)),
       (''image'', JString (pc_image c)),
       (''command'', json_strings (pc_command c)),
       (''args'', json_strings (pc_args c)),
       (''env'', JObject (map (map_prod (\<lambda>k. k) JString) (pc_env c))),
       (''secretMounts'', JArray (map secret_mount_json (pc_secret_mounts c))),
       (''volumeMounts'', JArray (map volume_mount_json (pc_volume_mounts c))),
       (''networkMode'', JString (pc_network_mode c)),
       (''portMappings'', JArray (map port_mapping_json (pc_port_mappings c))),
       (''dependsOn'', json_strings (pc_depends_on c))]
      @ opt_member ''healthCheck'' health_check_json (pc_health_check c))"

definition upgrade_policy_json :: "planned_upgrade_policy \<Rightarrow> json" where
  "upgrade_policy_json u = JObject
     [(''strategy'', JString (up_strategy u)), (''requiresSnapshot'', JBool (up_requires_snapshot u)),
      (''databaseMigration'', JString (up_database_migration u)),
      (''rollbackCompatibility'', JString (up_rollback_compatibility u))]"

definition rollback_policy_json :: "planned_rollback_policy \<Rightarrow> json" where
  "rollback_policy_json r = JObject
     [(''runtimeRollback'', JString (rb_runtime_rollback r)),
      (''databaseRollback'', JString (rb_database_rollback r))]"

section \<open>Lemmas\<close>

lemma overall_ready_iff:
  "overall_from_components cs = C_Ready \<longleftrightarrow> cs \<noteq> [] \<and> list_all (\<lambda>c. ob_status c = C_Ready) cs"
  by (auto simp: overall_from_components_def)

lemma overall_stopped_iff:
  "overall_from_components cs = C_Stopped \<longleftrightarrow> cs \<noteq> [] \<and> list_all (\<lambda>c. ob_status c = C_Stopped) cs"
  by (cases cs) (auto simp: overall_from_components_def list_all_iff list_ex_iff)

end
