(* ===== verification/Dependency_Order.thy ===== *)
theory Dependency_Order
  imports Rust_Prelude "HOL-Library.Multiset"
begin

text \<open>
  The execution order of a workload's components: step 4 of \<open>WorkloadPlanner::plan\<close>
  (\<^verbatim>\<open>actium-node-core/src/workload_runtime/planner.rs\<close>), Kahn's algorithm over the
  dependencies the profile declares.

  The two hash maps of the code are maps from component to neighbours and to in-degree. An
  in-degree counts list entries, so it stays below the address space; it is an integer here,
  and \<open>degrees_nonneg\<close> shows that the subtraction of the code never takes it below zero.
\<close>

section \<open>The graph\<close>

type_synonym adjacency = "string \<rightharpoonup> string list"
type_synonym degrees = "string \<rightharpoonup> int"

text \<open>\<open>adj.entry(k).or_default()\<close> and \<open>in_degree.entry(k).or_insert(0)\<close>.\<close>

definition adj_entry :: "adjacency \<Rightarrow> string \<Rightarrow> string list" where
  "adj_entry adj k = unwrap_or (adj k) []"

definition deg_entry :: "degrees \<Rightarrow> string \<Rightarrow> int" where
  "deg_entry deg k = unwrap_or (deg k) 0"

definition add_edge :: "string \<Rightarrow> string \<Rightarrow> adjacency \<times> degrees \<Rightarrow> adjacency \<times> degrees" where
  "add_edge cid dep g = (case g of (adj, deg) \<Rightarrow>
     (adj(dep \<mapsto> adj_entry adj dep @ [cid]), deg(cid \<mapsto> deg_entry deg cid + 1)))"

definition add_component :: "string \<times> string list \<Rightarrow> adjacency \<times> degrees \<Rightarrow> adjacency \<times> degrees" where
  "add_component c g = (case c of (cid, deps) \<Rightarrow> (case g of (adj, deg) \<Rightarrow>
     fold (add_edge cid) deps
       (adj(cid \<mapsto> adj_entry adj cid), deg(cid \<mapsto> deg_entry deg cid))))"

definition build_graph :: "(string \<times> string list) list \<Rightarrow> adjacency \<times> degrees" where
  "build_graph cs = fold add_component cs (\<lambda>_. None, \<lambda>_. None)"

section \<open>Kahn's algorithm\<close>

text \<open>The inner loop over the neighbours of a node: the new degrees and the nodes that became ready.\<close>

fun relax :: "string list \<Rightarrow> degrees \<Rightarrow> degrees \<times> string list" where
  "relax [] deg = (deg, [])"
| "relax (n # ns) deg =
     (case deg n of
        None \<Rightarrow> relax ns deg
      | Some k \<Rightarrow> (case relax ns (deg(n \<mapsto> k - 1)) of (deg', ready) \<Rightarrow>
          (deg', if k - 1 = 0 then n # ready else ready)))"

partial_function (option) kahn ::
  "adjacency \<Rightarrow> degrees \<Rightarrow> string list \<Rightarrow> string list \<Rightarrow> string list option" where
  "kahn adj deg queue order =
     (case queue of
        [] \<Rightarrow> Some order
      | node # rest \<Rightarrow>
          kahn adj (fst (relax (adj_entry adj node) deg))
            (rest @ sort (snd (relax (adj_entry adj node) deg))) (order @ [node]))"

definition execution_order :: "(string \<times> string list) list \<Rightarrow> string list option" where
  "execution_order cs = (case build_graph cs of (adj, deg) \<Rightarrow>
     kahn adj deg (sort (filter (\<lambda>c. deg_entry deg c = 0) (map fst cs))) [])"

text \<open>What an execution order promises: every component after the components it depends on.\<close>

definition respects_deps :: "(string \<times> string list) list \<Rightarrow> string list \<Rightarrow> bool" where
  "respects_deps cs order \<longleftrightarrow>
     (\<forall>i < length order. \<forall>c\<in>set cs. fst c = order ! i \<longrightarrow> set (snd c) \<subseteq> set (take i order))"

section \<open>The graph that is built\<close>

definition neighbours :: "(string \<times> string list) list \<Rightarrow> string \<Rightarrow> string list" where
  "neighbours cs n = concat (map (\<lambda>e. replicate (count_list (snd e) n) (fst e)) cs)"

lemma add_edges:
  "fold (add_edge cid) deps (adj, deg) =
     ((\<lambda>k. if k \<in> set deps then Some (adj_entry adj k @ replicate (count_list deps k) cid) else adj k),
      (if deps = [] then deg else deg(cid \<mapsto> deg_entry deg cid + int (length deps))))"
proof (induction deps arbitrary: adj deg)
  case Nil
  then show ?case by simp
next
  case (Cons d ds)
  have "fold (add_edge cid) (d # ds) (adj, deg)
      = fold (add_edge cid) ds (adj(d \<mapsto> adj_entry adj d @ [cid]), deg(cid \<mapsto> deg_entry deg cid + 1))"
    by (simp add: add_edge_def)
  then show ?case
    by (simp only: Cons.IH)
      (auto simp: fun_eq_iff adj_entry_def deg_entry_def unwrap_or_def replicate_append_same
        simp flip: replicate_app_Cons_same)
qed

lemma add_component_entry:
  "add_component (cid, deps) (adj, deg) = (adj', deg') \<Longrightarrow>
     adj_entry adj' k = adj_entry adj k @ replicate (count_list deps k) cid \<and>
     deg' = deg(cid \<mapsto> deg_entry deg cid + int (length deps))"
  by (auto simp: add_component_def add_edges adj_entry_def deg_entry_def unwrap_or_def
      count_list_0_iff split: if_splits)

lemma build_graph_entry:
  assumes "distinct (map fst cs)" "build_graph cs = (adj, deg)"
  shows "adj_entry adj k = neighbours cs k"
    and "deg = map_of (map (\<lambda>e. (fst e, int (length (snd e)))) cs)"
proof -
  have "adj_entry adj k = neighbours cs k \<and> deg = map_of (map (\<lambda>e. (fst e, int (length (snd e)))) cs)"
    using assms
  proof (induction cs arbitrary: adj deg rule: rev_induct)
    case Nil
    then show ?case by (auto simp: build_graph_def neighbours_def adj_entry_def)
  next
    case (snoc e cs)
    obtain adj1 deg1 where 1: "build_graph cs = (adj1, deg1)" by force
    obtain cid deps where e: "e = (cid, deps)" by force
    have "add_component (cid, deps) (adj1, deg1) = (adj, deg)"
      using snoc.prems(2) 1 by (simp add: build_graph_def e)
    then have *: "adj_entry adj k = adj_entry adj1 k @ replicate (count_list deps k) cid"
      "deg = deg1(cid \<mapsto> deg_entry deg1 cid + int (length deps))"
      by (blast dest: add_component_entry)+
    have IH: "adj_entry adj1 k = neighbours cs k"
      "deg1 = map_of (map (\<lambda>e. (fst e, int (length (snd e)))) cs)"
      using snoc.IH [OF _ 1] snoc.prems(1) by auto
    have new: "cid \<notin> fst ` set cs" using snoc.prems(1) by (simp add: e)
    have "deg1 cid = None" using new by (simp add: IH(2) map_of_eq_None_iff image_image)
    then have d: "deg = deg1(cid \<mapsto> int (length deps))" using *(2) by (simp add: deg_entry_def)
    have "map_of (map (\<lambda>e. (fst e, int (length (snd e)))) (cs @ [e])) x = deg x" for x
      using \<open>deg1 cid = None\<close> unfolding d by (simp add: e IH(2) map_add_def split: option.split)
    then show ?case using *(1) IH(1) by (auto simp: e neighbours_def fun_eq_iff)
  qed
  then show "adj_entry adj k = neighbours cs k"
    and "deg = map_of (map (\<lambda>e. (fst e, int (length (snd e)))) cs)" by auto
qed

section \<open>The loop\<close>

lemma relax_spec:
  "relax ns deg = (deg', ready) \<Longrightarrow>
     deg' = (\<lambda>c. map_option (\<lambda>k. k - int (count_list ns c)) (deg c)) \<and> distinct ready \<and>
     set ready = {c. \<exists>k. deg c = Some k \<and> 0 < k \<and> k \<le> int (count_list ns c)}"
proof (induction ns arbitrary: deg deg' ready)
  case Nil
  then show ?case by (auto simp: fun_eq_iff map_option_case split: option.splits)
next
  case (Cons n ns)
  show ?case
  proof (cases "deg n")
    case None
    then show ?thesis using Cons.IH [of deg deg' ready] Cons.prems by (auto simp: fun_eq_iff)
  next
    case (Some k)
    obtain ready1 where r: "relax ns (deg(n \<mapsto> k - 1)) = (deg', ready1)"
      using Cons.prems Some by (auto split: prod.splits)
    have ready: "ready = (if k - 1 = 0 then n # ready1 else ready1)"
      using Cons.prems Some r by simp
    have IH: "deg' = (\<lambda>c. map_option (\<lambda>k. k - int (count_list ns c)) ((deg(n \<mapsto> k - 1)) c))"
      "distinct ready1"
      "set ready1 = {c. \<exists>j. (deg(n \<mapsto> k - 1)) c = Some j \<and> 0 < j \<and> j \<le> int (count_list ns c)}"
      using Cons.IH [OF r] by auto
    have "distinct ready" using IH(2,3) by (auto simp: ready)
    moreover have "c \<in> set ready \<longleftrightarrow> (\<exists>k. deg c = Some k \<and> 0 < k \<and> k \<le> int (count_list (n # ns) c))"
      for c
      by (cases "c = n") (auto simp: ready Some IH(3))
    moreover have "deg' = (\<lambda>c. map_option (\<lambda>k. k - int (count_list (n # ns) c)) (deg c))"
      unfolding IH(1) by (rule ext) (simp add: Some)
    ultimately show ?thesis by blast
  qed
qed

lemma neighbours_count:
  assumes "distinct (map fst cs)" "(c, ds) \<in> set cs"
  shows "count_list (neighbours cs n) c = count_list ds n"
  using assms
proof (induction cs)
  case (Cons e cs)
  have *: "c \<notin> fst ` set cs' \<Longrightarrow> count_list (neighbours cs' n) c = 0" for cs'
    by (auto simp: neighbours_def count_list_0_iff)
  have "neighbours (e # cs) n = replicate (count_list (snd e) n) (fst e) @ neighbours cs n"
    by (simp add: neighbours_def)
  moreover have "count_list (replicate m x) y = (if x = y then m else 0)" for m and x y :: string
    by (induction m) auto
  ultimately show ?case
    using Cons * by (auto simp: image_iff)
qed simp

definition waiting :: "string list \<Rightarrow> string list \<Rightarrow> int" where
  "waiting order ds = int (length (filter (\<lambda>d. d \<notin> set order) ds))"

text \<open>
  The loop invariant: nothing is emitted or queued twice, the degree of a component counts the
  dependencies still to be emitted, and a component is emitted or queued exactly when none is
  left.
\<close>

definition kahn_inv ::
  "(string \<times> string list) list \<Rightarrow> degrees \<Rightarrow> string list \<Rightarrow> string list \<Rightarrow> bool" where
  "kahn_inv cs deg queue order \<longleftrightarrow>
     distinct (order @ queue) \<and> set (order @ queue) \<subseteq> set (map fst cs)
     \<and> deg = map_of (map (\<lambda>e. (fst e, waiting order (snd e))) cs)
     \<and> (\<forall>c\<in>set cs. fst c \<in> set (order @ queue) \<longleftrightarrow> set (snd c) \<subseteq> set order)
     \<and> respects_deps cs order"

lemma kahn_invD:
  assumes "kahn_inv cs deg queue order"
  shows "distinct (order @ queue)" "set (order @ queue) \<subseteq> set (map fst cs)"
    "deg = map_of (map (\<lambda>e. (fst e, waiting order (snd e))) cs)"
    "(c, ds) \<in> set cs \<Longrightarrow> c \<in> set (order @ queue) \<longleftrightarrow> set ds \<subseteq> set order"
    "respects_deps cs order"
  using assms by (simp_all only: kahn_inv_def) (metis fst_conv snd_conv)

lemma waiting_step:
  "n \<notin> set order \<Longrightarrow> waiting (order @ [n]) ds = waiting order ds - int (count_list ds n)"
  by (induction ds) (auto simp: waiting_def)

lemma waiting_zero: "waiting order ds = 0 \<longleftrightarrow> set ds \<subseteq> set order" "0 \<le> waiting order ds"
  by (auto simp: waiting_def filter_empty_conv)

lemma map_of_entries:
  "distinct (map fst cs) \<Longrightarrow> (c, ds) \<in> set cs \<Longrightarrow> map_of (map (\<lambda>e. (fst e, f (snd e))) cs) c = Some (f ds)"
  by (rule map_of_is_SomeI) (auto simp: comp_def intro!: rev_image_eqI)

lemma map_of_entries_None:
  "map_of (map (\<lambda>e. (fst e, f (snd e))) cs) c = None \<longleftrightarrow> c \<notin> fst ` set cs"
  by (auto simp: map_of_eq_None_iff image_iff)

lemma respects_deps_append:
  assumes "respects_deps cs order" "n \<notin> set order" "\<And>ds. (n, ds) \<in> set cs \<Longrightarrow> set ds \<subseteq> set order"
  shows "respects_deps cs (order @ [n])"
  unfolding respects_deps_def
proof (intro allI impI ballI)
  fix i c assume i: "i < length (order @ [n])" and c: "c \<in> set cs" "fst c = (order @ [n]) ! i"
  show "set (snd c) \<subseteq> set (take i (order @ [n]))"
  proof (cases "i < length order")
    case True
    then show ?thesis using assms(1) c by (auto simp: respects_deps_def nth_append)
  next
    case False
    then have "i = length order" using i by simp
    then show ?thesis using c assms(3) [of "snd c"] by (cases c) auto
  qed
qed

text \<open>The nodes that become ready are those whose last outstanding dependency is the emitted node.\<close>

lemma ready_nodes:
  assumes d: "distinct (map fst cs)" and inv: "kahn_inv cs deg (n # rest) order"
    and r: "relax (neighbours cs n) deg = (deg', ready)"
  shows "deg' = map_of (map (\<lambda>e. (fst e, waiting (order @ [n]) (snd e))) cs)"
    and "distinct ready"
    and "(c, ds) \<in> set cs \<Longrightarrow>
      c \<in> set ready \<longleftrightarrow> \<not> set ds \<subseteq> set order \<and> set ds \<subseteq> set (order @ [n])"
    and "set ready \<subseteq> set (map fst cs)"
proof -
  have deg: "deg = map_of (map (\<lambda>e. (fst e, waiting order (snd e))) cs)" and n: "n \<notin> set order"
    using inv by (auto simp: kahn_inv_def)
  note spec = relax_spec [OF r]
  have at: "deg' c = Some (waiting (order @ [n]) ds)"
    "c \<in> set ready \<longleftrightarrow> \<not> set ds \<subseteq> set order \<and> set ds \<subseteq> set (order @ [n])"
    if c: "(c, ds) \<in> set cs" for c ds
  proof -
    have 1: "deg c = Some (waiting order ds)" unfolding deg by (rule map_of_entries [OF d c])
    have 2: "count_list (neighbours cs n) c = count_list ds n" by (rule neighbours_count [OF d c])
    show "deg' c = Some (waiting (order @ [n]) ds)"
      using spec 1 by (simp add: 2 waiting_step [OF n])
    have "waiting (order @ [n]) ds = waiting order ds - int (count_list ds n)"
      by (rule waiting_step [OF n])
    moreover have "c \<in> set ready \<longleftrightarrow> 0 < waiting order ds \<and> waiting order ds \<le> int (count_list ds n)"
      using spec 1 by (auto simp: 2)
    ultimately show "c \<in> set ready \<longleftrightarrow> \<not> set ds \<subseteq> set order \<and> set ds \<subseteq> set (order @ [n])"
      using waiting_zero [of order ds] waiting_zero [of "order @ [n]" ds] by linarith
  qed
  show "deg' = map_of (map (\<lambda>e. (fst e, waiting (order @ [n]) (snd e))) cs)"
  proof
    fix c
    show "deg' c = map_of (map (\<lambda>e. (fst e, waiting (order @ [n]) (snd e))) cs) c"
    proof (cases "c \<in> fst ` set cs")
      case True
      then obtain ds where c: "(c, ds) \<in> set cs" by auto
      show ?thesis using at(1) [OF c] map_of_entries [OF d c, of "waiting (order @ [n])"] by simp
    next
      case False
      then have "deg c = None" by (simp add: deg map_of_entries_None)
      then have "deg' c = None" using spec by simp
      moreover have "map_of (map (\<lambda>e. (fst e, waiting (order @ [n]) (snd e))) cs) c = None"
        using False by (simp add: map_of_entries_None)
      ultimately show ?thesis by simp
    qed
  qed
  show "distinct ready" using spec by simp
  show "(c, ds) \<in> set cs \<Longrightarrow>
      c \<in> set ready \<longleftrightarrow> \<not> set ds \<subseteq> set order \<and> set ds \<subseteq> set (order @ [n])"
    by (rule at(2))
  show "set ready \<subseteq> set (map fst cs)"
  proof
    fix c assume "c \<in> set ready"
    then obtain k where "deg c = Some k" using spec by auto
    then have "\<not> deg c = None" by simp
    then show "c \<in> set (map fst cs)" unfolding deg by (simp add: map_of_entries_None)
  qed
qed

lemma kahn_step:
  assumes d: "distinct (map fst cs)" and inv: "kahn_inv cs deg (n # rest) order"
    and r: "relax (neighbours cs n) deg = (deg', ready)"
  shows "kahn_inv cs deg' (rest @ sort ready) (order @ [n])"
proof -
  note R = ready_nodes [OF d inv r]
  note old = kahn_invD(1,2,5) [OF inv] and closed = kahn_invD(4) [OF inv]
  have fresh: "c \<notin> set (order @ n # rest)" if c: "c \<in> set ready" for c
  proof -
    obtain ds where cs: "(c, ds) \<in> set cs" using R(4) c by auto
    show ?thesis using R(3) [OF cs] closed [OF cs] c by simp
  qed
  have "distinct ((order @ [n]) @ (rest @ sort ready))"
    using old(1) R(2) fresh by auto
  moreover have "set ((order @ [n]) @ (rest @ sort ready)) \<subseteq> set (map fst cs)"
    using old(2) R(4) by auto
  moreover have "fst c \<in> set ((order @ [n]) @ (rest @ sort ready)) \<longleftrightarrow> set (snd c) \<subseteq> set (order @ [n])"
    if "c \<in> set cs" for c
  proof -
    have c: "(fst c, snd c) \<in> set cs" using that by simp
    have "fst c \<in> set ((order @ [n]) @ (rest @ sort ready))
        \<longleftrightarrow> fst c \<in> set (order @ n # rest) \<or> fst c \<in> set ready" by auto
    also have "\<dots> \<longleftrightarrow> set (snd c) \<subseteq> set (order @ [n])"
      using R(3) [OF c] closed [OF c] by auto
    finally show ?thesis .
  qed
  moreover have "respects_deps cs (order @ [n])"
    by (rule respects_deps_append [OF old(3)]) (use old(1) closed in auto)
  ultimately show ?thesis by (simp add: kahn_inv_def R(1))
qed

lemma kahn_inv_length:
  assumes "kahn_inv cs deg queue order"
  shows "length (order @ queue) \<le> length cs"
proof -
  have "length (order @ queue) = card (set (order @ queue))"
    using kahn_invD(1) [OF assms] by (simp only: distinct_card)
  also have "\<dots> \<le> card (set (map fst cs))" by (rule card_mono) (use kahn_invD(2) [OF assms] in auto)
  also have "\<dots> \<le> length cs" using card_length [of "map fst cs"] by simp
  finally show ?thesis .
qed

lemma kahn_returns:
  assumes d: "distinct (map fst cs)" and adj: "\<And>k. adj_entry adj k = neighbours cs k"
    and inv: "kahn_inv cs deg queue order"
  shows "\<exists>deg' out. kahn adj deg queue order = Some out \<and> kahn_inv cs deg' [] out"
  using inv
proof (induction "length cs - length order" arbitrary: deg queue order rule: less_induct)
  case less
  show ?case
  proof (cases queue)
    case Nil
    then show ?thesis using less.prems by (auto simp: kahn.simps)
  next
    case (Cons n rest)
    obtain deg' ready where r: "relax (neighbours cs n) deg = (deg', ready)" by force
    have inv': "kahn_inv cs deg' (rest @ sort ready) (order @ [n])"
      by (rule kahn_step [OF d less.prems [unfolded Cons] r])
    have "length order < length cs" using kahn_inv_length [OF less.prems] by (simp add: Cons)
    then have "\<exists>deg'' out. kahn adj deg' (rest @ sort ready) (order @ [n]) = Some out
        \<and> kahn_inv cs deg'' [] out"
      by (intro less.hyps [OF _ inv']) simp
    then show ?thesis by (subst kahn.simps) (simp add: Cons adj r)
  qed
qed

lemma kahn_start:
  assumes d: "distinct (map fst cs)" and g: "build_graph cs = (adj, deg)"
  shows "kahn_inv cs deg (sort (filter (\<lambda>c. deg_entry deg c = 0) (map fst cs))) []"
proof -
  have deg: "deg = map_of (map (\<lambda>e. (fst e, waiting [] (snd e))) cs)"
    using build_graph_entry(2) [OF d g] by (simp add: waiting_def)
  have "deg_entry deg (fst c) = waiting [] (snd c)" if "c \<in> set cs" for c
    using map_of_entries [OF d, of "fst c" "snd c" "waiting []"] that
    by (simp add: deg deg_entry_def)
  then have "deg_entry deg (fst c) = 0 \<longleftrightarrow> snd c = []" if "c \<in> set cs" for c
    using that by (simp add: waiting_def)
  then show ?thesis
    using d by (auto simp: kahn_inv_def respects_deps_def deg)
qed

lemma execution_order_returns:
  assumes d: "distinct (map fst cs)"
  shows "\<exists>deg out. execution_order cs = Some out \<and> kahn_inv cs deg [] out"
proof -
  obtain adj deg where g: "build_graph cs = (adj, deg)" by force
  show ?thesis
    using kahn_returns [OF d build_graph_entry(1) [OF d g] kahn_start [OF d g]]
    by (auto simp: execution_order_def g)
qed

lemma emitted_of_respecting:
  assumes inv: "kahn_inv cs deg [] out" and xs: "set xs \<subseteq> set (map fst cs)" "respects_deps cs xs"
  shows "set xs \<subseteq> set out"
proof -
  have "xs ! i \<in> set out" if "i < length xs" for i
    using that
  proof (induction i rule: less_induct)
    case (less i)
    have "xs ! i \<in> set (map fst cs)" using xs(1) less.prems by auto
    then obtain ds where c: "(xs ! i, ds) \<in> set cs" by auto
    have "set ds \<subseteq> set (take i xs)" using xs(2) c less.prems by (fastforce simp: respects_deps_def)
    also have "\<dots> \<subseteq> set out"
      using less.IH less.prems by (auto simp: in_set_conv_nth)
    finally show ?case using kahn_invD(4) [OF inv c] by simp
  qed
  then show ?thesis by (auto simp: in_set_conv_nth)
qed

text \<open>A profile can be ordered when some listing of all its components respects the dependencies.\<close>

definition orderable :: "(string \<times> string list) list \<Rightarrow> bool" where
  "orderable cs \<longleftrightarrow> (\<exists>xs. set xs = set (map fst cs) \<and> respects_deps cs xs)"

lemma full_order_iff:
  assumes d: "distinct (map fst cs)" and inv: "kahn_inv cs deg [] out"
  shows "length out = length cs \<longleftrightarrow> set out = set (map fst cs)"
    and "length out = length cs \<longleftrightarrow> orderable cs"
proof -
  have out: "distinct out" "set out \<subseteq> set (map fst cs)" "respects_deps cs out"
    using kahn_invD(1,2,5) [OF inv] by auto
  have len: "length out = card (set out)" "length cs = card (set (map fst cs))"
    using distinct_card [OF out(1)] distinct_card [OF d] by simp_all
  show 1: "length out = length cs \<longleftrightarrow> set out = set (map fst cs)"
    using out(2) by (metis len card_subset_eq List.finite_set)
  show "length out = length cs \<longleftrightarrow> orderable cs"
    unfolding 1 orderable_def using emitted_of_respecting [OF inv] out by blast
qed

lemma missing_dependency_not_orderable:
  assumes "(c, ds) \<in> set cs" "x \<in> set ds" "x \<notin> fst ` set cs"
  shows "\<not> orderable cs"
proof
  assume "orderable cs"
  then obtain xs where xs: "set xs = set (map fst cs)" "respects_deps cs xs" by (auto simp: orderable_def)
  have "c \<in> set xs" using assms(1) xs(1) by force
  then obtain i where i: "i < length xs" "xs ! i = c" by (auto simp: in_set_conv_nth)
  have "set ds \<subseteq> set (take i xs)" using xs(2) i assms(1) by (fastforce simp: respects_deps_def)
  then have "x \<in> set xs" using assms(2) by (meson in_set_takeD subsetD)
  then show False using xs(1) assms(3) by simp
qed

section \<open>The order does not depend on the listing\<close>

lemma neighbours_mset:
  "mset cs = mset cs' \<Longrightarrow> count_list (neighbours cs n) c = count_list (neighbours cs' n) c"
proof -
  have *: "mset (neighbours xs n) = sum_mset (image_mset (\<lambda>e. mset (replicate (count_list (snd e) n) (fst e))) (mset xs))"
    for xs by (induction xs) (simp_all add: neighbours_def)
  assume "mset cs = mset cs'"
  then have "mset (neighbours cs n) = mset (neighbours cs' n)" by (simp only: *)
  then show ?thesis by (metis count_mset)
qed

lemma relax_same:
  assumes "\<And>c. count_list ns c = count_list ns' c"
  shows "fst (relax ns deg) = fst (relax ns' deg)"
    and "sort (snd (relax ns deg)) = sort (snd (relax ns' deg))"
proof -
  obtain d1 r1 d2 r2 where r: "relax ns deg = (d1, r1)" "relax ns' deg = (d2, r2)" by force
  note s = relax_spec [OF r(1)] relax_spec [OF r(2)]
  show "fst (relax ns deg) = fst (relax ns' deg)" using s by (simp add: r assms)
  have "set r1 = set r2" "distinct r1" "distinct r2" using s by (simp_all add: assms)
  then have "sort r1 = sort r2" by (intro sorted_distinct_set_unique) auto
  then show "sort (snd (relax ns deg)) = sort (snd (relax ns' deg))" by (simp add: r)
qed

lemma kahn_same:
  assumes d: "distinct (map fst cs)" and adj: "\<And>k. adj_entry adj k = neighbours cs k"
    and adj': "\<And>k. adj_entry adj' k = neighbours cs' k" and m: "mset cs = mset cs'"
    and inv: "kahn_inv cs deg queue order"
  shows "kahn adj deg queue order = kahn adj' deg queue order"
  using inv
proof (induction "length cs - length order" arbitrary: deg queue order rule: less_induct)
  case less
  show ?case
  proof (cases queue)
    case Nil
    then show ?thesis by (simp add: kahn.simps)
  next
    case (Cons n rest)
    obtain deg' ready where r: "relax (neighbours cs n) deg = (deg', ready)" by force
    have inv': "kahn_inv cs deg' (rest @ sort ready) (order @ [n])"
      by (rule kahn_step [OF d less.prems [unfolded Cons] r])
    have "length order < length cs" using kahn_inv_length [OF less.prems] by (simp add: Cons)
    then have *: "kahn adj deg' (rest @ sort ready) (order @ [n])
        = kahn adj' deg' (rest @ sort ready) (order @ [n])"
      by (intro less.hyps [OF _ inv']) simp
    have "deg' = fst (relax (neighbours cs' n) deg)" "sort ready = sort (snd (relax (neighbours cs' n) deg))"
      using relax_same [of "neighbours cs n" "neighbours cs' n" deg] neighbours_mset [OF m] r by auto
    then show ?thesis using * by (simp add: kahn.simps [of _ deg] Cons adj adj' r)
  qed
qed

lemma respects_deps_set: "set cs = set cs' \<Longrightarrow> respects_deps cs = respects_deps cs'"
  by (simp add: respects_deps_def fun_eq_iff)

text \<open>
  The order of components is computed from the dependencies alone: two profiles that list the
  same components in different orders get the same execution order, so the plan does not depend
  on how a manifest was written.
\<close>

theorem execution_order_listing_independent:
  assumes "distinct (map fst cs)" "mset cs = mset cs'"
  shows "execution_order cs = execution_order cs'"
proof -
  have d': "distinct (map fst cs')" using assms by (metis mset_eq_imp_distinct_iff mset_map)
  obtain adj deg adj' deg' where g: "build_graph cs = (adj, deg)" "build_graph cs' = (adj', deg')" by force
  have "deg = map_of (map (\<lambda>e. (fst e, int (length (snd e)))) cs)"
    "deg' = map_of (map (\<lambda>e. (fst e, int (length (snd e)))) cs')"
    using build_graph_entry(2) assms(1) d' g by blast+
  moreover have "map_of (map (\<lambda>e. (fst e, int (length (snd e)))) cs)
      = map_of (map (\<lambda>e. (fst e, int (length (snd e)))) cs')"
    by (subst map_of_inject_set)
      (use assms d' mset_eq_setD [OF assms(2)] in \<open>auto simp: comp_def\<close>)
  ultimately have deg: "deg = deg'" by simp
  have "mset (filter (\<lambda>c. deg_entry deg c = 0) (map fst cs))
      = mset (filter (\<lambda>c. deg_entry deg c = 0) (map fst cs'))"
    using assms(2) by (simp add: mset_filter)
  then have q: "sort (filter (\<lambda>c. deg_entry deg c = 0) (map fst cs))
      = sort (filter (\<lambda>c. deg_entry deg c = 0) (map fst cs'))"
    by (intro properties_for_sort) simp_all
  show ?thesis
    using kahn_same [OF assms(1) build_graph_entry(1) [OF assms(1) g(1)]
        build_graph_entry(1) [OF d' g(2)] assms(2) kahn_start [OF assms(1) g(1)]]
    by (simp add: execution_order_def g deg q [unfolded deg])
qed

theorem execution_order_listing_independent_witness:
  "execution_order [(''app'', [''db'']), (''db'', [])] = execution_order [(''db'', []), (''app'', [''db''])]"
  by (rule execution_order_listing_independent) simp_all

text \<open>
  C11. For every profile with distinct components the algorithm returns an order without
  repetitions in which every component comes after its dependencies; the order is complete, and
  the plan goes on, exactly when the dependencies can be ordered at all, and otherwise the
  profile is refused. A dependency on a component that the profile does not declare is refused
  this way too, under the message for a cycle.
\<close>

theorem execution_order_sound_complete:
  assumes "distinct (map fst cs)"
  shows "\<exists>order. execution_order cs = Some order \<and> distinct order \<and> respects_deps cs order
    \<and> set order \<subseteq> set (map fst cs)
    \<and> (length order = length cs \<longleftrightarrow> orderable cs)
    \<and> (length order = length cs \<longrightarrow> set order = set (map fst cs))
    \<and> ((\<exists>c\<in>set cs. \<not> set (snd c) \<subseteq> fst ` set cs) \<longrightarrow> length order \<noteq> length cs)"
proof -
  obtain deg out where out: "execution_order cs = Some out" "kahn_inv cs deg [] out"
    using execution_order_returns [OF assms] by blast
  have missing: "(\<exists>c\<in>set cs. \<not> set (snd c) \<subseteq> fst ` set cs) \<longrightarrow> \<not> orderable cs"
    using missing_dependency_not_orderable by fastforce
  show ?thesis
    using out(1) kahn_invD(1,2,5) [OF out(2)] full_order_iff [OF assms out(2)] missing by auto
qed

theorem execution_order_sound_complete_witness:
  "\<exists>order. execution_order [(''app'', [''db'']), (''db'', [])] = Some order \<and> length order = 2"
proof -
  have "respects_deps [(''app'', [''db'']), (''db'', [])] [''db'', ''app'']"
    by (auto simp: respects_deps_def less_Suc_eq)
  then have "orderable [(''app'', [''db'']), (''db'', [])]" by (force simp: orderable_def)
  then show ?thesis
    using execution_order_sound_complete [of "[(''app'', [''db'']), (''db'', [])]"] by auto
qed

end
