(* ===== verification/Planner.thy ===== *)
theory Planner
  imports Workload_Types Dependency_Order
begin

text \<open>
  \<open>WorkloadPlanner::plan\<close> (\<^verbatim>\<open>actium-node-core/src/workload_runtime/planner.rs\<close>): from the JSON
  of a signed desired state and of a workload profile to a canonical plan, with the checks it makes
  on the way (the manifest checks of \<^verbatim>\<open>registry.rs\<close> and the key check of \<^verbatim>\<open>executor.rs\<close>
  that it calls).

  The crates it uses are the record \<open>planner_lib\<close>: the JSON parser, the literals and digests of
  \<open>Canonical_Json\<close>, the two JSON-schema validators (the first violation they report, with its
  path) and the \<open>Deserialize\<close> derivations of the two policy records.
\<close>

record planner_lib =
  pl_parse :: "string \<Rightarrow> string + json"
  pl_esc :: "string \<Rightarrow> string"
  pl_sha :: "string \<Rightarrow> string"
  pl_profile_violation :: "json \<Rightarrow> string option"
  pl_desired_violation :: "json \<Rightarrow> string option"
  pl_upgrade_policy :: "json \<Rightarrow> string + planned_upgrade_policy"
  pl_rollback_policy :: "json \<Rightarrow> string + planned_rollback_policy"

section \<open>Reading JSON\<close>

definition as_array :: "json \<Rightarrow> json list option" where
  "as_array v = (case v of JArray vs \<Rightarrow> Some vs | _ \<Rightarrow> None)"

definition get_arr :: "string \<Rightarrow> json \<Rightarrow> json list option" where
  "get_arr k v = Option.bind (json_get k v) as_array"

definition get_bool :: "string \<Rightarrow> json \<Rightarrow> bool option" where
  "get_bool k v = (case json_get k v of Some (JBool b) \<Rightarrow> Some b | _ \<Rightarrow> None)"

definition get_obj :: "string \<Rightarrow> json \<Rightarrow> json option" where
  "get_obj k v = (case json_get k v of Some (JObject kvs) \<Rightarrow> Some (JObject kvs) | _ \<Rightarrow> None)"

definition str_items :: "json list \<Rightarrow> string list" where
  "str_items vs = some_values (map as_str vs)"

definition opt_strings :: "json list option \<Rightarrow> string list" where
  "opt_strings vs = (case vs of None \<Rightarrow> [] | Some xs \<Rightarrow> str_items xs)"

definition require :: "string \<Rightarrow> 'a option \<Rightarrow> workload_error + 'a" where
  "require msg x = (case x of Some v \<Rightarrow> Inr v | None \<Rightarrow> Inl (ValidationFailed msg))"

definition ensure :: "bool \<Rightarrow> string \<Rightarrow> workload_error + unit" where
  "ensure b msg = (if b then Inr () else Inl (ValidationFailed msg))"

definition remove_members :: "string list \<Rightarrow> json \<Rightarrow> json" where
  "remove_members ks v = (case v of
     JObject kvs \<Rightarrow> JObject (filter (\<lambda>kv. fst kv \<notin> set ks) kvs) | _ \<Rightarrow> v)"

definition insert_member :: "string \<Rightarrow> json \<Rightarrow> json \<Rightarrow> json" where
  "insert_member k x v = (case v of
     JObject kvs \<Rightarrow>
       JObject (if list_ex (\<lambda>kv. fst kv = k) kvs
                then map (\<lambda>kv. if fst kv = k then (k, x) else kv) kvs
                else insort_key fst (k, x) kvs)
   | _ \<Rightarrow> v)"

text \<open>\<open>str::split_once\<close>, at the first occurrence.\<close>

fun split_once :: "string \<Rightarrow> string \<Rightarrow> (string \<times> string) option" where
  "split_once sep [] = (if sep = [] then Some ([], []) else None)"
| "split_once sep (c # r) =
     (if prefix sep (c # r) then Some ([], drop (length sep) (c # r))
      else map_option (map_prod ((#) c) (\<lambda>t. t)) (split_once sep r))"

section \<open>Checks on strings\<close>

definition backslash_to_slash :: "string \<Rightarrow> string" where
  "backslash_to_slash s = map (\<lambda>c. if c = CHR 0x5C then CHR ''/'' else c) s"

definition forbidden_prefixes :: "string list" where
  "forbidden_prefixes =
     [''/etc'', ''/proc'', ''/sys'', ''/dev'', ''/boot'', ''/root'', ''/bin'', ''/sbin'',
      ''/lib'', ''/usr'', ''/var/run'', ''/run'', ''/var/lib/docker'', ''/var/run/docker.sock'']"

definition under :: "string \<Rightarrow> string \<Rightarrow> bool" where
  "under f p \<longleftrightarrow> p = f \<or> prefix (f @ ''/'') p"

definition validate_host_path :: "string \<Rightarrow> workload_error + unit" where
  "validate_host_path path =
     (if path = [] then Inl (ValidationFailed ''Empty hostPath is not allowed'')
      else if str_contains path ''..'' \<or> str_contains path ''./'' \<or> str_contains path [CHR ''.'', CHR 0x5C]
      then Inl (ValidationFailed (''Directory traversal in hostPath is strictly forbidden: '' @ quoted path))
      else let p = backslash_to_slash path in
        case find (\<lambda>f. under f p) forbidden_prefixes of
          Some f \<Rightarrow> Inl (ValidationFailed (''Host path '' @ quoted path
            @ '' accesses forbidden system location '' @ quoted f))
        | None \<Rightarrow>
            if p = ''/'' then Inl (ValidationFailed (''Mounting host root '' @ quoted ''/''
              @ '' is strictly forbidden''))
            else Inr ())"

definition yaml_meta :: "char \<Rightarrow> bool" where
  "yaml_meta c \<longleftrightarrow> c = CHR 0x0A \<or> c = CHR 0x0D \<or> c = CHR '':'' \<or> c = CHR '' '' \<or> c = CHR 0x22 \<or> c = CHR 0x27"

definition sanitize_yaml_key :: "string \<Rightarrow> workload_error + string" where
  "sanitize_yaml_key key =
     (if key = [] \<or> list_ex yaml_meta key
      then Inl (ValidationFailed (''Invalid YAML identifier or key '' @ quoted key))
      else Inr key)"

section \<open>The profile manifest\<close>

definition workload_profile_schema :: string where
  "workload_profile_schema = ''actium-workload-profile@1.0.0''"

definition desired_workload_state_schema :: string where
  "desired_workload_state_schema = ''actium-desired-workload-state@1.0.0''"

definition canonical_workload_plan_schema :: string where
  "canonical_workload_plan_schema = ''actium-canonical-workload-plan@1.0.0''"

definition component_digest_parity :: "json \<Rightarrow> workload_error + unit" where
  "component_digest_parity component =
     (let cid = unwrap_or (get_str ''componentId'' component) [];
          digest = unwrap_or (get_str ''imageDigest'' component) []
      in case split_once ''@sha256:'' (unwrap_or (get_str ''image'' component) []) of
           None \<Rightarrow> Inr ()
         | Some (_, img_hash) \<Rightarrow>
             ensure (''sha256:'' @ img_hash = digest)
               (''Component '' @ quoted cid @ '' image tag digest '' @ quoted (''sha256:'' @ img_hash)
                @ '' conflicts with imageDigest '' @ quoted digest))"

definition validate_profile_manifest_schema :: "planner_lib \<Rightarrow> json \<Rightarrow> workload_error + unit" where
  "validate_profile_manifest_schema lib parsed =
     (case pl_profile_violation lib parsed of
        Some e \<Rightarrow> Inl (ValidationFailed (''Profile manifest violates canonical JSON schema: '' @ e))
      | None \<Rightarrow>
          res_bind (res_map component_digest_parity (unwrap_or (get_arr ''components'' parsed) [])) (\<lambda>_.
          ensure (get_str ''runtimeKind'' parsed \<noteq> Some ''VM'')
            (''Runtime kind '' @ quoted ''VM'' @ '' is reserved and unsupported in Actium Node (fail-closed)'')))"

definition validate_desired_state_schema :: "planner_lib \<Rightarrow> json \<Rightarrow> workload_error + unit" where
  "validate_desired_state_schema lib parsed =
     (case pl_desired_violation lib parsed of
        Some e \<Rightarrow> Inl (ValidationFailed (''Desired workload state violates canonical JSON schema: '' @ e))
      | None \<Rightarrow> Inr ())"

section \<open>The digest of the desired state\<close>

definition transport_members :: "string list" where
  "transport_members =
     [''desiredDigest'', ''hostSignature'', ''authoritySignature'', ''clientId'', ''organizationId'',
      ''hostId'', ''nonce'', ''issuedAt'', ''expiresAt'', ''purpose'', ''authorityKeyId'']"

definition clean_desired :: "json \<Rightarrow> json" where
  "clean_desired v =
     (let c = remove_members transport_members v in
      if json_get ''targetState'' c = None \<and> json_get ''desiredState'' c = None
      then insert_member ''desiredState'' (JString ''RUNNING'') c else c)"

definition legacy_desired :: "json \<Rightarrow> json" where
  "legacy_desired v =
     (let c = remove_members [''siteId'', ''productId'', ''profileDigest''] v in
      case json_get ''desiredState'' c of
        None \<Rightarrow> c
      | Some ds \<Rightarrow>
          let c' = remove_members [''desiredState''] c;
              state = unwrap_or (as_str ds) ''RUNNING''
          in if json_get ''targetState'' c' = None
             then insert_member ''targetState'' (JString (if state = ''RUNNING'' then ''ACTIVE'' else state)) c'
             else c')"

definition digest_matches :: "string \<Rightarrow> string \<Rightarrow> bool" where
  "digest_matches claimed d = (case constant_time_digest_eq claimed d of Inr b \<Rightarrow> b | Inl _ \<Rightarrow> False)"

text \<open>One fallback: kept only if its digest is the claimed one.\<close>

definition try_alternative ::
  "planner_lib \<Rightarrow> string \<Rightarrow> (json \<Rightarrow> json) \<Rightarrow> json \<times> string \<Rightarrow> json \<times> string" where
  "try_alternative lib claimed alt st =
     (if digest_matches claimed (snd st) then st
      else case canonical_digest_for_value (pl_esc lib) (pl_sha lib) (alt (fst st)) of
        Inr d \<Rightarrow> if digest_matches claimed d then (alt (fst st), d) else st
      | Inl _ \<Rightarrow> st)"

definition verify_desired_digest :: "planner_lib \<Rightarrow> string \<Rightarrow> json \<Rightarrow> workload_error + json" where
  "verify_desired_digest lib claimed desired =
     res_bind (canonical_digest_for_value (pl_esc lib) (pl_sha lib) (clean_desired desired)) (\<lambda>d0.
     let st1 = try_alternative lib claimed (remove_members [''siteId'', ''productId'']) (clean_desired desired, d0);
         st2 = try_alternative lib claimed legacy_desired st1
     in res_bind (constant_time_digest_eq claimed (snd st2)) (\<lambda>same.
        if same then Inr (fst st2)
        else Inl (ValidationFailed (''Claimed desiredDigest '' @ quoted claimed
          @ '' does not match locally recomputed digest '' @ quoted (snd st2)))))"

section \<open>Hardening\<close>

definition harden_component :: "json \<Rightarrow> workload_error + unit" where
  "harden_component component =
     res_bind (ensure (\<not> unwrap_or (get_bool ''privileged'' component) False)
       ''Privileged mode is strictly forbidden for generic workloads'') (\<lambda>_.
     res_bind (ensure (\<not> (unwrap_or (get_bool ''hostNetwork'' component) False
         \<or> unwrap_or (get_bool ''hostPid'' component) False \<or> unwrap_or (get_bool ''hostIpc'' component) False))
       ''Host namespaces (network/pid/ipc) are strictly forbidden'') (\<lambda>_.
     res_bind (require (''Missing '' @ quoted ''image'' @ '' in component'') (get_str ''image'' component)) (\<lambda>image.
     ensure (str_contains image ''@sha256:''
         \<or> is_some_and (get_str ''imageDigest'' component) (prefix ''sha256:''))
       (''Component image '' @ quoted image @ '' must be pinned by sha256 digest (@sha256:<hex>)''))))"

definition declared_dependencies :: "json \<Rightarrow> string list" where
  "declared_dependencies component =
     opt_strings (Option.bind (opt_or (json_get ''dependencies'' component) (json_get ''dependsOn'' component)) as_array)"

definition component_entry :: "json \<Rightarrow> workload_error + (string \<times> string list)" where
  "component_entry component =
     res_bind (require (''Missing '' @ quoted ''componentId'') (get_str ''componentId'' component)) (\<lambda>cid.
     Inr (cid, declared_dependencies component))"

text \<open>Everything \<open>plan\<close> establishes before it sorts the components.\<close>

record plan_head =
  ph_desired :: json
  ph_clean :: json
  ph_claimed :: string
  ph_state :: string
  ph_deployment :: string
  ph_generation :: u64
  ph_profile :: json
  ph_profile_id :: string
  ph_profile_version :: string
  ph_profile_digest :: string
  ph_components :: "json list"
  ph_entries :: "(string \<times> string list) list"

definition plan_head :: "planner_lib \<Rightarrow> string \<Rightarrow> string \<Rightarrow> workload_error + plan_head" where
  "plan_head lib desired_state_json profile_manifest_json =
     res_bind (case pl_parse lib desired_state_json of
         Inr v \<Rightarrow> Inr v | Inl e \<Rightarrow> Inl (ValidationFailed (''Invalid desired state JSON: '' @ e))) (\<lambda>desired.
     res_bind (case pl_parse lib profile_manifest_json of
         Inr v \<Rightarrow> Inr v | Inl e \<Rightarrow> Inl (ValidationFailed (''Invalid profile manifest JSON: '' @ e))) (\<lambda>profile.
     res_bind (if get_str ''schema'' profile = Some workload_profile_schema
         then validate_profile_manifest_schema lib profile else Inr ()) (\<lambda>_.
     res_bind (require (''Missing '' @ quoted ''desiredDigest'' @ '' in desired state'')
         (get_str ''desiredDigest'' desired)) (\<lambda>claimed.
     res_bind (verify_desired_digest lib claimed desired) (\<lambda>clean.
     res_bind (if get_str ''schema'' clean = Some desired_workload_state_schema
         then validate_desired_state_schema lib (insert_member ''desiredDigest'' (JString claimed) clean)
         else Inr ()) (\<lambda>_.
     let state = unwrap_or (get_str ''desiredState'' desired) ''RUNNING'' in
     res_bind (ensure (state = ''RUNNING'' \<or> state = ''STOPPED'')
         (''Invalid desiredState '' @ quoted state @ '': must be RUNNING or STOPPED'')) (\<lambda>_.
     res_bind (require (''Missing '' @ quoted ''deploymentId'' @ '' in desired state'')
         (get_str ''deploymentId'' desired)) (\<lambda>deployment.
     res_bind (require (''Missing or invalid '' @ quoted ''generation'' @ '' in desired state'')
         (get_u64 ''generation'' desired)) (\<lambda>generation.
     res_bind (require (''Missing '' @ quoted ''profileId'' @ '' in profile'')
         (get_str ''profileId'' profile)) (\<lambda>profile_id.
     res_bind (require (''Missing '' @ quoted ''profileVersion'' @ '' in profile'')
         (get_str ''profileVersion'' profile)) (\<lambda>profile_version.
     res_bind (canonical_digest_for_value (pl_esc lib) (pl_sha lib) profile) (\<lambda>profile_digest.
     res_bind (res_map harden_component (unwrap_or (get_arr ''components'' profile) [])) (\<lambda>_.
     res_bind (require (''Profile missing '' @ quoted ''components'' @ '' array'')
         (get_arr ''components'' profile)) (\<lambda>components.
     res_bind (res_map component_entry components) (\<lambda>entries.
     Inr \<lparr> ph_desired = desired, ph_clean = clean, ph_claimed = claimed, ph_state = state,
       ph_deployment = deployment, ph_generation = generation, ph_profile = profile,
       ph_profile_id = profile_id, ph_profile_version = profile_version,
       ph_profile_digest = profile_digest, ph_components = components, ph_entries = entries \<rparr>)))))))))))))))"

section \<open>Secrets\<close>

record desired_secret_ref =
  dr_secret_id :: string
  dr_purpose :: string
  dr_generation :: u64
  dr_component_id :: "string option"
  dr_scope :: "string option"

definition desired_secret_ref_of :: "u64 \<Rightarrow> json \<Rightarrow> desired_secret_ref option" where
  "desired_secret_ref_of generation item =
     (case (get_str ''secretId'' item, get_str ''purpose'' item) of
        (Some sid, Some purp) \<Rightarrow> Some \<lparr> dr_secret_id = sid, dr_purpose = purp,
          dr_generation = unwrap_or (get_u64 ''generation'' item) generation,
          dr_component_id = get_str ''componentId'' item, dr_scope = get_str ''scope'' item \<rparr>
      | _ \<Rightarrow> None)"

definition desired_secret_refs :: "json \<Rightarrow> json \<Rightarrow> u64 \<Rightarrow> desired_secret_ref list" where
  "desired_secret_refs clean desired generation =
     (case Option.bind (opt_or (json_get ''secretRefs'' clean) (json_get ''secretRefs'' desired)) as_array of
        None \<Rightarrow> []
      | Some arr \<Rightarrow> some_values (map (desired_secret_ref_of generation) arr))"

definition nonempty_arr :: "string \<Rightarrow> json \<Rightarrow> bool" where
  "nonempty_arr k v = is_some_and (get_arr k v) (\<lambda>a. a \<noteq> [])"

definition any_component_declares_secrets :: "json list \<Rightarrow> bool" where
  "any_component_declares_secrets cs =
     list_ex (\<lambda>c. nonempty_arr ''secretMounts'' c \<or> nonempty_arr ''secrets'' c) cs"

definition ref_matches :: "string \<Rightarrow> string \<Rightarrow> desired_secret_ref \<Rightarrow> bool" where
  "ref_matches sec_id cid r \<longleftrightarrow>
     dr_secret_id r = sec_id \<and> (dr_component_id r = None \<or> dr_component_id r = Some cid)"

definition secret_mount :: "string \<Rightarrow> desired_secret_ref \<Rightarrow> string \<Rightarrow> string \<Rightarrow> planned_secret_mount" where
  "secret_mount sec_id r path mode = \<lparr> sm_secret_id = sec_id, sm_purpose = dr_purpose r,
     sm_mount_path = path, sm_injection_mode = mode, sm_secret_generation = dr_generation r \<rparr>"

definition declared_mount ::
  "desired_secret_ref list \<Rightarrow> string \<Rightarrow> json \<Rightarrow> workload_error + planned_secret_mount" where
  "declared_mount refs cid s =
     (let sec_id = unwrap_or (get_str ''secretId'' s) [] in
      case find (ref_matches sec_id cid) refs of
        None \<Rightarrow> Inl (ValidationFailed (''Required secret '' @ quoted sec_id @ '' in secretMounts of component ''
          @ quoted cid @ '' not found in desired state secretRefs (fail-closed)''))
      | Some r \<Rightarrow> Inr (secret_mount sec_id r (unwrap_or (get_str ''mountPath'' s) [])
          (unwrap_or (get_str ''injectionMode'' s) ''TMPFS_FILE'')))"

definition named_mount ::
  "desired_secret_ref list \<Rightarrow> string \<Rightarrow> json \<Rightarrow> workload_error + planned_secret_mount" where
  "named_mount refs cid s =
     (let sec_id = unwrap_or (as_str s) [] in
      case find (ref_matches sec_id cid) refs of
        None \<Rightarrow> Inl (ValidationFailed (''Declared secret '' @ quoted sec_id @ '' for component ''
          @ quoted cid @ '' not found in desired state secretRefs (fail-closed)''))
      | Some r \<Rightarrow> Inr (secret_mount sec_id r (''/run/secrets/'' @ sec_id) ''TMPFS_FILE''))"

definition required_mount ::
  "desired_secret_ref list \<Rightarrow> string \<Rightarrow> json \<Rightarrow> planned_secret_mount option" where
  "required_mount refs cid r =
     (let sec_id = unwrap_or (get_str ''secretId'' r) [];
          target = get_str ''componentId'' r
      in if target = None \<or> target = Some cid
         then map_option (\<lambda>m. secret_mount sec_id m (''/run/secrets/'' @ sec_id) ''TMPFS_FILE'')
           (find (ref_matches sec_id cid) refs)
         else None)"

definition plan_secrets ::
  "json \<Rightarrow> json list \<Rightarrow> desired_secret_ref list \<Rightarrow> string \<Rightarrow> json
    \<Rightarrow> workload_error + planned_secret_mount list" where
  "plan_secrets profile components refs cid component =
     (case get_arr ''secretMounts'' component of
        Some secs \<Rightarrow> res_map (declared_mount refs cid) secs
      | None \<Rightarrow> (case get_arr ''secrets'' component of
          Some secs \<Rightarrow> res_map (named_mount refs cid) secs
        | None \<Rightarrow>
            if any_component_declares_secrets components then Inr []
            else Inr (some_values (map (required_mount refs cid)
              (unwrap_or (get_arr ''secretRequirements'' profile) [])))))"

section \<open>Volumes, ports and networks\<close>

definition declared_volume :: "json \<Rightarrow> workload_error + planned_volume_mount" where
  "declared_volume vol =
     (let host_path = unwrap_or (get_str ''hostPath'' vol) [] in
      res_bind (validate_host_path host_path) (\<lambda>_.
      Inr \<lparr> vm_volume_id = unwrap_or (get_str ''volumeId'' vol) [], vm_host_path = host_path,
        vm_container_path = unwrap_or (get_str ''containerPath'' vol) [],
        vm_read_only = unwrap_or (get_bool ''readOnly'' vol) False \<rparr>))"

definition managed_volume :: "string \<Rightarrow> string \<Rightarrow> planned_volume_mount" where
  "managed_volume deployment_id vid = \<lparr> vm_volume_id = vid,
     vm_host_path = ''volumes/'' @ deployment_id @ ''/'' @ vid,
     vm_container_path = ''/var/lib/actium/data/'' @ vid, vm_read_only = False \<rparr>"

definition plan_volumes :: "string \<Rightarrow> json \<Rightarrow> workload_error + planned_volume_mount list" where
  "plan_volumes deployment_id component =
     (case get_arr ''volumeMounts'' component of
        Some vols \<Rightarrow> res_map declared_volume vols
      | None \<Rightarrow> Inr (map (managed_volume deployment_id) (opt_strings (get_arr ''volumes'' component))))"

text \<open>\<open>as_u64().unwrap_or(0) as u16\<close> truncates.\<close>

definition container_port_of :: "json \<Rightarrow> u16" where
  "container_port_of p = ucast (unwrap_or (get_u64 ''containerPort'' p) 0)"

definition raw_network :: "json \<Rightarrow> string" where
  "raw_network component =
     unwrap_or (opt_or (get_str ''network'' component) (get_str ''networkMode'' component)) ''PRODUCT_INTERNAL''"

definition plan_ports :: "json \<Rightarrow> json \<Rightarrow> planned_port_mapping list" where
  "plan_ports profile component =
     (case get_arr ''portMappings'' component of
        Some ports \<Rightarrow> map (\<lambda>p. \<lparr> pm_container_port = container_port_of p,
          pm_protocol = unwrap_or (get_str ''protocol'' p) ''tcp'',
          pm_ingress_managed = unwrap_or (get_bool ''ingressManaged'' p) True \<rparr>) ports
      | None \<Rightarrow>
          map (\<lambda>p. \<lparr> pm_container_port = container_port_of p, pm_protocol = ''tcp'', pm_ingress_managed = True \<rparr>)
            (filter (\<lambda>p. get_str ''policy'' p = None \<or> get_str ''policy'' p = Some (raw_network component))
              (unwrap_or (get_arr ''ports'' profile) [])))"

definition plan_network_mode ::
  "string \<Rightarrow> string \<Rightarrow> string \<Rightarrow> string \<Rightarrow> workload_error + string" where
  "plan_network_mode raw site_slug product_slug dep_slug =
     (if raw = ''ISOLATED'' \<or> raw = ''none'' then Inr ''none''
      else if raw = ''PRODUCT_INTERNAL'' \<or> raw = ''INTERNAL'' then Inr (''actium-product-'' @ product_slug)
      else if raw = ''SITE_INTERNAL'' then Inr (''actium-site-'' @ site_slug)
      else if raw = ''PUBLIC_HTTPS'' then Inr (''actium-ingress-'' @ dep_slug)
      else if prefix ''actium-'' raw \<or> raw = ''managed_bridge'' then Inr raw
      else Inl (ValidationFailed (''Invalid component network policy '' @ quoted raw
        @ '': must be ISOLATED, SITE_INTERNAL, PRODUCT_INTERNAL, or PUBLIC_HTTPS'')))"

section \<open>Probes\<close>

definition probe_type :: "json \<Rightarrow> string" where
  "probe_type v = unwrap_or (get_str ''type'' v) ''none''"

definition probe_command :: "json \<Rightarrow> string list option" where
  "probe_command v = map_option str_items (get_arr ''command'' v)"

definition exec_without_command :: "json \<Rightarrow> bool" where
  "exec_without_command v \<longleftrightarrow>
     probe_type v = ''exec'' \<and> (case probe_command v of None \<Rightarrow> True | Some c \<Rightarrow> c = [])"

definition planned_probe :: "string \<Rightarrow> json \<Rightarrow> planned_health_check" where
  "planned_probe cid v = \<lparr> hc_probe_type = probe_type v, hc_component_id = Some cid,
     hc_path = get_str ''path'' v, hc_port = map_option ucast (get_u64 ''port'' v),
     hc_timeout_seconds = map_option ucast (get_u64 ''timeoutSeconds'' v),
     hc_command = probe_command v \<rparr>"

definition plan_health_check :: "string \<Rightarrow> json \<Rightarrow> workload_error + planned_health_check option" where
  "plan_health_check cid component =
     (case get_obj ''healthCheck'' component of
        None \<Rightarrow> Inr None
      | Some hc \<Rightarrow>
          if probe_type hc = ''none'' then Inr None
          else res_bind (ensure (\<not> exec_without_command hc)
              (''Component '' @ quoted cid @ '' exec healthCheck requires non-empty command vector'')) (\<lambda>_.
            Inr (Some (planned_probe cid hc))))"

definition readiness_target :: "string list \<Rightarrow> json \<Rightarrow> workload_error + string" where
  "readiness_target ids rc =
     (case get_str ''componentId'' rc of
        Some target \<Rightarrow>
          if target \<in> set ids then Inr target
          else Inl (ValidationFailed (''Readiness check targets unknown componentId '' @ quoted target))
      | None \<Rightarrow> (case ids of
          [only] \<Rightarrow> Inr only
        | _ \<Rightarrow> Inl (ValidationFailed (''Readiness check missing '' @ quoted ''componentId''
            @ '' when multiple components exist in profile (fail-closed)''))))"

definition plan_readiness_check :: "string list \<Rightarrow> json \<Rightarrow> workload_error + planned_health_check" where
  "plan_readiness_check ids rc =
     res_bind (ensure (\<not> exec_without_command rc)
       ''Exec readinessCheck requires non-empty command vector'') (\<lambda>_.
     res_bind (readiness_target ids rc) (\<lambda>target. Inr (planned_probe target rc)))"

definition plan_readiness ::
  "string list \<Rightarrow> json \<Rightarrow> workload_error + planned_health_check list option" where
  "plan_readiness ids profile =
     (case get_arr ''readinessChecks'' profile of
        None \<Rightarrow> Inr None
      | Some rcs \<Rightarrow>
          res_bind (res_map (plan_readiness_check ids) (filter (\<lambda>rc. probe_type rc \<noteq> ''none'') rcs)) (\<lambda>checks.
          Inr (if checks = [] then None else Some checks)))"

section \<open>Components and routes\<close>

definition planned_image :: "json \<Rightarrow> string" where
  "planned_image component =
     (let image = unwrap_or (get_str ''image'' component) [] in
      if str_contains image ''@sha256:'' then image
      else case get_str ''imageDigest'' component of
        Some digest \<Rightarrow> image @ ''@'' @ digest | None \<Rightarrow> image)"

definition planned_env :: "json \<Rightarrow> (string \<times> string) list" where
  "planned_env component = (case json_get ''env'' component of
     Some (JObject kvs) \<Rightarrow>
       sort_key fst (some_values (map (\<lambda>kv. map_option (Pair (fst kv)) (as_str (snd kv))) kvs))
   | _ \<Rightarrow> [])"

definition plan_component ::
  "planner_lib \<Rightarrow> plan_head \<Rightarrow> json \<Rightarrow> workload_error + planned_component" where
  "plan_component lib h component =
     (let cid = unwrap_or (get_str ''componentId'' component) [];
          refs = desired_secret_refs (ph_clean h) (ph_desired h) (ph_generation h)
      in
     res_bind (plan_secrets (ph_profile h) (ph_components h) refs cid component) (\<lambda>secrets.
     res_bind (plan_volumes (ph_deployment h) component) (\<lambda>volumes.
     res_bind (sanitize_yaml_key (unwrap_or (opt_or (get_str ''siteId'' (ph_desired h))
         (get_str ''siteId'' (ph_profile h))) ''default-site'')) (\<lambda>site_slug.
     res_bind (sanitize_yaml_key (unwrap_or (opt_or (get_str ''productId'' (ph_desired h))
         (get_str ''productId'' (ph_profile h))) (ph_profile_id h))) (\<lambda>product_slug.
     res_bind (sanitize_yaml_key (ph_deployment h)) (\<lambda>dep_slug.
     res_bind (plan_network_mode (raw_network component) site_slug product_slug dep_slug) (\<lambda>network.
     res_bind (plan_health_check cid component) (\<lambda>health.
     Inr \<lparr> pc_component_id = cid,
       pc_runtime_instance_id = deterministic_runtime_instance_id (pl_esc lib) (pl_sha lib)
         (ph_deployment h) (ph_generation h) cid,
       pc_image = planned_image component,
       pc_command = opt_strings (get_arr ''command'' component),
       pc_args = opt_strings (get_arr ''args'' component),
       pc_env = planned_env component, pc_secret_mounts = secrets, pc_volume_mounts = volumes,
       pc_network_mode = network, pc_port_mappings = plan_ports (ph_profile h) component,
       pc_depends_on = declared_dependencies component, pc_health_check = health \<rparr>))))))))"

definition route_to :: "string \<Rightarrow> planned_component \<Rightarrow> u16 \<Rightarrow> planned_ingress_route" where
  "route_to dep_slug c port = \<lparr> ir_component_id = pc_component_id c,
     ir_hostname = dep_slug @ ''.actium.local'', ir_service_port = port, ir_tls = True \<rparr>"

definition component_routes :: "string \<Rightarrow> planned_component \<Rightarrow> planned_ingress_route list" where
  "component_routes dep_slug c =
     (if prefix ''actium-ingress'' (pc_network_mode c)
      then [route_to dep_slug c (case pc_port_mappings c of [] \<Rightarrow> 443 | p # _ \<Rightarrow> pm_container_port p)]
      else map (\<lambda>pm. route_to dep_slug c (pm_container_port pm))
        (filter pm_ingress_managed (pc_port_mappings c)))"

section \<open>The plan\<close>

definition default_upgrade_policy :: planned_upgrade_policy where
  "default_upgrade_policy = \<lparr> up_strategy = ''replace'', up_requires_snapshot = False,
     up_database_migration = ''none'', up_rollback_compatibility = ''runtime-only'' \<rparr>"

definition default_rollback_policy :: planned_rollback_policy where
  "default_rollback_policy = \<lparr> rb_runtime_rollback = ''previous-generation'', rb_database_rollback = ''none'' \<rparr>"

definition policy_of :: "(json \<Rightarrow> string + 'a) \<Rightarrow> string \<Rightarrow> 'a \<Rightarrow> json \<Rightarrow> workload_error + 'a" where
  "policy_of from_value key fallback profile =
     (case json_get key profile of
        None \<Rightarrow> Inr fallback
      | Some v \<Rightarrow> (case from_value v of
          Inr p \<Rightarrow> Inr p
        | Inl e \<Rightarrow> Inl (ValidationFailed (''Invalid '' @ key @ '' in profile manifest: '' @ e))))"

definition plan_json :: "workload_plan \<Rightarrow> json" where
  "plan_json p = JObject
     [(''schema'', JString (wp_schema p)), (''deploymentId'', JString (wp_deployment_id p)),
      (''generation'', json_nat_word (wp_generation p)), (''desiredState'', JString (wp_desired_state p)),
      (''profileId'', JString (wp_profile_id p)), (''profileVersion'', JString (wp_profile_version p)),
      (''profileDigest'', JString (wp_profile_digest p)), (''desiredDigest'', JString (wp_desired_digest p)),
      (''hostCapabilitiesDigest'', JString (wp_host_capabilities_digest p)),
      (''composeProjectId'', JString (wp_compose_project_id p)), (''runtimeKind'', JString (wp_runtime_kind p)),
      (''upgradePolicy'', upgrade_policy_json (wp_upgrade_policy p)),
      (''rollbackPolicy'', rollback_policy_json (wp_rollback_policy p)),
      (''executionOrder'', json_strings (wp_execution_order p)),
      (''components'', JArray (map component_json (wp_components p)))]"

definition plan_tail ::
  "planner_lib \<Rightarrow> string \<Rightarrow> string option \<Rightarrow> u64 option \<Rightarrow> plan_head \<Rightarrow> string list
    \<Rightarrow> workload_error + workload_plan" where
  "plan_tail lib host_caps version planned_at h order =
     res_bind (ensure (length order = length (ph_entries h))
       ''Cyclic component dependency detected in workload profile DAG'') (\<lambda>_.
     res_bind (res_map (plan_component lib h) (ph_components h)) (\<lambda>planned.
     let components = sort_key pc_component_id planned in
     res_bind (plan_readiness (map fst (ph_entries h)) (ph_profile h)) (\<lambda>readiness.
     res_bind (sanitize_yaml_key (ph_deployment h)) (\<lambda>dep_slug.
     let routes = concat (map (component_routes dep_slug) components);
         kind = unwrap_or (get_str ''runtimeKind'' (ph_profile h)) ''OCI_COMPOSE'' in
     res_bind (ensure (kind \<noteq> ''VM'')
       (''Runtime kind '' @ quoted ''VM'' @ '' is not supported (fail-closed)'')) (\<lambda>_.
     res_bind (policy_of (pl_upgrade_policy lib) ''upgradePolicy'' default_upgrade_policy (ph_profile h)) (\<lambda>upgrade.
     res_bind (policy_of (pl_rollback_policy lib) ''rollbackPolicy'' default_rollback_policy (ph_profile h)) (\<lambda>rollback.
     let p = \<lparr> wp_schema = canonical_workload_plan_schema, wp_deployment_id = ph_deployment h,
         wp_generation = ph_generation h, wp_desired_state = ph_state h, wp_profile_id = ph_profile_id h,
         wp_profile_version = ph_profile_version h, wp_profile_digest = ph_profile_digest h,
         wp_desired_digest = ph_claimed h, wp_host_capabilities_digest = host_caps,
         wp_compose_project_id = deterministic_compose_project_id (pl_esc lib) (pl_sha lib)
           (ph_deployment h) (ph_generation h),
         wp_runtime_kind = kind, wp_upgrade_policy = upgrade, wp_rollback_policy = rollback,
         wp_execution_order = order, wp_components = components, wp_plan_digest = [],
         wp_readiness_checks = readiness,
         wp_ingress_routes = (if routes = [] then None else Some routes),
         wp_planner_version = version, wp_planned_at = planned_at \<rparr> in
     res_bind (canonical_digest_for_value (pl_esc lib) (pl_sha lib) (plan_json p)) (\<lambda>digest.
     Inr (p\<lparr> wp_plan_digest := digest \<rparr>)))))))))"

text \<open>\<^const>\<open>None\<close> would be a call that does not return; \<open>plan_returns\<close> excludes it.\<close>

definition plan_workload ::
  "planner_lib \<Rightarrow> string \<Rightarrow> string \<Rightarrow> string \<Rightarrow> string option \<Rightarrow> u64 option
    \<Rightarrow> (workload_error + workload_plan) option" where
  "plan_workload lib desired_state_json profile_manifest_json host_caps version planned_at =
     (case plan_head lib desired_state_json profile_manifest_json of
        Inl e \<Rightarrow> Some (Inl e)
      | Inr h \<Rightarrow> (case execution_order (ph_entries h) of
          None \<Rightarrow> None
        | Some order \<Rightarrow> Some (plan_tail lib host_caps version planned_at h order)))"

section \<open>Lemmas\<close>

named_theorems plan_simps \<open>inversion of the checks of the planner\<close>

lemma ensure_Inr [plan_simps]: "ensure b m = Inr u \<longleftrightarrow> b"
  by (simp add: ensure_def)

lemma require_Inr [plan_simps]: "require m x = Inr v \<longleftrightarrow> x = Some v"
  by (cases x) (simp_all add: require_def)

lemma some_values_set: "y \<in> set (some_values xs) \<longleftrightarrow> Some y \<in> set xs"
  by (induction xs) (auto simp: some_values_def split: option.splits)

lemma harden_pinned:
  "harden_component c = Inr u \<Longrightarrow> str_contains (planned_image c) ''@sha256:''"
proof -
  assume "harden_component c = Inr u"
  then obtain image where i: "get_str ''image'' c = Some image"
    "str_contains image ''@sha256:'' \<or> is_some_and (get_str ''imageDigest'' c) (prefix ''sha256:'')"
    by (auto simp: harden_component_def result_simps plan_simps)
  show ?thesis
  proof (cases "str_contains image ''@sha256:''")
    case True
    then show ?thesis by (simp add: planned_image_def i(1))
  next
    case False
    then obtain d r where "get_str ''imageDigest'' c = Some d" "d = ''sha256:'' @ r"
      using i(2) by (auto simp: is_some_and_iff prefix_def)
    then show ?thesis
      using False str_contains_append [of image "''@sha256:''" r]
      by (simp add: planned_image_def i(1))
  qed
qed

lemma res_map_Inr_in:
  "res_map f xs = Inr ys \<Longrightarrow> x \<in> set xs \<Longrightarrow> \<exists>y \<in> set ys. f x = Inr y"
  by (induction xs arbitrary: ys) (auto simp: result_simps)

lemma as_array_Some: "as_array v = Some vs \<longleftrightarrow> v = JArray vs"
  by (cases v) (auto simp: as_array_def)

lemma get_arr_Some:
  "get_arr k v = Some vs \<longleftrightarrow> (\<exists>kvs. v = JObject kvs \<and> map_of kvs k = Some (JArray vs))"
  by (cases v) (auto simp: get_arr_def json_get_def Option.bind_eq_Some_conv as_array_Some)

lemma canonical_digest_distinct_components:
  assumes "canonical_digest_for_value esc sha v = Inr d" "get_arr ''components'' v = Some cs"
  shows "distinct (some_values (map (get_str ''componentId'') cs))"
proof -
  obtain kvs where v: "v = JObject kvs" "map_of kvs ''components'' = Some (JArray cs)"
    using assms(2) by (auto simp: get_arr_Some)
  obtain kvs' where
    m: "res_map (\<lambda>kv. res_bind (normalize_member (fst kv) (snd kv)) (\<lambda>v. Inr (fst kv, v))) kvs = Inr kvs'"
    using assms(1) v(1) by (auto simp: canonical_digest_for_value_def result_simps)
  then obtain y where "normalize_member ''components'' (JArray cs) = Inr y"
    using normalize_members_get [OF m, of "''components''"] v(2) by auto
  then obtain ws where "arrange_member ''components'' cs = Inr ws"
    by (auto simp: special_member_def keyed_member_def result_simps)
  then show ?thesis
    by (auto simp: arrange_member_def keyed_member_def sort_keyed_def result_simps)
qed

lemma component_entries:
  assumes "res_map component_entry cs = Inr es"
  shows "es = map (\<lambda>c. (unwrap_or (get_str ''componentId'' c) [], declared_dependencies c)) cs"
    and "some_values (map (get_str ''componentId'') cs) = map fst es"
  using assms
  by (induction cs arbitrary: es)
    (auto simp: result_simps plan_simps component_entry_def some_values_def)

lemma plan_head_facts:
  assumes "plan_head lib dj pj = Inr h"
  shows "(pl_parse lib dj = Inr (ph_desired h) \<and> pl_parse lib pj = Inr (ph_profile h) \<and>
      verify_desired_digest lib (ph_claimed h) (ph_desired h) = Inr (ph_clean h)) \<and>
    ((ph_state h = ''RUNNING'' \<or> ph_state h = ''STOPPED'') \<and>
      get_arr ''components'' (ph_profile h) = Some (ph_components h) \<and>
      (\<exists>us. res_map harden_component (unwrap_or (get_arr ''components'' (ph_profile h)) []) = Inr us)) \<and>
    (res_map component_entry (ph_components h) = Inr (ph_entries h) \<and>
      canonical_digest_for_value (pl_esc lib) (pl_sha lib) (ph_profile h) = Inr (ph_profile_digest h) \<and>
      get_str ''desiredDigest'' (ph_desired h) = Some (ph_claimed h)) \<and>
    (get_str ''deploymentId'' (ph_desired h) = Some (ph_deployment h) \<and>
      get_u64 ''generation'' (ph_desired h) = Some (ph_generation h) \<and>
      ph_state h = unwrap_or (get_str ''desiredState'' (ph_desired h)) ''RUNNING'')"
  using assms unfolding plan_head_def Let_def res_bind_Inr_iff ensure_Inr require_Inr
  by - (elim exE conjE, drule sum.inject(2) [THEN iffD1], erule subst, simp split: sum.splits)

lemma plan_headD:
  assumes "plan_head lib dj pj = Inr h"
  shows "pl_parse lib dj = Inr (ph_desired h)" "pl_parse lib pj = Inr (ph_profile h)"
    "verify_desired_digest lib (ph_claimed h) (ph_desired h) = Inr (ph_clean h)"
    "ph_state h = ''RUNNING'' \<or> ph_state h = ''STOPPED''"
    "get_arr ''components'' (ph_profile h) = Some (ph_components h)"
    "c \<in> set (ph_components h) \<Longrightarrow> harden_component c = Inr ()"
    "res_map component_entry (ph_components h) = Inr (ph_entries h)"
    "canonical_digest_for_value (pl_esc lib) (pl_sha lib) (ph_profile h) = Inr (ph_profile_digest h)"
    "get_str ''desiredDigest'' (ph_desired h) = Some (ph_claimed h)"
    "get_str ''deploymentId'' (ph_desired h) = Some (ph_deployment h)"
    "get_u64 ''generation'' (ph_desired h) = Some (ph_generation h)"
    "ph_state h = unwrap_or (get_str ''desiredState'' (ph_desired h)) ''RUNNING''"
  using plan_head_facts [OF assms] by (simp_all only: HOL.simp_thms) (auto dest: res_map_Inr_in)

lemma plan_head_distinct: "plan_head lib dj pj = Inr h \<Longrightarrow> distinct (map fst (ph_entries h))"
  using canonical_digest_distinct_components [OF plan_headD(8) plan_headD(5)]
    component_entries(2) [OF plan_headD(7)] by metis

lemma plan_tail_facts:
  assumes "plan_tail lib host_caps version planned_at h order = Inr w"
  shows "\<exists>planned. res_map (plan_component lib h) (ph_components h) = Inr planned \<and>
    (wp_components w = sort_key pc_component_id planned \<and> wp_execution_order w = order \<and>
      length order = length (ph_entries h)) \<and>
    (wp_deployment_id w = ph_deployment h \<and> wp_generation w = ph_generation h \<and>
      wp_desired_state w = ph_state h \<and> wp_desired_digest w = ph_claimed h \<and> wp_runtime_kind w \<noteq> ''VM'') \<and>
    canonical_digest_for_value (pl_esc lib) (pl_sha lib) (plan_json w) = Inr (wp_plan_digest w)"
  using assms unfolding plan_tail_def Let_def res_bind_Inr_iff ensure_Inr require_Inr
  by - (elim exE conjE, drule sum.inject(2) [THEN iffD1], erule subst, simp add: plan_json_def)

text \<open>What a component of an accepted plan is made of.\<close>

lemma plan_componentD:
  assumes "plan_component lib h c = Inr p"
  shows "pc_component_id p = unwrap_or (get_str ''componentId'' c) []" "pc_image p = planned_image c"
    "pc_depends_on p = declared_dependencies c"
    "plan_secrets (ph_profile h) (ph_components h)
       (desired_secret_refs (ph_clean h) (ph_desired h) (ph_generation h)) (pc_component_id p) c
     = Inr (pc_secret_mounts p)"
    "plan_volumes (ph_deployment h) c = Inr (pc_volume_mounts p)"
    "plan_health_check (pc_component_id p) c = Inr (pc_health_check p)"
    "\<exists>site product dep. plan_network_mode (raw_network c) site product dep = Inr (pc_network_mode p)"
  using assms unfolding plan_component_def Let_def result_simps
  by - (elim exE conjE, drule sum.inject(2) [THEN iffD1], erule subst, (force | (simp; blast)))+

definition mount_backed :: "desired_secret_ref list \<Rightarrow> string \<Rightarrow> planned_secret_mount \<Rightarrow> bool" where
  "mount_backed refs cid m \<longleftrightarrow>
     (\<exists>r\<in>set refs. ref_matches (sm_secret_id m) cid r \<and> sm_purpose m = dr_purpose r
       \<and> sm_secret_generation m = dr_generation r)"

lemma mount_backedI:
  "find (ref_matches sid cid) refs = Some r \<Longrightarrow> mount_backed refs cid (secret_mount sid r path mode)"
  by (auto simp: mount_backed_def secret_mount_def dest!: find_SomeD)

lemma mounts_backed:
  assumes "plan_secrets profile cs refs cid c = Inr ms" "m \<in> set ms"
  shows "mount_backed refs cid m"
proof -
  have "\<exists>s. declared_mount refs cid s = Inr m \<or> named_mount refs cid s = Inr m
      \<or> required_mount refs cid s = Some m"
    using assms by (auto simp: plan_secrets_def some_values_set split: option.splits if_splits
        dest: res_map_Inr_set) metis
  then show ?thesis
    by (auto simp: declared_mount_def named_mount_def required_mount_def Let_def
        intro: mount_backedI split: option.splits if_splits)
qed

definition path_confined :: "string \<Rightarrow> bool" where
  "path_confined path \<longleftrightarrow> path \<noteq> [] \<and> \<not> str_contains path ''..'' \<and> backslash_to_slash path \<noteq> ''/''
     \<and> (\<forall>f\<in>set forbidden_prefixes. backslash_to_slash path \<noteq> f
          \<and> \<not> prefix (f @ ''/'') (backslash_to_slash path))"

lemma validate_host_path_iff:
  "validate_host_path path = Inr () \<longleftrightarrow>
     path_confined path \<and> \<not> str_contains path ''./'' \<and> \<not> str_contains path [CHR ''.'', CHR 0x5C]"
  by (auto simp: validate_host_path_def path_confined_def under_def Let_def find_none_iff list_ex_iff
      split: option.splits dest!: find_SomeD)

lemma volumes_confined:
  "plan_volumes dep c = Inr vs \<Longrightarrow> v \<in> set vs \<Longrightarrow>
     path_confined (vm_host_path v) \<or> v = managed_volume dep (vm_volume_id v)"
  by (auto simp: plan_volumes_def managed_volume_def declared_volume_def Let_def result_simps
      validate_host_path_iff split: option.splits dest!: res_map_Inr_set)

lemma network_allowed:
  "plan_network_mode raw site product dep = Inr n \<Longrightarrow>
     n = ''none'' \<or> n = ''managed_bridge'' \<or> prefix ''actium-'' n"
  by (simp add: plan_network_mode_def split: if_split_asm) (blast | (drule sym, simp))+

lemma health_check_command:
  "plan_health_check cid c = Inr (Some hc) \<Longrightarrow> hc_probe_type hc = ''exec'' \<Longrightarrow>
     \<exists>a r. hc_command hc = Some (a # r)"
  by (auto simp: plan_health_check_def planned_probe_def exec_without_command_def result_simps
      plan_simps neq_Nil_conv split: option.splits if_splits)

definition component_confined :: "desired_secret_ref list \<Rightarrow> string \<Rightarrow> planned_component \<Rightarrow> bool" where
  "component_confined refs dep p \<longleftrightarrow>
     str_contains (pc_image p) ''@sha256:''
     \<and> (\<forall>m\<in>set (pc_secret_mounts p). mount_backed refs (pc_component_id p) m)
     \<and> (\<forall>v\<in>set (pc_volume_mounts p). path_confined (vm_host_path v)
         \<or> v = managed_volume dep (vm_volume_id v))
     \<and> (pc_network_mode p = ''none'' \<or> pc_network_mode p = ''managed_bridge'' \<or> prefix ''actium-'' (pc_network_mode p))
     \<and> (\<forall>hc. pc_health_check p = Some hc \<longrightarrow> hc_probe_type hc = ''exec'' \<longrightarrow> hc_command hc \<noteq> Some [] \<and> hc_command hc \<noteq> None)"

lemma plan_component_confined:
  assumes "plan_component lib h c = Inr p" "harden_component c = Inr ()"
  shows "component_confined (desired_secret_refs (ph_clean h) (ph_desired h) (ph_generation h)) (ph_deployment h) p"
  using plan_componentD [OF assms(1)] harden_pinned [OF assms(2)]
  unfolding component_confined_def
  by (auto dest: mounts_backed volumes_confined network_allowed)
    (use health_check_command in fastforce)+

lemma plan_workload_cases:
  assumes "plan_workload lib dj pj caps v t = Some (Inr w)"
  obtains h where "plan_head lib dj pj = Inr h" "execution_order (ph_entries h) = Some (wp_execution_order w)"
    "plan_tail lib caps v t h (wp_execution_order w) = Inr w"
proof -
  obtain h where h: "plan_head lib dj pj = Inr h" using assms by (auto simp: plan_workload_def split: sum.splits)
  obtain order where o: "execution_order (ph_entries h) = Some order" "plan_tail lib caps v t h order = Inr w"
    using assms by (auto simp: plan_workload_def h split: option.splits)
  have "wp_execution_order w = order" using plan_tail_facts [OF o(2)] by auto
  then show thesis using that h o by simp
qed

lemma planned_entries:
  assumes "res_map component_entry cs = Inr es" "res_map (plan_component lib h) cs = Inr ps"
  shows "map (\<lambda>p. (pc_component_id p, pc_depends_on p)) ps = es"
  using assms
proof (induction cs arbitrary: es ps)
  case (Cons c cs)
  then show ?case
    by (auto simp: result_simps plan_simps component_entry_def plan_componentD(1,3))
qed simp

section \<open>The digest of an accepted desired state\<close>

lemma try_alternative_digest:
  assumes "canonical_digest_for_value (pl_esc lib) (pl_sha lib) (fst st) = Inr (snd st)"
  shows "canonical_digest_for_value (pl_esc lib) (pl_sha lib) (fst (try_alternative lib claimed alt st))
    = Inr (snd (try_alternative lib claimed alt st))"
  using assms by (auto simp: try_alternative_def split: sum.splits)

lemma verify_desired_digestD:
  assumes "verify_desired_digest lib claimed v = Inr clean"
  shows "\<exists>d. canonical_digest_for_value (pl_esc lib) (pl_sha lib) clean = Inr d \<and> digest_matches claimed d"
    and "\<exists>d. canonical_digest_for_value (pl_esc lib) (pl_sha lib) (clean_desired v) = Inr d"
proof -
  obtain d0 same where d0: "canonical_digest_for_value (pl_esc lib) (pl_sha lib) (clean_desired v) = Inr d0"
    and st: "constant_time_digest_eq claimed (snd (try_alternative lib claimed legacy_desired
        (try_alternative lib claimed (remove_members [''siteId'', ''productId'']) (clean_desired v, d0)))) = Inr True"
      "clean = fst (try_alternative lib claimed legacy_desired
        (try_alternative lib claimed (remove_members [''siteId'', ''productId'']) (clean_desired v, d0)))"
    using assms unfolding verify_desired_digest_def Let_def res_bind_Inr_iff
    by (auto split: if_split_asm)
  have "canonical_digest_for_value (pl_esc lib) (pl_sha lib) clean
      = Inr (snd (try_alternative lib claimed legacy_desired
        (try_alternative lib claimed (remove_members [''siteId'', ''productId'']) (clean_desired v, d0))))"
    unfolding st(2) by (intro try_alternative_digest) (simp add: d0)
  then show "\<exists>d. canonical_digest_for_value (pl_esc lib) (pl_sha lib) clean = Inr d \<and> digest_matches claimed d"
    using st(1) by (simp add: digest_matches_def)
  show "\<exists>d. canonical_digest_for_value (pl_esc lib) (pl_sha lib) (clean_desired v) = Inr d" using d0 by blast
qed

lemma try_alternative_accepts:
  assumes "canonical_digest_for_value (pl_esc lib) (pl_sha lib) (alt (fst st)) = Inr d" "digest_matches claimed d"
  shows "digest_matches claimed (snd (try_alternative lib claimed alt st))"
  using assms by (simp add: try_alternative_def)

lemma try_alternative_cases:
  "try_alternative lib claimed alt st = st \<or> digest_matches claimed (snd (try_alternative lib claimed alt st))"
  by (auto simp: try_alternative_def split: sum.split)

lemma legacy_form_accepted:
  assumes "canonical_digest_for_value (pl_esc lib) (pl_sha lib) (clean_desired v) = Inr d0"
    and "canonical_digest_for_value (pl_esc lib) (pl_sha lib) (legacy_desired (clean_desired v)) = Inr d"
    and "digest_matches claimed d"
  shows "\<exists>clean. verify_desired_digest lib claimed v = Inr clean"
proof -
  let ?st1 = "try_alternative lib claimed (remove_members [''siteId'', ''productId'']) (clean_desired v, d0)"
  let ?st2 = "try_alternative lib claimed legacy_desired ?st1"
  have "digest_matches claimed (snd ?st2)"
  proof (cases "digest_matches claimed (snd ?st1)")
    case True
    then show ?thesis by (simp add: try_alternative_def [of _ _ legacy_desired])
  next
    case False
    then have "?st1 = (clean_desired v, d0)" using try_alternative_cases by blast
    then show ?thesis using try_alternative_accepts [of lib legacy_desired ?st1] assms(2,3) by simp
  qed
  then show ?thesis
    by (auto simp: verify_desired_digest_def assms(1) digest_matches_def Let_def split: sum.splits)
qed

lemma normalize_object_ok:
  "(\<exists>w. semantic_normalize (JObject kvs) = Inr w)
     \<longleftrightarrow> (\<forall>kv\<in>set kvs. \<exists>y. normalize_member (fst kv) (snd kv) = Inr y)"
proof -
  have "(\<exists>w. res_map f xs = Inr w) \<longleftrightarrow> (\<forall>x\<in>set xs. \<exists>y. f x = Inr y)"
    for f :: "string \<times> json \<Rightarrow> workload_error + (string \<times> json)" and xs
    by (induction xs) (auto simp: result_simps)
  then show ?thesis by (auto simp: result_simps)
qed

lemma canonical_digest_ok:
  "(\<exists>d. canonical_digest_for_value esc sha v = Inr d) \<longleftrightarrow> (\<exists>w. semantic_normalize v = Inr w)"
  by (auto simp: canonical_digest_for_value_def result_simps)

text \<open>A document whose \<open>desiredState\<close> member is set to a given value.\<close>

definition with_state :: "string \<Rightarrow> (string \<times> json) list \<Rightarrow> json" where
  "with_state s kvs = insert_member ''desiredState'' (JString s) (JObject kvs)"

lemma remove_insert_member:
  "k \<in> set ks \<Longrightarrow> remove_members ks (insert_member k x v) = remove_members ks v"
proof (cases v)
  case (JObject kvs)
  assume k: "k \<in> set ks"
  have "filter (\<lambda>kv. fst kv \<notin> set ks) (map (\<lambda>kv. if fst kv = k then (k, x) else kv) kvs)
      = filter (\<lambda>kv. fst kv \<notin> set ks) kvs"
    using k by (induction kvs) auto
  then show ?thesis
    using k by (simp add: JObject insert_member_def remove_members_def filter_insort_triv)
qed (simp_all add: insert_member_def remove_members_def)

lemma remove_members_twice:
  "remove_members ks (remove_members js v) = remove_members (ks @ js) v"
  by (cases v) (auto simp: remove_members_def intro!: filter_cong)

lemma map_of_filter_key: "map_of (filter (\<lambda>kv. P (fst kv)) kvs) k = (if P k then map_of kvs k else None)"
  by (induction kvs) auto

lemma json_get_remove: "json_get k (remove_members ks v) = (if k \<in> set ks then None else json_get k v)"
  by (cases v) (simp_all add: json_get_def remove_members_def map_of_filter_key [of "\<lambda>k. k \<notin> set ks"])

lemma map_of_replace:
  "map_of (map (\<lambda>kv. if fst kv = k then (k, x) else kv) kvs) j
     = (if j = k \<and> k \<in> fst ` set kvs then Some x else map_of kvs j)"
  by (induction kvs) (auto simp: rev_image_eqI)

lemma json_get_insert:
  "json_get j (insert_member k x (JObject kvs)) = (if j = k then Some x else json_get j (JObject kvs))"
  by (auto simp: json_get_def insert_member_def list_ex_key map_of_insort_key map_of_replace)

lemma legacy_of_with_state:
  assumes "json_get ''targetState'' (JObject kvs) \<noteq> None"
  shows "legacy_desired (clean_desired (with_state s kvs))
    = remove_members ([''desiredState'', ''siteId'', ''productId'', ''profileDigest''] @ transport_members) (JObject kvs)"
proof -
  have c: "clean_desired (with_state s kvs) = remove_members transport_members (with_state s kvs)"
    using assms by (simp add: clean_desired_def json_get_remove transport_members_def with_state_def json_get_insert)
  have "json_get ''desiredState'' (remove_members ([''siteId'', ''productId'', ''profileDigest''] @ transport_members) (with_state s kvs))
      = Some (JString s)"
    by (simp add: json_get_remove transport_members_def with_state_def json_get_insert)
  moreover have "json_get ''targetState'' (remove_members ([''desiredState''] @ ([''siteId'', ''productId'', ''profileDigest''] @ transport_members)) (with_state s kvs)) \<noteq> None"
    using assms by (simp add: json_get_remove transport_members_def with_state_def json_get_insert)
  ultimately show ?thesis
    unfolding c legacy_desired_def remove_members_twice Let_def append.simps
    by (simp only: option.case if_False) (simp add: with_state_def remove_insert_member)
qed

lemma clean_with_state_digest:
  assumes "json_get ''targetState'' (JObject kvs) \<noteq> None"
    and "\<exists>d. canonical_digest_for_value esc sha (clean_desired (with_state s kvs)) = Inr d"
  shows "\<exists>d. canonical_digest_for_value esc sha (clean_desired (with_state s' kvs)) = Inr d"
proof -
  define keep where "keep = (\<lambda>kv :: string \<times> json. fst kv \<notin> set transport_members)"
  have form: "clean_desired (with_state t kvs) = JObject (filter keep
      (if list_ex (\<lambda>kv. fst kv = ''desiredState'') kvs
       then map (\<lambda>kv. if fst kv = ''desiredState'' then (''desiredState'', JString t) else kv) kvs
       else insort_key fst (''desiredState'', JString t) kvs))" for t
    using assms(1)
    by (simp add: clean_desired_def json_get_remove transport_members_def with_state_def json_get_insert)
      (simp add: insert_member_def remove_members_def keep_def transport_members_def)
  have "normalize_member ''desiredState'' (JString t) = Inr (JString t)" for t
    by (simp add: special_member_def keyed_member_def)
  then show ?thesis
    using assms(2) unfolding canonical_digest_ok form normalize_object_ok
    by (auto simp: set_insort_key split: if_splits)
qed

section \<open>An accepted plan\<close>

text \<open>
  A profile with one component and one secret, with constant digests, on which the hypotheses of
  the properties hold.
\<close>

definition zero_sha :: "string \<Rightarrow> string" where
  "zero_sha t = replicate 32 (CHR 0x00)"

definition zero_digest :: string where
  "zero_digest = format_sha256_hex (replicate 32 (CHR 0x00))"

definition example_clean :: json where
  "example_clean = JObject [(''deploymentId'', JString ''shop''),
     (''desiredState'', JString ''STOPPED''), (''generation'', JNumber (PosInt 3)),
     (''profileId'', JString ''web''), (''profileVersion'', JString ''1''),
     (''secretRefs'', JArray [JObject [(''purpose'', JString ''db''), (''secretId'', JString ''key'')]])]"

definition example_desired :: json where
  "example_desired = insert_member ''desiredDigest'' (JString zero_digest) example_clean"

definition example_component :: json where
  "example_component = JObject [(''componentId'', JString ''db''), (''image'', JString ''b@sha256:2''),
     (''secrets'', JArray [JString ''key''])]"

definition example_profile :: json where
  "example_profile = JObject [(''components'', JArray [example_component]),
     (''profileId'', JString ''web''), (''profileVersion'', JString ''1'')]"

definition example_lib :: planner_lib where
  "example_lib = \<lparr> pl_parse = (\<lambda>s. Inr (if s = ''profile'' then example_profile else example_desired)),
     pl_esc = quote_escape, pl_sha = zero_sha, pl_profile_violation = (\<lambda>_. None), pl_desired_violation = (\<lambda>_. None),
     pl_upgrade_policy = (\<lambda>_. Inl []), pl_rollback_policy = (\<lambda>_. Inl []) \<rparr>"

definition example_head :: plan_head where
  "example_head = \<lparr> ph_desired = example_desired, ph_clean = example_clean, ph_claimed = zero_digest,
     ph_state = ''STOPPED'', ph_deployment = ''shop'', ph_generation = 3, ph_profile = example_profile,
     ph_profile_id = ''web'', ph_profile_version = ''1'', ph_profile_digest = zero_digest,
     ph_components = [example_component], ph_entries = [(''db'', [])] \<rparr>"

definition example_planned :: planned_component where
  "example_planned = \<lparr> pc_component_id = ''db'', pc_runtime_instance_id = ''actium-'' @ replicate 32 (CHR ''0''),
     pc_image = ''b@sha256:2'', pc_command = [], pc_args = [], pc_env = [],
     pc_secret_mounts = [\<lparr> sm_secret_id = ''key'', sm_purpose = ''db'', sm_mount_path = ''/run/secrets/key'',
       sm_injection_mode = ''TMPFS_FILE'', sm_secret_generation = 3 \<rparr>],
     pc_volume_mounts = [], pc_network_mode = ''actium-product-web'', pc_port_mappings = [],
     pc_depends_on = [], pc_health_check = None \<rparr>"

lemma zero_canonical:
  "canonical_digest_for_value esc zero_sha v = res_bind (semantic_normalize v) (\<lambda>_. Inr zero_digest)"
  by (simp add: canonical_digest_for_value_def sha256_hex_def zero_sha_def zero_digest_def)

lemma zero_ids:
  "deterministic_runtime_instance_id esc zero_sha d g c = ''actium-'' @ replicate 32 (CHR ''0'')"
  "deterministic_compose_project_id esc zero_sha d g = ''actium-'' @ replicate 32 (CHR ''0'')"
proof -
  have "take 32 (drop 7 (domain_separated_hash zero_sha d p)) = replicate 32 (CHR ''0'')" for d p
    unfolding domain_separated_hash_def zero_sha_def by code_simp
  then show "deterministic_runtime_instance_id esc zero_sha d g c = ''actium-'' @ replicate 32 (CHR ''0'')"
    "deterministic_compose_project_id esc zero_sha d g = ''actium-'' @ replicate 32 (CHR ''0'')"
    by (simp_all add: deterministic_runtime_instance_id_def deterministic_compose_project_id_def Let_def)
qed

lemma example_reads:
  "constant_time_digest_eq zero_digest zero_digest = Inr True"
  "semantic_normalize example_profile = Inr example_profile"
  "semantic_normalize example_clean = Inr example_clean"
  "clean_desired example_desired = example_clean"
  "get_str ''schema'' example_profile = None" "get_str ''schema'' example_clean = None"
  "get_str ''desiredDigest'' example_desired = Some zero_digest"
  "get_str ''desiredState'' example_desired = Some ''STOPPED''"
  "get_str ''deploymentId'' example_desired = Some ''shop''"
  "get_u64 ''generation'' example_desired = Some 3"
  "get_str ''profileId'' example_profile = Some ''web''"
  "get_str ''profileVersion'' example_profile = Some ''1''"
  "get_arr ''components'' example_profile = Some [example_component]"
  "res_map harden_component [example_component] = Inr [()]"
  "res_map component_entry [example_component] = Inr [(''db'', [])]"
  by code_simp+

lemma example_plan_head:
  assumes "j \<noteq> ''profile''"
  shows "plan_head example_lib j ''profile'' = Inr example_head"
proof -
  have "verify_desired_digest example_lib zero_digest example_desired = Inr example_clean"
    by (simp add: verify_desired_digest_def example_reads zero_canonical example_lib_def
        try_alternative_def digest_matches_def Let_def)
  then show ?thesis
    unfolding plan_head_def example_head_def
    by (simp add: assms example_lib_def example_reads zero_canonical ensure_def require_def Let_def
        del: res_map.simps)
qed

lemma example_component_parts:
  "plan_secrets example_profile [example_component] (desired_secret_refs example_clean example_desired 3)
     ''db'' example_component = Inr (pc_secret_mounts example_planned)"
  "get_str ''componentId'' example_component = Some ''db''"
  "get_str ''siteId'' example_desired = None" "get_str ''siteId'' example_profile = None"
  "get_str ''productId'' example_desired = None" "get_str ''productId'' example_profile = None"
  "sanitize_yaml_key ''default-site'' = Inr ''default-site''" "sanitize_yaml_key ''web'' = Inr ''web''"
  "sanitize_yaml_key ''shop'' = Inr ''shop''"
  "plan_network_mode (raw_network example_component) ''default-site'' ''web'' ''shop'' = Inr ''actium-product-web''"
  "plan_health_check ''db'' example_component = Inr None"
  "plan_volumes ''shop'' example_component = Inr []"
  "planned_image example_component = ''b@sha256:2''"
  "opt_strings (get_arr ''command'' example_component) = []"
  "opt_strings (get_arr ''args'' example_component) = []"
  "planned_env example_component = []"
  "plan_ports example_profile example_component = []"
  "declared_dependencies example_component = []"
  "plan_readiness [''db''] example_profile = Inr None"
  "get_str ''runtimeKind'' example_profile = None"
  "component_routes ''shop'' example_planned = []"
  by code_simp+

lemma example_plan_component: "plan_component example_lib example_head example_component = Inr example_planned"
  unfolding plan_component_def Let_def
  by (simp add: example_head_def example_lib_def zero_ids example_component_parts)
    (simp add: example_planned_def)

lemma example_policies:
  "policy_of f ''upgradePolicy'' a example_profile = Inr a"
  "policy_of g ''rollbackPolicy'' b example_profile = Inr b"
  by (simp_all add: example_profile_def json_get_def policy_of_def)

lemma example_order: "execution_order [(''db'', [])] = Some [''db'']"
  by (simp add: execution_order_def build_graph_def add_component_def adj_entry_def deg_entry_def kahn.simps)

lemma example_component_normal:
  "normalize_member ''components'' (JArray [component_json example_planned]) = Inr (JArray [component_json example_planned])"
  by code_simp

lemma example_plan_normal:
  "\<exists>v. semantic_normalize (JObject [(''schema'', JString a), (''deploymentId'', JString b),
     (''generation'', json_nat_word c), (''desiredState'', JString d), (''profileId'', JString e),
     (''profileVersion'', JString f), (''profileDigest'', JString g), (''desiredDigest'', JString h),
     (''hostCapabilitiesDigest'', JString i), (''composeProjectId'', JString j), (''runtimeKind'', JString k),
     (''upgradePolicy'', upgrade_policy_json u), (''rollbackPolicy'', rollback_policy_json r),
     (''executionOrder'', json_strings [''db'']),
     (''components'', JArray [component_json example_planned])]) = Inr v"
  unfolding normalize_object_ok
  by (simp add: example_component_normal del: semantic_normalize.simps normalize_member.simps)
    (simp add: special_member_def keyed_member_def upgrade_policy_json_def rollback_policy_json_def
      json_strings_def json_nat_word_def arrange_member_def reject_duplicates_def some_values_def as_str_def)

definition example_plan :: "string \<Rightarrow> string option \<Rightarrow> u64 option \<Rightarrow> workload_plan" where
  "example_plan caps v t = \<lparr> wp_schema = canonical_workload_plan_schema, wp_deployment_id = ''shop'',
     wp_generation = 3, wp_desired_state = ''STOPPED'', wp_profile_id = ''web'', wp_profile_version = ''1'',
     wp_profile_digest = zero_digest, wp_desired_digest = zero_digest, wp_host_capabilities_digest = caps,
     wp_compose_project_id = ''actium-'' @ replicate 32 (CHR ''0''), wp_runtime_kind = ''OCI_COMPOSE'',
     wp_upgrade_policy = default_upgrade_policy, wp_rollback_policy = default_rollback_policy,
     wp_execution_order = [''db''], wp_components = [example_planned], wp_plan_digest = zero_digest,
     wp_readiness_checks = None, wp_ingress_routes = None, wp_planner_version = v, wp_planned_at = t \<rparr>"

lemma example_accepted:
  assumes "j \<noteq> ''profile''"
  shows "plan_workload example_lib j ''profile'' caps v t = Some (Inr (example_plan caps v t))"
proof -
  have d: "canonical_digest_for_value e zero_sha (plan_json (example_plan caps v t\<lparr>wp_plan_digest := []\<rparr>)) = Inr zero_digest" for e
    using example_plan_normal
    unfolding plan_json_def example_plan_def zero_canonical
    by (fastforce simp: result_simps simp del: semantic_normalize.simps normalize_member.simps)
  show ?thesis
    unfolding plan_workload_def plan_tail_def Let_def example_plan_head [OF assms]
    by (simp add: example_order example_head_def example_component_parts ensure_def
        example_plan_component [unfolded example_head_def] example_policies)
      (use d in \<open>simp add: example_lib_def zero_ids example_plan_def\<close>)
qed

text \<open>A digest that tells texts with a \<open>desiredState\<close> from texts without.\<close>

definition legacy_lib :: planner_lib where
  "legacy_lib = example_lib\<lparr> pl_sha := (\<lambda>t. replicate 32 (if str_contains t ''desiredState'' then CHR 0x01 else CHR 0x02)) \<rparr>"

definition example_target :: "(string \<times> json) list" where
  "example_target = [(''targetState'', JString ''ACTIVE'')]"

definition example_running :: json where
  "example_running = JObject [(''desiredState'', JString ''RUNNING''), (''targetState'', JString ''ACTIVE'')]"

lemma example_legacy_parts:
  "clean_desired (with_state ''RUNNING'' example_target) = example_running"
  "legacy_desired example_running = JObject example_target"
  "remove_members [''siteId'', ''productId''] example_running = example_running"
  "str_contains (rfc8785_canonical_json quote_escape example_running) ''desiredState''"
  "\<not> str_contains (rfc8785_canonical_json quote_escape (JObject example_target)) ''desiredState''"
  "semantic_normalize (JObject example_target) = Inr (JObject example_target)"
  "semantic_normalize example_running = Inr example_running"
  "constant_time_digest_eq (format_sha256_hex (replicate 32 (CHR 0x02)))
     (format_sha256_hex (replicate 32 (CHR 0x02))) = Inr True"
  "constant_time_digest_eq (format_sha256_hex (replicate 32 (CHR 0x02)))
     (format_sha256_hex (replicate 32 (CHR 0x01))) = Inr False"
  by code_simp+

lemma example_legacy_accepted:
  "verify_desired_digest legacy_lib (format_sha256_hex (replicate 32 (CHR 0x02))) (with_state ''RUNNING'' example_target)
   = Inr (legacy_desired (clean_desired (with_state ''RUNNING'' example_target)))"
  by (simp add: verify_desired_digest_def example_legacy_parts legacy_lib_def example_lib_def try_alternative_def
      digest_matches_def canonical_digest_for_value_def sha256_hex_def Let_def
      del: semantic_normalize.simps rfc8785_canonical_json.simps str_contains.simps)

section \<open>Properties\<close>

text \<open>
  Planning always returns, with a plan or an error: in particular the sorting loop ends on every
  profile that reaches it, because the digest of the profile has refused repeated components.
\<close>

theorem planning_returns:
  "\<exists>r. plan_workload lib desired_json profile_json host_caps version planned_at = Some r"
  using execution_order_returns [OF plan_head_distinct]
  by (fastforce simp: plan_workload_def split: sum.split)



text \<open>
  The version of the planner and the time of planning are recorded in the plan but enter neither
  its digest nor any decision: planning again with other values gives the same outcome, with the
  same digest, up to these two fields.
\<close>

theorem planning_ignores_metadata:
  "plan_workload lib desired_json profile_json host_caps version' planned_at'
   = map_option (map_sum (\<lambda>e. e) (\<lambda>w. w\<lparr> wp_planner_version := version', wp_planned_at := planned_at' \<rparr>))
       (plan_workload lib desired_json profile_json host_caps version planned_at)"
proof -
  have "plan_tail lib host_caps version' planned_at' h order
      = map_sum (\<lambda>e. e) (\<lambda>w. w\<lparr> wp_planner_version := version', wp_planned_at := planned_at' \<rparr>)
          (plan_tail lib host_caps version planned_at h order)" for h order
    by (simp add: plan_tail_def Let_def res_bind_def plan_json_def split: sum.split)
  then show ?thesis by (simp add: plan_workload_def split: sum.split option.split)
qed

text \<open>
  The host-path check compares text: it refuses every forbidden location, and accepts the same
  location written with a second leading slash, which names the same directory on the host. The
  root directory written \<open>//\<close> is accepted as well.
\<close>

theorem host_path_double_slash_accepted:
  "list_all (\<lambda>f. validate_host_path f \<noteq> Inr () \<and> validate_host_path (CHR ''/'' # f) = Inr ()) forbidden_prefixes
   \<and> validate_host_path ''/'' \<noteq> Inr () \<and> validate_host_path ''//'' = Inr ()"
  by code_simp

text \<open>
  In the legacy form of the digest the member \<open>desiredState\<close> is not covered when a \<open>targetState\<close>
  is present: once a document is accepted in that form, the same document with any other
  \<open>desiredState\<close> is accepted under the same claimed digest, although \<open>plan\<close> takes the state to
  drive to from that member.
\<close>

theorem legacy_digest_omits_desired_state:
  assumes "json_get ''targetState'' (JObject kvs) \<noteq> None"
    and "verify_desired_digest lib claimed (with_state s kvs)
      = Inr (legacy_desired (clean_desired (with_state s kvs)))"
  shows "\<exists>clean. verify_desired_digest lib claimed (with_state s' kvs) = Inr clean"
proof -
  obtain d where d: "canonical_digest_for_value (pl_esc lib) (pl_sha lib)
      (legacy_desired (clean_desired (with_state s' kvs))) = Inr d" "digest_matches claimed d"
    using verify_desired_digestD(1) [OF assms(2)] unfolding legacy_of_with_state [OF assms(1)] by blast
  obtain d0 where "canonical_digest_for_value (pl_esc lib) (pl_sha lib) (clean_desired (with_state s' kvs)) = Inr d0"
    using clean_with_state_digest [OF assms(1) verify_desired_digestD(2) [OF assms(2)]] by blast
  then show ?thesis using d by (rule legacy_form_accepted)
qed

theorem legacy_digest_omits_desired_state_witness:
  "\<exists>clean. verify_desired_digest legacy_lib (format_sha256_hex (replicate 32 (CHR 0x02)))
     (with_state ''STOPPED'' example_target) = Inr clean"
  by (rule legacy_digest_omits_desired_state [OF _ example_legacy_accepted])
    (simp add: example_target_def json_get_def)

end
