(* ===== verification/Workload_Store.thy ===== *)
theory Workload_Store
  imports Workload_Error
begin

text \<open>
  The durable store of the workload runtime, \<open>WorkloadStateStore\<close> of
  \<^verbatim>\<open>actium-node-core/src/workload_runtime/state.rs\<close>: operations, deployments, nonces,
  snapshots, receipts and the journal, each a table given by its rows in insertion order.

  SQLite is outside the model except for what the schema declares: primary keys, the partial
  unique index on active operations, the \<open>CHECK\<close> constraints, and that a transaction is applied
  whole or not at all. Its error texts are the parameter \<open>sw_text\<close>, and \<open>sw_fault\<close> says which of
  the calls of one operation fail for reasons of their own (a full disk, a locked file). The
  mutex around the connection makes every operation one step.
\<close>

section \<open>Interfaces\<close>

text \<open>A sequence of requests, each answered on the state the one before has left.\<close>

fun run_requests :: "('q \<Rightarrow> 's \<Rightarrow> 's \<times> 'r) \<Rightarrow> 'q list \<Rightarrow> 's \<Rightarrow> ('q \<times> 'r) list" where
  "run_requests consume [] s = []"
| "run_requests consume (q # qs) s = (case consume q s of (s', r) \<Rightarrow>
     (q, r) # run_requests consume qs s')"

text \<open>
  What a table with a primary key promises: a put row is found under its key, other keys are
  left alone, and keys stay unique.
\<close>

locale keyed_table =
  fixes key :: "'r \<Rightarrow> 'k"
    and put :: "'r \<Rightarrow> 'r list \<Rightarrow> 'r list"
  assumes find_put: "find (\<lambda>r. key r = k) (put row rows)
      = (if k = key row then Some row else find (\<lambda>r. key r = k) rows)"
    and put_distinct: "distinct (map key rows) \<Longrightarrow> distinct (map key (put row rows))"
begin

lemma put_again: "find (\<lambda>r. key r = k) (put row (put row rows)) = find (\<lambda>r. key r = k) (put row rows)"
  by (simp add: find_put)

lemma put_commute:
  "key a \<noteq> key b \<Longrightarrow>
   find (\<lambda>r. key r = k) (put a (put b rows)) = find (\<lambda>r. key r = k) (put b (put a rows))"
  by (simp add: find_put)

text \<open>The last row written under a key is the one that is read.\<close>

lemma find_fold_put:
  "find (\<lambda>r. key r = k) (fold put new rows)
   = (case find (\<lambda>r. key r = k) (rev new) of Some r \<Rightarrow> Some r | None \<Rightarrow> find (\<lambda>r. key r = k) rows)"
proof (induction new arbitrary: rows)
  case (Cons a new)
  show ?case using Cons.IH [of "put a rows"]
    by (simp add: find_append find_put split: option.splits)
qed simp

lemma fold_put_distinct: "distinct (map key rows) \<Longrightarrow> distinct (map key (fold put new rows))"
  by (induction new arbitrary: rows) (simp_all add: put_distinct)

end

text \<open>
  What a ledger of single-use keys promises: a fresh acceptance records the digest of the
  request, a replay was recorded with the same digest, and what is recorded stays.
\<close>

locale once_ledger =
  fixes consume :: "'q \<Rightarrow> 's \<Rightarrow> 's \<times> 'r"
    and fresh replay :: "'r \<Rightarrow> bool"
    and seen :: "'n \<Rightarrow> 's \<Rightarrow> 'd option"
    and nonce :: "'q \<Rightarrow> 'n" and digest :: "'q \<Rightarrow> 'd"
  assumes consume_fresh: "consume q s = (s', r) \<Longrightarrow> fresh r \<Longrightarrow>
      seen (nonce q) s = None \<and> seen (nonce q) s' = Some (digest q)"
    and consume_replay: "consume q s = (s', r) \<Longrightarrow> replay r \<Longrightarrow> seen (nonce q) s = Some (digest q)"
    and consume_keeps: "consume q s = (s', r) \<Longrightarrow> seen n s = Some d \<Longrightarrow> seen n s' = Some d"
begin

lemma recorded_requests:
  "seen n s = Some d \<Longrightarrow> (q, r) \<in> set (run_requests consume qs s) \<Longrightarrow> nonce q = n \<Longrightarrow>
   \<not> fresh r \<and> (replay r \<longrightarrow> digest q = d)"
proof (induction qs arbitrary: s)
  case (Cons a qs)
  obtain s' r' where a: "consume a s = (s', r')" by (cases "consume a s")
  have "seen n s' = Some d" by (rule consume_keeps [OF a Cons.prems(1)])
  then show ?case using Cons.IH [of s'] Cons.prems a consume_fresh [OF a] consume_replay [OF a]
    by auto
qed simp

text \<open>Whatever is asked in whatever order, one key is accepted as fresh at most once.\<close>

lemma fresh_at_most_once:
  "length (filter (\<lambda>(q, r). nonce q = n \<and> fresh r) (run_requests consume qs s)) \<le> 1"
proof (induction qs arbitrary: s)
  case (Cons a qs)
  obtain s' r' where a: "consume a s = (s', r')" by (cases "consume a s")
  show ?case
  proof (cases "nonce a = n \<and> fresh r'")
    case True
    then have "seen n s' = Some (digest a)" using consume_fresh [OF a] by simp
    then have "filter (\<lambda>(q, r). nonce q = n \<and> fresh r) (run_requests consume qs s') = []"
      using recorded_requests by (fastforce simp: filter_empty_conv)
    then show ?thesis using a True by simp
  next
    case False
    then show ?thesis using a Cons.IH [of s'] by auto
  qed
qed simp

lemma accepted_same_digest:
  "(q, r) \<in> set (run_requests consume qs s) \<Longrightarrow> (q', r') \<in> set (run_requests consume qs s) \<Longrightarrow>
   nonce q = nonce q' \<Longrightarrow> fresh r \<or> replay r \<Longrightarrow> fresh r' \<or> replay r' \<Longrightarrow> digest q = digest q'"
proof (induction qs arbitrary: s)
  case (Cons a qs)
  obtain s' ra where a: "consume a s = (s', ra)" by (cases "consume a s")
  have head: "digest b = digest a"
    if "fresh ra \<or> replay ra" "(b, rb) \<in> set (run_requests consume qs s')" "nonce b = nonce a"
      "fresh rb \<or> replay rb" for b rb
  proof -
    have "seen (nonce a) s' = Some (digest a)"
      using that(1) consume_fresh [OF a] consume_replay [OF a] consume_keeps [OF a] by blast
    from recorded_requests [OF this that(2,3)] that(4) show ?thesis by blast
  qed
  from Cons.prems(1,2) a have "(q, r) = (a, ra) \<or> (q, r) \<in> set (run_requests consume qs s')"
    "(q', r') = (a, ra) \<or> (q', r') \<in> set (run_requests consume qs s')" by auto
  then show ?case using Cons.IH [of s'] Cons.prems(3-5) head [of q r] head [of q' r'] by auto
qed simp

end

section \<open>Tables\<close>

datatype sql_error = IntegerOutOfRange | UniqueViolation | CheckViolation | SqlFault string

record sql_world =
  sw_text :: "sql_error \<Rightarrow> string"
  sw_fault :: "nat \<Rightarrow> sql_error option"

record operation_row =
  op_operation_id :: string
  op_deployment_id :: string
  op_target_generation :: u64
  op_desired_digest :: string
  op_plan_digest :: string
  op_state :: string
  op_started_at :: u64
  op_completed_at :: "u64 option"

record deployment_record =
  dr_deployment_id :: string
  dr_active_generation :: u64
  dr_target_generation :: u64
  dr_profile_id :: string
  dr_profile_version :: string
  dr_desired_digest :: string
  dr_plan_digest :: string
  dr_status :: string
  dr_updated_at :: u64

record journal_entry =
  je_deployment_id :: string
  je_generation :: u64
  je_phase :: string
  je_detail :: string
  je_created_at :: u64

record receipt_row =
  rx_receipt_id :: string
  rx_deployment_id :: string
  rx_generation :: u64
  rx_plan_digest :: string
  rx_overall_status :: string
  rx_receipt_json :: string
  rx_signature :: string
  rx_created_at :: u64

record nonce_row =
  nr_nonce :: string
  nr_deployment_id :: string
  nr_generation :: u64
  nr_envelope_digest :: string
  nr_consumed_at :: u64

record snapshot_row =
  sr_snapshot_id :: string
  sr_deployment_id :: string
  sr_generation :: u64
  sr_volume_id :: string
  sr_snapshot_path :: string
  sr_captured_at :: u64
  sr_is_durable :: bool

record workload_db =
  db_operations :: "operation_row list"
  db_deployments :: "deployment_record list"
  db_journal :: "journal_entry list"
  db_receipts :: "receipt_row list"
  db_nonces :: "nonce_row list"
  db_snapshots :: "snapshot_row list"

definition empty_db :: workload_db where
  "empty_db = \<lparr>db_operations = [], db_deployments = [], db_journal = [], db_receipts = [],
     db_nonces = [], db_snapshots = []\<rparr>"

section \<open>Statements\<close>

text \<open>
  A call of the database: a fault of its own, or the outcome of the statement; \<open>pre\<close> is the text
  the code puts in front. \<open>sql_int\<close> is the conversion of a \<open>u64\<close> parameter, which fails beyond
  \<open>i64::MAX\<close>.
\<close>

definition sql_call :: "sql_world \<Rightarrow> nat \<Rightarrow> string \<Rightarrow> sql_error + 'a \<Rightarrow> workload_error + 'a" where
  "sql_call w n pre r = (case sw_fault w n of
     Some e \<Rightarrow> Inl (DatabaseError (pre @ sw_text w e))
   | None \<Rightarrow> (case r of Inl e \<Rightarrow> Inl (DatabaseError (pre @ sw_text w e)) | Inr x \<Rightarrow> Inr x))"

definition sql_int :: "u64 \<Rightarrow> sql_error + u64" where
  "sql_int n = (if unat n < 2 ^ 63 then Inr n else Inl IntegerOutOfRange)"

definition sql_ints :: "u64 list \<Rightarrow> sql_error + unit" where
  "sql_ints ns = res_bind (res_map sql_int ns) (\<lambda>_. Inr ())"

definition active_op_state :: "string \<Rightarrow> bool" where
  "active_op_state s = (s \<in> {''RESERVED'', ''STARTING''})"

definition valid_op_state :: "string \<Rightarrow> bool" where
  "valid_op_state s = (s \<in> {''RESERVED'', ''STARTING'', ''COMPLETED'', ''FAILED'', ''ROLLED_BACK''})"

definition valid_deployment_status :: "string \<Rightarrow> bool" where
  "valid_deployment_status s =
     (s \<in> {''PENDING'', ''ACTIVE'', ''DEGRADED'', ''FAILED'', ''STOPPED''})"

definition active_row :: "string \<Rightarrow> operation_row \<Rightarrow> bool" where
  "active_row dep r = (op_deployment_id r = dep \<and> active_op_state (op_state r))"

text \<open>Inserting and updating operations under the schema.\<close>

definition insert_operation :: "operation_row \<Rightarrow> workload_db \<Rightarrow> sql_error + workload_db" where
  "insert_operation row db =
     (if \<not> valid_op_state (op_state row) then Inl CheckViolation
      else if list_ex (\<lambda>r. op_operation_id r = op_operation_id row) (db_operations db)
      then Inl UniqueViolation
      else if active_op_state (op_state row)
           \<and> list_ex (active_row (op_deployment_id row)) (db_operations db)
      then Inl UniqueViolation
      else Inr (db\<lparr>db_operations := db_operations db @ [row]\<rparr>))"

definition set_operation :: "string \<Rightarrow> u64 option \<Rightarrow> operation_row \<Rightarrow> operation_row" where
  "set_operation new_state completed r = r\<lparr>op_state := new_state, op_completed_at := completed\<rparr>"

definition update_operations ::
  "string \<Rightarrow> string \<Rightarrow> u64 option \<Rightarrow> workload_db \<Rightarrow> sql_error + workload_db" where
  "update_operations operation_id new_state completed db =
     (case find (\<lambda>r. op_operation_id r = operation_id) (db_operations db) of
        None \<Rightarrow> Inr db
      | Some row \<Rightarrow>
          if \<not> valid_op_state new_state then Inl CheckViolation
          else if active_op_state new_state
               \<and> list_ex (\<lambda>r. op_operation_id r \<noteq> operation_id \<and> active_row (op_deployment_id row) r)
                   (db_operations db)
          then Inl UniqueViolation
          else Inr (db\<lparr>db_operations := update_first (\<lambda>r. op_operation_id r = operation_id)
                 (set_operation new_state completed) (db_operations db)\<rparr>))"

text \<open>\<open>INSERT .. ON CONFLICT(deployment_id) DO UPDATE\<close>: in place, or a new row.\<close>

definition put_deployment :: "deployment_record \<Rightarrow> deployment_record list \<Rightarrow> deployment_record list" where
  "put_deployment row rows =
     (if list_ex (\<lambda>r. dr_deployment_id r = dr_deployment_id row) rows
      then update_first (\<lambda>r. dr_deployment_id r = dr_deployment_id row) (\<lambda>_. row) rows
      else rows @ [row])"

definition upsert_row :: "deployment_record \<Rightarrow> workload_db \<Rightarrow> sql_error + workload_db" where
  "upsert_row row db =
     (if \<not> valid_deployment_status (dr_status row) then Inl CheckViolation
      else Inr (db\<lparr>db_deployments := put_deployment row (db_deployments db)\<rparr>))"

text \<open>\<open>INSERT OR REPLACE\<close>: the row with the same key is deleted first.\<close>

definition put_receipt :: "receipt_row \<Rightarrow> receipt_row list \<Rightarrow> receipt_row list" where
  "put_receipt row rows = filter (\<lambda>r. rx_receipt_id r \<noteq> rx_receipt_id row) rows @ [row]"

definition put_snapshot :: "snapshot_row \<Rightarrow> snapshot_row list \<Rightarrow> snapshot_row list" where
  "put_snapshot row rows = filter (\<lambda>r. sr_snapshot_id r \<noteq> sr_snapshot_id row) rows @ [row]"

text \<open>A transaction: the statements in order, then the commit; any error leaves the tables alone.\<close>

fun run_statements ::
  "sql_world \<Rightarrow> nat \<Rightarrow> (workload_db \<Rightarrow> sql_error + workload_db) list \<Rightarrow> workload_db
     \<Rightarrow> workload_error + workload_db" where
  "run_statements w n [] db = Inr db"
| "run_statements w n (s # ss) db =
     res_bind (sql_call w n [] (s db)) (\<lambda>db'. run_statements w (Suc n) ss db')"

definition run_tx ::
  "sql_world \<Rightarrow> string \<Rightarrow> string \<Rightarrow> (workload_db \<Rightarrow> sql_error + workload_db) list \<Rightarrow> workload_db
     \<Rightarrow> workload_db \<times> (workload_error + unit)" where
  "run_tx w begin_text commit_text stmts db =
     (case res_bind (sql_call w 0 begin_text (Inr ())) (\<lambda>_.
           res_bind (run_statements w 1 stmts db) (\<lambda>db'.
           sql_call w (Suc (length stmts)) commit_text (Inr db'))) of
        Inl e \<Rightarrow> (db, Inl e)
      | Inr db' \<Rightarrow> (db', Inr ()))"

section \<open>Operations of the store\<close>

datatype reservation_result = Reserved string | AttachedIdempotent string

definition reserve_operation ::
  "sql_world \<Rightarrow> string \<Rightarrow> string \<Rightarrow> u64 \<Rightarrow> string \<Rightarrow> string \<Rightarrow> u64 \<Rightarrow> workload_db
     \<Rightarrow> workload_db \<times> (workload_error + reservation_result)" where
  "reserve_operation w operation_id deployment_id target_generation desired_digest plan_digest now db =
     (case res_bind (sql_call w 0 ''Failed to begin immediate TX: '' (Inr ())) (\<lambda>_.
           res_bind (sql_call w 1 [] (Inr ())) (\<lambda>_.
           sql_call w 2 [] (Inr (find (active_row deployment_id) (db_operations db))))) of
        Inl e \<Rightarrow> (db, Inl e)
      | Inr (Some a) \<Rightarrow>
          if op_target_generation a = target_generation \<and> op_desired_digest a = desired_digest
             \<and> op_plan_digest a = plan_digest
          then (db, res_bind (sql_call w 3 ''Failed to commit attach TX: '' (Inr ()))
                 (\<lambda>_. Inr (AttachedIdempotent (op_operation_id a))))
          else (db, Inl (ActiveOperationConflict deployment_id (op_operation_id a)
            (''Active op '' @ quoted (op_operation_id a) @ '' in progress (gen ''
              @ show_word (op_target_generation a) @ '', desired '' @ quoted (op_desired_digest a)
              @ '', plan '' @ quoted (op_plan_digest a) @ ''); incoming request has (gen ''
              @ show_word target_generation @ '', desired '' @ quoted desired_digest @ '', plan ''
              @ quoted plan_digest @ '')'')))
      | Inr None \<Rightarrow>
          (case res_bind (sql_call w 3 ''Failed to insert operation reservation: ''
                  (res_bind (sql_ints [target_generation, now]) (\<lambda>_. insert_operation
                    \<lparr>op_operation_id = operation_id, op_deployment_id = deployment_id,
                     op_target_generation = target_generation, op_desired_digest = desired_digest,
                     op_plan_digest = plan_digest, op_state = ''RESERVED'', op_started_at = now,
                     op_completed_at = None\<rparr> db))) (\<lambda>db'.
                sql_call w 4 ''Failed to commit reservation TX: '' (Inr db')) of
             Inl e \<Rightarrow> (db, Inl e)
           | Inr db' \<Rightarrow> (db', Inr (Reserved operation_id))))"

definition exec_stmt ::
  "sql_world \<Rightarrow> nat \<Rightarrow> string \<Rightarrow> (workload_db \<Rightarrow> sql_error + workload_db) \<Rightarrow> workload_db
     \<Rightarrow> workload_db \<times> (workload_error + unit)" where
  "exec_stmt w n pre stmt db = (case sql_call w n pre (stmt db) of
     Inl e \<Rightarrow> (db, Inl e) | Inr db' \<Rightarrow> (db', Inr ()))"

definition opt_ints :: "u64 option \<Rightarrow> u64 list" where
  "opt_ints x = (case x of None \<Rightarrow> [] | Some n \<Rightarrow> [n])"

definition update_operation_state ::
  "sql_world \<Rightarrow> string \<Rightarrow> string \<Rightarrow> u64 option \<Rightarrow> workload_db \<Rightarrow> workload_db \<times> (workload_error + unit)" where
  "update_operation_state w operation_id new_state completed_at =
     exec_stmt w 0 ''Failed to update operation state: ''
       (\<lambda>db. res_bind (sql_ints (opt_ints completed_at)) (\<lambda>_.
          update_operations operation_id new_state completed_at db))"

definition find_deployment :: "string \<Rightarrow> workload_db \<Rightarrow> deployment_record option" where
  "find_deployment deployment_id db =
     find (\<lambda>r. dr_deployment_id r = deployment_id) (db_deployments db)"

definition query2 :: "sql_world \<Rightarrow> 'a \<Rightarrow> workload_error + 'a" where
  "query2 w x = res_bind (sql_call w 0 [] (Inr ())) (\<lambda>_. sql_call w 1 [] (Inr x))"

definition check_generation_monotonicity ::
  "sql_world \<Rightarrow> string \<Rightarrow> u64 \<Rightarrow> string \<Rightarrow> workload_db \<Rightarrow> workload_error + unit" where
  "check_generation_monotonicity w deployment_id target_generation desired_digest db =
     res_bind (query2 w (find_deployment deployment_id db)) (\<lambda>existing.
       case existing of None \<Rightarrow> Inr ()
       | Some r \<Rightarrow>
          if target_generation < dr_target_generation r
          then Inl (GenerationRegression deployment_id target_generation (dr_target_generation r))
          else if target_generation = dr_target_generation r \<and> dr_desired_digest r \<noteq> desired_digest
          then Inl (GenerationDigestConflict deployment_id target_generation (dr_desired_digest r) desired_digest)
          else Inr ())"

definition find_nonce :: "string \<Rightarrow> workload_db \<Rightarrow> nonce_row option" where
  "find_nonce nonce db = find (\<lambda>r. nr_nonce r = nonce) (db_nonces db)"

definition insert_nonce :: "nonce_row \<Rightarrow> workload_db \<Rightarrow> sql_error + workload_db" where
  "insert_nonce row db =
     (if find_nonce (nr_nonce row) db \<noteq> None then Inl UniqueViolation
      else Inr (db\<lparr>db_nonces := db_nonces db @ [row]\<rparr>))"

definition consume_or_replay_nonce ::
  "sql_world \<Rightarrow> string \<Rightarrow> string \<Rightarrow> u64 \<Rightarrow> string \<Rightarrow> u64 \<Rightarrow> workload_db
     \<Rightarrow> workload_db \<times> (workload_error + bool)" where
  "consume_or_replay_nonce w nonce deployment_id generation envelope_digest now db =
     (case query2 w (map_option nr_envelope_digest (find_nonce nonce db)) of
        Inl e \<Rightarrow> (db, Inl e)
      | Inr (Some existing) \<Rightarrow>
          if existing = envelope_digest then (db, Inr True)
          else (db, Inl (NonceReplay (''Nonce '' @ quoted nonce
            @ '' reused with different digest: existing '' @ quoted existing @ '', new ''
            @ quoted envelope_digest)))
      | Inr None \<Rightarrow>
          (case exec_stmt w 2 ''Failed to record nonce: ''
               (\<lambda>db. res_bind (sql_ints [generation, now]) (\<lambda>_. insert_nonce
                 \<lparr>nr_nonce = nonce, nr_deployment_id = deployment_id, nr_generation = generation,
                  nr_envelope_digest = envelope_digest, nr_consumed_at = now\<rparr> db)) db of
             (db', Inl e) \<Rightarrow> (db', Inl e)
           | (db', Inr _) \<Rightarrow> (db', Inr False)))"

definition consume_nonce ::
  "sql_world \<Rightarrow> string \<Rightarrow> string \<Rightarrow> u64 \<Rightarrow> u64 \<Rightarrow> workload_db \<Rightarrow> workload_db \<times> (workload_error + unit)" where
  "consume_nonce w nonce deployment_id generation now db =
     (case consume_or_replay_nonce w nonce deployment_id generation ''sha256:legacy_single_use'' now db of
        (db', Inl e) \<Rightarrow> (db', Inl e)
      | (db', Inr is_replay) \<Rightarrow> (db', if is_replay then Inl (NonceReplay nonce) else Inr ()))"

definition record_snapshot ::
  "sql_world \<Rightarrow> string \<Rightarrow> string \<Rightarrow> u64 \<Rightarrow> string \<Rightarrow> string \<Rightarrow> u64 \<Rightarrow> bool \<Rightarrow> workload_db
     \<Rightarrow> workload_db \<times> (workload_error + unit)" where
  "record_snapshot w snapshot_id deployment_id generation volume_id snapshot_path now is_durable =
     exec_stmt w 0 ''Failed to record snapshot: ''
       (\<lambda>db. res_bind (sql_ints [generation, now]) (\<lambda>_. Inr (db\<lparr>db_snapshots := put_snapshot
          \<lparr>sr_snapshot_id = snapshot_id, sr_deployment_id = deployment_id,
           sr_generation = generation, sr_volume_id = volume_id, sr_snapshot_path = snapshot_path,
           sr_captured_at = now, sr_is_durable = is_durable\<rparr> (db_snapshots db)\<rparr>)))"

text \<open>
  \<open>ORDER BY captured_at DESC LIMIT 1\<close>: a row with the greatest time. SQL does not say which one
  when several share it; here it is the first of them in the table.
\<close>

fun newest :: "snapshot_row list \<Rightarrow> snapshot_row option" where
  "newest [] = None"
| "newest (r # rs) = (case newest rs of
     None \<Rightarrow> Some r
   | Some m \<Rightarrow> if sr_captured_at r < sr_captured_at m then Some m else Some r)"

definition durable_of :: "string \<Rightarrow> u64 \<Rightarrow> snapshot_row \<Rightarrow> bool" where
  "durable_of deployment_id generation r =
     (sr_deployment_id r = deployment_id \<and> sr_generation r = generation \<and> sr_is_durable r)"

definition get_durable_snapshot ::
  "sql_world \<Rightarrow> string \<Rightarrow> u64 \<Rightarrow> workload_db \<Rightarrow> workload_error + string option" where
  "get_durable_snapshot w deployment_id generation db =
     res_bind (sql_call w 0 [] (Inr ())) (\<lambda>_.
     sql_call w 1 [] (res_bind (sql_ints [generation]) (\<lambda>_. Inr (map_option sr_snapshot_path
       (newest (filter (durable_of deployment_id generation) (db_snapshots db)))))))"

definition get_durable_snapshot_for_volume ::
  "sql_world \<Rightarrow> string \<Rightarrow> u64 \<Rightarrow> string \<Rightarrow> workload_db \<Rightarrow> workload_error + string option" where
  "get_durable_snapshot_for_volume w deployment_id generation volume_id db =
     res_bind (sql_call w 0 [] (Inr ())) (\<lambda>_.
     sql_call w 1 [] (res_bind (sql_ints [generation]) (\<lambda>_. Inr (map_option sr_snapshot_path
       (newest (filter (\<lambda>r. durable_of deployment_id generation r \<and> sr_volume_id r = volume_id)
         (db_snapshots db)))))))"

text \<open>\<open>ORDER BY captured_at ASC\<close> and insertion into a map: a later row overwrites.\<close>

definition get_durable_snapshots_for_generation ::
  "sql_world \<Rightarrow> string \<Rightarrow> u64 \<Rightarrow> workload_db \<Rightarrow> workload_error + (string \<rightharpoonup> string)" where
  "get_durable_snapshots_for_generation w deployment_id generation db =
     res_bind (sql_call w 0 [] (Inr ())) (\<lambda>_.
     sql_call w 1 [] (res_bind (sql_ints [generation]) (\<lambda>_. Inr
       (foldl (\<lambda>m r. m(sr_volume_id r \<mapsto> sr_snapshot_path r)) Map.empty
         (sort_key sr_captured_at (filter (durable_of deployment_id generation) (db_snapshots db)))))))"

definition save_receipt ::
  "sql_world \<Rightarrow> receipt_row \<Rightarrow> workload_db \<Rightarrow> workload_db \<times> (workload_error + unit)" where
  "save_receipt w row = exec_stmt w 0 ''Failed to save receipt: ''
     (\<lambda>db. res_bind (sql_ints [rx_generation row, rx_created_at row]) (\<lambda>_.
        Inr (db\<lparr>db_receipts := put_receipt row (db_receipts db)\<rparr>)))"

definition add_journal :: "journal_entry \<Rightarrow> workload_db \<Rightarrow> sql_error + workload_db" where
  "add_journal e db = res_bind (sql_ints [je_generation e, je_created_at e]) (\<lambda>_.
     Inr (db\<lparr>db_journal := db_journal db @ [e]\<rparr>))"

definition record_journal ::
  "sql_world \<Rightarrow> string \<Rightarrow> u64 \<Rightarrow> string \<Rightarrow> string \<Rightarrow> u64 \<Rightarrow> workload_db \<Rightarrow> workload_db \<times> (workload_error + unit)" where
  "record_journal w deployment_id generation phase detail now =
     exec_stmt w 0 ''Failed to record journal: ''
       (add_journal \<lparr>je_deployment_id = deployment_id, je_generation = generation, je_phase = phase,
          je_detail = detail, je_created_at = now\<rparr>)"

definition get_journal :: "sql_world \<Rightarrow> string \<Rightarrow> workload_db \<Rightarrow> workload_error + journal_entry list" where
  "get_journal w deployment_id db =
     query2 w (filter (\<lambda>e. je_deployment_id e = deployment_id) (db_journal db))"

definition checked_upsert :: "deployment_record \<Rightarrow> workload_db \<Rightarrow> sql_error + workload_db" where
  "checked_upsert row db =
     res_bind (sql_ints [dr_active_generation row, dr_target_generation row, dr_updated_at row])
       (\<lambda>_. upsert_row row db)"

definition upsert_deployment ::
  "sql_world \<Rightarrow> deployment_record \<Rightarrow> workload_db \<Rightarrow> workload_db \<times> (workload_error + unit)" where
  "upsert_deployment w row = exec_stmt w 0 ''Failed to upsert deployment: '' (checked_upsert row)"

definition get_deployment ::
  "sql_world \<Rightarrow> string \<Rightarrow> workload_db \<Rightarrow> workload_error + deployment_record option" where
  "get_deployment w deployment_id db = query2 w (find_deployment deployment_id db)"

text \<open>\<open>ORDER BY generation DESC, created_at DESC LIMIT 1\<close>.\<close>

fun latest_receipt :: "receipt_row list \<Rightarrow> receipt_row option" where
  "latest_receipt [] = None"
| "latest_receipt (r # rs) = (case latest_receipt rs of
     None \<Rightarrow> Some r
   | Some m \<Rightarrow> if (rx_generation r, rx_created_at r) < (rx_generation m, rx_created_at m)
       then Some m else Some r)"

definition get_latest_receipt :: "sql_world \<Rightarrow> string \<Rightarrow> workload_db \<Rightarrow> workload_error + string option" where
  "get_latest_receipt w deployment_id db = query2 w (map_option rx_receipt_json
     (latest_receipt (filter (\<lambda>r. rx_deployment_id r = deployment_id) (db_receipts db))))"

record commit_request =
  cq_op_id :: string
  cq_deployment_id :: string
  cq_generation :: u64
  cq_profile_id :: string
  cq_profile_version :: string
  cq_desired_digest :: string
  cq_plan_digest :: string
  cq_overall_status :: string
  cq_deployment_status :: string
  cq_receipt_id :: string
  cq_receipt_json :: string
  cq_receipt_signature :: string
  cq_now :: u64

definition commit_statements ::
  "commit_request \<Rightarrow> (workload_db \<Rightarrow> sql_error + workload_db) list" where
  "commit_statements q =
     [add_journal \<lparr>je_deployment_id = cq_deployment_id q, je_generation = cq_generation q,
        je_phase = cq_overall_status q,
        je_detail = ''Reconciliation converged to status '' @ cq_overall_status q,
        je_created_at = cq_now q\<rparr>,
      checked_upsert \<lparr>dr_deployment_id = cq_deployment_id q, dr_active_generation = cq_generation q,
        dr_target_generation = cq_generation q, dr_profile_id = cq_profile_id q,
        dr_profile_version = cq_profile_version q, dr_desired_digest = cq_desired_digest q,
        dr_plan_digest = cq_plan_digest q, dr_status = cq_deployment_status q,
        dr_updated_at = cq_now q\<rparr>,
      (\<lambda>db. res_bind (sql_ints [cq_generation q, cq_now q]) (\<lambda>_.
        Inr (db\<lparr>db_receipts := put_receipt
          \<lparr>rx_receipt_id = cq_receipt_id q, rx_deployment_id = cq_deployment_id q,
           rx_generation = cq_generation q, rx_plan_digest = cq_plan_digest q,
           rx_overall_status = cq_overall_status q, rx_receipt_json = cq_receipt_json q,
           rx_signature = cq_receipt_signature q, rx_created_at = cq_now q\<rparr> (db_receipts db)\<rparr>))),
      (\<lambda>db. res_bind (sql_ints [cq_now q]) (\<lambda>_.
        update_operations (cq_op_id q) ''COMPLETED'' (Some (cq_now q)) db))]"

definition commit_reconciliation_tx2 ::
  "sql_world \<Rightarrow> commit_request \<Rightarrow> workload_db \<Rightarrow> workload_db \<times> (workload_error + unit)" where
  "commit_reconciliation_tx2 w q =
     run_tx w ''Failed to begin TX2: '' ''Failed to commit TX2: '' (commit_statements q)"

definition rollback_statements ::
  "string \<Rightarrow> string \<Rightarrow> u64 \<Rightarrow> u64 \<Rightarrow> string \<Rightarrow> u64 \<Rightarrow> (workload_db \<Rightarrow> sql_error + workload_db) list" where
  "rollback_statements op_id deployment_id failed_generation lkg_generation reason now =
     [(\<lambda>db. res_bind (sql_ints [now]) (\<lambda>_. update_operations op_id ''ROLLED_BACK'' (Some now) db)),
      add_journal \<lparr>je_deployment_id = deployment_id, je_generation = failed_generation,
        je_phase = ''ROLLBACK'',
        je_detail = ''Reverted to gen '' @ show_word lkg_generation @ '': '' @ reason,
        je_created_at = now\<rparr>,
      (\<lambda>db. res_bind (sql_ints [lkg_generation, now]) (\<lambda>_.
        Inr (db\<lparr>db_deployments := update_first (\<lambda>r. dr_deployment_id r = deployment_id)
          (\<lambda>r. r\<lparr>dr_active_generation := lkg_generation, dr_target_generation := lkg_generation,
            dr_status := ''ACTIVE'', dr_updated_at := now\<rparr>) (db_deployments db)\<rparr>)))]"

definition commit_rollback_tx ::
  "sql_world \<Rightarrow> string \<Rightarrow> string \<Rightarrow> u64 \<Rightarrow> u64 \<Rightarrow> string \<Rightarrow> u64 \<Rightarrow> workload_db
     \<Rightarrow> workload_db \<times> (workload_error + unit)" where
  "commit_rollback_tx w op_id deployment_id failed_generation lkg_generation reason now =
     run_tx w ''Failed to begin rollback TX: '' ''Failed to commit rollback TX: ''
       (rollback_statements op_id deployment_id failed_generation lkg_generation reason now)"

section \<open>The tables keep their promises\<close>

interpretation deployments: keyed_table dr_deployment_id put_deployment
proof
  show "find (\<lambda>r. dr_deployment_id r = k) (put_deployment row rows)
      = (if k = dr_deployment_id row then Some row else find (\<lambda>r. dr_deployment_id r = k) rows)"
    for k row rows
  proof (cases "list_ex (\<lambda>r. dr_deployment_id r = dr_deployment_id row) rows")
    case True
    then show ?thesis
      using find_none_iff [of "\<lambda>r. dr_deployment_id r = dr_deployment_id row" rows]
      by (auto simp: put_deployment_def find_update_first find_update_first_other)
  next
    case False
    then have "find (\<lambda>r. dr_deployment_id r = dr_deployment_id row) rows = None"
      using find_none_iff by blast
    then show ?thesis using False
      by (auto simp: put_deployment_def find_append split: option.splits)
  qed
  show "distinct (map dr_deployment_id (put_deployment row rows))"
    if "distinct (map dr_deployment_id rows)" for row rows
    using that by (auto simp: put_deployment_def map_update_first list_ex_iff)
qed

interpretation receipts: keyed_table rx_receipt_id put_receipt
  by unfold_locales
    (auto simp: put_receipt_def find_append find_filter_other distinct_map_filter split: option.split)

interpretation snapshots: keyed_table sr_snapshot_id put_snapshot
  by unfold_locales
    (auto simp: put_snapshot_def find_append find_filter_other distinct_map_filter split: option.split)

section \<open>The invariant of the store\<close>

definition single_active :: "operation_row list \<Rightarrow> bool" where
  "single_active ops = (\<forall>r \<in> set ops. \<forall>r' \<in> set ops. active_op_state (op_state r)
     \<longrightarrow> active_op_state (op_state r') \<longrightarrow> op_deployment_id r = op_deployment_id r' \<longrightarrow> r = r')"

definition db_ok :: "workload_db \<Rightarrow> bool" where
  "db_ok db = (distinct (map op_operation_id (db_operations db))
     \<and> list_all (\<lambda>r. valid_op_state (op_state r)) (db_operations db)
     \<and> single_active (db_operations db)
     \<and> distinct (map dr_deployment_id (db_deployments db))
     \<and> list_all (\<lambda>r. valid_deployment_status (dr_status r)) (db_deployments db)
     \<and> distinct (map nr_nonce (db_nonces db))
     \<and> distinct (map rx_receipt_id (db_receipts db))
     \<and> distinct (map sr_snapshot_id (db_snapshots db)))"

lemma db_ok_empty: "db_ok empty_db"
  by (simp add: db_ok_def empty_db_def single_active_def)

lemma insert_operation_ok: "insert_operation row db = Inr db' \<Longrightarrow> db_ok db \<Longrightarrow> db_ok db'"
  by (auto simp: insert_operation_def db_ok_def single_active_def active_row_def list_ex_key
      list_ex_iff [of "active_row _"] split: if_splits)

lemma update_operations_ok:
  assumes "update_operations oid st c db = Inr db'" "db_ok db"
  shows "db_ok db'"
proof (cases "find (\<lambda>r. op_operation_id r = oid) (db_operations db)")
  case None
  then show ?thesis using assms by (simp add: update_operations_def)
next
  case (Some row)
  let ?ops = "update_first (\<lambda>r. op_operation_id r = oid) (set_operation st c) (db_operations db)"
  from assms(1) Some have v: "valid_op_state st" and
    free: "active_op_state st \<Longrightarrow> \<forall>r \<in> set (db_operations db). op_operation_id r \<noteq> oid \<longrightarrow>
        \<not> active_row (op_deployment_id row) r" and
    db': "db' = db\<lparr>db_operations := ?ops\<rparr>"
    by (auto simp: update_operations_def list_ex_iff split: if_splits)
  have d: "distinct (map op_operation_id (db_operations db))" using assms(2) by (simp add: db_ok_def)
  have row: "row \<in> set (db_operations db)" "op_operation_id row = oid"
    using find_SomeD [OF Some] by auto
  have uniq: "r = row" if "r \<in> set (db_operations db)" "op_operation_id r = oid" for r
    using that row d by (metis distinct_map inj_onD)
  have el: "(x \<in> set (db_operations db) \<and> op_operation_id x \<noteq> oid) \<or> x = set_operation st c row"
    if "x \<in> set ?ops" for x
    using update_first_key [OF d that] uniq by auto
  have valid: "list_all (\<lambda>r. valid_op_state (op_state r)) ?ops"
    using el assms(2) v by (fastforce simp: list_all_iff db_ok_def set_operation_def)
  have "single_active ?ops"
    unfolding single_active_def
  proof (intro ballI impI)
    fix x y assume xy: "x \<in> set ?ops" "y \<in> set ?ops" "active_op_state (op_state x)"
      "active_op_state (op_state y)" "op_deployment_id x = op_deployment_id y"
    have one: "\<not> (a \<in> set (db_operations db) \<and> op_operation_id a \<noteq> oid)"
      if "b = set_operation st c row" "active_op_state (op_state a)" "active_op_state (op_state b)"
        "op_deployment_id a = op_deployment_id b" for a b
      using free that by (auto simp: set_operation_def active_row_def)
    show "x = y"
      using el [OF xy(1)] el [OF xy(2)] one [OF _ xy(3,4,5)] one [OF _ xy(4,3)] xy assms(2)
      by (auto simp: db_ok_def single_active_def)
  qed
  moreover have "distinct (map op_operation_id ?ops)"
    using d by (simp add: map_update_first set_operation_def)
  ultimately show ?thesis using assms(2) valid by (simp add: db' db_ok_def)
qed

lemma upsert_row_ok: "upsert_row row db = Inr db' \<Longrightarrow> db_ok db \<Longrightarrow> db_ok db'"
  using deployments.put_distinct set_update_first_subset
  by (fastforce simp: upsert_row_def db_ok_def put_deployment_def list_all_iff split: if_splits)

lemma insert_nonce_ok: "insert_nonce row db = Inr db' \<Longrightarrow> db_ok db \<Longrightarrow> db_ok db'"
  by (auto simp: insert_nonce_def db_ok_def find_nonce_def find_none_iff list_ex_key split: if_splits)

text \<open>Calls, single statements and transactions.\<close>

lemma sql_call_Inr: "sql_call w n pre r = Inr x \<Longrightarrow> r = Inr x"
  by (simp add: sql_call_def split: option.splits sum.splits)

lemma query2_Inr: "query2 w x = Inr y \<Longrightarrow> y = x"
  by (auto simp: query2_def result_simps dest!: sql_call_Inr)

lemma exec_stmt_Inr: "exec_stmt w n pre stmt db = (db', Inr u) \<Longrightarrow> stmt db = Inr db'"
  by (auto simp: exec_stmt_def dest!: sql_call_Inr split: sum.splits)

lemma exec_stmt_Inl: "exec_stmt w n pre stmt db = (db', Inl e) \<Longrightarrow> db' = db"
  by (auto simp: exec_stmt_def split: sum.splits)

lemma exec_stmt_ok:
  assumes "\<And>db'. stmt db = Inr db' \<Longrightarrow> db_ok db'" "db_ok db"
  shows "db_ok (fst (exec_stmt w n pre stmt db))"
  using assms by (auto simp: exec_stmt_def dest!: sql_call_Inr split: sum.split)

lemma run_statements_Inr:
  "run_statements w n ss db = Inr db' \<Longrightarrow>
   foldl (\<lambda>r s. res_bind r s) (Inr db) ss = Inr db'"
proof (induction ss arbitrary: n db)
  case (Cons s ss)
  then obtain db1 where "sql_call w n [] (s db) = Inr db1" "run_statements w (Suc n) ss db1 = Inr db'"
    by (auto simp: result_simps)
  with Cons.IH [of "Suc n" db1] sql_call_Inr [of w n "[]" "s db" db1] show ?case by simp
qed simp

lemma run_tx_Inr:
  "run_tx w b c stmts db = (db', Inr u) \<Longrightarrow> foldl (\<lambda>r s. res_bind r s) (Inr db) stmts = Inr db'"
  by (auto simp: run_tx_def result_simps split: sum.splits dest!: sql_call_Inr run_statements_Inr)

lemma run_tx_Inl: "run_tx w b c stmts db = (db', Inl e) \<Longrightarrow> db' = db"
  by (auto simp: run_tx_def split: sum.splits)

definition keeps_ok :: "(workload_db \<Rightarrow> sql_error + workload_db) \<Rightarrow> bool" where
  "keeps_ok s = (\<forall>db db'. db_ok db \<longrightarrow> s db = Inr db' \<longrightarrow> db_ok db')"

lemma run_tx_ok:
  assumes "list_all keeps_ok stmts" "db_ok db"
  shows "db_ok (fst (run_tx w b c stmts db))"
proof -
  have "foldl (\<lambda>r s. res_bind r s) (Inr d) ss = Inr d' \<Longrightarrow> list_all keeps_ok ss \<Longrightarrow> db_ok d \<Longrightarrow> db_ok d'"
    for ss d d'
  proof (induction ss arbitrary: d)
    case (Cons s ss)
    show ?case
    proof (cases "s d")
      case (Inl e)
      have "foldl (\<lambda>r s. res_bind r s) (Inl e) ts = Inl e" for ts :: "(workload_db \<Rightarrow> sql_error + workload_db) list"
        by (induction ts) simp_all
      with Inl Cons.prems(1) show ?thesis by simp
    next
      case (Inr d1)
      with Cons.IH [of d1] Cons.prems show ?thesis by (simp add: keeps_ok_def)
    qed
  qed simp
  then show ?thesis
    using assms run_tx_Inr run_tx_Inl
    by (cases "run_tx w b c stmts db"; cases "snd (run_tx w b c stmts db)") fastforce+
qed

lemma keeps_ok_journal: "keeps_ok (add_journal e)"
  by (auto simp: keeps_ok_def add_journal_def result_simps db_ok_def)

lemma keeps_ok_upsert: "keeps_ok (checked_upsert row)"
  by (auto simp: keeps_ok_def checked_upsert_def result_simps intro: upsert_row_ok)

lemma keeps_ok_update: "keeps_ok (\<lambda>db. res_bind (sql_ints ns) (\<lambda>_. update_operations oid st c db))"
  by (auto simp: keeps_ok_def result_simps intro: update_operations_ok)

lemma keeps_ok_receipt: "keeps_ok (\<lambda>db. res_bind (sql_ints ns) (\<lambda>_.
    Inr (db\<lparr>db_receipts := put_receipt row (db_receipts db)\<rparr>)))"
  using receipts.put_distinct by (auto simp: keeps_ok_def result_simps db_ok_def)

lemma keeps_ok_snapshot: "keeps_ok (\<lambda>db. res_bind (sql_ints ns) (\<lambda>_.
    Inr (db\<lparr>db_snapshots := put_snapshot row (db_snapshots db)\<rparr>)))"
  using snapshots.put_distinct by (auto simp: keeps_ok_def result_simps db_ok_def)

lemma keeps_ok_rollback: "keeps_ok (\<lambda>db. res_bind (sql_ints ns) (\<lambda>_.
    Inr (db\<lparr>db_deployments := update_first (\<lambda>r. dr_deployment_id r = dep)
      (\<lambda>r. r\<lparr>dr_active_generation := g, dr_target_generation := g, dr_status := ''ACTIVE'',
        dr_updated_at := now\<rparr>) (db_deployments db)\<rparr>)))"
proof -
  have "valid_deployment_status ''ACTIVE''" by (simp add: valid_deployment_status_def)
  then have "list_all (\<lambda>r. valid_deployment_status (dr_status r)) (update_first P
      (\<lambda>r. r\<lparr>dr_active_generation := g, dr_target_generation := g, dr_status := ''ACTIVE'',
        dr_updated_at := now\<rparr>) rows)"
    if "list_all (\<lambda>r. valid_deployment_status (dr_status r)) rows" for P rows
    using that by (induction rows) auto
  then show ?thesis by (auto simp: keeps_ok_def result_simps db_ok_def map_update_first)
qed

lemmas keeps_ok_statements = keeps_ok_journal keeps_ok_upsert keeps_ok_update keeps_ok_receipt
  keeps_ok_snapshot keeps_ok_rollback

lemma keeps_okD: "keeps_ok s \<Longrightarrow> db_ok db \<Longrightarrow> s db = Inr db' \<Longrightarrow> db_ok db'"
  by (simp add: keeps_ok_def)

text \<open>What a reservation does, on each of its ways out.\<close>

lemma reserve_operation_cases:
  assumes "reserve_operation w oid dep gen desired plan now db = (db', r)"
  obtains (error) e where "r = Inl e" "db' = db"
  | (attached) a where "r = Inr (AttachedIdempotent (op_operation_id a))" "db' = db"
      "find (active_row dep) (db_operations db) = Some a" "op_target_generation a = gen"
      "op_desired_digest a = desired" "op_plan_digest a = plan"
  | (reserved) row where "r = Inr (Reserved oid)" "find (active_row dep) (db_operations db) = None"
      "insert_operation row db = Inr db'"
      "row = \<lparr>op_operation_id = oid, op_deployment_id = dep, op_target_generation = gen,
         op_desired_digest = desired, op_plan_digest = plan, op_state = ''RESERVED'',
         op_started_at = now, op_completed_at = None\<rparr>"
proof (cases "res_bind (sql_call w 0 ''Failed to begin immediate TX: '' (Inr ())) (\<lambda>_.
    res_bind (sql_call w 1 [] (Inr ())) (\<lambda>_.
    sql_call w 2 [] (Inr (find (active_row dep) (db_operations db)))))")
  case (Inl e)
  then show thesis using assms by (intro error [of e]) (simp_all add: reserve_operation_def)
next
  case (Inr found)
  then have f: "found = find (active_row dep) (db_operations db)"
    by (auto simp: result_simps dest!: sql_call_Inr)
  show thesis
  proof (cases found)
    case None
    let ?row = "\<lparr>op_operation_id = oid, op_deployment_id = dep, op_target_generation = gen,
         op_desired_digest = desired, op_plan_digest = plan, op_state = ''RESERVED'',
         op_started_at = now, op_completed_at = None\<rparr>"
    show thesis
    proof (cases r)
      case (Inl e)
      with assms Inr None show thesis
        by (intro error [of e]) (auto simp: reserve_operation_def split: sum.splits)
    next
      case r: (Inr x)
      with assms Inr None have "insert_operation ?row db = Inr db'" "r = Inr (Reserved oid)"
        by (auto simp: reserve_operation_def result_simps split: sum.splits dest!: sql_call_Inr)
      then show thesis using reserved f None by simp
    qed
  next
    case (Some a)
    show thesis
    proof (cases r)
      case (Inl e)
      with assms Inr Some show thesis
        by (intro error [of e]) (auto simp: reserve_operation_def split: if_splits)
    next
      case r: (Inr x)
      with assms Inr Some f attached [of a] show thesis
        by (auto simp: reserve_operation_def result_simps split: if_splits)
    qed
  qed
qed

text \<open>The nonce ledger.\<close>

lemma consume_nonce_cases:
  assumes "consume_or_replay_nonce w n dep gen d now db = (db', r)"
  obtains (error) e where "r = Inl e" "db' = db"
  | (replayed) row where "r = Inr True" "db' = db" "find_nonce n db = Some row" "nr_envelope_digest row = d"
  | (recorded) row where "r = Inr False" "find_nonce n db = None" "insert_nonce row db = Inr db'"
      "nr_nonce row = n" "nr_envelope_digest row = d"
proof (cases "query2 w (map_option nr_envelope_digest (find_nonce n db))")
  case (Inl e)
  then show thesis using assms by (intro error [of e]) (simp_all add: consume_or_replay_nonce_def)
next
  case (Inr existing)
  then have x: "existing = map_option nr_envelope_digest (find_nonce n db)" by (rule query2_Inr)
  show thesis
  proof (cases existing)
    case None
    then have f: "find_nonce n db = None" using x by simp
    let ?row = "\<lparr>nr_nonce = n, nr_deployment_id = dep, nr_generation = gen,
      nr_envelope_digest = d, nr_consumed_at = now\<rparr>"
    show thesis
    proof (cases r)
      case (Inl e)
      with assms Inr None show thesis
        by (intro error [of e])
          (auto simp: consume_or_replay_nonce_def split: prod.splits sum.splits dest: exec_stmt_Inl)
    next
      case r: (Inr b)
      with assms Inr None have "r = Inr False" "insert_nonce ?row db = Inr db'"
        by (auto simp: consume_or_replay_nonce_def result_simps split: prod.splits sum.splits
            dest!: exec_stmt_Inr)
      then show thesis using recorded f by simp
    qed
  next
    case (Some old)
    then obtain row where row: "find_nonce n db = Some row" "nr_envelope_digest row = old"
      using x by auto
    show thesis
    proof (cases "old = d")
      case True
      with assms Inr Some row replayed [of row] show thesis
        by (simp add: consume_or_replay_nonce_def)
    next
      case False
      with assms Inr Some show thesis
        by (intro error) (auto simp: consume_or_replay_nonce_def)
    qed
  qed
qed

lemma insert_nonce_find:
  "insert_nonce row db = Inr db' \<Longrightarrow>
   find_nonce n db' = (if n = nr_nonce row then Some row else find_nonce n db)"
  by (auto simp: insert_nonce_def find_nonce_def find_append split: if_splits option.splits)

record nonce_request =
  nq_world :: sql_world
  nq_nonce :: string
  nq_deployment_id :: string
  nq_generation :: u64
  nq_digest :: string
  nq_now :: u64

definition run_nonce :: "nonce_request \<Rightarrow> workload_db \<Rightarrow> workload_db \<times> (workload_error + bool)" where
  "run_nonce q = consume_or_replay_nonce (nq_world q) (nq_nonce q) (nq_deployment_id q)
     (nq_generation q) (nq_digest q) (nq_now q)"

definition nonce_seen :: "string \<Rightarrow> workload_db \<Rightarrow> string option" where
  "nonce_seen n db = map_option nr_envelope_digest (find_nonce n db)"

interpretation nonces: once_ledger run_nonce "\<lambda>r. r = Inr False" "\<lambda>r. r = Inr True" nonce_seen
  nq_nonce nq_digest
proof
  fix q s s' and r :: "workload_error + bool" and n d
  assume c: "run_nonce q s = (s', r)"
  note C = consume_nonce_cases [OF c [unfolded run_nonce_def]]
  show "nonce_seen (nq_nonce q) s = None \<and> nonce_seen (nq_nonce q) s' = Some (nq_digest q)"
    if "r = Inr False"
    using that by (rule_tac C) (auto simp: nonce_seen_def insert_nonce_find)
  show "nonce_seen (nq_nonce q) s = Some (nq_digest q)" if "r = Inr True"
    using that by (rule_tac C) (auto simp: nonce_seen_def)
  show "nonce_seen n s' = Some d" if "nonce_seen n s = Some d"
    using that by (rule_tac C) (auto simp: nonce_seen_def insert_nonce_find)
qed

text \<open>The reservations of operations are the same kind of ledger, by deployment.\<close>

record reserve_request =
  rq_world :: sql_world
  rq_operation_id :: string
  rq_deployment_id :: string
  rq_generation :: u64
  rq_desired_digest :: string
  rq_plan_digest :: string
  rq_now :: u64

definition run_reserve ::
  "reserve_request \<Rightarrow> workload_db \<Rightarrow> workload_db \<times> (workload_error + reservation_result)" where
  "run_reserve q = reserve_operation (rq_world q) (rq_operation_id q) (rq_deployment_id q)
     (rq_generation q) (rq_desired_digest q) (rq_plan_digest q) (rq_now q)"

definition work_of :: "reserve_request \<Rightarrow> u64 \<times> string \<times> string" where
  "work_of q = (rq_generation q, rq_desired_digest q, rq_plan_digest q)"

definition active_work :: "string \<Rightarrow> workload_db \<Rightarrow> (u64 \<times> string \<times> string) option" where
  "active_work dep db = map_option
     (\<lambda>a. (op_target_generation a, op_desired_digest a, op_plan_digest a))
     (find (active_row dep) (db_operations db))"

definition is_reserved :: "workload_error + reservation_result \<Rightarrow> bool" where
  "is_reserved r = (case r of Inr (Reserved _) \<Rightarrow> True | _ \<Rightarrow> False)"

definition is_attached :: "workload_error + reservation_result \<Rightarrow> bool" where
  "is_attached r = (case r of Inr (AttachedIdempotent _) \<Rightarrow> True | _ \<Rightarrow> False)"

lemma insert_active_find:
  assumes "insert_operation row db = Inr db'"
  shows "find (active_row dep) (db_operations db') = (case find (active_row dep) (db_operations db) of
     Some a \<Rightarrow> Some a | None \<Rightarrow> if active_row dep row then Some row else None)"
  using assms by (auto simp: insert_operation_def find_append split: if_splits option.splits)

interpretation reservations: once_ledger run_reserve is_reserved is_attached active_work
  rq_deployment_id work_of
proof
  fix q s s' and r :: "workload_error + reservation_result" and n d
  assume c: "run_reserve q s = (s', r)"
  note C = reserve_operation_cases [OF c [unfolded run_reserve_def]]
  show "active_work (rq_deployment_id q) s = None
      \<and> active_work (rq_deployment_id q) s' = Some (work_of q)" if "is_reserved r"
    using that by (rule_tac C)
      (auto simp: is_reserved_def active_work_def work_of_def insert_active_find active_row_def
        active_op_state_def)
  show "active_work (rq_deployment_id q) s = Some (work_of q)" if "is_attached r"
    using that by (rule_tac C) (auto simp: is_attached_def active_work_def work_of_def)
  show "active_work n s' = Some d" if "active_work n s = Some d"
    using that by (rule_tac C) (auto simp: active_work_def insert_active_find)
qed

section \<open>Reachable stores\<close>

inductive store_step :: "workload_db \<Rightarrow> workload_db \<Rightarrow> bool" where
  step_reserve: "reserve_operation w oid dep gen desired plan now db = (db', r) \<Longrightarrow> store_step db db'"
| step_update: "update_operation_state w oid st c db = (db', r') \<Longrightarrow> store_step db db'"
| step_nonce: "consume_or_replay_nonce w n dep gen d now db = (db', r'') \<Longrightarrow> store_step db db'"
| step_nonce_once: "consume_nonce w n dep gen now db = (db', r') \<Longrightarrow> store_step db db'"
| step_snapshot: "record_snapshot w sid dep gen vol path now durable db = (db', r') \<Longrightarrow> store_step db db'"
| step_receipt: "save_receipt w row db = (db', r') \<Longrightarrow> store_step db db'"
| step_journal: "record_journal w dep gen phase detail now db = (db', r') \<Longrightarrow> store_step db db'"
| step_upsert: "upsert_deployment w drow db = (db', r') \<Longrightarrow> store_step db db'"
| step_commit: "commit_reconciliation_tx2 w q db = (db', r') \<Longrightarrow> store_step db db'"
| step_rollback: "commit_rollback_tx w oid dep fgen lgen reason now db = (db', r') \<Longrightarrow> store_step db db'"

inductive store_reachable :: "workload_db \<Rightarrow> bool" where
  reach_empty: "store_reachable empty_db"
| reach_step: "store_reachable db \<Longrightarrow> store_step db db' \<Longrightarrow> store_reachable db'"

inductive_cases store_stepE: "store_step db db'"

lemma exec_keeps:
  assumes "exec_stmt w n pre stmt db = (db', r)" "keeps_ok stmt" "db_ok db"
  shows "db_ok db'"
proof -
  have "db_ok (fst (exec_stmt w n pre stmt db))"
    by (rule exec_stmt_ok) (use keeps_okD [OF assms(2,3)] assms(3) in auto)
  then show ?thesis by (simp add: assms(1))
qed

lemma tx_keeps:
  assumes "run_tx w b c stmts db = (db', r)" "list_all keeps_ok stmts" "db_ok db"
  shows "db_ok db'"
  using run_tx_ok [OF assms(2,3), of w b c] by (simp add: assms(1))

lemma nonce_keeps: "consume_or_replay_nonce w n dep gen d now db = (db', r) \<Longrightarrow> db_ok db \<Longrightarrow> db_ok db'"
  by (erule consume_nonce_cases) (auto intro: insert_nonce_ok)

lemma store_step_ok:
  assumes "store_step db db'" "db_ok db"
  shows "db_ok db'"
  using assms(1)
proof (rule store_stepE)
  fix w oid dep gen desired plan now r
  assume "reserve_operation w oid dep gen desired plan now db = (db', r)"
  then show ?thesis by (rule reserve_operation_cases) (use assms(2) insert_operation_ok in auto)
next
  fix w n dep gen now r'
  assume "consume_nonce w n dep gen now db = (db', r')"
  then obtain r where "consume_or_replay_nonce w n dep gen ''sha256:legacy_single_use'' now db = (db', r)"
    by (auto simp: consume_nonce_def split: prod.splits sum.splits)
  then show ?thesis using assms(2) by (rule nonce_keeps)
next
  fix w q r'
  assume "commit_reconciliation_tx2 w q db = (db', r')"
  then show ?thesis using assms(2)
    by (auto simp: commit_reconciliation_tx2_def commit_statements_def keeps_ok_statements elim!: tx_keeps)
next
  fix w oid dep fgen lgen reason now r'
  assume "commit_rollback_tx w oid dep fgen lgen reason now db = (db', r')"
  then show ?thesis using assms(2)
    by (auto simp: commit_rollback_tx_def rollback_statements_def keeps_ok_statements elim!: tx_keeps)
qed (use assms(2) in \<open>auto simp: update_operation_state_def record_snapshot_def save_receipt_def
    record_journal_def upsert_deployment_def keeps_ok_statements elim!: exec_keeps intro: nonce_keeps\<close>)

lemma store_reachable_ok: "store_reachable db \<Longrightarrow> db_ok db"
  by (induction rule: store_reachable.induct) (auto intro: db_ok_empty store_step_ok)

lemma all_same_length: "distinct xs \<Longrightarrow> \<forall>a \<in> set xs. \<forall>b \<in> set xs. a = b \<Longrightarrow> length xs \<le> 1"
  using card_le_Suc0_iff_eq [of "set xs"] distinct_card [of xs] by simp

section \<open>Properties\<close>

text \<open>
  C7. Whatever operations are run, with whatever arguments and database faults, a reachable store
  never has two active operations for one deployment, never an operation or a deployment in a
  state outside the schema, and never two rows with the same key.
\<close>

theorem store_invariant:
  assumes "store_reachable db"
  shows "length (filter (active_row dep) (db_operations db)) \<le> 1
    \<and> distinct (map op_operation_id (db_operations db)) \<and> distinct (map dr_deployment_id (db_deployments db))
    \<and> distinct (map nr_nonce (db_nonces db))
    \<and> list_all (\<lambda>r. valid_op_state (op_state r)) (db_operations db)
    \<and> list_all (\<lambda>r. valid_deployment_status (dr_status r)) (db_deployments db)"
proof -
  have ok: "db_ok db" using assms by (rule store_reachable_ok)
  let ?f = "filter (active_row dep) (db_operations db)"
  have d: "distinct ?f" using ok by (simp add: db_ok_def distinct_map)
  have "\<forall>a \<in> set ?f. \<forall>b \<in> set ?f. a = b"
    using ok by (auto simp: db_ok_def single_active_def active_row_def)
  then have "length ?f \<le> 1" by (rule all_same_length [OF d])
  then show ?thesis using ok by (simp add: db_ok_def)
qed

definition no_faults :: sql_world where
  "no_faults = \<lparr>sw_text = (\<lambda>_. ''sql''), sw_fault = (\<lambda>_. None)\<rparr>"

definition reserved_example :: workload_db where
  "reserved_example = fst (reserve_operation no_faults ''op1'' ''dep'' 1 ''d'' ''p'' 10 empty_db)"

lemma reserved_example_reachable: "store_reachable reserved_example"
  unfolding reserved_example_def
  by (rule reach_step [OF reach_empty step_reserve [OF surjective_pairing]])

theorem store_invariant_witness:
  "length (filter (active_row ''dep'') (db_operations reserved_example)) \<le> 1"
  using store_invariant [OF reserved_example_reachable] by blast

text \<open>
  C8. Single flight: however many reconciliations race to reserve an operation, for whatever
  work, without one of them finishing, at most one reservation per deployment is granted, and
  every other accepted one is attached to exactly the same generation, desired digest and plan.
\<close>

theorem reservation_single_flight:
  "length (filter (\<lambda>(q, r). rq_deployment_id q = dep \<and> is_reserved r) (run_requests run_reserve qs db)) \<le> 1
   \<and> (if (q, r) \<in> set (run_requests run_reserve qs db) \<and> (q', r') \<in> set (run_requests run_reserve qs db)
        \<and> rq_deployment_id q = rq_deployment_id q'
        \<and> (is_reserved r \<or> is_attached r) \<and> (is_reserved r' \<or> is_attached r')
      then work_of q = work_of q' else True)"
  using reservations.fresh_at_most_once [of dep qs db]
    reservations.accepted_same_digest [of q r qs db q' r'] by simp

text \<open>
  C9. A nonce is spent once: over any sequence of envelopes, with any database faults between
  them, at most one presentation of a nonce is accepted as fresh, and all accepted presentations
  (the fresh one and its replays) carry the same envelope digest.
\<close>

theorem nonce_spent_once:
  "length (filter (\<lambda>(q, r). nq_nonce q = n \<and> r = Inr False) (run_requests run_nonce qs db)) \<le> 1
   \<and> (if (q, Inr b) \<in> set (run_requests run_nonce qs db) \<and> (q', Inr b') \<in> set (run_requests run_nonce qs db)
        \<and> nq_nonce q = nq_nonce q'
      then nq_digest q = nq_digest q' else True)"
  using nonces.fresh_at_most_once [of n qs db]
    nonces.accepted_same_digest [of q "Inr b" qs db q' "Inr b'"] by (cases b; cases b') simp_all

text \<open>What a successful commit leaves behind.\<close>

lemma sql_ints_frame: "res_bind (sql_ints ns) (\<lambda>_. f) = Inr x \<Longrightarrow> f = Inr x"
  by (auto simp: result_simps)

lemma update_operations_Inr:
  assumes "update_operations oid st c db = Inr db'"
  shows "db' = db\<lparr>db_operations := update_first (\<lambda>r. op_operation_id r = oid) (set_operation st c)
      (db_operations db)\<rparr>"
proof -
  have none: "update_first P f xs = xs" if "find P xs = None" for P :: "operation_row \<Rightarrow> bool" and f xs
    using that by (induction xs) (auto split: if_splits)
  show ?thesis using assms none by (auto simp: update_operations_def split: option.splits if_splits)
qed

lemma commit_tx2_Inr:
  assumes "commit_reconciliation_tx2 w q db = (db', Inr u)"
  obtains row where
    "db' = db\<lparr>db_journal := db_journal db @ [\<lparr>je_deployment_id = cq_deployment_id q,
          je_generation = cq_generation q, je_phase = cq_overall_status q,
          je_detail = ''Reconciliation converged to status '' @ cq_overall_status q,
          je_created_at = cq_now q\<rparr>],
        db_deployments := put_deployment row (db_deployments db),
        db_receipts := put_receipt \<lparr>rx_receipt_id = cq_receipt_id q,
           rx_deployment_id = cq_deployment_id q, rx_generation = cq_generation q,
           rx_plan_digest = cq_plan_digest q, rx_overall_status = cq_overall_status q,
           rx_receipt_json = cq_receipt_json q, rx_signature = cq_receipt_signature q,
           rx_created_at = cq_now q\<rparr> (db_receipts db),
        db_operations := update_first (\<lambda>r. op_operation_id r = cq_op_id q)
          (set_operation ''COMPLETED'' (Some (cq_now q))) (db_operations db)\<rparr>"
    "dr_deployment_id row = cq_deployment_id q" "dr_active_generation row = cq_generation q"
    "dr_target_generation row = cq_generation q" "dr_desired_digest row = cq_desired_digest q"
    "dr_plan_digest row = cq_plan_digest q" "dr_status row = cq_deployment_status q"
proof -
  from run_tx_Inr [OF assms [unfolded commit_reconciliation_tx2_def]]
  have "foldl (\<lambda>r s. res_bind r s) (Inr db) (commit_statements q) = Inr db'" .
  then show thesis
    by (auto simp: commit_statements_def result_simps add_journal_def checked_upsert_def upsert_row_def
        dest!: update_operations_Inr split: if_splits intro!: that)
qed

text \<open>
  C10. The commit of a reconciliation is all or nothing: on any error the store is exactly as it
  was, and on success the deployment runs and targets the committed generation with its digests,
  the operation is completed and no longer active, its receipt can be read back, the journal has
  one more entry, and no other deployment has changed.
\<close>

theorem commit_all_or_nothing:
  assumes "store_reachable db"
  shows "case commit_reconciliation_tx2 w q db of
    (db', Inl e) \<Rightarrow> db' = db
  | (db', Inr _) \<Rightarrow>
      map_option dr_active_generation (find_deployment (cq_deployment_id q) db') = Some (cq_generation q)
    \<and> map_option dr_target_generation (find_deployment (cq_deployment_id q) db') = Some (cq_generation q)
    \<and> map_option dr_desired_digest (find_deployment (cq_deployment_id q) db') = Some (cq_desired_digest q)
    \<and> find (\<lambda>r. op_operation_id r = cq_op_id q \<and> active_op_state (op_state r)) (db_operations db') = None
    \<and> map_option rx_receipt_json (find (\<lambda>r. rx_receipt_id r = cq_receipt_id q) (db_receipts db'))
        = Some (cq_receipt_json q)
    \<and> length (db_journal db') = Suc (length (db_journal db))
    \<and> (\<forall>other. other \<noteq> cq_deployment_id q \<longrightarrow> find_deployment other db' = find_deployment other db)"
proof (cases "commit_reconciliation_tx2 w q db")
  case (Pair db' r)
  show ?thesis
  proof (cases r)
    case (Inl e)
    then show ?thesis using Pair run_tx_Inl by (auto simp: commit_reconciliation_tx2_def)
  next
    case (Inr u)
    have d: "distinct (map op_operation_id (db_operations db))"
      using store_reachable_ok [OF assms] by (simp add: db_ok_def)
    have fin: "\<not> active_op_state ''COMPLETED''" by (simp add: active_op_state_def)
    have none: "find (\<lambda>r. op_operation_id r = cq_op_id q \<and> active_op_state (op_state r))
        (update_first (\<lambda>r. op_operation_id r = cq_op_id q)
          (set_operation ''COMPLETED'' (Some (cq_now q))) (db_operations db)) = None"
      using update_first_key [OF d] fin by (fastforce simp: find_None_iff set_operation_def)
    from Pair Inr have c: "commit_reconciliation_tx2 w q db = (db', Inr u)" by simp
    have "map_option dr_active_generation (find_deployment (cq_deployment_id q) db') = Some (cq_generation q)
    \<and> map_option dr_target_generation (find_deployment (cq_deployment_id q) db') = Some (cq_generation q)
    \<and> map_option dr_desired_digest (find_deployment (cq_deployment_id q) db') = Some (cq_desired_digest q)
    \<and> find (\<lambda>r. op_operation_id r = cq_op_id q \<and> active_op_state (op_state r)) (db_operations db') = None
    \<and> map_option rx_receipt_json (find (\<lambda>r. rx_receipt_id r = cq_receipt_id q) (db_receipts db'))
        = Some (cq_receipt_json q)
    \<and> length (db_journal db') = Suc (length (db_journal db))
    \<and> (\<forall>other. other \<noteq> cq_deployment_id q \<longrightarrow> find_deployment other db' = find_deployment other db)"
      by (rule commit_tx2_Inr [OF c])
        (simp add: find_deployment_def deployments.find_put receipts.find_put none)
    then show ?thesis by (simp add: Pair Inr)
  qed
qed

definition commit_example :: commit_request where
  "commit_example = \<lparr>cq_op_id = ''op1'', cq_deployment_id = ''dep'', cq_generation = 1,
     cq_profile_id = ''pr'', cq_profile_version = ''1'', cq_desired_digest = ''d'',
     cq_plan_digest = ''p'', cq_overall_status = ''CONVERGED'', cq_deployment_status = ''ACTIVE'',
     cq_receipt_id = ''r'', cq_receipt_json = ''json'', cq_receipt_signature = ''s'', cq_now = 20\<rparr>"

lemma reserved_example_eq: "reserved_example = empty_db\<lparr>db_operations :=
    [\<lparr>op_operation_id = ''op1'', op_deployment_id = ''dep'', op_target_generation = 1,
      op_desired_digest = ''d'', op_plan_digest = ''p'', op_state = ''RESERVED'', op_started_at = 10,
      op_completed_at = None\<rparr>]\<rparr>"
  by (simp add: reserved_example_def reserve_operation_def no_faults_def sql_call_def empty_db_def
      sql_ints_def sql_int_def insert_operation_def valid_op_state_def)

lemma commit_example_ok:
  "snd (commit_reconciliation_tx2 no_faults commit_example reserved_example) = Inr ()"
  by (simp add: commit_reconciliation_tx2_def run_tx_def commit_statements_def no_faults_def sql_call_def
      add_journal_def checked_upsert_def upsert_row_def update_operations_def sql_ints_def sql_int_def
      commit_example_def reserved_example_eq empty_db_def valid_op_state_def valid_deployment_status_def
      active_op_state_def)

theorem commit_all_or_nothing_witness:
  "map_option dr_active_generation (find_deployment ''dep''
     (fst (commit_reconciliation_tx2 no_faults commit_example reserved_example))) = Some 1"
proof -
  have "cq_deployment_id commit_example = ''dep''" "cq_generation commit_example = 1"
    by (simp_all add: commit_example_def)
  with commit_all_or_nothing [OF reserved_example_reachable, where w = no_faults and q = commit_example] commit_example_ok
  show ?thesis by (simp add: case_prod_beta)
qed

text \<open>
  A committed generation is a floor: after a successful commit, whatever the database does, a
  request passes the generation check only with a higher generation, or with the same generation
  and the same desired digest.
\<close>

theorem committed_generation_is_floor:
  assumes "commit_reconciliation_tx2 w q db = (db', Inr u)"
    and "check_generation_monotonicity w' (cq_deployment_id q) g d db' = Inr v"
  shows "cq_generation q < g \<or> (g = cq_generation q \<and> d = cq_desired_digest q)"
  using assms(1)
proof (rule commit_tx2_Inr)
  fix row
  assume "db' = db\<lparr>db_journal := db_journal db @ [\<lparr>je_deployment_id = cq_deployment_id q,
          je_generation = cq_generation q, je_phase = cq_overall_status q,
          je_detail = ''Reconciliation converged to status '' @ cq_overall_status q,
          je_created_at = cq_now q\<rparr>],
        db_deployments := put_deployment row (db_deployments db),
        db_receipts := put_receipt \<lparr>rx_receipt_id = cq_receipt_id q,
           rx_deployment_id = cq_deployment_id q, rx_generation = cq_generation q,
           rx_plan_digest = cq_plan_digest q, rx_overall_status = cq_overall_status q,
           rx_receipt_json = cq_receipt_json q, rx_signature = cq_receipt_signature q,
           rx_created_at = cq_now q\<rparr> (db_receipts db),
        db_operations := update_first (\<lambda>r. op_operation_id r = cq_op_id q)
          (set_operation ''COMPLETED'' (Some (cq_now q))) (db_operations db)\<rparr>"
    and row: "dr_deployment_id row = cq_deployment_id q" "dr_target_generation row = cq_generation q"
      "dr_desired_digest row = cq_desired_digest q"
  then have "find_deployment (cq_deployment_id q) db' = Some row"
    by (simp add: find_deployment_def deployments.find_put)
  then have "\<not> g < cq_generation q \<and> (g = cq_generation q \<longrightarrow> d = cq_desired_digest q)"
    using assms(2) row
    by (auto simp: check_generation_monotonicity_def result_simps dest!: query2_Inr split: if_splits)
  then show ?thesis by auto
qed

theorem committed_generation_is_floor_witness:
  "check_generation_monotonicity no_faults ''dep'' 1 ''other''
     (fst (commit_reconciliation_tx2 no_faults commit_example reserved_example)) \<noteq> Inr ()"
proof
  assume c: "check_generation_monotonicity no_faults ''dep'' 1 ''other''
     (fst (commit_reconciliation_tx2 no_faults commit_example reserved_example)) = Inr ()"
  from commit_example_ok have ok: "commit_reconciliation_tx2 no_faults commit_example reserved_example
      = (fst (commit_reconciliation_tx2 no_faults commit_example reserved_example), Inr ())"
    by (metis prod.collapse)
  have "cq_deployment_id commit_example = ''dep''" "cq_generation commit_example = 1"
    "cq_desired_digest commit_example = ''d''" by (simp_all add: commit_example_def)
  with committed_generation_is_floor [OF ok, where w' = no_faults and g = 1 and d = "''other''"] c show False by simp
qed

end
