(* ===== verification/Profile_Registry.thy ===== *)
theory Profile_Registry
  imports Planner Workload_Store
begin

text \<open>
  The registry of workload profiles, \<open>WorkloadProfileRegistry\<close> of
  \<^verbatim>\<open>actium-node-core/src/workload_runtime/registry.rs\<close>: one SQLite table of published
  manifests, keyed by profile and version. SQLite is modelled as in \<open>Workload_Store\<close>.
\<close>

record profile_record =
  pr_profile_id :: string
  pr_profile_version :: string
  pr_profile_digest :: string
  pr_schema_version :: string
  pr_manifest_json :: string
  pr_created_at :: u64

type_synonym profile_table = "profile_record list"

definition profile_key :: "profile_record \<Rightarrow> string \<times> string" where
  "profile_key r = (pr_profile_id r, pr_profile_version r)"

definition find_profile :: "string \<Rightarrow> string \<Rightarrow> profile_table \<Rightarrow> profile_record option" where
  "find_profile pid ver t = find (\<lambda>r. profile_key r = (pid, ver)) t"

text \<open>
  Registering a manifest. The three \<open>unwrap\<close> calls of the code panic on a manifest that lacks
  these members; this is \<^const>\<open>None\<close>. \<open>now\<close> is the clock in milliseconds.
\<close>

definition register_profile ::
  "planner_lib \<Rightarrow> sql_world \<Rightarrow> u64 \<Rightarrow> string \<Rightarrow> profile_table
    \<Rightarrow> (profile_table \<times> (workload_error + profile_record)) option" where
  "register_profile lib w now manifest_json t =
     (if profile_json_has_inline_secret_values manifest_json
      then Some (t, Inl (ValidationFailed ''Inline secret values detected in profile manifest''))
      else case pl_parse lib manifest_json of
        Inl e \<Rightarrow> Some (t, Inl (ValidationFailed (''Invalid profile JSON: '' @ e)))
      | Inr parsed \<Rightarrow> (case validate_profile_manifest_schema lib parsed of
          Inl e \<Rightarrow> Some (t, Inl e)
        | Inr _ \<Rightarrow>
            (case (get_str ''schema'' parsed, get_str ''profileId'' parsed, get_str ''profileVersion'' parsed) of
              (Some schema, Some pid, Some ver) \<Rightarrow>
                (case canonical_digest_for_value (pl_esc lib) (pl_sha lib) parsed of
                  Inl e \<Rightarrow> Some (t, Inl e)
                | Inr digest \<Rightarrow> (case query2 w (find_profile pid ver t) of
                    Inl e \<Rightarrow> Some (t, Inl e)
                  | Inr (Some existing) \<Rightarrow>
                      Some (t, res_bind (constant_time_digest_eq (pr_profile_digest existing) digest) (\<lambda>same.
                        if same then Inr existing
                        else Inl (ProfileVersionDigestConflict pid ver (pr_profile_digest existing) digest)))
                  | Inr None \<Rightarrow>
                      (let row = \<lparr> pr_profile_id = pid, pr_profile_version = ver, pr_profile_digest = digest,
                             pr_schema_version = schema, pr_manifest_json = manifest_json, pr_created_at = now \<rparr> in
                       case sql_call w 2 ''Failed to insert profile record: ''
                           (res_bind (sql_int now) (\<lambda>_. Inr (t @ [row]))) of
                         Inl e \<Rightarrow> Some (t, Inl e)
                       | Inr t' \<Rightarrow> Some (t', Inr row))))
            | _ \<Rightarrow> None)))"

definition get_profile ::
  "sql_world \<Rightarrow> string \<Rightarrow> string \<Rightarrow> profile_table \<Rightarrow> workload_error + profile_record option" where
  "get_profile w pid ver t = query2 w (find_profile pid ver t)"

text \<open>What one registration can do to the table: nothing, or add a record under a new key.\<close>

lemma register_profile_cases:
  assumes "register_profile lib w now m t = Some (t', r)"
  obtains "t' = t" | row where "t' = t @ [row]" "r = Inr row"
    "find_profile (pr_profile_id row) (pr_profile_version row) t = None" "pr_manifest_json row = m"
    "\<not> profile_json_has_inline_secret_values m"
proof -
  have "t' = t \<or> (\<exists>row. t' = t @ [row] \<and> r = Inr row
      \<and> find_profile (pr_profile_id row) (pr_profile_version row) t = None \<and> pr_manifest_json row = m
      \<and> \<not> profile_json_has_inline_secret_values m)"
    using assms unfolding register_profile_def Let_def
    by (simp split: if_split_asm sum.split_asm option.split_asm)
      (auto dest!: sql_call_Inr query2_Inr simp: result_simps)
  then show thesis using that by blast
qed

lemma find_profile_append:
  "find_profile pid ver (t @ u) = (case find_profile pid ver t of Some r \<Rightarrow> Some r | None \<Rightarrow> find_profile pid ver u)"
  by (simp add: find_profile_def find_append split: option.split)

lemma register_keeps:
  "register_profile lib w now m t = Some (t', r) \<Longrightarrow> find_profile pid ver t = Some x \<Longrightarrow>
   find_profile pid ver t' = Some x"
  by (erule register_profile_cases) (auto simp: find_profile_append)

lemma registered_found:
  assumes "register_profile lib w now m t = Some (t', Inr x)"
  shows "find_profile (pr_profile_id x) (pr_profile_version x) t' = Some x"
proof (rule register_profile_cases [OF assms])
  assume "t' = t"
  then have *: "register_profile lib w now m t = Some (t, Inr x)" using assms by simp
  have t: "t \<noteq> t @ [y]" for y by simp
  obtain pid ver where "find_profile pid ver t = Some x"
    using * unfolding register_profile_def Let_def
    by (simp split: if_split_asm sum.split_asm option.split_asm)
      (auto dest!: sql_call_Inr query2_Inr simp: result_simps split: if_split_asm)
  then show ?thesis
    using \<open>t' = t\<close> by (auto simp: find_profile_def profile_key_def dest: find_SomeD)
next
  fix row assume "t' = t @ [row]" "Inr x = Inr row" "find_profile (pr_profile_id row) (pr_profile_version row) t = None"
  then show ?thesis by (simp add: find_profile_append) (simp add: find_profile_def profile_key_def)
qed

text \<open>A session of the registry: manifests registered one after the other.\<close>

inductive registry_run :: "profile_table \<Rightarrow> profile_table \<Rightarrow> bool" where
  run_refl: "registry_run t t"
| run_step: "registry_run t t' \<Longrightarrow> register_profile lib w now m t' = Some (t'', r) \<Longrightarrow> registry_run t t''"

inductive_cases registry_runE: "registry_run t t'"

lemma run_keeps: "registry_run t t' \<Longrightarrow> find_profile pid ver t = Some x \<Longrightarrow> find_profile pid ver t' = Some x"
  by (induction rule: registry_run.induct) (auto dest: register_keeps)

lemma run_no_secrets:
  "registry_run t t' \<Longrightarrow> list_all (\<lambda>r. \<not> profile_json_has_inline_secret_values (pr_manifest_json r)) t \<Longrightarrow>
   list_all (\<lambda>r. \<not> profile_json_has_inline_secret_values (pr_manifest_json r)) t'"
  by (induction rule: registry_run.induct) (auto elim: register_profile_cases)

text \<open>
  C13. A published profile version is immutable: once a registration has answered with a record, that
  record is what is read for its profile and version ever after, whatever is registered in
  between and whichever calls of the database fail; and no record of the registry holds a
  manifest with an inline secret.
\<close>

theorem published_profile_immutable:
  assumes "registry_run [] t" "register_profile lib w now m t = Some (t1, Inr x)" "registry_run t1 t2"
    and "get_profile w' (pr_profile_id x) (pr_profile_version x) t2 = Inr answer"
  shows "answer = Some x \<and> list_all (\<lambda>r. \<not> profile_json_has_inline_secret_values (pr_manifest_json r)) t2"
proof
  show "answer = Some x"
    using assms(4) run_keeps [OF assms(3) registered_found [OF assms(2)]]
    by (auto simp: get_profile_def dest!: query2_Inr)
  have "registry_run [] t1" using assms(1,2) by (rule run_step)
  then show "list_all (\<lambda>r. \<not> profile_json_has_inline_secret_values (pr_manifest_json r)) t2"
    using run_no_secrets [OF assms(3)] run_no_secrets [of "[]" t1] by simp
qed

text \<open>A manifest published into an empty registry.\<close>

definition published_manifest :: json where
  "published_manifest = JObject [(''profileId'', JString ''web''), (''profileVersion'', JString ''1''),
     (''schema'', JString ''s'')]"

definition published_lib :: planner_lib where
  "published_lib = example_lib\<lparr> pl_parse := (\<lambda>_. Inr published_manifest) \<rparr>"

definition published_row :: profile_record where
  "published_row = \<lparr> pr_profile_id = ''web'', pr_profile_version = ''1'', pr_profile_digest = zero_digest,
     pr_schema_version = ''s'', pr_manifest_json = ''m'', pr_created_at = 5 \<rparr>"

lemma published_parts:
  "\<not> profile_json_has_inline_secret_values ''m''"
  "semantic_normalize published_manifest = Inr published_manifest"
  "get_str ''schema'' published_manifest = Some ''s''" "get_str ''profileId'' published_manifest = Some ''web''"
  "get_str ''profileVersion'' published_manifest = Some ''1''"
  "get_arr ''components'' published_manifest = None" "get_str ''runtimeKind'' published_manifest = None"
  by code_simp+

lemma quiet_calls: "sql_call no_faults n pre (Inr x) = Inr x" "query2 no_faults x = Inr x"
  by (simp_all add: sql_call_def query2_def no_faults_def)

lemma published_example:
  "register_profile published_lib no_faults 5 ''m'' [] = Some ([published_row], Inr published_row)"
  by (simp add: register_profile_def published_parts published_lib_def example_lib_def zero_canonical
      validate_profile_manifest_schema_def ensure_def find_profile_def quiet_calls sql_int_def
      published_row_def Let_def)

theorem published_profile_immutable_witness:
  "\<exists>answer. get_profile no_faults ''web'' ''1'' [published_row] = Inr answer \<and> answer = Some published_row"
proof -
  have g: "get_profile no_faults (pr_profile_id published_row) (pr_profile_version published_row) [published_row]
      = Inr (find_profile ''web'' ''1'' [published_row])"
    by (simp add: get_profile_def quiet_calls published_row_def)
  show ?thesis
    using published_profile_immutable [OF run_refl published_example run_refl g] g
    by (simp add: published_row_def)
qed

end
