(* ===== verification/Reconciler.thy ===== *)
theory Reconciler
  imports Profile_Registry
begin

text \<open>
  \<open>WorkloadReconciler\<close> (\<^verbatim>\<open>actium-node-core/src/workload_runtime/reconciler.rs\<close>): one run of
  \<open>reconcile\<close> from a desired state to a signed receipt, a rollback to the generation before, or a
  failure that needs the operator; with the receipt's signature of \<^verbatim>\<open>ipc_boundary.rs\<close> and the
  identifier check of \<^verbatim>\<open>executor.rs\<close>.

  The container runtime, the volume, secret and ingress providers, the file system and the clock
  are the record \<open>providers\<close>: each call takes the state \<open>'x\<close> of that outside world to the next one
  and answers, or fails. The store, the registry and the planner are those of this development.
\<close>

section \<open>Effects\<close>

record project_component =
  pj_name :: string
  pj_status :: component_status
  pj_labels :: "string \<rightharpoonup> string"

record project_inspection =
  pi_exists :: bool
  pi_components :: "project_component list"

record 'x providers =
  pv_lib :: planner_lib
  pv_sql :: "nat \<Rightarrow> sql_world"
  pv_base_root :: string
  pv_sign :: "string \<Rightarrow> string"
  pv_inspect :: "string \<Rightarrow> 'x \<Rightarrow> 'x \<times> (workload_error + project_inspection)"
  pv_apply :: "workload_plan \<Rightarrow> 'x \<Rightarrow> 'x \<times> (workload_error + component_observation list)"
  pv_stop :: "string \<Rightarrow> u32 \<Rightarrow> 'x \<Rightarrow> 'x \<times> (workload_error + unit)"
  pv_start :: "string \<Rightarrow> 'x \<Rightarrow> 'x \<times> (workload_error + unit)"
  pv_down :: "string \<Rightarrow> 'x \<Rightarrow> 'x \<times> (workload_error + unit)"
  pv_probe :: "string \<Rightarrow> string \<Rightarrow> planned_health_check \<Rightarrow> 'x \<Rightarrow> 'x \<times> (workload_error + bool)"
  pv_capture :: "string \<Rightarrow> u64 \<Rightarrow> string \<Rightarrow> string \<Rightarrow> 'x \<Rightarrow> 'x \<times> (workload_error + string)"
  pv_restore :: "string \<Rightarrow> string \<Rightarrow> 'x \<Rightarrow> 'x \<times> (workload_error + unit)"
  pv_resolve_secret :: "string \<Rightarrow> string \<Rightarrow> u64 \<Rightarrow> 'x \<Rightarrow> 'x \<times> (workload_error + string)"
  pv_mount_tmpfs :: "string \<Rightarrow> string \<Rightarrow> 'x \<Rightarrow> 'x \<times> (workload_error + unit)"
  pv_create_dir_all :: "string \<Rightarrow> 'x \<Rightarrow> 'x \<times> (string + unit)"
  pv_configure_ingress :: "string \<Rightarrow> u64 \<Rightarrow> workload_plan \<Rightarrow> 'x \<Rightarrow> 'x \<times> (workload_error + unit)"
  pv_teardown_ingress :: "string \<Rightarrow> u64 \<Rightarrow> 'x \<Rightarrow> 'x \<times> (workload_error + unit)"
  pv_now_ms :: "'x \<Rightarrow> nat"
  pv_sleep_ms :: "nat \<Rightarrow> 'x \<Rightarrow> 'x"

text \<open>
  A computation of the reconciler: from a state to a state and a result, \<^const>\<open>Inl\<close> for an error
  that \<open>?\<close> returns; \<^const>\<open>None\<close> is a call that does not return. The calls of the database are
  numbered, so that each one meets its own faults.
\<close>

record 'x rc_state =
  rs_env :: 'x
  rs_db :: workload_db
  rs_profiles :: profile_table
  rs_calls :: nat

type_synonym ('x, 'a) rc = "'x rc_state \<Rightarrow> ('x rc_state \<times> (workload_error + 'a)) option"

definition rc_return :: "'a \<Rightarrow> ('x, 'a) rc" where
  "rc_return a s = Some (s, Inr a)"

definition rc_lift :: "workload_error + 'a \<Rightarrow> ('x, 'a) rc" where
  "rc_lift r s = Some (s, r)"

definition rc_bind :: "('x, 'a) rc \<Rightarrow> ('a \<Rightarrow> ('x, 'b) rc) \<Rightarrow> ('x, 'b) rc" where
  "rc_bind m f s = (case m s of
     None \<Rightarrow> None
   | Some (s', Inl e) \<Rightarrow> Some (s', Inl e)
   | Some (s', Inr a) \<Rightarrow> f a s')"

text \<open>\<open>let _ = call\<close> and \<open>if let Ok(..) = call\<close>: the result is a value.\<close>

definition rc_attempt :: "('x, 'a) rc \<Rightarrow> ('x, workload_error + 'a) rc" where
  "rc_attempt m s = (case m s of None \<Rightarrow> None | Some (s', r) \<Rightarrow> Some (s', Inr r))"

definition rc_ext :: "('x \<Rightarrow> 'x \<times> (workload_error + 'a)) \<Rightarrow> ('x, 'a) rc" where
  "rc_ext f s = (case f (rs_env s) of (x, r) \<Rightarrow> Some (s\<lparr> rs_env := x \<rparr>, r))"

definition rc_store ::
  "'x providers \<Rightarrow> (sql_world \<Rightarrow> workload_db \<Rightarrow> workload_db \<times> (workload_error + 'a)) \<Rightarrow> ('x, 'a) rc" where
  "rc_store p f s = (case f (pv_sql p (rs_calls s)) (rs_db s) of
     (db, r) \<Rightarrow> Some (s\<lparr> rs_db := db, rs_calls := Suc (rs_calls s) \<rparr>, r))"

definition rc_query ::
  "'x providers \<Rightarrow> (sql_world \<Rightarrow> 'x rc_state \<Rightarrow> workload_error + 'a) \<Rightarrow> ('x, 'a) rc" where
  "rc_query p f s = Some (s\<lparr> rs_calls := Suc (rs_calls s) \<rparr>, f (pv_sql p (rs_calls s)) s)"

fun rc_foreach :: "('b \<Rightarrow> ('x, unit) rc) \<Rightarrow> 'b list \<Rightarrow> ('x, unit) rc" where
  "rc_foreach f [] = rc_return ()"
| "rc_foreach f (b # bs) = rc_bind (f b) (\<lambda>_. rc_foreach f bs)"

section \<open>Receipts\<close>

record workload_receipt =
  wr_schema :: string
  wr_receipt_id :: string
  wr_deployment_id :: string
  wr_generation :: u64
  wr_plan_digest :: string
  wr_overall_status :: component_status
  wr_components :: "component_observation list"
  wr_issued_at :: u64
  wr_signature :: string

definition workload_receipt_schema :: string where
  "workload_receipt_schema = ''actium-workload-deployment-receipt@1.0.0''"

fun status_text :: "component_status \<Rightarrow> string" where
  "status_text C_Pending = ''PENDING''"
| "status_text C_Ready = ''READY''"
| "status_text C_Degraded = ''DEGRADED''"
| "status_text C_Failed = ''FAILED''"
| "status_text C_Stopped = ''STOPPED''"

fun status_debug :: "component_status \<Rightarrow> string" where
  "status_debug C_Pending = ''Pending''"
| "status_debug C_Ready = ''Ready''"
| "status_debug C_Degraded = ''Degraded''"
| "status_debug C_Failed = ''Failed''"
| "status_debug C_Stopped = ''Stopped''"

definition observation_json :: "component_observation \<Rightarrow> json" where
  "observation_json ob = JObject [(''componentId'', JString (ob_component_id ob)),
     (''status'', JString (status_text (ob_status ob)))]"

definition receipt_members :: "workload_receipt \<Rightarrow> (string \<times> json) list" where
  "receipt_members r =
     [(''schema'', JString (wr_schema r)), (''receiptId'', JString (wr_receipt_id r)),
      (''deploymentId'', JString (wr_deployment_id r)), (''generation'', json_nat_word (wr_generation r)),
      (''planDigest'', JString (wr_plan_digest r)),
      (''overallStatus'', JString (status_text (wr_overall_status r))),
      (''components'', JArray (map observation_json (wr_components r))),
      (''issuedAt'', json_nat_word (wr_issued_at r)), (''signature'', JString (wr_signature r))]"

definition receipt_signing_bytes :: "(string \<Rightarrow> string) \<Rightarrow> workload_receipt \<Rightarrow> string" where
  "receipt_signing_bytes esc r =
     domain_receipt @ rfc8785_canonical_json esc (remove_members [''signature''] (JObject (receipt_members r)))"

definition sign_receipt_with_key :: "'x providers \<Rightarrow> workload_receipt \<Rightarrow> workload_receipt" where
  "sign_receipt_with_key p r =
     r\<lparr> wr_signature := pv_sign p (receipt_signing_bytes (pl_esc (pv_lib p)) r) \<rparr>"

definition unsigned_receipt ::
  "string \<Rightarrow> u64 \<Rightarrow> string \<Rightarrow> component_status \<Rightarrow> component_observation list \<Rightarrow> u64 \<Rightarrow> workload_receipt" where
  "unsigned_receipt dep gen digest overall obs now =
     \<lparr> wr_schema = workload_receipt_schema, wr_receipt_id = ''rcpt-'' @ dep @ ''-'' @ show_word gen,
       wr_deployment_id = dep, wr_generation = gen, wr_plan_digest = digest, wr_overall_status = overall,
       wr_components = obs, wr_issued_at = now, wr_signature = [] \<rparr>"

datatype reconciliation_outcome =
    Success workload_receipt
  | RolledBack string u64
  | FailedRequiresOperator string

section \<open>Identifiers and paths\<close>

text \<open>The regular expression \<open>^[a-z0-9]+(?:[._-][a-z0-9]+)*$\<close>; \<open>seen\<close>: the last character was of the first kind.\<close>

definition ident_char :: "char \<Rightarrow> bool" where
  "ident_char c = (is_ascii_lower c \<or> is_ascii_digit c)"

fun path_ident_from :: "bool \<Rightarrow> string \<Rightarrow> bool" where
  "path_ident_from seen [] = seen"
| "path_ident_from seen (c # r) =
     (if ident_char c then path_ident_from True r
      else if c = CHR ''.'' \<or> c = CHR ''_'' \<or> c = CHR ''-'' then seen \<and> path_ident_from False r
      else False)"

definition validate_path_identifier :: "string \<Rightarrow> workload_error + unit" where
  "validate_path_identifier i =
     (if path_ident_from False i then Inr ()
      else Inl (ValidationFailed (''Identifier '' @ quoted i @ '' does not match required safe pattern ''
        @ quoted ''^[a-z0-9]+(?:[._-][a-z0-9]+)*$'')))"

text \<open>\<open>Path::join\<close> on Unix.\<close>

definition path_join :: "string \<Rightarrow> string \<Rightarrow> string" where
  "path_join a b =
     (if prefix ''/'' b then b
      else if a = [] \<or> last a = CHR ''/'' then a @ b else a @ ''/'' @ b)"

definition secret_staging_dir :: "'x providers \<Rightarrow> string \<Rightarrow> u64 \<Rightarrow> string" where
  "secret_staging_dir p dep gen =
     path_join (path_join (path_join (pv_base_root p) ''secrets'') dep) (''gen-'' @ show_word gen)"

section \<open>Failure and rollback\<close>

definition observations_of :: "project_inspection \<Rightarrow> component_observation list" where
  "observations_of insp = map (\<lambda>c. \<lparr> ob_component_id = pj_name c, ob_status = pj_status c \<rparr>) (pi_components insp)"

definition journal :: "'x providers \<Rightarrow> string \<Rightarrow> u64 \<Rightarrow> string \<Rightarrow> string \<Rightarrow> u64 \<Rightarrow> ('x, unit) rc" where
  "journal p dep gen phase detail now = rc_store p (\<lambda>w. record_journal w dep gen phase detail now)"

definition required_volumes :: "workload_plan \<Rightarrow> (string \<times> string) list" where
  "required_volumes plan =
     concat (map (\<lambda>c. map (\<lambda>v. (vm_volume_id v, vm_host_path v)) (pc_volume_mounts c)) (wp_components plan))"

text \<open>The operation is closed as failed and the operator is called in.\<close>

definition fail_to_operator ::
  "'x providers \<Rightarrow> string \<Rightarrow> u64 \<Rightarrow> string \<Rightarrow> string \<Rightarrow> string \<Rightarrow> u64 \<Rightarrow> ('x, reconciliation_outcome) rc" where
  "fail_to_operator p dep gen op_id detail reason now =
     rc_bind (rc_store p (\<lambda>w. update_operation_state w op_id ''FAILED'' (Some now))) (\<lambda>_.
     rc_bind (journal p dep gen ''FAILED_REQUIRES_OPERATOR'' detail now) (\<lambda>_.
     rc_return (FailedRequiresOperator reason)))"

text \<open>The first volume whose snapshot cannot be restored, with the error.\<close>

fun restore_volumes ::
  "'x providers \<Rightarrow> (string \<rightharpoonup> string) \<Rightarrow> (string \<times> string) list \<Rightarrow> ('x, (string \<times> workload_error) option) rc" where
  "restore_volumes p snaps [] = rc_return None"
| "restore_volumes p snaps ((vid, host_path) # vs) =
     (case snaps vid of
        None \<Rightarrow> restore_volumes p snaps vs
      | Some path \<Rightarrow> rc_bind (rc_attempt (rc_ext (pv_restore p path host_path))) (\<lambda>r.
          case r of Inl e \<Rightarrow> rc_return (Some (vid, e)) | Inr _ \<Rightarrow> restore_volumes p snaps vs))"

definition previous_desired :: "string \<Rightarrow> u64 \<Rightarrow> deployment_record \<Rightarrow> json" where
  "previous_desired dep lkg d = JObject
     [(''deploymentId'', JString dep), (''desiredDigest'', JString (dr_desired_digest d)),
      (''generation'', json_nat_word lkg), (''profileId'', JString (dr_profile_id d)),
      (''profileVersion'', JString (dr_profile_version d)),
      (''schema'', JString desired_workload_state_schema), (''targetState'', JString ''ACTIVE'')]"

definition planner_version :: string where
  "planner_version = ''actium-planner-v1.5''"

definition rc_plan ::
  "'x providers \<Rightarrow> string \<Rightarrow> string \<Rightarrow> string \<Rightarrow> u64 \<Rightarrow> ('x, workload_plan) rc" where
  "rc_plan p desired_json manifest host_caps now s =
     map_option (\<lambda>r. (s, r)) (plan_workload (pv_lib p) desired_json manifest host_caps (Some planner_version) (Some now))"

text \<open>Starting the last known good generation, or planning and applying it again.\<close>

definition reactivate_lkg ::
  "'x providers \<Rightarrow> string \<Rightarrow> u64 \<Rightarrow> string \<Rightarrow> workload_plan \<Rightarrow> u64 \<Rightarrow> ('x, unit) rc" where
  "reactivate_lkg p dep lkg lkg_project failed_plan now =
     rc_bind (rc_ext (pv_inspect p lkg_project)) (\<lambda>insp.
     if pi_exists insp
     then rc_bind (rc_attempt (rc_ext (pv_start p lkg_project))) (\<lambda>_. rc_return ())
     else rc_bind (rc_query p (\<lambda>w s. get_deployment w dep (rs_db s))) (\<lambda>d.
       case d of None \<Rightarrow> rc_return () | Some d \<Rightarrow>
       rc_bind (rc_query p (\<lambda>w s. get_profile w (dr_profile_id d) (dr_profile_version d) (rs_profiles s))) (\<lambda>rec.
       case rec of None \<Rightarrow> rc_return () | Some rec \<Rightarrow>
       rc_bind (rc_attempt (rc_plan p (json_text (pl_esc (pv_lib p)) (previous_desired dep lkg d))
           (pr_manifest_json rec) (wp_host_capabilities_digest failed_plan) now)) (\<lambda>r.
       case r of Inl _ \<Rightarrow> rc_return ()
       | Inr lkg_plan \<Rightarrow> rc_bind (rc_attempt (rc_ext (pv_apply p lkg_plan))) (\<lambda>_. rc_return ())))))"

definition handle_failure_or_rollback ::
  "'x providers \<Rightarrow> string \<Rightarrow> u64 \<Rightarrow> string \<Rightarrow> string \<Rightarrow> workload_plan \<Rightarrow> u64 \<Rightarrow> ('x, reconciliation_outcome) rc" where
  "handle_failure_or_rollback p dep failed_gen op_id reason failed_plan now =
     rc_bind (rc_attempt (rc_ext (pv_teardown_ingress p dep failed_gen))) (\<lambda>_.
     rc_bind (rc_query p (\<lambda>w s. get_durable_snapshots_for_generation w dep failed_gen (rs_db s))) (\<lambda>snaps.
     if failed_gen > 1 \<and> list_all (\<lambda>v. snaps (fst v) \<noteq> None) (required_volumes failed_plan)
     then
       (let lkg = failed_gen - 1;
            lkg_project = deterministic_compose_project_id (pl_esc (pv_lib p)) (pl_sha (pv_lib p)) dep lkg in
        rc_bind (rc_attempt (rc_ext (pv_down p (wp_compose_project_id failed_plan)))) (\<lambda>_.
        rc_bind (restore_volumes p snaps (required_volumes failed_plan)) (\<lambda>bad.
        case bad of
          Some (vid, e) \<Rightarrow>
            (let detail = ''Snapshot restore failed for volume '' @ vid @ '': '' @ show_workload_error e in
             fail_to_operator p dep failed_gen op_id detail detail now)
        | None \<Rightarrow>
            rc_bind (reactivate_lkg p dep lkg lkg_project failed_plan now) (\<lambda>_.
            rc_bind (rc_ext (pv_inspect p lkg_project)) (\<lambda>reality.
            if \<not> pi_exists reality \<or> overall_from_components (observations_of reality) \<noteq> C_Ready
            then (let detail = reason @ '': LKG reactivation failed to achieve Ready'' in
              fail_to_operator p dep failed_gen op_id detail detail now)
            else rc_bind (rc_store p (\<lambda>w. commit_rollback_tx w op_id dep failed_gen lkg reason now)) (\<lambda>_.
              rc_return (RolledBack reason lkg)))))))
     else fail_to_operator p dep failed_gen op_id reason
       (reason @ '': Missing durable pre-mutation snapshot or initial generation failure'') now))"

section \<open>The phases of a reconciliation\<close>

definition component_steps :: "(planned_component \<Rightarrow> 'b \<Rightarrow> ('x, unit) rc) \<Rightarrow> (planned_component \<Rightarrow> 'b list)
    \<Rightarrow> workload_plan \<Rightarrow> ('x, unit) rc" where
  "component_steps f items plan =
     rc_foreach (\<lambda>c. rc_foreach (f c) (items c)) (wp_components plan)"

definition capture_volume ::
  "'x providers \<Rightarrow> string \<Rightarrow> u64 \<Rightarrow> u64 \<Rightarrow> planned_component \<Rightarrow> planned_volume_mount \<Rightarrow> ('x, unit) rc" where
  "capture_volume p dep gen now c vol =
     rc_bind (rc_ext (pv_capture p dep gen (vm_volume_id vol) (vm_host_path vol))) (\<lambda>path.
     rc_store p (\<lambda>w. record_snapshot w
       (''snap-'' @ dep @ ''-'' @ show_word gen @ ''-'' @ vm_volume_id vol @ ''-'' @ show_word now)
       dep gen (vm_volume_id vol) path now True))"

definition create_dir :: "'x providers \<Rightarrow> string \<Rightarrow> string \<Rightarrow> ('x, unit) rc" where
  "create_dir p pre path = rc_ext (\<lambda>x. case pv_create_dir_all p path x of
     (x', Inl e) \<Rightarrow> (x', Inl (ExecutionError (pre @ e))) | (x', Inr u) \<Rightarrow> (x', Inr u))"

definition deliver_secret ::
  "'x providers \<Rightarrow> string \<Rightarrow> planned_component \<Rightarrow> planned_secret_mount \<Rightarrow> ('x, unit) rc" where
  "deliver_secret p staging c m =
     (if sm_injection_mode m = ''TMPFS_FILE''
      then rc_bind (rc_lift (validate_path_identifier (pc_component_id c))) (\<lambda>_.
           rc_bind (rc_lift (validate_path_identifier (sm_secret_id m))) (\<lambda>_.
           rc_bind (rc_ext (pv_resolve_secret p (sm_secret_id m) (sm_purpose m) (sm_secret_generation m))) (\<lambda>secret.
           let dir = path_join staging (pc_component_id c) in
           rc_bind (create_dir p ''Failed to create comp secret dir: '' dir) (\<lambda>_.
           rc_ext (pv_mount_tmpfs p secret (path_join dir (sm_secret_id m)))))))
      else rc_return ())"

definition deliver_secrets :: "'x providers \<Rightarrow> string \<Rightarrow> u64 \<Rightarrow> workload_plan \<Rightarrow> ('x, unit) rc" where
  "deliver_secrets p dep gen plan =
     rc_bind (rc_lift (validate_path_identifier dep)) (\<lambda>_.
     rc_bind (create_dir p ''Failed to create secret dir: '' (secret_staging_dir p dep gen)) (\<lambda>_.
     component_steps (deliver_secret p (secret_staging_dir p dep gen)) pc_secret_mounts plan))"

definition stopped_components :: "workload_plan \<Rightarrow> component_observation list" where
  "stopped_components plan =
     map (\<lambda>c. \<lparr> ob_component_id = pc_component_id c, ob_status = C_Stopped \<rparr>) (wp_components plan)"

definition stop_workload :: "'x providers \<Rightarrow> workload_plan \<Rightarrow> ('x, component_observation list) rc" where
  "stop_workload p plan =
     rc_bind (rc_ext (pv_inspect p (wp_compose_project_id plan))) (\<lambda>insp.
     if pi_exists insp
     then rc_bind (rc_ext (pv_stop p (wp_compose_project_id plan) 10)) (\<lambda>_.
          rc_bind (rc_ext (pv_inspect p (wp_compose_project_id plan))) (\<lambda>post.
          rc_return (observations_of post)))
     else rc_return (stopped_components plan))"

text \<open>The strategy \<open>replace\<close>: the generation before is stopped, errors of the runtime are ignored.\<close>

definition stop_previous :: "'x providers \<Rightarrow> string \<Rightarrow> u64 \<Rightarrow> workload_plan \<Rightarrow> u64 \<Rightarrow> ('x, unit) rc" where
  "stop_previous p dep gen plan now =
     (if up_strategy (wp_upgrade_policy plan) = ''replace'' \<and> gen > 1
      then (let prev = deterministic_compose_project_id (pl_esc (pv_lib p)) (pl_sha (pv_lib p)) dep (gen - 1) in
        rc_bind (rc_attempt (rc_ext (pv_inspect p prev))) (\<lambda>r.
        case r of Inl _ \<Rightarrow> rc_return ()
        | Inr insp \<Rightarrow>
            if pi_exists insp
            then rc_bind (journal p dep gen ''UPGRADE_REPLACE_STOP_OLD'' prev now) (\<lambda>_.
                 rc_bind (rc_attempt (rc_ext (pv_stop p prev 10))) (\<lambda>_. rc_return ()))
            else rc_return ()))
      else rc_return ())"

definition adopts_plan :: "workload_plan \<Rightarrow> project_inspection \<Rightarrow> bool" where
  "adopts_plan plan insp =
     list_all (\<lambda>c. pj_labels c ''actium.plan_digest'' = Some (wp_plan_digest plan)) (pi_components insp)"

text \<open>
  Phase 2. The outer result is an error that \<open>?\<close> returns, the inner one the value \<open>mutation_res\<close>.
\<close>

definition mutate_workload ::
  "'x providers \<Rightarrow> string \<Rightarrow> u64 \<Rightarrow> workload_plan \<Rightarrow> u64 \<Rightarrow> ('x, workload_error + component_observation list) rc" where
  "mutate_workload p dep gen plan now =
     (if wp_desired_state plan = ''STOPPED''
      then rc_bind (stop_workload p plan) (\<lambda>obs. rc_return (Inr obs))
      else rc_bind (stop_previous p dep gen plan now) (\<lambda>_.
           rc_bind (rc_ext (pv_inspect p (wp_compose_project_id plan))) (\<lambda>insp.
           if pi_exists insp \<and> adopts_plan plan insp
           then rc_return (Inr (observations_of insp))
           else rc_attempt (rc_ext (pv_apply p plan)))))"

definition is_pending :: "component_observation \<Rightarrow> bool" where
  "is_pending ob = (ob_status ob = C_Pending)"

definition is_failed :: "component_observation \<Rightarrow> bool" where
  "is_failed ob = (ob_status ob = C_Failed)"

definition settled :: "component_observation list \<Rightarrow> bool" where
  "settled obs = (\<not> list_ex is_pending obs \<or> list_ex is_failed obs)"

text \<open>The wait loop; it ends when the components have settled or the deadline has passed.\<close>

partial_function (option) converge ::
  "'x providers \<Rightarrow> string \<Rightarrow> nat \<Rightarrow> component_observation list \<Rightarrow> 'x rc_state
    \<Rightarrow> ('x rc_state \<times> (workload_error + component_observation list)) option" where
  "converge p project deadline obs s =
     (if settled obs \<or> deadline \<le> pv_now_ms p (rs_env s) then Some (s, Inr obs)
      else case pv_inspect p project (pv_sleep_ms p 200 (rs_env s)) of
        (x, r) \<Rightarrow> converge p project deadline
          (case r of Inr insp \<Rightarrow> observations_of insp | Inl _ \<Rightarrow> obs) (s\<lparr> rs_env := x \<rparr>))"

definition wait_converged ::
  "'x providers \<Rightarrow> string \<Rightarrow> component_observation list \<Rightarrow> ('x, component_observation list) rc" where
  "wait_converged p project obs s = converge p project (pv_now_ms p (rs_env s) + 30000) obs s"

definition probe_failure :: "component_observation list \<Rightarrow> planned_component \<Rightarrow> component_observation option" where
  "probe_failure obs c =
     (case (pc_health_check c, find (\<lambda>ob. ob_component_id ob = pc_component_id c) obs) of
        (Some _, Some ob) \<Rightarrow> if ob_status ob \<noteq> C_Ready then Some ob else None
      | _ \<Rightarrow> None)"

definition first_unhealthy ::
  "component_observation list \<Rightarrow> workload_plan \<Rightarrow> planned_component option" where
  "first_unhealthy obs plan = find (\<lambda>c. probe_failure obs c \<noteq> None) (wp_components plan)"

text \<open>The first readiness check that does not pass, by its component.\<close>

fun run_readiness ::
  "'x providers \<Rightarrow> string \<Rightarrow> planned_health_check list \<Rightarrow> ('x, string option) rc" where
  "run_readiness p project [] = rc_return None"
| "run_readiness p project (rc # rcs) =
     rc_bind (rc_ext (pv_probe p project (unwrap_or (hc_component_id rc) []) rc)) (\<lambda>passed.
     if passed then run_readiness p project rcs
     else rc_return (Some (unwrap_or (hc_component_id rc) [])))"

text \<open>
  Phase 3: the observations to commit, or the journal entry and the reason of the rollback.
\<close>

definition gate_running ::
  "'x providers \<Rightarrow> workload_plan \<Rightarrow> component_observation list
    \<Rightarrow> ('x, (string \<times> string \<times> string) + component_observation list) rc" where
  "gate_running p plan obs0 =
     rc_bind (wait_converged p (wp_compose_project_id plan) obs0) (\<lambda>obs.
     case first_unhealthy obs plan of
       Some c \<Rightarrow> rc_return (Inl (''HEALTH_FAIL'',
         ''Component '' @ quoted (pc_component_id c) @ '' liveness probe failed (status: ''
           @ (case probe_failure obs c of Some ob \<Rightarrow> status_debug (ob_status ob) | None \<Rightarrow> []) @ '')'',
         ''Health check probe failed for component '' @ quoted (pc_component_id c)))
     | None \<Rightarrow>
         rc_bind (run_readiness p (wp_compose_project_id plan) (unwrap_or (wp_readiness_checks plan) [])) (\<lambda>bad.
         case bad of
           Some cid \<Rightarrow> rc_return (Inl (''READINESS_FAIL'',
             ''Component '' @ quoted cid @ '' readiness probe failed execution'',
             ''Readiness probe failed execution for component '' @ quoted cid))
         | None \<Rightarrow>
             if overall_from_components obs \<noteq> C_Ready
             then rc_return (Inl (''HEALTH_FAIL'', ''Probes failed'', ''Health and readiness checks failed''))
             else rc_return (Inr obs)))"

definition gate_stopped ::
  "component_observation list \<Rightarrow> (string \<times> string \<times> string) + component_observation list" where
  "gate_stopped obs =
     (if overall_from_components obs \<noteq> C_Stopped
      then Inl (''STOP_FAIL'', ''Components failed to converge to STOPPED'', ''Components failed to stop'')
      else Inr obs)"

section \<open>Reconciliation\<close>

record reconcile_request =
  want_deployment :: string
  want_generation :: u64
  want_profile_id :: string
  want_profile_version :: string
  want_desired_digest :: string

definition read_request :: "planner_lib \<Rightarrow> string \<Rightarrow> workload_error + reconcile_request" where
  "read_request lib desired_json =
     res_bind (case pl_parse lib desired_json of
       Inr v \<Rightarrow> Inr v | Inl e \<Rightarrow> Inl (ValidationFailed (''Invalid desired state JSON: '' @ e))) (\<lambda>v.
     res_bind (require ''Missing deploymentId'' (get_str ''deploymentId'' v)) (\<lambda>dep.
     res_bind (require ''Missing generation'' (get_u64 ''generation'' v)) (\<lambda>gen.
     res_bind (require ''Missing profileId'' (get_str ''profileId'' v)) (\<lambda>pid.
     res_bind (require ''Missing profileVersion'' (get_str ''profileVersion'' v)) (\<lambda>ver.
     Inr \<lparr> want_deployment = dep, want_generation = gen, want_profile_id = pid, want_profile_version = ver,
       want_desired_digest = (case get_str ''desiredDigest'' v of
           Some d \<Rightarrow> d
         | None \<Rightarrow> (case canonical_digest_for_value (pl_esc lib) (pl_sha lib) v of Inr d \<Rightarrow> d | Inl _ \<Rightarrow> [])) \<rparr>)))))"

definition is_stopped :: "workload_plan \<Rightarrow> bool" where
  "is_stopped plan = (wp_desired_state plan = ''STOPPED'')"

definition expected_status :: "workload_plan \<Rightarrow> string" where
  "expected_status plan = (if is_stopped plan then ''STOPPED'' else ''ACTIVE'')"

definition expected_overall :: "workload_plan \<Rightarrow> component_status" where
  "expected_overall plan = (if is_stopped plan then C_Stopped else C_Ready)"

definition operation_id :: "string \<Rightarrow> u64 \<Rightarrow> u64 \<Rightarrow> string" where
  "operation_id dep gen now = ''op-'' @ dep @ ''-gen-'' @ show_word gen @ ''-'' @ show_word now"

text \<open>An attached operation whose deployment already is what is asked for is answered at once.\<close>

definition attached_receipt ::
  "'x providers \<Rightarrow> string \<Rightarrow> u64 \<Rightarrow> workload_plan \<Rightarrow> u64 \<Rightarrow> ('x, workload_receipt option) rc" where
  "attached_receipt p dep gen plan now =
     rc_bind (rc_query p (\<lambda>w s. get_deployment w dep (rs_db s))) (\<lambda>d.
     case d of
       None \<Rightarrow> rc_return None
     | Some d \<Rightarrow>
         if dr_active_generation d = gen \<and> dr_plan_digest d = wp_plan_digest plan \<and> dr_status d = expected_status plan
         then rc_bind (rc_ext (pv_inspect p (wp_compose_project_id plan))) (\<lambda>insp.
           let obs = (if pi_exists insp then observations_of insp
                      else if is_stopped plan then stopped_components plan else [])
           in if overall_from_components obs = expected_overall plan
              then rc_return (Some (sign_receipt_with_key p
                (unsigned_receipt dep gen (wp_plan_digest plan) (expected_overall plan) obs now)))
              else rc_return None)
         else rc_return None)"

definition commit_of ::
  "reconcile_request \<Rightarrow> workload_plan \<Rightarrow> string \<Rightarrow> workload_receipt \<Rightarrow> string \<Rightarrow> u64 \<Rightarrow> commit_request" where
  "commit_of q plan op_id receipt receipt_text now =
     \<lparr> cq_op_id = op_id, cq_deployment_id = want_deployment q, cq_generation = want_generation q,
       cq_profile_id = want_profile_id q, cq_profile_version = want_profile_version q,
       cq_desired_digest = wp_desired_digest plan, cq_plan_digest = wp_plan_digest plan,
       cq_overall_status = (if is_stopped plan then ''STOPPED'' else ''READY''),
       cq_deployment_status = expected_status plan, cq_receipt_id = wr_receipt_id receipt,
       cq_receipt_json = receipt_text, cq_receipt_signature = wr_signature receipt, cq_now = now \<rparr>"

text \<open>Ingress and phase 4: the receipt is signed and committed together with the deployment.\<close>

definition commit_phase ::
  "'x providers \<Rightarrow> reconcile_request \<Rightarrow> workload_plan \<Rightarrow> string \<Rightarrow> component_observation list \<Rightarrow> u64
    \<Rightarrow> ('x, reconciliation_outcome) rc" where
  "commit_phase p q plan op_id obs now =
     rc_bind (if is_stopped plan
         then rc_bind (rc_attempt (rc_ext (pv_teardown_ingress p (want_deployment q) (want_generation q)))) (\<lambda>_. rc_return ())
         else rc_ext (pv_configure_ingress p (want_deployment q) (want_generation q) plan)) (\<lambda>_.
     let receipt = sign_receipt_with_key p (unsigned_receipt (want_deployment q) (want_generation q)
           (wp_plan_digest plan) (expected_overall plan) obs now);
         receipt_text = json_text (pl_esc (pv_lib p)) (JObject (receipt_members receipt))
     in rc_bind (rc_store p (\<lambda>w. commit_reconciliation_tx2 w (commit_of q plan op_id receipt receipt_text now))) (\<lambda>_.
        rc_return (Success receipt)))"

text \<open>From the reservation on: everything the run does for its own operation.\<close>

definition drive_workload ::
  "'x providers \<Rightarrow> reconcile_request \<Rightarrow> workload_plan \<Rightarrow> string \<Rightarrow> u64 \<Rightarrow> ('x, reconciliation_outcome) rc" where
  "drive_workload p q plan op_id now =
     (let dep = want_deployment q; gen = want_generation q in
     rc_bind (rc_store p (\<lambda>w. update_operation_state w op_id ''STARTING'' None)) (\<lambda>_.
     rc_bind (journal p dep gen ''PLAN'' (wp_plan_digest plan) now) (\<lambda>_.
     rc_bind (component_steps (capture_volume p dep gen now) pc_volume_mounts plan) (\<lambda>_.
     rc_bind (deliver_secrets p dep gen plan) (\<lambda>_.
     rc_bind (mutate_workload p dep gen plan now) (\<lambda>mutation.
     case mutation of
       Inl e \<Rightarrow>
         rc_bind (journal p dep gen ''MUTATION_FAIL'' (show_workload_error e) now) (\<lambda>_.
         handle_failure_or_rollback p dep gen op_id (''Mutation failed: '' @ show_workload_error e) plan now)
     | Inr obs0 \<Rightarrow>
         rc_bind (if is_stopped plan then rc_return (gate_stopped obs0) else gate_running p plan obs0) (\<lambda>gate.
         case gate of
           Inl (phase, detail, reason) \<Rightarrow>
             rc_bind (journal p dep gen phase detail now) (\<lambda>_.
             handle_failure_or_rollback p dep gen op_id reason plan now)
         | Inr obs \<Rightarrow> commit_phase p q plan op_id obs now)))))))"

text \<open>From the reservation of the operation to the outcome.\<close>

definition run_planned ::
  "'x providers \<Rightarrow> reconcile_request \<Rightarrow> workload_plan \<Rightarrow> u64 \<Rightarrow> ('x, reconciliation_outcome) rc" where
  "run_planned p q plan now =
     (let op_id = operation_id (want_deployment q) (want_generation q) now in
     rc_bind (rc_store p (\<lambda>w. reserve_operation w op_id (want_deployment q) (want_generation q)
         (wp_desired_digest plan) (wp_plan_digest plan) now)) (\<lambda>reservation.
     rc_bind (case reservation of
         AttachedIdempotent _ \<Rightarrow> attached_receipt p (want_deployment q) (want_generation q) plan now
       | Reserved _ \<Rightarrow> rc_return None) (\<lambda>attached.
     case attached of
       None \<Rightarrow> drive_workload p q plan op_id now
     | Some receipt \<Rightarrow> rc_return (Success receipt))))"

definition reconcile ::
  "'x providers \<Rightarrow> string \<Rightarrow> string \<Rightarrow> u64 \<Rightarrow> ('x, reconciliation_outcome) rc" where
  "reconcile p host_caps desired_json now =
     rc_bind (rc_lift (read_request (pv_lib p) desired_json)) (\<lambda>q.
     rc_bind (rc_query p (\<lambda>w s. check_generation_monotonicity w (want_deployment q) (want_generation q)
         (want_desired_digest q) (rs_db s))) (\<lambda>_.
     rc_bind (rc_query p (\<lambda>w s. get_profile w (want_profile_id q) (want_profile_version q) (rs_profiles s))) (\<lambda>found.
     rc_bind (rc_lift (require (''Profile '' @ quoted (want_profile_id q @ ''@'' @ want_profile_version q)
         @ '' not found in registry'') found)) (\<lambda>profile.
     rc_bind (rc_plan p desired_json (pr_manifest_json profile) host_caps now) (\<lambda>plan.
     run_planned p q plan now)))))"

section \<open>Reasoning about computations\<close>

text \<open>\<open>rc_keeps I m\<close>: whatever \<open>m\<close> answers, the database still satisfies \<open>I\<close>.\<close>

definition rc_keeps :: "(workload_db \<Rightarrow> bool) \<Rightarrow> ('x, 'a) rc \<Rightarrow> bool" where
  "rc_keeps I m \<longleftrightarrow> (\<forall>s s' r. m s = Some (s', r) \<longrightarrow> I (rs_db s) \<longrightarrow> I (rs_db s'))"

named_theorems rc_rules \<open>preservation rules for computations\<close>

lemma rc_keepsD: "rc_keeps I m \<Longrightarrow> m s = Some (s', r) \<Longrightarrow> I (rs_db s) \<Longrightarrow> I (rs_db s')"
  by (auto simp: rc_keeps_def)

lemma rc_bind_cases:
  assumes "rc_bind m f s = Some (s', r)"
  obtains e where "m s = Some (s', Inl e)" "r = Inl e"
  | s1 a where "m s = Some (s1, Inr a)" "f a s1 = Some (s', r)"
  using assms by (auto simp: rc_bind_def split: option.splits sum.splits)

lemma rc_attempt_cases:
  assumes "rc_attempt m s = Some (s', r)"
  obtains r' where "m s = Some (s', r')" "r = Inr r'"
  using assms by (auto simp: rc_attempt_def split: option.splits)

lemma keeps_return [rc_rules]: "rc_keeps I (rc_return a)"
  by (simp add: rc_keeps_def rc_return_def)

lemma keeps_lift [rc_rules]: "rc_keeps I (rc_lift r)"
  by (simp add: rc_keeps_def rc_lift_def)

lemma keeps_bind [rc_rules]: "rc_keeps I m \<Longrightarrow> (\<And>a. rc_keeps I (f a)) \<Longrightarrow> rc_keeps I (rc_bind m f)"
  unfolding rc_keeps_def by (blast elim: rc_bind_cases)

lemma keeps_attempt [rc_rules]: "rc_keeps I m \<Longrightarrow> rc_keeps I (rc_attempt m)"
  unfolding rc_keeps_def by (blast elim: rc_attempt_cases)

lemma keeps_ext [rc_rules]: "rc_keeps I (rc_ext f)"
  by (auto simp: rc_keeps_def rc_ext_def split: prod.splits)

lemma keeps_query [rc_rules]: "rc_keeps I (rc_query p f)"
  by (auto simp: rc_keeps_def rc_query_def)

lemma keeps_store: "(\<And>w db db' r. f w db = (db', r) \<Longrightarrow> I db \<Longrightarrow> I db') \<Longrightarrow> rc_keeps I (rc_store p f)"
  by (auto simp: rc_keeps_def rc_store_def split: prod.splits)

lemma keeps_plan [rc_rules]: "rc_keeps I (rc_plan p d m h now)"
  by (auto simp: rc_keeps_def rc_plan_def)

lemma keeps_foreach [rc_rules]: "(\<And>b. rc_keeps I (f b)) \<Longrightarrow> rc_keeps I (rc_foreach f bs)"
  by (induction bs) (auto intro: rc_rules)

lemma keeps_if [rc_rules]:
  "(b \<Longrightarrow> rc_keeps I m) \<Longrightarrow> (\<not> b \<Longrightarrow> rc_keeps I m') \<Longrightarrow> rc_keeps I (if b then m else m')"
  by simp

lemma keeps_case_option [rc_rules]:
  "(x = None \<Longrightarrow> rc_keeps I m) \<Longrightarrow> (\<And>a. x = Some a \<Longrightarrow> rc_keeps I (f a)) \<Longrightarrow>
   rc_keeps I (case x of None \<Rightarrow> m | Some a \<Rightarrow> f a)"
  by (cases x) auto

lemma keeps_case_sum [rc_rules]:
  "(\<And>e. x = Inl e \<Longrightarrow> rc_keeps I (g e)) \<Longrightarrow> (\<And>a. x = Inr a \<Longrightarrow> rc_keeps I (f a)) \<Longrightarrow>
   rc_keeps I (case x of Inl e \<Rightarrow> g e | Inr a \<Rightarrow> f a)"
  by (cases x) auto

lemma keeps_case_prod [rc_rules]:
  "(\<And>a b. x = (a, b) \<Longrightarrow> rc_keeps I (f a b)) \<Longrightarrow> rc_keeps I (case x of (a, b) \<Rightarrow> f a b)"
  by (cases x) auto

lemma converge_keeps: "converge p project deadline obs s = Some y \<Longrightarrow> rs_db (fst y) = rs_db s"
  by (erule converge.raw_induct [rotated]) (force split: if_splits prod.splits)

lemma keeps_wait [rc_rules]: "rc_keeps I (wait_converged p project obs)"
  by (auto simp: rc_keeps_def wait_converged_def dest!: converge_keeps)

section \<open>What a run may do to the database\<close>

text \<open>
  The interface between the reconciler and a fact about the store: the fact survives the journal,
  the snapshots and state changes of the run's own operation. Then it survives a whole run, up to
  the two transactions that publish a result.
\<close>

locale run_invariant =
  fixes I :: "workload_db \<Rightarrow> bool" and op_id :: string
  assumes keeps_journal: "I db \<Longrightarrow> I (db\<lparr> db_journal := j \<rparr>)"
    and keeps_snapshots: "I db \<Longrightarrow> I (db\<lparr> db_snapshots := x \<rparr>)"
    and keeps_operation: "I db \<Longrightarrow> update_operations op_id st c db = Inr db' \<Longrightarrow> I db'"
    and keeps_reservation: "I db \<Longrightarrow> op_operation_id row = op_id \<Longrightarrow> insert_operation row db = Inr db' \<Longrightarrow> I db'"
begin

lemma run_exec_keeps:
  assumes "\<And>db'. stmt db = Inr db' \<Longrightarrow> I db'" "exec_stmt w n pre stmt db = (db', r)" "I db"
  shows "I db'"
proof (cases r)
  case (Inl e)
  then show ?thesis using exec_stmt_Inl assms(2,3) by blast
next
  case (Inr u)
  then show ?thesis using exec_stmt_Inr assms(1,2) by blast
qed

lemma record_journal_keeps: "record_journal w dep gen ph d now db = (db', r) \<Longrightarrow> I db \<Longrightarrow> I db'"
  unfolding record_journal_def
  by (erule run_exec_keeps [rotated]) (auto simp: add_journal_def result_simps intro: keeps_journal)

lemma record_snapshot_keeps: "record_snapshot w i dep gen v path now b db = (db', r) \<Longrightarrow> I db \<Longrightarrow> I db'"
  unfolding record_snapshot_def
  by (erule run_exec_keeps [rotated]) (auto simp: result_simps intro: keeps_snapshots)

lemma update_state_keeps: "update_operation_state w op_id st c db = (db', r) \<Longrightarrow> I db \<Longrightarrow> I db'"
  unfolding update_operation_state_def
  by (erule run_exec_keeps [rotated]) (auto simp: result_simps intro: keeps_operation)

lemma reserve_keeps: "reserve_operation w op_id dep gen d pl now db = (db', r) \<Longrightarrow> I db \<Longrightarrow> I db'"
  unfolding reserve_operation_def
  by (auto split: sum.splits option.splits if_splits dest!: sql_call_Inr simp: result_simps
      intro: keeps_reservation [rotated 2])

lemma journal_keeps: "rc_keeps I (journal p dep gen ph d now)"
  unfolding journal_def by (rule keeps_store) (rule record_journal_keeps)

lemma capture_keeps: "rc_keeps I (capture_volume p dep gen now c vol)"
  unfolding capture_volume_def by (intro rc_rules keeps_store) (rule record_snapshot_keeps)

lemma deliver_keeps: "rc_keeps I (deliver_secrets p dep gen plan)"
  unfolding deliver_secrets_def component_steps_def create_dir_def deliver_secret_def Let_def
  by (intro rc_rules)

lemma captures_keep: "rc_keeps I (component_steps (capture_volume p dep gen now) pc_volume_mounts plan)"
  unfolding component_steps_def by (intro rc_rules capture_keeps)

lemma mutate_keeps: "rc_keeps I (mutate_workload p dep gen plan now)"
  unfolding mutate_workload_def stop_workload_def stop_previous_def Let_def
  by (intro rc_rules journal_keeps)

lemma readiness_keeps: "rc_keeps I (run_readiness p project rcs)"
  by (induction rcs) (auto intro!: rc_rules)

lemma gate_keeps: "rc_keeps I (gate_running p plan obs)"
  unfolding gate_running_def by (intro rc_rules readiness_keeps)

lemma restore_keeps: "rc_keeps I (restore_volumes p snaps vs)"
  by (induction p snaps vs rule: restore_volumes.induct) (auto intro!: rc_rules split: option.split)

lemma reactivate_keeps: "rc_keeps I (reactivate_lkg p dep lkg project plan now)"
  unfolding reactivate_lkg_def by (intro rc_rules)

lemma fail_keeps: "rc_keeps I (fail_to_operator p dep gen op_id d r now)"
  unfolding fail_to_operator_def
  by (intro rc_rules journal_keeps keeps_store) (rule update_state_keeps)

end

text \<open>The two transactions that publish, applied to a database that still satisfies \<open>I\<close>.\<close>

definition rolled_back ::
  "(workload_db \<Rightarrow> bool) \<Rightarrow> string \<Rightarrow> u64 \<Rightarrow> string \<Rightarrow> u64 \<Rightarrow> string \<Rightarrow> u64 \<Rightarrow> workload_db \<Rightarrow> bool" where
  "rolled_back I dep gen op_id now reason lkg db \<longleftrightarrow>
     (\<exists>w db0. I db0 \<and> gen > 1 \<and> lkg = gen - 1
       \<and> commit_rollback_tx w op_id dep gen lkg reason now db0 = (db, Inr ()))"

definition committed ::
  "(workload_db \<Rightarrow> bool) \<Rightarrow> 'x providers \<Rightarrow> reconcile_request \<Rightarrow> workload_plan \<Rightarrow> string \<Rightarrow> u64
    \<Rightarrow> workload_receipt \<Rightarrow> workload_db \<Rightarrow> bool" where
  "committed I p q plan op_id now receipt db \<longleftrightarrow>
     (\<exists>w db0 obs receipt_text. I db0 \<and> overall_from_components obs = expected_overall plan
       \<and> receipt = sign_receipt_with_key p (unsigned_receipt (want_deployment q) (want_generation q)
           (wp_plan_digest plan) (expected_overall plan) obs now)
       \<and> commit_reconciliation_tx2 w (commit_of q plan op_id receipt receipt_text now) db0 = (db, Inr ()))"

fun outcome_ok ::
  "(workload_db \<Rightarrow> bool) \<Rightarrow> 'x providers \<Rightarrow> reconcile_request \<Rightarrow> workload_plan \<Rightarrow> string \<Rightarrow> u64
    \<Rightarrow> workload_error + reconciliation_outcome \<Rightarrow> workload_db \<Rightarrow> bool" where
  "outcome_ok I p q plan op_id now (Inl e) db = I db"
| "outcome_ok I p q plan op_id now (Inr (FailedRequiresOperator r)) db = I db"
| "outcome_ok I p q plan op_id now (Inr (RolledBack reason lkg)) db =
     rolled_back I (want_deployment q) (want_generation q) op_id now reason lkg db"
| "outcome_ok I p q plan op_id now (Inr (Success receipt)) db = committed I p q plan op_id now receipt db"

definition attached_ok ::
  "'x providers \<Rightarrow> reconcile_request \<Rightarrow> workload_plan \<Rightarrow> u64 \<Rightarrow> workload_receipt \<Rightarrow> workload_db \<Rightarrow> bool" where
  "attached_ok p q plan now receipt db \<longleftrightarrow>
     (\<exists>d obs. find_deployment (want_deployment q) db = Some d \<and> dr_active_generation d = want_generation q
       \<and> dr_plan_digest d = wp_plan_digest plan \<and> dr_status d = expected_status plan
       \<and> overall_from_components obs = expected_overall plan
       \<and> receipt = sign_receipt_with_key p (unsigned_receipt (want_deployment q) (want_generation q)
           (wp_plan_digest plan) (expected_overall plan) obs now))"

definition run_ok ::
  "(workload_db \<Rightarrow> bool) \<Rightarrow> 'x providers \<Rightarrow> reconcile_request \<Rightarrow> workload_plan \<Rightarrow> string \<Rightarrow> u64
    \<Rightarrow> workload_error + reconciliation_outcome \<Rightarrow> workload_db \<Rightarrow> bool" where
  "run_ok I p q plan op_id now r db \<longleftrightarrow> outcome_ok I p q plan op_id now r db
     \<or> (\<exists>receipt. r = Inr (Success receipt) \<and> I db \<and> attached_ok p q plan now receipt db)"

definition rc_outcome ::
  "(workload_db \<Rightarrow> bool) \<Rightarrow> (workload_error + 'a \<Rightarrow> workload_db \<Rightarrow> bool) \<Rightarrow> ('x, 'a) rc \<Rightarrow> bool" where
  "rc_outcome I Q m \<longleftrightarrow> (\<forall>s s' r. I (rs_db s) \<longrightarrow> m s = Some (s', r) \<longrightarrow> Q r (rs_db s'))"

lemma outcome_bind:
  assumes "rc_keeps I m" "\<And>e db. I db \<Longrightarrow> Q (Inl e) db" "\<And>a. rc_outcome I Q (f a)"
  shows "rc_outcome I Q (rc_bind m f)"
  unfolding rc_outcome_def
proof (intro allI impI)
  fix s s' r assume "I (rs_db s)" "rc_bind m f s = Some (s', r)"
  from this(2) show "Q r (rs_db s')"
  proof (cases rule: rc_bind_cases)
    case (1 e)
    then show ?thesis using assms(1,2) \<open>I (rs_db s)\<close> rc_keepsD by blast
  next
    case (2 s1 a)
    have "I (rs_db s1)" by (rule rc_keepsD [OF assms(1) 2(1) \<open>I (rs_db s)\<close>])
    then show ?thesis using assms(3) 2(2) unfolding rc_outcome_def by blast
  qed
qed

lemma outcome_if:
  "(b \<Longrightarrow> rc_outcome I Q m) \<Longrightarrow> (\<not> b \<Longrightarrow> rc_outcome I Q m') \<Longrightarrow> rc_outcome I Q (if b then m else m')"
  by simp

lemma outcome_option:
  "(x = None \<Longrightarrow> rc_outcome I Q m) \<Longrightarrow> (\<And>a. x = Some a \<Longrightarrow> rc_outcome I Q (f a)) \<Longrightarrow>
   rc_outcome I Q (case x of None \<Rightarrow> m | Some a \<Rightarrow> f a)"
  by (cases x) auto

lemma outcome_sum:
  "(\<And>e. x = Inl e \<Longrightarrow> rc_outcome I Q (g e)) \<Longrightarrow> (\<And>a. x = Inr a \<Longrightarrow> rc_outcome I Q (f a)) \<Longrightarrow>
   rc_outcome I Q (case x of Inl e \<Rightarrow> g e | Inr a \<Rightarrow> f a)"
  by (cases x) auto

lemma outcome_prod:
  "(\<And>a b. x = (a, b) \<Longrightarrow> rc_outcome I Q (f a b)) \<Longrightarrow> rc_outcome I Q (case x of (a, b) \<Rightarrow> f a b)"
  by (cases x) auto

lemmas outcome_rules = outcome_bind outcome_if outcome_option outcome_sum outcome_prod

text \<open>A publishing transaction at the end of a run: all of it, or nothing and an error.\<close>

lemma outcome_publish:
  assumes tx: "\<And>w db db' e. f w db = (db', Inl e) \<Longrightarrow> db' = db"
    and err: "\<And>e db. I db \<Longrightarrow> Q (Inl e) db"
    and ok: "\<And>w db db'. I db \<Longrightarrow> f w db = (db', Inr ()) \<Longrightarrow> Q (Inr a) db'"
  shows "rc_outcome I Q (rc_bind (rc_store p f) (\<lambda>_. rc_return a))"
  unfolding rc_outcome_def
proof (intro allI impI)
  fix s s' r assume I: "I (rs_db s)" and run: "rc_bind (rc_store p f) (\<lambda>_. rc_return a) s = Some (s', r)"
  obtain db' x where f: "f (pv_sql p (rs_calls s)) (rs_db s) = (db', x)" by force
  show "Q r (rs_db s')"
  proof (cases x)
    case (Inl e)
    then have "db' = rs_db s" using tx f by blast
    then show ?thesis using run f Inl err [OF I] by (auto simp: rc_bind_def rc_store_def)
  next
    case (Inr u)
    then show ?thesis using run f ok [OF I] by (auto simp: rc_bind_def rc_store_def rc_return_def)
  qed
qed

text \<open>What every value of a computation satisfies.\<close>

definition rc_yields :: "('a \<Rightarrow> bool) \<Rightarrow> ('x, 'a) rc \<Rightarrow> bool" where
  "rc_yields V m \<longleftrightarrow> (\<forall>s s' a. m s = Some (s', Inr a) \<longrightarrow> V a)"

lemma yields_bind: "(\<And>a. rc_yields V (f a)) \<Longrightarrow> rc_yields V (rc_bind m f)"
  unfolding rc_yields_def by (blast elim: rc_bind_cases)

lemma yields_return: "V a \<Longrightarrow> rc_yields V (rc_return a)"
  by (simp add: rc_yields_def rc_return_def)

lemma outcome_bind_value:
  assumes "rc_keeps I m" "rc_yields V m" "\<And>e db. I db \<Longrightarrow> Q (Inl e) db"
    "\<And>a. V a \<Longrightarrow> rc_outcome I Q (f a)"
  shows "rc_outcome I Q (rc_bind m f)"
  unfolding rc_outcome_def
proof (intro allI impI)
  fix s s' r assume "I (rs_db s)" "rc_bind m f s = Some (s', r)"
  from this(2) show "Q r (rs_db s')"
  proof (cases rule: rc_bind_cases)
    case (1 e)
    then show ?thesis using assms(1,3) \<open>I (rs_db s)\<close> rc_keepsD by blast
  next
    case (2 s1 a)
    have "I (rs_db s1)" by (rule rc_keepsD [OF assms(1) 2(1) \<open>I (rs_db s)\<close>])
    moreover have "V a" using assms(2) 2(1) unfolding rc_yields_def by blast
    ultimately show ?thesis using assms(4) 2(2) unfolding rc_outcome_def by blast
  qed
qed

definition gate_ok :: "workload_plan \<Rightarrow> (string \<times> string \<times> string) + component_observation list \<Rightarrow> bool" where
  "gate_ok plan g \<longleftrightarrow> (\<forall>obs. g = Inr obs \<longrightarrow> overall_from_components obs = expected_overall plan)"

lemma gate_yields:
  "rc_yields (gate_ok plan) (if is_stopped plan then rc_return (gate_stopped obs) else gate_running p plan obs)"
  by (auto simp: gate_running_def gate_ok_def gate_stopped_def expected_overall_def
      intro!: yields_bind yields_return split: option.split)

context run_invariant
begin

lemma outcome_fail:
  "rc_outcome I (outcome_ok I p q plan op_id now) (fail_to_operator p' dep gen op_id d r now')"
  unfolding fail_to_operator_def
  by (intro outcome_rules keeps_store journal_keeps)
    (auto simp: rc_outcome_def rc_return_def intro: update_state_keeps)

lemma outcome_error: "I db \<Longrightarrow> outcome_ok I p q plan op_id now (Inl e) db"
  by simp

lemma outcome_rollback_tx:
  "want_generation q > 1 \<and> X \<Longrightarrow> rc_outcome I (outcome_ok I p q plan op_id now)
     (rc_bind (rc_store p (\<lambda>w. commit_rollback_tx w op_id (want_deployment q) (want_generation q)
         (want_generation q - 1) reason now)) (\<lambda>_. rc_return (RolledBack reason (want_generation q - 1))))"
  by (rule outcome_publish) (auto simp: commit_rollback_tx_def rolled_back_def dest: run_tx_Inl)

lemma outcome_commit_tx:
  "overall_from_components obs = expected_overall plan \<Longrightarrow>
   receipt = sign_receipt_with_key p (unsigned_receipt (want_deployment q) (want_generation q)
      (wp_plan_digest plan) (expected_overall plan) obs now) \<Longrightarrow>
   rc_outcome I (outcome_ok I p q plan op_id now)
     (rc_bind (rc_store p (\<lambda>w. commit_reconciliation_tx2 w (commit_of q plan op_id receipt receipt_text now)))
       (\<lambda>_. rc_return (Success receipt)))"
  by (rule outcome_publish) (auto simp: commit_reconciliation_tx2_def committed_def dest: run_tx_Inl)

lemma outcome_handle_failure:
  "rc_outcome I (outcome_ok I p q plan op_id now)
     (handle_failure_or_rollback p (want_deployment q) (want_generation q) op_id reason plan now)"
  unfolding handle_failure_or_rollback_def Let_def
  by (rule outcome_rollback_tx, assumption | rule outcome_rules | rule outcome_fail | rule restore_keeps
      | rule reactivate_keeps | rule rc_rules | rule outcome_error, assumption)+

lemma outcome_commit:
  "overall_from_components obs = expected_overall plan \<Longrightarrow>
   rc_outcome I (outcome_ok I p q plan op_id now) (commit_phase p q plan op_id obs now)"
  unfolding commit_phase_def Let_def
  by (rule outcome_commit_tx, assumption, rule refl | rule outcome_rules | rule rc_rules
      | rule outcome_error, assumption)+

lemma outcome_drive: "rc_outcome I (outcome_ok I p q plan op_id now) (drive_workload p q plan op_id now)"
  unfolding drive_workload_def Let_def
  by (rule journal_keeps captures_keep deliver_keeps mutate_keeps gate_keeps outcome_handle_failure
        keeps_store, erule update_state_keeps, assumption
      | rule journal_keeps captures_keep deliver_keeps mutate_keeps gate_keeps outcome_handle_failure
      | rule outcome_bind_value [OF _ gate_yields] | rule outcome_rules | rule rc_rules
      | rule outcome_error, assumption | rule outcome_commit, simp add: gate_ok_def)+

lemma reserve_step_keeps: "rc_keeps I (rc_store p (\<lambda>w. reserve_operation w op_id dep gen d pl now))"
  by (rule keeps_store) (rule reserve_keeps)

lemma attached_keeps: "rc_keeps I (attached_receipt p dep gen plan now)"
  unfolding attached_receipt_def Let_def by (intro rc_rules)

lemma run_planned_outcome:
  assumes op: "op_id = operation_id (want_deployment q) (want_generation q) now"
    and run: "run_planned p q plan now s = Some (s', r)" and I: "I (rs_db s)"
  shows "run_ok I p q plan op_id now r (rs_db s')"
  using run unfolding run_planned_def Let_def op [symmetric]
proof (cases rule: rc_bind_cases)
  case (1 e)
  have "I (rs_db s')" by (rule rc_keepsD [OF reserve_step_keeps 1(1) I])
  then show ?thesis by (simp add: run_ok_def 1(2))
next
  case (2 s1 reservation)
  have I1: "I (rs_db s1)" by (rule rc_keepsD [OF reserve_step_keeps 2(1) I])
  have keeps: "rc_keeps I (case reservation of
         AttachedIdempotent _ \<Rightarrow> attached_receipt p (want_deployment q) (want_generation q) plan now
       | Reserved _ \<Rightarrow> rc_return None)"
    by (cases reservation) (simp_all add: attached_keeps keeps_return)
  from 2(2) show ?thesis
  proof (cases rule: rc_bind_cases)
    case (1 e)
    then show ?thesis using rc_keepsD [OF keeps _ I1] by (simp add: run_ok_def)
  next
    case att: (2 s2 attached)
    have I2: "I (rs_db s2)" by (rule rc_keepsD [OF keeps att(1) I1])
    show ?thesis
    proof (cases attached)
      case None
      then have "outcome_ok I p q plan op_id now r (rs_db s')"
        using outcome_drive [of p q plan now, unfolded rc_outcome_def] I2 att(2) by simp
      then show ?thesis by (simp add: run_ok_def)
    next
      case (Some receipt)
      then obtain i where "reservation = AttachedIdempotent i"
        using att(1) by (cases reservation) (auto simp: rc_return_def)
      then have "attached_receipt p (want_deployment q) (want_generation q) plan now s1 = Some (s2, Inr (Some receipt))"
        using att(1) Some by simp
      then have "attached_ok p q plan now receipt (rs_db s2)"
        by (auto simp: attached_receipt_def attached_ok_def rc_bind_def rc_query_def rc_ext_def rc_return_def
            get_deployment_def Let_def dest!: query2_Inr [symmetric]
            split: option.splits sum.splits if_splits prod.splits)
      then show ?thesis using att(2) Some I2 by (auto simp: run_ok_def rc_return_def)
    qed
  qed
qed

end

text \<open>A run either stops before it reserves anything, or is a planned run.\<close>

lemma reconcile_cases:
  assumes "reconcile p host_caps desired_json now s = Some (s', r)"
  obtains e where "r = Inl e" "rs_db s' = rs_db s"
  | q plan k w where "read_request (pv_lib p) desired_json = Inr q"
      "check_generation_monotonicity w (want_deployment q) (want_generation q) (want_desired_digest q) (rs_db s) = Inr ()"
      "run_planned p q plan now (s\<lparr> rs_calls := k \<rparr>) = Some (s', r)"
proof -
  have "(\<exists>e. r = Inl e \<and> rs_db s' = rs_db s) \<or>
    (\<exists>q plan k w. read_request (pv_lib p) desired_json = Inr q \<and>
      check_generation_monotonicity w (want_deployment q) (want_generation q) (want_desired_digest q) (rs_db s) = Inr () \<and>
      run_planned p q plan now (s\<lparr> rs_calls := k \<rparr>) = Some (s', r))"
    using assms unfolding reconcile_def
    by (elim rc_bind_cases) (auto simp: rc_lift_def rc_query_def rc_plan_def)
  then show thesis using that by blast
qed

section \<open>Two facts about the store\<close>

text \<open>The published tables are not touched by a run's own bookkeeping.\<close>

interpretation published: run_invariant
  "\<lambda>db. db_deployments db = D \<and> db_receipts db = R" op_id for D R op_id
  by unfold_locales (auto simp: update_operations_def insert_operation_def split: option.splits if_splits)

text \<open>Nor is an operation with another identifier.\<close>

lemma update_first_other: "a \<in> set xs \<Longrightarrow> \<not> P a \<Longrightarrow> a \<in> set (update_first P f xs)"
  by (induction xs) auto

lemma update_operations_other:
  "update_operations op_id st c db = Inr db' \<Longrightarrow> a \<in> set (db_operations db) \<Longrightarrow> op_operation_id a \<noteq> op_id \<Longrightarrow>
   a \<in> set (db_operations db')"
  by (auto simp: update_operations_def split: option.splits if_splits intro: update_first_other)

interpretation foreign: run_invariant
  "\<lambda>db. op_operation_id a \<noteq> op_id \<and> a \<in> set (db_operations db)" op_id for a op_id
  by unfold_locales (auto simp: insert_operation_def intro: update_operations_other split: if_splits)

text \<open>A successful rollback, in terms of the tables.\<close>

lemma rollback_tx_Inr:
  assumes "commit_rollback_tx w op_id dep failed lkg reason now db = (db', Inr u)"
  shows "db' = db\<lparr> db_journal := db_journal db @ [\<lparr>je_deployment_id = dep, je_generation = failed,
        je_phase = ''ROLLBACK'', je_detail = ''Reverted to gen '' @ show_word lkg @ '': '' @ reason,
        je_created_at = now\<rparr>],
    db_operations := update_first (\<lambda>r. op_operation_id r = op_id) (set_operation ''ROLLED_BACK'' (Some now))
      (db_operations db),
    db_deployments := update_first (\<lambda>r. dr_deployment_id r = dep)
      (\<lambda>r. r\<lparr>dr_active_generation := lkg, dr_target_generation := lkg, dr_status := ''ACTIVE'',
        dr_updated_at := now\<rparr>) (db_deployments db) \<rparr>"
proof -
  from run_tx_Inr [OF assms [unfolded commit_rollback_tx_def]]
  have "foldl (\<lambda>r s. res_bind r s) (Inr db) (rollback_statements op_id dep failed lkg reason now) = Inr db'" .
  then show ?thesis
    by (auto simp: rollback_statements_def result_simps add_journal_def dest!: update_operations_Inr)
qed

lemma sign_receipt_fields:
  "wr_deployment_id (sign_receipt_with_key p r) = wr_deployment_id r"
  "wr_generation (sign_receipt_with_key p r) = wr_generation r"
  "wr_plan_digest (sign_receipt_with_key p r) = wr_plan_digest r"
  "wr_overall_status (sign_receipt_with_key p r) = wr_overall_status r"
  "wr_components (sign_receipt_with_key p r) = wr_components r"
  "wr_signature (sign_receipt_with_key p r)
     = pv_sign p (receipt_signing_bytes (pl_esc (pv_lib p)) (sign_receipt_with_key p r))"
  by (simp_all add: sign_receipt_with_key_def receipt_signing_bytes_def remove_members_def receipt_members_def)

lemma unsigned_receipt_fields:
  "wr_deployment_id (unsigned_receipt dep gen d ov obs now) = dep"
  "wr_generation (unsigned_receipt dep gen d ov obs now) = gen"
  "wr_plan_digest (unsigned_receipt dep gen d ov obs now) = d"
  "wr_overall_status (unsigned_receipt dep gen d ov obs now) = ov"
  "wr_components (unsigned_receipt dep gen d ov obs now) = obs"
  by (simp_all add: unsigned_receipt_def)

lemma commit_of_fields:
  "cq_op_id (commit_of q plan op_id receipt t now) = op_id"
  "cq_deployment_id (commit_of q plan op_id receipt t now) = want_deployment q"
  "cq_generation (commit_of q plan op_id receipt t now) = want_generation q"
  "cq_desired_digest (commit_of q plan op_id receipt t now) = wp_desired_digest plan"
  "cq_plan_digest (commit_of q plan op_id receipt t now) = wp_plan_digest plan"
  "cq_deployment_status (commit_of q plan op_id receipt t now) = expected_status plan"
  by (simp_all add: commit_of_def)

lemmas receipt_fields = sign_receipt_fields unsigned_receipt_fields commit_of_fields

section \<open>Every run returns\<close>

text \<open>
  What the code relies on of the monotonic clock: no call moves it back, and sleeping advances it by
  at least the time slept. Then the wait loop, whose deadline is thirty seconds away and which
  sleeps 200 ms a round, goes round at most 150 times.
\<close>

definition clock_ok :: "'x providers \<Rightarrow> bool" where
  "clock_ok p \<longleftrightarrow> (\<forall>x n. pv_now_ms p x + n \<le> pv_now_ms p (pv_sleep_ms p n x))
     \<and> (\<forall>x pr. pv_now_ms p x \<le> pv_now_ms p (fst (pv_inspect p pr x)))"

definition rc_returns :: "('x, 'a) rc \<Rightarrow> bool" where
  "rc_returns m \<longleftrightarrow> (\<forall>s. \<exists>s' r. m s = Some (s', r))"

named_theorems return_rules \<open>rules for computations that return\<close>

lemma returns_basic [return_rules]:
  "rc_returns (rc_return a)" "rc_returns (rc_lift r)" "rc_returns (rc_ext f)"
  "rc_returns (rc_store p g)" "rc_returns (rc_query p h)"
  by (auto simp: rc_returns_def rc_return_def rc_lift_def rc_ext_def rc_store_def rc_query_def split: prod.split)

lemma returns_bind [return_rules]: "rc_returns m \<Longrightarrow> (\<And>a. rc_returns (f a)) \<Longrightarrow> rc_returns (rc_bind m f)"
  unfolding rc_returns_def rc_bind_def
proof
  fix s assume m: "\<forall>s. \<exists>s' r. m s = Some (s', r)" and f: "\<And>a. \<forall>s. \<exists>s' r. f a s = Some (s', r)"
  obtain s1 r where "m s = Some (s1, r)" using m by blast
  then show "\<exists>s' r. (case m s of None \<Rightarrow> None | Some (s', Inl e) \<Rightarrow> Some (s', Inl e) | Some (s', Inr a) \<Rightarrow> f a s') = Some (s', r)"
    using f by (cases r) auto
qed

lemma returns_attempt [return_rules]: "rc_returns m \<Longrightarrow> rc_returns (rc_attempt m)"
  unfolding rc_returns_def rc_attempt_def by (metis (no_types, lifting) option.case(2) prod.case)

lemma returns_foreach [return_rules]: "(\<And>b. rc_returns (f b)) \<Longrightarrow> rc_returns (rc_foreach f bs)"
  by (induction bs) (auto intro: return_rules)

lemma returns_split [return_rules]:
  "(b \<Longrightarrow> rc_returns m) \<Longrightarrow> (\<not> b \<Longrightarrow> rc_returns m') \<Longrightarrow> rc_returns (if b then m else m')"
  "rc_returns m \<Longrightarrow> (\<And>a. rc_returns (f a)) \<Longrightarrow> rc_returns (case x of None \<Rightarrow> m | Some a \<Rightarrow> f a)"
  "(\<And>e. rc_returns (g e)) \<Longrightarrow> (\<And>a. rc_returns (f a)) \<Longrightarrow> rc_returns (case y of Inl e \<Rightarrow> g e | Inr a \<Rightarrow> f a)"
  "(\<And>a b. rc_returns (h a b)) \<Longrightarrow> rc_returns (case z of (a, b) \<Rightarrow> h a b)"
  by (auto split: option.split sum.split prod.split)

lemma returns_plan [return_rules]: "rc_returns (rc_plan p d m h now)"
proof -
  have "\<exists>r. plan_workload (pv_lib p) d m h (Some planner_version) (Some now) = Some r"
    using execution_order_returns [OF plan_head_distinct]
    by (fastforce simp: plan_workload_def split: sum.split)
  then show ?thesis by (auto simp: rc_returns_def rc_plan_def)
qed

lemma converge_returns:
  assumes "clock_ok p"
  shows "\<exists>obs'. \<exists>s'. converge p project deadline obs s = Some (s', Inr obs')"
proof (induction "deadline - pv_now_ms p (rs_env s)" arbitrary: obs s rule: less_induct)
  case less
  show ?case
  proof (cases "settled obs \<or> deadline \<le> pv_now_ms p (rs_env s)")
    case True
    then show ?thesis by (subst converge.simps) simp
  next
    case False
    obtain x r where i: "pv_inspect p project (pv_sleep_ms p 200 (rs_env s)) = (x, r)" by force
    have "pv_now_ms p (rs_env s) + 200 \<le> pv_now_ms p (pv_sleep_ms p 200 (rs_env s))"
      using assms by (simp add: clock_ok_def)
    also have "\<dots> \<le> pv_now_ms p x" using assms i unfolding clock_ok_def by (metis fst_conv)
    finally have "deadline - pv_now_ms p (rs_env (s\<lparr> rs_env := x \<rparr>)) < deadline - pv_now_ms p (rs_env s)"
      using False by (auto intro!: diff_less_mono2)
    from less.hyps [OF this] show ?thesis
      using False i by (subst converge.simps) simp
  qed
qed

lemma returns_wait: "clock_ok p \<Longrightarrow> rc_returns (wait_converged p project obs)"
  using converge_returns by (fastforce simp: rc_returns_def wait_converged_def)

lemma returns_readiness [return_rules]: "rc_returns (run_readiness p project rcs)"
  by (induction rcs) (auto intro!: return_rules)

lemma returns_restore [return_rules]: "rc_returns (restore_volumes p snaps vs)"
  by (induction p snaps vs rule: restore_volumes.induct) (auto intro!: return_rules split: option.split)

lemma returns_failure [return_rules]: "rc_returns (handle_failure_or_rollback p dep gen op_id reason plan now)"
  unfolding handle_failure_or_rollback_def reactivate_lkg_def fail_to_operator_def journal_def Let_def
  by (intro return_rules)

lemma returns_drive: "clock_ok p \<Longrightarrow> rc_returns (drive_workload p q plan op_id now)"
  unfolding drive_workload_def journal_def component_steps_def capture_volume_def deliver_secrets_def
    create_dir_def deliver_secret_def mutate_workload_def stop_workload_def stop_previous_def
    gate_running_def commit_phase_def Let_def
  by (intro return_rules returns_wait)

lemma returns_reconcile: "clock_ok p \<Longrightarrow> rc_returns (reconcile p host_caps desired_json now)"
  unfolding reconcile_def run_planned_def attached_receipt_def Let_def
  by (intro return_rules returns_drive) (auto intro!: return_rules split: reservation_result.split)

section \<open>Two runs\<close>

text \<open>
  A host on which the project does not exist, so that a stopped workload is stopped, and one whose
  components fail until the generation before is started.
\<close>

definition example_providers :: "(string \<Rightarrow> nat \<Rightarrow> nat \<times> (workload_error + project_inspection)) \<Rightarrow> nat providers" where
  "example_providers inspect = \<lparr> pv_lib = example_lib, pv_sql = (\<lambda>_. no_faults), pv_base_root = ''/srv'', pv_sign = (\<lambda>_. ''sig''),
     pv_inspect = inspect,
     pv_apply = (\<lambda>_ x. (x, Inl (BackendError []))), pv_stop = (\<lambda>_ _ x. (x, Inr ())), pv_start = (\<lambda>_ x. (x + 1, Inr ())),
     pv_down = (\<lambda>_ x. (x, Inr ())), pv_probe = (\<lambda>_ _ _ x. (x, Inr True)), pv_capture = (\<lambda>_ _ _ _ x. (x, Inr [])),
     pv_restore = (\<lambda>_ _ x. (x, Inr ())), pv_resolve_secret = (\<lambda>_ _ _ x. (x, Inr ''s'')),
     pv_mount_tmpfs = (\<lambda>_ _ x. (x, Inr ())), pv_create_dir_all = (\<lambda>_ x. (x, Inr ())),
     pv_configure_ingress = (\<lambda>_ _ _ x. (x, Inr ())), pv_teardown_ingress = (\<lambda>_ _ x. (x, Inr ())),
     pv_now_ms = (\<lambda>x. x), pv_sleep_ms = (\<lambda>n x. x + n) \<rparr>"

definition example_state :: "nat rc_state" where
  "example_state = \<lparr> rs_env = 0, rs_db = empty_db,
     rs_profiles = [published_row\<lparr> pr_manifest_json := ''profile'' \<rparr>], rs_calls = 0 \<rparr>"

definition example_request :: reconcile_request where
  "example_request = \<lparr> want_deployment = ''shop'', want_generation = 3, want_profile_id = ''web'',
     want_profile_version = ''1'', want_desired_digest = zero_digest \<rparr>"

lemma example_read_request:
  assumes "j \<noteq> ''profile''"
  shows "read_request example_lib j = Inr example_request"
proof -
  have "get_str ''profileId'' example_desired = Some ''web''" "get_str ''profileVersion'' example_desired = Some ''1''"
    by code_simp+
  then show ?thesis
    by (simp add: assms read_request_def example_lib_def example_reads require_def example_request_def)
qed

lemma example_profile_found:
  "find_profile ''web'' ''1'' [published_row\<lparr> pr_manifest_json := m \<rparr>] = Some (published_row\<lparr> pr_manifest_json := m \<rparr>)"
  by (simp add: find_profile_def profile_key_def published_row_def)

lemma example_enters:
  assumes "pv_lib p = example_lib" "pv_sql p = (\<lambda>_. no_faults)" "rs_profiles s = rs_profiles example_state"
    and "find_deployment ''shop'' (rs_db s) = None" "j \<noteq> ''profile''"
  shows "reconcile p caps j 7 s
    = run_planned p example_request (example_plan caps (Some planner_version) (Some 7)) 7 (s\<lparr> rs_calls := Suc (Suc (rs_calls s)) \<rparr>)"
  unfolding reconcile_def
  by (simp add: rc_bind_def rc_lift_def rc_query_def rc_plan_def assms example_read_request check_generation_monotonicity_def
      quiet_calls get_profile_def example_state_def example_profile_found example_accepted require_def)
    (simp add: example_request_def check_generation_monotonicity_def quiet_calls assms  get_profile_def example_state_def example_profile_found example_accepted require_def)

abbreviation example_op :: string where "example_op \<equiv> operation_id ''shop'' 3 7"

lemma example_identifiers:
  "validate_path_identifier ''shop'' = Inr ()" "validate_path_identifier ''db'' = Inr ()"
  "validate_path_identifier ''key'' = Inr ()"
  by code_simp+

lemmas run_defs = rc_bind_def rc_store_def rc_return_def rc_lift_def rc_ext_def rc_query_def rc_attempt_def

lemmas store_defs = reserve_operation_def update_operation_state_def exec_stmt_def record_journal_def
  add_journal_def insert_operation_def update_operations_def sql_ints_def sql_int_def opt_ints_def
  quiet_calls valid_op_state_def active_op_state_def set_operation_def

lemma example_fields: "want_deployment example_request = ''shop''" "want_generation example_request = 3"
  "want_profile_id example_request = ''web''" "want_profile_version example_request = ''1''"
  "wp_components (example_plan c v t) = [example_planned]" "wp_desired_state (example_plan c v t) = ''STOPPED''"
  "wp_plan_digest (example_plan c v t) = zero_digest" "wp_desired_digest (example_plan c v t) = zero_digest"
  "pc_volume_mounts example_planned = []" "pc_component_id example_planned = ''db''"
  "pc_secret_mounts example_planned = [\<lparr> sm_secret_id = ''key'', sm_purpose = ''db'', sm_mount_path = ''/run/secrets/key'',
       sm_injection_mode = ''TMPFS_FILE'', sm_secret_generation = 3 \<rparr>]"
  "is_stopped (example_plan c v t)"
  by (simp_all add: example_request_def example_plan_def example_planned_def is_stopped_def)

definition example_row :: "string \<Rightarrow> operation_row" where
  "example_row st = \<lparr>op_operation_id = example_op, op_deployment_id = ''shop'',
     op_target_generation = 3, op_desired_digest = zero_digest,
     op_plan_digest = zero_digest, op_state = st, op_started_at = 7, op_completed_at = None\<rparr>"

lemma example_reserves: 
  assumes "pv_sql p = (\<lambda>_. no_faults)" "db_operations (rs_db s) = []"
  shows "run_planned p example_request (example_plan c v t) 7 s = drive_workload p example_request (example_plan c v t) example_op 7
    (s\<lparr> rs_db := (rs_db s)\<lparr> db_operations := [example_row ''RESERVED''] \<rparr>, rs_calls := Suc (rs_calls s) \<rparr>)"
  unfolding run_planned_def Let_def
  by (simp add: run_defs store_defs example_fields assms example_row_def)

lemma example_delivers:
  shows "deliver_secrets (example_providers i) ''shop'' 3 (example_plan c v t) s = Some (s, Inr ())"
  unfolding deliver_secrets_def component_steps_def
  by (simp add: run_defs example_fields deliver_secret_def create_dir_def example_identifiers example_providers_def Let_def)


lemma example_provider_fields: "pv_sql (example_providers i) = (\<lambda>_. no_faults)" "pv_lib (example_providers i) = example_lib"
  "pv_inspect (example_providers i) = i" "pv_teardown_ingress (example_providers i) = (\<lambda>_ _ x. (x, Inr ()))"
  "pv_stop (example_providers i) = (\<lambda>_ _ x. (x, Inr ()))" "pv_down (example_providers i) = (\<lambda>_ x. (x, Inr ()))"
  "pv_start (example_providers i) = (\<lambda>_ x. (x + 1, Inr ()))"
  by (simp_all add: example_providers_def)
definition absent :: "string \<Rightarrow> nat \<Rightarrow> nat \<times> (workload_error + project_inspection)" where
  "absent i x = (x, Inr \<lparr> pi_exists = False, pi_components = [] \<rparr>)"

definition recovering :: "string \<Rightarrow> nat \<Rightarrow> nat \<times> (workload_error + project_inspection)" where
  "recovering i x = (x, Inr \<lparr> pi_exists = True, pi_components =
     [\<lparr> pj_name = ''db'', pj_status = (if x = 0 then C_Failed else C_Ready), pj_labels = Map.empty \<rparr>] \<rparr>)"

lemma update_example:
  "find (\<lambda>r. op_operation_id r = example_op) [example_row st] = Some (example_row st)"
  "update_first (\<lambda>r. op_operation_id r = example_op) f [example_row st] = [f (example_row st)]"
  "set_operation st' None (example_row st) = example_row st'"
  by (simp_all add: example_row_def set_operation_def)

lemma example_calls:
  "db_operations db = [example_row st] \<Longrightarrow> update_operation_state no_faults example_op ''STARTING'' None db
   = (db\<lparr>db_operations := [example_row ''STARTING'']\<rparr>, Inr ())"
  "record_journal no_faults ''shop'' 3 ph d 7 db = (db\<lparr>db_journal := db_journal db @ [\<lparr>je_deployment_id = ''shop'', je_generation = 3,
     je_phase = ph, je_detail = d, je_created_at = 7\<rparr>]\<rparr>, Inr ())"
  by (simp_all add: update_operation_state_def exec_stmt_def update_operations_def update_example opt_ints_def sql_ints_def
   quiet_calls valid_op_state_def record_journal_def add_journal_def sql_int_def)
   (simp add: example_row_def)

lemma run_commit_example_ok:
  "db_operations db = [example_row st] \<Longrightarrow>
   snd (commit_reconciliation_tx2 no_faults (commit_of example_request (example_plan c v t) example_op r txt 7) db) = Inr ()"
  by (simp add: commit_reconciliation_tx2_def run_tx_def commit_statements_def quiet_calls commit_of_def example_fields
      add_journal_def checked_upsert_def upsert_row_def update_operations_def sql_ints_def sql_int_def expected_status_def
      valid_op_state_def valid_deployment_status_def active_op_state_def update_example)

lemma rollback_example_ok:
  "db_operations db = [example_row st] \<Longrightarrow>
   snd (commit_rollback_tx no_faults example_op ''shop'' 3 2 reason 7 db) = Inr ()"
  by (simp add: commit_rollback_tx_def run_tx_def rollback_statements_def quiet_calls example_fields
      add_journal_def update_operations_def sql_ints_def sql_int_def
      valid_op_state_def active_op_state_def update_example)

lemma example_starts:
  assumes "rs_profiles s = rs_profiles example_state" "db_operations (rs_db s) = []" "db_deployments (rs_db s) = []"
    "j \<noteq> ''profile''"
  shows "reconcile (example_providers i) caps j 7 s
    = drive_workload (example_providers i) example_request (example_plan caps (Some planner_version) (Some 7)) example_op 7
       (s\<lparr> rs_db := (rs_db s)\<lparr> db_operations := [example_row ''RESERVED''] \<rparr>, rs_calls := Suc (Suc (Suc (rs_calls s))) \<rparr>)"
  by (subst example_enters) (simp_all add: assms example_provider_fields example_reserves find_deployment_def)

lemma example_succeeds:
  assumes "rs_profiles s = rs_profiles example_state" "db_operations (rs_db s) = []" "db_deployments (rs_db s) = []"
    "j \<noteq> ''profile''"
  shows "\<exists>s' receipt. reconcile (example_providers absent) caps j 7 s = Some (s', Inr (Success receipt))"
proof -
  have gate: "gate_stopped (stopped_components (example_plan c v t)) = Inr (stopped_components (example_plan c v t))" for c v t
    by (simp add: gate_stopped_def stopped_components_def example_fields overall_from_components_def)
  show ?thesis unfolding example_starts [OF assms]
  by (simp add: example_provider_fields drive_workload_def Let_def example_fields journal_def rc_bind_def rc_store_def example_calls example_delivers
    component_steps_def rc_return_def mutate_workload_def stop_workload_def rc_ext_def absent_def gate commit_phase_def rc_attempt_def)
    (simp add: case_prod_beta run_commit_example_ok rc_return_def)
qed

lemma example_state_fields:
  "db_operations (rs_db example_state) = []" "db_deployments (rs_db example_state) = []" "rs_env example_state = 0"
  by (simp_all add: example_state_def empty_db_def)

lemma example_rolls_back:
  assumes "rs_profiles s = rs_profiles example_state" "db_operations (rs_db s) = []" "db_deployments (rs_db s) = []"
    "j \<noteq> ''profile''" "rs_env s = 0"
  shows "\<exists>s' reason. reconcile (example_providers recovering) caps j 7 s = Some (s', Inr (RolledBack reason 2))"
proof -
  have gate: "gate_stopped (observations_of (projection)) = Inl (''STOP_FAIL'', ''Components failed to converge to STOPPED'', ''Components failed to stop'')"
     if "projection = \<lparr> pi_exists = True, pi_components = [\<lparr> pj_name = ''db'', pj_status = C_Failed, pj_labels = Map.empty \<rparr>] \<rparr>" for projection
    by (simp add: gate_stopped_def that observations_of_def example_fields overall_from_components_def)
  show ?thesis unfolding example_starts [OF assms(1-4)]
    by (simp add: example_provider_fields drive_workload_def Let_def example_fields journal_def rc_bind_def rc_store_def example_calls example_delivers
        component_steps_def rc_return_def mutate_workload_def stop_workload_def rc_ext_def recovering_def gate rc_attempt_def assms(5))
      (simp add: recovering_def handle_failure_or_rollback_def required_volumes_def example_fields rc_bind_def rc_attempt_def rc_ext_def example_provider_fields rc_query_def get_durable_snapshots_for_generation_def
   Let_def reactivate_lkg_def rc_return_def observations_of_def overall_from_components_def rc_store_def quiet_calls sql_ints_def sql_int_def,
       simp add: case_prod_beta rollback_example_ok rc_return_def)
qed

lemma example_clock: "clock_ok (example_providers absent)" "clock_ok (example_providers recovering)"
  by (simp_all add: clock_ok_def example_providers_def absent_def recovering_def)

lemma reconcile_total: "\<exists>s' r. reconcile (example_providers absent) host_caps desired_json now s = Some (s', r)"
  using returns_reconcile [OF example_clock(1)] by (simp add: rc_returns_def)

section \<open>Properties\<close>

text \<open>
  C14. A run reports success only for what is so: the receipt is signed, its components add up to the
  status it states, this status is \<open>READY\<close> for an active and \<open>STOPPED\<close> for a stopped
  deployment, and the store holds the deployment at the generation and with the plan digest of
  the receipt.
\<close>

theorem reconcile_success_means_converged:
  assumes "reconcile p host_caps desired_json now s = Some (s', Inr (Success receipt))"
  shows "\<exists>d. find_deployment (wr_deployment_id receipt) (rs_db s') = Some d
    \<and> dr_active_generation d = wr_generation receipt \<and> dr_plan_digest d = wr_plan_digest receipt
    \<and> overall_from_components (wr_components receipt) = wr_overall_status receipt
    \<and> (wr_overall_status receipt = C_Ready \<and> dr_status d = ''ACTIVE''
        \<or> wr_overall_status receipt = C_Stopped \<and> dr_status d = ''STOPPED'')
    \<and> wr_signature receipt = pv_sign p (receipt_signing_bytes (pl_esc (pv_lib p)) receipt)"
proof (rule reconcile_cases [OF assms])
  fix q plan k w assume run: "run_planned p q plan now (s\<lparr> rs_calls := k \<rparr>) = Some (s', Inr (Success receipt))"
  have status: "expected_overall plan = C_Ready \<and> expected_status plan = ''ACTIVE''
      \<or> expected_overall plan = C_Stopped \<and> expected_status plan = ''STOPPED''"
    by (simp add: expected_overall_def expected_status_def)
  have "run_ok (\<lambda>db. db_deployments db = db_deployments (rs_db s) \<and> db_receipts db = db_receipts (rs_db s))
      p q plan (operation_id (want_deployment q) (want_generation q) now) now (Inr (Success receipt)) (rs_db s')"
    by (rule published.run_planned_outcome [OF refl run]) simp
  then show ?thesis
    unfolding run_ok_def
  proof (elim disjE exE conjE)
    fix r assume "Inr (Success receipt) = (Inr (Success r) :: workload_error + reconciliation_outcome)"
      "attached_ok p q plan now r (rs_db s')"
    then show ?thesis using status by (fastforce simp: attached_ok_def receipt_fields)
  next
    assume "outcome_ok (\<lambda>db. db_deployments db = db_deployments (rs_db s) \<and> db_receipts db = db_receipts (rs_db s))
      p q plan (operation_id (want_deployment q) (want_generation q) now) now (Inr (Success receipt)) (rs_db s')"
    then obtain w db0 obs t where
      obs: "overall_from_components obs = expected_overall plan" and
      r: "receipt = sign_receipt_with_key p (unsigned_receipt (want_deployment q) (want_generation q)
           (wp_plan_digest plan) (expected_overall plan) obs now)" and
      tx: "commit_reconciliation_tx2 w (commit_of q plan (operation_id (want_deployment q) (want_generation q) now)
        receipt t now) db0 = (rs_db s', Inr ())"
      by (auto simp: committed_def)
    obtain row where row: "find_deployment (want_deployment q) (rs_db s') = Some row"
      "dr_active_generation row = want_generation q" "dr_plan_digest row = wp_plan_digest plan"
      "dr_status row = expected_status plan"
      by (rule commit_tx2_Inr [OF tx])
        (auto simp: find_deployment_def deployments.find_put commit_of_fields)
    show ?thesis using obs row status by (auto simp: r receipt_fields)
  qed
qed auto

theorem reconcile_success_means_converged_witness:
  "\<exists>s' receipt d. reconcile (example_providers absent) [] ''desired'' 7 example_state = Some (s', Inr (Success receipt))
    \<and> find_deployment (wr_deployment_id receipt) (rs_db s') = Some d \<and> dr_active_generation d = wr_generation receipt"
proof -
  obtain s' receipt where run:
    "reconcile (example_providers absent) [] ''desired'' 7 example_state = Some (s', Inr (Success receipt))"
    using example_succeeds [of example_state "''desired''" "[]"] by (auto simp: example_state_fields)
  from reconcile_success_means_converged [OF run] run show ?thesis by blast
qed

text \<open>
  Nothing is published by a run that does not succeed: after an error, or an outcome that needs
  the operator, the deployments and the receipts of the store are exactly what they were.
\<close>

theorem reconcile_publishes_only_outcomes:
  assumes "reconcile p host_caps desired_json now s = Some (s', r)"
  shows "case r of
      Inr (Success _) \<Rightarrow> True
    | Inr (RolledBack _ _) \<Rightarrow> True
    | _ \<Rightarrow> db_deployments (rs_db s') = db_deployments (rs_db s) \<and> db_receipts (rs_db s') = db_receipts (rs_db s)"
proof (rule reconcile_cases [OF assms])
  fix q plan k w assume run: "run_planned p q plan now (s\<lparr> rs_calls := k \<rparr>) = Some (s', r)"
  have "run_ok (\<lambda>db. db_deployments db = db_deployments (rs_db s) \<and> db_receipts db = db_receipts (rs_db s))
      p q plan (operation_id (want_deployment q) (want_generation q) now) now r (rs_db s')"
    by (rule published.run_planned_outcome [OF refl run]) simp
  then show ?thesis by (auto simp: run_ok_def split: sum.split reconciliation_outcome.split)
qed simp

text \<open>A request that does not parse is answered with an error.\<close>

definition unparsed_providers :: "nat providers" where
  "unparsed_providers = (example_providers absent)\<lparr> pv_lib := example_lib\<lparr> pl_parse := (\<lambda>_. Inl ''eof'') \<rparr> \<rparr>"

lemma unparsed_run:
  "reconcile unparsed_providers [] j 7 s
   = Some (s, Inl (ValidationFailed (''Invalid desired state JSON: '' @ ''eof'')))"
  by (simp add: reconcile_def unparsed_providers_def read_request_def rc_bind_def rc_lift_def)

theorem reconcile_publishes_only_outcomes_witness:
  "\<exists>s' e. reconcile unparsed_providers [] ''x'' 7 example_state = Some (s', Inl e)
    \<and> db_deployments (rs_db s') = db_deployments (rs_db example_state)"
  using reconcile_publishes_only_outcomes [OF unparsed_run [where j = "''x''" and s = example_state]]
    unparsed_run [where j = "''x''" and s = example_state] by auto

text \<open>
  A rollback lowers the floor it is checked against: after rolling back generation \<open>g\<close> the
  deployment is recorded at \<open>g - 1\<close>, whether or not such a generation was ever active, and from then
  on the generation check lets \<open>g\<close> pass with any desired digest, even if \<open>g\<close> had been committed
  with another one before.
\<close>

theorem rollback_reopens_generation:
  assumes "reconcile p host_caps desired_json now s = Some (s', Inr (RolledBack reason lkg))"
  shows "\<exists>q. read_request (pv_lib p) desired_json = Inr q \<and> lkg = want_generation q - 1 \<and> 1 < want_generation q
    \<and> (\<forall>d. find_deployment (want_deployment q) (rs_db s) = Some d \<longrightarrow>
          find_deployment (want_deployment q) (rs_db s') = Some (d\<lparr> dr_active_generation := lkg,
            dr_target_generation := lkg, dr_status := ''ACTIVE'', dr_updated_at := now \<rparr>))
    \<and> (\<forall>digest. check_generation_monotonicity no_faults (want_deployment q) (want_generation q) digest (rs_db s') = Inr ())"
proof (rule reconcile_cases [OF assms])
  fix q plan k w
  assume q: "read_request (pv_lib p) desired_json = Inr q"
    and run: "run_planned p q plan now (s\<lparr> rs_calls := k \<rparr>) = Some (s', Inr (RolledBack reason lkg))"
  have "run_ok (\<lambda>db. db_deployments db = db_deployments (rs_db s) \<and> db_receipts db = db_receipts (rs_db s))
      p q plan (operation_id (want_deployment q) (want_generation q) now) now (Inr (RolledBack reason lkg)) (rs_db s')"
    by (rule published.run_planned_outcome [OF refl run]) simp
  then obtain w db0 where db0: "db_deployments db0 = db_deployments (rs_db s)"
    and gen: "1 < want_generation q" "lkg = want_generation q - 1"
    and tx: "commit_rollback_tx w (operation_id (want_deployment q) (want_generation q) now) (want_deployment q)
        (want_generation q) lkg reason now db0 = (rs_db s', Inr ())"
    by (auto simp: run_ok_def rolled_back_def)
  let ?reopen = "\<lambda>r. r\<lparr>dr_active_generation := lkg, dr_target_generation := lkg, dr_status := ''ACTIVE'',
    dr_updated_at := now\<rparr>"
  have "find_deployment (want_deployment q) (rs_db s') = map_option ?reopen (find_deployment (want_deployment q) (rs_db s))"
    unfolding rollback_tx_Inr [OF tx] find_deployment_def
    by (simp add: db0 find_update_first)
  moreover have "lkg < want_generation q"
    using gen measure_unat [of "want_generation q"] by (force simp: word_less_nat_alt)
  ultimately show ?thesis
    using q gen
    by (auto simp: check_generation_monotonicity_def query2_def sql_call_def no_faults_def
        split: option.split)
qed simp

theorem rollback_reopens_generation_witness:
  "\<exists>s' reason. reconcile (example_providers recovering) [] ''desired'' 7 example_state
      = Some (s', Inr (RolledBack reason 2))
    \<and> check_generation_monotonicity no_faults ''shop'' 3 ''any digest'' (rs_db s') = Inr ()"
proof -
  obtain s' reason where run:
    "reconcile (example_providers recovering) [] ''desired'' 7 example_state = Some (s', Inr (RolledBack reason 2))"
    using example_rolls_back [of example_state "''desired''" "[]"] by (auto simp: example_state_fields)
  have "pv_lib (example_providers recovering) = example_lib" by (simp add: example_provider_fields)
  then show ?thesis
    using rollback_reopens_generation [OF run] run
    by (auto simp: example_read_request example_fields)
qed

text \<open>
  A run never closes the operation of another run, not even the one it attaches to: an
  operation with an identifier of its own keeps its row, so an active one (of a run that died, or
  returned early on an error) stays active after any number of successful runs at other times, and
  the deployment stays closed to every other request.
\<close>

theorem foreign_operation_stays_active:
  assumes "reconcile p host_caps desired_json now s = Some (s', r)"
    and "a \<in> set (db_operations (rs_db s))"
    and "\<And>q. read_request (pv_lib p) desired_json = Inr q \<Longrightarrow>
      op_operation_id a \<noteq> operation_id (want_deployment q) (want_generation q) now"
  shows "a \<in> set (db_operations (rs_db s'))
    \<and> (active_op_state (op_state a) \<longrightarrow> list_ex (active_row (op_deployment_id a)) (db_operations (rs_db s')))"
proof -
  have "a \<in> set (db_operations (rs_db s'))"
  proof (rule reconcile_cases [OF assms(1)])
    fix q plan k w
    assume q: "read_request (pv_lib p) desired_json = Inr q"
      and run: "run_planned p q plan now (s\<lparr> rs_calls := k \<rparr>) = Some (s', r)"
    define op where "op = operation_id (want_deployment q) (want_generation q) now"
    have ne: "op_operation_id a \<noteq> op" using assms(3) [OF q] by (simp add: op_def)
    have ok: "run_ok (\<lambda>db. op_operation_id a \<noteq> op \<and> a \<in> set (db_operations db)) p q plan op now r (rs_db s')"
      by (rule foreign.run_planned_outcome [OF op_def run]) (use ne assms(2) in simp)
    show ?thesis
    proof (cases "\<exists>reason lkg. r = Inr (RolledBack reason lkg)")
      case True
      then obtain w db0 reason lkg gen where "a \<in> set (db_operations db0)"
        "commit_rollback_tx w op (want_deployment q) (want_generation q) lkg reason now db0 = (rs_db s', Inr ())"
        using ok by (auto simp: run_ok_def rolled_back_def)
      then show ?thesis using ne by (auto dest!: rollback_tx_Inr intro: update_first_other)
    next
      case False
      show ?thesis
      proof (cases "\<exists>receipt. r = Inr (Success receipt) \<and> committed (\<lambda>db. op_operation_id a \<noteq> op
            \<and> a \<in> set (db_operations db)) p q plan op now receipt (rs_db s')")
        case True
        then obtain w db0 receipt t where db0: "a \<in> set (db_operations db0)" and
          tx: "commit_reconciliation_tx2 w (commit_of q plan op receipt t now) db0 = (rs_db s', Inr ())"
          by (auto simp: committed_def)
        show ?thesis
          by (rule commit_tx2_Inr [OF tx]) (use db0 ne in \<open>auto simp: commit_of_fields intro: update_first_other\<close>)
      next
        case False
        with \<open>\<nexists>reason lkg. r = Inr (RolledBack reason lkg)\<close> ok show ?thesis
          by (cases r) (auto simp: run_ok_def split: reconciliation_outcome.splits, metis outcome_ok.simps reconciliation_outcome.exhaust)
      qed
    qed
  qed (use assms(2) in simp)
  then show ?thesis by (auto simp: list_ex_iff active_row_def)
qed

text \<open>An operation left behind by a run at an earlier time.\<close>

definition stale_row :: operation_row where
  "stale_row = \<lparr>op_operation_id = ''op-shop-gen-2-1'', op_deployment_id = ''shop'', op_target_generation = 2,
     op_desired_digest = zero_digest, op_plan_digest = zero_digest, op_state = ''STARTING'', op_started_at = 1,
     op_completed_at = None\<rparr>"

definition stale_state :: "nat rc_state" where
  "stale_state = example_state\<lparr> rs_db := empty_db\<lparr> db_operations := [stale_row] \<rparr> \<rparr>"

theorem foreign_operation_stays_active_witness:
  "\<exists>s' r. reconcile (example_providers absent) [] ''desired'' 7 stale_state = Some (s', r)
    \<and> list_ex (active_row ''shop'') (db_operations (rs_db s'))"
proof -
  have "pv_lib (example_providers absent) = example_lib" by (simp add: example_provider_fields)
  moreover have "''op-shop-gen-2-1'' \<noteq> operation_id ''shop'' 3 7"
  proof -
    have "show_nat 3 = ''3''" by code_simp
    then show ?thesis by (simp add: operation_id_def show_word_def)
  qed
  moreover obtain s' r where run: "reconcile (example_providers absent) [] ''desired'' 7 stale_state = Some (s', r)"
    using reconcile_total by blast
  ultimately have "stale_row \<in> set (db_operations (rs_db s'))
      \<and> (active_op_state (op_state stale_row) \<longrightarrow> list_ex (active_row (op_deployment_id stale_row)) (db_operations (rs_db s')))"
    by (intro foreign_operation_stays_active [OF run])
      (auto simp: example_read_request example_fields stale_state_def stale_row_def)
  then show ?thesis using run by (auto simp: stale_row_def active_op_state_def)
qed

text \<open>
  C15. Every reconciliation returns, with an outcome or an error, when the clock is monotonic: the
  planner returns, the loops over components, volumes, secrets and checks are over lists, and the
  wait for convergence ends at its deadline.
\<close>

theorem reconcile_returns:
  assumes "clock_ok p"
  shows "\<exists>s' r. reconcile p host_caps desired_json now s = Some (s', r)"
  using returns_reconcile [OF assms] by (simp add: rc_returns_def)

theorem reconcile_returns_witness:
  "\<exists>s' r. reconcile (example_providers recovering) [] ''desired'' 7 stale_state = Some (s', r)"
  by (rule reconcile_returns) (rule example_clock)

end
