(* ===== verification/Workload_Command.thy ===== *)
theory Workload_Command
  imports Reconciler
begin

text \<open>
  The way into the workload runtime: the signed envelope of a desired state
  (\<^verbatim>\<open>actium-node-core/src/workload_runtime/ipc_boundary.rs\<close>) and the two workload commands of
  the supervisor (\<^verbatim>\<open>actium-node-supervisor/src/main.rs\<close>), composed with the reconciler, the
  planner and the store of this development.

  Base64, Ed25519 and the parser of receipts are crates: they are fields of the record
  \<open>command_host\<close>, as are the files the supervisor reads (host identity, trust bundle, bootstrap
  roots).
\<close>

section \<open>The envelope\<close>

record secret_reference =
  se_secret_id :: string
  se_component_id :: "string option"
  se_scope :: "string option"
  se_purpose :: string
  se_generation :: u64

record envelope =
  en_schema :: string
  en_deployment_id :: string
  en_generation :: u64
  en_profile_id :: string
  en_profile_version :: string
  en_profile_digest :: string
  en_configuration_digest :: string
  en_desired_digest :: string
  en_modules :: "string list"
  en_secret_refs :: "secret_reference list"
  en_desired_state :: string
  en_client_id :: string
  en_organization_id :: string
  en_site_id :: string
  en_product_id :: "string option"
  en_host_id :: string
  en_nonce :: string
  en_issued_at :: u64
  en_expires_at :: u64
  en_purpose :: string
  en_authority_key_id :: string
  en_authority_signature :: string
  en_environment :: "(string \<times> string) list option"

definition default_sha256_digest :: string where
  "default_sha256_digest = ''sha256:e3b0c44298fc1c149afbf4c8996fb92427ae41e4649b934ca495991b7852b855''"

definition default_desired_state :: string where
  "default_desired_state = ''RUNNING''"

definition secret_reference_json :: "secret_reference \<Rightarrow> json" where
  "secret_reference_json r = JObject (
     [(''secretId'', JString (se_secret_id r))]
     @ opt_member ''componentId'' JString (se_component_id r)
     @ opt_member ''scope'' JString (se_scope r)
     @ [(''purpose'', JString (se_purpose r)), (''generation'', json_nat_word (se_generation r))])"

definition envelope_members :: "envelope \<Rightarrow> (string \<times> json) list" where
  "envelope_members e =
     [(''schema'', JString (en_schema e)), (''deploymentId'', JString (en_deployment_id e)),
      (''generation'', json_nat_word (en_generation e)), (''profileId'', JString (en_profile_id e)),
      (''profileVersion'', JString (en_profile_version e)), (''profileDigest'', JString (en_profile_digest e)),
      (''configurationDigest'', JString (en_configuration_digest e)),
      (''desiredDigest'', JString (en_desired_digest e)),
      (''modules'', JArray (map JString (en_modules e))),
      (''secretRefs'', JArray (map secret_reference_json (en_secret_refs e))),
      (''desiredState'', JString (en_desired_state e)), (''clientId'', JString (en_client_id e)),
      (''organizationId'', JString (en_organization_id e)), (''siteId'', JString (en_site_id e))]
     @ opt_member ''productId'' JString (en_product_id e)
     @ [(''hostId'', JString (en_host_id e)), (''nonce'', JString (en_nonce e)),
      (''issuedAt'', json_nat_word (en_issued_at e)), (''expiresAt'', json_nat_word (en_expires_at e)),
      (''purpose'', JString (en_purpose e)), (''authorityKeyId'', JString (en_authority_key_id e)),
      (''authoritySignature'', JString (en_authority_signature e))]
     @ opt_member ''environment''
         (\<lambda>env. JObject (map (map_prod (\<lambda>k. k) JString) env)) (en_environment e)"

definition signing_bytes :: "(string \<Rightarrow> string) \<Rightarrow> envelope \<Rightarrow> string" where
  "signing_bytes esc e = domain_desired_state
     @ rfc8785_canonical_json esc (remove_members [''authoritySignature''] (JObject (envelope_members e)))"

text \<open>What is planned: the body of the envelope, without the transport's members.\<close>

definition to_canonical_desired_state :: "envelope \<Rightarrow> json" where
  "to_canonical_desired_state e = JObject (
     [(''schema'', JString (en_schema e)), (''deploymentId'', JString (en_deployment_id e)),
      (''profileId'', JString (en_profile_id e)), (''profileVersion'', JString (en_profile_version e)),
      (''profileDigest'', JString (en_profile_digest e)),
      (''configurationDigest'', JString (if en_configuration_digest e = [] then default_sha256_digest
         else en_configuration_digest e)),
      (''desiredDigest'', JString (en_desired_digest e)),
      (''modules'', JArray (map JString (en_modules e))),
      (''secretRefs'', JArray (map secret_reference_json (en_secret_refs e))),
      (''desiredState'', JString (if en_desired_state e = [] then default_desired_state else en_desired_state e)),
      (''generation'', json_nat_word (en_generation e))]
     @ (if en_site_id e = [] then [] else [(''siteId'', JString (en_site_id e))])
     @ (case en_product_id e of
          Some product_id \<Rightarrow> if product_id = [] then [] else [(''productId'', JString product_id)]
        | None \<Rightarrow> []))"

definition canonical_desired_state_json :: "(string \<Rightarrow> string) \<Rightarrow> envelope \<Rightarrow> string" where
  "canonical_desired_state_json esc e = json_text esc (sort_members (to_canonical_desired_state e))"

section \<open>Verification\<close>

datatype ipc_principal_kind = SupervisorSovereign | ConnectivityProduct

record ipc_principal =
  ip_principal_id :: string
  ip_principal_kind :: ipc_principal_kind
  ip_allowed_operations :: "string list"
  ip_bound_client :: "string option"
  ip_bound_organization :: "string option"
  ip_bound_site :: "string option"
  ip_bound_host :: "string option"

definition sovereign_ipc_principal :: ipc_principal where
  "sovereign_ipc_principal = \<lparr> ip_principal_id = ''actium-supervisor-sovereign'',
     ip_principal_kind = SupervisorSovereign, ip_allowed_operations = [''*''],
     ip_bound_client = None, ip_bound_organization = None, ip_bound_site = None, ip_bound_host = None \<rparr>"

record 'k command_host =
  ch_identity :: "string + string option"
  ch_trust_poisoned :: bool
  ch_bundle :: "string option option"
  ch_bootstrap_roots :: "string + (string \<times> string) list"
  ch_arch :: string
  ch_os :: string
  ch_b64url :: "string \<Rightarrow> string option"
  ch_b64 :: "string \<Rightarrow> string + string"
  ch_key_from_bytes :: "string \<Rightarrow> 'k option"
  ch_signature_from_slice :: "string \<Rightarrow> string + string"
  ch_verify :: "'k \<Rightarrow> string \<Rightarrow> string \<Rightarrow> string + unit"
  ch_parse_receipt :: "string \<Rightarrow> string + workload_receipt"

text \<open>The error a failed check is mapped to.\<close>

definition unauthorized :: "string \<Rightarrow> string \<Rightarrow> workload_error" where
  "unauthorized what e = Unauthorized (what @ '': '' @ e)"

definition check_bound :: "string \<Rightarrow> string option \<Rightarrow> string \<Rightarrow> workload_error + unit" where
  "check_bound what bound target = (case bound of
     Some b \<Rightarrow> if b \<noteq> target
       then Inl (Unauthorized (what @ '' binding mismatch: principal bound to '' @ quoted b
         @ '', envelope target is '' @ quoted target))
       else Inr ()
   | None \<Rightarrow> Inr ())"

definition check_signature ::
  "'k command_host \<Rightarrow> (string \<Rightarrow> string) \<Rightarrow> 'k \<Rightarrow> envelope \<Rightarrow> workload_error + unit" where
  "check_signature h esc key e =
     res_bind (map_err (unauthorized ''Invalid base64 signature'') (ch_b64 h (en_authority_signature e))) (\<lambda>raw.
     res_bind (map_err (unauthorized ''Invalid signature slice'') (ch_signature_from_slice h raw)) (\<lambda>sig.
     map_err (unauthorized ''Signature verification failed'') (ch_verify h key (signing_bytes esc e) sig)))"

definition verify_envelope ::
  "'k command_host \<Rightarrow> (string \<Rightarrow> string) \<Rightarrow> ipc_principal \<Rightarrow> string \<Rightarrow> 'k \<Rightarrow> u64 \<Rightarrow> envelope
    \<Rightarrow> workload_error + unit" where
  "verify_envelope h esc caller expected_host_id key now e =
     (if en_schema e \<noteq> desired_workload_state_schema
      then Inl (Unauthorized (''Invalid schema '' @ quoted (en_schema e) @ '', expected ''
        @ quoted desired_workload_state_schema))
      else if en_purpose e \<noteq> ''workload_desired_state''
      then Inl (Unauthorized (''Invalid envelope purpose '' @ quoted (en_purpose e) @ '': expected ''
        @ quoted ''workload_desired_state''))
      else if en_expires_at e > 0 \<and> now > en_expires_at e
      then Inl (Unauthorized (''Desired state envelope expired at '' @ show_word (en_expires_at e)
        @ '' (current time '' @ show_word now @ '')''))
      else if en_host_id e \<noteq> expected_host_id
      then Inl (Unauthorized (''Host mismatch: envelope target host is '' @ quoted (en_host_id e)
        @ '', expected local host is '' @ quoted expected_host_id))
      else
        res_bind (check_bound ''Host'' (ip_bound_host caller) (en_host_id e)) (\<lambda>_.
        res_bind (check_bound ''Site'' (ip_bound_site caller) (en_site_id e)) (\<lambda>_.
        res_bind (check_bound ''Organization'' (ip_bound_organization caller) (en_organization_id e)) (\<lambda>_.
        res_bind (check_bound ''Client'' (ip_bound_client caller) (en_client_id e)) (\<lambda>_.
        check_signature h esc key e)))))"

definition verify_receipt_signature ::
  "'k command_host \<Rightarrow> (string \<Rightarrow> string) \<Rightarrow> workload_receipt \<Rightarrow> 'k \<Rightarrow> workload_error + unit" where
  "verify_receipt_signature h esc r key =
     res_bind (map_err (unauthorized ''Invalid base64 signature'') (ch_b64 h (wr_signature r))) (\<lambda>raw.
     res_bind (map_err (unauthorized ''Invalid signature slice'') (ch_signature_from_slice h raw)) (\<lambda>sig.
     map_err (unauthorized ''Receipt signature verification failed'')
       (ch_verify h key (receipt_signing_bytes esc r) sig)))"

section \<open>The commands\<close>

datatype supervisor_reply =
    WorkloadReceiptReply workload_receipt
  | ErrorReply string string

definition decode_public_key :: "'k command_host \<Rightarrow> string \<Rightarrow> string + 'k" where
  "decode_public_key h key =
     (case ch_b64url h key of
        None \<Rightarrow> Inl ''TRUST_PUBLIC_KEY_INVALID''
      | Some raw \<Rightarrow>
          if length raw \<noteq> 32 then Inl ''TRUST_PUBLIC_KEY_INVALID''
          else (case ch_key_from_bytes h raw of
             None \<Rightarrow> Inl ''TRUST_PUBLIC_KEY_INVALID'' | Some k \<Rightarrow> Inr k))"

text \<open>The key in force: of the centre in the trust bundle, or of a bootstrap root where there is none.\<close>

definition command_key :: "'k command_host \<Rightarrow> envelope \<Rightarrow> string + 'k" where
  "command_key h e =
     (case ch_bundle h of
        Some (Some key) \<Rightarrow> decode_public_key h key
      | Some None \<Rightarrow> Inl ''No active center authority found in trust bundle''
      | None \<Rightarrow> res_bind (ch_bootstrap_roots h) (\<lambda>roots.
          case find (\<lambda>r. fst r = en_authority_key_id e) roots of
            Some r \<Rightarrow> decode_public_key h (snd r)
          | None \<Rightarrow> Inl ''No active trust bundle or matching bootstrap root available to verify workload envelope''))"

definition envelope_digest :: "planner_lib \<Rightarrow> envelope \<Rightarrow> string" where
  "envelope_digest lib e = sha256_hex (pl_sha lib) (json_text (pl_esc lib) (JObject (envelope_members e)))"

definition host_caps_digest :: "'k command_host \<Rightarrow> planner_lib \<Rightarrow> string \<Rightarrow> string" where
  "host_caps_digest h lib host_id =
     (case canonical_digest_for_value (pl_esc lib) (pl_sha lib)
        (JObject [(''arch'', JString (ch_arch h)), (''hostId'', JString host_id), (''os'', JString (ch_os h))]) of
        Inr d \<Rightarrow> d
      | Inl _ \<Rightarrow> ''sha256:0000000000000000000000000000000000000000000000000000000000000000'')"

fun reply_of :: "reconciliation_outcome \<Rightarrow> supervisor_reply" where
  "reply_of (Success receipt) = WorkloadReceiptReply receipt"
| "reply_of (RolledBack reason previous) = ErrorReply ''ROLLED_BACK''
     (''Rolled back to generation '' @ show_word previous @ '': '' @ reason)"
| "reply_of (FailedRequiresOperator reason) = ErrorReply ''FAILED_REQUIRES_OPERATOR'' reason"

text \<open>Everything that is checked before the store is touched: the host the command is for, or an error.\<close>

definition admit_envelope ::
  "'k command_host \<Rightarrow> (string \<Rightarrow> string) \<Rightarrow> u64 \<Rightarrow> envelope \<Rightarrow> string + string" where
  "admit_envelope h esc now e =
     res_bind (ch_identity h) (\<lambda>identity.
     case identity of
       None \<Rightarrow> Inl ''HOST_IDENTITY_MISSING''
     | Some host_id \<Rightarrow>
         if ch_trust_poisoned h then Inl ''TRUST_STORE_LOCK_FAILED''
         else res_bind (command_key h e) (\<lambda>key.
           res_bind (map_err (\<lambda>x. ''Workload envelope verification failed: '' @ show_workload_error x)
             (verify_envelope h esc sovereign_ipc_principal host_id key now e)) (\<lambda>_. Inr host_id)))"

definition workload_reconcile_command ::
  "'k command_host \<Rightarrow> 'x providers \<Rightarrow> u64 \<Rightarrow> envelope \<Rightarrow> 'x rc_state
    \<Rightarrow> ('x rc_state \<times> (string + supervisor_reply)) option" where
  "workload_reconcile_command h p now e s =
     (case admit_envelope h (pl_esc (pv_lib p)) now e of
        Inl err \<Rightarrow> Some (s, Inl err)
      | Inr host_id \<Rightarrow>
         (case rc_store p (\<lambda>w. consume_or_replay_nonce w (en_nonce e) (en_deployment_id e) (en_generation e)
               (envelope_digest (pv_lib p) e) now) s of
            None \<Rightarrow> None
          | Some (s1, Inl x) \<Rightarrow> Some (s1, Inl (''Nonce verification error: '' @ show_workload_error x))
          | Some (s1, Inr _) \<Rightarrow>
             (case reconcile p (host_caps_digest h (pv_lib p) host_id)
                 (canonical_desired_state_json (pl_esc (pv_lib p)) e) now s1 of
                None \<Rightarrow> None
              | Some (s2, Inl x) \<Rightarrow> Some (s2, Inl (''Reconciliation failed: '' @ show_workload_error x))
              | Some (s2, Inr outcome) \<Rightarrow> Some (s2, Inr (reply_of outcome)))))"

definition workload_status_command ::
  "'k command_host \<Rightarrow> sql_world \<Rightarrow> string \<Rightarrow> workload_db \<Rightarrow> string + supervisor_reply" where
  "workload_status_command h w deployment_id db =
     res_bind (map_err (\<lambda>x. ''Database error: '' @ show_workload_error x) (get_latest_receipt w deployment_id db)) (\<lambda>found.
     case found of
       Some text \<Rightarrow> res_bind (map_err (\<lambda>x. ''Receipt deserialization error: '' @ x) (ch_parse_receipt h text)) (\<lambda>receipt.
         Inr (WorkloadReceiptReply receipt))
     | None \<Rightarrow> Inr (ErrorReply ''NOT_FOUND'' (''No deployment found for '' @ quoted deployment_id)))"

section \<open>The signature covers the envelope\<close>

lemma secret_keys: "distinct (map fst ([(''secretId'', JString a)]
     @ opt_member ''componentId'' JString b @ opt_member ''scope'' JString c @ [(''purpose'', JString d), (''generation'', g)]))"
  by (cases b; cases c) (simp_all add: opt_member_def)

lemma secret_reference_sorted_inj:
  assumes "sort_members (secret_reference_json r) = sort_members (secret_reference_json r')"
  shows "r = r'"
proof -
  note same = same_sorted_member [OF assms [unfolded secret_reference_json_def] secret_keys secret_keys]
  have "se_secret_id r = se_secret_id r'" using same [of "''secretId''"] by (simp add: member_lookup)
  moreover have "se_component_id r = se_component_id r'"
    using same [of "''componentId''"]
    by (cases "se_component_id r"; cases "se_component_id r'") (simp_all add: member_lookup)
  moreover have "se_scope r = se_scope r'"
    using same [of "''scope''"] by (cases "se_scope r"; cases "se_scope r'") (simp_all add: member_lookup)
  moreover have "se_purpose r = se_purpose r'" using same [of "''purpose''"] by (simp add: member_lookup)
  moreover have "se_generation r = se_generation r'"
    using same [of "''generation''"] by (simp add: member_lookup)
  ultimately show ?thesis by simp
qed

lemma secret_references_sorted_inj:
  "map sort_members (map secret_reference_json rs) = map sort_members (map secret_reference_json rs') \<Longrightarrow> rs = rs'"
proof -
  have inj: "inj (\<lambda>r. sort_members (secret_reference_json r))"
    by (auto simp: inj_def dest: secret_reference_sorted_inj)
  assume "map sort_members (map secret_reference_json rs) = map sort_members (map secret_reference_json rs')"
  then show "rs = rs'" using inj_map_eq_map [OF inj] by (simp add: comp_def)
qed

text \<open>The environment is a \<open>BTreeMap\<close>: its keys are distinct and in order.\<close>

definition envelope_ok :: "envelope \<Rightarrow> bool" where
  "envelope_ok e \<longleftrightarrow> (\<forall>env. en_environment e = Some env \<longrightarrow> sorted (map fst env) \<and> distinct (map fst env))"

lemma sort_environment:
  "sorted (map fst env) \<Longrightarrow> sort_members (JObject (map (map_prod (\<lambda>k. k) JString) env))
     = JObject (map (map_prod (\<lambda>k. k) JString) env)"
  by (simp add: sort_key_map_prod_fst map_map_prod sort_key_id_if_sorted del: map_map)

lemma same_environment:
  assumes "envelope_ok e" "envelope_ok e'"
    and "map_option sort_members (map_option (\<lambda>env. JObject (map (map_prod (\<lambda>k. k) JString) env)) (en_environment e))
      = map_option sort_members (map_option (\<lambda>env. JObject (map (map_prod (\<lambda>k. k) JString) env)) (en_environment e'))"
  shows "en_environment e = en_environment e'"
proof -
  have inj: "inj (map_prod (\<lambda>k :: string. k) JString)" by (auto simp: inj_def)
  show ?thesis using assms inj_map_eq_map [OF inj]
    by (cases "en_environment e"; cases "en_environment e'")
      (auto simp del: sort_members.simps simp: envelope_ok_def sort_environment)
qed

text \<open>What is signed, as one list of members.\<close>

definition signed_members :: "envelope \<Rightarrow> (string \<times> json) list" where
  "signed_members e = filter (\<lambda>kv. fst kv \<noteq> ''authoritySignature'') (envelope_members e)"

lemma signed_keys: "distinct (map fst (signed_members e))"
  unfolding signed_members_def envelope_members_def
  by (cases "en_product_id e"; cases "en_environment e") (simp_all add: opt_member_def)

lemma signing_bytes_signed: "signing_bytes esc e
    = domain_desired_state @ rfc8785_canonical_json esc (JObject (signed_members e))"
  by (simp add: signing_bytes_def remove_members_def signed_members_def)

lemma json_ok_secret: "json_ok (secret_reference_json r)"
  unfolding secret_reference_json_def using secret_keys
  by (cases "se_component_id r"; cases "se_scope r") (simp_all add: opt_member_def json_nat_word_def)

lemma envelope_keys: "distinct (map fst (envelope_members e))"
  unfolding envelope_members_def
  by (cases "en_product_id e"; cases "en_environment e") (simp_all add: opt_member_def)

lemma json_ok_envelope: "envelope_ok e \<Longrightarrow> json_ok (JObject (envelope_members e))"
proof -
  assume ok: "envelope_ok e"
  have env: "distinct (map fst (map (map_prod (\<lambda>k. k) JString) env))" if "en_environment e = Some env" for env
    using ok that by (simp add: envelope_ok_def comp_def)
  have "\<forall>kv \<in> set (envelope_members e). json_ok (snd kv)"
    using env by (cases "en_product_id e"; cases "en_environment e")
      (auto simp: envelope_members_def opt_member_def json_ok_secret list_all_iff json_nat_word_def)
  then show ?thesis using envelope_keys by (simp add: list_all_iff)
qed

lemma json_ok_signed:
  assumes "envelope_ok e"
  shows "json_ok (JObject (signed_members e))"
proof -
  have "json_ok (JObject (envelope_members e))" using assms by (rule json_ok_envelope)
  then have "\<forall>kv \<in> set (envelope_members e). json_ok (snd kv)" by (simp add: list_all_iff)
  then have "\<forall>kv \<in> set (signed_members e). json_ok (snd kv)" by (simp add: signed_members_def)
  then show ?thesis by (simp add: list_all_iff signed_keys)
qed

text \<open>The members one by one.\<close>

lemma envelope_lookup:
  "map_of (signed_members e) ''schema'' = Some (JString (en_schema e))"
  "map_of (signed_members e) ''deploymentId'' = Some (JString (en_deployment_id e))"
  "map_of (signed_members e) ''generation'' = Some (json_nat_word (en_generation e))"
  "map_of (signed_members e) ''profileId'' = Some (JString (en_profile_id e))"
  "map_of (signed_members e) ''profileVersion'' = Some (JString (en_profile_version e))"
  "map_of (signed_members e) ''profileDigest'' = Some (JString (en_profile_digest e))"
  "map_of (signed_members e) ''configurationDigest'' = Some (JString (en_configuration_digest e))"
  "map_of (signed_members e) ''desiredDigest'' = Some (JString (en_desired_digest e))"
  "map_of (signed_members e) ''desiredState'' = Some (JString (en_desired_state e))"
  "map_of (signed_members e) ''clientId'' = Some (JString (en_client_id e))"
  "map_of (signed_members e) ''organizationId'' = Some (JString (en_organization_id e))"
  "map_of (signed_members e) ''siteId'' = Some (JString (en_site_id e))"
  "map_of (signed_members e) ''hostId'' = Some (JString (en_host_id e))"
  "map_of (signed_members e) ''nonce'' = Some (JString (en_nonce e))"
  "map_of (signed_members e) ''issuedAt'' = Some (json_nat_word (en_issued_at e))"
  "map_of (signed_members e) ''expiresAt'' = Some (json_nat_word (en_expires_at e))"
  "map_of (signed_members e) ''purpose'' = Some (JString (en_purpose e))"
  "map_of (signed_members e) ''authorityKeyId'' = Some (JString (en_authority_key_id e))"
  "map_of (signed_members e) ''modules'' = Some (JArray (map JString (en_modules e)))"
  "map_of (signed_members e) ''secretRefs'' = Some (JArray (map secret_reference_json (en_secret_refs e)))"
  "map_of (signed_members e) ''productId'' = map_option JString (en_product_id e)"
  "map_of (signed_members e) ''environment''
     = map_option (\<lambda>env. JObject (map (map_prod (\<lambda>k. k) JString) env)) (en_environment e)"
  unfolding signed_members_def map_of_filter_key [of "\<lambda>k. k \<noteq> ''authoritySignature''"]
  by (simp_all add: envelope_members_def member_lookup split: option.split)

lemma signed_members_inj:
  assumes "sort_members (JObject (signed_members e)) = sort_members (JObject (signed_members e'))"
    and "envelope_ok e" "envelope_ok e'"
  shows "e\<lparr>en_authority_signature := []\<rparr> = e'\<lparr>en_authority_signature := []\<rparr>"
proof -
  note same = same_sorted_member [OF assms(1) signed_keys signed_keys]
  note field = envelope_lookup sort_members_number json_nat_word_inj
  have strings: "en_schema e = en_schema e'"
    "en_deployment_id e = en_deployment_id e'"
    "en_generation e = en_generation e'"
    "en_profile_id e = en_profile_id e'"
    "en_profile_version e = en_profile_version e'"
    "en_profile_digest e = en_profile_digest e'"
    "en_configuration_digest e = en_configuration_digest e'"
    "en_desired_digest e = en_desired_digest e'"
    "en_desired_state e = en_desired_state e'"
    "en_client_id e = en_client_id e'"
    "en_organization_id e = en_organization_id e'"
    "en_site_id e = en_site_id e'"
    "en_host_id e = en_host_id e'"
    "en_nonce e = en_nonce e'"
    "en_issued_at e = en_issued_at e'"
    "en_expires_at e = en_expires_at e'"
    "en_purpose e = en_purpose e'"
    "en_authority_key_id e = en_authority_key_id e'"
    subgoal using same [of "''schema''"] by (simp add: field)
    subgoal using same [of "''deploymentId''"] by (simp add: field)
    subgoal using same [of "''generation''"] by (simp add: field)
    subgoal using same [of "''profileId''"] by (simp add: field)
    subgoal using same [of "''profileVersion''"] by (simp add: field)
    subgoal using same [of "''profileDigest''"] by (simp add: field)
    subgoal using same [of "''configurationDigest''"] by (simp add: field)
    subgoal using same [of "''desiredDigest''"] by (simp add: field)
    subgoal using same [of "''desiredState''"] by (simp add: field)
    subgoal using same [of "''clientId''"] by (simp add: field)
    subgoal using same [of "''organizationId''"] by (simp add: field)
    subgoal using same [of "''siteId''"] by (simp add: field)
    subgoal using same [of "''hostId''"] by (simp add: field)
    subgoal using same [of "''nonce''"] by (simp add: field)
    subgoal using same [of "''issuedAt''"] by (simp add: field)
    subgoal using same [of "''expiresAt''"] by (simp add: field)
    subgoal using same [of "''purpose''"] by (simp add: field)
    subgoal using same [of "''authorityKeyId''"] by (simp add: field)
    done
  have "en_modules e = en_modules e'"
    using same [of "''modules''"] sort_members_strings by (simp add: field)
  moreover have "en_secret_refs e = en_secret_refs e'"
    using same [of "''secretRefs''"] secret_references_sorted_inj by (simp add: field)
  moreover have "en_product_id e = en_product_id e'"
    using same [of "''productId''"]
    by (cases "en_product_id e"; cases "en_product_id e'") (simp_all add: field)
  moreover have "en_environment e = en_environment e'"
    using same [of "''environment''"] by (intro same_environment assms) (simp add: field)
  ultimately show ?thesis using strings by simp
qed

lemma signing_bytes_inj:
  assumes "self_delimiting esc" "envelope_ok e" "envelope_ok e'" "signing_bytes esc e = signing_bytes esc e'"
  shows "e\<lparr>en_authority_signature := []\<rparr> = e'\<lparr>en_authority_signature := []\<rparr>"
proof -
  note ok = json_ok_signed [OF assms(2)] json_ok_signed [OF assms(3)]
  have "json_text esc (sort_members (JObject (signed_members e))) @ []
      = json_text esc (sort_members (JObject (signed_members e'))) @ []"
    using assms(4) unfolding signing_bytes_signed rfc8785_eq_canonical [OF ok(1)] rfc8785_eq_canonical [OF ok(2)]
      canonical_json_eq by simp
  from json_text_unique [OF assms(1) json_ok_sort_members [OF ok(1)] json_ok_sort_members [OF ok(2)]
      follow_simps(1) follow_simps(1) this]
  have "sort_members (JObject (signed_members e)) = sort_members (JObject (signed_members e'))" by (rule conjunct1)
  then show ?thesis using assms(2,3) by (rule signed_members_inj)
qed

lemma signed_members_frame: "signed_members (e\<lparr>en_authority_signature := x\<rparr>) = signed_members e"
  by (simp add: signed_members_def envelope_members_def opt_member_def split: option.split)

section \<open>What a command leaves behind\<close>

interpretation recorded: run_invariant "\<lambda>db. find_nonce n db = Some row" op_id for n row op_id
  by unfold_locales (auto simp: find_nonce_def insert_operation_def split: if_splits dest!: update_operations_Inr)

text \<open>A fact that the two publishing transactions keep as well survives the whole run.\<close>

lemma run_ok_keeps:
  assumes "run_ok I p q plan op_id now r db"
    and "\<And>w lkg reason db0. I db0 \<Longrightarrow> commit_rollback_tx w op_id (want_deployment q) (want_generation q) lkg reason now db0
        = (db, Inr ()) \<Longrightarrow> I db"
    and "\<And>w c db0. I db0 \<Longrightarrow> commit_reconciliation_tx2 w c db0 = (db, Inr ()) \<Longrightarrow> I db"
  shows "I db"
proof (cases r)
  case (Inr outcome)
  then show ?thesis using assms by (cases outcome) (auto simp: run_ok_def rolled_back_def committed_def)
qed (use assms(1) in \<open>simp add: run_ok_def\<close>)

lemma reconcile_keeps_nonce:
  assumes "reconcile p caps desired_json now s = Some (s', r)" "find_nonce n (rs_db s) = Some row"
  shows "find_nonce n (rs_db s') = Some row"
proof (rule reconcile_cases [OF assms(1)])
  fix q plan k w assume run: "run_planned p q plan now (s\<lparr> rs_calls := k \<rparr>) = Some (s', r)"
  show ?thesis
  proof (rule run_ok_keeps [OF recorded.run_planned_outcome [OF refl run]])
    show "find_nonce n (rs_db (s\<lparr>rs_calls := k\<rparr>)) = Some row" by (simp add: assms(2))
  next
    fix db0 w c assume "find_nonce n db0 = Some row" "commit_reconciliation_tx2 w c db0 = (rs_db s', Inr ())"
    then show ?thesis by (elim commit_tx2_Inr) (simp add: find_nonce_def)
  next
    fix w lkg reason db0
    assume found: "find_nonce n db0 = Some row" and tx: "commit_rollback_tx w
      (operation_id (want_deployment q) (want_generation q) now) (want_deployment q) (want_generation q) lkg reason now db0
      = (rs_db s', Inr ())"
    show ?thesis using found by (simp add: rollback_tx_Inr [OF tx] find_nonce_def)
  qed
qed (use assms(2) in simp)

lemma consumed_nonce:
  assumes "consume_or_replay_nonce w n dep gen d now db = (db', Inr b)"
  shows "\<exists>row. find_nonce n db' = Some row \<and> nr_envelope_digest row = d"
    "find_nonce m db = Some old \<Longrightarrow> find_nonce m db' = Some old"
    "db_receipts db' = db_receipts db" "db_deployments db' = db_deployments db"
  using assms
  by (auto elim!: consume_nonce_cases simp: insert_nonce_find)
    (auto simp: insert_nonce_def split: if_splits option.splits)

text \<open>
  A command stops at the envelope or at the nonce and leaves the store as it was, or it has recorded
  the nonce and run the reconciler.
\<close>

lemma command_cases:
  assumes "workload_reconcile_command h p now e s = Some (s', r)"
  obtains (refused) err where "admit_envelope h (pl_esc (pv_lib p)) now e = Inl err" "s' = s" "r = Inl err"
  | (replay) host_id err where "admit_envelope h (pl_esc (pv_lib p)) now e = Inr host_id" "rs_db s' = rs_db s" "r = Inl err"
  | (ran) host_id row s1 x where "admit_envelope h (pl_esc (pv_lib p)) now e = Inr host_id"
      "find_nonce (en_nonce e) (rs_db s1) = Some row" "nr_envelope_digest row = envelope_digest (pv_lib p) e"
      "\<And>n old. find_nonce n (rs_db s) = Some old \<Longrightarrow> find_nonce n (rs_db s1) = Some old"
      "db_receipts (rs_db s1) = db_receipts (rs_db s)" "db_deployments (rs_db s1) = db_deployments (rs_db s)"
      "reconcile p (host_caps_digest h (pv_lib p) host_id)
         (canonical_desired_state_json (pl_esc (pv_lib p)) e) now s1 = Some (s', x)"
      "r = (case x of Inl err \<Rightarrow> Inl (''Reconciliation failed: '' @ show_workload_error err) | Inr out \<Rightarrow> Inr (reply_of out))"
proof (cases "admit_envelope h (pl_esc (pv_lib p)) now e")
  case (Inl err)
  then show thesis using assms refused by (simp add: workload_reconcile_command_def)
next
  case (Inr host_id)
  obtain db1 y where step: "consume_or_replay_nonce (pv_sql p (rs_calls s)) (en_nonce e) (en_deployment_id e)
      (en_generation e) (envelope_digest (pv_lib p) e) now (rs_db s) = (db1, y)" by force
  let ?s1 = "s\<lparr> rs_db := db1, rs_calls := Suc (rs_calls s) \<rparr>"
  have run: "workload_reconcile_command h p now e s = (case y of
      Inl x \<Rightarrow> Some (?s1, Inl (''Nonce verification error: '' @ show_workload_error x))
    | Inr _ \<Rightarrow> (case reconcile p (host_caps_digest h (pv_lib p) host_id)
           (canonical_desired_state_json (pl_esc (pv_lib p)) e) now ?s1 of
          None \<Rightarrow> None
        | Some (s2, Inl x) \<Rightarrow> Some (s2, Inl (''Reconciliation failed: '' @ show_workload_error x))
        | Some (s2, Inr outcome) \<Rightarrow> Some (s2, Inr (reply_of outcome))))"
    by (simp add: workload_reconcile_command_def Inr rc_store_def step split: sum.split)
  show thesis
  proof (cases y)
    case (Inl x)
    then have "db1 = rs_db s" using step by (auto elim: consume_nonce_cases)
    then show thesis using replay [OF Inr] assms run Inl by auto
  next
    case y: (Inr b)
    then obtain x where x: "reconcile p (host_caps_digest h (pv_lib p) host_id)
        (canonical_desired_state_json (pl_esc (pv_lib p)) e) now ?s1 = Some (s', x)"
      "r = (case x of Inl err \<Rightarrow> Inl (''Reconciliation failed: '' @ show_workload_error err) | Inr out \<Rightarrow> Inr (reply_of out))"
      using assms run by (auto split: option.splits sum.splits)
    note after = consumed_nonce [OF step [unfolded y]]
    from after(1) obtain row where row: "find_nonce (en_nonce e) db1 = Some row"
        "nr_envelope_digest row = envelope_digest (pv_lib p) e" by blast
    show thesis by (rule ran [OF Inr _ row(2) _ _ _ x]) (simp_all add: row(1) after)
  qed
qed

text \<open>The supervisor's own principal is bound to nothing.\<close>

lemma sovereign_unbound:
  "verify_envelope h esc sovereign_ipc_principal host key now e = Inr () \<longleftrightarrow>
     en_schema e = desired_workload_state_schema \<and> en_purpose e = ''workload_desired_state''
     \<and> (en_expires_at e = 0 \<or> now \<le> en_expires_at e) \<and> en_host_id e = host
     \<and> check_signature h esc key e = Inr ()"
  by (auto simp: verify_envelope_def sovereign_ipc_principal_def check_bound_def word_neq_0_conv not_less
      res_bind_simps)

lemma check_signature_Inr:
  "check_signature h esc key e = Inr () \<longleftrightarrow> (\<exists>raw sig. ch_b64 h (en_authority_signature e) = Inr raw
     \<and> ch_signature_from_slice h raw = Inr sig \<and> ch_verify h key (signing_bytes esc e) sig = Inr ())"
  by (simp add: check_signature_def result_simps map_err_Inr)

lemma admit_envelopeD:
  assumes "admit_envelope h esc now e = Inr host_id"
  shows "\<exists>key raw sig. ch_identity h = Inr (Some host_id) \<and> en_host_id e = host_id \<and> \<not> ch_trust_poisoned h
    \<and> command_key h e = Inr key \<and> en_schema e = desired_workload_state_schema
    \<and> en_purpose e = ''workload_desired_state'' \<and> (en_expires_at e = 0 \<or> now \<le> en_expires_at e)
    \<and> ch_b64 h (en_authority_signature e) = Inr raw \<and> ch_signature_from_slice h raw = Inr sig
    \<and> ch_verify h key (signing_bytes esc e) sig = Inr ()"
  using assms
  by (auto simp: admit_envelope_def result_simps map_err_Inr sovereign_unbound check_signature_Inr
      split: option.splits if_splits)

text \<open>A receipt verifies under a key that verifies what the host signs.\<close>

lemma signed_receipt_verifies:
  assumes "\<And>m. \<exists>raw sig. ch_b64 h (pv_sign p m) = Inr raw \<and> ch_signature_from_slice h raw = Inr sig
      \<and> ch_verify h key m sig = Inr ()"
  shows "verify_receipt_signature h (pl_esc (pv_lib p)) (sign_receipt_with_key p r) key = Inr ()"
  using assms [of "receipt_signing_bytes (pl_esc (pv_lib p)) (sign_receipt_with_key p r)"]
  by (auto simp: verify_receipt_signature_def sign_receipt_fields(6) map_err_Inr result_simps)

section \<open>Sequences of commands\<close>

fun run_commands ::
  "'k command_host \<Rightarrow> 'x providers \<Rightarrow> (u64 \<times> envelope) list \<Rightarrow> 'x rc_state
    \<Rightarrow> ('x rc_state \<times> (envelope \<times> (string + supervisor_reply)) list) option" where
  "run_commands h p [] s = Some (s, [])"
| "run_commands h p ((now, e) # cmds) s =
     (case workload_reconcile_command h p now e s of
        None \<Rightarrow> None
      | Some (s1, r) \<Rightarrow> map_option (\<lambda>(s2, log). (s2, (e, r) # log)) (run_commands h p cmds s1))"

lemma command_keeps_nonce:
  assumes "workload_reconcile_command h p now e s = Some (s', r)" "find_nonce n (rs_db s) = Some row"
  shows "find_nonce n (rs_db s') = Some row"
  using assms(1)
proof (cases rule: command_cases)
  case (ran host_id row' s1 x)
  show ?thesis by (rule reconcile_keeps_nonce [OF ran(7) ran(4) [OF assms(2)]])
qed (simp_all add: assms(2))

lemma command_records_nonce:
  assumes "workload_reconcile_command h p now e s = Some (s', Inr reply)"
  obtains row where "find_nonce (en_nonce e) (rs_db s') = Some row"
    "nr_envelope_digest row = envelope_digest (pv_lib p) e"
  using assms
proof (cases rule: command_cases)
  case (ran host_id row s1 x)
  show ?thesis by (rule that [OF reconcile_keeps_nonce [OF ran(7,2)] ran(3)])
qed simp_all

lemma recorded_command:
  assumes "run_commands h p cmds s = Some (s', log)" "(e, Inr reply) \<in> set log"
    "find_nonce (en_nonce e) (rs_db s) = Some row"
  shows "envelope_digest (pv_lib p) e = nr_envelope_digest row"
  using assms
proof (induction cmds arbitrary: s log)
  case (Cons c cmds)
  obtain now a where c: "c = (now, a)" by force
  from Cons.prems(1) obtain s1 r log1 where step: "workload_reconcile_command h p now a s = Some (s1, r)"
      and rest: "run_commands h p cmds s1 = Some (s', log1)" and log: "log = (a, r) # log1"
    by (auto simp: c split: option.splits)
  have kept: "find_nonce (en_nonce e) (rs_db s1) = Some row"
    by (rule command_keeps_nonce [OF step Cons.prems(3)])
  show ?case
  proof (cases "(e, Inr reply) \<in> set log1")
    case True
    then show ?thesis by (rule Cons.IH [OF rest _ kept])
  next
    case False
    then have "a = e" "r = Inr reply" using Cons.prems(2) log by auto
    with command_records_nonce [of h p now e s s1 reply] step kept show ?thesis by force
  qed
qed simp

lemma same_nonce_same_digest:
  assumes "run_commands h p cmds s = Some (s', log)" "(e, Inr r) \<in> set log" "(e', Inr r') \<in> set log"
    "en_nonce e = en_nonce e'"
  shows "envelope_digest (pv_lib p) e = envelope_digest (pv_lib p) e'"
  using assms(1-3)
proof (induction cmds arbitrary: s log)
  case (Cons c cmds)
  obtain now a where c: "c = (now, a)" by force
  from Cons.prems(1) obtain s1 x log1 where step: "workload_reconcile_command h p now a s = Some (s1, x)"
      and rest: "run_commands h p cmds s1 = Some (s', log1)" and log: "log = (a, x) # log1"
    by (auto simp: c split: option.splits)
  have first: "envelope_digest (pv_lib p) b = envelope_digest (pv_lib p) a"
    if "x = Inr y" "(b, Inr z) \<in> set log1" "en_nonce b = en_nonce a" for y b z
  proof -
    from step that(1) have "workload_reconcile_command h p now a s = Some (s1, Inr y)" by simp
    then obtain row where "find_nonce (en_nonce a) (rs_db s1) = Some row"
        "nr_envelope_digest row = envelope_digest (pv_lib p) a"
      by (rule command_records_nonce)
    then show ?thesis using recorded_command [OF rest that(2)] that(3) by simp
  qed
  consider "(e, Inr r) \<in> set log1" "(e', Inr r') \<in> set log1" | "a = e" "x = Inr r" "(e', Inr r') \<in> set log1"
    | "a = e'" "x = Inr r'" "(e, Inr r) \<in> set log1" | "e = e'"
    using Cons.prems(2,3) log by auto
  then show ?case
  proof cases
    case 1
    then show ?thesis by (rule Cons.IH [OF rest])
  next
    case 2
    then show ?thesis using first [OF 2(2,3)] assms(4) by simp
  next
    case 3
    then show ?thesis using first [OF 3(2,3)] assms(4) by simp
  qed simp
qed simp

text \<open>The text under the digest of an envelope determines the envelope.\<close>

abbreviation envelope_text :: "planner_lib \<Rightarrow> envelope \<Rightarrow> string" where
  "envelope_text lib e \<equiv> json_text (pl_esc lib) (JObject (envelope_members e))"

lemma envelope_text_inj:
  assumes "self_delimiting (pl_esc lib)" "envelope_ok e" "envelope_ok e'" "envelope_text lib e = envelope_text lib e'"
  shows "e = e'"
proof -
  from assms(4) have "envelope_text lib e @ [] = envelope_text lib e' @ []" by simp
  from json_text_unique [OF assms(1) json_ok_envelope [OF assms(2)] json_ok_envelope [OF assms(3)]
      follow_simps(1) follow_simps(1) this]
  have members: "envelope_members e = envelope_members e'" by simp
  then have rest: "e\<lparr>en_authority_signature := []\<rparr> = e'\<lparr>en_authority_signature := []\<rparr>"
    using assms(2,3) by (intro signed_members_inj) (simp_all add: signed_members_def)
  have signature: "map_of (envelope_members x) ''authoritySignature'' = Some (JString (en_authority_signature x))" for x
    unfolding envelope_members_def map_of_append map_add_def map_of_opt_member by (simp add: map_of_opt_member)
  have same: "en_authority_signature e = en_authority_signature e'" using signature [of e] signature [of e'] by (simp add: members)
  have "e = (e\<lparr>en_authority_signature := []\<rparr>)\<lparr>en_authority_signature := en_authority_signature e\<rparr>" by simp
  also have "\<dots> = (e'\<lparr>en_authority_signature := []\<rparr>)\<lparr>en_authority_signature := en_authority_signature e'\<rparr>"
    by (simp only: rest same)
  also have "\<dots> = e'" by simp
  finally show ?thesis .
qed

section \<open>Properties\<close>

text \<open>
  The signature of an envelope covers every member except itself: two envelopes have the same
  signed bytes exactly when they differ in nothing but their signatures. And no signed receipt has
  the bytes of an envelope, so neither signature can be passed off as the other.
\<close>

theorem envelope_signature_covers_all:
  assumes "self_delimiting esc" "envelope_ok e" "envelope_ok e'"
  shows "(signing_bytes esc e = signing_bytes esc e'
      \<longleftrightarrow> e\<lparr>en_authority_signature := []\<rparr> = e'\<lparr>en_authority_signature := []\<rparr>)
    \<and> signing_bytes esc e \<noteq> receipt_signing_bytes esc r"
proof -
  have "signing_bytes esc e = signing_bytes esc e'"
    if "e\<lparr>en_authority_signature := []\<rparr> = e'\<lparr>en_authority_signature := []\<rparr>"
    using signed_members_frame [of "[]" e] signed_members_frame [of "[]" e'] that
    by (simp add: signing_bytes_signed)
  moreover have "signing_bytes esc e \<noteq> receipt_signing_bytes esc r"
    by (simp add: signing_bytes_def receipt_signing_bytes_def domain_desired_state_def domain_receipt_def)
  ultimately show ?thesis using signing_bytes_inj [OF assms] by blast
qed

definition example_envelope :: envelope where
  "example_envelope = \<lparr> en_schema = desired_workload_state_schema, en_deployment_id = ''shop'', en_generation = 3,
     en_profile_id = ''web'', en_profile_version = ''1'', en_profile_digest = zero_digest,
     en_configuration_digest = [], en_desired_digest = zero_digest, en_modules = [], en_secret_refs = [],
     en_desired_state = ''STOPPED'', en_client_id = ''c'', en_organization_id = ''o'', en_site_id = ''s'',
     en_product_id = None, en_host_id = ''h1'', en_nonce = ''n1'', en_issued_at = 1, en_expires_at = 0,
     en_purpose = ''workload_desired_state'', en_authority_key_id = ''k1'', en_authority_signature = ''sig'',
     en_environment = Some [(''A'', ''1'')] \<rparr>"

theorem envelope_signature_covers_all_witness:
  "signing_bytes quote_escape example_envelope
     \<noteq> signing_bytes quote_escape (example_envelope\<lparr> en_environment := Some [(''A'', ''2'')] \<rparr>)"
  using envelope_signature_covers_all [of quote_escape example_envelope
      "example_envelope\<lparr> en_environment := Some [(''A'', ''2'')] \<rparr>"]
  by (simp add: quote_escape_self_delimiting envelope_ok_def example_envelope_def)

text \<open>
  C16. Nothing happens without an authentic command: a workload command either answers an error and
  leaves the whole state as it was, or its envelope is addressed to this host, has the purpose and
  schema of a desired state, has not expired, and carries a signature of the key in force over
  all its members. When the store has changed or the command is answered, the nonce of the
  envelope is spent with the digest of the envelope.
\<close>

theorem workload_command_authenticated:
  assumes "workload_reconcile_command h p now e s = Some (s', r)"
  shows "(s' = s \<and> (\<exists>err. r = Inl err)
      \<or> (\<exists>key raw sig. ch_identity h = Inr (Some (en_host_id e)) \<and> command_key h e = Inr key
          \<and> en_schema e = desired_workload_state_schema \<and> en_purpose e = ''workload_desired_state''
          \<and> (en_expires_at e = 0 \<or> now \<le> en_expires_at e)
          \<and> ch_b64 h (en_authority_signature e) = Inr raw \<and> ch_signature_from_slice h raw = Inr sig
          \<and> ch_verify h key (signing_bytes (pl_esc (pv_lib p)) e) sig = Inr ()))
    \<and> (rs_db s' = rs_db s \<and> (\<exists>err. r = Inl err)
      \<or> (\<exists>row. find_nonce (en_nonce e) (rs_db s') = Some row
          \<and> nr_envelope_digest row = envelope_digest (pv_lib p) e))"
  using assms
proof (cases rule: command_cases)
  case (replay host_id err)
  then show ?thesis using admit_envelopeD [OF replay(1)] by blast
next
  case (ran host_id row s1 x)
  then show ?thesis using admit_envelopeD [OF ran(1)] reconcile_keeps_nonce [OF ran(7,2)] by blast
qed simp

definition example_host :: "unit command_host" where
  "example_host = \<lparr> ch_identity = Inr (Some ''h1''), ch_trust_poisoned = False, ch_bundle = Some (Some ''centre key''),
     ch_bootstrap_roots = Inr [], ch_arch = ''x86_64'', ch_os = ''linux'',
     ch_b64url = (\<lambda>_. Some (replicate 32 (CHR 0x00))), ch_b64 = Inr, ch_key_from_bytes = (\<lambda>_. Some ()),
     ch_signature_from_slice = Inr, ch_verify = (\<lambda>_ _ sig. if sig = ''sig'' then Inr () else Inl ''mismatch''),
     ch_parse_receipt = (\<lambda>_. Inl []) \<rparr>"

lemma example_admitted: "admit_envelope example_host esc 7 example_envelope = Inr ''h1''"
  by (simp add: admit_envelope_def command_key_def decode_public_key_def example_host_def verify_envelope_def
      check_signature_def check_bound_def sovereign_ipc_principal_def example_envelope_def map_err_def res_bind_simps)

lemma canonical_text_not_profile: "canonical_desired_state_json esc e \<noteq> ''profile''"
  by (simp add: canonical_desired_state_json_def to_canonical_desired_state_def)

lemma example_nonce: "consume_or_replay_nonce no_faults n dep 3 d 7 empty_db
   = (empty_db\<lparr> db_nonces := [\<lparr>nr_nonce = n, nr_deployment_id = dep, nr_generation = 3,
        nr_envelope_digest = d, nr_consumed_at = 7\<rparr>] \<rparr>, Inr False)"
  by (simp add: consume_or_replay_nonce_def quiet_calls find_nonce_def exec_stmt_def insert_nonce_def
      sql_ints_def sql_int_def empty_db_def)

lemma example_envelope_fields:
  "en_generation example_envelope = 3" "en_nonce example_envelope = ''n1''" "en_deployment_id example_envelope = ''shop''"
  by (simp_all add: example_envelope_def)

lemma example_command:
  "\<exists>s' receipt. workload_reconcile_command example_host (example_providers absent) 7 example_envelope example_state
     = Some (s', Inr (WorkloadReceiptReply receipt))"
proof -
  let ?s = "example_state\<lparr> rs_db := empty_db\<lparr> db_nonces := [\<lparr>nr_nonce = ''n1'', nr_deployment_id = ''shop'',
      nr_generation = 3, nr_envelope_digest = envelope_digest example_lib example_envelope, nr_consumed_at = 7\<rparr>] \<rparr>,
      rs_calls := Suc 0 \<rparr>"
  obtain s' receipt where "reconcile (example_providers absent) (host_caps_digest example_host example_lib ''h1'')
      (canonical_desired_state_json (pl_esc example_lib) example_envelope) 7 ?s = Some (s', Inr (Success receipt))"
    using example_succeeds [of ?s "canonical_desired_state_json (pl_esc example_lib) example_envelope"
        "host_caps_digest example_host example_lib ''h1''"]
    by (auto simp: canonical_text_not_profile empty_db_def)
  moreover have "rs_db example_state = empty_db" "rs_calls example_state = 0" by (simp_all add: example_state_def)
  ultimately show ?thesis
    by (simp add: workload_reconcile_command_def example_admitted rc_store_def example_provider_fields
        example_envelope_fields example_nonce)
qed

theorem workload_command_authenticated_witness:
  "\<exists>s' receipt row. workload_reconcile_command example_host (example_providers absent) 7 example_envelope example_state
      = Some (s', Inr (WorkloadReceiptReply receipt))
    \<and> find_nonce ''n1'' (rs_db s') = Some row \<and> nr_envelope_digest row = envelope_digest example_lib example_envelope"
proof -
  obtain s' receipt where run: "workload_reconcile_command example_host (example_providers absent) 7 example_envelope
      example_state = Some (s', Inr (WorkloadReceiptReply receipt))"
    using example_command by blast
  have "\<exists>row. find_nonce ''n1'' (rs_db s') = Some row \<and> nr_envelope_digest row = envelope_digest example_lib example_envelope"
    using conjunct2 [OF workload_command_authenticated [OF run]]
    by (simp add: example_provider_fields example_envelope_fields)
  then show ?thesis using run by blast
qed

text \<open>
  A nonce stands for one envelope: in any sequence of workload commands, at any times and with any
  database faults, rollbacks and failures in between, two commands with the same nonce that are
  both answered carried the same envelope, signature included, unless SHA-256 collides on their
  texts.
\<close>

theorem nonce_binds_envelope:
  assumes "run_commands h p cmds s = Some (s', log)" "(e, Inr r) \<in> set log" "(e', Inr r') \<in> set log"
    and "en_nonce e = en_nonce e'" "self_delimiting (pl_esc (pv_lib p))" "envelope_ok e" "envelope_ok e'"
  shows "e = e' \<or> (envelope_text (pv_lib p) e \<noteq> envelope_text (pv_lib p) e'
    \<and> pl_sha (pv_lib p) (envelope_text (pv_lib p) e) = pl_sha (pv_lib p) (envelope_text (pv_lib p) e'))"
proof -
  have "hex_bytes (pl_sha (pv_lib p) (envelope_text (pv_lib p) e)) = hex_bytes (pl_sha (pv_lib p) (envelope_text (pv_lib p) e'))"
    using same_nonce_same_digest [OF assms(1-4)]
    by (simp add: envelope_digest_def sha256_hex_def format_sha256_hex_def del: json_text.simps)
  then show ?thesis using envelope_text_inj [OF assms(5-7)] hex_bytes_inj by blast
qed

theorem nonce_binds_envelope_witness:
  "\<exists>s' r. run_commands example_host (example_providers absent) [(7, example_envelope)] example_state
      = Some (s', [(example_envelope, Inr r)])
    \<and> (example_envelope = example_envelope
      \<or> envelope_text example_lib example_envelope \<noteq> envelope_text example_lib example_envelope)"
proof -
  obtain s' receipt where "workload_reconcile_command example_host (example_providers absent) 7 example_envelope
      example_state = Some (s', Inr (WorkloadReceiptReply receipt))"
    using example_command by blast
  then have run: "run_commands example_host (example_providers absent) [(7, example_envelope)] example_state
      = Some (s', [(example_envelope, Inr (WorkloadReceiptReply receipt))])" by simp
  have "self_delimiting (pl_esc (pv_lib (example_providers absent)))"
    by (simp add: example_provider_fields example_lib_def quote_escape_self_delimiting)
  moreover have "envelope_ok example_envelope" by (simp add: envelope_ok_def example_envelope_def)
  ultimately show ?thesis
    using nonce_binds_envelope [OF run list.set_intros(1) list.set_intros(1) refl] run
    unfolding example_provider_fields by blast
qed

text \<open>
  A rollback is not reported: the status command answers, for every deployment, what it answered
  before the command that was rolled back. After a successful run of a generation, a failing run
  of the same generation takes the deployment back to the generation before, and its status is
  still the receipt of the generation that was rolled back.
\<close>

theorem rollback_leaves_status:
  assumes "workload_reconcile_command h p now e s = Some (s', Inr (ErrorReply ''ROLLED_BACK'' message))"
  shows "workload_status_command h w deployment_id (rs_db s') = workload_status_command h w deployment_id (rs_db s)"
  using assms
proof (cases rule: command_cases)
  case (ran host_id row s1 x)
  from ran(8) obtain outcome where "x = Inr outcome" "reply_of outcome = ErrorReply ''ROLLED_BACK'' message"
    by (cases x) auto
  then obtain reason lkg where x: "x = Inr (RolledBack reason lkg)" by (cases outcome) auto
  show ?thesis
  proof (rule reconcile_cases [OF ran(7)])
    fix q plan k w assume run: "run_planned p q plan now (s1\<lparr> rs_calls := k \<rparr>) = Some (s', x)"
    have "run_ok (\<lambda>db. db_deployments db = db_deployments (rs_db s1) \<and> db_receipts db = db_receipts (rs_db s1))
        p q plan (operation_id (want_deployment q) (want_generation q) now) now x (rs_db s')"
      by (rule published.run_planned_outcome [OF refl run]) simp
    then have "db_receipts (rs_db s') = db_receipts (rs_db s)"
      by (auto simp: x run_ok_def rolled_back_def ran(5) dest!: rollback_tx_Inr)
    then show ?thesis by (simp add: workload_status_command_def get_latest_receipt_def)
  qed (use ran(5) in \<open>simp add: workload_status_command_def get_latest_receipt_def\<close>)
qed simp_all

text \<open>A host on which the components of the envelope's generation fail, as in \<open>example_rolls_back\<close>.\<close>

lemma example_command_rolls_back:
  "\<exists>s' message. workload_reconcile_command example_host (example_providers recovering) 7 example_envelope example_state
     = Some (s', Inr (ErrorReply ''ROLLED_BACK'' message))"
proof -
  let ?s = "example_state\<lparr> rs_db := empty_db\<lparr> db_nonces := [\<lparr>nr_nonce = ''n1'', nr_deployment_id = ''shop'',
      nr_generation = 3, nr_envelope_digest = envelope_digest example_lib example_envelope, nr_consumed_at = 7\<rparr>] \<rparr>,
      rs_calls := Suc 0 \<rparr>"
  obtain s' reason where "reconcile (example_providers recovering) (host_caps_digest example_host example_lib ''h1'')
      (canonical_desired_state_json (pl_esc example_lib) example_envelope) 7 ?s = Some (s', Inr (RolledBack reason 2))"
    using example_rolls_back [of ?s "canonical_desired_state_json (pl_esc example_lib) example_envelope"
        "host_caps_digest example_host example_lib ''h1''"]
    by (auto simp: canonical_text_not_profile empty_db_def example_state_fields)
  moreover have "rs_db example_state = empty_db" "rs_calls example_state = 0" by (simp_all add: example_state_def)
  ultimately show ?thesis
    by (simp add: workload_reconcile_command_def example_admitted rc_store_def example_provider_fields
        example_envelope_fields example_nonce)
qed

theorem rollback_leaves_status_witness:
  "\<exists>s' message. workload_reconcile_command example_host (example_providers recovering) 7 example_envelope example_state
      = Some (s', Inr (ErrorReply ''ROLLED_BACK'' message))
    \<and> workload_status_command example_host no_faults ''shop'' (rs_db s')
      = workload_status_command example_host no_faults ''shop'' (rs_db example_state)"
  using example_command_rolls_back rollback_leaves_status by blast

end
