(* ===== verification/Operation_Journal.thy ===== *)
theory Operation_Journal
  imports Canonical_Json
begin

text \<open>
  The supervisor's durable queue of mutations, \<open>OperationJournal\<close> of
  \<^verbatim>\<open>actium-node-core/src/journal.rs\<close>: a table of operations that workers claim under a
  lease, with the redaction of stored text from \<^verbatim>\<open>redaction.rs\<close>.

  Every call opens its own SQLite connection, so the statements of two callers interleave; a
  single statement, and a transaction, is one step. The record \<open>journal_world\<close> says which of the
  SQL calls of an operation fail and with what text, what the clock reads, which of several rows
  with the same time \<open>LIMIT 1\<close> picks, and what the regular expressions redact.
\<close>

section \<open>Data\<close>

text \<open>
  A row holds the attempt count as SQLite's integer, an operation as the code's \<open>u32\<close>.
\<close>

record 'n operation =
  jo_id :: string
  jo_idempotency_key :: string
  jo_actor :: string
  jo_target_node_id :: string
  jo_install_dir :: string
  jo_node_label :: string
  jo_terminal_id :: "string option"
  jo_action :: string
  jo_requested_release :: "string option"
  jo_metadata_json :: "string option"
  jo_state :: string
  jo_queued_at :: string
  jo_started_at :: "string option"
  jo_finished_at :: "string option"
  jo_current_step :: string
  jo_output_redacted :: string
  jo_recovery_policy :: string
  jo_error_code :: "string option"
  jo_attempt_count :: 'n
  jo_lease_expires_at :: "string option"

type_synonym journal_operation = "u32 operation"
type_synonym journal_row = "int operation"

record journal_update =
  ju_state :: string
  ju_current_step :: string
  ju_output :: string
  ju_started_at :: "string option"
  ju_finished_at :: "string option"
  ju_error_code :: "string option"

record journal_world =
  jw_path :: string
  jw_error :: "nat \<Rightarrow> string option"
  jw_conflict :: string
  jw_now :: "nat \<Rightarrow> int"
  jw_tie :: nat
  jw_redact :: "string \<Rightarrow> string"

definition active_states :: "string list" where
  "active_states = [''queued'', ''running'', ''validating'', ''staging'', ''promoting'']"

definition claimed_states :: "string list" where
  "claimed_states = [''running'', ''validating'', ''staging'', ''promoting'']"

definition terminal_states :: "string list" where
  "terminal_states = [''completed'', ''failed'', ''rolled_back'', ''manual_intervention_required'',
     ''cancelled'', ''interrupted'']"

definition mutation_lease_seconds :: int where
  "mutation_lease_seconds = 300"

definition map_operation :: "journal_row \<Rightarrow> journal_operation" where
  "map_operation r = \<lparr>
     jo_id = jo_id r, jo_idempotency_key = jo_idempotency_key r, jo_actor = jo_actor r,
       jo_target_node_id = jo_target_node_id r, jo_install_dir = jo_install_dir r,
       jo_node_label = jo_node_label r, jo_terminal_id = jo_terminal_id r, jo_action = jo_action r,
       jo_requested_release = jo_requested_release r, jo_metadata_json = jo_metadata_json r,
       jo_state = jo_state r, jo_queued_at = jo_queued_at r, jo_started_at = jo_started_at r,
       jo_finished_at = jo_finished_at r, jo_current_step = jo_current_step r,
       jo_output_redacted = jo_output_redacted r, jo_recovery_policy = jo_recovery_policy r,
       jo_error_code = jo_error_code r, jo_attempt_count = word_of_int (max 0 (jo_attempt_count r)),
       jo_lease_expires_at = jo_lease_expires_at r \<rparr>"

text \<open>The row that \<open>enqueue\<close> inserts.\<close>

definition stored_row :: "journal_world \<Rightarrow> journal_operation \<Rightarrow> journal_row" where
  "stored_row w op = \<lparr>
     jo_id = jo_id op, jo_idempotency_key = jo_idempotency_key op, jo_actor = jo_actor op,
       jo_target_node_id = jo_target_node_id op, jo_install_dir = jo_install_dir op,
       jo_node_label = jo_node_label op, jo_terminal_id = jo_terminal_id op, jo_action = jo_action op,
       jo_requested_release = jo_requested_release op,
       jo_metadata_json = map_option (jw_redact w) (jo_metadata_json op), jo_state = jo_state op,
       jo_queued_at = jo_queued_at op, jo_started_at = jo_started_at op,
       jo_finished_at = jo_finished_at op, jo_current_step = jo_current_step op,
       jo_output_redacted = jw_redact w (jo_output_redacted op),
       jo_recovery_policy = jo_recovery_policy op, jo_error_code = jo_error_code op,
       jo_attempt_count = int (unat (jo_attempt_count op)), jo_lease_expires_at = jo_lease_expires_at op \<rparr>"

section \<open>SQL\<close>

definition jcall :: "journal_world \<Rightarrow> nat \<Rightarrow> string \<Rightarrow> 'a \<Rightarrow> string + 'a" where
  "jcall w n pre a = (case jw_error w n of Some e \<Rightarrow> Inl (pre @ '': '' @ e) | None \<Rightarrow> Inr a)"

definition journal_connection :: "journal_world \<Rightarrow> string + unit" where
  "journal_connection w =
     res_bind (jcall w 0 (''No se pudo abrir '' @ jw_path w) ()) (\<lambda>_.
     jcall w 1 ''No se pudo configurar SQLite'' ())"

text \<open>
  \<open>CAST(text AS INTEGER)\<close>: the longest decimal prefix, held to 64 bits.
\<close>

fun digits_value :: "nat \<Rightarrow> string \<Rightarrow> nat" where
  "digits_value acc [] = acc"
| "digits_value acc (c # r) =
     (if is_ascii_digit c then digits_value (10 * acc + (of_char c - 48)) r else acc)"

definition signed_value :: "string \<Rightarrow> int" where
  "signed_value s = (case s of
     [] \<Rightarrow> 0
   | c # r \<Rightarrow> if c = CHR ''-'' then - int (digits_value 0 r)
       else if c = CHR ''+'' then int (digits_value 0 r)
       else int (digits_value 0 s))"

definition sql_space :: "char \<Rightarrow> bool" where
  "sql_space c = (c = CHR '' '' \<or> (let n = (of_char c :: nat) in 9 \<le> n \<and> n \<le> 13))"

definition sql_cast_int :: "string \<Rightarrow> int" where
  "sql_cast_int s = max (- (2 ^ 63)) (min (2 ^ 63 - 1) (signed_value (dropWhile sql_space s)))"

text \<open>\<open>ORDER BY queued_at ... LIMIT 1\<close>.\<close>

definition pick_row :: "journal_world \<Rightarrow> (string set \<Rightarrow> string) \<Rightarrow> journal_row list \<Rightarrow> journal_row option" where
  "pick_row w extreme rows =
     (if rows = [] then None
      else let ties = filter (\<lambda>r. jo_queued_at r = extreme (set (map jo_queued_at rows))) rows
        in Some (ties ! (jw_tie w mod length ties)))"

definition in_states :: "string list \<Rightarrow> journal_row \<Rightarrow> bool" where
  "in_states states r = (jo_state r \<in> set states)"

definition set_where :: "(journal_row \<Rightarrow> bool) \<Rightarrow> (journal_row \<Rightarrow> journal_row) \<Rightarrow> journal_row list \<Rightarrow> journal_row list" where
  "set_where P f rows = map (\<lambda>r. if P r then f r else r) rows"

definition count_where :: "(journal_row \<Rightarrow> bool) \<Rightarrow> journal_row list \<Rightarrow> nat" where
  "count_where P rows = length (filter P rows)"

section \<open>Operations\<close>

text \<open>\<open>enqueue\<close> looks for an active operation with the key, and inserts when there is none.\<close>

definition enqueue_lookup ::
  "journal_world \<Rightarrow> journal_operation \<Rightarrow> journal_row list \<Rightarrow> string + journal_operation option" where
  "enqueue_lookup w op rows =
     res_bind (journal_connection w) (\<lambda>_.
     jcall w 2 ''No se pudo consultar idempotencia'' (map_option map_operation
       (pick_row w Max (filter (\<lambda>r. jo_idempotency_key r = jo_idempotency_key op \<and> in_states active_states r) rows))))"

definition enqueue_insert ::
  "journal_world \<Rightarrow> journal_operation \<Rightarrow> journal_row list \<Rightarrow> journal_row list \<times> (string + journal_operation)" where
  "enqueue_insert w op rows =
     (case jcall w 3 ''No se pudo persistir la operacion'' () of
        Inl e \<Rightarrow> (rows, Inl e)
      | Inr _ \<Rightarrow>
          if jo_id op \<in> set (map jo_id rows)
          then (rows, Inl (''No se pudo persistir la operacion: '' @ jw_conflict w))
          else (rows @ [stored_row w op], Inr op))"

definition enqueue ::
  "journal_world \<Rightarrow> journal_operation \<Rightarrow> journal_row list \<Rightarrow> journal_row list \<times> (string + journal_operation)" where
  "enqueue w op rows =
     (case enqueue_lookup w op rows of
        Inl e \<Rightarrow> (rows, Inl e)
      | Inr (Some existing) \<Rightarrow> (rows, Inr existing)
      | Inr None \<Rightarrow> enqueue_insert w op rows)"

definition find_by_idempotency_key ::
  "journal_world \<Rightarrow> string \<Rightarrow> journal_row list \<Rightarrow> string + journal_operation option" where
  "find_by_idempotency_key w key rows =
     res_bind (journal_connection w) (\<lambda>_.
     jcall w 2 ''No se pudo consultar la operacion por idempotencia'' (map_option map_operation
       (pick_row w Max (filter (\<lambda>r. jo_idempotency_key r = key) rows))))"

definition requeue_failed ::
  "journal_world \<Rightarrow> string \<Rightarrow> journal_row list \<Rightarrow> journal_row list \<times> (string + journal_operation option)" where
  "requeue_failed w i rows =
     (let P = (\<lambda>r. jo_id r = i \<and> jo_state r = ''failed'');
          rows' = set_where P (\<lambda>r. r\<lparr> jo_state := ''queued'', jo_started_at := None, jo_finished_at := None,
            jo_current_step := ''retry_requested_after_failure'', jo_error_code := Some ''RETRY_REQUESTED'',
            jo_lease_expires_at := None \<rparr>) rows
      in case res_bind (journal_connection w) (\<lambda>_.
           res_bind (jcall w 2 ''No se pudo bloquear la operacion para retry'' ()) (\<lambda>_.
           res_bind (jcall w 3 ''No se pudo reencolar la operacion fallida'' ()) (\<lambda>_.
           res_bind (if count_where P rows = 1
               then jcall w 4 ''No se pudo leer la operacion reencolada''
                 (map_option map_operation (find (\<lambda>r. jo_id r = i) rows'))
               else Inr None) (\<lambda>op.
           res_bind (jcall w 5 ''No se pudo confirmar el retry de la operacion'' ()) (\<lambda>_. Inr op))))) of
         Inl e \<Rightarrow> (rows, Inl e) | Inr op \<Rightarrow> (rows', Inr op))"

definition list_operations ::
  "journal_world \<Rightarrow> u64 \<Rightarrow> journal_row list \<Rightarrow> string + journal_operation list" where
  "list_operations w limit rows =
     res_bind (journal_connection w) (\<lambda>_.
     res_bind (jcall w 2 ''No se pudo preparar el historial'' ()) (\<lambda>_.
     res_bind (jcall w 3 ''No se pudo consultar el historial'' ()) (\<lambda>_.
     jcall w 4 ''No se pudo leer el historial''
       (let sorted_rows = map map_operation (rev (sort_key jo_queued_at rows))
        in if unat limit < 2 ^ 63 then take (unat limit) sorted_rows else sorted_rows))))"

text \<open>A lease in force, an expired one, and the rows whose claim has lapsed.\<close>

definition lease_until :: "journal_row \<Rightarrow> int option" where
  "lease_until r = map_option sql_cast_int (jo_lease_expires_at r)"

definition lease_expired :: "int \<Rightarrow> journal_row \<Rightarrow> bool" where
  "lease_expired now r = (in_states claimed_states r \<and> is_some_and (lease_until r) (\<lambda>t. t \<le> now))"

definition requeued :: "journal_row \<Rightarrow> journal_row" where
  "requeued r = r\<lparr> jo_state := ''queued'', jo_started_at := None, jo_finished_at := None,
     jo_current_step := ''lease_expired_requeued'', jo_error_code := Some ''LEASE_EXPIRED'',
     jo_lease_expires_at := None \<rparr>"

definition recover_expired_leases_at ::
  "journal_world \<Rightarrow> nat \<Rightarrow> int \<Rightarrow> journal_row list \<Rightarrow> journal_row list \<times> (string + nat)" where
  "recover_expired_leases_at w n now rows =
     (case jcall w n ''No se pudo recuperar leases vencidos'' () of
        Inl e \<Rightarrow> (rows, Inl e)
      | Inr _ \<Rightarrow> (set_where (lease_expired now) requeued rows, Inr (count_where (lease_expired now) rows)))"

definition recover_expired_leases ::
  "journal_world \<Rightarrow> int \<Rightarrow> journal_row list \<Rightarrow> journal_row list \<times> (string + nat)" where
  "recover_expired_leases w now rows =
     (case journal_connection w of
        Inl e \<Rightarrow> (rows, Inl e) | Inr _ \<Rightarrow> recover_expired_leases_at w 2 now rows)"

definition started :: "string \<Rightarrow> int \<Rightarrow> journal_row \<Rightarrow> journal_row" where
  "started started_at lease r = r\<lparr> jo_state := ''running'', jo_started_at := Some started_at,
     jo_current_step := ''executing'', jo_attempt_count := jo_attempt_count r + 1,
     jo_lease_expires_at := Some (show_int lease) \<rparr>"

text \<open>The transaction of \<open>claim_next_queued\<close>; the operation returned reads the clock once more.\<close>

definition claim_tx ::
  "journal_world \<Rightarrow> string \<Rightarrow> journal_row list \<Rightarrow> journal_row list \<times> (string + journal_operation option)" where
  "claim_tx w started_at rows =
     (case res_bind (jcall w 3 ''No se pudo bloquear la cola durable'' ()) (\<lambda>_.
           jcall w 4 ''No se pudo reclamar la siguiente operacion''
             (pick_row w Min (filter (in_states [''queued'']) rows))) of
        Inl e \<Rightarrow> (rows, Inl e)
      | Inr None \<Rightarrow> (rows, res_bind (jcall w 5 ''No se pudo liberar la cola durable'' ()) (\<lambda>_. Inr None))
      | Inr (Some r) \<Rightarrow>
          (let P = (\<lambda>x. jo_id x = jo_id r \<and> jo_state x = ''queued'');
               op = map_operation r
           in case res_bind (jcall w 5 ''No se pudo iniciar la operacion durable'' ()) (\<lambda>_.
                if count_where P rows \<noteq> 1 then Inl ''La operacion cambio mientras se reclamaba la cola.''
                else jcall w 6 ''No se pudo confirmar el inicio de la operacion'' ()) of
              Inl e \<Rightarrow> (rows, Inl e)
            | Inr _ \<Rightarrow> (set_where P (started started_at (jw_now w 1 + mutation_lease_seconds)) rows,
                Inr (Some (op\<lparr> jo_state := ''running'', jo_started_at := Some started_at,
                  jo_current_step := ''executing'', jo_attempt_count := sat_add (jo_attempt_count op) 1,
                  jo_lease_expires_at := Some (show_int (jw_now w 2 + mutation_lease_seconds)) \<rparr>)))))"

definition claim_next_queued ::
  "journal_world \<Rightarrow> string \<Rightarrow> journal_row list \<Rightarrow> journal_row list \<times> (string + journal_operation option)" where
  "claim_next_queued w started_at rows =
     (case journal_connection w of
        Inl e \<Rightarrow> (rows, Inl e)
      | Inr _ \<Rightarrow> (case recover_expired_leases_at w 2 (jw_now w 0) rows of
          (rows', Inl e) \<Rightarrow> (rows', Inl e)
        | (rows', Inr _) \<Rightarrow> claim_tx w started_at rows'))"

definition cancel_queued ::
  "journal_world \<Rightarrow> string \<Rightarrow> string \<Rightarrow> journal_row list \<Rightarrow> journal_row list \<times> (string + journal_operation)" where
  "cancel_queued w i finished_at rows =
     (let P = (\<lambda>r. jo_id r = i \<and> jo_state r = ''queued'');
          rows' = set_where P (\<lambda>r. r\<lparr> jo_state := ''cancelled'', jo_current_step := ''cancelled_by_user'',
            jo_finished_at := Some finished_at, jo_error_code := Some ''CANCELLED_BY_USER'' \<rparr>) rows
      in case res_bind (journal_connection w) (\<lambda>_. jcall w 2 ''No se pudo cancelar la operacion'' ()) of
           Inl e \<Rightarrow> (rows, Inl e)
         | Inr _ \<Rightarrow> (rows',
             if count_where P rows \<noteq> 1
             then Inl ''Solo se pueden cancelar operaciones que todavia estan en cola.''
             else res_bind (jcall w 3 ''No se pudo leer la operacion cancelada''
                 (find (\<lambda>r. jo_id r = i) rows')) (\<lambda>found. case found of
               Some r \<Rightarrow> Inr (map_operation r)
             | None \<Rightarrow> Inl (''No se pudo leer la operacion cancelada: '' @ jw_conflict w))))"

definition updated :: "journal_world \<Rightarrow> journal_update \<Rightarrow> journal_row \<Rightarrow> journal_row" where
  "updated w u r =
     (let output = jw_redact w (ju_output u) in
      r\<lparr> jo_state := ju_state u, jo_current_step := ju_current_step u,
        jo_output_redacted := (if output = [] then jo_output_redacted r else output),
        jo_started_at := opt_or (ju_started_at u) (jo_started_at r), jo_finished_at := ju_finished_at u,
        jo_error_code := ju_error_code u,
        jo_lease_expires_at := (if ju_state u \<in> set terminal_states then None else jo_lease_expires_at r) \<rparr>)"

definition update_operation ::
  "journal_world \<Rightarrow> string \<Rightarrow> journal_update \<Rightarrow> journal_row list \<Rightarrow> journal_row list \<times> (string + unit)" where
  "update_operation w i u rows =
     (case res_bind (journal_connection w) (\<lambda>_. jcall w 2 ''No se pudo actualizar la operacion'' ()) of
        Inl e \<Rightarrow> (rows, Inl e)
      | Inr _ \<Rightarrow> (set_where (\<lambda>r. jo_id r = i) (updated w u) rows,
          if count_where (\<lambda>r. jo_id r = i) rows = 0
          then Inl (''La operacion '' @ i @ '' no existe en el journal.'') else Inr ()))"

definition recover_interrupted ::
  "journal_world \<Rightarrow> string \<Rightarrow> journal_row list \<Rightarrow> journal_row list \<times> (string + nat)" where
  "recover_interrupted w recovered_at rows =
     (case res_bind (journal_connection w) (\<lambda>_. jcall w 2 ''No se pudo recuperar el journal'' ()) of
        Inl e \<Rightarrow> (rows, Inl e)
      | Inr _ \<Rightarrow> (set_where (in_states claimed_states) (\<lambda>r. r\<lparr> jo_state := ''interrupted'',
            jo_current_step := ''recovery_required'', jo_finished_at := Some recovered_at,
            jo_error_code := Some ''PROCESS_INTERRUPTED'', jo_lease_expires_at := None \<rparr>) rows,
          Inr (count_where (in_states claimed_states) rows)))"

definition renewable :: "string \<Rightarrow> int \<Rightarrow> journal_row \<Rightarrow> bool" where
  "renewable i now r =
     (jo_id r = i \<and> in_states claimed_states r \<and> is_some_and (lease_until r) (\<lambda>t. t > now))"

definition renew_lease_at ::
  "journal_world \<Rightarrow> string \<Rightarrow> int \<Rightarrow> journal_row list \<Rightarrow> journal_row list \<times> (string + bool)" where
  "renew_lease_at w i now rows =
     (case res_bind (journal_connection w) (\<lambda>_. jcall w 2 ''No se pudo renovar el lease de la operacion'' ()) of
        Inl e \<Rightarrow> (rows, Inl e)
      | Inr _ \<Rightarrow> (set_where (renewable i now)
            (\<lambda>r. r\<lparr> jo_lease_expires_at := Some (show_int (now + mutation_lease_seconds)) \<rparr>) rows,
          Inr (count_where (renewable i now) rows = 1)))"

definition renew_lease ::
  "journal_world \<Rightarrow> string \<Rightarrow> journal_row list \<Rightarrow> journal_row list \<times> (string + bool)" where
  "renew_lease w i rows = renew_lease_at w i (jw_now w 0) rows"

record mutation_status =
  ms_observed_at :: string
  ms_state :: string
  ms_active_operations :: nat
  ms_queued_operations :: nat
  ms_recoverable_operations :: nat
  ms_blocked_reason :: "string option"

definition count_states ::
  "journal_world \<Rightarrow> nat \<Rightarrow> string list \<Rightarrow> journal_row list \<Rightarrow> string + nat" where
  "count_states w n states rows =
     jcall w n ''No se pudo contar el estado de mutaciones'' (count_where (in_states states) rows)"

definition mutation_status_of ::
  "journal_world \<Rightarrow> string \<Rightarrow> journal_row list \<Rightarrow> string + mutation_status" where
  "mutation_status_of w observed_at rows =
     res_bind (journal_connection w) (\<lambda>_.
     res_bind (count_states w 2 active_states rows) (\<lambda>active.
     res_bind (count_states w 3 [''queued''] rows) (\<lambda>queued.
     res_bind (count_states w 4 [''interrupted'', ''manual_intervention_required''] rows) (\<lambda>recoverable.
     Inr \<lparr> ms_observed_at = observed_at,
       ms_state = (if active > 0 then ''running'' else if queued > 0 then ''queued''
         else if recoverable > 0 then ''blocked'' else ''idle''),
       ms_active_operations = active, ms_queued_operations = queued, ms_recoverable_operations = recoverable,
       ms_blocked_reason = (if active > 0 \<and> queued > 0 then Some ''MUTATION_BUSY''
         else if recoverable > 0 then Some ''MUTATION_RECOVERABLE'' else None) \<rparr>))))"

section \<open>Redaction of JSON\<close>

definition sensitive_needles :: "string list" where
  "sensitive_needles = [''password'', ''passwd'', ''secret'', ''token'', ''api_key'', ''apikey'', ''private_key'']"

definition sensitive_key :: "string \<Rightarrow> bool" where
  "sensitive_key k = list_ex (str_contains (to_ascii_lowercase k)) sensitive_needles"

fun redact_json_sensitive :: "json \<Rightarrow> json" where
  "redact_json_sensitive (JObject kvs) = JObject (map (\<lambda>kv. (fst kv,
     if sensitive_key (fst kv) then JString ''[REDACTED]'' else redact_json_sensitive (snd kv))) kvs)"
| "redact_json_sensitive (JArray vs) = JArray (map redact_json_sensitive vs)"
| "redact_json_sensitive v = v"

section \<open>Lease texts\<close>

lemma digits_value_append:
  "list_all is_ascii_digit xs \<Longrightarrow> digits_value acc (xs @ ys) = digits_value (digits_value acc xs) ys"
  by (induction xs arbitrary: acc) auto

lemma digits_value_show: "digits_value 0 (show_nat n) = n"
proof (induction n rule: show_nat.induct)
  case (1 n)
  have digit: "digits_value acc [char_of (48 + d)] = 10 * acc + d" if "d < 10" for d acc :: nat
    using that by (simp add: is_ascii_digit_def Let_def take_bit_eq_mod)
  show ?case
  proof (cases "n < 10")
    case True
    then show ?thesis using digit [of n 0] by (simp add: show_nat.simps [of n])
  next
    case False
    then show ?thesis using 1 digit [of "n mod 10" "n div 10"]
      by (simp add: show_nat.simps [of n] digits_value_append show_nat_digits)
  qed
qed

lemma show_nat_head: "show_nat n = c # r \<Longrightarrow> is_ascii_digit c"
  using show_nat_digits [of n] by simp

lemma digit_not_sign: "is_ascii_digit c \<Longrightarrow> c \<noteq> CHR ''-'' \<and> c \<noteq> CHR ''+'' \<and> \<not> sql_space c"
  by (auto simp: is_ascii_digit_def sql_space_def Let_def)

lemma signed_value_show: "signed_value (dropWhile sql_space (show_int i)) = i"
proof (cases "i < 0")
  case True
  then show ?thesis by (simp add: show_int_def signed_value_def sql_space_def digits_value_show)
next
  case False
  obtain c r where c: "show_nat (nat i) = c # r" by (metis show_nat_nonempty(1) list.exhaust)
  show ?thesis
    using False digit_not_sign [OF show_nat_head [OF c]] digits_value_show [of "nat i"]
    by (simp add: show_int_def signed_value_def c)
qed

text \<open>The time written to a row is the time read back, within SQLite's integers.\<close>

lemma sql_cast_show: "- (2 ^ 63) \<le> i \<Longrightarrow> i < 2 ^ 63 \<Longrightarrow> sql_cast_int (show_int i) = i"
  unfolding sql_cast_int_def signed_value_show by simp

section \<open>One row among the others\<close>

named_theorems row_simps \<open>how the operations change a row\<close>

lemma in_states_simps [row_simps]:
  "in_states states (r\<lparr>jo_started_at := x\<rparr>) = in_states states r"
  "in_states states (r\<lparr>jo_lease_expires_at := x\<rparr>) = in_states states r"
  "lease_until (r\<lparr>jo_lease_expires_at := x\<rparr>) = map_option sql_cast_int x"
  by (simp_all add: in_states_def lease_until_def)

lemma started_fields [row_simps]:
  "jo_id (started t l r) = jo_id r" "jo_state (started t l r) = ''running''"
  "jo_queued_at (started t l r) = jo_queued_at r" "lease_until (started t l r) = Some (sql_cast_int (show_int l))"
  by (simp_all add: started_def lease_until_def)

lemma requeued_fields [row_simps]:
  "jo_id (requeued r) = jo_id r" "jo_state (requeued r) = ''queued''" "jo_queued_at (requeued r) = jo_queued_at r"
  by (simp_all add: requeued_def)

lemma map_operation_fields [row_simps]:
  "jo_id (map_operation r) = jo_id r" "jo_state (map_operation r) = jo_state r"
  "jo_queued_at (map_operation r) = jo_queued_at r" "jo_idempotency_key (map_operation r) = jo_idempotency_key r"
  by (simp_all add: map_operation_def)

lemma stored_row_fields [row_simps]:
  "jo_id (stored_row w op) = jo_id op" "jo_state (stored_row w op) = jo_state op"
  "jo_idempotency_key (stored_row w op) = jo_idempotency_key op"
  by (simp_all add: stored_row_def)

definition row_of :: "string \<Rightarrow> journal_row list \<Rightarrow> journal_row option" where
  "row_of i rows = find (\<lambda>r. jo_id r = i) rows"

lemma row_of_set_where:
  "(\<And>r. P r \<Longrightarrow> jo_id (f r) = jo_id r) \<Longrightarrow>
   row_of i (set_where P f rows) = map_option (\<lambda>r. if P r then f r else r) (row_of i rows)"
  by (induction rows) (auto simp: row_of_def set_where_def)

lemma ids_set_where:
  "(\<And>r. P r \<Longrightarrow> jo_id (f r) = jo_id r) \<Longrightarrow> map jo_id (set_where P f rows) = map jo_id rows"
  by (simp add: set_where_def)

text \<open>A row that no statement selects stays as it is.\<close>

lemma row_of_unselected:
  "row_of i rows = Some r \<Longrightarrow> \<not> P r \<Longrightarrow> (\<And>x. P x \<Longrightarrow> jo_id (f x) = jo_id x) \<Longrightarrow>
   row_of i (set_where P f rows) = Some r"
  by (simp add: row_of_set_where)

lemma pick_row_mem: "pick_row w extreme rows = Some r \<Longrightarrow> filter (\<lambda>r. jo_queued_at r = extreme (set (map jo_queued_at rows))) rows \<noteq> [] \<Longrightarrow>
   r \<in> set rows \<and> jo_queued_at r = extreme (set (map jo_queued_at rows))"
proof -
  assume pick: "pick_row w extreme rows = Some r"
  let ?ties = "filter (\<lambda>r. jo_queued_at r = extreme (set (map jo_queued_at rows))) rows"
  assume "?ties \<noteq> []"
  then have "?ties ! (jw_tie w mod length ?ties) \<in> set ?ties" by (intro nth_mem) simp
  then show ?thesis using pick by (auto simp: pick_row_def Let_def split: if_splits)
qed

lemma pick_min:
  assumes "rows \<noteq> []"
  obtains r where "pick_row w Min rows = Some r" "r \<in> set rows" "\<And>x. x \<in> set rows \<Longrightarrow> jo_queued_at r \<le> jo_queued_at x"
proof -
  have "Min (set (map jo_queued_at rows)) \<in> set (map jo_queued_at rows)"
    using assms by (intro Min_in) auto
  then have ties: "filter (\<lambda>r. jo_queued_at r = Min (set (map jo_queued_at rows))) rows \<noteq> []"
    by (auto simp: filter_empty_conv)
  obtain r where r: "pick_row w Min rows = Some r" using assms by (simp add: pick_row_def Let_def)
  from pick_row_mem [OF r ties] have "r \<in> set rows" "jo_queued_at r = Min (set (map jo_queued_at rows))" by auto
  then show thesis using that [OF r] by simp
qed

lemma pick_none_iff: "pick_row w extreme rows = None \<longleftrightarrow> rows = []"
  by (simp add: pick_row_def Let_def)

section \<open>Other callers\<close>

datatype journal_request =
    Enqueue journal_operation | RequeueFailed string | ClaimNext string | CancelQueued string string
  | UpdateOperation string journal_update | RecoverExpired | RenewLease string

text \<open>A request, with the world its connection meets; the clock of a request is its first reading.\<close>

fun journal_exec :: "journal_world \<times> journal_request \<Rightarrow> journal_row list \<Rightarrow> journal_row list" where
  "journal_exec (w, Enqueue op) rows = fst (enqueue w op rows)"
| "journal_exec (w, RequeueFailed i) rows = fst (requeue_failed w i rows)"
| "journal_exec (w, ClaimNext t) rows = fst (claim_next_queued w t rows)"
| "journal_exec (w, CancelQueued i t) rows = fst (cancel_queued w i t rows)"
| "journal_exec (w, UpdateOperation i u) rows = fst (update_operation w i u rows)"
| "journal_exec (w, RecoverExpired) rows = fst (recover_expired_leases w (jw_now w 0) rows)"
| "journal_exec (w, RenewLease i) rows = fst (renew_lease w i rows)"

definition held :: "string \<Rightarrow> int \<Rightarrow> journal_row list \<Rightarrow> bool" where
  "held i e rows \<longleftrightarrow> (\<exists>r t. row_of i rows = Some r \<and> in_states claimed_states r \<and> lease_until r = Some t \<and> e \<le> t)"

lemma held_unselected:
  assumes "held i e rows" "\<And>r. row_of i rows = Some r \<Longrightarrow> in_states claimed_states r \<Longrightarrow>
      (\<And>t. lease_until r = Some t \<Longrightarrow> e \<le> t) \<Longrightarrow> \<not> P r"
    and "\<And>x. P x \<Longrightarrow> jo_id (f x) = jo_id x"
  shows "held i e (set_where P f rows)"
  using assms row_of_unselected [where P = P and f = f and i = i and rows = rows] unfolding held_def
  by (metis option.inject)

lemma claimed_not_queued: "in_states claimed_states r \<Longrightarrow> jo_state r \<noteq> ''queued'' \<and> jo_state r \<noteq> ''failed''"
  by (auto simp: in_states_def claimed_states_def)

lemma held_recover:
  "held i e rows \<Longrightarrow> now < e \<Longrightarrow> held i e (fst (recover_expired_leases_at w n now rows))"
  unfolding recover_expired_leases_at_def
  by (auto split: sum.split simp: lease_expired_def row_simps is_some_and_def split: option.splits intro!: held_unselected)

lemma held_claim_tx: "held i e rows \<Longrightarrow> held i e (fst (claim_tx w t rows))"
  unfolding claim_tx_def Let_def
  by (auto split: sum.split option.split simp: row_simps dest: claimed_not_queued intro!: held_unselected)

lemma held_step:
  assumes held: "held i (t0 + mutation_lease_seconds) rows"
    and clock: "t0 \<le> jw_now w 0" "jw_now w 0 < t0 + mutation_lease_seconds" "\<bar>t0\<bar> < 2 ^ 62"
    and other: "\<And>u. q \<noteq> UpdateOperation i u"
  shows "held i (t0 + mutation_lease_seconds) (journal_exec (w, q) rows)"
proof (cases q)
  case (Enqueue op)
  then show ?thesis using held
    by (auto simp: held_def enqueue_def enqueue_insert_def row_of_def find_append split: sum.split option.split)
next
  case (RequeueFailed j)
  then show ?thesis using held
    by (auto simp: requeue_failed_def Let_def split: sum.split dest: claimed_not_queued intro!: held_unselected)
next
  case (ClaimNext t)
  have "held i (t0 + mutation_lease_seconds) (fst (recover_expired_leases_at w 2 (jw_now w 0) rows))"
    by (rule held_recover [OF held clock(2)])
  then show ?thesis using held ClaimNext
    by (auto simp: claim_next_queued_def split: sum.split prod.split intro: held_claim_tx)
next
  case (CancelQueued j t)
  then show ?thesis using held
    by (auto simp: cancel_queued_def Let_def split: sum.split dest: claimed_not_queued intro!: held_unselected)
next
  case (UpdateOperation j u)
  then have "j \<noteq> i" using other by auto
  then show ?thesis using held UpdateOperation
    by (auto simp: update_operation_def updated_def Let_def split: sum.split intro!: held_unselected)
      (auto simp: row_of_def dest: find_SomeD)
next
  case RecoverExpired
  then show ?thesis using held held_recover [OF held clock(2)]
    by (auto simp: recover_expired_leases_def split: sum.split)
next
  case (RenewLease j)
  have cast: "sql_cast_int (show_int (jw_now w 0 + mutation_lease_seconds)) = jw_now w 0 + mutation_lease_seconds"
    using clock by (intro sql_cast_show) (auto simp: mutation_lease_seconds_def)
  have "held i (t0 + mutation_lease_seconds) (set_where (renewable j (jw_now w 0))
      (\<lambda>r. r\<lparr> jo_lease_expires_at := Some (show_int (jw_now w 0 + mutation_lease_seconds)) \<rparr>) rows)"
  proof -
    from held obtain r u where r: "row_of i rows = Some r" "in_states claimed_states r" "lease_until r = Some u"
        "t0 + mutation_lease_seconds \<le> u" by (auto simp: held_def)
    show ?thesis
      using r clock(1) by (cases "renewable j (jw_now w 0) r")
        (simp_all add: held_def row_of_set_where row_simps cast)
  qed
  then show ?thesis using held RenewLease
    by (auto simp: renew_lease_def renew_lease_at_def split: sum.split)
qed

section \<open>Claiming\<close>

definition quiet :: "journal_world \<Rightarrow> bool" where
  "quiet w \<longleftrightarrow> (\<forall>n. jw_error w n = None)"

text \<open>A clock that does not go back during a call and stays far from the bounds of SQLite's integers.\<close>

definition steady :: "journal_world \<Rightarrow> bool" where
  "steady w \<longleftrightarrow> 0 \<le> jw_now w 0 \<and> jw_now w 0 \<le> jw_now w 1 \<and> jw_now w 1 < 2 ^ 62"

lemma journal_quiet: "quiet w \<Longrightarrow> jcall w n pre a = Inr a" "quiet w \<Longrightarrow> journal_connection w = Inr ()"
  by (simp_all add: quiet_def jcall_def journal_connection_def)

text \<open>What waits for a worker: the queued rows and those whose lease has lapsed.\<close>

definition recovered_rows :: "journal_world \<Rightarrow> journal_row list \<Rightarrow> journal_row list" where
  "recovered_rows w rows = set_where (lease_expired (jw_now w 0)) requeued rows"

definition pending :: "journal_world \<Rightarrow> journal_row list \<Rightarrow> journal_row list" where
  "pending w rows = filter (in_states [''queued'']) (recovered_rows w rows)"

lemma recovered_ids: "map jo_id (recovered_rows w rows) = map jo_id rows"
  unfolding recovered_rows_def by (rule ids_set_where) (simp add: row_simps)

lemma recovered_alive: "r \<in> set (recovered_rows w rows) \<Longrightarrow> \<not> lease_expired (jw_now w 0) r"
  by (auto simp: recovered_rows_def set_where_def lease_expired_def in_states_def claimed_states_def row_simps)

lemma set_where_none: "(\<And>r. r \<in> set rows \<Longrightarrow> \<not> P r) \<Longrightarrow> set_where P f rows = rows"
  by (simp add: set_where_def map_idI)

lemma filter_by_key: "distinct (map key xs) \<Longrightarrow> x \<in> set xs \<Longrightarrow> filter (\<lambda>y. key y = key x) xs = [x]"
  by (induction xs) (auto simp: filter_empty_conv image_iff)

lemma mset_without_key:
  "distinct (map key xs) \<Longrightarrow> x \<in> set xs \<Longrightarrow>
   mset (map key xs) = add_mset (key x) (mset (map key (filter (\<lambda>y. key y \<noteq> key x) xs)))"
proof (induction xs)
  case (Cons a xs)
  show ?case
  proof (cases "x = a")
    case True
    then have "filter (\<lambda>y. key y \<noteq> key x) xs = xs"
      using Cons.prems by (intro filter_True) (auto simp: image_iff)
    then show ?thesis using True by simp
  next
    case False
    then show ?thesis using Cons by (auto simp: image_iff)
  qed
qed simp

lemma queued_without_started:
  "filter (in_states [''queued'']) (set_where (\<lambda>x. jo_id x = i \<and> jo_state x = ''queued'') (started t l) rows)
   = filter (\<lambda>x. jo_id x \<noteq> i) (filter (in_states [''queued'']) rows)"
  by (induction rows) (auto simp: set_where_def in_states_def row_simps)

text \<open>One claim: the earliest pending operation is started, and the others are pending still.\<close>

lemma claim_step:
  assumes "quiet w" "steady w" "distinct (map jo_id rows)" "pending w rows \<noteq> []"
  obtains r op where
    "claim_next_queued w t rows = (set_where (\<lambda>x. jo_id x = jo_id r \<and> jo_state x = ''queued'')
        (started t (jw_now w 1 + mutation_lease_seconds)) (recovered_rows w rows), Inr (Some op))"
    "r \<in> set (pending w rows)" "\<And>x. x \<in> set (pending w rows) \<Longrightarrow> jo_queued_at r \<le> jo_queued_at x"
    "jo_id op = jo_id r" "jo_queued_at op = jo_queued_at r"
    "pending w (fst (claim_next_queued w t rows)) = filter (\<lambda>x. jo_id x \<noteq> jo_id r) (pending w rows)"
proof -
  from pick_min [OF assms(4)] obtain r where pick: "pick_row w Min (pending w rows) = Some r"
    and mem: "r \<in> set (pending w rows)" and least: "\<And>x. x \<in> set (pending w rows) \<Longrightarrow> jo_queued_at r \<le> jo_queued_at x"
    by metis
  let ?P = "\<lambda>x. jo_id x = jo_id r \<and> jo_state x = ''queued''"
  let ?rows = "recovered_rows w rows"
  let ?f = "started t (jw_now w 1 + mutation_lease_seconds)"
  have ids: "distinct (map jo_id ?rows)" using assms(3) by (simp add: recovered_ids)
  have r: "r \<in> set ?rows" "jo_state r = ''queued''" using mem by (auto simp: pending_def in_states_def)
  have "filter ?P ?rows = [r]"
  proof -
    have "filter (\<lambda>x. jo_id x = jo_id r) ?rows = [r]"
      by (rule filter_by_key [OF ids r(1)])
    moreover have "filter ?P ?rows = filter (\<lambda>x. jo_state x = ''queued'') (filter (\<lambda>x. jo_id x = jo_id r) ?rows)"
      by (simp add: conj_commute)
    ultimately show ?thesis using r(2) by simp
  qed
  then have one: "count_where ?P ?rows = 1" by (simp add: count_where_def)
  have claim: "claim_tx w t ?rows = (set_where ?P ?f ?rows, Inr (Some ((map_operation r)\<lparr> jo_state := ''running'',
      jo_started_at := Some t, jo_current_step := ''executing'',
      jo_attempt_count := sat_add (jo_attempt_count (map_operation r)) 1,
      jo_lease_expires_at := Some (show_int (jw_now w 2 + mutation_lease_seconds)) \<rparr>)))"
    using pick one by (simp add: claim_tx_def journal_quiet [OF assms(1)] pending_def Let_def)
  have next_claim: "claim_next_queued w t rows = claim_tx w t ?rows"
    by (simp add: claim_next_queued_def journal_quiet [OF assms(1)] recover_expired_leases_at_def recovered_rows_def)
  have cast: "sql_cast_int (show_int (jw_now w 1 + mutation_lease_seconds)) = jw_now w 1 + mutation_lease_seconds"
    using assms(2) by (intro sql_cast_show) (auto simp: steady_def mutation_lease_seconds_def)
  have later: "\<not> jw_now w 1 + mutation_lease_seconds \<le> jw_now w 0"
    using assms(2) by (simp add: steady_def mutation_lease_seconds_def)
  have alive: "\<not> lease_expired (jw_now w 0) x" if "x \<in> set (set_where ?P ?f ?rows)" for x
    using that recovered_alive [of _ w rows] later
    by (auto simp: set_where_def lease_expired_def row_simps cast simp del: One_nat_def)
  have "pending w (set_where ?P ?f ?rows) = filter (in_states [''queued'']) (set_where ?P ?f ?rows)"
    unfolding pending_def recovered_rows_def [of w "set_where ?P ?f ?rows"]
    by (simp only: set_where_none [OF alive])
  also have "\<dots> = filter (\<lambda>x. jo_id x \<noteq> jo_id r) (pending w rows)"
    unfolding pending_def by (rule queued_without_started)
  finally show thesis
    using that [of r "(map_operation r)\<lparr> jo_state := ''running'',
      jo_started_at := Some t, jo_current_step := ''executing'',
      jo_attempt_count := sat_add (jo_attempt_count (map_operation r)) 1,
      jo_lease_expires_at := Some (show_int (jw_now w 2 + mutation_lease_seconds)) \<rparr>"] mem least claim next_claim
    by (simp add: row_simps)
qed

fun claim_times ::
  "journal_world \<Rightarrow> string \<Rightarrow> nat \<Rightarrow> journal_row list \<Rightarrow> journal_row list \<times> journal_operation list" where
  "claim_times w t 0 rows = (rows, [])"
| "claim_times w t (Suc n) rows =
     (case claim_next_queued w t rows of (rows', r) \<Rightarrow>
      case claim_times w t n rows' of (rows'', ops) \<Rightarrow>
        (rows'', (case r of Inr (Some op) \<Rightarrow> op # ops | _ \<Rightarrow> ops)))"

lemma claim_all:
  assumes "quiet w" "steady w"
  shows "distinct (map jo_id rows) \<Longrightarrow> n = length (pending w rows) \<Longrightarrow>
    claim_times w t n rows = (rows', ops) \<Longrightarrow>
    mset (map jo_id ops) = mset (map jo_id (pending w rows)) \<and> sorted (map jo_queued_at ops)
    \<and> set (map jo_queued_at ops) \<subseteq> set (map jo_queued_at (pending w rows)) \<and> pending w rows' = []"
proof (induction n arbitrary: rows rows' ops)
  case (Suc n)
  then have "pending w rows \<noteq> []" by auto
  then obtain r op where
    claim: "claim_next_queued w t rows = (set_where (\<lambda>x. jo_id x = jo_id r \<and> jo_state x = ''queued'')
        (started t (jw_now w 1 + mutation_lease_seconds)) (recovered_rows w rows), Inr (Some op))" and
    r: "r \<in> set (pending w rows)" "\<And>x. x \<in> set (pending w rows) \<Longrightarrow> jo_queued_at r \<le> jo_queued_at x" and
    op: "jo_id op = jo_id r" "jo_queued_at op = jo_queued_at r" and
    rest: "pending w (fst (claim_next_queued w t rows)) = filter (\<lambda>x. jo_id x \<noteq> jo_id r) (pending w rows)"
    apply (rule claim_step [where t = t, OF assms Suc.prems(1)])
    subgoal premises p for r op by (rule p(1) [OF p(2-7)])
    done
  define rows1 where "rows1 = fst (claim_next_queued w t rows)"
  have ids: "distinct (map jo_id rows1)"
    using Suc.prems(1) by (simp add: rows1_def claim ids_set_where row_simps recovered_ids)
  have dist: "distinct (map jo_id (pending w rows))"
    using Suc.prems(1) recovered_ids [of w rows] unfolding pending_def by (metis distinct_map_filter)
  have split: "mset (map jo_id (pending w rows)) = add_mset (jo_id r) (mset (map jo_id (pending w rows1)))"
    unfolding rest rows1_def by (rule mset_without_key [OF dist r(1)])
  obtain ops1 where ops1: "claim_times w t n rows1 = (rows', ops1)" "ops = op # ops1"
    using Suc.prems(3) claim by (auto simp: rows1_def split: prod.splits)
  have "n = length (pending w rows1)"
    using arg_cong [OF split, of size] Suc.prems(2) by simp
  from Suc.IH [OF ids this ops1(1)]
  have IH: "mset (map jo_id ops1) = mset (map jo_id (pending w rows1))" "sorted (map jo_queued_at ops1)"
    "set (map jo_queued_at ops1) \<subseteq> set (map jo_queued_at (pending w rows1))" "pending w rows' = []" by auto
  have sub: "set (pending w rows1) \<subseteq> set (pending w rows)" by (auto simp: rest rows1_def)
  have times: "set (map jo_queued_at ops1) \<subseteq> set (map jo_queued_at (pending w rows))"
    by (rule subset_trans [OF IH(3)]) (use sub in auto)
  have "jo_queued_at op \<le> q" if "q \<in> set (map jo_queued_at ops1)" for q
    using that times r(2) op(2) by auto
  moreover have "jo_queued_at r \<in> set (map jo_queued_at (pending w rows))" using r(1) by simp
  moreover have "mset (map jo_id ops) = mset (map jo_id (pending w rows))"
    unfolding split ops1(2) using IH(1) op(1) by simp
  ultimately show ?case using IH(2,4) op(2) times by (simp add: ops1(2))
qed simp

section \<open>Properties\<close>

text \<open>
  A lease protects a claim: while the lease of a claimed operation is in force, whatever other
  callers do in whatever order (enqueue, retry, claim, cancel, recover expired leases, renew any
  lease, update another operation), the operation stays claimed and its lease never gets shorter.
\<close>

theorem lease_protects_claim:
  assumes "held i (t0 + mutation_lease_seconds) rows" "\<bar>t0\<bar> < 2 ^ 62"
    and "list_all (\<lambda>(w, q). t0 \<le> jw_now w 0 \<and> jw_now w 0 < t0 + mutation_lease_seconds
      \<and> (case q of UpdateOperation j u \<Rightarrow> j \<noteq> i | _ \<Rightarrow> True)) requests"
  shows "held i (t0 + mutation_lease_seconds) (fold journal_exec requests rows)"
  using assms(1,3)
proof (induction requests arbitrary: rows)
  case (Cons q requests)
  obtain w a where q: "q = (w, a)" by force
  have "held i (t0 + mutation_lease_seconds) (journal_exec (w, a) rows)"
    using Cons.prems q by (intro held_step assms(2)) (auto split: journal_request.splits)
  then show ?case using Cons q by simp
qed simp

definition example_operation :: "string \<Rightarrow> string \<Rightarrow> journal_operation" where
  "example_operation i at = \<lparr> jo_id = i, jo_idempotency_key = ''k'', jo_actor = ''a'', jo_target_node_id = ''n'',
     jo_install_dir = ''/srv'', jo_node_label = ''n'', jo_terminal_id = None, jo_action = ''update'',
     jo_requested_release = None, jo_metadata_json = None, jo_state = ''queued'', jo_queued_at = at,
     jo_started_at = None, jo_finished_at = None, jo_current_step = ''queued'', jo_output_redacted = [],
     jo_recovery_policy = ''manual'', jo_error_code = None, jo_attempt_count = 0, jo_lease_expires_at = None \<rparr>"

definition example_world :: "int \<Rightarrow> journal_world" where
  "example_world now = \<lparr> jw_path = ''journal.db'', jw_error = (\<lambda>_. None), jw_conflict = ''UNIQUE'',
     jw_now = (\<lambda>_. now), jw_tie = 0, jw_redact = (\<lambda>s. s) \<rparr>"

lemma example_world_ok: "quiet (example_world now)" "0 \<le> now \<Longrightarrow> now < 2 ^ 62 \<Longrightarrow> steady (example_world now)"
  "jw_now (example_world now) n = now"
  by (simp_all add: quiet_def steady_def example_world_def)

definition example_queue :: "journal_row list" where
  "example_queue = [stored_row (example_world 5) (example_operation ''b'' ''2''),
     stored_row (example_world 5) (example_operation ''a'' ''1'')]"

definition claimed_example :: "journal_row list" where
  "claimed_example = [started ''t'' (5 + mutation_lease_seconds) (stored_row (example_world 5) (example_operation ''a'' ''1''))]"

theorem lease_protects_claim_witness:
  "held ''a'' (5 + mutation_lease_seconds)
     (fold journal_exec [(example_world 200, ClaimNext ''u''), (example_world 300, RecoverExpired),
        (example_world 301, CancelQueued ''a'' ''v'')] claimed_example)"
proof (rule lease_protects_claim)
  have "sql_cast_int (show_int (5 + mutation_lease_seconds)) = 5 + mutation_lease_seconds"
    by (rule sql_cast_show) (simp_all add: mutation_lease_seconds_def)
  then show "held ''a'' (5 + mutation_lease_seconds) claimed_example"
    by (simp add: held_def claimed_example_def row_of_def row_simps in_states_def claimed_states_def
        example_operation_def)
qed (simp_all add: example_world_ok mutation_lease_seconds_def)

text \<open>
  C17. No operation waits for ever: when the database works, as many claims as there are operations
  waiting (queued, or claimed under a lease that has run out) claim exactly these, each once, in
  the order in which they were queued, and leave nothing waiting. A worker that dies is replaced.
\<close>

theorem waiting_operations_are_claimed:
  assumes "quiet w" "steady w" "distinct (map jo_id rows)"
    and "claim_times w t (length (pending w rows)) rows = (rows', ops)"
  shows "mset (map jo_id ops) = mset (map jo_id (pending w rows)) \<and> sorted (map jo_queued_at ops)
    \<and> pending w rows' = []"
  using claim_all [OF assms(1-3) refl assms(4)] by blast

lemma example_pending: "pending (example_world 5) example_queue = example_queue"
  by (simp add: pending_def recovered_rows_def set_where_def example_queue_def lease_expired_def in_states_def
      claimed_states_def row_simps example_operation_def)

theorem waiting_operations_are_claimed_witness:
  "\<exists>rows' ops. claim_times (example_world 5) ''t'' 2 example_queue = (rows', ops)
    \<and> mset (map jo_id ops) = {#''a'', ''b''#} \<and> sorted (map jo_queued_at ops)"
proof -
  obtain rows' ops where run: "claim_times (example_world 5) ''t'' 2 example_queue = (rows', ops)" by force
  have queue: "length example_queue = 2" "map jo_id example_queue = [''b'', ''a'']"
    by (simp_all add: example_queue_def row_simps example_operation_def)
  have "mset (map jo_id ops) = mset (map jo_id (pending (example_world 5) example_queue))
      \<and> sorted (map jo_queued_at ops) \<and> pending (example_world 5) rows' = []"
    by (rule waiting_operations_are_claimed [OF example_world_ok(1) example_world_ok(2)])
      (use run in \<open>simp_all add: example_pending queue\<close>)
  then show ?thesis using run by (auto simp: example_pending queue)
qed

text \<open>
  Enqueuing is not atomic: the look-up and the insertion are two statements of a connection in
  autocommit mode, so two callers with the same idempotency key that both look before either
  inserts both succeed, and the journal holds two active operations with one key, which no
  sequence of complete calls of \<open>enqueue\<close> would have let happen.
\<close>

theorem racing_enqueues_duplicate:
  assumes "quiet w" "quiet w'" "jo_idempotency_key op = k" "jo_idempotency_key op' = k"
    and "jo_id op \<noteq> jo_id op'" "jo_id op \<notin> set (map jo_id rows)" "jo_id op' \<notin> set (map jo_id rows)"
    and "jo_state op \<in> set active_states" "jo_state op' \<in> set active_states"
    and "filter (\<lambda>r. jo_idempotency_key r = k \<and> in_states active_states r) rows = []"
  shows "enqueue_lookup w op rows = Inr None \<and> enqueue_lookup w' op' rows = Inr None
    \<and> enqueue_insert w op rows = (rows @ [stored_row w op], Inr op)
    \<and> enqueue_insert w' op' (rows @ [stored_row w op]) = (rows @ [stored_row w op, stored_row w' op'], Inr op')
    \<and> count_where (\<lambda>r. jo_idempotency_key r = k \<and> in_states active_states r)
        (rows @ [stored_row w op, stored_row w' op']) = 2
    \<and> enqueue w' op' (fst (enqueue w op rows)) = (rows @ [stored_row w op], Inr (map_operation (stored_row w op)))"
proof -
  have look: "enqueue_lookup w op rows = Inr None" "enqueue_lookup w' op' rows = Inr None"
    using assms by (simp_all add: enqueue_lookup_def journal_quiet pick_none_iff)
  have first: "enqueue w op rows = (rows @ [stored_row w op], Inr op)"
    using assms look by (simp add: enqueue_def enqueue_insert_def journal_quiet)
  have "enqueue_lookup w' op' (rows @ [stored_row w op]) = Inr (Some (map_operation (stored_row w op)))"
    using assms by (simp add: enqueue_lookup_def journal_quiet pick_row_def row_simps in_states_def)
  then show ?thesis
    using assms look first
    by (simp add: enqueue_insert_def journal_quiet enqueue_def count_where_def in_states_def row_simps)
qed

theorem racing_enqueues_duplicate_witness:
  "count_where (\<lambda>r. jo_idempotency_key r = ''k'' \<and> in_states active_states r)
     [stored_row (example_world 5) (example_operation ''a'' ''1''), stored_row (example_world 6) (example_operation ''b'' ''1'')] = 2"
  using racing_enqueues_duplicate [OF example_world_ok(1) example_world_ok(1), where k = "''k''"
      and op = "example_operation ''a'' ''1''" and op' = "example_operation ''b'' ''1''" and rows = "[]"]
  by (simp add: example_operation_def active_states_def)

text \<open>
  The status of the mutations is never \<open>queued\<close>: every queued operation is counted as active, too, so
  whenever one waits the state is \<open>running\<close> and the reason \<open>MUTATION_BUSY\<close>, whether or not any
  operation runs.
\<close>

lemma mutation_status_never_queued:
  assumes "mutation_status_of w at rows = Inr m"
  shows "ms_state m \<noteq> ''queued''
    \<and> (ms_queued_operations m > 0 \<longrightarrow> ms_state m = ''running'' \<and> ms_blocked_reason m = Some ''MUTATION_BUSY'')"
proof -
  have "count_where (in_states [''queued'']) rows \<le> count_where (in_states active_states) rows"
    unfolding count_where_def by (induction rows) (auto simp: in_states_def active_states_def)
  then show ?thesis
    using assms by (auto simp: mutation_status_of_def count_states_def jcall_def result_simps split: option.splits if_splits)
qed

text \<open>A retry of a failed operation may stand beside a later one with the same key.\<close>

lemma retry_duplicates_key:
  "let w = example_world 5;
       failed = stored_row w (example_operation ''a'' ''1'')\<lparr> jo_state := ''failed'' \<rparr>;
       rows = fst (enqueue w (example_operation ''b'' ''2'') [failed])
   in count_where (\<lambda>r. jo_idempotency_key r = ''k'' \<and> in_states active_states r) (fst (requeue_failed w ''a'' rows)) = 2"
  by code_simp

end
