(* ===== verification/Trust_Types.thy ===== *)
theory Trust_Types
  imports Json_Members
begin

text \<open>
  The public data of the trust fabric (\<^verbatim>\<open>actium-node-core/src/trust_fabric.rs\<close>): authorities,
  their certificates, the trust bundle with its roots, transitions and revocations, and the bytes
  that are signed for each.

  Base64, SHA-256 and Ed25519 are crates: they are fields of the record \<open>trust_crypto\<close>, and
  \<open>crypto_ok\<close> states what those crates document. Times and epochs are \<open>u64\<close> words.
\<close>

section \<open>Authorities\<close>

datatype authority_kind =
    ProductTrustRoot | DeploymentAuthority | DeploymentRoot | CenterAuthority
  | EnrollmentAuthority | ReleaseAuthority | ProductSigningAuthority | HostIdentity

datatype authority_status = Active | Rotating | Retired | Revoked

definition trust_fabric_algorithm :: string where
  "trust_fabric_algorithm = ''Ed25519''"

definition trust_bundle_contract :: string where
  "trust_bundle_contract = ''actium-trust-bundle@1.0.0''"

definition release_manifest_contract :: string where
  "release_manifest_contract = ''actium-release-manifest@1.0.0''"

definition center_authority_reissue_contract :: string where
  "center_authority_reissue_contract = ''actium-center-authority-reissue@1.0.0''"

definition remote_operations_signing_capability :: string where
  "remote_operations_signing_capability = ''remote_operations_signing''"

definition authority_certificate_domain :: string where
  "authority_certificate_domain = ''actium-authority-certificate-v1''"

definition trust_bundle_domain :: string where
  "trust_bundle_domain = ''actium-trust-bundle-v1''"

definition release_manifest_domain :: string where
  "release_manifest_domain = ''actium-release-manifest-v1''"

definition center_authority_transition_domain :: string where
  "center_authority_transition_domain = ''actium-center-authority-transition-v1''"

fun authority_capability :: "authority_kind \<Rightarrow> string" where
  "authority_capability ProductTrustRoot = ''authority:issue-deployment-authority''"
| "authority_capability DeploymentAuthority = ''authority:issue-deployment-root''"
| "authority_capability DeploymentRoot = ''authority:issue-center''"
| "authority_capability CenterAuthority = ''authority:issue-enrollment''"
| "authority_capability EnrollmentAuthority = ''host_enrollment''"
| "authority_capability ReleaseAuthority = ''authority:issue-product-signing''"
| "authority_capability ProductSigningAuthority = ''product_signing''"
| "authority_capability HostIdentity = ''host_identity''"

text \<open>The capability an issuer needs for a kind; roots and host identities are not issued.\<close>

fun required_capability :: "authority_kind \<Rightarrow> string option" where
  "required_capability DeploymentAuthority = Some (authority_capability ProductTrustRoot)"
| "required_capability ReleaseAuthority = Some ''authority:issue-release''"
| "required_capability DeploymentRoot = Some (authority_capability DeploymentAuthority)"
| "required_capability CenterAuthority = Some (authority_capability DeploymentRoot)"
| "required_capability EnrollmentAuthority = Some (authority_capability CenterAuthority)"
| "required_capability ProductSigningAuthority = Some (authority_capability ReleaseAuthority)"
| "required_capability ProductTrustRoot = None"
| "required_capability HostIdentity = None"

record key_descriptor =
  kd_key_id :: string
  kd_public_key :: string
  kd_fingerprint :: string
  kd_algorithm :: string
  kd_status :: authority_status

record authority_certificate =
  ce_schema :: u8
  ce_authority_id :: string
  ce_kind :: authority_kind
  ce_key_id :: string
  ce_public_key :: string
  ce_fingerprint :: string
  ce_issuer_authority_id :: string
  ce_issuer_key_id :: string
  ce_serial :: string
  ce_version :: u32
  ce_capabilities :: "string list"
  ce_valid_from :: u64
  ce_valid_until :: "u64 option"
  ce_signature :: string

record authority_descriptor =
  ad_authority_id :: string
  ad_kind :: authority_kind
  ad_key_id :: string
  ad_public_key :: string
  ad_fingerprint :: string
  ad_algorithm :: string
  ad_status :: authority_status
  ad_valid_from :: u64
  ad_valid_until :: "u64 option"
  ad_issuer_authority_id :: "string option"
  ad_issuer_key_id :: "string option"
  ad_serial :: string
  ad_version :: u32
  ad_capabilities :: "string list"
  ad_certificate :: "authority_certificate option"
  ad_created_at :: u64
  ad_revoked_at :: "u64 option"
  ad_revocation_reason :: "string option"

record product_trust_root =
  pt_authority :: authority_descriptor
  pt_trust_root_set :: string
  pt_root_version :: u32
  pt_activation_epoch :: u64
  pt_retirement_epoch :: "u64 option"

record root_transition =
  rt_schema :: u8
  rt_trust_root_set :: string
  rt_from_root_key_id :: string
  rt_to_root_key_id :: string
  rt_activation_epoch :: u64
  rt_issued_at :: u64
  rt_old_root_signature :: string
  rt_new_root_signature :: string

record trust_revocation =
  rv_authority_id :: string
  rv_key_id :: string
  rv_revoked_at :: u64
  rv_reason :: string
  rv_revocation_epoch :: u64

section \<open>The bundle, the centre's succession, the release manifest\<close>

record trust_bundle =
  tb_trust_bundle_id :: string
  tb_contract :: string
  tb_version :: u8
  tb_product_roots :: "product_trust_root list"
  tb_root_transitions :: "root_transition list"
  tb_deployment_authority :: "authority_descriptor option"
  tb_deployment_root :: "authority_descriptor option"
  tb_center_authority :: "authority_descriptor option"
  tb_predecessor_center_authorities :: "authority_descriptor list"
  tb_enrollment_authorities :: "authority_descriptor list"
  tb_release_authorities :: "authority_descriptor list"
  tb_product_signing_authorities :: "authority_descriptor list"
  tb_revocations :: "trust_revocation list"
  tb_issued_at :: u64
  tb_expires_at :: "u64 option"
  tb_trust_epoch :: u64
  tb_issuer :: string

record signed_trust_bundle =
  sb_bundle :: trust_bundle
  sb_signature :: string
  sb_signing_key_id :: string
  sb_algorithm :: string

datatype center_transition_status =
    TransitionPrepared | TransitionIssued | TransitionPublished | TransitionHostsConverging
  | TransitionActive | TransitionPredecessorRetiring | TransitionCompleted | TransitionFailed

record transition_signature =
  ts_authority_id :: string
  ts_key_id :: string
  ts_algorithm :: string
  ts_signature :: string

record center_transition =
  ct_contract :: string
  ct_transition_id :: string
  ct_trust_root_set :: string
  ct_predecessor_authority_id :: string
  ct_predecessor_key_id :: string
  ct_successor_authority_id :: string
  ct_successor_key_id :: string
  ct_successor_certificate_version :: u32
  ct_required_capabilities :: "string list"
  ct_issued_at :: u64
  ct_activation_epoch :: u64
  ct_status :: center_transition_status
  ct_issuer_authority_id :: string
  ct_issuer_key_id :: string
  ct_signatures :: "transition_signature list"
  ct_proof :: json
  ct_request_digest :: string

record release_artifact =
  ra_name :: string
  ra_uri :: string
  ra_sha256 :: string
  ra_size_bytes :: u64

record release_compatibility =
  rc_base_runtime_contract :: string
  rc_build_manifest :: string

record release_manifest =
  rm_schema :: string
  rm_contract :: string
  rm_release_id :: string
  rm_product_id :: string
  rm_version :: string
  rm_build_id :: string
  rm_source_repo :: string
  rm_source_commit :: string
  rm_platform :: string
  rm_architecture :: string
  rm_artifacts :: "release_artifact list"
  rm_issued_at :: u64
  rm_created_at :: string
  rm_promoted_at :: string
  rm_release_status :: string
  rm_compatibility :: release_compatibility

record release_signing =
  rg_key_id :: string
  rg_algorithm :: string
  rg_signature :: string

record signed_release_manifest =
  sr_manifest :: release_manifest
  sr_signing :: release_signing

section \<open>Their JSON\<close>

fun authority_kind_text :: "authority_kind \<Rightarrow> string" where
  "authority_kind_text ProductTrustRoot = ''product_trust_root''"
| "authority_kind_text DeploymentAuthority = ''deployment_authority''"
| "authority_kind_text DeploymentRoot = ''deployment_root''"
| "authority_kind_text CenterAuthority = ''center_authority''"
| "authority_kind_text EnrollmentAuthority = ''enrollment_authority''"
| "authority_kind_text ReleaseAuthority = ''release_authority''"
| "authority_kind_text ProductSigningAuthority = ''product_signing_authority''"
| "authority_kind_text HostIdentity = ''host_identity''"

fun authority_status_text :: "authority_status \<Rightarrow> string" where
  "authority_status_text Active = ''active''"
| "authority_status_text Rotating = ''rotating''"
| "authority_status_text Retired = ''retired''"
| "authority_status_text Revoked = ''revoked''"

fun transition_status_text :: "center_transition_status \<Rightarrow> string" where
  "transition_status_text TransitionPrepared = ''PREPARED''"
| "transition_status_text TransitionIssued = ''ISSUED''"
| "transition_status_text TransitionPublished = ''PUBLISHED''"
| "transition_status_text TransitionHostsConverging = ''HOSTS_CONVERGING''"
| "transition_status_text TransitionActive = ''ACTIVE''"
| "transition_status_text TransitionPredecessorRetiring = ''PREDECESSOR_RETIRING''"
| "transition_status_text TransitionCompleted = ''COMPLETED''"
| "transition_status_text TransitionFailed = ''FAILED''"

definition certificate_json :: "authority_certificate \<Rightarrow> json" where
  "certificate_json ce = JObject
     [(''schema'', json_nat_word (ce_schema ce)), (''authorityId'', JString (ce_authority_id ce)),
      (''kind'', JString (authority_kind_text (ce_kind ce))), (''keyId'', JString (ce_key_id ce)),
      (''publicKey'', JString (ce_public_key ce)), (''fingerprint'', JString (ce_fingerprint ce)),
      (''issuerAuthorityId'', JString (ce_issuer_authority_id ce)),
      (''issuerKeyId'', JString (ce_issuer_key_id ce)), (''serial'', JString (ce_serial ce)),
      (''version'', json_nat_word (ce_version ce)), (''capabilities'', json_strings (ce_capabilities ce)),
      (''validFrom'', json_nat_word (ce_valid_from ce)),
      (''validUntil'', opt_json json_nat_word (ce_valid_until ce)),
      (''signature'', JString (ce_signature ce))]"

definition descriptor_json :: "authority_descriptor \<Rightarrow> json" where
  "descriptor_json a = JObject
     [(''authorityId'', JString (ad_authority_id a)), (''kind'', JString (authority_kind_text (ad_kind a))),
      (''keyId'', JString (ad_key_id a)), (''publicKey'', JString (ad_public_key a)),
      (''fingerprint'', JString (ad_fingerprint a)), (''algorithm'', JString (ad_algorithm a)),
      (''status'', JString (authority_status_text (ad_status a))),
      (''validFrom'', json_nat_word (ad_valid_from a)),
      (''validUntil'', opt_json json_nat_word (ad_valid_until a)),
      (''issuerAuthorityId'', opt_json JString (ad_issuer_authority_id a)),
      (''issuerKeyId'', opt_json JString (ad_issuer_key_id a)), (''serial'', JString (ad_serial a)),
      (''version'', json_nat_word (ad_version a)), (''capabilities'', json_strings (ad_capabilities a)),
      (''certificate'', opt_json certificate_json (ad_certificate a)),
      (''createdAt'', json_nat_word (ad_created_at a)),
      (''revokedAt'', opt_json json_nat_word (ad_revoked_at a)),
      (''revocationReason'', opt_json JString (ad_revocation_reason a))]"

definition product_root_json :: "product_trust_root \<Rightarrow> json" where
  "product_root_json r = JObject
     [(''authority'', descriptor_json (pt_authority r)), (''trustRootSet'', JString (pt_trust_root_set r)),
      (''rootVersion'', json_nat_word (pt_root_version r)),
      (''activationEpoch'', json_nat_word (pt_activation_epoch r)),
      (''retirementEpoch'', opt_json json_nat_word (pt_retirement_epoch r))]"

definition root_transition_json :: "root_transition \<Rightarrow> json" where
  "root_transition_json t = JObject
     [(''schema'', json_nat_word (rt_schema t)), (''trustRootSet'', JString (rt_trust_root_set t)),
      (''fromRootKeyId'', JString (rt_from_root_key_id t)), (''toRootKeyId'', JString (rt_to_root_key_id t)),
      (''activationEpoch'', json_nat_word (rt_activation_epoch t)),
      (''issuedAt'', json_nat_word (rt_issued_at t)),
      (''oldRootSignature'', JString (rt_old_root_signature t)),
      (''newRootSignature'', JString (rt_new_root_signature t))]"

definition revocation_json :: "trust_revocation \<Rightarrow> json" where
  "revocation_json r = JObject
     [(''authorityId'', JString (rv_authority_id r)), (''keyId'', JString (rv_key_id r)),
      (''revokedAt'', json_nat_word (rv_revoked_at r)), (''reason'', JString (rv_reason r)),
      (''revocationEpoch'', json_nat_word (rv_revocation_epoch r))]"

definition bundle_json :: "trust_bundle \<Rightarrow> json" where
  "bundle_json b = JObject (
     [(''trustBundleId'', JString (tb_trust_bundle_id b)), (''contract'', JString (tb_contract b)),
      (''version'', json_nat_word (tb_version b)),
      (''productRoots'', JArray (map product_root_json (tb_product_roots b))),
      (''rootTransitions'', JArray (map root_transition_json (tb_root_transitions b))),
      (''deploymentAuthority'', opt_json descriptor_json (tb_deployment_authority b)),
      (''deploymentRoot'', opt_json descriptor_json (tb_deployment_root b)),
      (''centerAuthority'', opt_json descriptor_json (tb_center_authority b))]
     @ (if tb_predecessor_center_authorities b = [] then []
        else [(''predecessorCenterAuthorities'', JArray (map descriptor_json (tb_predecessor_center_authorities b)))])
     @ [(''enrollmentAuthorities'', JArray (map descriptor_json (tb_enrollment_authorities b))),
      (''releaseAuthorities'', JArray (map descriptor_json (tb_release_authorities b))),
      (''productSigningAuthorities'', JArray (map descriptor_json (tb_product_signing_authorities b))),
      (''revocations'', JArray (map revocation_json (tb_revocations b))),
      (''issuedAt'', json_nat_word (tb_issued_at b)),
      (''expiresAt'', opt_json json_nat_word (tb_expires_at b)),
      (''trustEpoch'', json_nat_word (tb_trust_epoch b)), (''issuer'', JString (tb_issuer b))])"

definition transition_signature_json :: "transition_signature \<Rightarrow> json" where
  "transition_signature_json s = JObject
     [(''authorityId'', JString (ts_authority_id s)), (''keyId'', JString (ts_key_id s)),
      (''algorithm'', JString (ts_algorithm s)), (''signature'', JString (ts_signature s))]"

definition center_transition_json :: "center_transition \<Rightarrow> json" where
  "center_transition_json t = JObject
     [(''contract'', JString (ct_contract t)), (''transitionId'', JString (ct_transition_id t)),
      (''trustRootSet'', JString (ct_trust_root_set t)),
      (''predecessorAuthorityId'', JString (ct_predecessor_authority_id t)),
      (''predecessorKeyId'', JString (ct_predecessor_key_id t)),
      (''successorAuthorityId'', JString (ct_successor_authority_id t)),
      (''successorKeyId'', JString (ct_successor_key_id t)),
      (''successorCertificateVersion'', json_nat_word (ct_successor_certificate_version t)),
      (''requiredCapabilities'', json_strings (ct_required_capabilities t)),
      (''issuedAt'', json_nat_word (ct_issued_at t)),
      (''activationEpoch'', json_nat_word (ct_activation_epoch t)),
      (''status'', JString (transition_status_text (ct_status t))),
      (''issuerAuthorityId'', JString (ct_issuer_authority_id t)),
      (''issuerKeyId'', JString (ct_issuer_key_id t)),
      (''signatures'', JArray (map transition_signature_json (ct_signatures t))),
      (''proof'', ct_proof t), (''requestDigest'', JString (ct_request_digest t))]"

definition release_artifact_json :: "release_artifact \<Rightarrow> json" where
  "release_artifact_json a = JObject
     [(''name'', JString (ra_name a)), (''uri'', JString (ra_uri a)),
      (''sha256'', JString (ra_sha256 a)), (''sizeBytes'', json_nat_word (ra_size_bytes a))]"

definition release_compatibility_json :: "release_compatibility \<Rightarrow> json" where
  "release_compatibility_json x = JObject
     [(''baseRuntimeContract'', JString (rc_base_runtime_contract x)),
      (''buildManifest'', JString (rc_build_manifest x))]"

definition release_manifest_json :: "release_manifest \<Rightarrow> json" where
  "release_manifest_json m = JObject
     [(''schema'', JString (rm_schema m)), (''contract'', JString (rm_contract m)),
      (''releaseId'', JString (rm_release_id m)), (''productId'', JString (rm_product_id m)),
      (''version'', JString (rm_version m)), (''buildId'', JString (rm_build_id m)),
      (''sourceRepo'', JString (rm_source_repo m)), (''sourceCommit'', JString (rm_source_commit m)),
      (''platform'', JString (rm_platform m)), (''architecture'', JString (rm_architecture m)),
      (''artifacts'', JArray (map release_artifact_json (rm_artifacts m))),
      (''issuedAt'', json_nat_word (rm_issued_at m)), (''createdAt'', JString (rm_created_at m)),
      (''promotedAt'', JString (rm_promoted_at m)), (''releaseStatus'', JString (rm_release_status m)),
      (''compatibility'', release_compatibility_json (rm_compatibility m))]"

section \<open>What is signed\<close>

record trust_crypto =
  tc_esc :: "string \<Rightarrow> string"
  tc_sha :: "string \<Rightarrow> string"
  tc_b64_encode :: "string \<Rightarrow> string"
  tc_b64_decode :: "string \<Rightarrow> string option"
  tc_public :: "string \<Rightarrow> string"
  tc_sign :: "string \<Rightarrow> string \<Rightarrow> string"
  tc_key_ok :: "string \<Rightarrow> bool"
  tc_signature_ok :: "string \<Rightarrow> bool"
  tc_verify :: "string \<Rightarrow> string \<Rightarrow> string \<Rightarrow> bool"
  tc_parse_certificate :: "json \<Rightarrow> authority_certificate option"

text \<open>\<open>Map::insert\<close> on a value that is an object.\<close>

definition set_member :: "string \<Rightarrow> json \<Rightarrow> json \<Rightarrow> json" where
  "set_member k x v = (case v of
     JObject kvs \<Rightarrow> JObject (if list_ex (\<lambda>kv. fst kv = k) kvs
       then map (\<lambda>kv. if fst kv = k then (k, x) else kv) kvs else kvs @ [(k, x)])
   | _ \<Rightarrow> v)"

definition fingerprint_for_raw :: "trust_crypto \<Rightarrow> string \<Rightarrow> string" where
  "fingerprint_for_raw c raw = ''sha256:'' @ hex_bytes (tc_sha c raw)"

definition signed_payload :: "trust_crypto \<Rightarrow> string \<Rightarrow> json \<Rightarrow> string" where
  "signed_payload c label v = label @ [CHR 0x00] @ canonical_json (tc_esc c) v"

definition certificate_value_without_signature :: "authority_certificate \<Rightarrow> json" where
  "certificate_value_without_signature ce = set_member ''signature'' (JString []) (certificate_json ce)"

definition certificate_payload :: "trust_crypto \<Rightarrow> authority_certificate \<Rightarrow> string" where
  "certificate_payload c ce =
     signed_payload c authority_certificate_domain (certificate_value_without_signature ce)"

definition center_transition_payload :: "trust_crypto \<Rightarrow> center_transition \<Rightarrow> string" where
  "center_transition_payload c t = signed_payload c center_authority_transition_domain
     (set_member ''signatures'' (JArray []) (center_transition_json t))"

definition trust_bundle_payload :: "trust_crypto \<Rightarrow> trust_bundle \<Rightarrow> string" where
  "trust_bundle_payload c b = signed_payload c trust_bundle_domain (bundle_json b)"

definition release_manifest_payload :: "trust_crypto \<Rightarrow> release_manifest \<Rightarrow> string" where
  "release_manifest_payload c m = signed_payload c release_manifest_domain (release_manifest_json m)"

definition root_transition_payload ::
  "trust_crypto \<Rightarrow> string \<Rightarrow> string \<Rightarrow> string \<Rightarrow> u64 \<Rightarrow> u64 \<Rightarrow> string" where
  "root_transition_payload c root_set from_key to_key epoch issued =
     signed_payload c ''actium-trust-root-transition-v1'' (JObject
       [(''schema'', JNumber (PosInt 1)), (''trustRootSet'', JString root_set),
        (''fromRootKeyId'', JString from_key), (''toRootKeyId'', JString to_key),
        (''activationEpoch'', json_nat_word epoch), (''issuedAt'', json_nat_word issued)])"

definition trust_bundle_digest :: "trust_crypto \<Rightarrow> trust_bundle \<Rightarrow> string" where
  "trust_bundle_digest c b = fingerprint_for_raw c (trust_bundle_payload c b)"

definition center_authority_transition_digest :: "trust_crypto \<Rightarrow> center_transition \<Rightarrow> string" where
  "center_authority_transition_digest c t =
     fingerprint_for_raw c (canonical_json (tc_esc c) (center_transition_json t))"

definition verify_raw :: "trust_crypto \<Rightarrow> string \<Rightarrow> string \<Rightarrow> string \<Rightarrow> string + unit" where
  "verify_raw c public_key payload signature =
     res_bind (ok_or (tc_b64_decode c public_key) ''TRUST_PUBLIC_KEY_INVALID'') (\<lambda>raw.
     if length raw \<noteq> 32 \<or> \<not> tc_key_ok c raw then Inl ''TRUST_PUBLIC_KEY_INVALID''
     else if \<not> tc_signature_ok c signature \<or> \<not> tc_verify c raw payload signature
     then Inl ''TRUST_SIGNATURE_INVALID''
     else Inr ())"

text \<open>
  What the crates document: literals can be told apart from what follows them, decoding undoes
  encoding, a public key has 32 bytes and is accepted, and a signature verifies under the public
  key of the secret it was made with. The derived deserialiser of certificates reads what the
  derived serialiser wrote.
\<close>

definition crypto_ok :: "trust_crypto \<Rightarrow> bool" where
  "crypto_ok c \<longleftrightarrow> self_delimiting (tc_esc c)
     \<and> (\<forall>x. tc_b64_decode c (tc_b64_encode c x) = Some x)
     \<and> (\<forall>s. length (tc_public c s) = 32 \<and> tc_key_ok c (tc_public c s))
     \<and> (\<forall>s m. tc_signature_ok c (tc_sign c s m) \<and> tc_verify c (tc_public c s) m (tc_sign c s m))
     \<and> (\<forall>ce. tc_parse_certificate c (certificate_json ce) = Some ce)"

section \<open>The encoders are faithful\<close>

lemma kind_text_inj [encoders]: "authority_kind_text k = authority_kind_text k' \<longleftrightarrow> k = k'"
  by (cases k; cases k') simp_all

lemma status_text_inj [encoders]: "authority_status_text s = authority_status_text s' \<longleftrightarrow> s = s'"
  by (cases s; cases s') simp_all

lemma transition_status_text_inj [encoders]: "transition_status_text s = transition_status_text s' \<longleftrightarrow> s = s'"
  by (cases s; cases s') simp_all

lemma json_nat_word_not_null [simp]: "json_nat_word n \<noteq> JNull"
  by (simp add: json_nat_word_def)

lemma same_strings [encoders]: "sort_members (json_strings xs) = sort_members (json_strings ys) \<longleftrightarrow> xs = ys"
  using same_array [of JString] by (simp add: json_strings_def del: sort_members.simps)

lemmas record_inj = same_object encoders

lemma certificate_json_faithful: "faithful certificate_json"
  by (rule faithfulI) (simp add: certificate_json_def record_inj del: sort_members.simps)

lemma certificate_not_null [simp]: "certificate_json ce \<noteq> JNull"
  by (simp add: certificate_json_def)

lemma descriptor_json_faithful: "faithful descriptor_json"
  by (rule faithfulI) (simp add: descriptor_json_def record_inj certificate_json_faithful del: sort_members.simps)

lemma descriptor_not_null [simp]: "descriptor_json a \<noteq> JNull"
  by (simp add: descriptor_json_def)

lemma product_root_json_faithful: "faithful product_root_json"
  by (rule faithfulI)
    (simp add: product_root_json_def record_inj faithful_iff [OF descriptor_json_faithful] del: sort_members.simps)

lemma root_transition_json_faithful: "faithful root_transition_json"
  by (rule faithfulI) (simp add: root_transition_json_def record_inj del: sort_members.simps)

lemma revocation_json_faithful: "faithful revocation_json"
  by (rule faithfulI) (simp add: revocation_json_def record_inj del: sort_members.simps)

lemmas trust_encoders = certificate_json_faithful descriptor_json_faithful product_root_json_faithful
  root_transition_json_faithful revocation_json_faithful

lemma bundle_keys: "distinct (map fst (case bundle_json b of JObject kvs \<Rightarrow> kvs | _ \<Rightarrow> []))"
  by (simp add: bundle_json_def)

lemma bundle_predecessors_present:
  assumes "sort_members (bundle_json b) = sort_members (bundle_json b')"
  shows "tb_predecessor_center_authorities b = [] \<longleftrightarrow> tb_predecessor_center_authorities b' = []"
proof -
  obtain kvs kvs' where k: "bundle_json b = JObject kvs" "bundle_json b' = JObject kvs'"
    by (simp add: bundle_json_def)
  have "distinct (map fst kvs)" "distinct (map fst kvs')" using bundle_keys [of b] bundle_keys [of b'] k by simp_all
  from same_sorted_member [OF assms [unfolded k] this, of "''predecessorCenterAuthorities''"]
  have "map_of kvs ''predecessorCenterAuthorities'' = None \<longleftrightarrow> map_of kvs' ''predecessorCenterAuthorities'' = None"
    by auto
  moreover have "map_of kvs ''predecessorCenterAuthorities'' = None \<longleftrightarrow> tb_predecessor_center_authorities b = []"
    using k(1) by (auto simp: bundle_json_def split: if_splits)
  moreover have "map_of kvs' ''predecessorCenterAuthorities'' = None \<longleftrightarrow> tb_predecessor_center_authorities b' = []"
    using k(2) by (auto simp: bundle_json_def split: if_splits)
  ultimately show ?thesis by simp
qed

lemma bundle_json_faithful: "faithful bundle_json"
proof (rule faithfulI)
  fix b b' assume eq: "sort_members (bundle_json b) = sort_members (bundle_json b')"
  show "b = b'"
  proof (cases "tb_predecessor_center_authorities b = []")
    case True
    with eq bundle_predecessors_present [OF eq] show ?thesis
      by (simp add: bundle_json_def record_inj trust_encoders del: sort_members.simps)
  next
    case False
    with eq bundle_predecessors_present [OF eq] show ?thesis
      by (simp add: bundle_json_def record_inj trust_encoders del: sort_members.simps)
  qed
qed

text \<open>Every value that is signed is well formed.\<close>

lemma json_ok_certificate [simp]: "json_ok (certificate_json ce)"
  by (simp add: certificate_json_def)

lemma json_ok_descriptor [simp]: "json_ok (descriptor_json a)"
  by (simp add: descriptor_json_def)

lemma json_ok_product_root [simp]: "json_ok (product_root_json r)"
  by (simp add: product_root_json_def)

lemma json_ok_root_transition [simp]: "json_ok (root_transition_json r)"
  by (simp add: root_transition_json_def)

lemma json_ok_revocation [simp]: "json_ok (revocation_json r)"
  by (simp add: revocation_json_def)

lemma json_ok_bundle [simp]: "json_ok (bundle_json b)"
  by (simp add: bundle_json_def del: json_ok.simps(2))

lemma unsigned_certificate: "certificate_value_without_signature ce = certificate_json (ce\<lparr>ce_signature := []\<rparr>)"
  by (simp add: certificate_value_without_signature_def set_member_def certificate_json_def)

lemma unsigned_transition:
  "set_member ''signatures'' (JArray []) (center_transition_json t) = center_transition_json (t\<lparr>ct_signatures := []\<rparr>)"
  by (simp add: set_member_def center_transition_json_def)

lemma signed_payload_same:
  assumes "self_delimiting (tc_esc c)" "json_ok v" "json_ok w"
  shows "signed_payload c d v = signed_payload c d w \<longleftrightarrow> sort_members v = sort_members w"
  using assms json_text_unique [OF assms(1) json_ok_sort_members [OF assms(2)]
      json_ok_sort_members [OF assms(3)], of "[]" "[]"]
  by (auto simp: signed_payload_def canonical_json_eq)

lemma trust_bundle_payload_same:
  "self_delimiting (tc_esc c) \<Longrightarrow> trust_bundle_payload c b = trust_bundle_payload c b' \<longleftrightarrow> b = b'"
  by (simp add: trust_bundle_payload_def signed_payload_same faithful_iff [OF bundle_json_faithful])

lemma certificate_payload_same:
  "self_delimiting (tc_esc c) \<Longrightarrow> certificate_payload c ce = certificate_payload c ce'
    \<longleftrightarrow> ce\<lparr>ce_signature := []\<rparr> = ce'\<lparr>ce_signature := []\<rparr>"
  by (simp add: certificate_payload_def unsigned_certificate signed_payload_same
      faithful_iff [OF certificate_json_faithful])

lemma trust_bundle_digest_same:
  assumes "self_delimiting (tc_esc c)"
    and "tc_sha c (trust_bundle_payload c b) = tc_sha c (trust_bundle_payload c b')
      \<Longrightarrow> trust_bundle_payload c b = trust_bundle_payload c b'"
  shows "trust_bundle_digest c b = trust_bundle_digest c b' \<longleftrightarrow> b = b'"
  using assms by (auto simp: trust_bundle_digest_def fingerprint_for_raw_def hex_bytes_inj trust_bundle_payload_same)

section \<open>A concrete instance of the crates\<close>

text \<open>
  For the examples of this development: a reader of certificates, and a signature that is the
  public key in front of the message. It keeps the promises of \<open>crypto_ok\<close>.
\<close>

definition example_num :: "json option \<Rightarrow> 'a::len word" where
  "example_num x = (case x of Some (JNumber (PosInt n)) \<Rightarrow> ucast n | _ \<Rightarrow> 0)"

definition example_str :: "json option \<Rightarrow> string" where
  "example_str x = (case x of Some (JString s) \<Rightarrow> s | _ \<Rightarrow> [])"

definition example_parse_certificate :: "json \<Rightarrow> authority_certificate option" where
  "example_parse_certificate v = Some \<lparr>
     ce_schema = example_num (json_get ''schema'' v),
     ce_authority_id = example_str (json_get ''authorityId'' v),
     ce_kind = unwrap_or (find (\<lambda>k. authority_kind_text k = example_str (json_get ''kind'' v))
       [ProductTrustRoot, DeploymentAuthority, DeploymentRoot, CenterAuthority, EnrollmentAuthority,
        ReleaseAuthority, ProductSigningAuthority]) HostIdentity,
     ce_key_id = example_str (json_get ''keyId'' v),
     ce_public_key = example_str (json_get ''publicKey'' v),
     ce_fingerprint = example_str (json_get ''fingerprint'' v),
     ce_issuer_authority_id = example_str (json_get ''issuerAuthorityId'' v),
     ce_issuer_key_id = example_str (json_get ''issuerKeyId'' v),
     ce_serial = example_str (json_get ''serial'' v),
     ce_version = example_num (json_get ''version'' v),
     ce_capabilities = (case json_get ''capabilities'' v of
        Some (JArray vs) \<Rightarrow> map (\<lambda>x. example_str (Some x)) vs | _ \<Rightarrow> []),
     ce_valid_from = example_num (json_get ''validFrom'' v),
     ce_valid_until = (case json_get ''validUntil'' v of Some JNull \<Rightarrow> None | x \<Rightarrow> Some (example_num x)),
     ce_signature = example_str (json_get ''signature'' v) \<rparr>"

definition example_crypto :: trust_crypto where
  "example_crypto = \<lparr> tc_esc = quote_escape, tc_sha = (\<lambda>s. s), tc_b64_encode = (\<lambda>s. s), tc_b64_decode = Some,
     tc_public = (\<lambda>s. take 32 (s @ replicate 32 CHR ''0'')),
     tc_sign = (\<lambda>s m. take 32 (s @ replicate 32 CHR ''0'') @ m), tc_key_ok = (\<lambda>k. True),
     tc_signature_ok = (\<lambda>s. True), tc_verify = (\<lambda>k m s. s = k @ m),
     tc_parse_certificate = example_parse_certificate \<rparr>"

lemma example_num_word: "LENGTH('a) \<le> 64 \<Longrightarrow> example_num (Some (json_nat_word n)) = (n :: 'a::len word)"
  by (rule bit_word_eqI) (simp add: example_num_def json_nat_word_def bit_ucast_iff)

lemma example_certificate_read: "example_parse_certificate (certificate_json ce) = Some ce"
proof -
  have caps: "map (\<lambda>x. example_str (Some x)) (map JString xs) = xs" for xs
    by (induction xs) (simp_all add: example_str_def)
  have kind: "unwrap_or (find (\<lambda>k. authority_kind_text k = authority_kind_text (ce_kind ce))
       [ProductTrustRoot, DeploymentAuthority, DeploymentRoot, CenterAuthority, EnrollmentAuthority,
        ReleaseAuthority, ProductSigningAuthority]) HostIdentity = ce_kind ce"
    by (cases "ce_kind ce") simp_all
  have until: "(case Some (opt_json json_nat_word (ce_valid_until ce)) of Some JNull \<Rightarrow> None | x \<Rightarrow> Some (example_num x))
      = ce_valid_until ce"
    by (cases "ce_valid_until ce") (simp_all add: opt_json_def json_nat_word_def example_num_def)
  show ?thesis
    unfolding example_parse_certificate_def certificate_json_def
    by (simp add: json_get_def example_num_word example_str_def [of "Some (JString _)"] json_strings_def
        caps [simplified] kind [simplified] until [simplified])
qed

lemma example_crypto_ok: "crypto_ok example_crypto"
  by (auto simp: crypto_ok_def example_crypto_def quote_escape_self_delimiting example_certificate_read min_def)

end
