(* ===== verification/Trust_Verification.thy ===== *)
theory Trust_Verification
  imports Trust_Types
begin

text \<open>
  What a host checks of public trust material, without any private key
  (\<^verbatim>\<open>actium-node-core/src/trust_fabric.rs\<close>): the chain of an authority, a signed trust
  bundle, the bundle against the bootstrap anchors of the host, the succession of the centre and a
  release manifest.

  \<open>BTreeMap\<close>s are lists sorted by their key. The chain is walked by recursion on the issuer with the
  set of visited identities, as in the code; it ends because each step visits an identity of the
  bundle that was not visited before.
\<close>

section \<open>Chains of authorities\<close>

definition revoked_key :: "trust_revocation list \<Rightarrow> string \<Rightarrow> bool" where
  "revoked_key revs k = list_ex (\<lambda>r. rv_key_id r = k) revs"

definition descriptor_rejected :: "trust_revocation list \<Rightarrow> u64 \<Rightarrow> authority_descriptor \<Rightarrow> bool" where
  "descriptor_rejected revs now a =
     (ad_algorithm a \<noteq> trust_fabric_algorithm \<or> ad_status a = Revoked \<or> ad_valid_from a > now
      \<or> is_some_and (ad_valid_until a) (\<lambda>until. now > until) \<or> revoked_key revs (ad_key_id a))"

definition certificate_out_of_scope :: "authority_descriptor \<Rightarrow> authority_certificate \<Rightarrow> bool" where
  "certificate_out_of_scope a ce =
     (ce_authority_id ce \<noteq> ad_authority_id a \<or> ce_key_id ce \<noteq> ad_key_id a
      \<or> ce_public_key ce \<noteq> ad_public_key a
      \<or> ce_issuer_authority_id ce \<noteq> unwrap_or (ad_issuer_authority_id a) []
      \<or> ce_issuer_key_id ce \<noteq> unwrap_or (ad_issuer_key_id a) [])"

definition has_capability :: "authority_descriptor \<Rightarrow> string \<Rightarrow> bool" where
  "has_capability a capability = list_ex (\<lambda>x. x = capability \<or> x = ''*'') (ad_capabilities a)"

definition check_issuer :: "authority_kind \<Rightarrow> authority_descriptor \<Rightarrow> string + unit" where
  "check_issuer kind issuer =
     (if kind = ProductTrustRoot
      then (if ad_kind issuer \<noteq> ProductTrustRoot then Inl ''TRUST_CERTIFICATE_SCOPE_INVALID'' else Inr ())
      else (case required_capability kind of
          None \<Rightarrow> Inl ''TRUST_CERTIFICATE_SCOPE_INVALID''
        | Some capability \<Rightarrow>
            if has_capability issuer capability then Inr () else Inl ''TRUST_ISSUER_CAPABILITY_REJECTED''))"

definition verify_certificate ::
  "trust_crypto \<Rightarrow> authority_descriptor \<Rightarrow> authority_certificate \<Rightarrow> string + unit" where
  "verify_certificate c issuer ce =
     res_bind (ok_or (tc_b64_decode c (ce_signature ce)) ''TRUST_CERTIFICATE_INVALID'') (\<lambda>sig.
       verify_raw c (ad_public_key issuer) (certificate_payload c ce) sig)"

definition find_authority :: "authority_descriptor list \<Rightarrow> string \<Rightarrow> authority_descriptor option" where
  "find_authority auths i = find (\<lambda>a. ad_authority_id a = i) auths"

lemma find_authorityD: "find_authority auths i = Some a \<Longrightarrow> a \<in> set auths \<and> ad_authority_id a = i"
  by (auto simp: find_authority_def dest: find_SomeD)

function verify_descriptor_chain ::
  "trust_crypto \<Rightarrow> authority_descriptor list \<Rightarrow> trust_revocation list \<Rightarrow> u64 \<Rightarrow> string set
    \<Rightarrow> authority_descriptor \<Rightarrow> string + unit" where
  "verify_descriptor_chain c auths revs now visiting a =
     (if ad_authority_id a \<in> visiting then Inl ''TRUST_CHAIN_CYCLE''
      else if descriptor_rejected revs now a then Inl ''TRUST_AUTHORITY_REVOKED_OR_INVALID''
      else case ad_certificate a of
        None \<Rightarrow> if ad_kind a \<noteq> ProductTrustRoot then Inl ''TRUST_CERTIFICATE_MISSING'' else Inr ()
      | Some ce \<Rightarrow>
          if certificate_out_of_scope a ce then Inl ''TRUST_CERTIFICATE_SCOPE_INVALID''
          else res_bind (ok_or (find_authority auths (ce_issuer_authority_id ce)) ''TRUST_ISSUER_NOT_FOUND'') (\<lambda>issuer.
            res_bind (verify_descriptor_chain c auths revs now (insert (ad_authority_id a) visiting) issuer) (\<lambda>_.
            res_bind (check_issuer (ad_kind a) issuer) (\<lambda>_.
            verify_certificate c issuer ce))))"
  by pat_completeness auto
termination
proof (relation "measure (\<lambda>(c, auths, revs, now, visiting, a).
    card (insert (ad_authority_id a) (ad_authority_id ` set auths) - visiting))", goal_cases)
  case (2 c auths revs now visiting a ce issuer)
  then have i: "ad_authority_id issuer \<in> ad_authority_id ` set auths"
    by (auto simp: result_simps dest: find_authorityD)
  let ?A = "ad_authority_id ` set auths"
  have "insert (ad_authority_id issuer) ?A - insert (ad_authority_id a) visiting
      \<subset> insert (ad_authority_id a) ?A - visiting" using i 2(1) by auto
  then show ?case by (simp add: psubset_card_mono)
qed simp

declare verify_descriptor_chain.simps [simp del]

section \<open>Bundles\<close>

definition bundle_authorities :: "trust_bundle \<Rightarrow> authority_descriptor list" where
  "bundle_authorities b = map pt_authority (tb_product_roots b)
     @ case_option [] (\<lambda>a. [a]) (tb_deployment_authority b)
     @ case_option [] (\<lambda>a. [a]) (tb_deployment_root b)
     @ case_option [] (\<lambda>a. [a]) (tb_center_authority b)
     @ tb_predecessor_center_authorities b @ tb_enrollment_authorities b
     @ tb_release_authorities b @ tb_product_signing_authorities b"

fun collect_authorities ::
  "authority_descriptor list \<Rightarrow> authority_descriptor list \<Rightarrow> string + authority_descriptor list" where
  "collect_authorities m [] = Inr m"
| "collect_authorities m (a # as) =
     (if find_authority m (ad_authority_id a) \<noteq> None then Inl ''TRUST_AUTHORITY_DUPLICATE''
      else collect_authorities (insort_key ad_authority_id a m) as)"

definition find_root :: "trust_bundle \<Rightarrow> string \<Rightarrow> product_trust_root option" where
  "find_root b key_id = find (\<lambda>r. ad_key_id (pt_authority r) = key_id) (tb_product_roots b)"

definition verify_root_transition :: "trust_crypto \<Rightarrow> trust_bundle \<Rightarrow> root_transition \<Rightarrow> string + unit" where
  "verify_root_transition c b t =
     res_bind (ok_or (find_root b (rt_from_root_key_id t)) ''TRUST_ROOT_TRANSITION_SOURCE_UNKNOWN'') (\<lambda>old.
     res_bind (ok_or (find_root b (rt_to_root_key_id t)) ''TRUST_ROOT_TRANSITION_TARGET_UNKNOWN'') (\<lambda>new.
     if rt_schema t \<noteq> 1 \<or> rt_trust_root_set t \<noteq> pt_trust_root_set old
        \<or> rt_trust_root_set t \<noteq> pt_trust_root_set new \<or> rt_activation_epoch t < tb_trust_epoch b
     then Inl ''TRUST_ROOT_TRANSITION_INVALID''
     else let payload = root_transition_payload c (rt_trust_root_set t) (rt_from_root_key_id t)
           (rt_to_root_key_id t) (rt_activation_epoch t) (rt_issued_at t) in
       res_bind (ok_or (tc_b64_decode c (rt_old_root_signature t)) ''TRUST_ROOT_TRANSITION_INVALID'') (\<lambda>old_sig.
       res_bind (verify_raw c (ad_public_key (pt_authority old)) payload old_sig) (\<lambda>_.
       res_bind (ok_or (tc_b64_decode c (rt_new_root_signature t)) ''TRUST_ROOT_TRANSITION_INVALID'') (\<lambda>new_sig.
       verify_raw c (ad_public_key (pt_authority new)) payload new_sig)))))"

definition verify_signed_trust_bundle ::
  "trust_crypto \<Rightarrow> signed_trust_bundle \<Rightarrow> u64 \<Rightarrow> u64 \<Rightarrow> string + unit" where
  "verify_signed_trust_bundle c sb now current_epoch = (let b = sb_bundle sb in
     if tb_contract b \<noteq> trust_bundle_contract \<or> sb_algorithm sb \<noteq> trust_fabric_algorithm
     then Inl ''TRUST_BUNDLE_CONTRACT_INVALID''
     else if tb_trust_epoch b < current_epoch then Inl ''TRUST_EPOCH_ROLLBACK''
     else if is_some_and (tb_expires_at b) (\<lambda>v. now > v) \<or> tb_issued_at b > now + 60
     then Inl ''TRUST_BUNDLE_EXPIRED''
     else res_bind (ok_or (find_root b (sb_signing_key_id sb)) ''TRUST_BUNDLE_ROOT_UNKNOWN'') (\<lambda>root.
       if ad_kind (pt_authority root) \<noteq> ProductTrustRoot \<or> ad_status (pt_authority root) = Revoked
          \<or> revoked_key (tb_revocations b) (ad_key_id (pt_authority root))
       then Inl ''TRUST_BUNDLE_ROOT_REVOKED''
       else if tb_issuer b \<noteq> ad_authority_id (pt_authority root) then Inl ''TRUST_BUNDLE_ISSUER_INVALID''
       else res_bind (ok_or (tc_b64_decode c (sb_signature sb)) ''TRUST_BUNDLE_SIGNATURE_INVALID'') (\<lambda>sig.
         res_bind (verify_raw c (ad_public_key (pt_authority root)) (trust_bundle_payload c b) sig) (\<lambda>_.
         res_bind (collect_authorities [] (bundle_authorities b)) (\<lambda>auths.
         res_bind (res_each (verify_descriptor_chain c auths (tb_revocations b) now {}) auths) (\<lambda>_.
         res_each (verify_root_transition c b) (tb_root_transitions b)))))))"

text \<open>Against the anchors of the host: directly, or by a transition from an anchor to the signing root.\<close>

definition directly_anchored :: "product_trust_root list \<Rightarrow> product_trust_root \<Rightarrow> bool" where
  "directly_anchored anchors root = list_ex (\<lambda>anchor. pt_trust_root_set anchor = pt_trust_root_set root
     \<and> ad_key_id (pt_authority anchor) = ad_key_id (pt_authority root)
     \<and> ad_public_key (pt_authority anchor) = ad_public_key (pt_authority root)) anchors"

definition transition_anchored :: "product_trust_root list \<Rightarrow> trust_bundle \<Rightarrow> product_trust_root \<Rightarrow> bool" where
  "transition_anchored anchors b root = list_ex (\<lambda>t.
     list_ex (\<lambda>anchor. pt_trust_root_set anchor = rt_trust_root_set t
       \<and> ad_key_id (pt_authority anchor) = rt_from_root_key_id t
       \<and> ad_public_key (pt_authority anchor) =
           unwrap_or (map_option (\<lambda>r. ad_public_key (pt_authority r)) (find_root b (rt_from_root_key_id t))) []) anchors
     \<and> rt_to_root_key_id t = ad_key_id (pt_authority root)) (tb_root_transitions b)"

definition verify_signed_trust_bundle_with_bootstrap ::
  "trust_crypto \<Rightarrow> signed_trust_bundle \<Rightarrow> u64 \<Rightarrow> u64 \<Rightarrow> product_trust_root list \<Rightarrow> string + unit" where
  "verify_signed_trust_bundle_with_bootstrap c sb now current_epoch anchors =
     (if anchors = [] then Inl ''TRUST_BOOTSTRAP_ANCHOR_UNAVAILABLE''
      else res_bind (ok_or (find_root (sb_bundle sb) (sb_signing_key_id sb)) ''TRUST_BUNDLE_ROOT_UNKNOWN'') (\<lambda>root.
        if \<not> directly_anchored anchors root \<and> \<not> transition_anchored anchors (sb_bundle sb) root
        then Inl ''TRUST_BOOTSTRAP_ANCHOR_MISMATCH''
        else verify_signed_trust_bundle c sb now current_epoch))"

section \<open>The succession of the centre\<close>

definition transition_predecessor :: "center_transition \<Rightarrow> trust_bundle \<Rightarrow> authority_descriptor option" where
  "transition_predecessor t b = (let matches = (\<lambda>a. ad_authority_id a = ct_predecessor_authority_id t
       \<and> ad_key_id a = ct_predecessor_key_id t) in
     case tb_center_authority b of
       Some a \<Rightarrow> if matches a then Some a else find matches (tb_predecessor_center_authorities b)
     | None \<Rightarrow> find matches (tb_predecessor_center_authorities b))"

definition transition_issuer :: "center_transition \<Rightarrow> trust_bundle \<Rightarrow> authority_descriptor option" where
  "transition_issuer t b = (case tb_deployment_root b of
     Some a \<Rightarrow> if ad_authority_id a = ct_issuer_authority_id t \<and> ad_key_id a = ct_issuer_key_id t then Some a else None
   | None \<Rightarrow> None)"

definition as_bool :: "json \<Rightarrow> bool option" where
  "as_bool v = (case v of JBool b \<Rightarrow> Some b | _ \<Rightarrow> None)"

definition get_bool :: "string \<Rightarrow> json \<Rightarrow> bool option" where
  "get_bool k v = (case json_get k v of None \<Rightarrow> None | Some x \<Rightarrow> as_bool x)"

definition successor_out_of_scope ::
  "center_transition \<Rightarrow> authority_descriptor \<Rightarrow> authority_certificate \<Rightarrow> bool" where
  "successor_out_of_scope t issuer ce =
     (ce_authority_id ce \<noteq> ct_successor_authority_id t \<or> ce_key_id ce \<noteq> ct_successor_key_id t
      \<or> ce_key_id ce = ct_predecessor_key_id t \<or> ce_version ce \<noteq> ct_successor_certificate_version t
      \<or> ce_issuer_authority_id ce \<noteq> ad_authority_id issuer \<or> ce_issuer_key_id ce \<noteq> ad_key_id issuer
      \<or> ce_kind ce \<noteq> CenterAuthority \<or> ce_capabilities ce \<noteq> ct_required_capabilities t)"

definition transition_status_open :: "center_transition_status \<Rightarrow> bool" where
  "transition_status_open s = (s = TransitionIssued \<or> s = TransitionPublished
     \<or> s = TransitionHostsConverging \<or> s = TransitionActive)"

definition verify_center_authority_transition ::
  "trust_crypto \<Rightarrow> center_transition \<Rightarrow> signed_trust_bundle \<Rightarrow> u64 \<Rightarrow> string + unit" where
  "verify_center_authority_transition c t sb now = (let b = sb_bundle sb in
     if ct_contract t \<noteq> center_authority_reissue_contract \<or> \<not> transition_status_open (ct_status t)
     then Inl ''TRUST_CENTER_TRANSITION_INVALID''
     else if ct_trust_root_set t \<noteq> unwrap_or (map_option pt_trust_root_set (find_root b (sb_signing_key_id sb))) []
        \<or> ct_activation_epoch t < tb_trust_epoch b \<or> ct_issued_at t > now + 60
     then Inl ''TRUST_CENTER_TRANSITION_EPOCH_INVALID''
     else res_bind (ok_or (transition_predecessor t b) ''TRUST_CENTER_PREDECESSOR_UNKNOWN'') (\<lambda>predecessor.
       if ad_status predecessor \<noteq> Active \<and> ad_status predecessor \<noteq> Rotating
       then Inl ''TRUST_CENTER_PREDECESSOR_NOT_CONVERGED''
       else res_bind (ok_or (transition_issuer t b) ''TRUST_CENTER_TRANSITION_ISSUER_UNKNOWN'') (\<lambda>issuer.
         if \<not> has_capability issuer (authority_capability DeploymentRoot)
         then Inl ''TRUST_CENTER_TRANSITION_ISSUER_UNAUTHORIZED''
         else res_bind (ok_or (json_get ''certificate'' (ct_proof t)) ''TRUST_CENTER_TRANSITION_PROOF_MISSING'') (\<lambda>proof_value.
           res_bind (ok_or (tc_parse_certificate c proof_value) ''TRUST_CENTER_TRANSITION_PROOF_INVALID'') (\<lambda>ce.
           if successor_out_of_scope t issuer ce then Inl ''TRUST_CENTER_TRANSITION_SCOPE_INVALID''
           else if get_bool ''predecessorPreserved'' (ct_proof t) \<noteq> Some True
              \<or> get_bool ''productRootChanged'' (ct_proof t) \<noteq> Some False
           then Inl ''TRUST_CENTER_TRANSITION_BOUNDARY_INVALID''
           else res_bind (ok_or (tc_b64_decode c (ce_signature ce)) ''TRUST_CENTER_TRANSITION_PROOF_INVALID'') (\<lambda>cert_sig.
             res_bind (verify_raw c (ad_public_key issuer) (certificate_payload c ce) cert_sig) (\<lambda>_.
             if \<not> list_ex (\<lambda>x. x = remote_operations_signing_capability) (ct_required_capabilities t)
                \<or> list_ex (\<lambda>x. x \<notin> set (ad_capabilities predecessor) \<and> x \<noteq> remote_operations_signing_capability)
                    (ct_required_capabilities t)
             then Inl ''TRUST_CENTER_TRANSITION_CAPABILITY_INVALID''
             else res_bind (ok_or (find (\<lambda>s. ts_authority_id s = ad_authority_id issuer \<and> ts_key_id s = ad_key_id issuer
                  \<and> ts_algorithm s = trust_fabric_algorithm) (ct_signatures t)) ''TRUST_CENTER_TRANSITION_SIGNATURE_MISSING'') (\<lambda>s.
               res_bind (ok_or (tc_b64_decode c (ts_signature s)) ''TRUST_CENTER_TRANSITION_SIGNATURE_INVALID'') (\<lambda>sig.
               verify_raw c (ad_public_key issuer) (center_transition_payload c t) sig)))))))))"

section \<open>Release manifests\<close>

definition manifest_incomplete :: "release_manifest \<Rightarrow> bool" where
  "manifest_incomplete m =
     (rm_schema m \<noteq> release_manifest_contract \<or> rm_contract m \<noteq> release_manifest_contract
      \<or> is_blank (rm_release_id m) \<or> is_blank (rm_product_id m) \<or> is_blank (rm_version m)
      \<or> is_blank (rm_build_id m) \<or> is_blank (rm_source_repo m) \<or> is_blank (rm_platform m)
      \<or> is_blank (rm_architecture m) \<or> rm_artifacts m = [] \<or> rm_release_status m \<noteq> ''PROMOTED'')"

definition verify_signed_release_manifest_with_bootstrap ::
  "trust_crypto \<Rightarrow> signed_release_manifest \<Rightarrow> signed_trust_bundle \<Rightarrow> u64 \<Rightarrow> u64
    \<Rightarrow> product_trust_root list \<Rightarrow> string + unit" where
  "verify_signed_release_manifest_with_bootstrap c sm trusted now current_epoch anchors =
     res_bind (verify_signed_trust_bundle_with_bootstrap c trusted now current_epoch anchors) (\<lambda>_.
     let m = sr_manifest sm; b = sb_bundle trusted in
     if manifest_incomplete m \<or> rm_issued_at m > sat_add now 60
        \<or> rg_algorithm (sr_signing sm) \<noteq> trust_fabric_algorithm
     then Inl ''RELEASE_MANIFEST_INVALID''
     else res_bind (ok_or (find (\<lambda>a. ad_key_id a = rg_key_id (sr_signing sm)) (tb_product_signing_authorities b))
         ''TRUST_PRODUCT_SIGNER_UNKNOWN'') (\<lambda>signer.
       if ad_kind signer \<noteq> ProductSigningAuthority \<or> ad_status signer \<noteq> Active
          \<or> ad_valid_from signer > rm_issued_at m
          \<or> is_some_and (ad_valid_until signer) (\<lambda>until. rm_issued_at m > until)
          \<or> revoked_key (tb_revocations b) (ad_key_id signer)
       then Inl ''TRUST_PRODUCT_SIGNER_REJECTED''
       else if \<not> has_capability signer ''product_signing'' then Inl ''TRUST_PRODUCT_SIGNER_CAPABILITY_REJECTED''
       else res_bind (ok_or (tc_b64_decode c (rg_signature (sr_signing sm))) ''RELEASE_SIGNATURE_INVALID'') (\<lambda>sig.
         map_err (\<lambda>_. ''RELEASE_SIGNATURE_INVALID'')
           (verify_raw c (ad_public_key signer) (release_manifest_payload c m) sig))))"

section \<open>What a verified chain means\<close>

text \<open>
  The specification: an authority is trusted when it is in force and is a product root of the
  bundle, or has a certificate in its own name, signed by a trusted issuer of the bundle that may
  issue its kind.
\<close>

definition may_issue :: "authority_descriptor \<Rightarrow> authority_kind \<Rightarrow> bool" where
  "may_issue issuer kind \<longleftrightarrow> (kind = ProductTrustRoot \<and> ad_kind issuer = ProductTrustRoot)
     \<or> (\<exists>capability. required_capability kind = Some capability
         \<and> (capability \<in> set (ad_capabilities issuer) \<or> ''*'' \<in> set (ad_capabilities issuer)))"

definition signs_certificate :: "trust_crypto \<Rightarrow> authority_descriptor \<Rightarrow> authority_certificate \<Rightarrow> bool" where
  "signs_certificate c issuer ce \<longleftrightarrow> (\<exists>sig. tc_b64_decode c (ce_signature ce) = Some sig
     \<and> verify_raw c (ad_public_key issuer) (certificate_payload c ce) sig = Inr ())"

inductive trusted ::
  "trust_crypto \<Rightarrow> authority_descriptor list \<Rightarrow> trust_revocation list \<Rightarrow> u64 \<Rightarrow> authority_descriptor \<Rightarrow> bool"
  for c auths revs now where
  trusted_root: "\<not> descriptor_rejected revs now a \<Longrightarrow> ad_certificate a = None \<Longrightarrow>
    ad_kind a = ProductTrustRoot \<Longrightarrow> trusted c auths revs now a"
| trusted_issued: "\<not> descriptor_rejected revs now a \<Longrightarrow> ad_certificate a = Some ce \<Longrightarrow>
    \<not> certificate_out_of_scope a ce \<Longrightarrow> find_authority auths (ce_issuer_authority_id ce) = Some issuer \<Longrightarrow>
    trusted c auths revs now issuer \<Longrightarrow> may_issue issuer (ad_kind a) \<Longrightarrow> signs_certificate c issuer ce \<Longrightarrow>
    trusted c auths revs now a"

inductive_cases trustedE: "trusted c auths revs now a"

lemma check_issuer_Inr: "check_issuer kind issuer = Inr () \<longleftrightarrow> may_issue issuer kind"
  by (cases kind) (auto simp: check_issuer_def may_issue_def has_capability_def list_ex_iff)

lemma verify_certificate_Inr: "verify_certificate c issuer ce = Inr () \<longleftrightarrow> signs_certificate c issuer ce"
  by (auto simp: verify_certificate_def signs_certificate_def result_simps)

lemma verified_chain_trusted:
  "verify_descriptor_chain c auths revs now visiting a = Inr () \<Longrightarrow> trusted c auths revs now a"
proof (induction c auths revs now visiting a rule: verify_descriptor_chain.induct)
  case (1 c auths revs now visiting a)
  show ?case
  proof (cases "ad_certificate a")
    case None
    with "1.prems" show ?thesis
      by (intro trusted_root) (auto simp: verify_descriptor_chain.simps [of c auths revs now visiting a] split: if_splits)
  next
    case (Some ce)
    with "1.prems" obtain issuer where v: "ad_authority_id a \<notin> visiting" "\<not> descriptor_rejected revs now a"
      "\<not> certificate_out_of_scope a ce" "find_authority auths (ce_issuer_authority_id ce) = Some issuer"
      "verify_descriptor_chain c auths revs now (insert (ad_authority_id a) visiting) issuer = Inr ()"
      "check_issuer (ad_kind a) issuer = Inr ()" "verify_certificate c issuer ce = Inr ()"
      by (auto simp: verify_descriptor_chain.simps [of c auths revs now visiting a] result_simps split: if_splits)
    have "trusted c auths revs now issuer"
      by (rule "1.IH" [OF v(1,2) Some v(3) _ v(5)]) (simp add: v(4))
    then show ?thesis
      using trusted_issued v Some by (simp add: check_issuer_Inr verify_certificate_Inr)
  qed
qed

text \<open>The issuers an authority depends on, nearest first; a derivation has only finitely many.\<close>

inductive issuers :: "authority_descriptor list \<Rightarrow> authority_descriptor \<Rightarrow> authority_descriptor list \<Rightarrow> bool"
  for auths where
  issuers_none: "ad_certificate a = None \<Longrightarrow> issuers auths a []"
| issuers_some: "ad_certificate a = Some ce \<Longrightarrow> find_authority auths (ce_issuer_authority_id ce) = Some i \<Longrightarrow>
    issuers auths i is \<Longrightarrow> issuers auths a (i # is)"

inductive_cases issuersE: "issuers auths a is"

lemma trusted_issuers: "trusted c auths revs now a \<Longrightarrow> \<exists>is. issuers auths a is"
  by (induction rule: trusted.induct) (blast intro: issuers.intros)+

lemma issuers_unique: "issuers auths a is \<Longrightarrow> issuers auths a js \<Longrightarrow> is = js"
proof (induction arbitrary: js rule: issuers.induct)
  case (issuers_none a)
  from issuers_none(2) show ?case by (rule issuersE) (use issuers_none(1) in simp_all)
next
  case (issuers_some a ce i "is")
  from issuers_some.prems obtain i' is' where j: "js = i' # is'" "issuers auths i' is'"
      "find_authority auths (ce_issuer_authority_id ce) = Some i'"
    by (rule issuersE) (simp_all add: issuers_some.hyps(1))
  then have "i' = i" using issuers_some.hyps(2) by simp
  then show ?case using issuers_some.IH [of is'] j by simp
qed

lemma issuers_suffix:
  "issuers auths a is \<Longrightarrow> x \<in> set is \<Longrightarrow> \<exists>js. issuers auths x js \<and> length js < length is"
proof (induction rule: issuers.induct)
  case (issuers_some a ce i "is")
  then show ?case by (cases "x = i") (auto intro: less_SucI)
qed simp

lemma issuers_found: "issuers auths a is \<Longrightarrow> x \<in> set is \<Longrightarrow> find_authority auths (ad_authority_id x) = Some x"
proof (induction rule: issuers.induct)
  case (issuers_some a ce i "is")
  then show ?case using find_authorityD [of auths "ce_issuer_authority_id ce" i] by auto
qed simp

text \<open>An authority of the bundle does not depend on its own identity.\<close>

lemma issuers_acyclic:
  assumes "issuers auths a is" "find_authority auths (ad_authority_id a) = Some a" "x \<in> set is"
  shows "ad_authority_id x \<noteq> ad_authority_id a"
proof
  assume eq: "ad_authority_id x = ad_authority_id a"
  have "Some x = Some a" unfolding issuers_found [OF assms(1,3), symmetric] eq by (rule assms(2))
  then have "x = a" by simp
  then obtain js where "issuers auths a js" "length js < length is"
    using issuers_suffix [OF assms(1,3)] by blast
  with issuers_unique [OF assms(1)] show False by blast
qed

lemma trusted_chain_verified:
  assumes "trusted c auths revs now a" "issuers auths a is"
    and "find_authority auths (ad_authority_id a) = Some a"
    and "ad_authority_id a \<notin> visiting" "visiting \<inter> ad_authority_id ` set is = {}"
  shows "verify_descriptor_chain c auths revs now visiting a = Inr ()"
  using assms
proof (induction arbitrary: "is" visiting rule: trusted.induct)
  case (trusted_root a)
  then show ?case by (simp add: verify_descriptor_chain.simps [of c auths revs now visiting a])
next
  case (trusted_issued a ce issuer)
  from trusted_issued.prems(1) obtain js where js: "is = issuer # js" "issuers auths issuer js"
    by (rule issuersE) (use trusted_issued.hyps in auto)
  have found: "find_authority auths (ad_authority_id issuer) = Some issuer"
    by (rule issuers_found [OF trusted_issued.prems(1)]) (simp add: js)
  have fresh: "ad_authority_id x \<noteq> ad_authority_id a" if "x \<in> set is" for x
    by (rule issuers_acyclic [OF trusted_issued.prems(1,2) that])
  have new: "ad_authority_id a \<notin> ad_authority_id ` set is" using fresh by force
  have "verify_descriptor_chain c auths revs now (insert (ad_authority_id a) visiting) issuer = Inr ()"
    by (rule trusted_issued.IH [OF js(2) found]) (use new trusted_issued.prems(4) js in auto)
  moreover have "check_issuer (ad_kind a) issuer = Inr ()" "verify_certificate c issuer ce = Inr ()"
    using trusted_issued.hyps by (simp_all add: check_issuer_Inr verify_certificate_Inr)
  ultimately show ?case using trusted_issued.hyps trusted_issued.prems(3)
    by (simp add: verify_descriptor_chain.simps [of c auths revs now visiting a])
qed

lemma verify_chain_iff:
  assumes "find_authority auths (ad_authority_id a) = Some a"
  shows "verify_descriptor_chain c auths revs now {} a = Inr () \<longleftrightarrow> trusted c auths revs now a"
proof
  assume t: "trusted c auths revs now a"
  then obtain "is" where "issuers auths a is" using trusted_issuers by blast
  then show "verify_descriptor_chain c auths revs now {} a = Inr ()"
    by (rule trusted_chain_verified [OF t _ assms]) simp_all
qed (rule verified_chain_trusted)

text \<open>Every trusted authority leads to a product root that is in force.\<close>

lemma trusted_in_force: "trusted c auths revs now a \<Longrightarrow> \<not> descriptor_rejected revs now a"
  by (auto elim: trustedE)

section \<open>Collected authorities\<close>

lemma find_authority_insort:
  "find_authority m (ad_authority_id a) = None \<Longrightarrow>
   find_authority (insort_key ad_authority_id a m) i = (if i = ad_authority_id a then Some a else find_authority m i)"
  by (induction m) (auto simp: find_authority_def split: if_splits)

lemma collect_authorities_Inr:
  "collect_authorities m as = Inr auths \<Longrightarrow>
   distinct (map ad_authority_id as) \<and> (\<forall>a \<in> set as. find_authority m (ad_authority_id a) = None)
   \<and> set auths = set m \<union> set as
   \<and> (\<forall>i. find_authority auths i = (case find_authority m i of Some a \<Rightarrow> Some a | None \<Rightarrow> find_authority as i))"
proof (induction m as rule: collect_authorities.induct)
  case (1 m)
  then show ?case by (auto simp: find_authority_def split: option.split)
next
  case (2 m a as)
  then have n: "find_authority m (ad_authority_id a) = None"
    and r: "collect_authorities (insort_key ad_authority_id a m) as = Inr auths" by (auto split: if_splits)
  note ih = "2.IH" [OF _ r] 
  have i: "distinct (map ad_authority_id as)"
    "\<forall>x \<in> set as. find_authority (insort_key ad_authority_id a m) (ad_authority_id x) = None"
    "set auths = set (insort_key ad_authority_id a m) \<union> set as"
    "\<And>i. find_authority auths i = (case find_authority (insort_key ad_authority_id a m) i of
       Some a \<Rightarrow> Some a | None \<Rightarrow> find_authority as i)" using ih n by simp_all
  have fresh: "ad_authority_id x \<noteq> ad_authority_id a \<and> find_authority m (ad_authority_id x) = None"
    if "x \<in> set as" for x
    using bspec [OF i(2) that] n by (simp add: find_authority_insort split: if_splits)
  have "find_authority auths i = (case find_authority m i of Some a \<Rightarrow> Some a | None \<Rightarrow> find_authority (a # as) i)" for i
  proof (cases "i = ad_authority_id a")
    case True
    then show ?thesis using i(4) [of i] n by (simp add: find_authority_insort find_authority_def [of "a # as"])
  next
    case False
    then have "find_authority (a # as) i = find_authority as i" by (simp add: find_authority_def)
    then show ?thesis using i(4) [of i] n False by (cases "find_authority m i") (simp_all add: find_authority_insort)
  qed
  then show ?case using i(1,3) n fresh by (fastforce simp: set_insort_key)
qed

lemma collect_authorities_ok:
  "distinct (map ad_authority_id as) \<Longrightarrow> (\<And>a. a \<in> set as \<Longrightarrow> find_authority m (ad_authority_id a) = None) \<Longrightarrow>
   \<exists>auths. collect_authorities m as = Inr auths"
proof (induction m as rule: collect_authorities.induct)
  case (2 m a as)
  have n: "find_authority m (ad_authority_id a) = None" using 2 by simp
  have "\<exists>auths. collect_authorities (insort_key ad_authority_id a m) as = Inr auths"
  proof (rule "2.IH")
    fix x assume x: "x \<in> set as"
    then have "ad_authority_id x \<noteq> ad_authority_id a" using "2.prems"(1) by (metis distinct.simps(2) image_eqI list.map(2) set_map)
    then show "find_authority (insort_key ad_authority_id a m) (ad_authority_id x) = None"
      using "2.prems"(2) n x by (simp add: find_authority_insort)
  qed (use 2 n in simp_all)
  then show ?case using n by simp
qed simp

lemma collected:
  assumes "collect_authorities [] as = Inr auths"
  shows "set auths = set as" "find_authority auths i = find_authority as i"
    "a \<in> set as \<Longrightarrow> find_authority auths (ad_authority_id a) = Some a"
proof -
  note r = collect_authorities_Inr [OF assms]
  show "set auths = set as" "find_authority auths i = find_authority as i"
    using r by (simp_all add: find_authority_def)
  show "find_authority auths (ad_authority_id a) = Some a" if "a \<in> set as"
    using r find_key_distinct [of ad_authority_id as a] that by (simp add: find_authority_def)
qed

text \<open>Only lookups of issuers matter to a chain.\<close>

lemma trusted_lookup:
  assumes "trusted c auths revs now a" "\<And>i. find_authority auths i = find_authority auths' i"
  shows "trusted c auths' revs now a"
  using assms(1)
proof (induction rule: trusted.induct)
  case (trusted_issued a ce issuer)
  then show ?case using trusted.trusted_issued [of revs now a ce auths'] assms(2) by metis
qed (rule trusted.trusted_root)

section \<open>What an accepted bundle means\<close>

definition signed_by :: "trust_crypto \<Rightarrow> string \<Rightarrow> string \<Rightarrow> string \<Rightarrow> bool" where
  "signed_by c public_key payload signature \<longleftrightarrow> (\<exists>sig. tc_b64_decode c signature = Some sig
     \<and> verify_raw c public_key payload sig = Inr ())"

lemma signs_certificate_signed_by:
  "signs_certificate c issuer ce \<longleftrightarrow> signed_by c (ad_public_key issuer) (certificate_payload c ce) (ce_signature ce)"
  by (simp add: signs_certificate_def signed_by_def)

text \<open>A transition between two roots of the bundle, signed by both.\<close>

definition dual_signed :: "trust_crypto \<Rightarrow> trust_bundle \<Rightarrow> root_transition \<Rightarrow> bool" where
  "dual_signed c b t \<longleftrightarrow> (\<exists>old new. find_root b (rt_from_root_key_id t) = Some old
     \<and> find_root b (rt_to_root_key_id t) = Some new \<and> rt_schema t = 1
     \<and> rt_trust_root_set t = pt_trust_root_set old \<and> rt_trust_root_set t = pt_trust_root_set new
     \<and> tb_trust_epoch b \<le> rt_activation_epoch t
     \<and> (let payload = root_transition_payload c (rt_trust_root_set t) (rt_from_root_key_id t)
            (rt_to_root_key_id t) (rt_activation_epoch t) (rt_issued_at t) in
          signed_by c (ad_public_key (pt_authority old)) payload (rt_old_root_signature t)
          \<and> signed_by c (ad_public_key (pt_authority new)) payload (rt_new_root_signature t)))"

definition acceptable_bundle :: "trust_crypto \<Rightarrow> signed_trust_bundle \<Rightarrow> u64 \<Rightarrow> u64 \<Rightarrow> bool" where
  "acceptable_bundle c sb now epoch \<longleftrightarrow> (let b = sb_bundle sb; auths = bundle_authorities b in
     tb_contract b = trust_bundle_contract \<and> sb_algorithm sb = trust_fabric_algorithm
     \<and> epoch \<le> tb_trust_epoch b \<and> (\<forall>v. tb_expires_at b = Some v \<longrightarrow> now \<le> v) \<and> tb_issued_at b \<le> now + 60
     \<and> (\<exists>root. find_root b (sb_signing_key_id sb) = Some root
          \<and> ad_kind (pt_authority root) = ProductTrustRoot \<and> tb_issuer b = ad_authority_id (pt_authority root)
          \<and> signed_by c (ad_public_key (pt_authority root)) (trust_bundle_payload c b) (sb_signature sb))
     \<and> distinct (map ad_authority_id auths)
     \<and> (\<forall>a \<in> set auths. trusted c auths (tb_revocations b) now a)
     \<and> (\<forall>t \<in> set (tb_root_transitions b). dual_signed c b t))"

lemma signature_checked:
  "res_bind (ok_or (tc_b64_decode c s) e) (\<lambda>sig. res_bind (verify_raw c k p sig) f) = Inr u
    \<longleftrightarrow> signed_by c k p s \<and> f () = Inr u"
  "res_bind (ok_or (tc_b64_decode c s) e) (\<lambda>sig. verify_raw c k p sig) = Inr () \<longleftrightarrow> signed_by c k p s"
  by (auto simp: signed_by_def result_simps)

lemma verify_root_transition_Inr: "verify_root_transition c b t = Inr () \<longleftrightarrow> dual_signed c b t"
  by (cases "find_root b (rt_from_root_key_id t)"; cases "find_root b (rt_to_root_key_id t)")
    (auto simp: verify_root_transition_def dual_signed_def Let_def signature_checked not_less split: if_splits)

lemma find_root_in_bundle:
  "find_root b k = Some r \<Longrightarrow> r \<in> set (tb_product_roots b) \<and> pt_authority r \<in> set (bundle_authorities b)
    \<and> ad_key_id (pt_authority r) = k"
  by (auto simp: find_root_def bundle_authorities_def dest: find_SomeD)

lemma chains_verified_iff:
  assumes "collect_authorities [] as = Inr auths"
  shows "res_each (verify_descriptor_chain c auths revs now {}) auths = Inr ()
    \<longleftrightarrow> (\<forall>a \<in> set as. trusted c as revs now a)"
proof -
  note k = collected [OF assms]
  have same: "trusted c auths revs now a \<longleftrightarrow> trusted c as revs now a" for a
    using trusted_lookup [of c auths revs now a as] trusted_lookup [of c as revs now a auths] k(2) by auto
  have "verify_descriptor_chain c auths revs now {} a = Inr () \<longleftrightarrow> trusted c as revs now a" if "a \<in> set as" for a
    using verify_chain_iff [OF k(3) [OF that], of c revs now] same [of a] by simp
  then show ?thesis by (simp add: result_simps k(1))
qed

lemma collect_iff: "(\<exists>auths. collect_authorities [] as = Inr auths) \<longleftrightarrow> distinct (map ad_authority_id as)"
  using collect_authorities_Inr [of "[]" as] collect_authorities_ok [of as "[]"] by (auto simp: find_authority_def)

lemma verify_bundle_Inr:
  "verify_signed_trust_bundle c sb now epoch = Inr () \<longleftrightarrow> (let b = sb_bundle sb in
     tb_contract b = trust_bundle_contract \<and> sb_algorithm sb = trust_fabric_algorithm
     \<and> epoch \<le> tb_trust_epoch b \<and> (\<forall>v. tb_expires_at b = Some v \<longrightarrow> now \<le> v) \<and> tb_issued_at b \<le> now + 60
     \<and> (\<exists>root. find_root b (sb_signing_key_id sb) = Some root
          \<and> ad_kind (pt_authority root) = ProductTrustRoot \<and> ad_status (pt_authority root) \<noteq> Revoked
          \<and> \<not> revoked_key (tb_revocations b) (ad_key_id (pt_authority root))
          \<and> tb_issuer b = ad_authority_id (pt_authority root)
          \<and> signed_by c (ad_public_key (pt_authority root)) (trust_bundle_payload c b) (sb_signature sb))
     \<and> (\<exists>auths. collect_authorities [] (bundle_authorities b) = Inr auths
          \<and> res_each (verify_descriptor_chain c auths (tb_revocations b) now {}) auths = Inr ())
     \<and> (\<forall>t \<in> set (tb_root_transitions b). dual_signed c b t))"
  by (cases "find_root (sb_bundle sb) (sb_signing_key_id sb)")
    (auto simp: verify_signed_trust_bundle_def Let_def signed_by_def not_less result_simps
      verify_root_transition_Inr split: if_splits)

lemma verify_bundle_acceptable:
  "verify_signed_trust_bundle c sb now epoch = Inr () \<longleftrightarrow> acceptable_bundle c sb now epoch"
proof -
  let ?as = "bundle_authorities (sb_bundle sb)" and ?revs = "tb_revocations (sb_bundle sb)"
  have chains: "(\<exists>auths. collect_authorities [] ?as = Inr auths
      \<and> res_each (verify_descriptor_chain c auths ?revs now {}) auths = Inr ())
    \<longleftrightarrow> distinct (map ad_authority_id ?as) \<and> (\<forall>a \<in> set ?as. trusted c ?as ?revs now a)"
    using chains_verified_iff [of ?as _ c ?revs now] collect_iff [of ?as] by metis
  have root: "ad_status (pt_authority r) \<noteq> Revoked \<and> \<not> revoked_key ?revs (ad_key_id (pt_authority r))"
    if "find_root (sb_bundle sb) k = Some r" "\<forall>a \<in> set ?as. trusted c ?as ?revs now a" for k r
    using find_root_in_bundle [OF that(1)] that(2) trusted_in_force [of c ?as ?revs now "pt_authority r"]
    by (auto simp: descriptor_rejected_def)
  show ?thesis unfolding verify_bundle_Inr acceptable_bundle_def Let_def chains
    using root [of "sb_signing_key_id sb"] by blast
qed

text \<open>
  C22. A bundle is accepted exactly when the specification says so: it is of the contract and not
  expired, at or above the epoch in force, signed by a product root it contains, all its
  authorities have different identities and each has a chain of certificates to a product root in
  force, and every root transition is signed by both roots. The walk over the issuers with its set
  of visited identities decides the inductive definition of a chain, so no bundle makes it loop and
  no cycle of issuers is accepted.
\<close>

theorem bundle_verification_complete:
  "verify_signed_trust_bundle c sb now epoch = Inr () \<longleftrightarrow> acceptable_bundle c sb now epoch"
  by (rule verify_bundle_acceptable)

lemma accepted_bundle_anchored:
  "verify_signed_trust_bundle_with_bootstrap c sb now epoch anchors = Inr () \<Longrightarrow>
   acceptable_bundle c sb now epoch"
  by (auto simp: verify_signed_trust_bundle_with_bootstrap_def result_simps verify_bundle_acceptable split: if_splits)

text \<open>
  C21. No bundle introduces its own root: a bundle accepted against the host's anchors is signed
  with the key of an anchor, or one of its transitions, signed with the key of an anchor and with
  the new one, leads from that anchor to the root that signed the bundle. Its epoch is not below
  the one in force.
\<close>

theorem accepted_bundle_is_anchored:
  assumes "verify_signed_trust_bundle_with_bootstrap c sb now epoch anchors = Inr ()"
  shows "epoch \<le> tb_trust_epoch (sb_bundle sb) \<and> acceptable_bundle c sb now epoch
    \<and> (\<exists>anchor \<in> set anchors.
        signed_by c (ad_public_key (pt_authority anchor)) (trust_bundle_payload c (sb_bundle sb)) (sb_signature sb)
      \<or> (\<exists>t \<in> set (tb_root_transitions (sb_bundle sb)).
          rt_from_root_key_id t = ad_key_id (pt_authority anchor) \<and> rt_to_root_key_id t = sb_signing_key_id sb
          \<and> dual_signed c (sb_bundle sb) t
          \<and> signed_by c (ad_public_key (pt_authority anchor))
              (root_transition_payload c (rt_trust_root_set t) (rt_from_root_key_id t)
                (rt_to_root_key_id t) (rt_activation_epoch t) (rt_issued_at t)) (rt_old_root_signature t)))"
proof -
  let ?b = "sb_bundle sb"
  from assms obtain root where root: "find_root ?b (sb_signing_key_id sb) = Some root"
    and anch: "directly_anchored anchors root \<or> transition_anchored anchors ?b root"
    and v: "verify_signed_trust_bundle c sb now epoch = Inr ()"
    by (auto simp: verify_signed_trust_bundle_with_bootstrap_def result_simps split: if_splits)
  have acc: "acceptable_bundle c sb now epoch" using v by (simp add: verify_bundle_acceptable)
  have epoch: "epoch \<le> tb_trust_epoch ?b" using acc by (simp add: acceptable_bundle_def Let_def)
  from anch show ?thesis
  proof
    assume "directly_anchored anchors root"
    then obtain anchor where "anchor \<in> set anchors"
      "ad_public_key (pt_authority anchor) = ad_public_key (pt_authority root)"
      by (auto simp: directly_anchored_def list_ex_iff)
    moreover have "signed_by c (ad_public_key (pt_authority root)) (trust_bundle_payload c ?b) (sb_signature sb)"
      using acc root by (auto simp: acceptable_bundle_def Let_def)
    ultimately have "\<exists>anchor \<in> set anchors.
        signed_by c (ad_public_key (pt_authority anchor)) (trust_bundle_payload c ?b) (sb_signature sb)"
      by (intro bexI [of _ anchor]) simp_all
    then show ?thesis using acc epoch by blast
  next
    assume "transition_anchored anchors ?b root"
    then obtain t anchor where t: "t \<in> set (tb_root_transitions ?b)" "anchor \<in> set anchors"
      "ad_key_id (pt_authority anchor) = rt_from_root_key_id t" "rt_to_root_key_id t = ad_key_id (pt_authority root)"
      and pub: "ad_public_key (pt_authority anchor) =
           unwrap_or (map_option (\<lambda>r. ad_public_key (pt_authority r)) (find_root ?b (rt_from_root_key_id t))) []"
      by (auto simp: transition_anchored_def list_ex_iff)
    have d: "dual_signed c ?b t" using acc t(1) by (simp add: acceptable_bundle_def Let_def)
    then have "signed_by c (ad_public_key (pt_authority anchor)) (root_transition_payload c (rt_trust_root_set t)
        (rt_from_root_key_id t) (rt_to_root_key_id t) (rt_activation_epoch t) (rt_issued_at t)) (rt_old_root_signature t)"
      using pub by (auto simp: dual_signed_def Let_def)
    moreover have "rt_to_root_key_id t = sb_signing_key_id sb" using t(4) find_root_in_bundle [OF root] by simp
    ultimately show ?thesis using acc epoch t(1,2) t(3) [symmetric] d by blast
  qed
qed

text \<open>
  An example hierarchy: a product root, the deployment authorities down to a centre, and a release
  authority with a product signer. The secret of an authority is its name.
\<close>

definition example_root_authority :: authority_descriptor where
  "example_root_authority = \<lparr> ad_authority_id = ''root'', ad_kind = ProductTrustRoot, ad_key_id = ''key-root'',
     ad_public_key = tc_public example_crypto ''root'', ad_fingerprint = ''fp'', ad_algorithm = trust_fabric_algorithm,
     ad_status = Active, ad_valid_from = 100, ad_valid_until = None, ad_issuer_authority_id = None,
     ad_issuer_key_id = None, ad_serial = ''root-100'', ad_version = 1,
     ad_capabilities = [authority_capability ProductTrustRoot, ''authority:issue-release''],
     ad_certificate = None, ad_created_at = 100, ad_revoked_at = None, ad_revocation_reason = None \<rparr>"

definition example_body :: "authority_descriptor \<Rightarrow> string \<Rightarrow> authority_kind \<Rightarrow> string list \<Rightarrow> authority_certificate" where
  "example_body p i kind caps = \<lparr> ce_schema = 1, ce_authority_id = i, ce_kind = kind, ce_key_id = ''key-'' @ i,
     ce_public_key = tc_public example_crypto i, ce_fingerprint = ''fp'', ce_issuer_authority_id = ad_authority_id p,
     ce_issuer_key_id = ad_key_id p, ce_serial = i, ce_version = 1, ce_capabilities = caps, ce_valid_from = 100,
     ce_valid_until = None, ce_signature = [] \<rparr>"

definition example_certificate :: "authority_descriptor \<Rightarrow> string \<Rightarrow> authority_kind \<Rightarrow> string list \<Rightarrow> authority_certificate" where
  "example_certificate p i kind caps = (example_body p i kind caps)\<lparr>ce_signature :=
     tc_sign example_crypto (ad_authority_id p) (certificate_payload example_crypto (example_body p i kind caps))\<rparr>"

definition example_issue :: "authority_descriptor \<Rightarrow> string \<Rightarrow> authority_kind \<Rightarrow> string list \<Rightarrow> authority_descriptor" where
  "example_issue p i kind caps = \<lparr> ad_authority_id = i, ad_kind = kind, ad_key_id = ''key-'' @ i,
     ad_public_key = tc_public example_crypto i, ad_fingerprint = ''fp'', ad_algorithm = trust_fabric_algorithm,
     ad_status = Active, ad_valid_from = 100, ad_valid_until = None, ad_issuer_authority_id = Some (ad_authority_id p),
     ad_issuer_key_id = Some (ad_key_id p), ad_serial = i, ad_version = 1, ad_capabilities = caps,
     ad_certificate = Some (example_certificate p i kind caps), ad_created_at = 100, ad_revoked_at = None,
     ad_revocation_reason = None \<rparr>"

definition example_deployment :: authority_descriptor where
  "example_deployment = example_issue example_root_authority ''deployment'' DeploymentAuthority
     [authority_capability DeploymentAuthority]"

definition example_deployment_root :: authority_descriptor where
  "example_deployment_root = example_issue example_deployment ''deployment-root'' DeploymentRoot
     [authority_capability DeploymentRoot]"

definition example_center :: authority_descriptor where
  "example_center = example_issue example_deployment_root ''center'' CenterAuthority [authority_capability CenterAuthority]"

definition example_release :: authority_descriptor where
  "example_release = example_issue example_root_authority ''release'' ReleaseAuthority [authority_capability ReleaseAuthority]"

definition example_signer :: authority_descriptor where
  "example_signer = example_issue example_release ''signer'' ProductSigningAuthority [''product_signing'']"

definition example_hierarchy :: "authority_descriptor list" where
  "example_hierarchy = [example_root_authority, example_deployment, example_deployment_root, example_center,
     example_release, example_signer]"

definition example_root :: product_trust_root where
  "example_root = \<lparr> pt_authority = example_root_authority, pt_trust_root_set = ''set'', pt_root_version = 1,
     pt_activation_epoch = 1, pt_retirement_epoch = None \<rparr>"

definition example_bundle_at :: "u64 \<Rightarrow> trust_bundle" where
  "example_bundle_at epoch = \<lparr> tb_trust_bundle_id = ''set-120'', tb_contract = trust_bundle_contract, tb_version = 1,
     tb_product_roots = [example_root], tb_root_transitions = [], tb_deployment_authority = Some example_deployment,
     tb_deployment_root = Some example_deployment_root, tb_center_authority = Some example_center,
     tb_predecessor_center_authorities = [], tb_enrollment_authorities = [],
     tb_release_authorities = [example_release], tb_product_signing_authorities = [example_signer],
     tb_revocations = [], tb_issued_at = 120, tb_expires_at = Some 1000, tb_trust_epoch = epoch, tb_issuer = ''root'' \<rparr>"

definition example_signed_at :: "u64 \<Rightarrow> signed_trust_bundle" where
  "example_signed_at epoch = \<lparr> sb_bundle = example_bundle_at epoch,
     sb_signature = tc_sign example_crypto ''root'' (trust_bundle_payload example_crypto (example_bundle_at epoch)),
     sb_signing_key_id = ''key-root'', sb_algorithm = trust_fabric_algorithm \<rparr>"

lemma example_signature:
  "signed_by example_crypto (tc_public example_crypto s) m (tc_sign example_crypto s m)"
  by (auto simp: signed_by_def verify_raw_def example_crypto_def min_def)

lemma certificate_payload_unsigned [simp]: "certificate_payload c (ce\<lparr>ce_signature := s\<rparr>) = certificate_payload c ce"
  by (simp add: certificate_payload_def unsigned_certificate)

lemma example_certificate_signed:
  "ad_public_key p = tc_public example_crypto (ad_authority_id p) \<Longrightarrow>
   signs_certificate example_crypto p (example_certificate p i kind caps)"
  by (simp add: signs_certificate_signed_by example_certificate_def example_signature)

lemma example_certificate_fields:
  "ce_issuer_authority_id (example_certificate p i kind caps) = ad_authority_id p"
  "ce_issuer_key_id (example_certificate p i kind caps) = ad_key_id p"
  "ce_authority_id (example_certificate p i kind caps) = i"
  "ce_key_id (example_certificate p i kind caps) = ''key-'' @ i"
  "ce_public_key (example_certificate p i kind caps) = tc_public example_crypto i"
  by (simp_all add: example_certificate_def example_body_def)

lemma example_issue_trusted:
  assumes "trusted example_crypto auths [] now p" "find_authority auths (ad_authority_id p) = Some p"
    and "may_issue p kind" "ad_public_key p = tc_public example_crypto (ad_authority_id p)" "100 \<le> now"
  shows "trusted example_crypto auths [] now (example_issue p i kind caps)"
proof (rule trusted_issued [where ce = "example_certificate p i kind caps" and issuer = p])
  show "find_authority auths (ce_issuer_authority_id (example_certificate p i kind caps)) = Some p"
    by (simp add: example_certificate_fields assms(2))
  show "may_issue p (ad_kind (example_issue p i kind caps))" by (simp add: example_issue_def assms(3))
qed (use assms in \<open>simp_all add: descriptor_rejected_def example_issue_def revoked_key_def
    certificate_out_of_scope_def example_certificate_fields example_certificate_signed\<close>)

lemmas example_authority_defs = example_deployment_def example_deployment_root_def example_center_def
  example_release_def example_signer_def

lemma example_ids: "map ad_authority_id example_hierarchy
    = [''root'', ''deployment'', ''deployment-root'', ''center'', ''release'', ''signer'']"
  by (simp add: example_hierarchy_def example_authority_defs example_issue_def [of _ "''deployment''"]
      example_issue_def [of _ "''deployment-root''"] example_issue_def [of _ "''center''"]
      example_issue_def [of _ "''release''"] example_issue_def [of _ "''signer''"] example_root_authority_def)

lemma example_found: "a \<in> set example_hierarchy \<Longrightarrow> find_authority example_hierarchy (ad_authority_id a) = Some a"
  unfolding find_authority_def by (rule find_key_distinct) (simp add: example_ids)

lemma example_hierarchy_trusted_in:
  assumes found: "\<And>a. a \<in> set example_hierarchy \<Longrightarrow> find_authority auths (ad_authority_id a) = Some a"
  shows "\<forall>a \<in> set example_hierarchy. trusted example_crypto auths [] 120 a"
proof -
  have in_hierarchy: "example_root_authority \<in> set example_hierarchy" "example_deployment \<in> set example_hierarchy"
    "example_deployment_root \<in> set example_hierarchy" "example_release \<in> set example_hierarchy"
    by (simp_all add: example_hierarchy_def)
  have root: "trusted example_crypto auths [] 120 example_root_authority"
    by (rule trusted_root) (simp_all add: descriptor_rejected_def example_root_authority_def revoked_key_def)
  have deployment: "trusted example_crypto auths [] 120 example_deployment" unfolding example_deployment_def
    by (rule example_issue_trusted [OF root found [OF in_hierarchy(1)]])
      (simp_all add: may_issue_def example_root_authority_def)
  have deployment_root: "trusted example_crypto auths [] 120 example_deployment_root"
    unfolding example_deployment_root_def
    by (rule example_issue_trusted [OF deployment found [OF in_hierarchy(2)]])
      (simp_all add: may_issue_def example_deployment_def example_issue_def)
  have "trusted example_crypto auths [] 120 example_center" unfolding example_center_def
    by (rule example_issue_trusted [OF deployment_root found [OF in_hierarchy(3)]])
      (simp_all add: may_issue_def example_deployment_root_def example_issue_def)
  moreover have release: "trusted example_crypto auths [] 120 example_release" unfolding example_release_def
    by (rule example_issue_trusted [OF root found [OF in_hierarchy(1)]])
      (simp_all add: may_issue_def example_root_authority_def)
  moreover have "trusted example_crypto auths [] 120 example_signer" unfolding example_signer_def
    by (rule example_issue_trusted [OF release found [OF in_hierarchy(4)]])
      (simp_all add: may_issue_def example_release_def example_issue_def)
  ultimately show ?thesis using root deployment deployment_root by (simp add: example_hierarchy_def)
qed

lemmas example_hierarchy_trusted = example_hierarchy_trusted_in [OF example_found]

lemma example_authorities: "bundle_authorities (example_bundle_at epoch) = example_hierarchy"
  by (simp add: bundle_authorities_def example_bundle_at_def example_root_def example_hierarchy_def)

lemma example_find_root: "find_root (example_bundle_at epoch) ''key-root'' = Some example_root"
  by (simp add: find_root_def example_bundle_at_def example_root_def example_root_authority_def)

lemma example_acceptable:
  assumes "current \<le> epoch"
  shows "acceptable_bundle example_crypto (example_signed_at epoch) 120 current"
proof -
  have "signed_by example_crypto (ad_public_key example_root_authority)
      (trust_bundle_payload example_crypto (example_bundle_at epoch)) (sb_signature (example_signed_at epoch))"
    by (simp add: example_root_authority_def example_signed_at_def example_signature)
  moreover have "tb_revocations (example_bundle_at epoch) = []" by (simp add: example_bundle_at_def)
  ultimately show ?thesis using assms example_hierarchy_trusted
    unfolding acceptable_bundle_def Let_def
    by (simp add: example_signed_at_def example_authorities example_find_root example_ids)
      (simp add: example_bundle_at_def example_root_def example_root_authority_def)
qed

lemma example_bundle_accepted:
  assumes "current \<le> epoch"
  shows "verify_signed_trust_bundle_with_bootstrap example_crypto (example_signed_at epoch) 120 current [example_root] = Inr ()"
proof -
  have "verify_signed_trust_bundle example_crypto (example_signed_at epoch) 120 current = Inr ()"
    using example_acceptable [OF assms] by (simp add: verify_bundle_acceptable)
  then show ?thesis
    by (simp add: verify_signed_trust_bundle_with_bootstrap_def example_signed_at_def example_find_root directly_anchored_def)
qed

theorem accepted_bundle_is_anchored_witness:
  "1 \<le> tb_trust_epoch (sb_bundle (example_signed_at 2))
   \<and> acceptable_bundle example_crypto (example_signed_at 2) 120 1"
proof -
  have "(1 :: u64) \<le> 2" by simp
  from accepted_bundle_is_anchored [OF example_bundle_accepted [OF this]] show ?thesis by blast
qed

text \<open>
  A release manifest is accepted only when it is complete, promoted, and signed with the key of
  a product signing authority of the anchored bundle: active, not revoked, in force when the
  manifest was issued, with the capability to sign products and a chain to a product root.
\<close>

theorem accepted_release_is_authorized:
  assumes "verify_signed_release_manifest_with_bootstrap c sm trusted_bundle now epoch anchors = Inr ()"
  shows "verify_signed_trust_bundle_with_bootstrap c trusted_bundle now epoch anchors = Inr ()
    \<and> rm_release_status (sr_manifest sm) = ''PROMOTED'' \<and> rm_artifacts (sr_manifest sm) \<noteq> []
    \<and> (\<exists>signer \<in> set (tb_product_signing_authorities (sb_bundle trusted_bundle)).
        ad_key_id signer = rg_key_id (sr_signing sm) \<and> ad_kind signer = ProductSigningAuthority
      \<and> ad_status signer = Active \<and> \<not> revoked_key (tb_revocations (sb_bundle trusted_bundle)) (ad_key_id signer)
      \<and> ad_valid_from signer \<le> rm_issued_at (sr_manifest sm)
      \<and> (\<forall>until. ad_valid_until signer = Some until \<longrightarrow> rm_issued_at (sr_manifest sm) \<le> until)
      \<and> (''product_signing'' \<in> set (ad_capabilities signer) \<or> ''*'' \<in> set (ad_capabilities signer))
      \<and> trusted c (bundle_authorities (sb_bundle trusted_bundle)) (tb_revocations (sb_bundle trusted_bundle)) now signer
      \<and> signed_by c (ad_public_key signer) (release_manifest_payload c (sr_manifest sm)) (rg_signature (sr_signing sm)))"
proof -
  let ?b = "sb_bundle trusted_bundle" and ?m = "sr_manifest sm"
  from assms have v: "verify_signed_trust_bundle_with_bootstrap c trusted_bundle now epoch anchors = Inr ()"
    by (auto simp: verify_signed_release_manifest_with_bootstrap_def result_simps)
  with assms have ok: "\<not> manifest_incomplete ?m" and "\<exists>signer.
      find (\<lambda>a. ad_key_id a = rg_key_id (sr_signing sm)) (tb_product_signing_authorities ?b) = Some signer
      \<and> ad_kind signer = ProductSigningAuthority \<and> ad_status signer = Active \<and> ad_valid_from signer \<le> rm_issued_at ?m
      \<and> (\<forall>until. ad_valid_until signer = Some until \<longrightarrow> rm_issued_at ?m \<le> until)
      \<and> \<not> revoked_key (tb_revocations ?b) (ad_key_id signer) \<and> has_capability signer ''product_signing''
      \<and> signed_by c (ad_public_key signer) (release_manifest_payload c ?m) (rg_signature (sr_signing sm))"
    by (auto simp: verify_signed_release_manifest_with_bootstrap_def Let_def result_simps signed_by_def not_less split: if_splits)
  then obtain signer where s:
      "find (\<lambda>a. ad_key_id a = rg_key_id (sr_signing sm)) (tb_product_signing_authorities ?b) = Some signer"
      "ad_kind signer = ProductSigningAuthority" "ad_status signer = Active" "ad_valid_from signer \<le> rm_issued_at ?m"
      "\<forall>until. ad_valid_until signer = Some until \<longrightarrow> rm_issued_at ?m \<le> until"
      "\<not> revoked_key (tb_revocations ?b) (ad_key_id signer)" "has_capability signer ''product_signing''"
      "signed_by c (ad_public_key signer) (release_manifest_payload c ?m) (rg_signature (sr_signing sm))" by blast
  have mem: "signer \<in> set (tb_product_signing_authorities ?b)" "ad_key_id signer = rg_key_id (sr_signing sm)"
    using find_SomeD [OF s(1)] by simp_all
  have "acceptable_bundle c trusted_bundle now epoch" using accepted_bundle_anchored [OF v] by blast
  then have "trusted c (bundle_authorities ?b) (tb_revocations ?b) now signer"
    using mem(1) by (auto simp: acceptable_bundle_def Let_def bundle_authorities_def)
  moreover have "''product_signing'' \<in> set (ad_capabilities signer) \<or> ''*'' \<in> set (ad_capabilities signer)"
    using s(7) by (auto simp: has_capability_def list_ex_iff)
  ultimately show ?thesis using v ok mem s unfolding manifest_incomplete_def by blast
qed

definition example_manifest :: release_manifest where
  "example_manifest = \<lparr> rm_schema = release_manifest_contract, rm_contract = release_manifest_contract,
     rm_release_id = ''r'', rm_product_id = ''p'', rm_version = ''1'', rm_build_id = ''b'', rm_source_repo = ''s'',
     rm_source_commit = ''c'', rm_platform = ''linux'', rm_architecture = ''x'',
     rm_artifacts = [\<lparr> ra_name = ''a'', ra_uri = ''u'', ra_sha256 = ''d'', ra_size_bytes = 1 \<rparr>], rm_issued_at = 120,
     rm_created_at = [], rm_promoted_at = [], rm_release_status = ''PROMOTED'',
     rm_compatibility = \<lparr> rc_base_runtime_contract = [], rc_build_manifest = [] \<rparr> \<rparr>"

definition example_signed_manifest :: signed_release_manifest where
  "example_signed_manifest = \<lparr> sr_manifest = example_manifest, sr_signing = \<lparr> rg_key_id = ''key-signer'',
     rg_algorithm = trust_fabric_algorithm,
     rg_signature = tc_sign example_crypto ''signer'' (release_manifest_payload example_crypto example_manifest) \<rparr> \<rparr>"

lemma example_manifest_complete: "\<not> manifest_incomplete example_manifest"
  unfolding manifest_incomplete_def example_manifest_def release_manifest_contract_def by code_simp

lemma example_release_accepted:
  "verify_signed_release_manifest_with_bootstrap example_crypto example_signed_manifest (example_signed_at 1) 120 1
     [example_root] = Inr ()"
proof -
  have signers: "tb_product_signing_authorities (sb_bundle (example_signed_at 1)) = [example_signer]"
    "tb_revocations (sb_bundle (example_signed_at 1)) = []"
    by (simp_all add: example_signed_at_def example_bundle_at_def)
  have signer: "ad_key_id example_signer = ''key-signer''" "ad_kind example_signer = ProductSigningAuthority"
    "ad_status example_signer = Active" "ad_valid_from example_signer = 100" "ad_valid_until example_signer = None"
    "has_capability example_signer ''product_signing''" "ad_public_key example_signer = tc_public example_crypto ''signer''"
    by (simp_all add: example_signer_def example_issue_def has_capability_def)
  have issued: "rm_issued_at example_manifest = 120" by (simp add: example_manifest_def)
  obtain sig where "tc_b64_decode example_crypto (rg_signature (sr_signing example_signed_manifest)) = Some sig"
    "verify_raw example_crypto (tc_public example_crypto ''signer'')
       (release_manifest_payload example_crypto example_manifest) sig = Inr ()"
    using example_signature [of "''signer''" "release_manifest_payload example_crypto example_manifest"]
    by (auto simp: signed_by_def example_signed_manifest_def)
  then show ?thesis
    using example_bundle_accepted [of 1 1] example_manifest_complete
    by (simp add: verify_signed_release_manifest_with_bootstrap_def Let_def signers signer issued revoked_key_def
        example_signed_manifest_def sat_add_def)
qed

theorem accepted_release_is_authorized_witness:
  "\<exists>signer \<in> set (tb_product_signing_authorities (sb_bundle (example_signed_at 1))).
     signed_by example_crypto (ad_public_key signer) (release_manifest_payload example_crypto example_manifest)
       (rg_signature (sr_signing example_signed_manifest))"
proof -
  have "sr_manifest example_signed_manifest = example_manifest" by (simp add: example_signed_manifest_def)
  with accepted_release_is_authorized [OF example_release_accepted] show ?thesis by auto
qed

end
