(* ===== verification/Key_Provider.thy ===== *)
theory Key_Provider
  imports Trust_Types
begin

text \<open>
  The trait \<open>KeyProvider\<close> and its two implementations
  (\<^verbatim>\<open>actium-node-core/src/trust_fabric.rs\<close>): keys in memory for ceremonies, and keys sealed
  on disk. The interface is the record \<open>key_provider\<close> of operations, its promises the locale
  \<open>key_provider_contract\<close>, which both implementations are shown to keep.

  What a call draws from outside is an argument: the bytes of \<open>OsRng\<close>, and for the files of the
  sealed provider the step at which an atomic write fails. The directory of the sealed provider is
  a map from file names to contents; AES-256-GCM is the record \<open>aead\<close>.
\<close>

section \<open>The interface\<close>

record ('w, 'p) key_provider =
  kp_generate :: "'w \<Rightarrow> 'p \<Rightarrow> 'p \<times> (string + key_descriptor)"
  kp_load :: "'p \<Rightarrow> string \<Rightarrow> string + key_descriptor"
  kp_sign :: "'p \<Rightarrow> string \<Rightarrow> string \<Rightarrow> string + string"
  kp_revoke :: "'w \<Rightarrow> string \<Rightarrow> 'p \<Rightarrow> 'p \<times> (string + unit)"
  kp_destroy_reference :: "'w \<Rightarrow> string \<Rightarrow> 'p \<Rightarrow> 'p \<times> (string + unit)"

definition kp_public_key :: "('w, 'p) key_provider \<Rightarrow> 'p \<Rightarrow> string \<Rightarrow> string + string" where
  "kp_public_key ops p k = res_bind (kp_load ops p k) (\<lambda>d. Inr (kd_public_key d))"

definition kp_fingerprint :: "('w, 'p) key_provider \<Rightarrow> 'p \<Rightarrow> string \<Rightarrow> string + string" where
  "kp_fingerprint ops p k = res_bind (kp_load ops p k) (\<lambda>d. Inr (kd_fingerprint d))"

text \<open>Both implementations rotate a key by revoking it and generating another one.\<close>

definition kp_rotate :: "('w, 'p) key_provider \<Rightarrow> 'w \<Rightarrow> 'w \<Rightarrow> string \<Rightarrow> 'p \<Rightarrow> 'p \<times> (string + key_descriptor)" where
  "kp_rotate ops w w' k p = (case kp_revoke ops w k p of
     (p1, Inl e) \<Rightarrow> (p1, Inl e)
   | (p1, Inr _) \<Rightarrow> kp_generate ops w' p1)"

text \<open>The calls that change the state of a provider; \<open>reopen\<close> is a restart of its owner.\<close>

datatype 'w key_call = CallGenerate 'w | CallRevoke 'w string | CallDestroy 'w string | CallReopen

fun key_call_state :: "('w, 'p) key_provider \<Rightarrow> ('p \<Rightarrow> 'p) \<Rightarrow> 'w key_call \<Rightarrow> 'p \<Rightarrow> 'p" where
  "key_call_state ops reopen (CallGenerate w) p = fst (kp_generate ops w p)"
| "key_call_state ops reopen (CallRevoke w k) p = fst (kp_revoke ops w k p)"
| "key_call_state ops reopen (CallDestroy w k) p = fst (kp_destroy_reference ops w k p)"
| "key_call_state ops reopen CallReopen p = reopen p"

text \<open>The promises a client relies on. Keys of another form than \<open>plain\<close> are outside them.\<close>

locale key_provider_contract =
  fixes c :: trust_crypto
    and ops :: "('w, 'p) key_provider"
    and revoked :: "'p \<Rightarrow> string \<Rightarrow> bool"
    and plain :: "string \<Rightarrow> bool"
    and lawful :: "'w \<Rightarrow> bool"
    and reopen :: "'p \<Rightarrow> 'p"
  assumes load_names_key: "kp_load ops p k = Inr d \<Longrightarrow> kd_key_id d = k"
    and signer_loads: "kp_sign ops p k m = Inr s \<Longrightarrow> \<exists>d. kp_load ops p k = Inr d \<and> kd_status d \<noteq> Revoked"
    and signature_verifies: "crypto_ok c \<Longrightarrow> kp_sign ops p k m = Inr s \<Longrightarrow> kp_load ops p k = Inr d \<Longrightarrow>
      verify_raw c (kd_public_key d) m s = Inr ()"
    and active_signs: "kp_load ops p k = Inr d \<Longrightarrow> kd_status d \<noteq> Revoked \<Longrightarrow> \<exists>s. kp_sign ops p k m = Inr s"
    and generated_loads: "lawful w \<Longrightarrow> kp_generate ops w p = (p', Inr d) \<Longrightarrow>
      plain (kd_key_id d) \<and> (\<exists>d'. kp_load ops p' (kd_key_id d) = Inr d' \<and> kd_public_key d' = kd_public_key d)"
    and generate_keeps: "kp_generate ops w p = (p', r) \<Longrightarrow> plain k \<Longrightarrow> r \<noteq> Inr d' \<or> kd_key_id d' \<noteq> k \<Longrightarrow>
      (\<And>e. r = Inr e \<Longrightarrow> kd_key_id e \<noteq> k) \<Longrightarrow> kp_load ops p' k = kp_load ops p k"
    and revoke_retires: "kp_revoke ops w k p = (p', Inr ()) \<Longrightarrow> revoked p' k"
    and revoked_never_signs: "revoked p k \<Longrightarrow> \<exists>e. kp_sign ops p k m = Inl e"
    and generate_keeps_revoked: "revoked p k \<Longrightarrow> revoked (fst (kp_generate ops w p)) k"
    and revoke_keeps_revoked: "revoked p k \<Longrightarrow> revoked (fst (kp_revoke ops w j p)) k"
    and destroy_keeps_revoked: "revoked p k \<Longrightarrow> revoked (fst (kp_destroy_reference ops w j p)) k"
    and reopen_keeps_revoked: "revoked p k \<Longrightarrow> revoked (reopen p) k"
begin

lemma rotate_retires:
  assumes "kp_rotate ops w w' k p = (p', Inr d)"
  shows "revoked p' k"
proof -
  obtain p1 where p1: "kp_revoke ops w k p = (p1, Inr ())" "kp_generate ops w' p1 = (p', Inr d)"
    using assms by (auto simp: kp_rotate_def split: prod.splits sum.splits)
  show ?thesis using generate_keeps_revoked [OF revoke_retires [OF p1(1)], of w'] p1(2) by simp
qed

lemma call_keeps_revoked: "revoked p k \<Longrightarrow> revoked (key_call_state ops reopen x p) k"
  by (cases x) (simp_all add: generate_keeps_revoked revoke_keeps_revoked destroy_keeps_revoked reopen_keeps_revoked)

lemma calls_keep_revoked: "revoked p k \<Longrightarrow> revoked (foldl (\<lambda>p x. key_call_state ops reopen x p) p xs) k"
  by (induction xs arbitrary: p) (simp_all add: call_keeps_revoked)

lemma never_signs_again:
  assumes "kp_revoke ops w k p = (p', Inr ())"
  shows "\<exists>e. kp_sign ops (foldl (\<lambda>p x. key_call_state ops reopen x p) p' xs) k m = Inl e"
  by (rule revoked_never_signs [OF calls_keep_revoked [OF revoke_retires [OF assms]]])

end

section \<open>Keys in memory\<close>

record test_keys =
  tk_keys :: "string \<rightharpoonup> string"
  tk_revoked :: "string set"

definition key_descriptor_of :: "trust_crypto \<Rightarrow> string \<Rightarrow> string \<Rightarrow> authority_status \<Rightarrow> key_descriptor" where
  "key_descriptor_of c key_id key status = \<lparr> kd_key_id = key_id,
     kd_public_key = tc_b64_encode c (tc_public c key),
     kd_fingerprint = fingerprint_for_raw c (tc_public c key),
     kd_algorithm = trust_fabric_algorithm, kd_status = status \<rparr>"

definition test_generate :: "trust_crypto \<Rightarrow> string \<Rightarrow> test_keys \<Rightarrow> test_keys \<times> (string + key_descriptor)" where
  "test_generate c seed p = (let key_id = fingerprint_for_raw c (tc_public c seed) in
     (p\<lparr>tk_keys := (tk_keys p)(key_id \<mapsto> seed)\<rparr>, Inr (key_descriptor_of c key_id seed Active)))"

definition test_load :: "trust_crypto \<Rightarrow> test_keys \<Rightarrow> string \<Rightarrow> string + key_descriptor" where
  "test_load c p k = res_bind (ok_or (tk_keys p k) ''TRUST_KEY_NOT_FOUND'') (\<lambda>key.
     Inr (key_descriptor_of c k key (if k \<in> tk_revoked p then Revoked else Active)))"

definition test_sign :: "trust_crypto \<Rightarrow> test_keys \<Rightarrow> string \<Rightarrow> string \<Rightarrow> string + string" where
  "test_sign c p k m =
     (if k \<in> tk_revoked p then Inl ''TRUST_KEY_REVOKED''
      else res_bind (ok_or (tk_keys p k) ''TRUST_KEY_NOT_FOUND'') (\<lambda>key. Inr (tc_sign c key m)))"

definition test_revoke :: "string \<Rightarrow> string \<Rightarrow> test_keys \<Rightarrow> test_keys \<times> (string + unit)" where
  "test_revoke w k p =
     (if tk_keys p k = None then (p, Inl ''TRUST_KEY_NOT_FOUND'')
      else (p\<lparr>tk_revoked := insert k (tk_revoked p)\<rparr>, Inr ()))"

definition test_destroy_reference :: "string \<Rightarrow> string \<Rightarrow> test_keys \<Rightarrow> test_keys \<times> (string + unit)" where
  "test_destroy_reference w k p =
     (if tk_keys p k = None then (p, Inl ''TRUST_KEY_NOT_FOUND'')
      else (p\<lparr>tk_keys := (tk_keys p)(k := None), tk_revoked := insert k (tk_revoked p)\<rparr>, Inr ()))"

definition test_key_provider :: "trust_crypto \<Rightarrow> (string, test_keys) key_provider" where
  "test_key_provider c = \<lparr> kp_generate = test_generate c, kp_load = test_load c, kp_sign = test_sign c,
     kp_revoke = test_revoke, kp_destroy_reference = test_destroy_reference \<rparr>"

definition no_keys :: test_keys where
  "no_keys = \<lparr> tk_keys = Map.empty, tk_revoked = {} \<rparr>"

section \<open>Keys sealed on disk\<close>

record aead =
  ae_seal :: "string \<Rightarrow> string \<Rightarrow> string \<Rightarrow> string option"
  ae_open :: "string \<Rightarrow> string \<Rightarrow> string \<Rightarrow> string option"

datatype write_fault =
    NoFault
  | OpenFails string
  | WriteFails string string
  | SyncFails string
  | RenameFails string

text \<open>What one call meets: the random bytes it draws and the fate of the file it writes.\<close>

record seal_world =
  sw_seed :: string
  sw_nonce :: string
  sw_fault :: write_fault
  sw_remove_error :: "string option"

record sealed_keys =
  sk_files :: "string \<rightharpoonup> string"
  sk_sealing_key :: string
  sk_revoked :: "string set"

definition sealed_prefix :: string where
  "sealed_prefix = ''ACTIUM-SEALED-KEY-V1'' @ [CHR 0x00]"

text \<open>File names below the provider's directory. The extension of a marker replaces \<open>.sealed\<close>.\<close>

definition key_file_stem :: "string \<Rightarrow> string + string" where
  "key_file_stem k =
     (if k = [] \<or> CHR ''/'' \<in> set k \<or> CHR 0x5C \<in> set k \<or> CHR ''.'' \<in> set k
      then Inl ''TRUST_KEY_ID_INVALID''
      else Inr (map (\<lambda>x. if x = CHR '':'' then CHR ''_'' else x) k))"

definition sealed_path :: "string \<Rightarrow> string + string" where
  "sealed_path k = res_bind (key_file_stem k) (\<lambda>stem. Inr (stem @ ''.sealed''))"

definition legacy_path :: "string \<Rightarrow> string" where
  "legacy_path k = k @ ''.sealed''"

definition revoked_marker :: "string \<Rightarrow> string + string" where
  "revoked_marker k = res_bind (key_file_stem k) (\<lambda>stem. Inr (stem @ ''.revoked''))"

definition existing_path :: "sealed_keys \<Rightarrow> string \<Rightarrow> string + string" where
  "existing_path p k = res_bind (sealed_path k) (\<lambda>path.
     Inr (if sk_files p path \<noteq> None then path else legacy_path k))"

definition seal_key :: "aead \<Rightarrow> string \<Rightarrow> string \<Rightarrow> string \<Rightarrow> string + string" where
  "seal_key a sealing_key nonce key =
     res_bind (ok_or (ae_seal a sealing_key nonce key) ''TRUST_SEAL_FAILED'') (\<lambda>bytes.
       Inr (sealed_prefix @ nonce @ bytes))"

definition unseal_key :: "aead \<Rightarrow> string \<Rightarrow> string \<Rightarrow> string + string" where
  "unseal_key a sealing_key bytes =
     (if length bytes < length sealed_prefix + 12 + 16 \<or> take (length sealed_prefix) bytes \<noteq> sealed_prefix
      then Inl ''TRUST_SEALED_FORMAT_INVALID''
      else let body = drop (length sealed_prefix) bytes in
        res_bind (ok_or (ae_open a sealing_key (take 12 body) (drop 12 body)) ''TRUST_UNSEAL_FAILED'') (\<lambda>raw.
        if length raw \<noteq> 32 then Inl ''TRUST_SEALED_KEY_LENGTH'' else Inr raw))"

definition read_key :: "aead \<Rightarrow> sealed_keys \<Rightarrow> string \<Rightarrow> string + string" where
  "read_key a p k =
     res_bind (existing_path p k) (\<lambda>path.
     res_bind (ok_or (sk_files p path) ''TRUST_KEY_NOT_FOUND'') (\<lambda>bytes.
     unseal_key a (sk_sealing_key p) bytes))"

definition is_revoked :: "sealed_keys \<Rightarrow> string \<Rightarrow> string + bool" where
  "is_revoked p k =
     (if k \<in> sk_revoked p then Inr True
      else res_bind (revoked_marker k) (\<lambda>marker.
        Inr (sk_files p marker \<noteq> None \<or> sk_files p (k @ ''.revoked'') \<noteq> None)))"

text \<open>
  The atomic write: the temporary file beside the target is removed, created, written and synced,
  then renamed over the target. A fault leaves the target as it was, and the temporary file as far
  as it came.
\<close>

definition temporary_of :: "string \<Rightarrow> string" where
  "temporary_of path = rev (dropWhile (\<lambda>x. x \<noteq> CHR ''.'') (rev path)) @ ''tmp''"

fun sealed_atomic_write :: "write_fault \<Rightarrow> string \<Rightarrow> string \<Rightarrow> string \<Rightarrow> (string \<rightharpoonup> string) \<Rightarrow> (string \<rightharpoonup> string) \<times> (string + unit)" where
  "sealed_atomic_write NoFault path bytes failure files =
     (files(temporary_of path := None, path \<mapsto> bytes), Inr ())"
| "sealed_atomic_write (OpenFails e) path bytes failure files =
     (files(temporary_of path := None), Inl (failure @ '': '' @ e))"
| "sealed_atomic_write (WriteFails partial e) path bytes failure files =
     (files(temporary_of path \<mapsto> partial), Inl (failure @ '': '' @ e))"
| "sealed_atomic_write (SyncFails e) path bytes failure files =
     (files(temporary_of path \<mapsto> bytes), Inl (failure @ '': '' @ e))"
| "sealed_atomic_write (RenameFails e) path bytes failure files =
     (files(temporary_of path \<mapsto> bytes), Inl (failure @ '': '' @ e))"

definition sealed_write :: "seal_world \<Rightarrow> string \<Rightarrow> string \<Rightarrow> string \<Rightarrow> sealed_keys \<Rightarrow> sealed_keys \<times> (string + unit)" where
  "sealed_write w path bytes failure p =
     (case sealed_atomic_write (sw_fault w) path bytes failure (sk_files p) of
        (files, r) \<Rightarrow> (p\<lparr>sk_files := files\<rparr>, r))"

definition sealed_generate :: "trust_crypto \<Rightarrow> aead \<Rightarrow> seal_world \<Rightarrow> sealed_keys \<Rightarrow> sealed_keys \<times> (string + key_descriptor)" where
  "sealed_generate c a w p = (let key_id = fingerprint_for_raw c (tc_public c (sw_seed w)) in
     case sealed_path key_id of
       Inl e \<Rightarrow> (p, Inl e)
     | Inr path \<Rightarrow> (case seal_key a (sk_sealing_key p) (sw_nonce w) (sw_seed w) of
         Inl e \<Rightarrow> (p, Inl e)
       | Inr bytes \<Rightarrow> (case sealed_write w path bytes ''TRUST_SEALED_STORAGE_WRITE_FAILED'' p of
           (p', Inl e) \<Rightarrow> (p', Inl e)
         | (p', Inr _) \<Rightarrow> (p', Inr (key_descriptor_of c key_id (sw_seed w) Active)))))"

definition sealed_load :: "trust_crypto \<Rightarrow> aead \<Rightarrow> sealed_keys \<Rightarrow> string \<Rightarrow> string + key_descriptor" where
  "sealed_load c a p k =
     res_bind (read_key a p k) (\<lambda>key.
     res_bind (is_revoked p k) (\<lambda>gone.
     Inr (key_descriptor_of c k key (if gone then Revoked else Active))))"

definition sealed_sign :: "trust_crypto \<Rightarrow> aead \<Rightarrow> sealed_keys \<Rightarrow> string \<Rightarrow> string \<Rightarrow> string + string" where
  "sealed_sign c a p k m =
     res_bind (is_revoked p k) (\<lambda>gone.
     if gone then Inl ''TRUST_KEY_REVOKED''
     else res_bind (read_key a p k) (\<lambda>key. Inr (tc_sign c key m)))"

definition sealed_revoke :: "aead \<Rightarrow> seal_world \<Rightarrow> string \<Rightarrow> sealed_keys \<Rightarrow> sealed_keys \<times> (string + unit)" where
  "sealed_revoke a w k p =
     (case res_bind (read_key a p k) (\<lambda>_. revoked_marker k) of
        Inl e \<Rightarrow> (p, Inl e)
      | Inr marker \<Rightarrow> (case sealed_write w marker (''revoked'' @ [CHR 0x0A]) ''TRUST_REVOCATION_WRITE_FAILED'' p of
          (p', Inl e) \<Rightarrow> (p', Inl e)
        | (p', Inr _) \<Rightarrow> (p'\<lparr>sk_revoked := insert k (sk_revoked p')\<rparr>, Inr ())))"

text \<open>Destroying removes the file, then writes the marker in place (\<open>fs::write\<close>).\<close>

fun write_in_place :: "write_fault \<Rightarrow> string \<Rightarrow> string \<Rightarrow> string \<Rightarrow> (string \<rightharpoonup> string) \<Rightarrow> (string \<rightharpoonup> string) \<times> (string + unit)" where
  "write_in_place (OpenFails e) path bytes failure files = (files, Inl (failure @ '': '' @ e))"
| "write_in_place (WriteFails partial e) path bytes failure files =
     (files(path \<mapsto> partial), Inl (failure @ '': '' @ e))"
| "write_in_place _ path bytes failure files = (files(path \<mapsto> bytes), Inr ())"

definition sealed_destroy_reference ::
  "seal_world \<Rightarrow> string \<Rightarrow> sealed_keys \<Rightarrow> sealed_keys \<times> (string + unit)" where
  "sealed_destroy_reference w k p =
     (case existing_path p k of
        Inl e \<Rightarrow> (p, Inl e)
      | Inr path \<Rightarrow>
          if sk_files p path = None then (p, Inl ''TRUST_KEY_NOT_FOUND'')
          else case sw_remove_error w of
            Some e \<Rightarrow> (p, Inl (''TRUST_KEY_DESTROY_FAILED: '' @ e))
          | None \<Rightarrow>
              let removed = (sk_files p)(path := None) in
              (case revoked_marker k of
                 Inl e \<Rightarrow> (p\<lparr>sk_files := removed\<rparr>, Inl e)
               | Inr marker \<Rightarrow> (case write_in_place (sw_fault w) marker (''destroyed'' @ [CHR 0x0A])
                     ''TRUST_REVOCATION_WRITE_FAILED'' removed of
                   (files, Inl e) \<Rightarrow> (p\<lparr>sk_files := files\<rparr>, Inl e)
                 | (files, Inr _) \<Rightarrow> (p\<lparr>sk_files := files, sk_revoked := insert k (sk_revoked p)\<rparr>, Inr ()))))"

definition copy_key_from ::
  "trust_crypto \<Rightarrow> aead \<Rightarrow> seal_world \<Rightarrow> sealed_keys \<Rightarrow> string \<Rightarrow> sealed_keys \<Rightarrow> sealed_keys \<times> (string + key_descriptor)" where
  "copy_key_from c a w source k p =
     (case res_bind (read_key a source k) (\<lambda>key. res_bind (sealed_path k) (\<lambda>path.
         if sk_files p path \<noteq> None \<or> sk_files p (legacy_path k) \<noteq> None then Inl ''TRUST_KEY_EXISTS''
         else res_bind (seal_key a (sk_sealing_key p) (sw_nonce w) key) (\<lambda>bytes. Inr (key, path, bytes)))) of
        Inl e \<Rightarrow> (p, Inl e)
      | Inr (key, path, bytes) \<Rightarrow> (case sealed_write w path bytes ''TRUST_SEALED_STORAGE_WRITE_FAILED'' p of
          (p', Inl e) \<Rightarrow> (p', Inl e)
        | (p', Inr _) \<Rightarrow> (p', Inr (key_descriptor_of c k key Active))))"

definition sealed_key_provider :: "trust_crypto \<Rightarrow> aead \<Rightarrow> (seal_world, sealed_keys) key_provider" where
  "sealed_key_provider c a = \<lparr> kp_generate = sealed_generate c a, kp_load = sealed_load c a,
     kp_sign = sealed_sign c a, kp_revoke = sealed_revoke a,
     kp_destroy_reference = sealed_destroy_reference \<rparr>"

section \<open>Both keep the contract\<close>

lemma verify_own_signature:
  "crypto_ok c \<Longrightarrow> verify_raw c (tc_b64_encode c (tc_public c key)) m (tc_sign c key m) = Inr ()"
  by (simp add: crypto_ok_def verify_raw_def)

lemma key_descriptor_of_fields [simp]:
  "kd_key_id (key_descriptor_of c k key st) = k"
  "kd_public_key (key_descriptor_of c k key st) = tc_b64_encode c (tc_public c key)"
  "kd_fingerprint (key_descriptor_of c k key st) = fingerprint_for_raw c (tc_public c key)"
  "kd_algorithm (key_descriptor_of c k key st) = trust_fabric_algorithm"
  "kd_status (key_descriptor_of c k key st) = st"
  by (simp_all add: key_descriptor_of_def)

lemmas test_ops = test_key_provider_def test_generate_def test_load_def test_sign_def test_revoke_def
  test_destroy_reference_def Let_def

interpretation test: key_provider_contract c "test_key_provider c" "\<lambda>p k. k \<in> tk_revoked p" "\<lambda>k. True" "\<lambda>w. True" "\<lambda>p. p"
  for c
proof (unfold_locales, goal_cases)
  case (3 p k m s d)
  then show ?case by (auto simp: test_ops result_simps verify_own_signature split: if_splits)
qed (auto simp: test_ops result_simps split: if_splits)

text \<open>The names of the files of the sealed provider.\<close>

definition aead_ok :: "aead \<Rightarrow> bool" where
  "aead_ok a \<longleftrightarrow> (\<forall>k n m. length n = 12 \<longrightarrow> (\<exists>x. ae_seal a k n m = Some x \<and> length x = length m + 16
     \<and> ae_open a k n x = Some m))"

definition plain_key_id :: "string \<Rightarrow> bool" where
  "plain_key_id k \<longleftrightarrow> CHR ''_'' \<notin> set k"

text \<open>The marker of a revoked key is on disk, so that a restart finds it.\<close>

definition sealed_revoked :: "sealed_keys \<Rightarrow> string \<Rightarrow> bool" where
  "sealed_revoked p k \<longleftrightarrow> (\<exists>marker. revoked_marker k = Inr marker \<and> sk_files p marker \<noteq> None)"

definition sealed_reopen :: "sealed_keys \<Rightarrow> sealed_keys" where
  "sealed_reopen p = p\<lparr>sk_revoked := {}\<rparr>"

definition sealed_world_ok :: "aead \<Rightarrow> seal_world \<Rightarrow> bool" where
  "sealed_world_ok a w \<longleftrightarrow> aead_ok a \<and> length (sw_nonce w) = 12 \<and> length (sw_seed w) = 32"

lemma extension_differs:
  "x @ ''.sealed'' \<noteq> y @ ''.revoked''" "x @ ''.tmp'' \<noteq> y @ ''.sealed''" "x @ ''.tmp'' \<noteq> y @ ''.revoked''"
proof -
  have r: "u @ s = v @ t \<Longrightarrow> rev s @ rev u = rev t @ rev v" for u s v t :: string
    by (metis rev_append)
  show "x @ ''.sealed'' \<noteq> y @ ''.revoked''" using r [of x "''.sealed''" y "''.revoked''"] by auto
  show "x @ ''.tmp'' \<noteq> y @ ''.sealed''" using r [of x "''.tmp''" y "''.sealed''"] by auto
  show "x @ ''.tmp'' \<noteq> y @ ''.revoked''" using r [of x "''.tmp''" y "''.revoked''"] by auto
qed

lemma temporary_of_ext [simp]:
  "temporary_of (x @ ''.sealed'') = x @ ''.tmp''" "temporary_of (x @ ''.revoked'') = x @ ''.tmp''"
  by (simp_all add: temporary_of_def)

lemma hex_digit_range: "n < 16 \<Longrightarrow> hex_digit n \<noteq> CHR ''_'' \<and> hex_digit n \<noteq> CHR ''/'' \<and> hex_digit n \<noteq> CHR 0x5C \<and> hex_digit n \<noteq> CHR ''.''"
proof -
  assume "n < 16"
  then have "n \<in> set [0..<16]" by simp
  moreover have "list_all (\<lambda>n. hex_digit n \<noteq> CHR ''_'' \<and> hex_digit n \<noteq> CHR ''/'' \<and> hex_digit n \<noteq> CHR 0x5C \<and> hex_digit n \<noteq> CHR ''.'') [0..<16]"
    by code_simp
  ultimately show ?thesis unfolding list_all_iff by blast
qed

lemma hex_bytes_plain: "x \<in> set (hex_bytes s) \<Longrightarrow> x \<noteq> CHR ''_'' \<and> x \<noteq> CHR ''/'' \<and> x \<noteq> CHR 0x5C \<and> x \<noteq> CHR ''.''"
proof -
  assume "x \<in> set (hex_bytes s)"
  then obtain b where "x = hex_digit (of_char b div 16) \<or> x = hex_digit (of_char b mod 16)"
    by (auto simp: hex_bytes_def hex_byte_def)
  moreover have "(of_char b :: nat) div 16 < 16" using nat_of_char_less_256 [of b] by linarith
  ultimately show ?thesis using hex_digit_range [of "of_char b div 16"] hex_digit_range [of "of_char b mod 16"] by auto
qed

lemma fingerprint_plain: "plain_key_id (fingerprint_for_raw c raw)"
  using hex_bytes_plain by (fastforce simp: plain_key_id_def fingerprint_for_raw_def)

definition file_stem :: "string \<Rightarrow> string" where
  "file_stem k = map (\<lambda>x. if x = CHR '':'' then CHR ''_'' else x) k"

lemma key_file_stem_Inr: "key_file_stem k = Inr s \<Longrightarrow> s = file_stem k"
  by (simp add: key_file_stem_def file_stem_def split: if_splits)

lemma fingerprint_stem: "key_file_stem (fingerprint_for_raw c raw) = Inr (file_stem (fingerprint_for_raw c raw))"
  using hex_bytes_plain by (fastforce simp: key_file_stem_def file_stem_def fingerprint_for_raw_def)

lemma fingerprint_stem_underscore: "CHR ''_'' \<in> set (file_stem (fingerprint_for_raw c raw))"
  by (simp add: file_stem_def fingerprint_for_raw_def)

lemma file_stem_plain: "plain_key_id k \<Longrightarrow> plain_key_id k' \<Longrightarrow> file_stem k = file_stem k' \<Longrightarrow> k = k'"
proof (induction k arbitrary: k')
  case (Cons x k)
  then show ?case by (cases k') (auto simp: file_stem_def plain_key_id_def split: if_splits)
qed (simp add: file_stem_def)

text \<open>What a write of the sealed provider touches.\<close>

lemma atomic_write_elsewhere:
  assumes "sealed_atomic_write f path bytes failure files = (files', r)" "q \<noteq> path" "q \<noteq> temporary_of path"
  shows "files' q = files q"
  using assms by (cases f) auto

lemma atomic_write_done:
  "sealed_atomic_write f path bytes failure files = (files', Inr u) \<Longrightarrow> files' path = Some bytes"
  by (cases f) auto

lemma sealed_write_fields:
  assumes "sealed_write w path bytes failure p = (p', r)"
  shows "sk_revoked p' = sk_revoked p" "sk_sealing_key p' = sk_sealing_key p"
    "\<And>q. q \<noteq> path \<Longrightarrow> q \<noteq> temporary_of path \<Longrightarrow> sk_files p' q = sk_files p q"
    "r = Inr u \<Longrightarrow> sk_files p' path = Some bytes"
  using assms atomic_write_elsewhere atomic_write_done
  by (auto simp: sealed_write_def split: prod.splits)

lemma sealed_path_Inr: "sealed_path k = Inr path \<Longrightarrow> path = file_stem k @ ''.sealed''"
  by (auto simp: sealed_path_def result_simps dest: key_file_stem_Inr)

lemma revoked_marker_Inr: "revoked_marker k = Inr path \<Longrightarrow> path = file_stem k @ ''.revoked''"
  by (auto simp: revoked_marker_def result_simps dest: key_file_stem_Inr)

text \<open>Markers are neither written nor removed by a write to a key file.\<close>

lemma is_revoked_same:
  assumes "sk_revoked p' = sk_revoked p" "\<And>x. sk_files p' (x @ ''.revoked'') = sk_files p (x @ ''.revoked'')"
  shows "is_revoked p' k = is_revoked p k"
proof (cases "revoked_marker k")
  case (Inr marker)
  then show ?thesis using assms Inr revoked_marker_Inr [OF Inr] by (simp add: is_revoked_def)
qed (simp add: is_revoked_def assms(1))

lemma key_write_keeps_markers:
  assumes "sealed_write w (x @ ''.sealed'') bytes failure p = (p', r)"
  shows "is_revoked p' k = is_revoked p k"
  by (rule is_revoked_same)
    (use sealed_write_fields [OF assms] extension_differs in \<open>auto simp: eq_commute [of "_ @ ''.revoked''"]\<close>)

lemma read_key_same:
  assumes "sk_sealing_key p' = sk_sealing_key p"
    and "sk_files p' (file_stem k @ ''.sealed'') = sk_files p (file_stem k @ ''.sealed'')"
    and "sk_files p' (k @ ''.sealed'') = sk_files p (k @ ''.sealed'')"
  shows "read_key a p' k = read_key a p k"
proof (cases "sealed_path k")
  case (Inr path)
  then have "path = file_stem k @ ''.sealed''" by (rule sealed_path_Inr)
  then show ?thesis using assms Inr by (simp add: read_key_def existing_path_def legacy_path_def)
qed (simp add: read_key_def existing_path_def)

lemma generate_writes:
  assumes "sealed_generate c a w p = (p', r)" "p' \<noteq> p \<or> r = Inr d"
  obtains bytes r' where "seal_key a (sk_sealing_key p) (sw_nonce w) (sw_seed w) = Inr bytes"
    "sealed_write w (file_stem (fingerprint_for_raw c (tc_public c (sw_seed w))) @ ''.sealed'') bytes
       ''TRUST_SEALED_STORAGE_WRITE_FAILED'' p = (p', r')"
    "r = res_bind r' (\<lambda>_. Inr (key_descriptor_of c (fingerprint_for_raw c (tc_public c (sw_seed w))) (sw_seed w) Active))"
  using assms
  by (auto simp: sealed_generate_def Let_def sealed_path_def fingerprint_stem split: sum.splits prod.splits)

lemma sealed_generate_keeps_key:
  assumes g: "sealed_generate c a w p = (p', r)" and k: "plain_key_id k"
    and other: "\<And>e. r = Inr e \<Longrightarrow> kd_key_id e \<noteq> k"
  shows "sealed_load c a p' k = sealed_load c a p k"
proof (cases "p' = p")
  case False
  let ?id = "fingerprint_for_raw c (tc_public c (sw_seed w))"
  obtain bytes r' where w: "sealed_write w (file_stem ?id @ ''.sealed'') bytes
       ''TRUST_SEALED_STORAGE_WRITE_FAILED'' p = (p', r')"
    and r: "r = res_bind r' (\<lambda>_. Inr (key_descriptor_of c ?id (sw_seed w) Active))"
    by (rule generate_writes [OF g]) (use False in auto)
  note f = sealed_write_fields [OF w]
  have tmp: "x @ ''.sealed'' \<noteq> file_stem ?id @ ''.tmp''" for x
    using extension_differs(2) by (metis)
  have "k @ ''.sealed'' \<noteq> file_stem ?id @ ''.sealed''"
    using k fingerprint_stem_underscore [of c "tc_public c (sw_seed w)"] by (auto simp: plain_key_id_def)
  then have legacy: "sk_files p' (k @ ''.sealed'') = sk_files p (k @ ''.sealed'')" using f(3) tmp by simp
  have "sk_files p' (file_stem k @ ''.sealed'') = sk_files p (file_stem k @ ''.sealed'')"
  proof (cases "k = ?id")
    case True
    then obtain e where "r' = Inl e" using other r by (cases r') auto
    with w show ?thesis using tmp True
      by (cases "sw_fault w") (auto simp: sealed_write_def)
  next
    case False
    then have "file_stem k \<noteq> file_stem ?id" using file_stem_plain k fingerprint_plain by blast
    then show ?thesis using f(3) tmp by simp
  qed
  then show ?thesis
    using read_key_same [of p' p k a] legacy f(2) key_write_keeps_markers [OF w] by (simp add: sealed_load_def)
qed simp

lemma sealed_generated_loads:
  assumes g: "sealed_generate c a w p = (p', Inr d)" and ok: "sealed_world_ok a w"
  shows "plain_key_id (kd_key_id d)
    \<and> (\<exists>d'. sealed_load c a p' (kd_key_id d) = Inr d' \<and> kd_public_key d' = kd_public_key d)"
proof -
  let ?id = "fingerprint_for_raw c (tc_public c (sw_seed w))"
  obtain bytes r' where b: "seal_key a (sk_sealing_key p) (sw_nonce w) (sw_seed w) = Inr bytes"
    and w: "sealed_write w (file_stem ?id @ ''.sealed'') bytes ''TRUST_SEALED_STORAGE_WRITE_FAILED'' p = (p', r')"
    and r: "Inr d = res_bind r' (\<lambda>_. Inr (key_descriptor_of c ?id (sw_seed w) Active))"
    by (rule generate_writes [OF g, of d]) auto
  have d: "d = key_descriptor_of c ?id (sw_seed w) Active" and wd: "r' = Inr ()" using r by (cases r'; simp)+
  have stored: "sk_files p' (file_stem ?id @ ''.sealed'') = Some bytes"
    using sealed_write_fields(4) [OF w wd] .
  obtain x where x: "ae_seal a (sk_sealing_key p) (sw_nonce w) (sw_seed w) = Some x" "length x = 48"
    "ae_open a (sk_sealing_key p) (sw_nonce w) x = Some (sw_seed w)"
    using ok by (fastforce simp: sealed_world_ok_def aead_ok_def)
  have "bytes = sealed_prefix @ sw_nonce w @ x" using b x(1) by (simp add: seal_key_def)
  then have "unseal_key a (sk_sealing_key p') bytes = Inr (sw_seed w)"
    using x ok sealed_write_fields(2) [OF w] by (simp add: unseal_key_def sealed_world_ok_def)
  then have "read_key a p' ?id = Inr (sw_seed w)"
    using stored by (simp add: read_key_def existing_path_def sealed_path_def fingerprint_stem)
  moreover obtain b where "is_revoked p' ?id = Inr b"
    by (cases "?id \<in> sk_revoked p'") (simp_all add: is_revoked_def revoked_marker_def fingerprint_stem)
  ultimately show ?thesis by (simp add: d sealed_load_def fingerprint_plain)
qed

text \<open>Markers, once written, stay.\<close>

lemma sealed_revoked_mono:
  assumes "\<And>x. sk_files p (x @ ''.revoked'') \<noteq> None \<Longrightarrow> sk_files p' (x @ ''.revoked'') \<noteq> None"
    and "sealed_revoked p k"
  shows "sealed_revoked p' k"
proof -
  obtain marker where m: "revoked_marker k = Inr marker" "sk_files p marker \<noteq> None"
    using assms(2) by (auto simp: sealed_revoked_def)
  then show ?thesis using assms(1) [of "file_stem k"] revoked_marker_Inr [OF m(1)]
    by (auto simp: sealed_revoked_def)
qed

lemma write_keeps_markers:
  assumes "sealed_write w (x @ ext) bytes failure p = (p', r)" "ext = ''.sealed'' \<or> ext = ''.revoked''"
    and "sk_files p (y @ ''.revoked'') \<noteq> None"
  shows "sk_files p' (y @ ''.revoked'') \<noteq> None"
proof -
  have t: "y @ ''.revoked'' \<noteq> x @ ''.tmp''" "y @ ''.revoked'' \<noteq> x @ ''.sealed''"
    using extension_differs by metis+
  have "temporary_of (x @ ext) = x @ ''.tmp''" using assms(2) by (elim disjE) (simp_all only: temporary_of_ext)
  then show ?thesis using assms t
    by (cases "sw_fault w"; cases "y @ ''.revoked'' = x @ ext") (auto simp: sealed_write_def)
qed

lemma sealed_revoke_writes:
  assumes "sealed_revoke a w k p = (p', r)" "p' \<noteq> p \<or> r = Inr u"
  obtains p1 r1 where "revoked_marker k = Inr (file_stem k @ ''.revoked'')"
    "sealed_write w (file_stem k @ ''.revoked'') (''revoked'' @ [CHR 0x0A]) ''TRUST_REVOCATION_WRITE_FAILED'' p = (p1, r1)"
    "sk_files p' = sk_files p1" "r = r1"
proof (cases "res_bind (read_key a p k) (\<lambda>_. revoked_marker k)")
  case (Inl e)
  with assms show ?thesis by (simp add: sealed_revoke_def)
next
  case (Inr marker)
  then have m: "revoked_marker k = Inr (file_stem k @ ''.revoked'')" "marker = file_stem k @ ''.revoked''"
    using revoked_marker_Inr by (auto simp: result_simps)
  obtain p1 r1 where w: "sealed_write w marker (''revoked'' @ [CHR 0x0A]) ''TRUST_REVOCATION_WRITE_FAILED'' p = (p1, r1)"
    by force
  show ?thesis
    by (rule that [OF m(1) w [unfolded m(2)]])
      (use assms(1) Inr w in \<open>auto simp: sealed_revoke_def split: sum.splits\<close>)
qed

lemma destroy_keeps_markers:
  assumes "sealed_destroy_reference w k p = (p', r)" "sk_files p (y @ ''.revoked'') \<noteq> None"
  shows "sk_files p' (y @ ''.revoked'') \<noteq> None"
proof (cases "existing_path p k")
  case (Inr path)
  then obtain x where "path = x @ ''.sealed''"
    by (auto simp: existing_path_def result_simps legacy_path_def dest!: sealed_path_Inr split: if_splits)
  then have "((sk_files p)(path := None)) (y @ ''.revoked'') \<noteq> None"
    using assms(2) extension_differs(1) [of x y] by auto
  then show ?thesis using assms Inr
    by (cases "sw_fault w") (auto simp: sealed_destroy_reference_def Let_def split: if_splits option.splits sum.splits)
qed (use assms in \<open>simp add: sealed_destroy_reference_def\<close>)

lemmas sealed_ops = sealed_key_provider_def

interpretation sealed: key_provider_contract c "sealed_key_provider c a" sealed_revoked plain_key_id
  "sealed_world_ok a" sealed_reopen for c a
proof (unfold_locales, goal_cases)
  case (1 p k d)
  then show ?case by (auto simp: sealed_ops sealed_load_def result_simps)
next
  case (2 p k m s)
  then obtain key where "is_revoked p k = Inr False" "read_key a p k = Inr key"
    by (auto simp: sealed_ops sealed_sign_def result_simps split: if_splits)
  then show ?case by (simp add: sealed_ops sealed_load_def)
next
  case (3 p k m s d)
  then show ?case
    by (auto simp: sealed_ops sealed_load_def sealed_sign_def result_simps verify_own_signature split: if_splits)
next
  case (4 p k d m)
  then obtain key gone where "is_revoked p k = Inr gone" "read_key a p k = Inr key"
      "d = key_descriptor_of c k key (if gone then Revoked else Active)"
    by (auto simp: sealed_ops sealed_load_def result_simps)
  then show ?case using 4(2) by (cases gone) (simp_all add: sealed_ops sealed_sign_def)
next
  case (5 w p p' d)
  then show ?case using sealed_generated_loads by (simp add: sealed_ops)
next
  case (6 w p p' r k d')
  then show ?case using sealed_generate_keeps_key [of c a w p p' r k] by (simp add: sealed_ops)
next
  case (7 w k p p')
  have "sealed_revoke a w k p = (p', Inr ())" using 7 by (simp add: sealed_ops)
  then show ?case
    by (rule sealed_revoke_writes) (auto simp: sealed_revoked_def dest: sealed_write_fields(4))
next
  case (8 p k m)
  then have "is_revoked p k = Inr True" by (auto simp: sealed_revoked_def is_revoked_def)
  then show ?case by (simp add: sealed_ops sealed_sign_def)
next
  case (9 p k w)
  obtain p' r where g: "sealed_generate c a w p = (p', r)" by force
  have "sealed_revoked p' k"
  proof (cases "p' = p")
    case False
    obtain bytes r' where w: "sealed_write w (file_stem (fingerprint_for_raw c (tc_public c (sw_seed w))) @ ''.sealed'')
        bytes ''TRUST_SEALED_STORAGE_WRITE_FAILED'' p = (p', r')"
      by (rule generate_writes [OF g]) (use False in auto)
    show ?thesis by (rule sealed_revoked_mono [OF write_keeps_markers [OF w] 9]) simp_all
  qed (use 9 in simp)
  then show ?case using g by (simp add: sealed_ops)
next
  case (10 p k w j)
  obtain p' r where g: "sealed_revoke a w j p = (p', r)" by force
  have "sealed_revoked p' k"
  proof (cases "p' = p")
    case False
    obtain p1 r1 where w: "sealed_write w (file_stem j @ ''.revoked'') (''revoked'' @ [CHR 0x0A])
        ''TRUST_REVOCATION_WRITE_FAILED'' p = (p1, r1)" and f: "sk_files p' = sk_files p1"
      by (rule sealed_revoke_writes [OF g]) (use False in auto)
    have "sealed_revoked p1 k" by (rule sealed_revoked_mono [OF write_keeps_markers [OF w] 10]) simp_all
    then show ?thesis using f by (simp add: sealed_revoked_def)
  qed (use 10 in simp)
  then show ?case using g by (simp add: sealed_ops)
next
  case (11 p k w j)
  obtain p' r where g: "sealed_destroy_reference w j p = (p', r)" by force
  show ?case using sealed_revoked_mono [OF _ 11] destroy_keeps_markers [OF g] g by (auto simp: sealed_ops)
next
  case (12 p k)
  then show ?case by (auto simp: sealed_revoked_def sealed_reopen_def)
qed

section \<open>Properties\<close>

text \<open>
  C23. A revoked key never signs again: once the sealed provider has revoked a key, no sequence of
  further calls (generating, revoking or destroying keys, with any of their writes failing
  half-way, and restarts of the service) brings it to sign with that key.
\<close>

theorem revoked_key_never_signs:
  assumes "sealed_revoke a w k p = (p', Inr ())"
  shows "\<exists>e. sealed_sign c a
    (foldl (\<lambda>p x. key_call_state (sealed_key_provider c a) sealed_reopen x p) p' calls) k m = Inl e"
  using sealed.never_signs_again [of c a w k p p' calls m] assms by (simp add: sealed_ops)

text \<open>A sealing that only appends a tag of 16 bytes, for the examples.\<close>

definition example_aead :: aead where
  "example_aead = \<lparr> ae_seal = (\<lambda>k n m. Some (m @ replicate 16 CHR 0x00)),
     ae_open = (\<lambda>k n x. Some (take (length x - 16) x)) \<rparr>"

definition example_sealed_keys :: sealed_keys where
  "example_sealed_keys = \<lparr> sk_files = [''k.sealed'' \<mapsto> sealed_prefix @ replicate 12 CHR ''n''
     @ replicate 32 CHR ''s'' @ replicate 16 CHR 0x00], sk_sealing_key = ''secret'', sk_revoked = {} \<rparr>"

definition example_seal_world :: seal_world where
  "example_seal_world = \<lparr> sw_seed = replicate 32 CHR ''t'', sw_nonce = replicate 12 CHR ''n'',
     sw_fault = NoFault, sw_remove_error = None \<rparr>"

lemma example_revoke:
  "snd (sealed_revoke example_aead example_seal_world ''k'' example_sealed_keys) = Inr ()"
  by code_simp

theorem revoked_key_never_signs_witness:
  "\<exists>e. sealed_sign example_crypto example_aead (foldl (\<lambda>p x. key_call_state (sealed_key_provider example_crypto example_aead) sealed_reopen x p)
     (fst (sealed_revoke example_aead example_seal_world ''k'' example_sealed_keys))
     [CallReopen, CallDestroy example_seal_world ''k'', CallGenerate example_seal_world]) ''k'' ''m'' = Inl e"
proof -
  have "sealed_revoke example_aead example_seal_world ''k'' example_sealed_keys
    = (fst (sealed_revoke example_aead example_seal_world ''k'' example_sealed_keys), Inr ())"
    using example_revoke by (metis prod.collapse)
  then show ?thesis by (rule revoked_key_never_signs)
qed

end
