(* ===== verification/Authority_Service.thy ===== *)
theory Authority_Service
  imports Trust_Verification Key_Provider
begin

text \<open>
  The authority service: \<open>AuthorityService<P: KeyProvider>\<close> of
  \<^verbatim>\<open>actium-node-core/src/trust_fabric.rs\<close>, over any key provider of \<open>Key_Provider\<close>.

  Its maps are lists sorted by key, and the audit log, which the code keeps behind a \<open>RefCell\<close>, is
  part of the state that the operations return. The walk along the issuers, which has no set of
  visited identities here, is a partial function: \<open>None\<close> is a walk that does not end.
\<close>

section \<open>State\<close>

record audit_event =
  av_action :: string
  av_authority_id :: "string option"
  av_key_id :: "string option"
  av_payload_digest :: "string option"
  av_result :: string
  av_reason :: "string option"
  av_created_at :: u64

record idempotency_record =
  ir_request_digest :: string
  ir_response :: json

record 'p authority_service =
  au_provider :: 'p
  au_authorities :: "authority_descriptor list"
  au_revocations :: "trust_revocation list"
  au_root_transitions :: "root_transition list"
  au_center_transitions :: "center_transition list"
  au_audit_events :: "audit_event list"
  au_idempotency_results :: "(string \<times> idempotency_record) list"
  au_trust_root_set :: string
  au_trust_epoch :: u64
  au_public_only_key_ids :: "string list"

record durable_authority_state =
  ds_schema :: u8
  ds_trust_root_set :: string
  ds_trust_epoch :: u64
  ds_authorities :: "authority_descriptor list"
  ds_revocations :: "trust_revocation list"
  ds_root_transitions :: "root_transition list"
  ds_center_transitions :: "center_transition list"
  ds_audit_events :: "audit_event list"
  ds_idempotency_results :: "(string \<times> idempotency_record) list"
  ds_public_only_key_ids :: "string list"

definition authority_service_new :: "'p \<Rightarrow> string \<Rightarrow> 'p authority_service" where
  "authority_service_new p root_set = \<lparr> au_provider = p, au_authorities = [], au_revocations = [],
     au_root_transitions = [], au_center_transitions = [], au_audit_events = [], au_idempotency_results = [],
     au_trust_root_set = root_set, au_trust_epoch = 1, au_public_only_key_ids = [] \<rparr>"

definition durable_state :: "'p authority_service \<Rightarrow> durable_authority_state" where
  "durable_state s = \<lparr> ds_schema = 1, ds_trust_root_set = au_trust_root_set s, ds_trust_epoch = au_trust_epoch s,
     ds_authorities = au_authorities s, ds_revocations = au_revocations s,
     ds_root_transitions = au_root_transitions s, ds_center_transitions = au_center_transitions s,
     ds_audit_events = au_audit_events s, ds_idempotency_results = au_idempotency_results s,
     ds_public_only_key_ids = au_public_only_key_ids s \<rparr>"

text \<open>\<open>BTreeMap::insert\<close> of an authority under its own identity, and \<open>get_mut\<close>.\<close>

definition put_authority :: "authority_descriptor \<Rightarrow> authority_descriptor list \<Rightarrow> authority_descriptor list" where
  "put_authority a m = insort_key ad_authority_id a (filter (\<lambda>b. ad_authority_id b \<noteq> ad_authority_id a) m)"

definition change_authority ::
  "string \<Rightarrow> (authority_descriptor \<Rightarrow> authority_descriptor) \<Rightarrow> authority_descriptor list \<Rightarrow> authority_descriptor list" where
  "change_authority i f m = map (\<lambda>a. if ad_authority_id a = i then f a else a) m"

definition audit ::
  "string \<Rightarrow> string option \<Rightarrow> string option \<Rightarrow> string option \<Rightarrow> string option \<Rightarrow> u64
    \<Rightarrow> 'p authority_service \<Rightarrow> 'p authority_service" where
  "audit action authority key digest reason now s = s\<lparr>au_audit_events := au_audit_events s @
     [\<lparr> av_action = action, av_authority_id = authority, av_key_id = key, av_payload_digest = digest,
        av_result = ''success'', av_reason = reason, av_created_at = now \<rparr>]\<rparr>"

section \<open>Chains inside the service\<close>

definition assert_active :: "trust_revocation list \<Rightarrow> authority_descriptor \<Rightarrow> u64 \<Rightarrow> string + unit" where
  "assert_active revs a now = fail_if (\<not> (ad_status a = Active \<or> ad_status a = Rotating) \<or> ad_valid_from a > now
     \<or> is_some_and (ad_valid_until a) (\<lambda>v. now > v) \<or> revoked_key revs (ad_key_id a)) ''TRUST_ISSUER_REJECTED''"

partial_function (option) verify_chain ::
  "trust_crypto \<Rightarrow> authority_descriptor list \<Rightarrow> trust_revocation list \<Rightarrow> u64 \<Rightarrow> authority_descriptor
    \<Rightarrow> (string + unit) option" where
  "verify_chain c auths revs now a =
     (case assert_active revs a now of
        Inl e \<Rightarrow> Some (Inl e)
      | Inr _ \<Rightarrow> (case ad_certificate a of
          None \<Rightarrow> Some (Inr ())
        | Some ce \<Rightarrow> (case find_authority auths (ce_issuer_authority_id ce) of
            None \<Rightarrow> Some (Inl ''TRUST_ISSUER_NOT_FOUND'')
          | Some issuer \<Rightarrow> (case res_bind (assert_active revs issuer now) (\<lambda>_. verify_certificate c issuer ce) of
              Inl e \<Rightarrow> Some (Inl e)
            | Inr _ \<Rightarrow> verify_chain c auths revs now issuer))))"

text \<open>A check that may not return, before the rest of a function.\<close>

definition run_bind :: "('e + 'a) option \<Rightarrow> ('a \<Rightarrow> ('e + 'b) option) \<Rightarrow> ('e + 'b) option" where
  "run_bind r f = (case r of None \<Rightarrow> None | Some (Inl e) \<Rightarrow> Some (Inl e) | Some (Inr x) \<Rightarrow> f x)"

definition service_chain :: "trust_crypto \<Rightarrow> 'p authority_service \<Rightarrow> u64 \<Rightarrow> authority_descriptor \<Rightarrow> (string + unit) option" where
  "service_chain c s now a = verify_chain c (au_authorities s) (au_revocations s) now a"

section \<open>Creating authorities\<close>

definition advance_trust_epoch :: "u64 \<Rightarrow> 'p authority_service \<Rightarrow> 'p authority_service \<times> (string + unit)" where
  "advance_trust_epoch next s =
     (if next \<le> au_trust_epoch s then (s, Inl ''TRUST_EPOCH_NOT_MONOTONIC'')
      else (s\<lparr>au_trust_epoch := next\<rparr>, Inr ()))"

definition root_descriptor :: "string \<Rightarrow> key_descriptor \<Rightarrow> u64 \<Rightarrow> authority_descriptor" where
  "root_descriptor i key now = \<lparr> ad_authority_id = i, ad_kind = ProductTrustRoot, ad_key_id = kd_key_id key,
     ad_public_key = kd_public_key key, ad_fingerprint = kd_fingerprint key, ad_algorithm = trust_fabric_algorithm,
     ad_status = Active, ad_valid_from = now, ad_valid_until = None, ad_issuer_authority_id = None,
     ad_issuer_key_id = None, ad_serial = ''root-'' @ show_word now, ad_version = 1,
     ad_capabilities = [authority_capability ProductTrustRoot, ''authority:issue-release''],
     ad_certificate = None, ad_created_at = now, ad_revoked_at = None, ad_revocation_reason = None \<rparr>"

definition initialize_root ::
  "('w, 'p) key_provider \<Rightarrow> 'w \<Rightarrow> string \<Rightarrow> u64 \<Rightarrow> 'p authority_service
    \<Rightarrow> 'p authority_service \<times> (string + product_trust_root)" where
  "initialize_root ops w authority_id now s =
     (if list_ex (\<lambda>a. ad_kind a = ProductTrustRoot \<and> ad_status a \<noteq> Revoked) (au_authorities s)
      then (s, Inl ''TRUST_ALREADY_INITIALIZED'')
      else case kp_generate ops w (au_provider s) of
        (p, Inl e) \<Rightarrow> (s\<lparr>au_provider := p\<rparr>, Inl e)
      | (p, Inr key) \<Rightarrow>
          let a = root_descriptor authority_id key now in
          (audit ''AUTHORITY_CREATED'' (Some (ad_authority_id a)) (Some (ad_key_id a)) None None now
             (s\<lparr>au_provider := p, au_authorities := put_authority a (au_authorities s)\<rparr>),
           Inr \<lparr> pt_authority = a, pt_trust_root_set = au_trust_root_set s, pt_root_version = 1,
             pt_activation_epoch = au_trust_epoch s, pt_retirement_epoch = None \<rparr>))"

definition certificate_body ::
  "authority_descriptor \<Rightarrow> key_descriptor \<Rightarrow> string \<Rightarrow> authority_kind \<Rightarrow> string list \<Rightarrow> u32 \<Rightarrow> u64 \<Rightarrow> u64 option
    \<Rightarrow> authority_certificate" where
  "certificate_body parent key i kind caps version now valid_until = \<lparr> ce_schema = 1, ce_authority_id = i,
     ce_kind = kind, ce_key_id = kd_key_id key, ce_public_key = kd_public_key key,
     ce_fingerprint = kd_fingerprint key, ce_issuer_authority_id = ad_authority_id parent,
     ce_issuer_key_id = ad_key_id parent, ce_serial = i @ ''-'' @ show_word version @ ''-'' @ show_word now,
     ce_version = version, ce_capabilities = caps, ce_valid_from = now, ce_valid_until = valid_until,
     ce_signature = [] \<rparr>"

definition subordinate_descriptor ::
  "authority_descriptor \<Rightarrow> key_descriptor \<Rightarrow> authority_certificate \<Rightarrow> authority_descriptor" where
  "subordinate_descriptor parent key ce = \<lparr> ad_authority_id = ce_authority_id ce, ad_kind = ce_kind ce,
     ad_key_id = kd_key_id key, ad_public_key = kd_public_key key, ad_fingerprint = kd_fingerprint key,
     ad_algorithm = trust_fabric_algorithm, ad_status = Active, ad_valid_from = ce_valid_from ce,
     ad_valid_until = ce_valid_until ce, ad_issuer_authority_id = Some (ad_authority_id parent),
     ad_issuer_key_id = Some (ad_key_id parent), ad_serial = ce_serial ce, ad_version = ce_version ce,
     ad_capabilities = ce_capabilities ce, ad_certificate = Some ce, ad_created_at = ce_valid_from ce,
     ad_revoked_at = None, ad_revocation_reason = None \<rparr>"

text \<open>The checks before a key is generated.\<close>

definition may_subordinate ::
  "'p authority_service \<Rightarrow> string \<Rightarrow> authority_kind \<Rightarrow> string list \<Rightarrow> u32 \<Rightarrow> u64 \<Rightarrow> string + authority_descriptor" where
  "may_subordinate s parent_id kind caps version now =
     res_bind (ok_or (find_authority (au_authorities s) parent_id) ''TRUST_ISSUER_NOT_FOUND'') (\<lambda>parent.
     res_bind (assert_active (au_revocations s) parent now) (\<lambda>_.
     res_bind (ok_or (required_capability kind) ''TRUST_SUBORDINATION_KIND_INVALID'') (\<lambda>required.
     if \<not> has_capability parent required then Inl ''TRUST_ISSUER_CAPABILITY_REJECTED''
     else if caps = [] \<or> version = 0 then Inl ''TRUST_CAPABILITIES_EMPTY''
     else Inr parent)))"

definition issue_subordinate_versioned ::
  "trust_crypto \<Rightarrow> ('w, 'p) key_provider \<Rightarrow> 'w \<Rightarrow> string \<Rightarrow> string \<Rightarrow> authority_kind \<Rightarrow> string list \<Rightarrow> u32 \<Rightarrow> u64
    \<Rightarrow> u64 option \<Rightarrow> 'p authority_service \<Rightarrow> 'p authority_service \<times> (string + authority_descriptor)" where
  "issue_subordinate_versioned c ops w parent_id authority_id kind caps version now valid_until s =
     (case may_subordinate s parent_id kind caps version now of
        Inl e \<Rightarrow> (s, Inl e)
      | Inr parent \<Rightarrow> (case kp_generate ops w (au_provider s) of
          (p, Inl e) \<Rightarrow> (s\<lparr>au_provider := p\<rparr>, Inl e)
        | (p, Inr key) \<Rightarrow>
            if find_authority (au_authorities s) authority_id \<noteq> None
            then (s\<lparr>au_provider := p\<rparr>, Inl ''TRUST_AUTHORITY_EXISTS'')
            else let body = certificate_body parent key authority_id kind caps version now valid_until in
              (case kp_sign ops p (ad_key_id parent) (certificate_payload c body) of
                 Inl e \<Rightarrow> (s\<lparr>au_provider := p\<rparr>, Inl e)
               | Inr signature \<Rightarrow>
                   let a = subordinate_descriptor parent key (body\<lparr>ce_signature := tc_b64_encode c signature\<rparr>) in
                   (audit ''AUTHORITY_CREATED'' (Some (ad_authority_id a)) (Some (ad_key_id a)) None None now
                      (s\<lparr>au_provider := p, au_authorities := put_authority a (au_authorities s)\<rparr>), Inr a))))"

definition issue_subordinate ::
  "trust_crypto \<Rightarrow> ('w, 'p) key_provider \<Rightarrow> 'w \<Rightarrow> string \<Rightarrow> string \<Rightarrow> authority_kind \<Rightarrow> string list \<Rightarrow> u64
    \<Rightarrow> u64 option \<Rightarrow> 'p authority_service \<Rightarrow> 'p authority_service \<times> (string + authority_descriptor)" where
  "issue_subordinate c ops w parent_id authority_id kind caps now valid_until s =
     issue_subordinate_versioned c ops w parent_id authority_id kind caps 1 now valid_until s"

section \<open>Revocation and rotation\<close>

definition revoke_authority ::
  "('w, 'p) key_provider \<Rightarrow> 'w \<Rightarrow> string \<Rightarrow> u64 \<Rightarrow> string \<Rightarrow> 'p authority_service
    \<Rightarrow> 'p authority_service \<times> (string + trust_revocation)" where
  "revoke_authority ops w authority_id now reason s =
     (case find_authority (au_authorities s) authority_id of
        None \<Rightarrow> (s, Inl ''TRUST_AUTHORITY_NOT_FOUND'')
      | Some a \<Rightarrow>
          let auths = change_authority authority_id
                (\<lambda>a. a\<lparr>ad_status := Revoked, ad_revoked_at := Some now, ad_revocation_reason := Some reason\<rparr>)
                (au_authorities s) in
          (case kp_revoke ops w (ad_key_id a) (au_provider s) of
             (p, Inl e) \<Rightarrow> (s\<lparr>au_provider := p, au_authorities := auths\<rparr>, Inl e)
           | (p, Inr _) \<Rightarrow>
               let r = \<lparr> rv_authority_id = ad_authority_id a, rv_key_id = ad_key_id a, rv_revoked_at = now,
                     rv_reason = reason, rv_revocation_epoch = au_trust_epoch s \<rparr> in
               (audit ''AUTHORITY_REVOKED'' (Some (rv_authority_id r)) (Some (rv_key_id r)) None (Some reason) now
                  (s\<lparr>au_provider := p, au_authorities := auths, au_revocations := au_revocations s @ [r]\<rparr>), Inr r)))"

definition rotated_body :: "authority_descriptor \<Rightarrow> key_descriptor \<Rightarrow> string \<Rightarrow> u64 \<Rightarrow> authority_certificate" where
  "rotated_body old key next_id now = \<lparr> ce_schema = 1, ce_authority_id = next_id, ce_kind = ad_kind old,
     ce_key_id = kd_key_id key, ce_public_key = kd_public_key key, ce_fingerprint = kd_fingerprint key,
     ce_issuer_authority_id = unwrap_or (ad_issuer_authority_id old) (ad_authority_id old),
     ce_issuer_key_id = unwrap_or (ad_issuer_key_id old) (ad_key_id old),
     ce_serial = next_id @ ''-'' @ show_word now, ce_version = ad_version old + 1,
     ce_capabilities = ad_capabilities old, ce_valid_from = now, ce_valid_until = ad_valid_until old,
     ce_signature = [] \<rparr>"

definition rotate_authority ::
  "trust_crypto \<Rightarrow> ('w, 'p) key_provider \<Rightarrow> 'w \<Rightarrow> string \<Rightarrow> u64 \<Rightarrow> 'p authority_service
    \<Rightarrow> 'p authority_service \<times> (string + authority_descriptor)" where
  "rotate_authority c ops w authority_id now s =
     (case find_authority (au_authorities s) authority_id of
        None \<Rightarrow> (s, Inl ''TRUST_AUTHORITY_NOT_FOUND'')
      | Some old \<Rightarrow>
          if ad_status old = Revoked then (s, Inl ''TRUST_ROTATION_SOURCE_REVOKED'')
          else let s1 = s\<lparr>au_authorities := change_authority authority_id (\<lambda>a. a\<lparr>ad_status := Rotating\<rparr>) (au_authorities s)\<rparr> in
            (case kp_generate ops w (au_provider s1) of
               (p, Inl e) \<Rightarrow> (s1\<lparr>au_provider := p\<rparr>, Inl e)
             | (p, Inr key) \<Rightarrow>
                 let next_id = authority_id @ ''-v'' @ show_word (ad_version old + 1);
                     body = rotated_body old key next_id now in
                 (case kp_sign ops p (ad_key_id old) (certificate_payload c body) of
                    Inl e \<Rightarrow> (s1\<lparr>au_provider := p\<rparr>, Inl e)
                  | Inr signature \<Rightarrow>
                      let a = subordinate_descriptor old key (body\<lparr>ce_signature := tc_b64_encode c signature\<rparr>) in
                      (audit ''AUTHORITY_ROTATED'' (Some (ad_authority_id a)) (Some (ad_key_id a)) None None now
                         (s1\<lparr>au_provider := p, au_authorities := put_authority a (au_authorities s1)\<rparr>), Inr a))))"

definition issue_root_transition ::
  "trust_crypto \<Rightarrow> ('w, 'p) key_provider \<Rightarrow> string \<Rightarrow> string \<Rightarrow> u64 \<Rightarrow> u64 \<Rightarrow> 'p authority_service
    \<Rightarrow> 'p authority_service \<times> (string + root_transition)" where
  "issue_root_transition c ops old_root_id new_root_id activation_epoch now s =
     (case res_bind (ok_or (find_authority (au_authorities s) old_root_id) ''TRUST_ROOT_NOT_FOUND'') (\<lambda>old.
        res_bind (ok_or (find_authority (au_authorities s) new_root_id) ''TRUST_ROOT_NOT_FOUND'') (\<lambda>new.
        if ad_kind old \<noteq> ProductTrustRoot \<or> ad_kind new \<noteq> ProductTrustRoot then Inl ''TRUST_ROOT_KIND_INVALID''
        else let payload = root_transition_payload c (au_trust_root_set s) (ad_key_id old) (ad_key_id new) activation_epoch now in
          res_bind (kp_sign ops (au_provider s) (ad_key_id old) payload) (\<lambda>old_sig.
          res_bind (kp_sign ops (au_provider s) (ad_key_id new) payload) (\<lambda>new_sig.
          Inr \<lparr> rt_schema = 1, rt_trust_root_set = au_trust_root_set s, rt_from_root_key_id = ad_key_id old,
            rt_to_root_key_id = ad_key_id new, rt_activation_epoch = activation_epoch, rt_issued_at = now,
            rt_old_root_signature = tc_b64_encode c old_sig, rt_new_root_signature = tc_b64_encode c new_sig \<rparr>)))) of
        Inl e \<Rightarrow> (s, Inl e)
      | Inr t \<Rightarrow>
          (audit ''AUTHORITY_ROTATED'' (Some old_root_id) (Some (rt_to_root_key_id t)) None
             (Some ''dual_root_transition'') now
             (s\<lparr>au_root_transitions := au_root_transitions s @ [t]\<rparr>), Inr t))"

section \<open>Signing\<close>

record readiness =
  rd_capability :: string
  rd_authority_id :: string
  rd_key_id :: string
  rd_fingerprint :: string
  rd_status :: string

text \<open>\<open>max_by_key\<close> on version and identity.\<close>

definition later_authority :: "authority_descriptor option \<Rightarrow> authority_descriptor \<Rightarrow> authority_descriptor option" where
  "later_authority best a = (case best of
     None \<Rightarrow> Some a
   | Some b \<Rightarrow> if (ad_version b, ad_authority_id b) \<le> (ad_version a, ad_authority_id a) then Some a else Some b)"

definition capability_signer :: "'p authority_service \<Rightarrow> string \<Rightarrow> u64 \<Rightarrow> authority_descriptor option" where
  "capability_signer s capability now = foldl later_authority None
     (filter (\<lambda>a. ad_status a = Active \<and> has_capability a capability \<and> ad_valid_from a \<le> now
        \<and> is_none_or (ad_valid_until a) (\<lambda>v. now \<le> v)) (au_authorities s))"

definition self_test_payload :: "trust_crypto \<Rightarrow> string \<Rightarrow> u64 \<Rightarrow> string" where
  "self_test_payload c capability now = signed_payload c ''actium-authority-self-test-v1'' (JObject
     [(''schema'', JNumber (PosInt 1)), (''purpose'', JString ''ACTIUM_AUTHORITY_SELF_TEST''),
      (''capability'', JString capability), (''issuedAt'', json_nat_word now)])"

definition check_readiness ::
  "trust_crypto \<Rightarrow> ('w, 'p) key_provider \<Rightarrow> string \<Rightarrow> u64 \<Rightarrow> 'p authority_service
    \<Rightarrow> (string + authority_descriptor) option" where
  "check_readiness c ops capability now s =
     (case capability_signer s capability now of
        None \<Rightarrow> Some (Inl ''HOST_ENROLLMENT_AUTHORITY_UNAVAILABLE'')
      | Some signer \<Rightarrow> run_bind (service_chain c s now signer) (\<lambda>_. Some (
          let payload = self_test_payload c capability now in
          map_err (\<lambda>_. ''HOST_ENROLLMENT_AUTHORITY_UNAVAILABLE'')
            (res_bind (kp_sign ops (au_provider s) (ad_key_id signer) payload) (\<lambda>signature.
             res_bind (verify_raw c (ad_public_key signer) payload signature) (\<lambda>_. Inr signer))))))"

definition readiness_of :: "string \<Rightarrow> authority_descriptor \<Rightarrow> readiness" where
  "readiness_of capability signer = \<lparr> rd_capability = capability, rd_authority_id = ad_authority_id signer,
     rd_key_id = ad_key_id signer, rd_fingerprint = ad_fingerprint signer, rd_status = ''ready'' \<rparr>"

definition service_readiness ::
  "trust_crypto \<Rightarrow> ('w, 'p) key_provider \<Rightarrow> string \<Rightarrow> u64 \<Rightarrow> 'p authority_service
    \<Rightarrow> ('p authority_service \<times> (string + readiness)) option" where
  "service_readiness c ops capability now s =
     map_option (\<lambda>r. case r of
         Inl e \<Rightarrow> (s, Inl e)
       | Inr signer \<Rightarrow> (audit ''SELF_TEST'' (Some (ad_authority_id signer)) (Some (ad_key_id signer)) None
           (Some capability) now s, Inr (readiness_of capability signer)))
       (check_readiness c ops capability now s)"

definition sign_for_capability ::
  "trust_crypto \<Rightarrow> ('w, 'p) key_provider \<Rightarrow> string \<Rightarrow> string \<Rightarrow> u64 \<Rightarrow> 'p authority_service
    \<Rightarrow> ('p authority_service \<times> (string + readiness \<times> string)) option" where
  "sign_for_capability c ops capability payload now s =
     map_option (\<lambda>(s1, r). case res_bind r (\<lambda>ready.
           map_err (\<lambda>_. ''HOST_ENROLLMENT_AUTHORITY_UNAVAILABLE'')
             (res_bind (kp_sign ops (au_provider s1) (rd_key_id ready) payload) (\<lambda>sig. Inr (ready, sig)))) of
         Inl e \<Rightarrow> (s1, Inl e)
       | Inr (ready, sig) \<Rightarrow> (audit ''SIGN_OPERATION'' (Some (rd_authority_id ready)) (Some (rd_key_id ready))
           (Some (fingerprint_for_raw c payload)) (Some capability) now s1, Inr (ready, sig)))
       (service_readiness c ops capability now s)"

definition verify_for_capability ::
  "trust_crypto \<Rightarrow> string \<Rightarrow> string \<Rightarrow> string \<Rightarrow> string \<Rightarrow> u64 \<Rightarrow> 'p authority_service \<Rightarrow> (string + unit) option" where
  "verify_for_capability c capability key_id payload signature now s =
     (case res_bind (ok_or (find (\<lambda>a. ad_key_id a = key_id) (au_authorities s)) ''TRUST_SIGNER_NOT_FOUND'') (\<lambda>a.
        res_bind (assert_active (au_revocations s) a now) (\<lambda>_.
        if \<not> has_capability a capability then Inl ''TRUST_CAPABILITY_REJECTED'' else Inr a)) of
        Inl e \<Rightarrow> Some (Inl e)
      | Inr a \<Rightarrow> run_bind (service_chain c s now a) (\<lambda>_. Some (verify_raw c (ad_public_key a) payload signature)))"

record signed_operation =
  so_key_id :: string
  so_algorithm :: string
  so_signature :: string
  so_payload_digest :: string

definition authorized_payload :: "trust_crypto \<Rightarrow> json \<Rightarrow> string" where
  "authorized_payload c payload = signed_payload c ''actium-authorized-operation-v1'' payload"

definition sign_authorized ::
  "trust_crypto \<Rightarrow> ('w, 'p) key_provider \<Rightarrow> string \<Rightarrow> string \<Rightarrow> json \<Rightarrow> u64 \<Rightarrow> 'p authority_service
    \<Rightarrow> ('p authority_service \<times> (string + signed_operation)) option" where
  "sign_authorized c ops authority_id capability payload now s =
     (case res_bind (ok_or (find_authority (au_authorities s) authority_id) ''TRUST_AUTHORITY_NOT_FOUND'') (\<lambda>a.
        res_bind (assert_active (au_revocations s) a now) (\<lambda>_.
        if \<not> has_capability a capability then Inl ''TRUST_CAPABILITY_REJECTED'' else Inr a)) of
        Inl e \<Rightarrow> Some (s, Inl e)
      | Inr a \<Rightarrow> map_option (\<lambda>r. case r of
            Inl e \<Rightarrow> (s, Inl e)
          | Inr op \<Rightarrow> (audit ''SIGN_OPERATION'' (Some (ad_authority_id a)) (Some (ad_key_id a))
              (Some (so_payload_digest op)) (Some capability) now s, Inr op))
          (run_bind (service_chain c s now a) (\<lambda>_. Some (
             let signed = authorized_payload c payload in
             res_bind (kp_sign ops (au_provider s) (ad_key_id a) signed) (\<lambda>signature.
             Inr \<lparr> so_key_id = ad_key_id a, so_algorithm = trust_fabric_algorithm,
               so_signature = tc_b64_encode c signature, so_payload_digest = fingerprint_for_raw c signed \<rparr>)))))"

section \<open>The trust bundle and release manifests\<close>

definition unrevoked :: "'p authority_service \<Rightarrow> authority_kind \<Rightarrow> authority_descriptor list" where
  "unrevoked s kind = filter (\<lambda>a. ad_kind a = kind \<and> ad_status a \<noteq> Revoked) (au_authorities s)"

definition first_of :: "'a list \<Rightarrow> 'a option" where
  "first_of xs = (case xs of [] \<Rightarrow> None | x # _ \<Rightarrow> Some x)"

definition assemble_bundle :: "authority_descriptor \<Rightarrow> u64 \<Rightarrow> u64 option \<Rightarrow> 'p authority_service \<Rightarrow> trust_bundle" where
  "assemble_bundle root now expires_at s =
     (let centers = sort_key ad_version (unrevoked s CenterAuthority) in
      \<lparr> tb_trust_bundle_id = au_trust_root_set s @ ''-'' @ show_word now, tb_contract = trust_bundle_contract, tb_version = 1,
        tb_product_roots = map (\<lambda>a. \<lparr> pt_authority = a, pt_trust_root_set = au_trust_root_set s,
          pt_root_version = ad_version a, pt_activation_epoch = au_trust_epoch s, pt_retirement_epoch = None \<rparr>)
          (unrevoked s ProductTrustRoot),
        tb_root_transitions = au_root_transitions s,
        tb_deployment_authority = first_of (unrevoked s DeploymentAuthority),
        tb_deployment_root = first_of (unrevoked s DeploymentRoot),
        tb_center_authority = (if centers = [] then None else Some (last centers)),
        tb_predecessor_center_authorities = butlast centers,
        tb_enrollment_authorities = unrevoked s EnrollmentAuthority,
        tb_release_authorities = unrevoked s ReleaseAuthority,
        tb_product_signing_authorities = unrevoked s ProductSigningAuthority,
        tb_revocations = au_revocations s, tb_issued_at = now, tb_expires_at = expires_at,
        tb_trust_epoch = au_trust_epoch s, tb_issuer = ad_authority_id root \<rparr>)"

definition service_trust_bundle ::
  "trust_crypto \<Rightarrow> ('w, 'p) key_provider \<Rightarrow> string \<Rightarrow> u64 \<Rightarrow> u64 option \<Rightarrow> 'p authority_service
    \<Rightarrow> 'p authority_service \<times> (string + signed_trust_bundle)" where
  "service_trust_bundle c ops root_id now expires_at s =
     (case res_bind (ok_or (find_authority (au_authorities s) root_id) ''TRUST_ROOT_NOT_FOUND'') (\<lambda>root.
        if ad_kind root \<noteq> ProductTrustRoot then Inl ''TRUST_BUNDLE_ISSUER_INVALID''
        else let bundle = assemble_bundle root now expires_at s in
          res_bind (kp_sign ops (au_provider s) (ad_key_id root) (trust_bundle_payload c bundle)) (\<lambda>signature.
          Inr (root, bundle, signature))) of
        Inl e \<Rightarrow> (s, Inl e)
      | Inr (root, bundle, signature) \<Rightarrow>
          (audit ''TRUST_BUNDLE_ISSUED'' (Some (ad_authority_id root)) (Some (ad_key_id root))
             (Some (trust_bundle_digest c bundle)) None now s,
           Inr \<lparr> sb_bundle = bundle, sb_signature = tc_b64_encode c signature,
             sb_signing_key_id = ad_key_id root, sb_algorithm = trust_fabric_algorithm \<rparr>))"

definition sign_release_manifest ::
  "trust_crypto \<Rightarrow> ('w, 'p) key_provider \<Rightarrow> string \<Rightarrow> release_manifest \<Rightarrow> 'p authority_service
    \<Rightarrow> ('p authority_service \<times> (string + signed_release_manifest)) option" where
  "sign_release_manifest c ops signer_id m s =
     (case (if rm_schema m \<noteq> release_manifest_contract \<or> rm_contract m \<noteq> release_manifest_contract
            \<or> is_blank (rm_product_id m) \<or> rm_release_status m \<noteq> ''PROMOTED'' then Inl ''RELEASE_MANIFEST_INVALID''
          else res_bind (ok_or (find_authority (au_authorities s) signer_id) ''TRUST_SIGNER_NOT_FOUND'') (\<lambda>signer.
            if ad_kind signer \<noteq> ProductSigningAuthority \<or> ad_status signer \<noteq> Active
            then Inl ''TRUST_PRODUCT_SIGNER_INVALID''
            else if \<not> has_capability signer ''product_signing'' then Inl ''TRUST_PRODUCT_SIGNER_CAPABILITY_REJECTED''
            else Inr signer)) of
        Inl e \<Rightarrow> Some (s, Inl e)
      | Inr signer \<Rightarrow> map_option (\<lambda>r. case r of
            Inl e \<Rightarrow> (s, Inl e)
          | Inr signature \<Rightarrow> (audit ''SIGN_OPERATION'' (Some (ad_authority_id signer)) (Some (ad_key_id signer))
              (Some (fingerprint_for_raw c (release_manifest_payload c m))) (Some ''release_manifest'') (rm_issued_at m) s,
              Inr \<lparr> sr_manifest = m, sr_signing = \<lparr> rg_key_id = ad_key_id signer, rg_algorithm = trust_fabric_algorithm,
                rg_signature = tc_b64_encode c signature \<rparr> \<rparr>))
          (run_bind (service_chain c s (rm_issued_at m) signer) (\<lambda>_.
             Some (kp_sign ops (au_provider s) (ad_key_id signer) (release_manifest_payload c m)))))"

definition verify_release_manifest ::
  "trust_crypto \<Rightarrow> signed_release_manifest \<Rightarrow> u64 \<Rightarrow> 'p authority_service \<Rightarrow> (string + unit) option" where
  "verify_release_manifest c sm now s =
     (let m = sr_manifest sm in
      case (if rm_schema m \<noteq> release_manifest_contract \<or> rm_contract m \<noteq> release_manifest_contract
            \<or> rg_algorithm (sr_signing sm) \<noteq> trust_fabric_algorithm \<or> rm_release_status m \<noteq> ''PROMOTED''
          then Inl ''RELEASE_MANIFEST_INVALID''
          else res_bind (ok_or (find (\<lambda>a. ad_key_id a = rg_key_id (sr_signing sm)) (au_authorities s))
              ''TRUST_PRODUCT_SIGNER_UNKNOWN'') (\<lambda>signer.
            if ad_kind signer \<noteq> ProductSigningAuthority \<or> ad_status signer \<noteq> Active
               \<or> revoked_key (au_revocations s) (ad_key_id signer)
            then Inl ''TRUST_PRODUCT_SIGNER_REJECTED'' else Inr signer)) of
        Inl e \<Rightarrow> Some (Inl e)
      | Inr signer \<Rightarrow> run_bind (service_chain c s now signer) (\<lambda>_. Some (
          res_bind (ok_or (tc_b64_decode c (rg_signature (sr_signing sm))) ''RELEASE_SIGNATURE_INVALID'') (\<lambda>sig.
          verify_raw c (ad_public_key signer) (release_manifest_payload c m) sig))))"

section \<open>Idempotent requests\<close>

definition idempotency_result :: "'p authority_service \<Rightarrow> string \<Rightarrow> string \<Rightarrow> string + json option" where
  "idempotency_result s key request_digest =
     (case map_of (au_idempotency_results s) key of
        None \<Rightarrow> Inr None
      | Some r \<Rightarrow> if ir_request_digest r \<noteq> request_digest then Inl ''TRUST_IDEMPOTENCY_KEY_REUSED''
          else Inr (Some (ir_response r)))"

definition max_idempotency_records :: nat where
  "max_idempotency_records = 1024"

definition put_idempotency ::
  "string \<Rightarrow> idempotency_record \<Rightarrow> (string \<times> idempotency_record) list \<Rightarrow> (string \<times> idempotency_record) list" where
  "put_idempotency k r m = insort_key fst (k, r) (filter (\<lambda>kr. fst kr \<noteq> k) m)"

definition record_idempotency_result ::
  "string \<Rightarrow> string \<Rightarrow> json \<Rightarrow> 'p authority_service \<Rightarrow> 'p authority_service" where
  "record_idempotency_result key request_digest response s =
     (let m = au_idempotency_results s;
          kept = (if max_idempotency_records \<le> length m \<and> map_of m key = None then tl m else m) in
      s\<lparr>au_idempotency_results :=
        put_idempotency key \<lparr> ir_request_digest = request_digest, ir_response = response \<rparr> kept\<rparr>)"

section \<open>Reissue of the centre\<close>

record owner_approval =
  ow_owner_id :: string
  ow_aal :: string
  ow_reason :: string
  ow_confirmation :: string

record reissue_request =
  rq_contract :: string
  rq_operation :: string
  rq_transition_id :: string
  rq_predecessor_authority_id :: string
  rq_predecessor_key_id :: string
  rq_trust_root_set :: string
  rq_expected_trust_epoch :: u64
  rq_requested_capability :: string
  rq_activation_epoch :: "u64 option"
  rq_owner_approval :: "owner_approval option"

record reissue_material =
  mt_authority_id :: string
  mt_key_id :: "string option"
  mt_certificate_version :: u32
  mt_issuer_authority_id :: string
  mt_issuer_key_id :: string
  mt_capabilities :: "string list"

record reissue_preview =
  pw_contract :: string
  pw_operation :: string
  pw_transition_id :: string
  pw_decision :: string
  pw_same_key_reissue_supported :: bool
  pw_successor_key_required :: bool
  pw_trust_root_set :: string
  pw_current_trust_epoch :: u64
  pw_activation_epoch :: u64
  pw_before :: reissue_material
  pw_after :: reissue_material
  pw_host_transition :: string
  pw_private_key_handling :: string
  pw_product_root_changed :: bool
  pw_expected_host_action :: string

definition owner_approval_json :: "owner_approval \<Rightarrow> json" where
  "owner_approval_json x = JObject [(''ownerId'', JString (ow_owner_id x)), (''aal'', JString (ow_aal x)),
     (''reason'', JString (ow_reason x)), (''confirmation'', JString (ow_confirmation x))]"

definition reissue_request_json :: "reissue_request \<Rightarrow> json" where
  "reissue_request_json r = JObject
     [(''contract'', JString (rq_contract r)), (''operation'', JString (rq_operation r)),
      (''transitionId'', JString (rq_transition_id r)),
      (''predecessorAuthorityId'', JString (rq_predecessor_authority_id r)),
      (''predecessorKeyId'', JString (rq_predecessor_key_id r)), (''trustRootSet'', JString (rq_trust_root_set r)),
      (''expectedTrustEpoch'', json_nat_word (rq_expected_trust_epoch r)),
      (''requestedCapability'', JString (rq_requested_capability r)),
      (''activationEpoch'', opt_json json_nat_word (rq_activation_epoch r)),
      (''ownerApproval'', opt_json owner_approval_json (rq_owner_approval r))]"

definition request_digest_hex :: "trust_crypto \<Rightarrow> reissue_request \<Rightarrow> string" where
  "request_digest_hex c r = hex_bytes (tc_sha c (canonical_json (tc_esc c) (reissue_request_json r)))"

definition owner_identity_invalid :: "string \<Rightarrow> bool" where
  "owner_identity_invalid i = (is_blank i \<or> to_ascii_lowercase i = ''service_role''
     \<or> to_ascii_lowercase i = ''role:service_role'')"

definition owner_reason_sensitive :: "string \<Rightarrow> bool" where
  "owner_reason_sensitive reason = (str_contains (to_ascii_lowercase reason) ''private key''
     \<or> str_contains (to_ascii_lowercase reason) ''secret'')"

definition check_owner :: "bool \<Rightarrow> owner_approval option \<Rightarrow> string + unit" where
  "check_owner require_authorization approval =
     res_bind (ok_or approval ''OWNER_AAL2_REQUIRED'') (\<lambda>owner.
     res_bind (fail_if (ow_aal owner \<noteq> ''aal2'') ''OWNER_AAL2_REQUIRED'') (\<lambda>_.
     res_bind (fail_if (owner_identity_invalid (ow_owner_id owner)) ''OWNER_IDENTITY_INVALID'') (\<lambda>_.
     res_bind (fail_if (is_blank (ow_reason owner) \<or> length (ow_reason owner) > 2000) ''OWNER_REASON_REQUIRED'') (\<lambda>_.
     res_bind (fail_if (require_authorization \<and> ow_confirmation owner \<noteq> ''AUTHORIZE_CENTER_AUTHORITY_REISSUE'')
       ''OWNER_CONFIRMATION_REQUIRED'') (\<lambda>_.
     fail_if (owner_reason_sensitive (ow_reason owner)) ''OWNER_REASON_SENSITIVE'')))))"

text \<open>The checks of the request that look at no authority.\<close>

definition check_reissue_request :: "'p authority_service \<Rightarrow> bool \<Rightarrow> reissue_request \<Rightarrow> string + unit" where
  "check_reissue_request s require_authorization r =
     res_bind (fail_if (rq_contract r \<noteq> center_authority_reissue_contract) ''TRUST_TRANSITION_CONTRACT_INVALID'') (\<lambda>_.
     res_bind (fail_if (rq_operation r \<noteq> ''PREPARE_CENTER_AUTHORITY_REISSUE''
       \<and> rq_operation r \<noteq> ''AUTHORIZE_CENTER_AUTHORITY_REISSUE'') ''TRUST_TRANSITION_OPERATION_INVALID'') (\<lambda>_.
     res_bind (fail_if (is_blank (rq_transition_id r) \<or> length (rq_transition_id r) > 128) ''TRUST_TRANSITION_ID_INVALID'') (\<lambda>_.
     res_bind (fail_if (is_blank (rq_predecessor_authority_id r) \<or> is_blank (rq_predecessor_key_id r))
       ''TRUST_PREDECESSOR_REQUIRED'') (\<lambda>_.
     res_bind (fail_if (rq_trust_root_set r \<noteq> au_trust_root_set s) ''TRUST_ROOT_SET_MISMATCH'') (\<lambda>_.
     res_bind (fail_if (rq_expected_trust_epoch r < au_trust_epoch s) ''TRUST_EPOCH_STALE'') (\<lambda>_.
     res_bind (fail_if (rq_expected_trust_epoch r > au_trust_epoch s) ''TRUST_EPOCH_FUTURE'') (\<lambda>_.
     res_bind (fail_if (rq_requested_capability r \<noteq> remote_operations_signing_capability)
       ''TRUST_CAPABILITY_NOT_ALLOWLISTED'') (\<lambda>_.
     res_bind (check_owner require_authorization (rq_owner_approval r)) (\<lambda>_.
     fail_if (rq_operation r = ''AUTHORIZE_CENTER_AUTHORITY_REISSUE'' \<and> \<not> require_authorization)
       ''TRUST_TRANSITION_OPERATION_INVALID'')))))))))"

definition find_predecessor :: "'p authority_service \<Rightarrow> reissue_request \<Rightarrow> string + authority_descriptor" where
  "find_predecessor s r =
     res_bind (ok_or (find_authority (au_authorities s) (rq_predecessor_authority_id r)) ''TRUST_PREDECESSOR_NOT_FOUND'') (\<lambda>a.
     res_bind (fail_if (ad_kind a \<noteq> CenterAuthority \<or> ad_key_id a \<noteq> rq_predecessor_key_id r
       \<or> \<not> (ad_status a = Active \<or> ad_status a = Rotating)) ''TRUST_PREDECESSOR_INVALID'') (\<lambda>_. Inr a))"

definition find_reissuer :: "'p authority_service \<Rightarrow> authority_descriptor \<Rightarrow> string + authority_descriptor" where
  "find_reissuer s predecessor =
     res_bind (ok_or (ad_issuer_authority_id predecessor) ''TRUST_ISSUER_NOT_FOUND'') (\<lambda>issuer_id.
     res_bind (ok_or (find_authority (au_authorities s) issuer_id) ''TRUST_ISSUER_NOT_FOUND'') (\<lambda>issuer.
     res_bind (fail_if (ad_kind issuer \<noteq> DeploymentRoot \<or> ad_issuer_key_id predecessor \<noteq> Some (ad_key_id issuer)
       \<or> \<not> has_capability issuer (authority_capability DeploymentRoot)) ''TRUST_ISSUER_NOT_AUTHORIZED'') (\<lambda>_. Inr issuer)))"

text \<open>\<open>push\<close> unless present, \<open>sort\<close>, \<open>dedup\<close>.\<close>

definition successor_capabilities :: "string list \<Rightarrow> string list" where
  "successor_capabilities caps = remdups_adj (sort
     (if list_ex (\<lambda>x. x = remote_operations_signing_capability) caps then caps
      else caps @ [remote_operations_signing_capability]))"

definition validate_center_authority_reissue_request ::
  "trust_crypto \<Rightarrow> reissue_request \<Rightarrow> u64 \<Rightarrow> bool \<Rightarrow> 'p authority_service
    \<Rightarrow> (string + authority_descriptor \<times> authority_descriptor \<times> string list \<times> u64) option" where
  "validate_center_authority_reissue_request c r now require_authorization s =
     run_bind (Some (res_bind (check_reissue_request s require_authorization r) (\<lambda>_. find_predecessor s r))) (\<lambda>predecessor.
     run_bind (service_chain c s now predecessor) (\<lambda>_.
     run_bind (Some (find_reissuer s predecessor)) (\<lambda>issuer.
     run_bind (service_chain c s now issuer) (\<lambda>_. Some (
       let activation_epoch = unwrap_or (rq_activation_epoch r) (au_trust_epoch s + 1) in
       if activation_epoch \<le> au_trust_epoch s then Inl ''TRUST_ACTIVATION_EPOCH_INVALID''
       else Inr (predecessor, issuer, successor_capabilities (ad_capabilities predecessor), activation_epoch))))))"

definition successor_id_of :: "authority_descriptor \<Rightarrow> string" where
  "successor_id_of predecessor = ad_authority_id predecessor @ ''-v'' @ show_word (ad_version predecessor + 1)"

definition successor_conflicts :: "authority_descriptor \<Rightarrow> string list \<Rightarrow> authority_descriptor \<Rightarrow> bool" where
  "successor_conflicts issuer caps successor =
     (ad_kind successor \<noteq> CenterAuthority \<or> ad_issuer_authority_id successor \<noteq> Some (ad_authority_id issuer)
      \<or> ad_issuer_key_id successor \<noteq> Some (ad_key_id issuer)
      \<or> \<not> list_all (\<lambda>x. x \<in> set (ad_capabilities successor)) caps)"

definition prepare_center_authority_reissue ::
  "trust_crypto \<Rightarrow> reissue_request \<Rightarrow> u64 \<Rightarrow> 'p authority_service \<Rightarrow> (string + reissue_preview) option" where
  "prepare_center_authority_reissue c r now s =
     run_bind (validate_center_authority_reissue_request c r now False s) (\<lambda>(predecessor, issuer, caps, activation_epoch).
       let successor_id = successor_id_of predecessor; existing = find_authority (au_authorities s) successor_id in
       if is_some_and existing (successor_conflicts issuer caps) then Some (Inl ''TRUST_CENTER_SUCCESSOR_CONFLICT'')
       else Some (Inr \<lparr> pw_contract = center_authority_reissue_contract,
         pw_operation = ''PREPARE_CENTER_AUTHORITY_REISSUE'', pw_transition_id = rq_transition_id r,
         pw_decision = ''OWNER_ACTION_READY'', pw_same_key_reissue_supported = False, pw_successor_key_required = True,
         pw_trust_root_set = au_trust_root_set s, pw_current_trust_epoch = au_trust_epoch s,
         pw_activation_epoch = activation_epoch,
         pw_before = \<lparr> mt_authority_id = ad_authority_id predecessor, mt_key_id = Some (ad_key_id predecessor),
           mt_certificate_version = ad_version predecessor, mt_issuer_authority_id = ad_authority_id issuer,
           mt_issuer_key_id = ad_key_id issuer, mt_capabilities = ad_capabilities predecessor \<rparr>,
         pw_after = \<lparr> mt_authority_id = successor_id, mt_key_id = map_option ad_key_id existing,
           mt_certificate_version = ad_version predecessor + 1, mt_issuer_authority_id = ad_authority_id issuer,
           mt_issuer_key_id = ad_key_id issuer, mt_capabilities = caps \<rparr>,
         pw_host_transition = ''TRUST_BUNDLE_REFRESH_NO_REENROLLMENT'',
         pw_private_key_handling = ''GENERATED_AND_RETAINED_BY_AUTHORITY_SERVICE'', pw_product_root_changed = False,
         pw_expected_host_action = ''ACCEPT_VERIFIED_SUCCESSOR_TRANSITION_THEN_REFRESH_TRUST_BUNDLE'' \<rparr>))"

definition transition_proof :: "authority_certificate \<Rightarrow> json" where
  "transition_proof ce = JObject [(''certificate'', certificate_json ce), (''predecessorPreserved'', JBool True),
     (''productRootChanged'', JBool False), (''publication'', JString ''EXPLICIT_TRUST_BUNDLE_PUBLICATION_REQUIRED'')]"

definition unsigned_transition_of ::
  "reissue_request \<Rightarrow> string \<Rightarrow> authority_descriptor \<Rightarrow> authority_descriptor \<Rightarrow> authority_descriptor \<Rightarrow> authority_certificate
    \<Rightarrow> string list \<Rightarrow> u64 \<Rightarrow> u64 \<Rightarrow> string \<Rightarrow> center_transition" where
  "unsigned_transition_of r root_set predecessor successor issuer ce caps activation_epoch now digest =
     \<lparr> ct_contract = center_authority_reissue_contract, ct_transition_id = rq_transition_id r, ct_trust_root_set = root_set,
       ct_predecessor_authority_id = ad_authority_id predecessor, ct_predecessor_key_id = ad_key_id predecessor,
       ct_successor_authority_id = ad_authority_id successor, ct_successor_key_id = ad_key_id successor,
       ct_successor_certificate_version = ad_version successor, ct_required_capabilities = caps, ct_issued_at = now,
       ct_activation_epoch = activation_epoch, ct_status = TransitionIssued, ct_issuer_authority_id = ad_authority_id issuer,
       ct_issuer_key_id = ad_key_id issuer, ct_signatures = [], ct_proof = transition_proof ce, ct_request_digest = digest \<rparr>"

text \<open>The successor is issued, and the transition signed with the key of the deployment root.\<close>

definition issue_transition ::
  "trust_crypto \<Rightarrow> ('w, 'p) key_provider \<Rightarrow> 'w \<Rightarrow> reissue_request \<Rightarrow> u64 \<Rightarrow> authority_descriptor \<Rightarrow> authority_descriptor
    \<Rightarrow> string list \<Rightarrow> u64 \<Rightarrow> 'p authority_service \<Rightarrow> 'p authority_service \<times> (string + center_transition)" where
  "issue_transition c ops w r now predecessor issuer caps activation_epoch s =
     (case issue_subordinate_versioned c ops w (ad_authority_id issuer) (successor_id_of predecessor) CenterAuthority caps
         (ad_version predecessor + 1) now (ad_valid_until predecessor) s of
        (s1, Inl e) \<Rightarrow> (s1, Inl e)
      | (s1, Inr successor) \<Rightarrow> (case ad_certificate successor of
          None \<Rightarrow> (s1, Inl ''TRUST_CERTIFICATE_MISSING'')
        | Some ce \<Rightarrow>
            let t = unsigned_transition_of r (au_trust_root_set s) predecessor successor issuer ce caps activation_epoch now
                  (request_digest_hex c r) in
            (case kp_sign ops (au_provider s1) (ad_key_id issuer) (center_transition_payload c t) of
               Inl e \<Rightarrow> (s1, Inl e)
             | Inr signature \<Rightarrow>
                 let signed = t\<lparr>ct_signatures := [\<lparr> ts_authority_id = ad_authority_id issuer, ts_key_id = ad_key_id issuer,
                       ts_algorithm = trust_fabric_algorithm, ts_signature = tc_b64_encode c signature \<rparr>]\<rparr> in
                 (audit ''CENTER_AUTHORITY_REISSUE_ISSUED'' (Some (ad_authority_id successor)) (Some (ad_key_id successor))
                    (Some (request_digest_hex c r)) (Some ''predecessor_preserved'') now
                    (s1\<lparr>au_center_transitions := au_center_transitions s1 @ [signed]\<rparr>), Inr signed))))"

definition authorize_center_authority_reissue ::
  "trust_crypto \<Rightarrow> ('w, 'p) key_provider \<Rightarrow> 'w \<Rightarrow> reissue_request \<Rightarrow> u64 \<Rightarrow> 'p authority_service
    \<Rightarrow> ('p authority_service \<times> (string + center_transition)) option" where
  "authorize_center_authority_reissue c ops w r now s =
     (if rq_operation r \<noteq> ''AUTHORIZE_CENTER_AUTHORITY_REISSUE'' then Some (s, Inl ''TRUST_TRANSITION_OPERATION_INVALID'')
      else case validate_center_authority_reissue_request c r now True s of
        None \<Rightarrow> None
      | Some (Inl e) \<Rightarrow> Some (s, Inl e)
      | Some (Inr (predecessor, issuer, caps, activation_epoch)) \<Rightarrow> Some (
          case find (\<lambda>t. ct_transition_id t = rq_transition_id r) (au_center_transitions s) of
            Some existing \<Rightarrow>
              if ct_request_digest existing \<noteq> request_digest_hex c r then (s, Inl ''TRUST_TRANSITION_REPLAY_OR_CONFLICT'')
              else (s, Inr existing)
          | None \<Rightarrow>
              if find_authority (au_authorities s) (successor_id_of predecessor) \<noteq> None
              then (s, Inl ''TRUST_CENTER_SUCCESSOR_CONFLICT'')
              else issue_transition c ops w r now predecessor issuer caps activation_epoch s))"

section \<open>Reloading the durable state\<close>

definition certificate_differs :: "authority_descriptor \<Rightarrow> authority_certificate \<Rightarrow> bool" where
  "certificate_differs a ce =
     (ce_authority_id ce \<noteq> ad_authority_id a \<or> ce_kind ce \<noteq> ad_kind a \<or> ce_key_id ce \<noteq> ad_key_id a
      \<or> ce_public_key ce \<noteq> ad_public_key a \<or> ce_issuer_authority_id ce \<noteq> unwrap_or (ad_issuer_authority_id a) []
      \<or> ce_issuer_key_id ce \<noteq> unwrap_or (ad_issuer_key_id a) [])"

definition validate_stored_authority :: "trust_crypto \<Rightarrow> authority_descriptor list \<Rightarrow> authority_descriptor \<Rightarrow> string + unit" where
  "validate_stored_authority c auths a =
     res_bind (fail_if (ad_kind a = ProductTrustRoot \<and> (ad_certificate a \<noteq> None \<or> ad_issuer_authority_id a \<noteq> None
       \<or> ad_issuer_key_id a \<noteq> None)) ''TRUST_ROOT_STATE_INVALID'') (\<lambda>_.
     case ad_certificate a of
       None \<Rightarrow> Inr ()
     | Some ce \<Rightarrow>
         res_bind (fail_if (certificate_differs a ce) ''TRUST_CERTIFICATE_SCOPE_INVALID'') (\<lambda>_.
         res_bind (ok_or (find_authority auths (ce_issuer_authority_id ce)) ''TRUST_ISSUER_NOT_FOUND'') (\<lambda>issuer.
         res_bind (fail_if (ad_key_id issuer \<noteq> ce_issuer_key_id ce) ''TRUST_ISSUER_KEY_MISMATCH'') (\<lambda>_.
         verify_certificate c issuer ce))))"

definition validate_stored_revocation :: "authority_descriptor list \<Rightarrow> u64 \<Rightarrow> trust_revocation \<Rightarrow> string + unit" where
  "validate_stored_revocation auths epoch r =
     res_bind (ok_or (find (\<lambda>a. ad_key_id a = rv_key_id r \<and> ad_authority_id a = rv_authority_id r) auths)
       ''TRUST_REVOCATION_REFERENCE_INVALID'') (\<lambda>a.
     fail_if (ad_status a \<noteq> Revoked \<or> rv_revocation_epoch r > epoch) ''TRUST_REVOCATION_STATE_INVALID'')"

definition validate_stored_root_transition ::
  "authority_descriptor list \<Rightarrow> string \<Rightarrow> u64 \<Rightarrow> root_transition \<Rightarrow> string + unit" where
  "validate_stored_root_transition auths root_set epoch t =
     fail_if (rt_schema t \<noteq> 1 \<or> rt_trust_root_set t \<noteq> root_set
       \<or> \<not> list_ex (\<lambda>a. ad_kind a = ProductTrustRoot \<and> ad_key_id a = rt_from_root_key_id t) auths
       \<or> \<not> list_ex (\<lambda>a. ad_kind a = ProductTrustRoot \<and> ad_key_id a = rt_to_root_key_id t) auths
       \<or> rt_activation_epoch t < epoch) ''TRUST_ROOT_TRANSITION_INVALID''"

definition lower_hex_digest :: "string \<Rightarrow> bool" where
  "lower_hex_digest d = (length d = 64 \<and> list_all (\<lambda>x. to_hex_digit x \<noteq> None \<and> \<not> is_ascii_upper x) d)"

definition validate_stored_transition ::
  "authority_descriptor list \<Rightarrow> string \<Rightarrow> center_transition \<Rightarrow> string + unit" where
  "validate_stored_transition auths root_set t =
     res_bind (ok_or (find_authority auths (ct_predecessor_authority_id t)) ''TRUST_CENTER_TRANSITION_PREDECESSOR_UNKNOWN'') (\<lambda>predecessor.
     res_bind (ok_or (find_authority auths (ct_successor_authority_id t)) ''TRUST_CENTER_TRANSITION_SUCCESSOR_UNKNOWN'') (\<lambda>successor.
     res_bind (ok_or (find_authority auths (ct_issuer_authority_id t)) ''TRUST_CENTER_TRANSITION_ISSUER_UNKNOWN'') (\<lambda>issuer.
     res_bind (fail_if (ct_contract t \<noteq> center_authority_reissue_contract \<or> ct_trust_root_set t \<noteq> root_set
       \<or> ct_predecessor_key_id t \<noteq> ad_key_id predecessor \<or> ct_successor_key_id t \<noteq> ad_key_id successor
       \<or> ad_kind successor \<noteq> CenterAuthority \<or> ad_version successor \<noteq> ct_successor_certificate_version t
       \<or> ad_kind issuer \<noteq> DeploymentRoot \<or> ct_issuer_key_id t \<noteq> ad_key_id issuer
       \<or> \<not> lower_hex_digest (ct_request_digest t)) ''TRUST_CENTER_TRANSITION_STATE_INVALID'') (\<lambda>_.
     fail_if (ct_signatures t = [] \<or> \<not> list_ex (\<lambda>s. ts_authority_id s = ad_authority_id issuer
       \<and> ts_key_id s = ad_key_id issuer \<and> ts_algorithm s = trust_fabric_algorithm) (ct_signatures t))
       ''TRUST_CENTER_TRANSITION_SIGNATURE_INVALID''))))"

definition validate_stored_idempotency :: "string \<times> idempotency_record \<Rightarrow> string + unit" where
  "validate_stored_idempotency kr = fail_if (is_blank (fst kr) \<or> length (fst kr) > 256
     \<or> \<not> lower_hex_digest (ir_request_digest (snd kr))) ''TRUST_IDEMPOTENCY_STATE_INVALID''"

definition validate_durable_structure :: "trust_crypto \<Rightarrow> 'p authority_service \<Rightarrow> string + unit" where
  "validate_durable_structure c s = (let auths = au_authorities s in
     res_bind (res_each (validate_stored_authority c auths) auths) (\<lambda>_.
     res_bind (fail_if (\<not> list_ex (\<lambda>a. ad_kind a = ProductTrustRoot) auths) ''TRUST_AUTHORITY_STATE_ROOT_MISSING'') (\<lambda>_.
     res_bind (res_each (validate_stored_revocation auths (au_trust_epoch s)) (au_revocations s)) (\<lambda>_.
     res_bind (res_each (validate_stored_root_transition auths (au_trust_root_set s) (au_trust_epoch s)) (au_root_transitions s)) (\<lambda>_.
     res_bind (res_each (validate_stored_transition auths (au_trust_root_set s)) (au_center_transitions s)) (\<lambda>_.
     res_each validate_stored_idempotency (au_idempotency_results s)))))))"

text \<open>A stored authority against the provider; the keys of the offline root must not be there.\<close>

definition check_stored_key ::
  "('w, 'p) key_provider \<Rightarrow> 'p \<Rightarrow> string list \<Rightarrow> authority_descriptor \<Rightarrow> string + unit" where
  "check_stored_key ops p public_only a =
     (if ad_key_id a \<in> set public_only
      then (if ad_kind a \<noteq> ProductTrustRoot \<or> ad_status a = Revoked then Inl ''TRUST_PUBLIC_ONLY_KEY_INVALID''
        else case kp_load ops p (ad_key_id a) of
            Inr _ \<Rightarrow> Inl ''TRUST_PUBLIC_ONLY_KEY_PRESENT''
          | Inl e \<Rightarrow> if e = ''TRUST_KEY_NOT_FOUND'' then Inr () else Inl ''TRUST_PUBLIC_ONLY_KEY_STATE_INVALID'')
      else res_bind (map_err (\<lambda>_. ''TRUST_AUTHORITY_KEY_UNAVAILABLE'') (kp_load ops p (ad_key_id a))) (\<lambda>d.
        res_bind (fail_if (kd_key_id d \<noteq> ad_key_id a \<or> kd_public_key d \<noteq> ad_public_key a
          \<or> kd_fingerprint d \<noteq> ad_fingerprint a \<or> kd_algorithm d \<noteq> ad_algorithm a)
          ''TRUST_AUTHORITY_KEY_METADATA_MISMATCH'') (\<lambda>_.
        fail_if (ad_status a = Revoked \<and> kd_status d \<noteq> Revoked) ''TRUST_AUTHORITY_REVOCATION_STATE_MISMATCH'')))"

fun load_authorities ::
  "('w, 'p) key_provider \<Rightarrow> 'p \<Rightarrow> string list \<Rightarrow> authority_descriptor list \<Rightarrow> string list \<Rightarrow> authority_descriptor list
    \<Rightarrow> string + authority_descriptor list \<times> string list" where
  "load_authorities ops p public_only m keys [] = Inr (m, keys)"
| "load_authorities ops p public_only m keys (a # as) =
     res_bind (fail_if (is_blank (ad_authority_id a) \<or> ad_algorithm a \<noteq> trust_fabric_algorithm)
       ''TRUST_AUTHORITY_STATE_INVALID'') (\<lambda>_.
     res_bind (fail_if (find_authority m (ad_authority_id a) \<noteq> None \<or> ad_key_id a \<in> set keys)
       ''TRUST_AUTHORITY_STATE_DUPLICATE'') (\<lambda>_.
     res_bind (check_stored_key ops p public_only a) (\<lambda>_.
     load_authorities ops p public_only (put_authority a m) (ad_key_id a # keys) as)))"

definition from_durable_state ::
  "trust_crypto \<Rightarrow> ('w, 'p) key_provider \<Rightarrow> 'p \<Rightarrow> durable_authority_state \<Rightarrow> string + 'p authority_service" where
  "from_durable_state c ops p st =
     res_bind (fail_if (ds_schema st \<noteq> 1) ''TRUST_AUTHORITY_STATE_SCHEMA_UNSUPPORTED'') (\<lambda>_.
     res_bind (fail_if (is_blank (ds_trust_root_set st) \<or> ds_trust_epoch st = 0) ''TRUST_AUTHORITY_STATE_INVALID'') (\<lambda>_.
     let public_only = sort (remdups (ds_public_only_key_ids st)) in
     res_bind (fail_if (length public_only \<noteq> length (ds_public_only_key_ids st)) ''TRUST_AUTHORITY_STATE_DUPLICATE'') (\<lambda>_.
     res_bind (load_authorities ops p public_only [] [] (ds_authorities st)) (\<lambda>(auths, keys).
     res_bind (fail_if (\<not> list_all (\<lambda>k. k \<in> set keys) public_only) ''TRUST_PUBLIC_ONLY_KEY_REFERENCE_INVALID'') (\<lambda>_.
     let s = \<lparr> au_provider = p, au_authorities = auths, au_revocations = ds_revocations st,
           au_root_transitions = ds_root_transitions st, au_center_transitions = ds_center_transitions st,
           au_audit_events = ds_audit_events st, au_idempotency_results = ds_idempotency_results st,
           au_trust_root_set = ds_trust_root_set st, au_trust_epoch = ds_trust_epoch st,
           au_public_only_key_ids = public_only \<rparr> in
     res_bind (validate_durable_structure c s) (\<lambda>_. Inr s))))))"

section \<open>Lookups\<close>

lemma run_bind_Some [result_simps]:
  "run_bind r f = Some (Inr y) \<longleftrightarrow> (\<exists>x. r = Some (Inr x) \<and> f x = Some (Inr y))"
  by (auto simp: run_bind_def split: option.splits sum.splits)

lemma run_bind_simps [simp]:
  "run_bind None f = None" "run_bind (Some (Inl e)) f = Some (Inl e)" "run_bind (Some (Inr x)) f = f x"
  by (simp_all add: run_bind_def)

lemma find_authority_insort_other:
  "i \<noteq> ad_authority_id a \<Longrightarrow> find_authority (insort_key ad_authority_id a m) i = find_authority m i"
  by (induction m) (auto simp: find_authority_def)

lemma find_authority_filter:
  "find_authority (filter (\<lambda>b. ad_authority_id b \<noteq> j) m) i = (if i = j then None else find_authority m i)"
  unfolding find_authority_def by (rule find_filter_other)

lemma find_put_authority:
  "find_authority (put_authority a m) i = (if i = ad_authority_id a then Some a else find_authority m i)"
  by (simp add: put_authority_def find_authority_insort find_authority_filter find_authority_insort_other)

lemma set_put_authority: "set (put_authority a m) = insert a {b \<in> set m. ad_authority_id b \<noteq> ad_authority_id a}"
  by (auto simp: put_authority_def set_insort_key)

definition distinct_ids :: "authority_descriptor list \<Rightarrow> bool" where
  "distinct_ids m \<longleftrightarrow> distinct (map ad_authority_id m)"

lemma distinct_put_authority: "distinct_ids m \<Longrightarrow> distinct_ids (put_authority a m)"
  by (auto simp: distinct_ids_def put_authority_def distinct_insort distinct_map inj_on_def set_insort_key
      intro!: distinct_insort)

lemma distinct_found: "distinct_ids m \<Longrightarrow> a \<in> set m \<Longrightarrow> find_authority m (ad_authority_id a) = Some a"
  by (simp add: distinct_ids_def find_authority_def find_key_distinct)

lemma find_change_authority:
  assumes "\<And>a. ad_authority_id (f a) = ad_authority_id a"
  shows "find_authority (change_authority i f m) j
    = map_option (\<lambda>a. if ad_authority_id a = i then f a else a) (find_authority m j)"
  by (induction m) (auto simp: find_authority_def change_authority_def assms)

lemma distinct_change_authority:
  "(\<And>a. ad_authority_id (f a) = ad_authority_id a) \<Longrightarrow> distinct_ids m \<Longrightarrow> distinct_ids (change_authority i f m)"
  by (auto simp: distinct_ids_def change_authority_def comp_def if_distrib [of ad_authority_id] cong: if_cong)

lemma audit_fields [simp]:
  "au_provider (audit x1 x2 x3 x4 x5 now s) = au_provider s"
  "au_authorities (audit x1 x2 x3 x4 x5 now s) = au_authorities s"
  "au_revocations (audit x1 x2 x3 x4 x5 now s) = au_revocations s"
  "au_root_transitions (audit x1 x2 x3 x4 x5 now s) = au_root_transitions s"
  "au_center_transitions (audit x1 x2 x3 x4 x5 now s) = au_center_transitions s"
  "au_idempotency_results (audit x1 x2 x3 x4 x5 now s) = au_idempotency_results s"
  "au_trust_root_set (audit x1 x2 x3 x4 x5 now s) = au_trust_root_set s"
  "au_trust_epoch (audit x1 x2 x3 x4 x5 now s) = au_trust_epoch s"
  "au_public_only_key_ids (audit x1 x2 x3 x4 x5 now s) = au_public_only_key_ids s"
  by (simp_all add: audit_def)

section \<open>The walk along the issuers\<close>

lemma verify_chain_step:
  "verify_chain c auths revs now a = Some (Inr ()) \<longleftrightarrow>
     assert_active revs a now = Inr () \<and> (case ad_certificate a of
         None \<Rightarrow> True
       | Some ce \<Rightarrow> (\<exists>issuer. find_authority auths (ce_issuer_authority_id ce) = Some issuer
           \<and> assert_active revs issuer now = Inr () \<and> signs_certificate c issuer ce
           \<and> verify_chain c auths revs now issuer = Some (Inr ())))"
  by (subst verify_chain.simps) (auto simp: result_simps verify_certificate_Inr [symmetric] split: sum.splits option.splits)

text \<open>A rank on the authorities that falls towards the issuers; creation order is one.\<close>

definition issuer_ranked :: "authority_descriptor list \<Rightarrow> (string \<Rightarrow> nat) \<Rightarrow> bool" where
  "issuer_ranked auths rank \<longleftrightarrow> (\<forall>a \<in> set auths. \<forall>ce. ad_certificate a = Some ce \<longrightarrow>
     rank (ce_issuer_authority_id ce) < rank (ad_authority_id a))"

lemma verify_chain_returns:
  assumes "issuer_ranked auths rank" "a \<in> set auths"
  shows "\<exists>r. verify_chain c auths revs now a = Some r"
  using assms(2)
proof (induction "rank (ad_authority_id a)" arbitrary: a rule: less_induct)
  case less
  show ?case
  proof (cases "ad_certificate a")
    case None
    then show ?thesis by (subst verify_chain.simps) (auto split: sum.split)
  next
    case (Some ce)
    show ?thesis
    proof (cases "find_authority auths (ce_issuer_authority_id ce)")
      case None
      with Some show ?thesis by (subst verify_chain.simps) (auto split: sum.split)
    next
      case (Some issuer)
      note i = find_authorityD [OF Some]
      have "rank (ad_authority_id issuer) < rank (ad_authority_id a)"
        using assms(1) less.prems \<open>ad_certificate a = Some ce\<close> i by (auto simp: issuer_ranked_def)
      then obtain r where "verify_chain c auths revs now issuer = Some r" using less.hyps i by blast
      with Some \<open>ad_certificate a = Some ce\<close> show ?thesis
        by (subst verify_chain.simps) (auto split: sum.split)
    qed
  qed
qed

section \<open>The invariant of the service\<close>

text \<open>
  A service is well formed at a time when identities and keys are not shared, the provider holds
  the key of every authority whose key it holds at all, every revocation is of an authority, and
  every authority that is not revoked is trusted in the sense of the hosts, among those that are
  not revoked.
\<close>

definition live :: "'p authority_service \<Rightarrow> authority_descriptor list" where
  "live s = filter (\<lambda>a. ad_status a \<noteq> Revoked) (au_authorities s)"

definition keys_match :: "('w, 'p) key_provider \<Rightarrow> (string \<Rightarrow> bool) \<Rightarrow> 'p authority_service \<Rightarrow> bool" where
  "keys_match ops plain s \<longleftrightarrow> (\<forall>a \<in> set (au_authorities s). plain (ad_key_id a)
     \<and> (\<forall>d. kp_load ops (au_provider s) (ad_key_id a) = Inr d \<longrightarrow> kd_public_key d = ad_public_key a))"

definition service_ok ::
  "trust_crypto \<Rightarrow> ('w, 'p) key_provider \<Rightarrow> (string \<Rightarrow> bool) \<Rightarrow> u64 \<Rightarrow> 'p authority_service \<Rightarrow> bool" where
  "service_ok c ops plain time s \<longleftrightarrow> distinct_ids (au_authorities s) \<and> distinct (map ad_key_id (au_authorities s))
     \<and> keys_match ops plain s
     \<and> (\<forall>r \<in> set (au_revocations s). rv_key_id r \<in> ad_key_id ` set (au_authorities s))
     \<and> (\<forall>a \<in> set (live s). trusted c (live s) (au_revocations s) time a)"

lemma find_live:
  "distinct_ids (au_authorities s) \<Longrightarrow> find_authority (live s) i = Some a
    \<longleftrightarrow> find_authority (au_authorities s) i = Some a \<and> ad_status a \<noteq> Revoked"
proof -
  have "distinct_ids m \<Longrightarrow> find_authority (filter (\<lambda>a. ad_status a \<noteq> Revoked) m) i = Some a
    \<longleftrightarrow> find_authority m i = Some a \<and> ad_status a \<noteq> Revoked" for m
  proof (induction m)
    case (Cons b m)
    have "ad_authority_id b \<noteq> i" if "find_authority m i = Some a"
      using Cons.prems find_authorityD [OF that] by (auto simp: distinct_ids_def image_iff)
    moreover have "find_authority (filter (\<lambda>a. ad_status a \<noteq> Revoked) m) i = Some a \<longleftrightarrow> find_authority m i = Some a \<and> ad_status a \<noteq> Revoked"
      using Cons by (simp add: distinct_ids_def)
    ultimately show ?case by (auto simp: find_authority_def)
  qed (simp add: find_authority_def)
  then show "distinct_ids (au_authorities s) \<Longrightarrow> find_authority (live s) i = Some a
    \<longleftrightarrow> find_authority (au_authorities s) i = Some a \<and> ad_status a \<noteq> Revoked" by (simp add: live_def)
qed

lemma distinct_live: "distinct_ids (au_authorities s) \<Longrightarrow> distinct_ids (live s)"
  by (simp add: distinct_ids_def live_def distinct_map_filter)

lemma trusted_extend:
  assumes "trusted c auths revs now a" "\<And>i x. find_authority auths i = Some x \<Longrightarrow> find_authority auths' i = Some x"
  shows "trusted c auths' revs now a"
  using assms(1)
proof (induction rule: trusted.induct)
  case (trusted_issued a ce issuer)
  show ?case
    by (rule trusted.trusted_issued [OF trusted_issued.hyps(1-3) assms(2) [OF trusted_issued.hyps(4)]
          trusted_issued.IH trusted_issued.hyps(6,7)])
qed (rule trusted.trusted_root)

lemma issue_cases:
  assumes "issue_subordinate_versioned c ops w parent_id i kind caps version now valid_until s = (s', Inr a)"
  obtains parent key p sig ce where "may_subordinate s parent_id kind caps version now = Inr parent"
    "kp_generate ops w (au_provider s) = (p, Inr key)" "find_authority (au_authorities s) i = None"
    "kp_sign ops p (ad_key_id parent)
       (certificate_payload c (certificate_body parent key i kind caps version now valid_until)) = Inr sig"
    "ce = (certificate_body parent key i kind caps version now valid_until)\<lparr>ce_signature := tc_b64_encode c sig\<rparr>"
    "a = subordinate_descriptor parent key ce"
    "au_provider s' = p" "au_authorities s' = put_authority a (au_authorities s)"
    "au_revocations s' = au_revocations s" "au_trust_epoch s' = au_trust_epoch s"
    "au_trust_root_set s' = au_trust_root_set s" "au_root_transitions s' = au_root_transitions s"
    "au_center_transitions s' = au_center_transitions s" "au_idempotency_results s' = au_idempotency_results s"
proof (cases "may_subordinate s parent_id kind caps version now")
  case (Inl e)
  with assms show ?thesis by (simp add: issue_subordinate_versioned_def)
next
  case (Inr parent)
  obtain p r where g: "kp_generate ops w (au_provider s) = (p, r)" by force
  show ?thesis
  proof (cases r)
    case (Inl e)
    with assms Inr g show ?thesis by (simp add: issue_subordinate_versioned_def \<open>may_subordinate s parent_id kind caps version now = Inr parent\<close>)
  next
    case (Inr key)
    note r = \<open>may_subordinate s parent_id kind caps version now = Inr parent\<close> g [unfolded Inr]
    from assms r have n: "find_authority (au_authorities s) i = None"
      by (auto simp: issue_subordinate_versioned_def split: if_splits)
    from assms r n obtain sig where sig: "kp_sign ops p (ad_key_id parent)
       (certificate_payload c (certificate_body parent key i kind caps version now valid_until)) = Inr sig"
      by (auto simp: issue_subordinate_versioned_def Let_def split: sum.splits)
    show ?thesis
      by (rule that [OF r n sig refl]) (use assms r n sig in \<open>auto simp: issue_subordinate_versioned_def Let_def\<close>)
  qed
qed

lemma may_subordinate_Inr:
  assumes "may_subordinate s parent_id kind caps version now = Inr parent"
  shows "find_authority (au_authorities s) parent_id = Some parent" "ad_authority_id parent = parent_id"
    "ad_status parent = Active \<or> ad_status parent = Rotating" "may_issue parent kind" "caps \<noteq> []" "version \<noteq> 0"
    "\<not> revoked_key (au_revocations s) (ad_key_id parent)" "required_capability kind \<noteq> None"
  using assms find_authorityD [of "au_authorities s" parent_id parent]
  by (auto simp: may_subordinate_def result_simps assert_active_def may_issue_def has_capability_def list_ex_iff
      split: if_splits)

text \<open>The certificate a provider's signature makes.\<close>

lemma certificate_signature:
  assumes "crypto_ok c" "verify_raw c (ad_public_key parent) (certificate_payload c body) sig = Inr ()"
  shows "signs_certificate c parent (body\<lparr>ce_signature := tc_b64_encode c sig\<rparr>)"
  using assms by (simp add: signs_certificate_signed_by signed_by_def crypto_ok_def)

lemma set_put_new:
  "find_authority m (ad_authority_id a) = None \<Longrightarrow> set (put_authority a m) = insert a (set m)"
  by (auto simp: set_put_authority find_authority_def find_None_iff)

lemma distinct_keys_put:
  assumes "distinct (map ad_key_id m)" "ad_key_id a \<notin> ad_key_id ` set m" "find_authority m (ad_authority_id a) = None"
  shows "distinct (map ad_key_id (put_authority a m))"
proof -
  have "filter (\<lambda>b. ad_authority_id b \<noteq> ad_authority_id a) m = m"
    using assms(3) by (auto simp: find_authority_def find_None_iff filter_id_conv)
  moreover have "mset (map ad_key_id (insort_key ad_authority_id a m)) = mset (map ad_key_id (a # m))" by simp
  ultimately show ?thesis using assms(1,2) unfolding put_authority_def
    by (metis distinct.simps(2) list.simps(9) list.set_map mset_eq_imp_distinct_iff)
qed

lemma live_put:
  assumes "ad_status a \<noteq> Revoked" "find_authority (au_authorities s) (ad_authority_id a) = None"
    "au_authorities s' = put_authority a (au_authorities s)"
  shows "set (live s') = insert a (set (live s))"
  using assms by (auto simp: live_def set_put_authority find_authority_def find_None_iff)

context key_provider_contract
begin

text \<open>The provider's keys after a key was generated.\<close>

lemma generate_keeps_keys:
  assumes "keys_match ops plain s" "lawful w" "kp_generate ops w (au_provider s) = (p, Inr key)"
    and "kd_key_id key \<notin> ad_key_id ` set (au_authorities s)"
  shows "keys_match ops plain (s\<lparr>au_provider := p\<rparr>)"
proof -
  have "kp_load ops p (ad_key_id a) = kp_load ops (au_provider s) (ad_key_id a)" if "a \<in> set (au_authorities s)" for a
  proof (rule generate_keeps [OF assms(3), where d' = key])
    show "plain (ad_key_id a)" using assms(1) that by (auto simp: keys_match_def)
    show "Inr key \<noteq> Inr key \<or> kd_key_id key \<noteq> ad_key_id a" using assms(4) that by auto
    show "\<And>e. Inr key = Inr e \<Longrightarrow> kd_key_id e \<noteq> ad_key_id a" using assms(4) that by auto
  qed
  then show ?thesis using assms(1) by (auto simp: keys_match_def)
qed

lemma generated_matches:
  assumes "lawful w" "kp_generate ops w p = (p', Inr key)" "kp_load ops p' (kd_key_id key) = Inr d"
  shows "kd_public_key d = kd_public_key key" "plain (kd_key_id key)"
  using generated_loads [OF assms(1,2)] assms(3) by auto

text \<open>A signature the provider makes with the key of an authority.\<close>

lemma authority_signature:
  assumes "keys_match ops plain s" "crypto_ok c" "a \<in> set (au_authorities s)"
    and "kp_sign ops (au_provider s) (ad_key_id a) m = Inr sig"
  shows "verify_raw c (ad_public_key a) m sig = Inr ()" "signed_by c (ad_public_key a) m (tc_b64_encode c sig)"
proof -
  obtain d where d: "kp_load ops (au_provider s) (ad_key_id a) = Inr d" using signer_loads [OF assms(4)] by blast
  then have "kd_public_key d = ad_public_key a" using assms(1,3) by (auto simp: keys_match_def)
  with signature_verifies [OF assms(2,4) d] show v: "verify_raw c (ad_public_key a) m sig = Inr ()" by simp
  then show "signed_by c (ad_public_key a) m (tc_b64_encode c sig)"
    using assms(2) by (simp add: signed_by_def crypto_ok_def)
qed

text \<open>
  A new authority with the generated key, under a new identity, keeps the service well formed when
  it is trusted itself: the keys, the revocations and the chains of the others are as before.
\<close>

lemma put_keeps_ok:
  assumes ok: "service_ok c ops plain time s" and laws: "lawful w"
    and gen: "kp_generate ops w (au_provider s) = (p, Inr key)"
    and fresh: "ad_key_id a \<notin> ad_key_id ` set (au_authorities s)"
      "find_authority (au_authorities s) (ad_authority_id a) = None"
    and a: "ad_key_id a = kd_key_id key" "ad_public_key a = kd_public_key key" "ad_status a \<noteq> Revoked"
    and st: "au_provider s' = p" "au_authorities s' = put_authority a (au_authorities s)"
      "au_revocations s' = au_revocations s"
    and new: "keys_match ops plain (s\<lparr>au_provider := p\<rparr>) \<Longrightarrow> \<not> revoked_key (au_revocations s) (ad_key_id a) \<Longrightarrow>
      (\<And>j x. find_authority (live s) j = Some x \<Longrightarrow> find_authority (live s') j = Some x) \<Longrightarrow>
      (\<And>x. x \<in> set (live s) \<Longrightarrow> trusted c (live s') (au_revocations s) time x) \<Longrightarrow>
      trusted c (live s') (au_revocations s) time a"
  shows "service_ok c ops plain time s'"
proof -
  from ok have ids: "distinct_ids (au_authorities s)" and km: "keys_match ops plain s"
    and rev: "\<forall>r \<in> set (au_revocations s). rv_key_id r \<in> ad_key_id ` set (au_authorities s)"
    and tr: "\<forall>x \<in> set (live s). trusted c (live s) (au_revocations s) time x" by (simp_all add: service_ok_def)
  have ids': "distinct_ids (au_authorities s')" by (simp add: st(2) distinct_put_authority [OF ids])
  have more: "find_authority (live s') j = Some x" if "find_authority (live s) j = Some x" for j x
    using that fresh(2) by (auto simp: find_live [OF ids] find_live [OF ids'] st(2) find_put_authority)
  have live: "set (live s') = insert a (set (live s))" by (rule live_put) (simp_all add: a fresh(2) st(2))
  have km1: "keys_match ops plain (s\<lparr>au_provider := p\<rparr>)"
    by (rule generate_keeps_keys [OF km laws gen]) (use fresh(1) a(1) in simp)
  have old: "trusted c (live s') (au_revocations s) time x" if "x \<in> set (live s)" for x
    using tr that more by (blast intro: trusted_extend)
  have "\<not> revoked_key (au_revocations s) (ad_key_id a)"
  proof
    assume "revoked_key (au_revocations s) (ad_key_id a)"
    then obtain r where r: "r \<in> set (au_revocations s)" "rv_key_id r = ad_key_id a"
      by (auto simp: revoked_key_def list_ex_iff)
    from bspec [OF rev r(1)] show False using fresh(1) r(2) by simp
  qed
  then have "trusted c (live s') (au_revocations s) time a" using new [OF km1] more old by blast
  then have "\<forall>x \<in> set (live s'). trusted c (live s') (au_revocations s') time x"
    using old by (simp add: live st(3))
  moreover have "keys_match ops plain s'"
    using km1 generated_matches [OF laws gen] generated_loads [OF laws gen]
    by (auto simp: keys_match_def st(1,2) set_put_authority a)
  moreover have "distinct (map ad_key_id (au_authorities s'))"
    unfolding st(2) using ok fresh by (intro distinct_keys_put) (simp_all add: service_ok_def)
  moreover have "\<forall>r \<in> set (au_revocations s'). rv_key_id r \<in> ad_key_id ` set (au_authorities s')"
    using rev fresh(2) by (simp add: st(2,3) set_put_new)
  ultimately show ?thesis using ids' by (simp add: service_ok_def)
qed

lemma issue_keeps_ok:
  assumes ok: "service_ok c ops plain time s" and laws: "crypto_ok c" "lawful w"
    and issue: "issue_subordinate_versioned c ops w parent_id i kind caps version now valid_until s = (s', Inr a)"
    and fresh: "ad_key_id a \<notin> ad_key_id ` set (au_authorities s)"
    and times: "now \<le> time" "\<forall>v. valid_until = Some v \<longrightarrow> time \<le> v"
  shows "service_ok c ops plain time s'"
proof -
  obtain parent key p sig ce where st: "may_subordinate s parent_id kind caps version now = Inr parent"
    "kp_generate ops w (au_provider s) = (p, Inr key)" "find_authority (au_authorities s) i = None"
    "kp_sign ops p (ad_key_id parent)
       (certificate_payload c (certificate_body parent key i kind caps version now valid_until)) = Inr sig"
    "ce = (certificate_body parent key i kind caps version now valid_until)\<lparr>ce_signature := tc_b64_encode c sig\<rparr>"
    "a = subordinate_descriptor parent key ce"
    "au_provider s' = p" "au_authorities s' = put_authority a (au_authorities s)"
    "au_revocations s' = au_revocations s"
    by (rule issue_cases [OF issue])
  note par = may_subordinate_Inr [OF st(1)]
  have a: "ad_authority_id a = i" "ad_kind a = kind" "ad_key_id a = kd_key_id key" "ad_public_key a = kd_public_key key"
    "ad_algorithm a = trust_fabric_algorithm" "ad_status a = Active" "ad_valid_from a = now" "ad_valid_until a = valid_until"
    "ad_issuer_authority_id a = Some (ad_authority_id parent)" "ad_issuer_key_id a = Some (ad_key_id parent)"
    "ad_certificate a = Some ce"
    by (simp_all add: st(5,6) subordinate_descriptor_def certificate_body_def)
  have ce: "ce_authority_id ce = i" "ce_key_id ce = kd_key_id key" "ce_public_key ce = kd_public_key key"
    "ce_issuer_authority_id ce = ad_authority_id parent" "ce_issuer_key_id ce = ad_key_id parent"
    by (simp_all add: st(5) certificate_body_def)
  have ids: "distinct_ids (au_authorities s)" using ok by (simp add: service_ok_def)
  have mem: "parent \<in> set (au_authorities s)" using find_authorityD par(1) by blast
  have parent_live: "parent \<in> set (live s)" "find_authority (live s) (ad_authority_id parent) = Some parent"
    using par(1-3) mem by (auto simp: live_def find_live [OF ids, unfolded live_def])
  show ?thesis
  proof (rule put_keeps_ok [where a = a, OF ok laws(2) st(2) fresh _ a(3,4) _ st(7-9)])
    assume km1: "keys_match ops plain (s\<lparr>au_provider := p\<rparr>)" and rev: "\<not> revoked_key (au_revocations s) (ad_key_id a)"
      and more: "\<And>j x. find_authority (live s) j = Some x \<Longrightarrow> find_authority (live s') j = Some x"
      and old: "\<And>x. x \<in> set (live s) \<Longrightarrow> trusted c (live s') (au_revocations s) time x"
    have "verify_raw c (ad_public_key parent) (certificate_payload c
        (certificate_body parent key i kind caps version now valid_until)) sig = Inr ()"
      by (rule authority_signature(1) [OF km1 laws(1)]) (use mem st(4) in simp_all)
    from certificate_signature [OF laws(1) this] have signed: "signs_certificate c parent ce" by (simp add: st(5))
    show "trusted c (live s') (au_revocations s) time a"
    proof (rule trusted_issued [where ce = ce and issuer = parent])
      show "\<not> descriptor_rejected (au_revocations s) time a"
        using times rev by (auto simp: a descriptor_rejected_def not_less result_simps)
      show "find_authority (live s') (ce_issuer_authority_id ce) = Some parent" using more [OF parent_live(2)] by (simp add: ce)
      show "\<not> certificate_out_of_scope a ce" by (simp add: a ce certificate_out_of_scope_def result_simps)
    qed (use old [OF parent_live(1)] par(4) signed in \<open>simp_all add: a\<close>)
  qed (simp_all add: a st(3))
qed

lemma root_keeps_ok:
  assumes ok: "service_ok c ops plain time s" and laws: "lawful w"
    and init: "initialize_root ops w i now s = (s', Inr r)"
    and fresh: "ad_key_id (pt_authority r) \<notin> ad_key_id ` set (au_authorities s)"
      "find_authority (au_authorities s) i = None"
    and times: "now \<le> time"
  shows "service_ok c ops plain time s'"
proof -
  obtain p key where g: "kp_generate ops w (au_provider s) = (p, Inr key)"
    and r: "pt_authority r = root_descriptor i key now"
    and st: "au_provider s' = p" "au_authorities s' = put_authority (root_descriptor i key now) (au_authorities s)"
      "au_revocations s' = au_revocations s"
    using init by (auto simp: initialize_root_def Let_def split: if_splits prod.splits sum.splits)
  show ?thesis
  proof (rule put_keeps_ok [where a = "root_descriptor i key now", OF ok laws g _ _ _ _ _ st])
    assume "\<not> revoked_key (au_revocations s) (ad_key_id (root_descriptor i key now))"
    then show "trusted c (live s') (au_revocations s) time (root_descriptor i key now)"
      using times by (intro trusted_root) (simp_all add: root_descriptor_def descriptor_rejected_def not_less)
  qed (use fresh r in \<open>simp_all add: root_descriptor_def\<close>)
qed

end

section \<open>The bundle of a well-formed service\<close>

lemma mset_by_kind:
  "mset m = mset (filter (\<lambda>a. ad_kind a = ProductTrustRoot) m) + mset (filter (\<lambda>a. ad_kind a = DeploymentAuthority) m)
     + mset (filter (\<lambda>a. ad_kind a = DeploymentRoot) m) + mset (filter (\<lambda>a. ad_kind a = CenterAuthority) m)
     + mset (filter (\<lambda>a. ad_kind a = EnrollmentAuthority) m) + mset (filter (\<lambda>a. ad_kind a = ReleaseAuthority) m)
     + mset (filter (\<lambda>a. ad_kind a = ProductSigningAuthority) m) + mset (filter (\<lambda>a. ad_kind a = HostIdentity) m)"
proof (induction m)
  case (Cons a m)
  then show ?case by (cases "ad_kind a") simp_all
qed simp

lemma unrevoked_live: "unrevoked s kind = filter (\<lambda>a. ad_kind a = kind) (live s)"
  by (simp add: unrevoked_def live_def conj_commute)

lemma service_bundle_cases:
  assumes "service_trust_bundle c ops root_id now expires_at s = (s', Inr sb)"
  obtains root sig where "find_authority (au_authorities s) root_id = Some root" "ad_kind root = ProductTrustRoot"
    "kp_sign ops (au_provider s) (ad_key_id root) (trust_bundle_payload c (assemble_bundle root now expires_at s)) = Inr sig"
    "sb_bundle sb = assemble_bundle root now expires_at s" "sb_signing_key_id sb = ad_key_id root"
    "sb_signature sb = tc_b64_encode c sig" "sb_algorithm sb = trust_fabric_algorithm"
  using assms by (auto simp: service_trust_bundle_def Let_def result_simps split: sum.splits if_splits)

lemma assembled_fields [simp]:
  "tb_contract (assemble_bundle root now expires_at s) = trust_bundle_contract"
  "tb_trust_epoch (assemble_bundle root now expires_at s) = au_trust_epoch s"
  "tb_expires_at (assemble_bundle root now expires_at s) = expires_at"
  "tb_issued_at (assemble_bundle root now expires_at s) = now"
  "tb_issuer (assemble_bundle root now expires_at s) = ad_authority_id root"
  "tb_revocations (assemble_bundle root now expires_at s) = au_revocations s"
  "tb_root_transitions (assemble_bundle root now expires_at s) = au_root_transitions s"
  by (simp_all add: assemble_bundle_def Let_def)

text \<open>A bundle can hold one deployment authority, one deployment root and no host identity.\<close>

definition fits_bundle :: "'p authority_service \<Rightarrow> bool" where
  "fits_bundle s \<longleftrightarrow> length (unrevoked s DeploymentAuthority) \<le> 1 \<and> length (unrevoked s DeploymentRoot) \<le> 1
     \<and> unrevoked s HostIdentity = []"

lemma first_of_single: "length xs \<le> 1 \<Longrightarrow> mset (case_option [] (\<lambda>a. [a]) (first_of xs)) = mset xs"
  by (cases xs) (simp_all add: first_of_def)

lemma last_butlast_mset:
  "mset (case_option [] (\<lambda>a. [a]) (if xs = [] then None else Some (last xs))) + mset (butlast xs) = mset xs"
proof (cases "xs = []")
  case False
  then have "mset xs = mset (butlast xs @ [last xs])" by simp
  then show ?thesis using False by (simp del: append_butlast_last_id)
qed simp

lemma bundle_authorities_live:
  assumes "fits_bundle s"
  shows "mset (bundle_authorities (assemble_bundle root now expires_at s)) = mset (live s)"
proof -
  have roots: "map pt_authority (tb_product_roots (assemble_bundle root now expires_at s)) = unrevoked s ProductTrustRoot"
    by (simp add: assemble_bundle_def Let_def comp_def)
  have centers: "mset (case_option [] (\<lambda>a. [a]) (tb_center_authority (assemble_bundle root now expires_at s)))
      + mset (tb_predecessor_center_authorities (assemble_bundle root now expires_at s)) = mset (unrevoked s CenterAuthority)"
    using last_butlast_mset [of "sort_key ad_version (unrevoked s CenterAuthority)"]
    by (simp add: assemble_bundle_def Let_def)
  have "mset (bundle_authorities (assemble_bundle root now expires_at s))
    = mset (unrevoked s ProductTrustRoot) + mset (unrevoked s DeploymentAuthority) + mset (unrevoked s DeploymentRoot)
      + mset (unrevoked s CenterAuthority) + mset (unrevoked s EnrollmentAuthority) + mset (unrevoked s ReleaseAuthority)
      + mset (unrevoked s ProductSigningAuthority)"
    unfolding bundle_authorities_def roots mset_append centers [symmetric]
    using assms first_of_single [of "unrevoked s DeploymentAuthority"] first_of_single [of "unrevoked s DeploymentRoot"]
    by (simp add: assemble_bundle_def Let_def fits_bundle_def)
  also have "\<dots> = mset (live s)"
    using assms mset_by_kind [of "live s"] by (simp add: unrevoked_live fits_bundle_def)
  finally show ?thesis .
qed

lemma find_same_authorities:
  assumes "distinct_ids m" "set m = set m'" "distinct_ids m'"
  shows "find_authority m i = find_authority m' i"
proof (cases "find_authority m i")
  case None
  then have "find_authority m' i = None" using assms(2) by (auto simp: find_authority_def find_None_iff)
  with None show ?thesis by simp
next
  case (Some a)
  then have "a \<in> set m'" "ad_authority_id a = i" using find_authorityD assms(2) by blast+
  then show ?thesis using distinct_found [OF assms(3)] Some by auto
qed

lemma find_root_by_key:
  assumes "distinct (map ad_key_id (au_authorities s))" "root \<in> set (unrevoked s ProductTrustRoot)"
  shows "\<exists>r. find_root (assemble_bundle x now expires_at s) (ad_key_id root) = Some r \<and> pt_authority r = root
    \<and> pt_trust_root_set r = au_trust_root_set s"
proof -
  let ?b = "assemble_bundle x now expires_at s"
  have roots: "tb_product_roots ?b = map (\<lambda>a. \<lparr> pt_authority = a, pt_trust_root_set = au_trust_root_set s,
      pt_root_version = ad_version a, pt_activation_epoch = au_trust_epoch s, pt_retirement_epoch = None \<rparr>)
      (unrevoked s ProductTrustRoot)" by (simp add: assemble_bundle_def Let_def)
  have "find_root ?b (ad_key_id root) \<noteq> None"
    using assms(2) by (auto simp: find_root_def roots find_None_iff)
  then obtain r where r: "find_root ?b (ad_key_id root) = Some r" by auto
  from find_SomeD [OF r [unfolded find_root_def]] have m: "r \<in> set (tb_product_roots ?b)"
    "ad_key_id (pt_authority r) = ad_key_id root" by simp_all
  then have "pt_authority r \<in> set (au_authorities s)" "root \<in> set (au_authorities s)"
    using assms(2) by (auto simp: roots unrevoked_def)
  then have "pt_authority r = root" using m(2) assms(1) by (auto simp: distinct_map inj_on_def)
  then show ?thesis using r m(1) by (auto simp: roots)
qed

context key_provider_contract
begin

lemma bundle_verifies:
  assumes ok: "service_ok c ops plain time s" and laws: "crypto_ok c" and fits: "fits_bundle s"
    and root: "find_authority (au_authorities s) root_id = Some root" "ad_status root \<noteq> Revoked"
    and times: "\<forall>v. expires_at = Some v \<longrightarrow> time \<le> v" "now \<le> time + 60"
    and transitions: "\<forall>t \<in> set (au_root_transitions s). dual_signed c (assemble_bundle root now expires_at s) t"
    and issued: "service_trust_bundle c ops root_id now expires_at s = (s', Inr sb)"
  shows "acceptable_bundle c sb time (au_trust_epoch s)"
proof -
  let ?b = "assemble_bundle root now expires_at s"
  from issued root obtain sig where kind: "ad_kind root = ProductTrustRoot"
    and sign: "kp_sign ops (au_provider s) (ad_key_id root) (trust_bundle_payload c ?b) = Inr sig"
    and sb: "sb = \<lparr> sb_bundle = ?b, sb_signature = tc_b64_encode c sig, sb_signing_key_id = ad_key_id root,
      sb_algorithm = trust_fabric_algorithm \<rparr>"
    by (auto simp: service_trust_bundle_def Let_def result_simps split: sum.splits if_splits)
  from ok have ids: "distinct_ids (au_authorities s)" and keys: "distinct (map ad_key_id (au_authorities s))"
    and km: "keys_match ops plain s"
    and tr: "\<forall>x \<in> set (live s). trusted c (live s) (au_revocations s) time x" by (simp_all add: service_ok_def)
  have mem: "root \<in> set (au_authorities s)" using find_authorityD root(1) by blast
  have ms: "mset (bundle_authorities ?b) = mset (live s)" by (rule bundle_authorities_live [OF fits])
  have same: "set (live s) = set (bundle_authorities ?b)" using ms by (metis set_mset_mset)
  have dist: "distinct_ids (bundle_authorities ?b)"
    using distinct_live [OF ids] ms unfolding distinct_ids_def by (metis mset_map mset_eq_imp_distinct_iff)
  have "trusted c (bundle_authorities ?b) (au_revocations s) time x" if "x \<in> set (bundle_authorities ?b)" for x
    using tr that same trusted_lookup [OF _ find_same_authorities [OF distinct_live [OF ids] same dist]] by blast
  moreover obtain r where r: "find_root ?b (ad_key_id root) = Some r" "pt_authority r = root"
    using find_root_by_key [OF keys, of root root now expires_at] mem kind root(2) by (auto simp: unrevoked_def)
  moreover have "signed_by c (ad_public_key root) (trust_bundle_payload c ?b) (tc_b64_encode c sig)"
    by (rule authority_signature(2) [OF km laws mem sign])
  moreover have "tb_contract ?b = trust_bundle_contract" "tb_trust_epoch ?b = au_trust_epoch s"
    "tb_expires_at ?b = expires_at" "tb_issued_at ?b = now" "tb_issuer ?b = ad_authority_id root"
    "tb_revocations ?b = au_revocations s" "tb_root_transitions ?b = au_root_transitions s"
    by (simp_all add: assemble_bundle_def Let_def)
  ultimately show ?thesis using dist times transitions kind
    by (auto simp: acceptable_bundle_def Let_def sb distinct_ids_def)
qed

end

section \<open>The succession of the centre\<close>

lemma set_successor_capabilities:
  "set (successor_capabilities caps) = insert remote_operations_signing_capability (set caps)"
  by (auto simp: successor_capabilities_def list_ex_iff)

lemma transition_payload_signed [simp]:
  "center_transition_payload c (t\<lparr>ct_signatures := x\<rparr>) = center_transition_payload c t"
  by (simp add: center_transition_payload_def unsigned_transition)

lemma validated_request:
  assumes "validate_center_authority_reissue_request c r now auth s = Some (Inr (predecessor, issuer, caps, epoch))"
  shows "predecessor \<in> set (au_authorities s)" "ad_kind predecessor = CenterAuthority"
    "ad_status predecessor = Active \<or> ad_status predecessor = Rotating"
    "issuer \<in> set (au_authorities s)" "ad_kind issuer = DeploymentRoot" "has_capability issuer (authority_capability DeploymentRoot)"
    "ad_status issuer = Active \<or> ad_status issuer = Rotating" "find_authority (au_authorities s) (ad_authority_id issuer) = Some issuer"
    "caps = successor_capabilities (ad_capabilities predecessor)" "au_trust_epoch s < epoch"
    "check_reissue_request s auth r = Inr ()"
    "service_chain c s now predecessor = Some (Inr ())" "service_chain c s now issuer = Some (Inr ())"
    "ad_issuer_authority_id predecessor = Some (ad_authority_id issuer)"
    "ad_authority_id predecessor = rq_predecessor_authority_id r"
proof -
  from assms have v: "check_reissue_request s auth r = Inr ()" "find_predecessor s r = Inr predecessor"
    "service_chain c s now predecessor = Some (Inr ())" "find_reissuer s predecessor = Inr issuer"
    "service_chain c s now issuer = Some (Inr ())"
    and e: "caps = successor_capabilities (ad_capabilities predecessor)" "au_trust_epoch s < epoch"
    by (auto simp: validate_center_authority_reissue_request_def Let_def result_simps not_le split: if_splits)
  show "check_reissue_request s auth r = Inr ()" "caps = successor_capabilities (ad_capabilities predecessor)"
    "au_trust_epoch s < epoch" "service_chain c s now predecessor = Some (Inr ())"
    "service_chain c s now issuer = Some (Inr ())" by (fact v e)+
  show "predecessor \<in> set (au_authorities s)" "ad_kind predecessor = CenterAuthority"
    "ad_status predecessor = Active \<or> ad_status predecessor = Rotating"
    using v(2) by (auto simp: find_predecessor_def result_simps dest: find_authorityD)
  show "issuer \<in> set (au_authorities s)" "ad_kind issuer = DeploymentRoot" "has_capability issuer (authority_capability DeploymentRoot)"
    "find_authority (au_authorities s) (ad_authority_id issuer) = Some issuer"
    using v(4) by (auto simp: find_reissuer_def result_simps dest: find_authorityD)
  show "ad_issuer_authority_id predecessor = Some (ad_authority_id issuer)"
    using v(4) by (auto simp: find_reissuer_def result_simps dest: find_authorityD)
  show "ad_authority_id predecessor = rq_predecessor_authority_id r"
    using v(2) by (auto simp: find_predecessor_def result_simps dest: find_authorityD)
  show "ad_status issuer = Active \<or> ad_status issuer = Rotating"
    using v(5) by (auto simp: service_chain_def verify_chain_step assert_active_def result_simps)
qed

lemma issue_transition_cases:
  assumes "issue_transition c ops w r now predecessor issuer caps epoch s = (s', Inr t)"
  obtains s1 successor ce sig where
    "issue_subordinate_versioned c ops w (ad_authority_id issuer) (successor_id_of predecessor) CenterAuthority caps
       (ad_version predecessor + 1) now (ad_valid_until predecessor) s = (s1, Inr successor)"
    "ad_certificate successor = Some ce"
    "kp_sign ops (au_provider s1) (ad_key_id issuer) (center_transition_payload c t) = Inr sig"
    "t = (unsigned_transition_of r (au_trust_root_set s) predecessor successor issuer ce caps epoch now
       (request_digest_hex c r))\<lparr>ct_signatures := [\<lparr> ts_authority_id = ad_authority_id issuer,
         ts_key_id = ad_key_id issuer, ts_algorithm = trust_fabric_algorithm, ts_signature = tc_b64_encode c sig \<rparr>]\<rparr>"
    "au_authorities s' = au_authorities s1" "au_provider s' = au_provider s1" "au_revocations s' = au_revocations s1"
proof -
  obtain s1 x where i: "issue_subordinate_versioned c ops w (ad_authority_id issuer) (successor_id_of predecessor) CenterAuthority caps
       (ad_version predecessor + 1) now (ad_valid_until predecessor) s = (s1, x)" by force
  then obtain successor where x: "x = Inr successor" using assms by (cases x) (auto simp: issue_transition_def)
  then obtain ce where ce: "ad_certificate successor = Some ce"
    using assms i by (cases "ad_certificate successor") (auto simp: issue_transition_def)
  let ?t = "unsigned_transition_of r (au_trust_root_set s) predecessor successor issuer ce caps epoch now
       (request_digest_hex c r)"
  obtain sig where sig: "kp_sign ops (au_provider s1) (ad_key_id issuer) (center_transition_payload c ?t) = Inr sig"
    using assms i x ce by (auto simp: issue_transition_def Let_def split: sum.splits)
  show ?thesis
    by (rule that [OF i [unfolded x] ce]) (use assms i x ce sig in \<open>auto simp: issue_transition_def Let_def\<close>)
qed

text \<open>A live centre is the centre of the bundle or one of its predecessors.\<close>

lemma found_predecessor:
  assumes "distinct_ids (au_authorities s)" "p \<in> set (unrevoked s CenterAuthority)"
    and "ct_predecessor_authority_id t = ad_authority_id p" "ct_predecessor_key_id t = ad_key_id p"
  shows "transition_predecessor t (assemble_bundle root now expires_at s) = Some p"
proof -
  let ?cs = "sort_key ad_version (unrevoked s CenterAuthority)"
  have same: "x = p" if "x \<in> set ?cs" "ad_authority_id x = ad_authority_id p" for x
    using assms(1,2) that by (auto simp: unrevoked_def distinct_ids_def distinct_map inj_on_def)
  have p: "p \<in> set ?cs" using assms(2) by simp
  then have ne: "?cs \<noteq> []" by (metis empty_iff empty_set)
  show ?thesis
  proof (cases "last ?cs = p")
    case True
    then show ?thesis using ne assms(3,4) by (simp add: transition_predecessor_def assemble_bundle_def Let_def)
  next
    case False
    have bl: "?cs = butlast ?cs @ [last ?cs]" using ne by simp
    then have "p \<in> set (butlast ?cs @ [last ?cs])" using p by simp
    then have "p \<in> set (butlast ?cs)" using False by auto
    moreover have "\<not> (ad_authority_id (last ?cs) = ad_authority_id p \<and> ad_key_id (last ?cs) = ad_key_id p)"
      using same [of "last ?cs"] False ne last_in_set by blast
    moreover have "find (\<lambda>a. ad_authority_id a = ad_authority_id p \<and> ad_key_id a = ad_key_id p) xs = Some p"
      if "p \<in> set xs" "set xs \<subseteq> set ?cs" for xs
      using that same by (induction xs) auto
    moreover have "set (butlast ?cs) \<subseteq> set ?cs" using in_set_butlastD by fast
    ultimately have other: "\<not> (ad_authority_id (last ?cs) = ad_authority_id p \<and> ad_key_id (last ?cs) = ad_key_id p)"
      and found: "find (\<lambda>a. ad_authority_id a = ad_authority_id p \<and> ad_key_id a = ad_key_id p) (butlast ?cs) = Some p"
      by blast+
    then show ?thesis using ne assms(3,4)
      by (auto simp: transition_predecessor_def assemble_bundle_def Let_def)
  qed
qed

context key_provider_contract
begin

lemma issued_transition_verifies:
  assumes ok: "service_ok c ops plain now s" and laws: "crypto_ok c" "lawful w"
    and past: "service_ok c ops plain now s0" "fits_bundle s0" "au_trust_root_set s0 = au_trust_root_set s"
      "au_trust_epoch s0 \<le> au_trust_epoch s"
    and root: "find_authority (au_authorities s0) root_id = Some root" "ad_status root \<noteq> Revoked"
    and issued: "service_trust_bundle c ops root_id issued_at expires_at s0 = (s2, Inr sb)"
    and named: "predecessor \<in> set (unrevoked s0 CenterAuthority)" "issuer \<in> set (unrevoked s0 DeploymentRoot)"
    and now: "now \<le> later + 60"
    and valid: "validate_center_authority_reissue_request c r now True s = Some (Inr (predecessor, issuer, caps, epoch))"
    and trans: "issue_transition c ops w r now predecessor issuer caps epoch s = (s', Inr t)"
    and fresh: "ct_successor_key_id t \<notin> ad_key_id ` set (au_authorities s)"
    and lasts: "\<forall>v. ad_valid_until predecessor = Some v \<longrightarrow> now \<le> v"
  shows "verify_center_authority_transition c t sb later = Inr ()"
proof -
  let ?b = "assemble_bundle root issued_at expires_at s0"
  from past(1) have ids: "distinct_ids (au_authorities s0)" and keys: "distinct (map ad_key_id (au_authorities s0))"
    by (simp_all add: service_ok_def)
  note v = validated_request [OF valid]
  from issued root have kind: "ad_kind root = ProductTrustRoot"
    and sb: "sb_bundle sb = ?b" "sb_signing_key_id sb = ad_key_id root"
    by (auto simp: service_trust_bundle_def Let_def result_simps split: sum.splits if_splits)
  obtain s1 successor ce sig where st:
    "issue_subordinate_versioned c ops w (ad_authority_id issuer) (successor_id_of predecessor) CenterAuthority caps
       (ad_version predecessor + 1) now (ad_valid_until predecessor) s = (s1, Inr successor)"
    "ad_certificate successor = Some ce"
    "kp_sign ops (au_provider s1) (ad_key_id issuer) (center_transition_payload c t) = Inr sig"
    "t = (unsigned_transition_of r (au_trust_root_set s) predecessor successor issuer ce caps epoch now
       (request_digest_hex c r))\<lparr>ct_signatures := [\<lparr> ts_authority_id = ad_authority_id issuer,
         ts_key_id = ad_key_id issuer, ts_algorithm = trust_fabric_algorithm, ts_signature = tc_b64_encode c sig \<rparr>]\<rparr>"
    by (rule issue_transition_cases [OF trans])
  have tf: "ct_contract t = center_authority_reissue_contract" "ct_status t = TransitionIssued"
    "ct_trust_root_set t = au_trust_root_set s" "ct_activation_epoch t = epoch" "ct_issued_at t = now"
    "ct_predecessor_authority_id t = ad_authority_id predecessor" "ct_predecessor_key_id t = ad_key_id predecessor"
    "ct_issuer_authority_id t = ad_authority_id issuer" "ct_issuer_key_id t = ad_key_id issuer"
    "ct_successor_authority_id t = ad_authority_id successor" "ct_successor_key_id t = ad_key_id successor"
    "ct_successor_certificate_version t = ad_version successor" "ct_required_capabilities t = caps"
    "ct_proof t = transition_proof ce"
    "ct_signatures t = [\<lparr> ts_authority_id = ad_authority_id issuer, ts_key_id = ad_key_id issuer,
       ts_algorithm = trust_fabric_algorithm, ts_signature = tc_b64_encode c sig \<rparr>]"
    by (simp_all add: st(4) unsigned_transition_of_def)
  obtain parent key p csig where iss: "may_subordinate s (ad_authority_id issuer) CenterAuthority caps (ad_version predecessor + 1) now = Inr parent"
    "kp_generate ops w (au_provider s) = (p, Inr key)" "find_authority (au_authorities s) (successor_id_of predecessor) = None"
    "kp_sign ops p (ad_key_id parent) (certificate_payload c (certificate_body parent key (successor_id_of predecessor)
       CenterAuthority caps (ad_version predecessor + 1) now (ad_valid_until predecessor))) = Inr csig"
    and suc: "successor = subordinate_descriptor parent key ((certificate_body parent key (successor_id_of predecessor)
       CenterAuthority caps (ad_version predecessor + 1) now (ad_valid_until predecessor))\<lparr>ce_signature := tc_b64_encode c csig\<rparr>)"
    and s1: "au_provider s1 = p" "au_authorities s1 = put_authority successor (au_authorities s)"
    by (rule issue_cases [OF st(1)]) metis
  have parent: "parent = issuer" using may_subordinate_Inr(1) [OF iss(1)] v(8) by simp
  let ?body = "certificate_body issuer key (successor_id_of predecessor) CenterAuthority caps (ad_version predecessor + 1) now (ad_valid_until predecessor)"
  have ce: "ce = ?body\<lparr>ce_signature := tc_b64_encode c csig\<rparr>"
    using st(2) suc by (simp add: subordinate_descriptor_def parent)
  have cf: "ce_authority_id ce = ad_authority_id successor" "ce_key_id ce = ad_key_id successor"
    "ce_version ce = ad_version successor" "ce_issuer_authority_id ce = ad_authority_id issuer"
    "ce_issuer_key_id ce = ad_key_id issuer" "ce_kind ce = CenterAuthority" "ce_capabilities ce = caps"
    by (simp_all add: ce suc subordinate_descriptor_def certificate_body_def parent)
  have other_key: "ad_key_id successor \<noteq> ad_key_id predecessor" using fresh v(1) tf(11) by auto
  have ok1: "service_ok c ops plain now s1"
    by (rule issue_keeps_ok [OF ok laws st(1)]) (use fresh tf(11) lasts in simp_all)
  then have km1: "keys_match ops plain s1" by (simp add: service_ok_def)
  have mem1: "issuer \<in> set (au_authorities s1)"
    using v(4,8) iss(3) suc by (auto simp: s1 set_put_authority subordinate_descriptor_def certificate_body_def)
  have cert: "signed_by c (ad_public_key issuer) (certificate_payload c ce) (ce_signature ce)"
    using authority_signature(2) [OF km1 laws(1) mem1, of "certificate_payload c ?body" csig] iss(4)
    by (simp add: s1(1) parent ce)
  have tsig: "signed_by c (ad_public_key issuer) (center_transition_payload c t) (tc_b64_encode c sig)"
    by (rule authority_signature(2) [OF km1 laws(1) mem1 st(3)])
  obtain rt where rt: "find_root ?b (ad_key_id root) = Some rt" "pt_trust_root_set rt = au_trust_root_set s"
    using find_root_by_key [OF keys, of root root issued_at expires_at] root kind past(3) find_authorityD
    by (fastforce simp: unrevoked_def)
  have pred: "transition_predecessor t ?b = Some predecessor"
    by (rule found_predecessor [OF ids named(1)]) (simp_all add: tf)
  have "tb_deployment_root ?b = Some issuer"
    using named(2) past(2) by (cases "unrevoked s0 DeploymentRoot") (auto simp: assemble_bundle_def Let_def first_of_def fits_bundle_def)
  then have iss': "transition_issuer t ?b = Some issuer" by (simp add: transition_issuer_def tf)
  have parse: "tc_parse_certificate c (certificate_json ce) = Some ce" using laws(1) by (simp add: crypto_ok_def)
  have scope: "\<not> successor_out_of_scope t issuer ce" using other_key by (simp add: successor_out_of_scope_def tf cf)
  have caps: "set caps = insert remote_operations_signing_capability (set (ad_capabilities predecessor))"
    by (simp add: v(9) set_successor_capabilities)
  have epoch: "tb_trust_epoch ?b = au_trust_epoch s0" by simp
  obtain sg where sg: "tc_b64_decode c (ce_signature ce) = Some sg" "verify_raw c (ad_public_key issuer) (certificate_payload c ce) sg = Inr ()"
    using cert by (auto simp: signed_by_def)
  obtain ts where ts: "tc_b64_decode c (tc_b64_encode c sig) = Some ts"
    "verify_raw c (ad_public_key issuer) (center_transition_payload c t) ts = Inr ()"
    using tsig by (auto simp: signed_by_def)
  have remote: "list_ex (\<lambda>x. x = remote_operations_signing_capability) caps"
    "\<not> list_ex (\<lambda>x. x \<notin> set (ad_capabilities predecessor) \<and> x \<noteq> remote_operations_signing_capability) caps"
    using caps by (auto simp: list_ex_iff)
  have status: "\<not> (ad_status predecessor \<noteq> Active \<and> ad_status predecessor \<noteq> Rotating)" using v(3) by auto
  have late: "\<not> epoch < au_trust_epoch s0" using v(10) past(4) by (simp add: not_less)
  show ?thesis
    unfolding verify_center_authority_transition_def Let_def sb tf
    using rt pred iss' parse scope sg ts remote status late v(6) now
    by (simp add: transition_status_open_def epoch transition_proof_def json_get_def get_bool_def as_bool_def not_less)
qed

end

lemma first_of_in: "first_of xs = Some a \<Longrightarrow> a \<in> set xs"
  by (cases xs) (simp_all add: first_of_def)

lemma unrevoked_subset: "a \<in> set (unrevoked s k) \<Longrightarrow> a \<in> set (live s)"
  by (simp add: unrevoked_live)

lemma bundle_authorities_subset:
  assumes "a \<in> set (bundle_authorities (assemble_bundle root now expires_at s))"
  shows "a \<in> set (live s)"
proof -
  let ?cs = "sort_key ad_version (unrevoked s CenterAuthority)"
  have cs: "x \<in> set ?cs \<Longrightarrow> x \<in> set (live s)" for x by (simp add: unrevoked_subset)
  have "x \<in> set (butlast ?cs) \<Longrightarrow> x \<in> set (live s)" for x using cs in_set_butlastD by fast
  moreover have "?cs \<noteq> [] \<Longrightarrow> last ?cs \<in> set (live s)" using cs last_in_set by blast
  ultimately show ?thesis using assms
    by (auto simp: bundle_authorities_def assemble_bundle_def Let_def split: option.splits if_splits
        dest: unrevoked_subset first_of_in first_of_in [OF sym])
qed

text \<open>The kinds of which a bundle holds every authority that is not revoked.\<close>

definition listed_kind :: "authority_kind \<Rightarrow> bool" where
  "listed_kind k \<longleftrightarrow> k \<in> {ProductTrustRoot, CenterAuthority, EnrollmentAuthority, ReleaseAuthority, ProductSigningAuthority}"

lemma bundle_authorities_listed:
  assumes "a \<in> set (au_authorities s)" "ad_status a \<noteq> Revoked" "listed_kind (ad_kind a)"
  shows "a \<in> set (bundle_authorities (assemble_bundle root now expires_at s))"
proof -
  let ?cs = "sort_key ad_version (unrevoked s CenterAuthority)"
  have u: "a \<in> set (unrevoked s (ad_kind a))" using assms by (simp add: unrevoked_def)
  have cs: "set ?cs = set (butlast ?cs @ [last ?cs])" if "?cs \<noteq> []" using append_butlast_last_id [OF that] by presburger
  have "a \<in> set (unrevoked s CenterAuthority) \<Longrightarrow> ?cs \<noteq> [] \<and> (a \<in> set (butlast ?cs) \<or> a = last ?cs)"
  proof -
    assume "a \<in> set (unrevoked s CenterAuthority)"
    then have m: "a \<in> set ?cs" by simp
    then have "?cs \<noteq> []" by (metis empty_iff empty_set)
    moreover from cs [OF this] m have "a \<in> set (butlast ?cs) \<or> a = last ?cs" by (simp del: set_sort) blast
    ultimately show "?cs \<noteq> [] \<and> (a \<in> set (butlast ?cs) \<or> a = last ?cs)" ..
  qed
  then show ?thesis using u assms(3)
    by (auto simp: listed_kind_def bundle_authorities_def assemble_bundle_def Let_def comp_def)
qed

section \<open>Reloading\<close>

lemma load_authorities_Inr:
  "load_authorities ops p public_only m keys as = Inr (m', keys') \<Longrightarrow> set m' = set m \<union> set as"
proof (induction ops p public_only m keys as rule: load_authorities.induct)
  case (2 ops p public_only m keys a as)
  then have "find_authority m (ad_authority_id a) = None"
    "load_authorities ops p public_only (put_authority a m) (ad_key_id a # keys) as = Inr (m', keys')"
    and ih: "set m' = set (put_authority a m) \<union> set as"
    by (auto simp: result_simps)
  then show ?case by (simp add: set_put_new)
qed simp

text \<open>What a stored state must satisfy to be loaded by any provider.\<close>

lemma reload_checks:
  assumes "from_durable_state c ops p st = Inr s"
  shows "set (au_authorities s) = set (ds_authorities st)"
    "\<forall>a \<in> set (ds_authorities st). validate_stored_authority c (au_authorities s) a = Inr ()"
    "\<forall>t \<in> set (ds_root_transitions st). ds_trust_epoch st \<le> rt_activation_epoch t"
    "\<forall>r \<in> set (ds_revocations st). \<exists>a \<in> set (ds_authorities st). ad_key_id a = rv_key_id r
       \<and> ad_authority_id a = rv_authority_id r \<and> ad_status a = Revoked"
proof -
  from assms obtain auths keys where
    l: "load_authorities ops p (sort (remdups (ds_public_only_key_ids st))) [] [] (ds_authorities st) = Inr (auths, keys)"
    and v: "validate_durable_structure c s = Inr ()" and s: "au_authorities s = auths"
      "au_root_transitions s = ds_root_transitions st" "au_trust_epoch s = ds_trust_epoch st"
      "au_revocations s = ds_revocations st"
    by (auto simp: from_durable_state_def Let_def result_simps)
  show same: "set (au_authorities s) = set (ds_authorities st)" using load_authorities_Inr [OF l] s(1) by simp
  from v show "\<forall>a \<in> set (ds_authorities st). validate_stored_authority c (au_authorities s) a = Inr ()"
    by (simp add: validate_durable_structure_def Let_def result_simps same)
  from v show "\<forall>t \<in> set (ds_root_transitions st). ds_trust_epoch st \<le> rt_activation_epoch t"
    by (auto simp: validate_durable_structure_def Let_def result_simps s validate_stored_root_transition_def not_less)
  from v show "\<forall>r \<in> set (ds_revocations st). \<exists>a \<in> set (ds_authorities st). ad_key_id a = rv_key_id r
       \<and> ad_authority_id a = rv_authority_id r \<and> ad_status a = Revoked"
  proof (intro ballI)
    fix r assume "r \<in> set (ds_revocations st)"
    with v have "validate_stored_revocation auths (ds_trust_epoch st) r = Inr ()"
      by (simp add: validate_durable_structure_def Let_def result_simps s)
    then obtain a where a: "find (\<lambda>a. ad_key_id a = rv_key_id r \<and> ad_authority_id a = rv_authority_id r) auths = Some a"
      "ad_status a = Revoked"
      by (auto simp: validate_stored_revocation_def result_simps)
    show "\<exists>a \<in> set (ds_authorities st). ad_key_id a = rv_key_id r \<and> ad_authority_id a = rv_authority_id r \<and> ad_status a = Revoked"
      using find_SomeD [OF a(1)] a(2) same s(1) by auto
  qed
qed

lemma rotate_cases:
  assumes "rotate_authority c ops w i now s = (s', Inr a)" "find_authority (au_authorities s) i = Some old"
  obtains key ce where "ad_certificate a = Some ce" "ad_kind a = ad_kind old"
    "ad_issuer_authority_id a = Some (ad_authority_id old)"
    "ce_issuer_authority_id ce = unwrap_or (ad_issuer_authority_id old) (ad_authority_id old)"
    "a \<in> set (au_authorities s')"
proof -
  from assms obtain p key sig where st:
    "kp_generate ops w (au_provider s) = (p, Inr key)"
    "a = subordinate_descriptor old key ((rotated_body old key (i @ ''-v'' @ show_word (ad_version old + 1)) now)\<lparr>ce_signature := tc_b64_encode c sig\<rparr>)"
    "a \<in> set (au_authorities s')"
    by (auto simp: rotate_authority_def Let_def set_put_authority split: if_splits prod.splits sum.splits)
  show ?thesis by (rule that) (use st in \<open>auto simp: subordinate_descriptor_def rotated_body_def\<close>)
qed

section \<open>Properties\<close>

text \<open>
  C19. Issuing keeps every chain: when a well-formed service over the sealed provider issues a
  subordinate authority, with a key the service has not seen, every authority that is not revoked
  still has a chain that hosts trust, and so has the new one.
\<close>

theorem issuing_keeps_chains:
  assumes "crypto_ok c" "sealed_world_ok a w" "service_ok c (sealed_key_provider c a) plain_key_id time s"
    and "issue_subordinate_versioned c (sealed_key_provider c a) w parent_id i kind caps version now valid_until s = (s', Inr d)"
    and "ad_key_id d \<notin> ad_key_id ` set (au_authorities s)" "now \<le> time" "\<forall>v. valid_until = Some v \<longrightarrow> time \<le> v"
  shows "service_ok c (sealed_key_provider c a) plain_key_id time s'
    \<and> trusted c (live s') (au_revocations s') time d"
proof -
  have ok: "service_ok c (sealed_key_provider c a) plain_key_id time s'"
    by (rule sealed.issue_keeps_ok [OF assms(3,1,2,4,5,6,7)])
  have "d \<in> set (live s')"
    by (rule issue_cases [OF assms(4)]) (simp add: live_def set_put_authority subordinate_descriptor_def)
  with ok show ?thesis by (simp add: service_ok_def)
qed

text \<open>
  C24. A rotation is never reloaded: after a successful rotation of a product root, or of an
  authority issued by another one, no provider can load the durable state of the service again.
  The certificate names the issuer of the old authority, is signed with the old key and is stored
  under a descriptor that names the old authority; a root may not have a certificate at all.
\<close>

theorem rotated_state_never_reloads:
  assumes "rotate_authority c ops w i now s = (s', Inr a)" "find_authority (au_authorities s) i = Some old"
    and "ad_kind old = ProductTrustRoot
      \<or> (\<exists>issuer. ad_issuer_authority_id old = Some issuer \<and> issuer \<noteq> ad_authority_id old)"
  shows "\<exists>e. from_durable_state c ops' p (durable_state s') = Inl e"
proof (cases "from_durable_state c ops' p (durable_state s')")
  case (Inr s2)
  obtain key ce where a: "ad_certificate a = Some ce" "ad_kind a = ad_kind old"
    "ad_issuer_authority_id a = Some (ad_authority_id old)"
    "ce_issuer_authority_id ce = unwrap_or (ad_issuer_authority_id old) (ad_authority_id old)"
    "a \<in> set (au_authorities s')"
    by (rule rotate_cases [OF assms(1,2)])
  have "validate_stored_authority c (au_authorities s2) a = Inr ()"
    using reload_checks(2) [OF Inr] a(5) by (simp add: durable_state_def)
  then have False using a assms(3)
    by (auto simp: validate_stored_authority_def result_simps certificate_differs_def)
  then show ?thesis ..
qed blast

text \<open>
  C25. A root transition of the past is fatal: once the trust epoch of the service passes the
  activation epoch of a root transition, every bundle it issues is refused by every host, and its
  durable state is refused at the next start.
\<close>

theorem past_root_transition_is_fatal:
  assumes "t \<in> set (au_root_transitions s)" "rt_activation_epoch t < next" "au_trust_epoch s < next"
    and "advance_trust_epoch next s = (s', r)"
  shows "r = Inr () \<and> (\<exists>e. from_durable_state c ops' p (durable_state s') = Inl e)
    \<and> (\<forall>root_id now expires_at s2 sb. service_trust_bundle c ops root_id now expires_at s' = (s2, Inr sb) \<longrightarrow>
        (\<forall>time epoch. verify_signed_trust_bundle c sb time epoch \<noteq> Inr ()))"
proof -
  from assms(3,4) have s': "s' = s\<lparr>au_trust_epoch := next\<rparr>" and r: "r = Inr ()"
    by (auto simp: advance_trust_epoch_def split: if_splits)
  have "\<exists>e. from_durable_state c ops' p (durable_state s') = Inl e"
  proof (cases "from_durable_state c ops' p (durable_state s')")
    case (Inr s2)
    from reload_checks(3) [OF Inr] assms(1,2) show ?thesis by (force simp: s' durable_state_def)
  qed blast
  moreover have "verify_signed_trust_bundle c sb time epoch \<noteq> Inr ()"
    if "service_trust_bundle c ops root_id now expires_at s' = (s2, Inr sb)" for root_id now expires_at s2 sb time epoch
  proof
    assume "verify_signed_trust_bundle c sb time epoch = Inr ()"
    then have acc: "\<forall>x \<in> set (tb_root_transitions (sb_bundle sb)). dual_signed c (sb_bundle sb) x"
      by (simp add: verify_bundle_acceptable acceptable_bundle_def Let_def)
    have "tb_root_transitions (sb_bundle sb) = au_root_transitions s" "tb_trust_epoch (sb_bundle sb) = next"
      by (rule service_bundle_cases [OF that], simp add: s')+
    with acc assms(1,2) show False by (force simp: dual_signed_def)
  qed
  ultimately show ?thesis using r by blast
qed

text \<open>
  A revoked issuer spoils the bundle: once an authority is revoked while one that it issued is
  not, and is of a kind the bundle lists, every bundle the service issues is refused by every host,
  for it lists the subordinate without its issuer.
\<close>

theorem revoked_issuer_spoils_bundle:
  assumes "distinct_ids (au_authorities s)" "revoke_authority ops w i now reason s = (s1, Inr r)"
    and "d \<in> set (au_authorities s)" "ad_authority_id d \<noteq> i" "ad_status d \<noteq> Revoked" "listed_kind (ad_kind d)"
    and "ad_certificate d = Some ce" "ce_issuer_authority_id ce = i"
    and "service_trust_bundle c ops root_id later expires_at s1 = (s2, Inr sb)"
  shows "verify_signed_trust_bundle c sb time epoch \<noteq> Inr ()"
proof
  assume "verify_signed_trust_bundle c sb time epoch = Inr ()"
  then have tr: "\<forall>a \<in> set (bundle_authorities (sb_bundle sb)).
      trusted c (bundle_authorities (sb_bundle sb)) (tb_revocations (sb_bundle sb)) time a"
    by (simp add: verify_bundle_acceptable acceptable_bundle_def Let_def)
  let ?f = "\<lambda>a. a\<lparr>ad_status := Revoked, ad_revoked_at := Some now, ad_revocation_reason := Some reason\<rparr>"
  from assms(2) have s1: "au_authorities s1 = change_authority i ?f (au_authorities s)"
    by (auto simp: revoke_authority_def Let_def split: option.splits prod.splits sum.splits)
  obtain root sig where b: "sb_bundle sb = assemble_bundle root later expires_at s1"
    by (rule service_bundle_cases [OF assms(9)])
  have "d \<in> set (au_authorities s1)" using assms(3,4) by (auto simp: s1 change_authority_def image_iff)
  then have "d \<in> set (bundle_authorities (sb_bundle sb))" unfolding b
    by (rule bundle_authorities_listed [OF _ assms(5,6)])
  with tr have "trusted c (bundle_authorities (sb_bundle sb)) (tb_revocations (sb_bundle sb)) time d" by blast
  then obtain issuer where "find_authority (bundle_authorities (sb_bundle sb)) i = Some issuer"
    by (rule trustedE) (use assms(7,8) in auto)
  then have l: "issuer \<in> set (live s1)" and id: "ad_authority_id issuer = i"
    using find_authorityD bundle_authorities_subset unfolding b by blast+
  from l have "issuer \<in> (\<lambda>x. if ad_authority_id x = i then ?f x else x) ` set (au_authorities s)"
    and live: "ad_status issuer \<noteq> Revoked"
    by (simp_all add: live_def s1 change_authority_def)
  then obtain x where "issuer = (if ad_authority_id x = i then ?f x else x)" by (elim imageE)
  with live id show False by (cases "ad_authority_id x = i") auto
qed

lemma later_authority_Some: "later_authority best a = Some x \<Longrightarrow> best = Some x \<or> x = a"
  by (cases best) (simp_all add: later_authority_def split: if_splits)

lemma foldl_later_authority: "foldl later_authority best xs = Some x \<Longrightarrow> best = Some x \<or> x \<in> set xs"
proof (induction xs arbitrary: best)
  case (Cons a xs)
  then have "later_authority best a = Some x \<or> x \<in> set xs" by simp
  then show ?case using later_authority_Some by fastforce
qed simp

lemma signed_cases:
  assumes "sign_for_capability c ops capability payload now s = Some (s', Inr (ready, sig))"
  obtains d where "check_readiness c ops capability now s = Some (Inr d)" "ready = readiness_of capability d"
    "kp_sign ops (au_provider s) (ad_key_id d) payload = Inr sig"
    "au_authorities s' = au_authorities s" "au_revocations s' = au_revocations s"
proof -
  from assms obtain s1 r where r: "service_readiness c ops capability now s = Some (s1, r)"
    by (auto simp: sign_for_capability_def)
  then obtain q where q: "check_readiness c ops capability now s = Some q"
    by (auto simp: service_readiness_def)
  from assms r have "\<exists>x. r = Inr x" by (cases r) (simp_all add: sign_for_capability_def)
  with q r obtain d where d: "check_readiness c ops capability now s = Some (Inr d)" and "r = Inr (readiness_of capability d)"
    and s1: "au_authorities s1 = au_authorities s" "au_revocations s1 = au_revocations s" "au_provider s1 = au_provider s"
    by (cases q) (auto simp: service_readiness_def)
  with assms r have "ready = readiness_of capability d" "kp_sign ops (au_provider s) (ad_key_id d) payload = Inr sig"
    "au_authorities s' = au_authorities s" "au_revocations s' = au_revocations s"
    by (auto simp: sign_for_capability_def readiness_of_def map_err_def res_bind_def split: sum.splits)
  with d show ?thesis by (rule that)
qed

text \<open>
  What the service signs, it verifies: a payload signed for a capability is signed with the key
  of an active authority that has it and whose chain holds, and the service verifies the signature
  for that capability and for no capability the authority does not have.
\<close>

theorem capability_signature_roundtrip:
  assumes "crypto_ok c" "distinct (map ad_key_id (au_authorities s))"
    and "keys_match (sealed_key_provider c a) plain_key_id s"
    and "sign_for_capability c (sealed_key_provider c a) capability payload now s = Some (s', Inr (ready, sig))"
  shows "verify_for_capability c capability (rd_key_id ready) payload sig now s' = Some (Inr ())
    \<and> (\<exists>d \<in> set (au_authorities s). ad_key_id d = rd_key_id ready \<and> ad_status d = Active
        \<and> has_capability d capability \<and> service_chain c s now d = Some (Inr ())
        \<and> (\<forall>other. \<not> has_capability d other \<longrightarrow>
             verify_for_capability c other (rd_key_id ready) payload sig now s' = Some (Inl ''TRUST_CAPABILITY_REJECTED'')))"
proof -
  let ?ops = "sealed_key_provider c a"
  from assms(4) obtain d where d: "check_readiness c ?ops capability now s = Some (Inr d)"
    and ready: "ready = readiness_of capability d"
    and sign: "kp_sign ?ops (au_provider s) (ad_key_id d) payload = Inr sig"
    and s': "au_authorities s' = au_authorities s" "au_revocations s' = au_revocations s"
    by (rule signed_cases)
  from d have cs: "capability_signer s capability now = Some d" and chain: "service_chain c s now d = Some (Inr ())"
    by (auto simp: check_readiness_def Let_def map_err_def res_bind_def run_bind_def split: option.splits sum.splits)
  from foldl_later_authority [OF cs [unfolded capability_signer_def]] have dp: "d \<in> set (au_authorities s)" "ad_status d = Active"
    "has_capability d capability" by auto
  have found: "find (\<lambda>x. ad_key_id x = ad_key_id d) (au_authorities s) = Some d"
    by (rule find_key_distinct [OF assms(2) dp(1)])
  have active: "assert_active (au_revocations s) d now = Inr ()"
    using chain by (simp add: service_chain_def verify_chain_step)
  have sig: "verify_raw c (ad_public_key d) payload sig = Inr ()"
    by (rule sealed.authority_signature(1) [OF assms(3,1) dp(1) sign])
  have chain': "service_chain c s' now d = Some (Inr ())" using chain by (simp add: service_chain_def s')
  have key: "rd_key_id ready = ad_key_id d" by (simp add: ready readiness_of_def)
  have "verify_for_capability c capability (rd_key_id ready) payload sig now s' = Some (Inr ())"
    by (simp add: verify_for_capability_def key s' found active dp(3) chain' sig)
  moreover have "verify_for_capability c other (rd_key_id ready) payload sig now s' = Some (Inl ''TRUST_CAPABILITY_REJECTED'')"
    if "\<not> has_capability d other" for other
    by (simp add: verify_for_capability_def key s' found active that)
  ultimately show ?thesis using dp chain key by (intro conjI bexI [of _ d]) simp_all
qed

text \<open>
  Idempotent answers are kept, but not the latest ones: a recorded answer is returned for the
  same request and refused for another one, and never more than 1024 are kept. When the record is
  full, though, it forgets the record with the smallest key and not the oldest one, so that the
  answer recorded last is forgotten by the next request whenever its key is the smallest.
\<close>

theorem idempotent_answers:
  assumes "sorted (map fst (au_idempotency_results s))" "distinct (map fst (au_idempotency_results s))"
    and "length (au_idempotency_results s) = max_idempotency_records"
    and "\<forall>k \<in> fst ` set (au_idempotency_results s). key < k" "key < other"
    and "other \<notin> fst ` set (au_idempotency_results s)"
    and "s1 = record_idempotency_result key digest response s"
    and "s2 = record_idempotency_result other digest' response' s1"
  shows "idempotency_result s1 key digest = Inr (Some response)
    \<and> (\<forall>d. d \<noteq> digest \<longrightarrow> idempotency_result s1 key d = Inl ''TRUST_IDEMPOTENCY_KEY_REUSED'')
    \<and> length (au_idempotency_results s1) = max_idempotency_records
    \<and> idempotency_result s2 key digest = Inr None
    \<and> length (au_idempotency_results s2) = max_idempotency_records"
proof -
  let ?m = "au_idempotency_results s" and ?r = "\<lparr> ir_request_digest = digest, ir_response = response \<rparr>"
  obtain first rest where m: "?m = first # rest" using assms(3) by (cases ?m) (simp_all add: max_idempotency_records_def)
  have new: "map_of ?m key = None" using assms(4) by (auto simp: map_of_eq_None_iff)
  have "filter (\<lambda>kr. fst kr \<noteq> key) rest = rest" using assms(4) m by (force simp: filter_id_conv)
  then have r1: "au_idempotency_results s1 = (key, ?r) # rest"
    using assms(3,4) new m by (cases rest) (auto simp: assms(7) record_idempotency_result_def Let_def put_idempotency_def
        less_imp_le)
  have len1: "length (au_idempotency_results s1) = max_idempotency_records" using assms(3) m by (simp add: r1)
  have other: "map_of ((key, ?r) # rest) other = None" using assms(5,6) m by (auto simp: map_of_eq_None_iff)
  have "au_idempotency_results s2 = put_idempotency other \<lparr> ir_request_digest = digest', ir_response = response' \<rparr> rest"
    using len1 other by (simp add: assms(8) record_idempotency_result_def Let_def r1)
  moreover have "filter (\<lambda>kr. fst kr \<noteq> other) rest = rest" using assms(6) m by (force simp: filter_id_conv)
  ultimately have r2: "au_idempotency_results s2 = insort_key fst (other, \<lparr> ir_request_digest = digest', ir_response = response' \<rparr>) rest"
    by (simp add: put_idempotency_def)
  have "map_of (au_idempotency_results s2) key = None"
    using assms(4,5) m by (auto simp: r2 map_of_eq_None_iff set_insort_key)
  then show ?thesis using len1 using m assms(3) by (simp add: idempotency_result_def r1 r2)
qed

end
