(* ===== verification/Authority_Runs.thy ===== *)
theory Authority_Runs
  imports Authority_Service
begin

text \<open>
  Runs of the authority service of \<^verbatim>\<open>actium-node-core/src/trust_fabric.rs\<close>: a service
  that creates, issues, rotates roots, records root transitions, advances its epoch, reissues its
  centre and issues bundles, in any order. The lemmas show what such a run keeps: the
  well-formedness of the service, the authorities it had, and that every recorded root transition
  is signed with the keys of the two roots it names. The properties say what hosts accept from a
  service with such a history.
\<close>

section \<open>Runs\<close>

text \<open>
  \<open>time\<close> is the time at which the chains must hold: every step was taken at or before it, and what
  is issued lasts until then. New keys and identities are fresh. The root that is rotated is one
  that no other authority issued.
\<close>

inductive issuing_run ::
  "trust_crypto \<Rightarrow> ('w, 'p) key_provider \<Rightarrow> ('w \<Rightarrow> bool) \<Rightarrow> u64 \<Rightarrow> 'p authority_service
    \<Rightarrow> 'p authority_service \<Rightarrow> bool"
  for c ops lawful time s0 where
  run_start: "issuing_run c ops lawful time s0 s0"
| run_root: "issuing_run c ops lawful time s0 s \<Longrightarrow> lawful w \<Longrightarrow> now \<le> time \<Longrightarrow>
    initialize_root ops w i now s = (s', Inr r) \<Longrightarrow> find_authority (au_authorities s) i = None \<Longrightarrow>
    ad_key_id (pt_authority r) \<notin> ad_key_id ` set (au_authorities s) \<Longrightarrow> issuing_run c ops lawful time s0 s'"
| run_issue: "issuing_run c ops lawful time s0 s \<Longrightarrow> lawful w \<Longrightarrow> now \<le> time \<Longrightarrow>
    \<forall>v. valid_until = Some v \<longrightarrow> time \<le> v \<Longrightarrow>
    issue_subordinate_versioned c ops w parent_id i kind caps version now valid_until s = (s', Inr a) \<Longrightarrow>
    ad_key_id a \<notin> ad_key_id ` set (au_authorities s) \<Longrightarrow> issuing_run c ops lawful time s0 s'"
| run_rotate: "issuing_run c ops lawful time s0 s \<Longrightarrow> lawful w \<Longrightarrow> now \<le> time \<Longrightarrow>
    find_authority (au_authorities s) i = Some old \<Longrightarrow> ad_kind old = ProductTrustRoot \<Longrightarrow>
    ad_issuer_authority_id old = None \<Longrightarrow> ad_issuer_key_id old = None \<Longrightarrow>
    rotate_authority c ops w i now s = (s', Inr a) \<Longrightarrow>
    find_authority (au_authorities s) (ad_authority_id a) = None \<Longrightarrow>
    ad_key_id a \<notin> ad_key_id ` set (au_authorities s) \<Longrightarrow> issuing_run c ops lawful time s0 s'"
| run_transition: "issuing_run c ops lawful time s0 s \<Longrightarrow>
    issue_root_transition c ops old_id new_id activation now s = (s', Inr t) \<Longrightarrow> issuing_run c ops lawful time s0 s'"
| run_epoch: "issuing_run c ops lawful time s0 s \<Longrightarrow> advance_trust_epoch next s = (s', Inr ()) \<Longrightarrow>
    issuing_run c ops lawful time s0 s'"
| run_reissue: "issuing_run c ops lawful time s0 s \<Longrightarrow> lawful w \<Longrightarrow> now \<le> time \<Longrightarrow>
    authorize_center_authority_reissue c ops w r now s = Some (s', Inr ct) \<Longrightarrow>
    \<forall>x \<in> set (au_center_transitions s). ct_transition_id x \<noteq> rq_transition_id r \<Longrightarrow>
    ct_successor_key_id ct \<notin> ad_key_id ` set (au_authorities s) \<Longrightarrow> issuing_run c ops lawful time s0 s'"
| run_bundle: "issuing_run c ops lawful time s0 s \<Longrightarrow>
    service_trust_bundle c ops root_id now expires_at s = (s', Inr sb) \<Longrightarrow> issuing_run c ops lawful time s0 s'"

section \<open>What the steps change\<close>

lemma service_ok_same:
  assumes "au_authorities s' = au_authorities s" "au_provider s' = au_provider s" "au_revocations s' = au_revocations s"
  shows "service_ok c ops plain time s' \<longleftrightarrow> service_ok c ops plain time s"
  by (simp add: service_ok_def keys_match_def live_def assms)

lemma initialize_root_cases:
  assumes "initialize_root ops w i now s = (s', Inr r)"
  obtains p key where "kp_generate ops w (au_provider s) = (p, Inr key)" "pt_authority r = root_descriptor i key now"
    "au_authorities s' = put_authority (root_descriptor i key now) (au_authorities s)"
    "au_root_transitions s' = au_root_transitions s" "au_trust_root_set s' = au_trust_root_set s"
    "au_trust_epoch s' = au_trust_epoch s"
  using assms by (auto simp: initialize_root_def Let_def split: if_splits prod.splits sum.splits)

lemma root_transition_cases:
  assumes "issue_root_transition c ops old_id new_id activation now s = (s', Inr t)"
  obtains old new old_sig new_sig where
    "find_authority (au_authorities s) old_id = Some old" "find_authority (au_authorities s) new_id = Some new"
    "ad_kind old = ProductTrustRoot" "ad_kind new = ProductTrustRoot"
    "kp_sign ops (au_provider s) (ad_key_id old) (root_transition_payload c (au_trust_root_set s) (ad_key_id old)
       (ad_key_id new) activation now) = Inr old_sig"
    "kp_sign ops (au_provider s) (ad_key_id new) (root_transition_payload c (au_trust_root_set s) (ad_key_id old)
       (ad_key_id new) activation now) = Inr new_sig"
    "t = \<lparr> rt_schema = 1, rt_trust_root_set = au_trust_root_set s, rt_from_root_key_id = ad_key_id old,
       rt_to_root_key_id = ad_key_id new, rt_activation_epoch = activation, rt_issued_at = now,
       rt_old_root_signature = tc_b64_encode c old_sig, rt_new_root_signature = tc_b64_encode c new_sig \<rparr>"
    "au_authorities s' = au_authorities s" "au_provider s' = au_provider s" "au_revocations s' = au_revocations s"
    "au_root_transitions s' = au_root_transitions s @ [t]" "au_trust_root_set s' = au_trust_root_set s"
    "au_trust_epoch s' = au_trust_epoch s"
  using assms by (auto simp: issue_root_transition_def Let_def result_simps split: sum.splits if_splits)

lemma bundle_step:
  assumes "service_trust_bundle c ops root_id now expires_at s = (s', Inr sb)"
  shows "au_authorities s' = au_authorities s" "au_provider s' = au_provider s" "au_revocations s' = au_revocations s"
    "au_root_transitions s' = au_root_transitions s" "au_trust_root_set s' = au_trust_root_set s"
    "au_trust_epoch s' = au_trust_epoch s"
  using assms by (auto simp: service_trust_bundle_def Let_def result_simps split: sum.splits if_splits)

lemma advance_step:
  assumes "advance_trust_epoch next s = (s', Inr ())"
  shows "s' = s\<lparr>au_trust_epoch := next\<rparr>" "au_trust_epoch s < next"
  using assms by (auto simp: advance_trust_epoch_def split: if_splits)

lemma reissue_cases:
  assumes "authorize_center_authority_reissue c ops w r now s = Some (s', Inr t)"
    and "\<forall>x \<in> set (au_center_transitions s). ct_transition_id x \<noteq> rq_transition_id r"
  obtains predecessor issuer caps epoch where
    "validate_center_authority_reissue_request c r now True s = Some (Inr (predecessor, issuer, caps, epoch))"
    "issue_transition c ops w r now predecessor issuer caps epoch s = (s', Inr t)"
proof -
  have none: "find (\<lambda>x. ct_transition_id x = rq_transition_id r) (au_center_transitions s) = None"
    using assms(2) by (auto simp: find_None_iff)
  show ?thesis
    using assms(1) none that
    by (auto simp: authorize_center_authority_reissue_def split: if_splits option.splits sum.splits prod.splits)
qed

lemma issue_transition_step:
  assumes "issue_transition c ops w r now predecessor issuer caps epoch s = (s', Inr t)"
  obtains s1 successor where
    "issue_subordinate_versioned c ops w (ad_authority_id issuer) (successor_id_of predecessor) CenterAuthority caps
       (ad_version predecessor + 1) now (ad_valid_until predecessor) s = (s1, Inr successor)"
    "ct_successor_key_id t = ad_key_id successor"
    "au_authorities s' = au_authorities s1" "au_provider s' = au_provider s1" "au_revocations s' = au_revocations s1"
    "au_root_transitions s' = au_root_transitions s1" "au_trust_root_set s' = au_trust_root_set s1"
    "au_trust_epoch s' = au_trust_epoch s1"
proof (rule issue_transition_cases [OF assms])
  fix s1 successor ce sig
  assume i: "issue_subordinate_versioned c ops w (ad_authority_id issuer) (successor_id_of predecessor) CenterAuthority
      caps (ad_version predecessor + 1) now (ad_valid_until predecessor) s = (s1, Inr successor)"
    and t: "t = unsigned_transition_of r (au_trust_root_set s) predecessor successor issuer ce caps epoch now
       (request_digest_hex c r)\<lparr>ct_signatures := [\<lparr> ts_authority_id = ad_authority_id issuer,
         ts_key_id = ad_key_id issuer, ts_algorithm = trust_fabric_algorithm, ts_signature = tc_b64_encode c sig \<rparr>]\<rparr>"
    and f: "au_authorities s' = au_authorities s1" "au_provider s' = au_provider s1" "au_revocations s' = au_revocations s1"
  have "au_root_transitions s' = au_root_transitions s1 \<and> au_trust_root_set s' = au_trust_root_set s1
      \<and> au_trust_epoch s' = au_trust_epoch s1"
    using assms i by (auto simp: issue_transition_def Let_def split: sum.splits option.splits)
  then show thesis by (intro that [OF i _ f]) (simp_all add: t unsigned_transition_of_def)
qed

section \<open>Rotating a root\<close>

definition rotating :: "string \<Rightarrow> authority_descriptor \<Rightarrow> authority_descriptor" where
  "rotating i x = (if ad_authority_id x = i then x\<lparr>ad_status := Rotating\<rparr> else x)"

lemma rotating_fields [simp]:
  "ad_authority_id (rotating i x) = ad_authority_id x" "ad_key_id (rotating i x) = ad_key_id x"
  "ad_kind (rotating i x) = ad_kind x" "ad_public_key (rotating i x) = ad_public_key x"
  "ad_certificate (rotating i x) = ad_certificate x" "ad_capabilities (rotating i x) = ad_capabilities x"
  "ad_algorithm (rotating i x) = ad_algorithm x" "ad_valid_from (rotating i x) = ad_valid_from x"
  "ad_valid_until (rotating i x) = ad_valid_until x" "ad_issuer_authority_id (rotating i x) = ad_issuer_authority_id x"
  "ad_issuer_key_id (rotating i x) = ad_issuer_key_id x"
  by (simp_all add: rotating_def)

lemma change_authority_rotating: "change_authority i (\<lambda>a. a\<lparr>ad_status := Rotating\<rparr>) m = map (rotating i) m"
  by (simp add: change_authority_def rotating_def)

lemma find_map_rotating: "find_authority (map (rotating i) m) j = map_option (rotating i) (find_authority m j)"
  by (induction m) (simp_all add: find_authority_def)

lemma trusted_rotating:
  "trusted c auths revs now x \<Longrightarrow> trusted c (map (rotating i) auths) revs now (rotating i x)"
proof (induction rule: trusted.induct)
  case (trusted_root a)
  then show ?case by (intro trusted.trusted_root) (auto simp: descriptor_rejected_def rotating_def)
next
  case (trusted_issued a ce issuer)
  show ?case
  proof (rule trusted.trusted_issued [where ce = ce and issuer = "rotating i issuer"])
    show "find_authority (map (rotating i) auths) (ce_issuer_authority_id ce) = Some (rotating i issuer)"
      using trusted_issued by (simp add: find_map_rotating)
  qed (use trusted_issued in \<open>auto simp: descriptor_rejected_def certificate_out_of_scope_def may_issue_def
      signs_certificate_def rotating_def\<close>)
qed

lemma live_rotating:
  assumes "distinct_ids (au_authorities s)" "find_authority (au_authorities s) i = Some old" "ad_status old \<noteq> Revoked"
    "au_authorities s' = map (rotating i) (au_authorities s)"
  shows "live s' = map (rotating i) (live s)"
proof -
  have "(ad_status (rotating i x) \<noteq> Revoked) = (ad_status x \<noteq> Revoked)" if "x \<in> set (au_authorities s)" for x
    using distinct_found [OF assms(1) that] assms(2,3) by (auto simp: rotating_def)
  then show ?thesis unfolding live_def assms(4) by (simp add: filter_map comp_def cong: filter_cong)
qed

lemma rotating_keeps_ok:
  assumes ok: "service_ok c ops plain time s"
    and "find_authority (au_authorities s) i = Some old" "ad_status old \<noteq> Revoked"
  shows "service_ok c ops plain time (s\<lparr>au_authorities := map (rotating i) (au_authorities s)\<rparr>)" (is "service_ok _ _ _ _ ?s")
proof -
  have live: "live ?s = map (rotating i) (live s)"
    by (rule live_rotating [OF _ assms(2,3)]) (use ok in \<open>simp_all add: service_ok_def\<close>)
  show ?thesis using ok unfolding service_ok_def live
    by (auto simp: distinct_ids_def comp_def keys_match_def image_image intro: trusted_rotating)
qed

lemma rotate_step:
  assumes "rotate_authority c ops w i now s = (s', Inr a)" "find_authority (au_authorities s) i = Some old"
  obtains p key sig ce where "kp_generate ops w (au_provider s) = (p, Inr key)" "ad_status old \<noteq> Revoked"
    "kp_sign ops p (ad_key_id old) (certificate_payload c (rotated_body old key
       (i @ ''-v'' @ show_word (ad_version old + 1)) now)) = Inr sig"
    "ce = (rotated_body old key (i @ ''-v'' @ show_word (ad_version old + 1)) now)\<lparr>ce_signature := tc_b64_encode c sig\<rparr>"
    "a = subordinate_descriptor old key ce" "au_provider s' = p"
    "au_authorities s' = put_authority a (map (rotating i) (au_authorities s))"
    "au_revocations s' = au_revocations s" "au_root_transitions s' = au_root_transitions s"
    "au_trust_root_set s' = au_trust_root_set s" "au_trust_epoch s' = au_trust_epoch s"
  using assms by (auto simp: rotate_authority_def Let_def change_authority_rotating split: if_splits prod.splits sum.splits)

context key_provider_contract
begin

lemma rotate_keeps_ok:
  assumes ok: "service_ok c ops plain time s" and laws: "crypto_ok c" "lawful w"
    and old: "find_authority (au_authorities s) i = Some old" "ad_kind old = ProductTrustRoot"
      "ad_issuer_authority_id old = None" "ad_issuer_key_id old = None"
    and rotate: "rotate_authority c ops w i now s = (s', Inr a)"
    and fresh: "find_authority (au_authorities s) (ad_authority_id a) = None"
      "ad_key_id a \<notin> ad_key_id ` set (au_authorities s)"
    and time: "now \<le> time"
  shows "service_ok c ops plain time s'"
proof -
  obtain p key sig ce where st: "kp_generate ops w (au_provider s) = (p, Inr key)" "ad_status old \<noteq> Revoked"
    "kp_sign ops p (ad_key_id old) (certificate_payload c (rotated_body old key
       (i @ ''-v'' @ show_word (ad_version old + 1)) now)) = Inr sig"
    "ce = (rotated_body old key (i @ ''-v'' @ show_word (ad_version old + 1)) now)\<lparr>ce_signature := tc_b64_encode c sig\<rparr>"
    "a = subordinate_descriptor old key ce" "au_provider s' = p"
    "au_authorities s' = put_authority a (map (rotating i) (au_authorities s))"
    "au_revocations s' = au_revocations s"
    by (rule rotate_step [OF rotate old(1)])
  let ?s1 = "s\<lparr>au_authorities := map (rotating i) (au_authorities s)\<rparr>"
  have ok1: "service_ok c ops plain time ?s1" by (rule rotating_keeps_ok [OF ok old(1) st(2)])
  have id: "ad_authority_id old = i" using find_authorityD old(1) by blast
  have a: "ad_key_id a = kd_key_id key" "ad_public_key a = kd_public_key key" "ad_status a = Active"
    "ad_kind a = ProductTrustRoot" "ad_certificate a = Some ce" "ad_algorithm a = trust_fabric_algorithm"
    "ad_valid_from a = now" "ad_valid_until a = ad_valid_until old"
    "ad_issuer_authority_id a = Some i" "ad_issuer_key_id a = Some (ad_key_id old)"
    and ce: "ce_authority_id ce = ad_authority_id a" "ce_key_id ce = kd_key_id key" "ce_public_key ce = kd_public_key key"
      "ce_issuer_authority_id ce = i" "ce_issuer_key_id ce = ad_key_id old"
    by (simp_all add: st(4,5) subordinate_descriptor_def rotated_body_def old id)
  have ids: "distinct_ids (au_authorities ?s1)" using ok1 by (simp add: service_ok_def)
  have found: "find_authority (au_authorities ?s1) i = Some (rotating i old)" using old(1) by (simp add: find_map_rotating)
  then have mem: "rotating i old \<in> set (au_authorities ?s1)" using find_authorityD by blast
  have "ad_status (rotating i old) \<noteq> Revoked" by (simp add: rotating_def id)
  with mem have live: "rotating i old \<in> set (live ?s1)" by (simp add: live_def)
  have found_live: "find_authority (live ?s1) i = Some (rotating i old)"
    unfolding find_live [OF ids] using found by (simp add: rotating_def id)
  show ?thesis
  proof (rule put_keeps_ok [where a = a, OF ok1 laws(2)])
    assume km1: "keys_match ops plain (?s1\<lparr>au_provider := p\<rparr>)" and rev: "\<not> revoked_key (au_revocations ?s1) (ad_key_id a)"
      and more: "\<And>j x. find_authority (live ?s1) j = Some x \<Longrightarrow> find_authority (live s') j = Some x"
      and old_ok: "\<And>x. x \<in> set (live ?s1) \<Longrightarrow> trusted c (live s') (au_revocations ?s1) time x"
    have "verify_raw c (ad_public_key (rotating i old)) (certificate_payload c (rotated_body old key
        (i @ ''-v'' @ show_word (ad_version old + 1)) now)) sig = Inr ()"
      by (rule authority_signature(1) [OF km1 laws(1)]) (use mem st(3) in simp_all)
    from certificate_signature [OF laws(1) this] have signed: "signs_certificate c (rotating i old) ce" by (simp add: st(4))
    have lasts: "\<forall>v. ad_valid_until old = Some v \<longrightarrow> time \<le> v"
      using trusted_in_force [OF old_ok [OF live]] by (auto simp: descriptor_rejected_def result_simps not_less)
    show "trusted c (live s') (au_revocations ?s1) time a"
    proof (rule trusted_issued [where ce = ce and issuer = "rotating i old"])
      show "\<not> descriptor_rejected (au_revocations ?s1) time a"
        using time lasts rev by (auto simp: a descriptor_rejected_def not_less result_simps)
      show "find_authority (live s') (ce_issuer_authority_id ce) = Some (rotating i old)"
        using more [OF found_live] by (simp add: ce)
      show "\<not> certificate_out_of_scope a ce" by (simp add: a ce certificate_out_of_scope_def result_simps)
    qed (use old_ok [OF live] old(2) signed in \<open>simp_all add: a may_issue_def\<close>)
  qed (use fresh st(1,6-8) in \<open>simp_all add: a find_map_rotating image_image\<close>)
qed

end

section \<open>What a run keeps\<close>

text \<open>Authorities stay, except that a root may have begun to rotate.\<close>

definition kept :: "authority_descriptor \<Rightarrow> authority_descriptor \<Rightarrow> bool" where
  "kept x y \<longleftrightarrow> y = x \<or> (ad_kind x = ProductTrustRoot \<and> y = x\<lparr>ad_status := Rotating\<rparr>)"

lemma kept_fields:
  "kept x y \<Longrightarrow> ad_authority_id y = ad_authority_id x \<and> ad_key_id y = ad_key_id x \<and> ad_kind y = ad_kind x
    \<and> ad_public_key y = ad_public_key x"
  by (auto simp: kept_def)

lemma kept_trans: "kept x y \<Longrightarrow> kept y z \<Longrightarrow> kept x z"
  by (auto simp: kept_def)

definition keeps_authorities :: "'p authority_service \<Rightarrow> 'p authority_service \<Rightarrow> bool" where
  "keeps_authorities s s' \<longleftrightarrow> (\<forall>i x. find_authority (au_authorities s) i = Some x \<longrightarrow>
     (\<exists>y. find_authority (au_authorities s') i = Some y \<and> kept x y))"

lemma keeps_same: "au_authorities s' = au_authorities s \<Longrightarrow> keeps_authorities s s'"
  by (simp add: keeps_authorities_def kept_def)

lemma keeps_put:
  assumes "find_authority (au_authorities s) (ad_authority_id a) = None" "au_authorities s' = put_authority a (au_authorities s)"
  shows "keeps_authorities s s'"
  using assms by (auto simp: keeps_authorities_def kept_def find_put_authority)

lemma keeps_rotated:
  assumes "find_authority (au_authorities s) i = Some old" "ad_kind old = ProductTrustRoot"
    and "find_authority (au_authorities s) (ad_authority_id a) = None"
    and "au_authorities s' = put_authority a (map (rotating i) (au_authorities s))"
  shows "keeps_authorities s s'"
  unfolding keeps_authorities_def
proof (intro allI impI)
  fix j x assume x: "find_authority (au_authorities s) j = Some x"
  have "kept x (rotating i x)" using x assms(1,2) find_authorityD [OF x] by (auto simp: kept_def rotating_def)
  then show "\<exists>y. find_authority (au_authorities s') j = Some y \<and> kept x y"
    using x assms(3) by (auto simp: assms(4) find_put_authority find_map_rotating)
qed

lemma keeps_trans: "keeps_authorities s s' \<Longrightarrow> keeps_authorities s' s'' \<Longrightarrow> keeps_authorities s s''"
  unfolding keeps_authorities_def using kept_trans by metis

text \<open>A root transition as the service records it: signed with the keys of two of its roots.\<close>

definition transition_recorded :: "trust_crypto \<Rightarrow> 'p authority_service \<Rightarrow> root_transition \<Rightarrow> bool" where
  "transition_recorded c s t \<longleftrightarrow> rt_schema t = 1 \<and> rt_trust_root_set t = au_trust_root_set s
     \<and> (\<exists>old new i j. find_authority (au_authorities s) i = Some old \<and> find_authority (au_authorities s) j = Some new
          \<and> ad_kind old = ProductTrustRoot \<and> ad_kind new = ProductTrustRoot
          \<and> ad_key_id old = rt_from_root_key_id t \<and> ad_key_id new = rt_to_root_key_id t
          \<and> (let payload = root_transition_payload c (rt_trust_root_set t) (rt_from_root_key_id t)
               (rt_to_root_key_id t) (rt_activation_epoch t) (rt_issued_at t) in
             signed_by c (ad_public_key old) payload (rt_old_root_signature t)
             \<and> signed_by c (ad_public_key new) payload (rt_new_root_signature t)))"

lemma recorded_kept:
  assumes "transition_recorded c s t" "keeps_authorities s s'" "au_trust_root_set s' = au_trust_root_set s"
  shows "transition_recorded c s' t"
proof -
  obtain old new i j where "find_authority (au_authorities s) i = Some old" "find_authority (au_authorities s) j = Some new"
    and f: "ad_kind old = ProductTrustRoot" "ad_kind new = ProductTrustRoot"
      "ad_key_id old = rt_from_root_key_id t" "ad_key_id new = rt_to_root_key_id t"
      "let payload = root_transition_payload c (rt_trust_root_set t) (rt_from_root_key_id t)
         (rt_to_root_key_id t) (rt_activation_epoch t) (rt_issued_at t) in
       signed_by c (ad_public_key old) payload (rt_old_root_signature t)
       \<and> signed_by c (ad_public_key new) payload (rt_new_root_signature t)"
    using assms(1) unfolding transition_recorded_def by blast
  with assms(2) obtain old' new' where "find_authority (au_authorities s') i = Some old'"
    "find_authority (au_authorities s') j = Some new'" "kept old old'" "kept new new'"
    unfolding keeps_authorities_def by blast
  moreover from this(3,4) have "ad_key_id old' = ad_key_id old" "ad_kind old' = ad_kind old"
    "ad_public_key old' = ad_public_key old" "ad_key_id new' = ad_key_id new" "ad_kind new' = ad_kind new"
    "ad_public_key new' = ad_public_key new" using kept_fields by blast+
  ultimately show ?thesis using f assms(1,3) unfolding transition_recorded_def by (metis (no_types, lifting))
qed

text \<open>All a step keeps, for one step and hence for a run.\<close>

definition keeps :: "trust_crypto \<Rightarrow> 'p authority_service \<Rightarrow> 'p authority_service \<Rightarrow> bool" where
  "keeps c s s' \<longleftrightarrow> keeps_authorities s s' \<and> au_trust_root_set s' = au_trust_root_set s
     \<and> au_trust_epoch s \<le> au_trust_epoch s'
     \<and> (\<forall>t \<in> set (au_root_transitions s'). t \<in> set (au_root_transitions s) \<or> transition_recorded c s' t)"

lemma keeps_refl: "keeps c s s"
  by (simp add: keeps_def keeps_same)

lemma keeps_step: "keeps c s0 s \<Longrightarrow> keeps c s s' \<Longrightarrow> keeps c s0 s'"
  unfolding keeps_def using keeps_trans recorded_kept order_trans by (metis (no_types, lifting))

lemma keepsI:
  assumes "keeps_authorities s s'" "au_root_transitions s' = au_root_transitions s"
    "au_trust_root_set s' = au_trust_root_set s" "au_trust_epoch s' = au_trust_epoch s"
  shows "keeps c s s'"
  using assms by (simp add: keeps_def)

lemma issue_keeps:
  assumes "issue_subordinate_versioned c ops w parent_id i kind caps version now valid_until s = (s', Inr a)"
  shows "keeps c s s'"
proof (rule issue_cases [OF assms])
  fix parent key p sig ce
  assume "find_authority (au_authorities s) i = None" "a = subordinate_descriptor parent key ce"
    "ce = certificate_body parent key i kind caps version now valid_until\<lparr>ce_signature := tc_b64_encode c sig\<rparr>"
    "au_authorities s' = put_authority a (au_authorities s)" "au_root_transitions s' = au_root_transitions s"
    "au_trust_root_set s' = au_trust_root_set s" "au_trust_epoch s' = au_trust_epoch s"
  then show ?thesis
    by (intro keepsI keeps_put [of s a]) (simp_all add: subordinate_descriptor_def certificate_body_def)
qed

context key_provider_contract
begin

lemma reissue_keeps_ok:
  assumes ok: "service_ok c ops plain time s" and laws: "crypto_ok c" "lawful w" and time: "now \<le> time"
    and v: "validate_center_authority_reissue_request c r now True s = Some (Inr (predecessor, issuer, caps, epoch))"
    and i: "issue_transition c ops w r now predecessor issuer caps epoch s = (s', Inr t)"
    and fresh: "ct_successor_key_id t \<notin> ad_key_id ` set (au_authorities s)"
  shows "service_ok c ops plain time s'"
proof (rule issue_transition_step [OF i])
  fix s1 successor
  assume st: "issue_subordinate_versioned c ops w (ad_authority_id issuer) (successor_id_of predecessor) CenterAuthority
      caps (ad_version predecessor + 1) now (ad_valid_until predecessor) s = (s1, Inr successor)"
    and k: "ct_successor_key_id t = ad_key_id successor"
    and f: "au_authorities s' = au_authorities s1" "au_provider s' = au_provider s1" "au_revocations s' = au_revocations s1"
  have "predecessor \<in> set (live s)" using validated_request(1,3) [OF v] by (auto simp: live_def)
  then have "trusted c (live s) (au_revocations s) time predecessor" using ok by (simp add: service_ok_def)
  from trusted_in_force [OF this] have "\<forall>u. ad_valid_until predecessor = Some u \<longrightarrow> time \<le> u"
    by (auto simp: descriptor_rejected_def result_simps not_less)
  from issue_keeps_ok [OF ok laws st _ time this] fresh k have "service_ok c ops plain time s1" by simp
  then show ?thesis by (simp only: service_ok_same [OF f])
qed

lemma issuing_run_ok:
  assumes "issuing_run c ops lawful time s0 s" "crypto_ok c" "service_ok c ops plain time s0"
  shows "service_ok c ops plain time s"
  using assms(1)
proof (induction rule: issuing_run.induct)
  case run_start
  show ?case by (rule assms(3))
next
  case (run_root s w now i s' r)
  show ?case by (rule root_keeps_ok [OF run_root.IH run_root.hyps(2,4,6,5,3)])
next
  case (run_issue s w now valid_until parent_id i kind caps version s' a)
  show ?case by (rule issue_keeps_ok [OF run_issue.IH assms(2) run_issue.hyps(2,5,6,3,4)])
next
  case (run_rotate s w now i old s' a)
  show ?case by (rule rotate_keeps_ok [OF run_rotate.IH assms(2) run_rotate.hyps(2,4-10,3)])
next
  case (run_transition s old_id new_id activation now s' t)
  obtain "au_authorities s' = au_authorities s" "au_provider s' = au_provider s" "au_revocations s' = au_revocations s"
    by (rule root_transition_cases [OF run_transition.hyps(2)])
  from service_ok_same [OF this, of c ops plain time] run_transition.IH show ?case by blast
next
  case (run_epoch s n s')
  have "service_ok c ops plain time s' \<longleftrightarrow> service_ok c ops plain time s"
    by (rule service_ok_same) (simp_all add: advance_step(1) [OF run_epoch.hyps(2)])
  with run_epoch.IH show ?case by simp
next
  case (run_reissue s w now r s' ct)
  obtain predecessor issuer caps epoch where
    "validate_center_authority_reissue_request c r now True s = Some (Inr (predecessor, issuer, caps, epoch))"
    "issue_transition c ops w r now predecessor issuer caps epoch s = (s', Inr ct)"
    by (rule reissue_cases [OF run_reissue.hyps(4,5)])
  from reissue_keeps_ok [OF run_reissue.IH assms(2) run_reissue.hyps(2,3) this run_reissue.hyps(6)] show ?case .
next
  case (run_bundle s root_id now expires_at s' sb)
  show ?case
    using run_bundle.IH service_ok_same [OF bundle_step(1-3) [OF run_bundle.hyps(2)], of c ops plain time] by blast
qed

lemma transition_keeps:
  assumes ok: "service_ok c ops plain time s" and laws: "crypto_ok c"
    and issue: "issue_root_transition c ops old_id new_id activation now s = (s', Inr t)"
  shows "keeps c s s'"
proof (rule root_transition_cases [OF issue])
  fix old new old_sig new_sig
  assume found: "find_authority (au_authorities s) old_id = Some old" "find_authority (au_authorities s) new_id = Some new"
      "ad_kind old = ProductTrustRoot" "ad_kind new = ProductTrustRoot"
    and signs: "kp_sign ops (au_provider s) (ad_key_id old) (root_transition_payload c (au_trust_root_set s) (ad_key_id old)
        (ad_key_id new) activation now) = Inr old_sig"
      "kp_sign ops (au_provider s) (ad_key_id new) (root_transition_payload c (au_trust_root_set s) (ad_key_id old)
        (ad_key_id new) activation now) = Inr new_sig"
    and t: "t = \<lparr> rt_schema = 1, rt_trust_root_set = au_trust_root_set s, rt_from_root_key_id = ad_key_id old,
       rt_to_root_key_id = ad_key_id new, rt_activation_epoch = activation, rt_issued_at = now,
       rt_old_root_signature = tc_b64_encode c old_sig, rt_new_root_signature = tc_b64_encode c new_sig \<rparr>"
    and f: "au_authorities s' = au_authorities s" "au_root_transitions s' = au_root_transitions s @ [t]"
      "au_trust_root_set s' = au_trust_root_set s" "au_trust_epoch s' = au_trust_epoch s"
  have km: "keys_match ops plain s" using ok by (simp add: service_ok_def)
  have mem: "old \<in> set (au_authorities s)" "new \<in> set (au_authorities s)" using found find_authorityD by blast+
  have "transition_recorded c s' t"
    unfolding transition_recorded_def f(1,3)
    using found authority_signature(2) [OF km laws mem(1) signs(1)] authority_signature(2) [OF km laws mem(2) signs(2)]
    by (intro conjI exI [of _ old] exI [of _ new] exI [of _ old_id] exI [of _ new_id]) (simp_all add: t Let_def)
  then show ?thesis by (simp add: keeps_def keeps_same f)
qed

lemma issuing_run_keeps:
  assumes "issuing_run c ops lawful time s0 s" "crypto_ok c" "service_ok c ops plain time s0"
  shows "keeps c s0 s"
  using assms(1)
proof (induction rule: issuing_run.induct)
  case run_start
  show ?case by (rule keeps_refl)
next
  case (run_root s w now i s' r)
  show ?case
  proof (rule keeps_step [OF run_root.IH], rule initialize_root_cases [OF run_root.hyps(4)])
    fix p key
    assume a: "au_authorities s' = put_authority (root_descriptor i key now) (au_authorities s)"
      and f: "au_root_transitions s' = au_root_transitions s" "au_trust_root_set s' = au_trust_root_set s"
        "au_trust_epoch s' = au_trust_epoch s"
    show "keeps c s s'"
      by (rule keepsI [OF keeps_put [OF _ a] f]) (simp add: root_descriptor_def run_root.hyps(5))
  qed
next
  case (run_issue s w now valid_until parent_id i kind caps version s' a)
  show ?case by (rule keeps_step [OF run_issue.IH issue_keeps [OF run_issue.hyps(5)]])
next
  case (run_rotate s w now i old s' a)
  show ?case
  proof (rule keeps_step [OF run_rotate.IH], rule rotate_step [OF run_rotate.hyps(8,4)])
    assume a: "au_authorities s' = put_authority a (map (rotating i) (au_authorities s))"
      and f: "au_root_transitions s' = au_root_transitions s" "au_trust_root_set s' = au_trust_root_set s"
        "au_trust_epoch s' = au_trust_epoch s"
    show "keeps c s s'"
      by (rule keepsI [OF keeps_rotated [OF run_rotate.hyps(4,5,9) a] f])
  qed
next
  case (run_transition s old_id new_id activation now s' t)
  show ?case
    by (rule keeps_step [OF run_transition.IH
          transition_keeps [OF issuing_run_ok [OF run_transition.hyps(1) assms(2,3)] assms(2) run_transition.hyps(2)]])
next
  case (run_epoch s n s')
  have "keeps c s s'"
    using advance_step [OF run_epoch.hyps(2)] by (simp add: keeps_def keeps_same less_imp_le)
  with run_epoch.IH show ?case by (rule keeps_step)
next
  case (run_reissue s w now r s' ct)
  obtain predecessor issuer caps epoch where
    "issue_transition c ops w r now predecessor issuer caps epoch s = (s', Inr ct)"
    by (rule reissue_cases [OF run_reissue.hyps(4,5)])
  then show ?case
  proof (rule issue_transition_step)
    fix s1 successor
    assume i: "issue_subordinate_versioned c ops w (ad_authority_id issuer) (successor_id_of predecessor) CenterAuthority
        caps (ad_version predecessor + 1) now (ad_valid_until predecessor) s = (s1, Inr successor)"
      and f: "au_authorities s' = au_authorities s1" "au_root_transitions s' = au_root_transitions s1"
        "au_trust_root_set s' = au_trust_root_set s1" "au_trust_epoch s' = au_trust_epoch s1"
    show ?case
      by (rule keeps_step [OF keeps_step [OF run_reissue.IH issue_keeps [OF i]] keepsI [OF keeps_same [OF f(1)] f(2-4)]])
  qed
next
  case (run_bundle s root_id now expires_at s' sb)
  note b = bundle_step [OF run_bundle.hyps(2)]
  show ?case by (rule keeps_step [OF run_bundle.IH keepsI [OF keeps_same [OF b(1)] b(4-6)]])
qed

end

section \<open>What hosts accept\<close>

lemma recorded_dual_signed:
  assumes "transition_recorded c s t" "distinct (map ad_key_id (au_authorities s))"
    and "au_trust_epoch s \<le> rt_activation_epoch t"
    and "\<forall>x \<in> set (au_authorities s). ad_key_id x \<in> {rt_from_root_key_id t, rt_to_root_key_id t} \<longrightarrow> ad_status x \<noteq> Revoked"
  shows "dual_signed c (assemble_bundle root now expires_at s) t"
proof -
  obtain old new i j where r: "find_authority (au_authorities s) i = Some old" "find_authority (au_authorities s) j = Some new"
      "ad_kind old = ProductTrustRoot" "ad_kind new = ProductTrustRoot"
      "ad_key_id old = rt_from_root_key_id t" "ad_key_id new = rt_to_root_key_id t"
    and signed: "let payload = root_transition_payload c (rt_trust_root_set t) (rt_from_root_key_id t)
         (rt_to_root_key_id t) (rt_activation_epoch t) (rt_issued_at t) in
       signed_by c (ad_public_key old) payload (rt_old_root_signature t)
       \<and> signed_by c (ad_public_key new) payload (rt_new_root_signature t)"
    using assms(1) unfolding transition_recorded_def by blast
  have "old \<in> set (unrevoked s ProductTrustRoot)" "new \<in> set (unrevoked s ProductTrustRoot)"
    using r assms(4) find_authorityD [OF r(1)] find_authorityD [OF r(2)] by (auto simp: unrevoked_def)
  from find_root_by_key [OF assms(2) this(1), of root now expires_at] find_root_by_key [OF assms(2) this(2), of root now expires_at]
  obtain ro rn where "find_root (assemble_bundle root now expires_at s) (rt_from_root_key_id t) = Some ro"
    "pt_authority ro = old" "pt_trust_root_set ro = au_trust_root_set s"
    "find_root (assemble_bundle root now expires_at s) (rt_to_root_key_id t) = Some rn"
    "pt_authority rn = new" "pt_trust_root_set rn = au_trust_root_set s" using r by auto
  then show ?thesis
    using assms(1,3) signed unfolding dual_signed_def
    by (intro exI [of _ ro] exI [of _ rn]) (simp add: transition_recorded_def)
qed

text \<open>
  A host's anchor reaches a root of the service when it is that root, or the root from which a
  recorded transition leads to it.
\<close>

definition anchor_reaches :: "product_trust_root \<Rightarrow> 'p authority_service \<Rightarrow> authority_descriptor \<Rightarrow> bool" where
  "anchor_reaches anchor s root \<longleftrightarrow> pt_trust_root_set anchor = au_trust_root_set s
     \<and> ((ad_key_id (pt_authority anchor) = ad_key_id root \<and> ad_public_key (pt_authority anchor) = ad_public_key root)
      \<or> (\<exists>t \<in> set (au_root_transitions s). rt_from_root_key_id t = ad_key_id (pt_authority anchor)
           \<and> rt_to_root_key_id t = ad_key_id root
           \<and> (\<exists>x \<in> set (au_authorities s). ad_key_id x = ad_key_id (pt_authority anchor)
                \<and> ad_public_key x = ad_public_key (pt_authority anchor))))"

lemma reached_root_anchored:
  assumes "anchor_reaches anchor s root" "anchor \<in> set anchors" "distinct (map ad_key_id (au_authorities s))"
    and dual: "\<forall>t \<in> set (au_root_transitions s). dual_signed c (assemble_bundle root now expires_at s) t"
    and r: "pt_authority r = root" "pt_trust_root_set r = au_trust_root_set s"
  shows "directly_anchored anchors r \<or> transition_anchored anchors (assemble_bundle root now expires_at s) r"
proof -
  let ?b = "assemble_bundle root now expires_at s"
  have "transition_anchored anchors ?b r"
    if t: "t \<in> set (au_root_transitions s)" "rt_from_root_key_id t = ad_key_id (pt_authority anchor)"
        "rt_to_root_key_id t = ad_key_id root"
      and x: "x \<in> set (au_authorities s)" "ad_key_id x = ad_key_id (pt_authority anchor)"
        "ad_public_key x = ad_public_key (pt_authority anchor)" for t x
  proof -
    have "dual_signed c ?b t" using dual t(1) by blast
    then obtain old where old: "find_root ?b (rt_from_root_key_id t) = Some old" "rt_trust_root_set t = pt_trust_root_set old"
      unfolding dual_signed_def by blast
    from find_root_in_bundle [OF old(1)] have m: "old \<in> set (tb_product_roots ?b)"
      "ad_key_id (pt_authority old) = ad_key_id x" using t(2) x(2) by simp_all
    from m(1) have old_in: "pt_authority old \<in> set (au_authorities s)" "pt_trust_root_set old = au_trust_root_set s"
      by (auto simp: assemble_bundle_def Let_def unrevoked_def)
    then have "pt_authority old = x" using m(2) x(1) assms(3) by (auto simp: distinct_map inj_on_def)
    then show ?thesis
      unfolding transition_anchored_def list_ex_iff
      using t x old old_in assms(1,2) r by (intro bexI [of _ t] conjI bexI [of _ anchor]) (simp_all add: anchor_reaches_def)
  qed
  then show ?thesis
    using assms(1,2) r by (auto simp: anchor_reaches_def directly_anchored_def list_ex_iff)
qed

lemma reached_bundle_verifies:
  assumes "crypto_ok c" "service_ok c (sealed_key_provider c a) plain_key_id time s" "fits_bundle s"
    and root: "find_authority (au_authorities s) root_id = Some root" "ad_status root \<noteq> Revoked"
    and times: "\<forall>v. expires_at = Some v \<longrightarrow> time \<le> v" "now \<le> time + 60"
    and dual: "\<forall>t \<in> set (au_root_transitions s). dual_signed c (assemble_bundle root now expires_at s) t"
    and issued: "service_trust_bundle c (sealed_key_provider c a) root_id now expires_at s = (s', Inr sb)"
    and anchor: "anchor \<in> set anchors" "anchor_reaches anchor s root" and epoch: "epoch \<le> au_trust_epoch s"
  shows "verify_signed_trust_bundle_with_bootstrap c sb time epoch anchors = Inr ()"
proof -
  have acc: "acceptable_bundle c sb time (au_trust_epoch s)"
    by (rule sealed.bundle_verifies [OF assms(2,1,3) root times dual issued])
  from root issued have sb: "sb_bundle sb = assemble_bundle root now expires_at s" "sb_signing_key_id sb = ad_key_id root"
    and kind: "ad_kind root = ProductTrustRoot"
    by (auto simp: service_trust_bundle_def Let_def result_simps split: sum.splits if_splits)
  have keys: "distinct (map ad_key_id (au_authorities s))" using assms(2) by (simp add: service_ok_def)
  have "root \<in> set (unrevoked s ProductTrustRoot)" using root kind find_authorityD by (fastforce simp: unrevoked_def)
  from find_root_by_key [OF keys this, of root now expires_at]
  obtain r where r: "find_root (sb_bundle sb) (sb_signing_key_id sb) = Some r" "pt_authority r = root"
      "pt_trust_root_set r = au_trust_root_set s"
    by (auto simp: sb)
  have "directly_anchored anchors r \<or> transition_anchored anchors (sb_bundle sb) r"
    unfolding sb by (rule reached_root_anchored [OF anchor(2,1) keys dual r(2,3)])
  moreover have "acceptable_bundle c sb time epoch"
    using acc epoch by (auto simp: acceptable_bundle_def Let_def sb assemble_bundle_def)
  ultimately show ?thesis using anchor(1) r
    by (auto simp: verify_signed_trust_bundle_with_bootstrap_def verify_bundle_acceptable)
qed

text \<open>The predecessor and the issuer of a reissue in an earlier state of the run.\<close>

lemma reissue_material_before:
  assumes ok: "service_ok c ops plain now s0" and ids: "distinct_ids (au_authorities s)"
    and kept: "keeps_authorities s0 s"
    and v: "validate_center_authority_reissue_request c r now True s = Some (Inr (predecessor, issuer, caps, epoch))"
    and found: "find_authority (au_authorities s0) (rq_predecessor_authority_id r) = Some x"
  shows "predecessor \<in> set (unrevoked s0 CenterAuthority)" "issuer \<in> set (unrevoked s0 DeploymentRoot)"
proof -
  note v = validated_request [OF v]
  have ids0: "distinct_ids (au_authorities s0)" using ok by (simp add: service_ok_def)
  obtain y where "find_authority (au_authorities s) (rq_predecessor_authority_id r) = Some y" "kept x y"
    using kept found unfolding keeps_authorities_def by blast
  then have "kept x predecessor" using distinct_found [OF ids v(1)] v(15) by simp
  then have x: "x = predecessor" using v(2) by (auto simp: kept_def)
  then have live: "predecessor \<in> set (live s0)" using found find_authorityD v(3) by (auto simp: live_def)
  then show "predecessor \<in> set (unrevoked s0 CenterAuthority)" using v(2) by (simp add: unrevoked_live)
  have "trusted c (live s0) (au_revocations s0) now predecessor" using ok live by (simp add: service_ok_def)
  then obtain z where z: "find_authority (live s0) (ad_authority_id issuer) = Some z"
    by (rule trustedE) (use v(2,14) in \<open>auto simp: certificate_out_of_scope_def result_simps\<close>)
  then have z0: "find_authority (au_authorities s0) (ad_authority_id issuer) = Some z" by (simp add: find_live [OF ids0])
  obtain y where "find_authority (au_authorities s) (ad_authority_id issuer) = Some y" "kept z y"
    using kept z0 unfolding keeps_authorities_def by blast
  then have "kept z issuer" using v(8) by simp
  then have "z = issuer" using v(5) by (auto simp: kept_def)
  then show "issuer \<in> set (unrevoked s0 DeploymentRoot)"
    using find_authorityD [OF z] v(5) by (simp add: unrevoked_live)
qed

lemma predecessor_unnamed:
  assumes "find_authority (au_authorities s) (ct_predecessor_authority_id t) = None"
  shows "transition_predecessor t (assemble_bundle root now expires_at s) = None"
proof -
  let ?cs = "sort_key ad_version (unrevoked s CenterAuthority)"
  have other: "ad_authority_id x \<noteq> ct_predecessor_authority_id t" if "x \<in> set ?cs" for x
    using that assms by (auto simp: unrevoked_def find_authority_def find_None_iff)
  then have "find (\<lambda>a. ad_authority_id a = ct_predecessor_authority_id t \<and> ad_key_id a = ct_predecessor_key_id t) (butlast ?cs) = None"
    using in_set_butlastD by (fastforce simp: find_None_iff simp del: set_sort)
  moreover have "ad_authority_id (last ?cs) \<noteq> ct_predecessor_authority_id t" if "?cs \<noteq> []"
    using other last_in_set [OF that] by blast
  ultimately show ?thesis by (simp add: transition_predecessor_def assemble_bundle_def Let_def)
qed

text \<open>A transition that names a centre the bundle does not hold.\<close>

lemma unnamed_predecessor_refused:
  assumes issued: "service_trust_bundle c ops root_id issued_at expires_at s0 = (s1, Inr sb)"
    and root: "find_authority (au_authorities s0) root_id = Some root" "ad_status root \<noteq> Revoked"
    and keys: "distinct (map ad_key_id (au_authorities s0))"
    and t: "ct_contract t = center_authority_reissue_contract" "ct_status t = TransitionIssued"
      "ct_trust_root_set t = au_trust_root_set s0" "au_trust_epoch s0 \<le> ct_activation_epoch t"
      "ct_issued_at t \<le> later + 60" "find_authority (au_authorities s0) (ct_predecessor_authority_id t) = None"
  shows "verify_center_authority_transition c t sb later = Inl ''TRUST_CENTER_PREDECESSOR_UNKNOWN''"
proof -
  from root issued have sb: "sb_bundle sb = assemble_bundle root issued_at expires_at s0" "sb_signing_key_id sb = ad_key_id root"
    and kind: "ad_kind root = ProductTrustRoot"
    by (auto simp: service_trust_bundle_def Let_def result_simps split: sum.splits if_splits)
  have "root \<in> set (unrevoked s0 ProductTrustRoot)" using root kind find_authorityD by (fastforce simp: unrevoked_def)
  from find_root_by_key [OF keys this, of root issued_at expires_at] obtain rt where
    "find_root (sb_bundle sb) (sb_signing_key_id sb) = Some rt" "pt_trust_root_set rt = au_trust_root_set s0"
    by (auto simp: sb)
  then show ?thesis
    unfolding verify_center_authority_transition_def Let_def
    using t predecessor_unnamed [OF t(6), of root issued_at expires_at]
    by (simp add: sb transition_status_open_def not_less)
qed

lemma reissue_on_earlier_bundle:
  assumes laws: "crypto_ok c" "sealed_world_ok a w" and ok: "service_ok c (sealed_key_provider c a) plain_key_id now s0"
    and fits: "fits_bundle s0"
    and root: "find_authority (au_authorities s0) root_id = Some root" "ad_status root \<noteq> Revoked"
    and issued: "service_trust_bundle c (sealed_key_provider c a) root_id issued_at expires_at s0 = (s1, Inr sb)"
    and run: "issuing_run c (sealed_key_provider c a) (sealed_world_ok a) now s0 s"
    and reissue: "authorize_center_authority_reissue c (sealed_key_provider c a) w r now s = Some (s', Inr t)"
    and new: "\<forall>x \<in> set (au_center_transitions s). ct_transition_id x \<noteq> rq_transition_id r"
      "ct_successor_key_id t \<notin> ad_key_id ` set (au_authorities s)"
    and clock: "now \<le> later + 60"
  shows "verify_center_authority_transition c t sb later =
    (if find_authority (au_authorities s0) (rq_predecessor_authority_id r) = None
     then Inl ''TRUST_CENTER_PREDECESSOR_UNKNOWN'' else Inr ())"
proof -
  let ?ops = "sealed_key_provider c a"
  obtain predecessor issuer caps epoch where
    v: "validate_center_authority_reissue_request c r now True s = Some (Inr (predecessor, issuer, caps, epoch))"
    and i: "issue_transition c ?ops w r now predecessor issuer caps epoch s = (s', Inr t)"
    by (rule reissue_cases [OF reissue new(1)])
  have ok_s: "service_ok c ?ops plain_key_id now s" by (rule sealed.issuing_run_ok [OF run laws(1) ok])
  have k: "keeps_authorities s0 s" "au_trust_root_set s0 = au_trust_root_set s" "au_trust_epoch s0 \<le> au_trust_epoch s"
    using sealed.issuing_run_keeps [OF run laws(1) ok] by (simp_all add: keeps_def)
  have predecessor: "ad_authority_id predecessor = rq_predecessor_authority_id r" "au_trust_epoch s < epoch"
    "predecessor \<in> set (au_authorities s)" "ad_status predecessor \<noteq> Revoked"
    using validated_request(1,3,10,15) [OF v] by auto
  show ?thesis
  proof (cases "find_authority (au_authorities s0) (rq_predecessor_authority_id r)")
    case None
    obtain s2 successor ce sig where
      "t = (unsigned_transition_of r (au_trust_root_set s) predecessor successor issuer ce caps epoch now
       (request_digest_hex c r))\<lparr>ct_signatures := [\<lparr> ts_authority_id = ad_authority_id issuer,
         ts_key_id = ad_key_id issuer, ts_algorithm = trust_fabric_algorithm, ts_signature = tc_b64_encode c sig \<rparr>]\<rparr>"
      by (rule issue_transition_cases [OF i])
    then have "verify_center_authority_transition c t sb later = Inl ''TRUST_CENTER_PREDECESSOR_UNKNOWN''"
      using None k predecessor ok clock
      by (intro unnamed_predecessor_refused [OF issued root]) (simp_all add: unsigned_transition_of_def service_ok_def)
    with None show ?thesis by simp
  next
    case (Some x)
    have ids: "distinct_ids (au_authorities s)" using ok_s by (simp add: service_ok_def)
    note named = reissue_material_before [OF ok ids k(1) v Some]
    have "trusted c (live s) (au_revocations s) now predecessor"
      using ok_s predecessor(3,4) by (simp add: service_ok_def live_def)
    from trusted_in_force [OF this] have "\<forall>u. ad_valid_until predecessor = Some u \<longrightarrow> now \<le> u"
      by (auto simp: descriptor_rejected_def result_simps not_less)
    from sealed.issued_transition_verifies [OF ok_s laws ok fits k(2,3) root issued named clock v i new(2) this]
    show ?thesis using Some by simp
  qed
qed

section \<open>Properties\<close>


text \<open>
  C20. The succession of the centre reaches every host whose bundle knows the centre, and no other.
  Let a well-formed service issue a bundle, go through any run of its steps, and then issue the
  transition an approved request asks for. A host that holds that earlier bundle, at any later
  time (up to the clock skew of a minute), accepts the transition with no other material exactly
  when the predecessor centre existed when the bundle was issued; otherwise it refuses it with
  \<open>TRUST_CENTER_PREDECESSOR_UNKNOWN\<close>.
\<close>

theorem reissue_is_accepted:
  assumes "crypto_ok c" "sealed_world_ok a w" "service_ok c (sealed_key_provider c a) plain_key_id now s0" "fits_bundle s0"
    and "find_authority (au_authorities s0) root_id = Some root" "ad_status root \<noteq> Revoked"
    and "service_trust_bundle c (sealed_key_provider c a) root_id issued_at expires_at s0 = (s1, Inr sb)"
    and "issuing_run c (sealed_key_provider c a) (sealed_world_ok a) now s0 s"
    and "authorize_center_authority_reissue c (sealed_key_provider c a) w r now s = Some (s', Inr t)"
    and "\<forall>x \<in> set (au_center_transitions s). ct_transition_id x \<noteq> rq_transition_id r"
    and "ct_successor_key_id t \<notin> ad_key_id ` set (au_authorities s)" "now \<le> later + 60"
  shows "verify_center_authority_transition c t sb later =
    (if find_authority (au_authorities s0) (rq_predecessor_authority_id r) = None
     then Inl ''TRUST_CENTER_PREDECESSOR_UNKNOWN'' else Inr ())"
  by (rule reissue_on_earlier_bundle [OF assms])

end
