(* ===== verification/Trust_Scenario.thy ===== *)
theory Trust_Scenario imports Authority_Runs begin

text \<open>
  The properties of \<open>Authority_Service\<close> and \<open>Authority_Runs\<close> at work: a service over the sealed key provider that holds the
  example hierarchy, and the keys of the authorities that sign. Each property is applied to a call
  of the service on it.
\<close>

section \<open>The service of the example hierarchy\<close>

definition stored_key :: "string \<Rightarrow> string" where
  "stored_key x = sealed_prefix @ replicate 12 CHR ''n'' @ tc_public example_crypto x @ replicate 16 CHR 0x00"

definition scenario_keys :: sealed_keys where
  "scenario_keys = \<lparr> sk_files = [''key-root.sealed'' \<mapsto> stored_key ''root'',
     ''key-deployment-root.sealed'' \<mapsto> stored_key ''deployment-root'', ''key-center.sealed'' \<mapsto> stored_key ''center''],
     sk_sealing_key = ''secret'', sk_revoked = {} \<rparr>"

definition scenario :: "sealed_keys authority_service" where
  "scenario = (authority_service_new scenario_keys ''set'')\<lparr>au_authorities := example_hierarchy\<rparr>"

abbreviation scenario_ops :: "(seal_world, sealed_keys) key_provider" where
  "scenario_ops \<equiv> sealed_key_provider example_crypto example_aead"

lemma scenario_fields [simp]:
  "au_provider scenario = scenario_keys" "au_authorities scenario = example_hierarchy" "au_revocations scenario = []"
  "au_root_transitions scenario = []" "au_center_transitions scenario = []" "au_trust_root_set scenario = ''set''"
  "au_trust_epoch scenario = 1"
  by (simp_all add: scenario_def authority_service_new_def)

lemma scenario_read:
  "read_key example_aead scenario_keys ''key-root'' = Inr (tc_public example_crypto ''root'')"
  "read_key example_aead scenario_keys ''key-deployment-root'' = Inr (tc_public example_crypto ''deployment-root'')"
  "read_key example_aead scenario_keys ''key-center'' = Inr (tc_public example_crypto ''center'')"
  by code_simp+

lemma scenario_unread:
  "read_key example_aead scenario_keys ''key-deployment'' = Inl ''TRUST_KEY_NOT_FOUND''"
  "read_key example_aead scenario_keys ''key-release'' = Inl ''TRUST_KEY_NOT_FOUND''"
  "read_key example_aead scenario_keys ''key-signer'' = Inl ''TRUST_KEY_NOT_FOUND''"
  by code_simp+

lemma scenario_not_revoked:
  "is_revoked scenario_keys ''key-root'' = Inr False" "is_revoked scenario_keys ''key-deployment-root'' = Inr False"
  "is_revoked scenario_keys ''key-center'' = Inr False"
  by code_simp+

lemma scenario_sign:
  "kp_sign scenario_ops scenario_keys ''key-root'' m = Inr (tc_sign example_crypto (tc_public example_crypto ''root'') m)"
  "kp_sign scenario_ops scenario_keys ''key-deployment-root'' m
    = Inr (tc_sign example_crypto (tc_public example_crypto ''deployment-root'') m)"
  "kp_sign scenario_ops scenario_keys ''key-center'' m = Inr (tc_sign example_crypto (tc_public example_crypto ''center'') m)"
  by (simp_all add: sealed_ops sealed_sign_def scenario_read scenario_not_revoked)

lemma example_key_ids: "map ad_key_id example_hierarchy
    = [''key-root'', ''key-deployment'', ''key-deployment-root'', ''key-center'', ''key-release'', ''key-signer'']"
  by (simp add: example_hierarchy_def example_authority_defs example_issue_def [of _ "''deployment''"]
      example_issue_def [of _ "''deployment-root''"] example_issue_def [of _ "''center''"]
      example_issue_def [of _ "''release''"] example_issue_def [of _ "''signer''"] example_root_authority_def)

lemma example_statuses: "a \<in> set example_hierarchy \<Longrightarrow> ad_status a = Active"
  by (auto simp: example_hierarchy_def example_authority_defs example_issue_def example_root_authority_def)

lemma example_public: "tc_public example_crypto (tc_public example_crypto x) = tc_public example_crypto x"
  by (simp add: example_crypto_def min_def)

lemma scenario_live: "live scenario = example_hierarchy"
  using example_statuses by (simp add: live_def filter_id_conv)

lemma scenario_keys_match: "keys_match scenario_ops plain_key_id scenario"
proof -
  have "plain_key_id (ad_key_id a)" if "a \<in> set example_hierarchy" for a
    using that by (auto simp: example_hierarchy_def example_authority_defs example_issue_def example_root_authority_def
        plain_key_id_def)
  moreover have "kd_public_key d = ad_public_key a"
    if "a \<in> set example_hierarchy" "kp_load scenario_ops scenario_keys (ad_key_id a) = Inr d" for a d
    using that by (auto simp: example_hierarchy_def example_authority_defs example_issue_def example_root_authority_def
        sealed_ops sealed_load_def scenario_read scenario_unread scenario_not_revoked key_descriptor_of_def
        example_crypto_def)
  ultimately show ?thesis by (simp add: keys_match_def)
qed

lemma scenario_ok: "service_ok example_crypto scenario_ops plain_key_id 120 scenario"
  using scenario_keys_match example_hierarchy_trusted
  by (simp add: service_ok_def scenario_live distinct_ids_def example_ids example_key_ids)

lemma trusted_chain:
  assumes "\<forall>x \<in> set auths. ad_status x = Active"
  shows "trusted c auths revs now a \<Longrightarrow> a \<in> set auths \<Longrightarrow> verify_chain c auths revs now a = Some (Inr ())"
proof (induction rule: trusted.induct)
  case (trusted_root a)
  then show ?case using assms
    by (subst verify_chain_step) (auto simp: assert_active_def descriptor_rejected_def result_simps)
next
  case (trusted_issued a ce issuer)
  note i = find_authorityD [OF trusted_issued(4)] and f = trusted_in_force [OF trusted_issued(5)]
  have "assert_active revs x now = Inr ()" if "x \<in> set auths" "\<not> descriptor_rejected revs now x" for x
    using assms that by (auto simp: assert_active_def descriptor_rejected_def result_simps)
  with trusted_issued i f show ?case by (subst verify_chain_step) simp
qed

lemma scenario_chain: "a \<in> set example_hierarchy \<Longrightarrow> service_chain example_crypto scenario 120 a = Some (Inr ())"
  using trusted_chain [of example_hierarchy] example_hierarchy_trusted example_statuses by (simp add: service_chain_def)

lemma scenario_active: "a \<in> set example_hierarchy \<Longrightarrow> assert_active [] a 120 = Inr ()"
  using scenario_chain [of a] by (simp add: service_chain_def verify_chain_step)

lemma example_members:
  "example_root_authority \<in> set example_hierarchy" "example_deployment \<in> set example_hierarchy"
  "example_deployment_root \<in> set example_hierarchy" "example_center \<in> set example_hierarchy"
  by (simp_all add: example_hierarchy_def)

lemma hierarchy_fields:
  "ad_authority_id example_root_authority = ''root''" "ad_key_id example_root_authority = ''key-root''"
  "ad_kind example_root_authority = ProductTrustRoot" "ad_public_key example_root_authority = tc_public example_crypto ''root''"
  "ad_authority_id example_deployment_root = ''deployment-root''" "ad_key_id example_deployment_root = ''key-deployment-root''"
  "ad_kind example_deployment_root = DeploymentRoot" "ad_capabilities example_deployment_root = [authority_capability DeploymentRoot]"
  "ad_authority_id example_center = ''center''" "ad_key_id example_center = ''key-center''" "ad_kind example_center = CenterAuthority"
  "ad_capabilities example_center = [authority_capability CenterAuthority]" "ad_version example_center = 1"
  "ad_issuer_authority_id example_center = Some ''deployment-root''" "ad_issuer_key_id example_center = Some ''key-deployment-root''"
  "ad_valid_until example_center = None" "ad_public_key example_center = tc_public example_crypto ''center''"
  by (simp_all add: example_root_authority_def example_deployment_root_def example_center_def example_issue_def)

lemmas scenario_found = example_found [OF example_members(1), unfolded hierarchy_fields]
  example_found [OF example_members(3), unfolded hierarchy_fields] example_found [OF example_members(4), unfolded hierarchy_fields]

section \<open>Bundles\<close>

definition scenario_bundle :: "sealed_keys authority_service \<times> (string + signed_trust_bundle)" where
  "scenario_bundle = service_trust_bundle example_crypto scenario_ops ''root'' 120 (Some 200) scenario"

lemma scenario_bundle_issued: "\<exists>s sb. scenario_bundle = (s, Inr sb)"
  by (simp add: scenario_bundle_def service_trust_bundle_def Let_def scenario_found hierarchy_fields scenario_sign)

lemma scenario_fits: "fits_bundle scenario"
  by (simp add: fits_bundle_def unrevoked_def example_hierarchy_def example_authority_defs example_issue_def
      example_root_authority_def)

section \<open>New authorities\<close>

definition scenario_world :: seal_world where
  "scenario_world = \<lparr> sw_seed = replicate 32 CHR ''s'', sw_nonce = replicate 12 CHR ''n'', sw_fault = NoFault, sw_remove_error = None \<rparr>"

lemma scenario_world_ok: "sealed_world_ok example_aead scenario_world"
  by (auto simp: sealed_world_ok_def aead_ok_def example_aead_def scenario_world_def)

abbreviation scenario_new_keys :: sealed_keys where
  "scenario_new_keys \<equiv> fst (sealed_generate example_crypto example_aead scenario_world scenario_keys)"

abbreviation scenario_new_key :: key_descriptor where
  "scenario_new_key \<equiv> key_descriptor_of example_crypto (fingerprint_for_raw example_crypto (replicate 32 CHR ''s''))
     (replicate 32 CHR ''s'') Active"

lemma scenario_generate:
  "kp_generate scenario_ops scenario_world scenario_keys = (scenario_new_keys, Inr scenario_new_key)"
proof -
  have "snd (sealed_generate example_crypto example_aead scenario_world scenario_keys) = Inr scenario_new_key" by code_simp
  then show ?thesis by (simp add: sealed_ops prod_eq_iff)
qed

lemma scenario_new_read:
  "read_key example_aead scenario_new_keys ''key-center'' = Inr (tc_public example_crypto ''center'')"
  "read_key example_aead scenario_new_keys ''key-deployment-root'' = Inr (tc_public example_crypto ''deployment-root'')"
  "is_revoked scenario_new_keys ''key-center'' = Inr False" "is_revoked scenario_new_keys ''key-deployment-root'' = Inr False"
  by code_simp+

lemma scenario_new_sign:
  "kp_sign scenario_ops scenario_new_keys ''key-deployment-root'' m
    = Inr (tc_sign example_crypto (tc_public example_crypto ''deployment-root'') m)"
  "kp_sign scenario_ops scenario_new_keys ''key-center'' m = Inr (tc_sign example_crypto (tc_public example_crypto ''center'') m)"
  by (simp_all add: sealed_ops sealed_sign_def scenario_new_read)

lemma scenario_new_key_fresh: "kd_key_id scenario_new_key \<notin> ad_key_id ` set example_hierarchy"
proof -
  have "fingerprint_for_raw example_crypto (replicate 32 CHR ''s'')
    \<notin> set [''key-root'', ''key-deployment'', ''key-deployment-root'', ''key-center'', ''key-release'', ''key-signer'']"
    by code_simp
  then show ?thesis by (simp add: example_key_ids [symmetric])
qed

definition scenario_issue :: "sealed_keys authority_service \<times> (string + authority_descriptor)" where
  "scenario_issue = issue_subordinate_versioned example_crypto scenario_ops scenario_world ''center'' ''enrollment''
     EnrollmentAuthority [''host_enrollment''] 1 120 None scenario"

lemma scenario_may_issue:
  "may_subordinate scenario ''center'' EnrollmentAuthority [''host_enrollment''] 1 120 = Inr example_center"
  "caps \<noteq> [] \<Longrightarrow> may_subordinate scenario ''deployment-root'' CenterAuthority caps 2 120 = Inr example_deployment_root"
  by (simp_all add: may_subordinate_def scenario_found scenario_active example_members has_capability_def hierarchy_fields)

lemma example_absent:
  "find_authority example_hierarchy ''enrollment'' = None" "find_authority example_hierarchy ''center-v2'' = None"
proof -
  have "find_authority example_hierarchy i = None" if "i \<notin> set (map ad_authority_id example_hierarchy)" for i
    using that by (auto simp: find_authority_def find_None_iff)
  then show "find_authority example_hierarchy ''enrollment'' = None" "find_authority example_hierarchy ''center-v2'' = None"
    by (simp_all add: example_ids)
qed

lemma scenario_issued: "\<exists>s d. scenario_issue = (s, Inr d) \<and> ad_key_id d = kd_key_id scenario_new_key"
  by (simp add: scenario_issue_def issue_subordinate_versioned_def scenario_may_issue scenario_generate example_absent
      hierarchy_fields scenario_new_sign Let_def subordinate_descriptor_def)

theorem issuing_keeps_chains_witness:
  "\<exists>d. snd scenario_issue = Inr d
     \<and> service_ok example_crypto scenario_ops plain_key_id 120 (fst scenario_issue)
     \<and> trusted example_crypto (live (fst scenario_issue)) (au_revocations (fst scenario_issue)) 120 d"
proof -
  obtain s d where i: "scenario_issue = (s, Inr d)" "ad_key_id d = kd_key_id scenario_new_key"
    using scenario_issued by blast
  have "service_ok example_crypto scenario_ops plain_key_id 120 s \<and> trusted example_crypto (live s) (au_revocations s) 120 d"
    by (rule issuing_keeps_chains [OF example_crypto_ok scenario_world_ok scenario_ok i(1) [unfolded scenario_issue_def]])
      (use scenario_new_key_fresh i(2) in simp_all)
  with i show ?thesis by (simp add: prod_eq_iff)
qed

section \<open>The succession of the centre\<close>

definition scenario_request :: reissue_request where
  "scenario_request = \<lparr> rq_contract = center_authority_reissue_contract, rq_operation = ''AUTHORIZE_CENTER_AUTHORITY_REISSUE'',
     rq_transition_id = ''t-1'', rq_predecessor_authority_id = ''center'', rq_predecessor_key_id = ''key-center'',
     rq_trust_root_set = ''set'', rq_expected_trust_epoch = 1,
     rq_requested_capability = remote_operations_signing_capability,
     rq_activation_epoch = None, rq_owner_approval = Some \<lparr> ow_owner_id = ''owner'', ow_aal = ''aal2'',
       ow_reason = ''planned'', ow_confirmation = ''AUTHORIZE_CENTER_AUTHORITY_REISSUE'' \<rparr> \<rparr>"

definition scenario_reissue :: "(sealed_keys authority_service \<times> (string + center_transition)) option" where
  "scenario_reissue = authorize_center_authority_reissue example_crypto scenario_ops scenario_world scenario_request 120 scenario"

abbreviation scenario_caps :: "string list" where
  "scenario_caps \<equiv> successor_capabilities [''authority:issue-enrollment'']"

lemma scenario_caps_some: "scenario_caps \<noteq> []"
  by code_simp

lemma scenario_request_checked: "check_reissue_request scenario True scenario_request = Inr ()"
proof -
  have "check_reissue_request (authority_service_new () ''set'') True scenario_request = Inr ()" by code_simp
  then show ?thesis by (simp add: check_reissue_request_def authority_service_new_def)
qed

lemma scenario_request_valid:
  "validate_center_authority_reissue_request example_crypto scenario_request 120 True scenario
    = Some (Inr (example_center, example_deployment_root, scenario_caps, 2))"
proof -
  have p: "find_predecessor scenario scenario_request = Inr example_center"
    by (simp add: find_predecessor_def scenario_request_def scenario_found hierarchy_fields example_statuses example_members)
  have "find_reissuer scenario example_center = Inr example_deployment_root"
    by (simp add: find_reissuer_def hierarchy_fields scenario_found has_capability_def)
  then show ?thesis
    by (simp add: validate_center_authority_reissue_request_def scenario_request_checked p scenario_chain example_members
        hierarchy_fields) (simp add: scenario_request_def hierarchy_fields word_le_nat_alt)
qed

lemma scenario_successor: "\<exists>s d ce. issue_subordinate_versioned example_crypto scenario_ops scenario_world ''deployment-root''
     ''center-v2'' CenterAuthority scenario_caps 2 120 None scenario = (s, Inr d) \<and> ad_certificate d = Some ce
     \<and> ad_key_id d = kd_key_id scenario_new_key \<and> ad_authority_id d = ''center-v2'' \<and> au_provider s = scenario_new_keys"
  by (simp add: issue_subordinate_versioned_def scenario_may_issue scenario_caps_some scenario_generate example_absent
      hierarchy_fields scenario_new_sign Let_def subordinate_descriptor_def certificate_body_def)

lemma scenario_reissued: "\<exists>s t. scenario_reissue = Some (s, Inr t) \<and> ct_successor_key_id t = kd_key_id scenario_new_key
     \<and> ct_successor_authority_id t = ''center-v2''"
proof -
  have op: "rq_operation scenario_request = ''AUTHORIZE_CENTER_AUTHORITY_REISSUE''" by (simp add: scenario_request_def)
  have i: "successor_id_of example_center = ''center-v2''" by code_simp
  obtain s d ce where d: "issue_subordinate_versioned example_crypto scenario_ops scenario_world ''deployment-root''
     ''center-v2'' CenterAuthority scenario_caps 2 120 None scenario = (s, Inr d)" "ad_certificate d = Some ce"
     "ad_key_id d = kd_key_id scenario_new_key" "ad_authority_id d = ''center-v2''" "au_provider s = scenario_new_keys"
    using scenario_successor by blast
  show ?thesis
    unfolding scenario_reissue_def authorize_center_authority_reissue_def op scenario_request_valid i
    by (simp add: example_absent issue_transition_def hierarchy_fields i d scenario_new_sign Let_def
        unsigned_transition_of_def)
qed

lemma scenario_self_run: "issuing_run example_crypto scenario_ops (sealed_world_ok example_aead) 120 scenario scenario"
  by (rule run_start)

theorem reissue_is_accepted_witness:
  "\<exists>s t sb. scenario_reissue = Some (s, Inr t) \<and> snd scenario_bundle = Inr sb
     \<and> verify_center_authority_transition example_crypto t sb 500 = Inr ()"
proof -
  obtain s sb where b: "scenario_bundle = (s, Inr sb)" using scenario_bundle_issued by blast
  obtain s' t where t: "scenario_reissue = Some (s', Inr t)" "ct_successor_key_id t = kd_key_id scenario_new_key"
    using scenario_reissued by blast
  have "verify_center_authority_transition example_crypto t sb 500 =
    (if find_authority (au_authorities scenario) (rq_predecessor_authority_id scenario_request) = None
     then Inl ''TRUST_CENTER_PREDECESSOR_UNKNOWN'' else Inr ())"
    by (rule reissue_is_accepted [where s = scenario and root = example_root_authority, OF example_crypto_ok
          scenario_world_ok scenario_ok scenario_fits _ _ b [unfolded scenario_bundle_def] scenario_self_run
          t(1) [unfolded scenario_reissue_def]])
      (use scenario_new_key_fresh t(2) in \<open>simp_all add: scenario_found example_statuses example_members\<close>)
  then have "verify_center_authority_transition example_crypto t sb 500 = Inr ()"
    by (simp add: scenario_request_def scenario_found)
  with b t(1) show ?thesis by (metis snd_conv)
qed

section \<open>Revocation, rotation and retirement\<close>

definition scenario_revocation :: "sealed_keys authority_service \<times> (string + trust_revocation)" where
  "scenario_revocation = revoke_authority scenario_ops scenario_world ''deployment-root'' 121 ''lost'' scenario"

lemma scenario_revoked:
  "\<exists>p r. scenario_revocation = (audit ''AUTHORITY_REVOKED'' (Some ''deployment-root'') (Some ''key-deployment-root'') None
      (Some ''lost'') 121 (scenario\<lparr>au_provider := p, au_authorities := change_authority ''deployment-root''
        (\<lambda>a. a\<lparr>ad_status := Revoked, ad_revoked_at := Some 121, ad_revocation_reason := Some ''lost''\<rparr>) example_hierarchy,
        au_revocations := [r]\<rparr>), Inr r)
     \<and> (\<forall>m. kp_sign scenario_ops p ''key-root'' m = Inr (tc_sign example_crypto (tc_public example_crypto ''root'') m))"
proof -
  let ?r = "sealed_revoke example_aead scenario_world ''key-deployment-root'' scenario_keys"
  have "snd ?r = Inr ()" "read_key example_aead (fst ?r) ''key-root'' = Inr (tc_public example_crypto ''root'')"
    "is_revoked (fst ?r) ''key-root'' = Inr False" by code_simp+
  then have "kp_revoke scenario_ops scenario_world ''key-deployment-root'' scenario_keys = (fst ?r, Inr ())"
    and "kp_sign scenario_ops (fst ?r) ''key-root'' m = Inr (tc_sign example_crypto (tc_public example_crypto ''root'') m)" for m
    by (simp_all add: sealed_ops sealed_sign_def prod_eq_iff)
  then show ?thesis
    by (intro exI [of _ "fst ?r"]) (simp add: scenario_revocation_def revoke_authority_def scenario_found hierarchy_fields Let_def)
qed

theorem revoked_issuer_spoils_bundle_witness:
  "\<exists>sb. snd (service_trust_bundle example_crypto scenario_ops ''root'' 130 None (fst scenario_revocation)) = Inr sb
     \<and> verify_signed_trust_bundle example_crypto sb 130 0 \<noteq> Inr ()"
proof -
  obtain s1 r p where rev: "scenario_revocation = (s1, Inr r)" and p: "au_provider s1 = p"
      "\<And>m. kp_sign scenario_ops p ''key-root'' m = Inr (tc_sign example_crypto (tc_public example_crypto ''root'') m)"
    and a: "find_authority (au_authorities s1) ''root'' = Some example_root_authority"
    using scenario_revoked by (auto simp: find_change_authority scenario_found hierarchy_fields)
  then have "\<exists>s2 sb. service_trust_bundle example_crypto scenario_ops ''root'' 130 None s1 = (s2, Inr sb)"
    by (simp add: service_trust_bundle_def hierarchy_fields Let_def)
  then obtain s2 sb where b: "service_trust_bundle example_crypto scenario_ops ''root'' 130 None s1 = (s2, Inr sb)" by blast
  have ids: "distinct_ids (au_authorities scenario)" using scenario_ok by (simp add: service_ok_def)
  obtain ce where ce: "ad_certificate example_center = Some ce" "ce_issuer_authority_id ce = ''deployment-root''"
    by (simp add: example_center_def example_issue_def example_certificate_fields)
      (simp add: example_deployment_root_def example_issue_def)
  have "verify_signed_trust_bundle example_crypto sb 130 0 \<noteq> Inr ()"
    by (rule revoked_issuer_spoils_bundle [OF ids rev [unfolded scenario_revocation_def] _ _ _ _ ce b])
      (simp_all add: example_members hierarchy_fields example_statuses listed_kind_def)
  with b rev show ?thesis by (metis fst_conv snd_conv)
qed

text \<open>
  A run: the root is rotated, a transition leads from it to the new root, and the epoch advances
  to the activation of that transition.
\<close>

lemma scenario_new_root_sign:
  "kp_sign scenario_ops scenario_new_keys ''key-root'' m = Inr (tc_sign example_crypto (tc_public example_crypto ''root'') m)"
  "kp_sign scenario_ops scenario_new_keys (fingerprint_for_raw example_crypto (replicate 32 CHR ''s'')) m
    = Inr (tc_sign example_crypto (replicate 32 CHR ''s'') m)"
proof -
  have "read_key example_aead scenario_new_keys ''key-root'' = Inr (tc_public example_crypto ''root'')"
    "is_revoked scenario_new_keys ''key-root'' = Inr False"
    "read_key example_aead scenario_new_keys (fingerprint_for_raw example_crypto (replicate 32 CHR ''s'')) = Inr (replicate 32 CHR ''s'')"
    "is_revoked scenario_new_keys (fingerprint_for_raw example_crypto (replicate 32 CHR ''s'')) = Inr False"
    by code_simp+
  then show "kp_sign scenario_ops scenario_new_keys ''key-root'' m = Inr (tc_sign example_crypto (tc_public example_crypto ''root'') m)"
    "kp_sign scenario_ops scenario_new_keys (fingerprint_for_raw example_crypto (replicate 32 CHR ''s'')) m
    = Inr (tc_sign example_crypto (replicate 32 CHR ''s'') m)"
    by (simp_all add: sealed_ops sealed_sign_def key_descriptor_of_def)
qed

definition rotated_root :: "sealed_keys authority_service \<times> (string + authority_descriptor)" where
  "rotated_root = rotate_authority example_crypto scenario_ops scenario_world ''root'' 120 scenario"

lemma root_fields:
  "ad_issuer_authority_id example_root_authority = None" "ad_issuer_key_id example_root_authority = None"
  "ad_version example_root_authority = 1"
  by (simp_all add: example_root_authority_def)

lemma show_two: "show_word (2 :: 32 word) = ''2''"
  by code_simp

lemma root_v2_absent: "find_authority example_hierarchy ''root-v2'' = None"
proof -
  have "''root-v2'' \<notin> set (map ad_authority_id example_hierarchy)" by (simp add: example_ids)
  then show ?thesis by (force simp: find_authority_def find_None_iff)
qed

lemma rotated_root_state:
  "\<exists>s a. rotated_root = (s, Inr a) \<and> ad_authority_id a = ''root-v2'' \<and> ad_key_id a = kd_key_id scenario_new_key
     \<and> ad_kind a = ProductTrustRoot \<and> ad_status a = Active \<and> au_provider s = scenario_new_keys
     \<and> au_authorities s = put_authority a (map (rotating ''root'') example_hierarchy)
     \<and> au_root_transitions s = [] \<and> au_trust_root_set s = ''set'' \<and> au_trust_epoch s = 1"
  by (simp add: rotated_root_def rotate_authority_def scenario_found hierarchy_fields example_statuses example_members
      scenario_generate scenario_new_root_sign Let_def root_fields show_two subordinate_descriptor_def rotated_body_def
      change_authority_rotating)

lemma example_ids_distinct: "distinct_ids example_hierarchy"
  by (simp add: distinct_ids_def example_ids)

text \<open>The service after the rotation, the transition and the new epoch.\<close>

definition root_transition_after :: "sealed_keys authority_service \<Rightarrow> sealed_keys authority_service \<times> (string + root_transition)" where
  "root_transition_after s = issue_root_transition example_crypto scenario_ops ''root'' ''root-v2'' 2 120 s"

lemma rotated_root_transition:
  assumes "rotated_root = (s1, Inr a)"
  obtains s2 t s3 where "root_transition_after s1 = (s2, Inr t)" "advance_trust_epoch 2 s2 = (s3, Inr ())"
    "au_root_transitions s3 = [t]" "rt_activation_epoch t = 2" "rt_from_root_key_id t = ''key-root''"
    "rt_to_root_key_id t = ad_key_id a" "au_authorities s3 = au_authorities s1" "au_trust_epoch s3 = 2"
    "au_trust_root_set s3 = ''set''" "au_provider s3 = scenario_new_keys"
    "find_authority (au_authorities s3) ''root-v2'' = Some a" "ad_key_id a = kd_key_id scenario_new_key"
    "ad_status a = Active" "ad_kind a = ProductTrustRoot" "ad_authority_id a = ''root-v2''"
    "au_authorities s3 = put_authority a (map (rotating ''root'') example_hierarchy)"
proof -
  have st: "ad_authority_id a = ''root-v2''" "ad_key_id a = kd_key_id scenario_new_key"
    "ad_kind a = ProductTrustRoot" "ad_status a = Active" "au_provider s1 = scenario_new_keys"
    "au_authorities s1 = put_authority a (map (rotating ''root'') example_hierarchy)"
    "au_root_transitions s1 = []" "au_trust_root_set s1 = ''set''" "au_trust_epoch s1 = 1"
    using rotated_root_state unfolding assms by simp_all
  have f: "find_authority (au_authorities s1) ''root'' = Some (rotating ''root'' example_root_authority)"
    "find_authority (au_authorities s1) ''root-v2'' = Some a"
    using scenario_found by (simp_all add: st find_put_authority find_map_rotating)
  have "\<exists>s2 t. root_transition_after s1 = (s2, Inr t)"
    by (simp add: root_transition_after_def issue_root_transition_def f st(1-5) hierarchy_fields scenario_new_root_sign Let_def)
  then obtain s2 t where t: "root_transition_after s1 = (s2, Inr t)" by blast
  have e: "advance_trust_epoch 2 s2 = (s2\<lparr>au_trust_epoch := 2\<rparr>, Inr ())"
    by (rule root_transition_cases [OF t [unfolded root_transition_after_def]])
      (simp add: advance_trust_epoch_def st(9) word_le_nat_alt)
  show ?thesis
    by (rule root_transition_cases [OF t [unfolded root_transition_after_def]], rule that [OF t e])
      (use f st in \<open>simp_all add: hierarchy_fields\<close>)
qed

lemma example_fits_rotated:
  assumes "au_authorities s = put_authority a (map (rotating ''root'') example_hierarchy)" "ad_kind a = ProductTrustRoot"
    and "ad_authority_id a = ''root-v2''"
  shows "fits_bundle s"
proof -
  have "filter (\<lambda>b. ad_authority_id b \<noteq> ''root-v2'') (map (rotating ''root'') example_hierarchy)
    = map (rotating ''root'') example_hierarchy"
    using root_v2_absent by (auto simp: filter_id_conv find_authority_def find_None_iff)
  then have "unrevoked s k = filter (\<lambda>x. ad_kind x = k \<and> ad_status x \<noteq> Revoked) (map (rotating ''root'') example_hierarchy)"
    if "k \<noteq> ProductTrustRoot" for k
    using that assms by (simp add: unrevoked_def put_authority_def filter_insort_triv)
  then show ?thesis
    by (simp add: fits_bundle_def example_hierarchy_def example_authority_defs example_issue_def
      example_root_authority_def rotating_def)
qed


definition scenario_rotation :: "sealed_keys authority_service \<times> (string + authority_descriptor)" where
  "scenario_rotation = rotate_authority example_crypto scenario_ops scenario_world ''center'' 121 scenario"

lemma scenario_rotated: "\<exists>s a. scenario_rotation = (s, Inr a)"
  by (simp add: scenario_rotation_def rotate_authority_def scenario_found hierarchy_fields example_statuses example_members
      scenario_generate scenario_new_sign Let_def)

theorem rotated_state_never_reloads_witness:
  "\<exists>s a. scenario_rotation = (s, Inr a)
     \<and> (\<exists>e. from_durable_state example_crypto scenario_ops scenario_new_keys (durable_state s) = Inl e)"
proof -
  obtain s a where r: "scenario_rotation = (s, Inr a)" using scenario_rotated by blast
  have "\<exists>e. from_durable_state example_crypto scenario_ops scenario_new_keys (durable_state s) = Inl e"
    by (rule rotated_state_never_reloads [OF r [unfolded scenario_rotation_def], where old = example_center])
      (simp_all add: scenario_found hierarchy_fields)
  with r show ?thesis by blast
qed

definition scenario_root_transition :: root_transition where
  "scenario_root_transition = \<lparr> rt_schema = 1, rt_trust_root_set = ''set'', rt_from_root_key_id = ''key-root'',
     rt_to_root_key_id = ''key-root'', rt_activation_epoch = 2, rt_issued_at = 120, rt_old_root_signature = [],
     rt_new_root_signature = [] \<rparr>"

theorem past_root_transition_is_fatal_witness:
  "\<exists>s. advance_trust_epoch 3 (scenario\<lparr>au_root_transitions := [scenario_root_transition]\<rparr>) = (s, Inr ())
     \<and> (\<exists>e. from_durable_state example_crypto scenario_ops scenario_keys (durable_state s) = Inl e)"
proof -
  let ?s = "scenario\<lparr>au_root_transitions := [scenario_root_transition]\<rparr>"
  obtain s r where a: "advance_trust_epoch 3 ?s = (s, r)" by fastforce
  have "r = Inr () \<and> (\<exists>e. from_durable_state example_crypto scenario_ops scenario_keys (durable_state s) = Inl e)"
    using past_root_transition_is_fatal [of scenario_root_transition ?s 3 s r example_crypto scenario_ops scenario_keys
        scenario_ops, OF _ _ _ a]
    by (simp add: scenario_root_transition_def word_less_nat_alt)
  with a show ?thesis by simp
qed

section \<open>Signing\<close>

lemma scenario_signer: "capability_signer scenario ''authority:issue-center'' 120 = Some example_deployment_root"
  by (simp add: capability_signer_def later_authority_def example_hierarchy_def has_capability_def
      example_authority_defs example_issue_def example_root_authority_def)

lemma example_verify: "verify_raw example_crypto (tc_public example_crypto s) m (tc_sign example_crypto s m) = Inr ()"
  by (simp add: verify_raw_def example_crypto_def min_def)

lemma scenario_signed:
  "\<exists>s r sig. sign_for_capability example_crypto scenario_ops ''authority:issue-center'' ''message'' 120 scenario
    = Some (s, Inr (r, sig)) \<and> rd_key_id r = ''key-deployment-root''"
proof -
  have pub: "ad_public_key example_deployment_root = tc_public example_crypto (tc_public example_crypto ''deployment-root'')"
    by (simp add: example_public example_deployment_root_def example_issue_def)
  have "check_readiness example_crypto scenario_ops ''authority:issue-center'' 120 scenario = Some (Inr example_deployment_root)"
    by (simp add: check_readiness_def scenario_signer scenario_chain example_members hierarchy_fields scenario_sign Let_def pub
        example_verify)
  then show ?thesis
    by (simp add: sign_for_capability_def service_readiness_def readiness_of_def hierarchy_fields scenario_sign)
qed

theorem capability_signature_roundtrip_witness:
  "\<exists>s r sig. sign_for_capability example_crypto scenario_ops ''authority:issue-center'' ''message'' 120 scenario
      = Some (s, Inr (r, sig))
    \<and> verify_for_capability example_crypto ''authority:issue-center'' (rd_key_id r) ''message'' sig 120 s = Some (Inr ())"
proof -
  obtain s r sig where sg: "sign_for_capability example_crypto scenario_ops ''authority:issue-center'' ''message'' 120 scenario
    = Some (s, Inr (r, sig))" using scenario_signed by blast
  have "distinct (map ad_key_id (au_authorities scenario))" by (simp add: example_key_ids)
  from capability_signature_roundtrip [OF example_crypto_ok this scenario_keys_match sg] sg show ?thesis by blast
qed

section \<open>Idempotency\<close>

definition many_answers :: "(string \<times> idempotency_record) list" where
  "many_answers = map (\<lambda>n. (CHR ''b'' # replicate n CHR ''b'', \<lparr> ir_request_digest = ''d'', ir_response = JNull \<rparr>))
     [0..<max_idempotency_records]"

lemma replicate_mono: "m \<le> n \<Longrightarrow> replicate m (x :: char) \<le> replicate n x"
proof (induction m arbitrary: n)
  case (Suc m)
  then show ?case by (cases n) simp_all
qed simp

lemma many_answers_sorted: "sorted (map fst many_answers)" "distinct (map fst many_answers)"
proof -
  have "sorted (map (\<lambda>n. replicate n CHR ''b'') [0..<k])" for k
    by (induction k) (auto simp: sorted_append intro: replicate_mono)
  then show "sorted (map fst many_answers)" by (simp add: many_answers_def comp_def sorted_map)
  show "distinct (map fst many_answers)" by (simp add: many_answers_def comp_def distinct_map inj_on_def)
qed

theorem idempotent_answers_witness:
  "let s1 = record_idempotency_result ''a'' ''digest'' (JBool True) (scenario\<lparr>au_idempotency_results := many_answers\<rparr>);
       s2 = record_idempotency_result ''c'' ''other'' (JBool False) s1 in
     idempotency_result s1 ''a'' ''digest'' = Inr (Some (JBool True)) \<and> idempotency_result s2 ''a'' ''digest'' = Inr None"
proof -
  let ?s = "scenario\<lparr>au_idempotency_results := many_answers\<rparr>"
  have "\<forall>k \<in> fst ` set many_answers. ''a'' < k" "''a'' < ''c''" "''c'' \<notin> fst ` set many_answers"
    by (auto simp: many_answers_def)
  then show ?thesis
    using idempotent_answers [of ?s "''a''" "''c''", OF _ _ _ _ _ _ refl refl] many_answers_sorted
    by (simp add: Let_def many_answers_def)
qed

end
