(* ===== verification/Authority_Lifecycle.thy ===== *)
theory Authority_Lifecycle
  imports Trust_Scenario
begin

text \<open>
  The lifecycle of the centre's authority (\<^verbatim>\<open>authority_lifecycle.rs\<close>): the plan that follows from
  the durable state of the authority service and from what a host serves, the successor for which a
  new bundle is built, and the check of a host before it activates a successor.
\<close>

section \<open>Data\<close>

definition authority_lifecycle_contract :: string where
  "authority_lifecycle_contract = ''actium.authority.lifecycle.plan.v1''"

definition custody_offline_product_root :: string where
  "custody_offline_product_root = ''offline_product_root_public_only''"

definition custody_online_subordinate :: string where
  "custody_online_subordinate = ''online_subordinate''"

definition host_trust_convergence_contract :: string where
  "host_trust_convergence_contract = ''actium.authority.host-trust-convergence.v1''"

definition normalize_lifecycle_channel :: "string option \<Rightarrow> string + string" where
  "normalize_lifecycle_channel value = (let channel = to_ascii_lowercase (trim (unwrap_or value ''stable'')) in
     if channel = ''lab'' \<or> channel = ''stable'' then Inr channel else Inl ''AUTHORITY_LIFECYCLE_CHANNEL_INVALID'')"

datatype lifecycle_phase =
    PhaseGenerated | PhasePrepared | PhaseValidated | PhaseActivating | PhaseServedReady | PhasePublished
  | PhaseConverging | PhaseConverged | PhaseRetired | PhaseFailed | PhaseRollback

fun lifecycle_phase_text :: "lifecycle_phase \<Rightarrow> string" where
  "lifecycle_phase_text PhaseGenerated = ''GENERATED''"
| "lifecycle_phase_text PhasePrepared = ''PREPARED''"
| "lifecycle_phase_text PhaseValidated = ''VALIDATED''"
| "lifecycle_phase_text PhaseActivating = ''ACTIVATING''"
| "lifecycle_phase_text PhaseServedReady = ''SERVED_READY''"
| "lifecycle_phase_text PhasePublished = ''PUBLISHED''"
| "lifecycle_phase_text PhaseConverging = ''CONVERGING''"
| "lifecycle_phase_text PhaseConverged = ''CONVERGED''"
| "lifecycle_phase_text PhaseRetired = ''RETIRED''"
| "lifecycle_phase_text PhaseFailed = ''FAILED''"
| "lifecycle_phase_text PhaseRollback = ''ROLLBACK''"

record refresh_request =
  hr_contract :: string
  hr_transition :: center_transition
  hr_bundle :: signed_trust_bundle
  hr_expected_digest :: string
  hr_authority_generation :: u64
  hr_activation_generation :: u64
  hr_channel :: string

record activation_receipt =
  ar_contract :: string
  ar_phase :: lifecycle_phase
  ar_transition_id :: string
  ar_predecessor_authority_id :: string
  ar_successor_authority_id :: string
  ar_previous_digest :: string
  ar_served_digest :: string
  ar_previous_trust_epoch :: u64
  ar_trust_epoch :: u64
  ar_authority_generation :: u64
  ar_activation_generation :: u64
  ar_started_at :: u64
  ar_completed_at :: u64
  ar_result :: string
  ar_lkg_path :: string
  ar_receipt_digest :: string
  ar_channel :: string

text \<open>The receipt as serde writes it, without the member that \<open>with_receipt_digest\<close> removes.\<close>

definition receipt_json :: "activation_receipt \<Rightarrow> json" where
  "receipt_json r = JObject
     [(''contract'', JString (ar_contract r)), (''phase'', JString (lifecycle_phase_text (ar_phase r))),
      (''transitionId'', JString (ar_transition_id r)),
      (''predecessorAuthorityId'', JString (ar_predecessor_authority_id r)),
      (''successorAuthorityId'', JString (ar_successor_authority_id r)),
      (''previousDigest'', JString (ar_previous_digest r)), (''servedDigest'', JString (ar_served_digest r)),
      (''previousTrustEpoch'', json_nat_word (ar_previous_trust_epoch r)),
      (''trustEpoch'', json_nat_word (ar_trust_epoch r)),
      (''authorityGeneration'', json_nat_word (ar_authority_generation r)),
      (''activationGeneration'', json_nat_word (ar_activation_generation r)),
      (''startedAt'', json_nat_word (ar_started_at r)), (''completedAt'', json_nat_word (ar_completed_at r)),
      (''result'', JString (ar_result r)), (''lkgPath'', JString (ar_lkg_path r)),
      (''channel'', JString (ar_channel r))]"

definition with_receipt_digest :: "trust_crypto \<Rightarrow> activation_receipt \<Rightarrow> activation_receipt" where
  "with_receipt_digest c r = r\<lparr>ar_receipt_digest := fingerprint_for_raw c (canonical_json (tc_esc c) (receipt_json r))\<rparr>"

section \<open>Lineage of a successor\<close>

definition same_authority :: "string \<Rightarrow> string \<Rightarrow> authority_descriptor \<Rightarrow> bool" where
  "same_authority i k a \<longleftrightarrow> ad_authority_id a = i \<and> ad_key_id a = k"

definition validate_successor_activation_lineage ::
  "center_transition \<Rightarrow> signed_trust_bundle \<Rightarrow> signed_trust_bundle \<Rightarrow> string + unit" where
  "validate_successor_activation_lineage t previous candidate =
     res_bind (ok_or (tb_center_authority (sb_bundle previous)) ''AUTHORITY_SUCCESSOR_PREDECESSOR_NOT_SERVED'') (\<lambda>previous_center.
     res_bind (ok_or (tb_center_authority (sb_bundle candidate)) ''AUTHORITY_SUCCESSOR_CENTER_MISSING'') (\<lambda>candidate_center.
     if ad_authority_id candidate_center \<noteq> ct_successor_authority_id t \<or> ad_key_id candidate_center \<noteq> ct_successor_key_id t
     then Inl ''AUTHORITY_SUCCESSOR_TRANSITION_SCOPE_INVALID''
     else if tb_trust_epoch (sb_bundle candidate) < ct_activation_epoch t
       \<or> tb_trust_epoch (sb_bundle candidate) \<le> tb_trust_epoch (sb_bundle previous)
     then Inl ''TRUST_EPOCH_NOT_MONOTONIC''
     else if same_authority (ct_predecessor_authority_id t) (ct_predecessor_key_id t) previous_center then Inr ()
     else if \<not> same_authority (ct_successor_authority_id t) (ct_successor_key_id t) previous_center
     then Inl ''AUTHORITY_SUCCESSOR_PREDECESSOR_NOT_SERVED''
     else if \<not> list_ex (same_authority (ct_predecessor_authority_id t) (ct_predecessor_key_id t))
       (tb_predecessor_center_authorities (sb_bundle previous))
     then Inl ''AUTHORITY_SUCCESSOR_LINEAGE_INVALID''
     else Inr ()))"

section \<open>The plan\<close>

datatype authority_lifecycle_state =
    Healthy | SuccessorPrepared | OwnerApprovalRequired | RootRequired | TrustBundleRebuildRequired
  | ReadyToPromote | Promoting | HostConvergence | LifecycleFailed | LifecycleBlocked

record lifecycle_plan =
  lp_contract :: string
  lp_current_authority_id :: string
  lp_target_authority_id :: string
  lp_predecessor_authority_id :: string
  lp_transition_id :: "string option"
  lp_required_capabilities :: "string list"
  lp_current_trust_epoch :: u64
  lp_target_trust_epoch :: u64
  lp_root_authority_id :: string
  lp_custody_profile :: string
  lp_state :: authority_lifecycle_state
  lp_predecessor_overlap_required :: bool
  lp_owner_root_action_required :: bool
  lp_reason :: string

record served_view =
  sv_center_authority_id :: string
  sv_trust_epoch :: u64

definition active_root :: "durable_authority_state \<Rightarrow> string + authority_descriptor" where
  "active_root s =
     (case filter (\<lambda>a. ad_kind a = ProductTrustRoot \<and> ad_status a = Active) (ds_authorities s) of
        [root] \<Rightarrow> Inr root
      | _ \<Rightarrow> Inl ''AUTHORITY_LIFECYCLE_PRODUCT_ROOT_AMBIGUOUS'')"

definition transition_ended :: "center_transition \<Rightarrow> bool" where
  "transition_ended t \<longleftrightarrow> ct_status t = TransitionCompleted \<or> ct_status t = TransitionFailed"

definition open_transition :: "durable_authority_state \<Rightarrow> string + center_transition option" where
  "open_transition s = (case filter (\<lambda>t. \<not> transition_ended t) (ds_center_transitions s) of
     [] \<Rightarrow> Inr None | [t] \<Rightarrow> Inr (Some t) | _ \<Rightarrow> Inl ''AUTHORITY_LIFECYCLE_AMBIGUOUS_OPEN_TRANSITIONS'')"

text \<open>Without a served bundle: an active centre without the remote capability, or the first one.\<close>

definition assumed_center :: "authority_descriptor list \<Rightarrow> authority_descriptor option" where
  "assumed_center centers = opt_or
     (find (\<lambda>a. ad_status a = Active \<and> \<not> list_ex (\<lambda>x. x = remote_operations_signing_capability) (ad_capabilities a)) centers)
     (case centers of [] \<Rightarrow> None | a # _ \<Rightarrow> Some a)"

definition transition_state :: "center_transition_status \<Rightarrow> bool \<Rightarrow> bool \<Rightarrow> string \<Rightarrow> authority_lifecycle_state \<times> string \<times> bool" where
  "transition_state status bundle_has_successor public_only_root publication =
     (case status of
        TransitionPrepared \<Rightarrow> (OwnerApprovalRequired, ''successor_prepared_owner_approval_required'', False)
      | TransitionIssued \<Rightarrow>
          if bundle_has_successor then (ReadyToPromote, ''successor_present_in_served_bundle'', False)
          else if public_only_root then (RootRequired, ''issued_successor_requires_offline_product_root_brief'', True)
          else if publication = ''EXPLICIT_TRUST_BUNDLE_PUBLICATION_REQUIRED''
          then (TrustBundleRebuildRequired, ''issued_successor_requires_trust_bundle_rebuild'', False)
          else (TrustBundleRebuildRequired, ''issued_successor_not_in_served_bundle'', False)
      | TransitionPublished \<Rightarrow> (Promoting, ''successor_bundle_published'', False)
      | TransitionHostsConverging \<Rightarrow> (HostConvergence, ''hosts_must_refresh_trust_without_reenroll'', False)
      | TransitionActive \<Rightarrow> (Healthy, ''successor_active'', False)
      | TransitionPredecessorRetiring \<Rightarrow> (HostConvergence, ''predecessor_overlap_until_scoped_host_convergence'', False)
      | TransitionCompleted \<Rightarrow> (Healthy, ''transition_completed'', False)
      | TransitionFailed \<Rightarrow> (LifecycleFailed, ''transition_failed'', False))"

definition plan_from_transition ::
  "durable_authority_state \<Rightarrow> authority_descriptor \<Rightarrow> string \<Rightarrow> string \<Rightarrow> u64 \<Rightarrow> center_transition \<Rightarrow> string + lifecycle_plan" where
  "plan_from_transition s root custody_profile served_center_id current_epoch t =
     res_bind (ok_or (find (\<lambda>a. ad_authority_id a = ct_successor_authority_id t) (ds_authorities s))
       ''AUTHORITY_LIFECYCLE_SUCCESSOR_NOT_IN_STATE'') (\<lambda>successor.
     let (state, reason, owner_action) = transition_state (ct_status t)
           (served_center_id = ct_successor_authority_id t) (custody_profile = custody_offline_product_root)
           (unwrap_or (get_str ''publication'' (ct_proof t)) []) in
     Inr \<lparr> lp_contract = authority_lifecycle_contract, lp_current_authority_id = served_center_id,
       lp_target_authority_id = ad_authority_id successor, lp_predecessor_authority_id = ct_predecessor_authority_id t,
       lp_transition_id = Some (ct_transition_id t),
       lp_required_capabilities = (if ct_required_capabilities t = [] then ad_capabilities successor
         else ct_required_capabilities t),
       lp_current_trust_epoch = current_epoch, lp_target_trust_epoch = max (ct_activation_epoch t) current_epoch,
       lp_root_authority_id = ad_authority_id root, lp_custody_profile = custody_profile, lp_state = state,
       lp_predecessor_overlap_required = (ct_status t \<notin> {TransitionCompleted, TransitionFailed, TransitionPredecessorRetiring}),
       lp_owner_root_action_required = owner_action, lp_reason = reason \<rparr>)"

definition custody_profile_of :: "durable_authority_state \<Rightarrow> authority_descriptor \<Rightarrow> string" where
  "custody_profile_of s root = (if list_ex (\<lambda>k. k = ad_key_id root) (ds_public_only_key_ids s)
     then custody_offline_product_root else custody_online_subordinate)"

text \<open>The plan when no transition is open: the served centre is healthy or blocked.\<close>

definition plan_without_transition ::
  "authority_descriptor \<Rightarrow> string \<Rightarrow> u64 \<Rightarrow> authority_descriptor \<Rightarrow> lifecycle_plan" where
  "plan_without_transition root custody_profile current_epoch current =
     (let has_remote_ops = list_ex (\<lambda>x. x = remote_operations_signing_capability) (ad_capabilities current) in
      \<lparr> lp_contract = authority_lifecycle_contract, lp_current_authority_id = ad_authority_id current,
        lp_target_authority_id = ad_authority_id current, lp_predecessor_authority_id = ad_authority_id current,
        lp_transition_id = None, lp_required_capabilities = ad_capabilities current,
        lp_current_trust_epoch = current_epoch, lp_target_trust_epoch = current_epoch,
        lp_root_authority_id = ad_authority_id root, lp_custody_profile = custody_profile,
        lp_state = (if has_remote_ops then Healthy else LifecycleBlocked), lp_predecessor_overlap_required = False,
        lp_owner_root_action_required = False,
        lp_reason = (if has_remote_ops then ''current_center_healthy''
          else ''current_center_missing_remote_operations_signing'') \<rparr>)"

definition resolve_authority_lifecycle_plan ::
  "durable_authority_state \<Rightarrow> served_view option \<Rightarrow> string + lifecycle_plan" where
  "resolve_authority_lifecycle_plan s served =
     res_bind (active_root s) (\<lambda>root.
     let centers = filter (\<lambda>a. ad_kind a = CenterAuthority) (ds_authorities s) in
     if centers = [] then Inl ''AUTHORITY_LIFECYCLE_CENTER_MISSING''
     else res_bind (ok_or (opt_or (map_option sv_center_authority_id served) (map_option ad_authority_id (assumed_center centers)))
         ''AUTHORITY_LIFECYCLE_CURRENT_CENTER_UNKNOWN'') (\<lambda>served_center_id.
       res_bind (open_transition s) (\<lambda>open.
       let current_epoch = unwrap_or (map_option sv_trust_epoch served) (ds_trust_epoch s) in
       case open of
         Some t \<Rightarrow> plan_from_transition s root (custody_profile_of s root) served_center_id current_epoch t
       | None \<Rightarrow>
           res_bind (ok_or (find (\<lambda>a. ad_authority_id a = served_center_id) centers)
             ''AUTHORITY_LIFECYCLE_SERVED_CENTER_UNKNOWN'') (\<lambda>current.
           Inr (plan_without_transition root (custody_profile_of s root) current_epoch current)))))"

definition host_trust_refresh_required :: "lifecycle_plan \<Rightarrow> bool" where
  "host_trust_refresh_required p \<longleftrightarrow> lp_state p \<in> {ReadyToPromote, Promoting, HostConvergence}"

definition resolve_root_brief_successor_authority_id ::
  "durable_authority_state \<Rightarrow> served_view option \<Rightarrow> string + string" where
  "resolve_root_brief_successor_authority_id s served =
     res_bind (resolve_authority_lifecycle_plan s served) (\<lambda>p.
       if lp_state p \<in> {RootRequired, TrustBundleRebuildRequired, ReadyToPromote, Promoting, HostConvergence}
       then if lp_target_authority_id p = [] \<or> lp_target_authority_id p = lp_current_authority_id p
         then Inl ''AUTHORITY_LIFECYCLE_SUCCESSOR_UNRESOLVED''
         else if \<not> list_ex (\<lambda>a. ad_authority_id a = lp_target_authority_id p \<and> ad_kind a = CenterAuthority) (ds_authorities s)
         then Inl ''AUTHORITY_LIFECYCLE_SUCCESSOR_NOT_IN_STATE''
         else Inr (lp_target_authority_id p)
       else if lp_state p = Healthy then Inl ''AUTHORITY_LIFECYCLE_NO_SUCCESSOR_PENDING''
       else if lp_state p \<in> {SuccessorPrepared, OwnerApprovalRequired} then Inl ''AUTHORITY_LIFECYCLE_OWNER_APPROVAL_REQUIRED''
       else if lp_state p = LifecycleFailed then Inl ''AUTHORITY_LIFECYCLE_FAILED''
       else Inl ''AUTHORITY_LIFECYCLE_BLOCKED'')"

section \<open>What a plan says\<close>

lemma open_transition_Inr:
  "open_transition s = Inr (Some t) \<longleftrightarrow> filter (\<lambda>t. \<not> transition_ended t) (ds_center_transitions s) = [t]"
  "open_transition s = Inr None \<longleftrightarrow> filter (\<lambda>t. \<not> transition_ended t) (ds_center_transitions s) = []"
  by (auto simp: open_transition_def split: list.splits)

lemma open_transition_unended: "open_transition s = Inr (Some t) \<Longrightarrow> \<not> transition_ended t"
  by (auto simp: open_transition_Inr(1) filter_eq_Cons_iff)

lemma active_root_Inr:
  "active_root s = Inr root \<longleftrightarrow> filter (\<lambda>a. ad_kind a = ProductTrustRoot \<and> ad_status a = Active) (ds_authorities s) = [root]"
  by (auto simp: active_root_def split: list.splits)

text \<open>The statuses in which a successor waits to be built into a bundle or to reach the hosts.\<close>

definition successor_pending :: "center_transition \<Rightarrow> bool" where
  "successor_pending t \<longleftrightarrow> ct_status t \<in> {TransitionIssued, TransitionPublished, TransitionHostsConverging, TransitionPredecessorRetiring}"

text \<open>The states of a plan that name a successor.\<close>

definition briefed :: "authority_lifecycle_state \<Rightarrow> bool" where
  "briefed st \<longleftrightarrow> st \<in> {RootRequired, TrustBundleRebuildRequired, ReadyToPromote, Promoting, HostConvergence}"

lemma transition_state_pending:
  "\<not> transition_ended t \<Longrightarrow> briefed (fst (transition_state (ct_status t) b p q)) \<longleftrightarrow> successor_pending t"
  by (auto simp: briefed_def transition_state_def successor_pending_def transition_ended_def split: center_transition_status.splits)

lemma resolve_plan_Inr:
  "resolve_authority_lifecycle_plan s (Some view) = Inr p \<longleftrightarrow>
     (\<exists>root. active_root s = Inr root \<and> (\<exists>a \<in> set (ds_authorities s). ad_kind a = CenterAuthority) \<and>
       ((\<exists>t. open_transition s = Inr (Some t) \<and> plan_from_transition s root (custody_profile_of s root)
            (sv_center_authority_id view) (sv_trust_epoch view) t = Inr p)
        \<or> (open_transition s = Inr None \<and> (\<exists>current.
            find (\<lambda>a. ad_authority_id a = sv_center_authority_id view) (filter (\<lambda>a. ad_kind a = CenterAuthority) (ds_authorities s))
              = Some current
            \<and> p = plan_without_transition root (custody_profile_of s root) (sv_trust_epoch view) current))))"
proof (cases "active_root s")
  case (Inr root)
  then show ?thesis
  proof (cases "open_transition s")
    case (Inr t)
    with \<open>active_root s = Inr root\<close> show ?thesis
      by (cases t) (auto simp: resolve_authority_lifecycle_plan_def Let_def result_simps filter_empty_conv opt_or_def unwrap_or_def)
  qed (auto simp: resolve_authority_lifecycle_plan_def Let_def result_simps)
qed (simp add: resolve_authority_lifecycle_plan_def)

lemma plan_from_transition_fields:
  assumes "plan_from_transition s root custody served epoch t = Inr p"
  shows "lp_state p = fst (transition_state (ct_status t) (served = ct_successor_authority_id t)
      (custody = custody_offline_product_root) (unwrap_or (get_str ''publication'' (ct_proof t)) []))"
    and "lp_target_authority_id p = ct_successor_authority_id t" "lp_current_authority_id p = served"
    and "lp_target_trust_epoch p = max (ct_activation_epoch t) epoch"
  using assms by (auto simp: plan_from_transition_def case_prod_unfold Let_def result_simps dest: find_SomeD)

lemma plan_from_transition_exists:
  "(\<exists>p. plan_from_transition s root custody served epoch t = Inr p)
     \<longleftrightarrow> (\<exists>a \<in> set (ds_authorities s). ad_authority_id a = ct_successor_authority_id t)"
proof -
  have "(\<exists>p. plan_from_transition s root custody served epoch t = Inr p)
    \<longleftrightarrow> find (\<lambda>a. ad_authority_id a = ct_successor_authority_id t) (ds_authorities s) \<noteq> None"
    by (cases "find (\<lambda>a. ad_authority_id a = ct_successor_authority_id t) (ds_authorities s)")
      (simp_all add: plan_from_transition_def case_prod_unfold Let_def)
  then show ?thesis by (auto simp: find_None_iff)
qed

lemma brief_Inr:
  "resolve_root_brief_successor_authority_id s served = Inr i \<longleftrightarrow>
     (\<exists>p. resolve_authority_lifecycle_plan s served = Inr p \<and> briefed (lp_state p) \<and> i = lp_target_authority_id p
       \<and> i \<noteq> [] \<and> i \<noteq> lp_current_authority_id p
       \<and> (\<exists>a \<in> set (ds_authorities s). ad_authority_id a = i \<and> ad_kind a = CenterAuthority))"
  by (cases "resolve_authority_lifecycle_plan s served")
    (auto simp: briefed_def resolve_root_brief_successor_authority_id_def list_ex_iff split: if_splits)

lemma brief_successor_iff:
  "resolve_root_brief_successor_authority_id s (Some view) = Inr i \<longleftrightarrow>
     (\<exists>root t. active_root s = Inr root \<and> open_transition s = Inr (Some t) \<and> successor_pending t
       \<and> i = ct_successor_authority_id t \<and> i \<noteq> [] \<and> i \<noteq> sv_center_authority_id view
       \<and> (\<exists>a \<in> set (ds_authorities s). ad_authority_id a = i \<and> ad_kind a = CenterAuthority))"
  (is "?l \<longleftrightarrow> ?r")
proof
  assume ?l
  then obtain p where p: "resolve_authority_lifecycle_plan s (Some view) = Inr p" "briefed (lp_state p)"
    "i = lp_target_authority_id p" "i \<noteq> []" "i \<noteq> lp_current_authority_id p"
    "\<exists>a \<in> set (ds_authorities s). ad_authority_id a = i \<and> ad_kind a = CenterAuthority" by (auto simp only: brief_Inr)
  have "\<not> briefed (lp_state (plan_without_transition root custody epoch current))" for root custody epoch current
    by (simp add: briefed_def plan_without_transition_def Let_def)
  with p(1,2) obtain root t where t: "active_root s = Inr root" "open_transition s = Inr (Some t)"
    "plan_from_transition s root (custody_profile_of s root) (sv_center_authority_id view) (sv_trust_epoch view) t = Inr p"
    by (auto simp only: resolve_plan_Inr)
  note f = plan_from_transition_fields [OF t(3)]
  have "successor_pending t"
    using p(2) transition_state_pending [OF open_transition_unended [OF t(2)]] unfolding f(1) by blast
  with t p f show ?r by (intro exI [of _ root] exI [of _ t]) simp
next
  assume ?r
  then obtain root t where t: "active_root s = Inr root" "open_transition s = Inr (Some t)" "successor_pending t"
    "i = ct_successor_authority_id t" "i \<noteq> []" "i \<noteq> sv_center_authority_id view"
    and a: "\<exists>a \<in> set (ds_authorities s). ad_authority_id a = i \<and> ad_kind a = CenterAuthority" by blast
  from a t(4) obtain p where p: "plan_from_transition s root (custody_profile_of s root) (sv_center_authority_id view)
      (sv_trust_epoch view) t = Inr p"
    using plan_from_transition_exists by blast
  note f = plan_from_transition_fields [OF p]
  have "briefed (lp_state p)"
    using t(3) transition_state_pending [OF open_transition_unended [OF t(2)]] unfolding f(1) by blast
  moreover have "resolve_authority_lifecycle_plan s (Some view) = Inr p" using t(1,2) a p by (auto simp: resolve_plan_Inr)
  ultimately show ?l using t a f by (auto simp: brief_Inr)
qed


text \<open>
  The successor of a brief is the one in flight: a successor is named exactly when the state has
  one active product root and one open transition, which waits for publication or convergence, whose
  successor is a centre of the state that the host does not serve yet. Then it is the successor of
  that transition.
\<close>

theorem brief_names_pending_successor:
  "resolve_root_brief_successor_authority_id s (Some view) = Inr i \<longleftrightarrow>
     (\<exists>root t. active_root s = Inr root \<and> open_transition s = Inr (Some t) \<and> successor_pending t
       \<and> i = ct_successor_authority_id t \<and> i \<noteq> [] \<and> i \<noteq> sv_center_authority_id view
       \<and> (\<exists>a \<in> set (ds_authorities s). ad_authority_id a = i \<and> ad_kind a = CenterAuthority))"
  by (rule brief_successor_iff)

section \<open>After a reissue\<close>

lemma filter_put_authority:
  assumes "\<not> P a" "find_authority m (ad_authority_id a) = None"
  shows "filter P (put_authority a m) = filter P m"
proof -
  have "filter (\<lambda>b. ad_authority_id b \<noteq> ad_authority_id a) m = m"
    using assms(2) by (auto simp: find_authority_def find_None_iff filter_id_conv)
  then show ?thesis using assms(1) by (simp add: put_authority_def filter_insort_triv)
qed

lemma issued_transition_state:
  assumes "issue_transition c ops w r now predecessor issuer caps epoch s = (s', Inr t)"
  obtains a where "au_authorities s' = put_authority a (au_authorities s)" "ad_authority_id a = ct_successor_authority_id t"
    "ad_kind a = CenterAuthority" "find_authority (au_authorities s) (ad_authority_id a) = None"
    "au_center_transitions s' = au_center_transitions s @ [t]" "ct_status t = TransitionIssued"
    "ct_successor_authority_id t = successor_id_of predecessor"
proof (rule issue_transition_cases [OF assms])
  fix s1 a ce sig
  assume i: "issue_subordinate_versioned c ops w (ad_authority_id issuer) (successor_id_of predecessor) CenterAuthority caps
      (ad_version predecessor + 1) now (ad_valid_until predecessor) s = (s1, Inr a)"
    and ce: "ad_certificate a = Some ce"
    and sig: "kp_sign ops (au_provider s1) (ad_key_id issuer) (center_transition_payload c t) = Inr sig"
    and t: "t = (unsigned_transition_of r (au_trust_root_set s) predecessor a issuer ce caps epoch now
       (request_digest_hex c r))\<lparr>ct_signatures := [\<lparr> ts_authority_id = ad_authority_id issuer,
         ts_key_id = ad_key_id issuer, ts_algorithm = trust_fabric_algorithm, ts_signature = tc_b64_encode c sig \<rparr>]\<rparr>"
    and a': "au_authorities s' = au_authorities s1"
  have ct: "au_center_transitions s' = au_center_transitions s1 @ [t]"
    using assms i ce by (auto simp: issue_transition_def Let_def split: sum.splits)
  have id: "ad_authority_id a = successor_id_of predecessor" and k: "ad_kind a = CenterAuthority"
    and f: "find_authority (au_authorities s) (ad_authority_id a) = None" and p: "au_authorities s1 = put_authority a (au_authorities s)"
    and c1: "au_center_transitions s1 = au_center_transitions s"
    by (rule issue_cases [OF i]; simp add: subordinate_descriptor_def certificate_body_def)+
  have tt: "ct_successor_authority_id t = ad_authority_id a" "ct_status t = TransitionIssued"
    by (simp_all add: t unsigned_transition_of_def)
  show thesis
    by (rule that [OF a' [unfolded p] tt(1) [symmetric] k f ct [unfolded c1] tt(2) tt(1) [unfolded id]])
qed

text \<open>
  A reissue calls for its successor: once the service has authorised the reissue of the centre,
  with no other transition open and one active product root, the plan of the lifecycle names the new
  successor for every host that does not serve it yet.
\<close>

theorem reissue_calls_for_successor:
  assumes "authorize_center_authority_reissue c ops w r now s = Some (s', Inr t)"
    and "\<forall>x \<in> set (au_center_transitions s). transition_ended x \<and> ct_transition_id x \<noteq> rq_transition_id r"
    and "active_root (durable_state s) = Inr root"
    and "sv_center_authority_id view \<noteq> ct_successor_authority_id t"
  shows "resolve_root_brief_successor_authority_id (durable_state s') (Some view) = Inr (ct_successor_authority_id t)"
proof -
  have "find (\<lambda>t. ct_transition_id t = rq_transition_id r) (au_center_transitions s) = None"
    using assms(2) by (auto simp: find_None_iff)
  with assms(1) obtain predecessor issuer caps epoch where
    "issue_transition c ops w r now predecessor issuer caps epoch s = (s', Inr t)"
    by (auto simp: authorize_center_authority_reissue_def split: if_splits option.splits sum.splits prod.splits)
  then obtain a where a: "au_authorities s' = put_authority a (au_authorities s)" "ad_authority_id a = ct_successor_authority_id t"
    "ad_kind a = CenterAuthority" "find_authority (au_authorities s) (ad_authority_id a) = None"
    "au_center_transitions s' = au_center_transitions s @ [t]" "ct_status t = TransitionIssued"
    "ct_successor_authority_id t = successor_id_of predecessor"
    by (rule issued_transition_state)
  have "active_root (durable_state s') = Inr root"
    using assms(3) a(3) filter_put_authority [OF _ a(4)] by (simp add: active_root_Inr durable_state_def a(1))
  moreover have "open_transition (durable_state s') = Inr (Some t)"
    using assms(2) a(5,6) by (simp add: open_transition_Inr durable_state_def transition_ended_def filter_empty_conv)
  moreover have "a \<in> set (ds_authorities (durable_state s'))" by (simp add: durable_state_def a(1) set_put_authority)
  ultimately show ?thesis
    using assms(4) a by (auto simp: brief_successor_iff successor_pending_def successor_id_of_def)
qed

theorem reissue_calls_for_successor_witness:
  "\<exists>s t. scenario_reissue = Some (s, Inr t)
     \<and> resolve_root_brief_successor_authority_id (durable_state s)
         (Some \<lparr> sv_center_authority_id = ''center'', sv_trust_epoch = 1 \<rparr>) = Inr ''center-v2''"
proof -
  obtain s t where t: "scenario_reissue = Some (s, Inr t)" "ct_successor_authority_id t = ''center-v2''"
    using scenario_reissued by blast
  have root: "active_root (durable_state scenario) = Inr example_root_authority"
    by (simp add: active_root_Inr durable_state_def example_hierarchy_def example_authority_defs example_issue_def
        example_root_authority_def)
  have "resolve_root_brief_successor_authority_id (durable_state s)
      (Some \<lparr> sv_center_authority_id = ''center'', sv_trust_epoch = 1 \<rparr>) = Inr (ct_successor_authority_id t)"
    by (rule reissue_calls_for_successor [OF t(1) [unfolded scenario_reissue_def] _ root]) (simp_all add: t(2))
  with t(1) show ?thesis unfolding t(2) by blast
qed

end
