(* ===== verification/Trust_Store.thy ===== *)
theory Trust_Store
  imports Authority_Lifecycle
begin

text \<open>
  The trust store of a host (\<^verbatim>\<open>actium-node-supervisor/src/trust_store.rs\<close>, with the environments of
  \<^verbatim>\<open>effective_config.rs\<close>): the bundle a host trusts, its predecessor and the accepted
  transitions of the centre, in memory and on disk. Reading and writing JSON, the metadata of files
  and the making of identifiers are parameters; a write may fail at each of its steps.
\<close>

unbundle bit_operations_syntax

section \<open>Environments and paths\<close>

datatype deployment_environment = Stable | Lab

fun environment_text :: "deployment_environment \<Rightarrow> string" where
  "environment_text Stable = ''stable''"
| "environment_text Lab = ''lab''"

definition parse_environment :: "string \<Rightarrow> string + deployment_environment" where
  "parse_environment value = (let v = to_ascii_lowercase (trim value) in
     if v = ''stable'' then Inr Stable else if v = ''lab'' then Inr Lab
     else Inl ''CONFIG_EFFECTIVE_STATE_INVALID: deployment_environment is unsupported'')"

text \<open>
  An absolute path by its components: empty ones and \<open>.\<close> do not count. The namespaces are those of
  Unix hosts.
\<close>

fun split_path :: "string \<Rightarrow> string list" where
  "split_path [] = [[]]"
| "split_path (x # xs) = (if x = CHR ''/'' then [] # split_path xs
     else (case split_path xs of [] \<Rightarrow> [[x]] | p # ps \<Rightarrow> (x # p) # ps))"

definition path_components :: "string \<Rightarrow> string list" where
  "path_components path = filter (\<lambda>p. p \<noteq> [] \<and> p \<noteq> ''.'') (split_path path)"

definition is_absolute :: "string \<Rightarrow> bool" where
  "is_absolute path \<longleftrightarrow> (case path of [] \<Rightarrow> False | x # _ \<Rightarrow> x = CHR ''/'')"

definition path_starts_with :: "string \<Rightarrow> string \<Rightarrow> bool" where
  "path_starts_with path root \<longleftrightarrow>
     take (length (path_components root)) (path_components path) = path_components root"

fun trust_root_of :: "deployment_environment \<Rightarrow> string" where
  "trust_root_of Stable = ''/var/lib/actium/node-manager/trust''"
| "trust_root_of Lab = ''/var/lib/actium/node-manager-lab/trust''"

definition canonical_trust_store_path :: "deployment_environment \<Rightarrow> string" where
  "canonical_trust_store_path env = trust_root_of env @ ''/trust-bundle.json''"

definition validate_trust_store_path :: "deployment_environment \<Rightarrow> string \<Rightarrow> string + unit" where
  "validate_trust_store_path env path =
     (if path = [] \<or> \<not> is_absolute path \<or> list_ex (\<lambda>p. p = ''..'') (path_components path)
      then Inl ''TRUST_STORE_PATH_REQUIRED: path must be absolute''
      else fail_if ((env = Lab \<and> path_starts_with path (trust_root_of Stable))
          \<or> (env = Stable \<and> path_starts_with path (trust_root_of Lab)))
        ''TRUST_STORE_CHANNEL_MISMATCH: path belongs to another deployment environment namespace'')"

definition validate_legacy_stable_compatibility :: "deployment_environment \<Rightarrow> string \<Rightarrow> string + unit" where
  "validate_legacy_stable_compatibility env path =
     fail_if (env \<noteq> Stable \<or> \<not> path_starts_with path (trust_root_of Stable)) ''TRUST_STORE_SCHEMA_UNSUPPORTED''"

text \<open>\<open>with_file_name\<close>: the last component is replaced.\<close>

definition with_file_name :: "string \<Rightarrow> string \<Rightarrow> string" where
  "with_file_name path name = rev (dropWhile (\<lambda>x. x \<noteq> CHR ''/'') (rev path)) @ name"

section \<open>The store and its file\<close>

record trust_store_file =
  tf_schema_version :: u8
  tf_environment :: string
  tf_current_epoch :: u64
  tf_trust_store_id :: "string option"
  tf_authority_binding :: "string option"
  tf_bundle :: signed_trust_bundle
  tf_lkg_bundle :: "signed_trust_bundle option"
  tf_lkg_digest :: "string option"
  tf_center_transitions :: "center_transition list"

record supervisor_trust_store =
  st_path :: string
  st_environment :: deployment_environment
  st_schema_version :: u8
  st_trust_store_id :: "string option"
  st_authority_binding :: "string option"
  st_bundle :: "signed_trust_bundle option"
  st_current_epoch :: u64
  st_digest :: "string option"
  st_lkg_bundle :: "signed_trust_bundle option"
  st_lkg_digest :: "string option"
  st_bootstrap_roots :: "product_trust_root list"
  st_center_transitions :: "center_transition list"

record trust_store_status =
  ss_state :: string
  ss_schema_version :: u8
  ss_trust_store_id :: "string option"
  ss_trust_bundle_id :: "string option"
  ss_environment :: string
  ss_channel :: string
  ss_authority_binding :: "string option"
  ss_current_epoch :: u64
  ss_bundle_digest :: "string option"
  ss_lkg_digest :: "string option"
  ss_bootstrap_anchor_count :: nat
  ss_path :: string

text \<open>What the kernel says of a file, without following a link.\<close>

record file_meta =
  fm_symlink :: bool
  fm_file :: bool
  fm_dir :: bool
  fm_owner :: u32
  fm_mode :: u32

text \<open>
  What the store uses of serde, of the crate for identifiers and of the file system: the metadata of
  a path, given by its components (\<open>Inr None\<close> when there is none, \<open>Inl\<close> another error), and the
  user of the process.
\<close>

record store_crates =
  sc_file_text :: "trust_store_file \<Rightarrow> string + string"
  sc_bundle_text :: "signed_trust_bundle \<Rightarrow> string + string"
  sc_read_file :: "string \<Rightarrow> string + trust_store_file"
  sc_uuid_ok :: "string \<Rightarrow> bool"
  sc_metadata :: "string list \<Rightarrow> unit + file_meta option"
  sc_owner :: u32

text \<open>A file that was written is read back, as it was.\<close>

definition store_crates_ok :: "store_crates \<Rightarrow> bool" where
  "store_crates_ok k \<longleftrightarrow> (\<forall>f t. sc_file_text k f = Inr t \<longrightarrow> sc_read_file k t = Inr f)"

text \<open>
  The steps at which a write fails. The last one is after the rename: the file is the new one, and
  the write is an error all the same.
\<close>

datatype store_fault =
    NoStoreFault
  | CreateDirFails string
  | DirModeFails
  | PermissionsFail
  | TemporaryFails string
  | WriteAllFails string
  | FileSyncFails string
  | RenameFails string
  | DirectorySyncFails

type_synonym disk = "string \<rightharpoonup> string"

fun write_atomic :: "store_fault \<Rightarrow> string \<Rightarrow> string \<Rightarrow> disk \<Rightarrow> disk \<times> (string + unit)" where
  "write_atomic (CreateDirFails e) path bytes d = (d, Inl (''TRUST_STORE_WRITE_FAILED: '' @ e))"
| "write_atomic DirModeFails path bytes d = (d, Inl ''TRUST_STORE_PERMISSION_INVALID'')"
| "write_atomic PermissionsFail path bytes d = (d, Inl ''TRUST_STORE_PERMISSION_INVALID'')"
| "write_atomic (TemporaryFails e) path bytes d = (d, Inl (''TRUST_STORE_WRITE_FAILED: '' @ e))"
| "write_atomic (WriteAllFails e) path bytes d = (d, Inl (''TRUST_STORE_WRITE_FAILED: '' @ e))"
| "write_atomic (FileSyncFails e) path bytes d = (d, Inl (''TRUST_STORE_SYNC_FAILED: '' @ e))"
| "write_atomic (RenameFails e) path bytes d = (d, Inl (''TRUST_STORE_COMMIT_FAILED: '' @ e))"
| "write_atomic DirectorySyncFails path bytes d = (d(path \<mapsto> bytes), Inl ''TRUST_STORE_SYNC_FAILED'')"
| "write_atomic NoStoreFault path bytes d = (d(path \<mapsto> bytes), Inr ())"

text \<open>What surrounds one call: the fault of each write, a new identifier, the clock before and after.\<close>

record store_world =
  wd_lkg_fault :: store_fault
  wd_fault :: store_fault
  wd_uuid :: string
  wd_started :: u64
  wd_completed :: u64

definition authority_binding :: "signed_trust_bundle \<Rightarrow> string" where
  "authority_binding sb = (case tb_center_authority (sb_bundle sb) of
     Some a \<Rightarrow> ad_authority_id a | None \<Rightarrow> tb_issuer (sb_bundle sb))"

definition store_status :: "supervisor_trust_store \<Rightarrow> trust_store_status" where
  "store_status s = \<lparr> ss_state = (if st_bundle s \<noteq> None then ''READY'' else ''UNINITIALIZED''),
     ss_schema_version = st_schema_version s, ss_trust_store_id = st_trust_store_id s,
     ss_trust_bundle_id = map_option (\<lambda>sb. tb_trust_bundle_id (sb_bundle sb)) (st_bundle s),
     ss_environment = environment_text (st_environment s), ss_channel = environment_text (st_environment s),
     ss_authority_binding = st_authority_binding s, ss_current_epoch = st_current_epoch s,
     ss_bundle_digest = st_digest s, ss_lkg_digest = st_lkg_digest s,
     ss_bootstrap_anchor_count = length (st_bootstrap_roots s), ss_path = st_path s \<rparr>"

text \<open>\<open>file_for_bundle\<close>: the store it updates, and the file.\<close>

definition file_for_bundle ::
  "string \<Rightarrow> signed_trust_bundle \<Rightarrow> u64 \<Rightarrow> signed_trust_bundle option \<Rightarrow> string option \<Rightarrow> supervisor_trust_store
    \<Rightarrow> supervisor_trust_store \<times> trust_store_file" where
  "file_for_bundle uuid sb epoch lkg lkg_digest s =
     (let i = unwrap_or (st_trust_store_id s) uuid; b = authority_binding sb;
          s' = s\<lparr>st_trust_store_id := Some i, st_authority_binding := Some b, st_schema_version := 3\<rparr> in
      (s', \<lparr> tf_schema_version = 3, tf_environment = environment_text (st_environment s), tf_current_epoch = epoch,
        tf_trust_store_id = Some i, tf_authority_binding = Some b, tf_bundle = sb, tf_lkg_bundle = lkg,
        tf_lkg_digest = lkg_digest, tf_center_transitions = st_center_transitions s \<rparr>))"

text \<open>Serialise a file and write it in place of the store's.\<close>

definition write_file ::
  "store_crates \<Rightarrow> store_world \<Rightarrow> string \<Rightarrow> trust_store_file \<Rightarrow> disk \<Rightarrow> disk \<times> (string + unit)" where
  "write_file k w path f d =
     (case sc_file_text k f of
        Inl e \<Rightarrow> (d, Inl (''TRUST_STORE_SERIALIZE_FAILED: '' @ e))
      | Inr bytes \<Rightarrow> write_atomic (wd_fault w) path bytes d)"

section \<open>Opening\<close>

text \<open>
  The permissions of a path and of its ancestors: no link on the way, the file and its directory the
  user's own and closed to everybody else, and nobody else writes to the directories above, but for
  sticky ones of the administrator.
\<close>

definition ancestor_invalid :: "store_crates \<Rightarrow> string list \<Rightarrow> string list \<Rightarrow> file_meta \<Rightarrow> bool" where
  "ancestor_invalid k path ancestor m \<longleftrightarrow>
     (if fm_symlink m then True
      else if ancestor = path then \<not> fm_file m \<or> fm_owner m \<noteq> sc_owner k \<or> fm_mode m AND 0x3F \<noteq> 0
      else if ancestor = butlast path \<and> (\<not> fm_dir m \<or> fm_owner m \<noteq> sc_owner k \<or> fm_mode m AND 0x3F \<noteq> 0) then True
      else ancestor \<noteq> butlast path
        \<and> (\<not> fm_dir m \<or> (fm_mode m AND 0x12 \<noteq> 0 \<and> \<not> (fm_owner m = 0 \<and> fm_mode m AND 0x200 \<noteq> 0))))"

definition check_ancestor :: "store_crates \<Rightarrow> string list \<Rightarrow> string list \<Rightarrow> string + unit" where
  "check_ancestor k path ancestor =
     (case sc_metadata k ancestor of
        Inl _ \<Rightarrow> Inl ''TRUST_STORE_PERMISSION_INVALID''
      | Inr None \<Rightarrow> Inr ()
      | Inr (Some m) \<Rightarrow> fail_if (ancestor_invalid k path ancestor m) ''TRUST_STORE_PERMISSION_INVALID'')"

definition validate_store_permissions :: "store_crates \<Rightarrow> string \<Rightarrow> string + unit" where
  "validate_store_permissions k path =
     (let p = path_components path in
      if p = [] then Inl ''TRUST_STORE_PERMISSION_INVALID''
      else res_each (\<lambda>n. check_ancestor k p (take n p)) [0..<Suc (length p)])"

text \<open>The checks of an identifier and of the binding, from schema 2 on.\<close>

definition check_store_metadata :: "store_crates \<Rightarrow> trust_store_file \<Rightarrow> string + unit" where
  "check_store_metadata k f =
     (if tf_schema_version f < 2 then Inr ()
      else res_bind (ok_or (tf_trust_store_id f) ''TRUST_STORE_METADATA_REQUIRED'') (\<lambda>i.
        res_bind (fail_if (\<not> sc_uuid_ok k i) ''TRUST_STORE_METADATA_INVALID'') (\<lambda>_.
        fail_if (tf_authority_binding f \<noteq> Some (authority_binding (tf_bundle f))) ''AUTHORITY_BINDING_MISMATCH'')))"

definition check_store_schema :: "deployment_environment \<Rightarrow> string \<Rightarrow> trust_store_file \<Rightarrow> string + unit" where
  "check_store_schema env path f =
     (if tf_schema_version f = 1 then validate_legacy_stable_compatibility env path
      else fail_if (tf_schema_version f \<noteq> 2 \<and> tf_schema_version f \<noteq> 3) ''TRUST_STORE_SCHEMA_UNSUPPORTED'')"

definition check_store_environment :: "deployment_environment \<Rightarrow> trust_store_file \<Rightarrow> string + unit" where
  "check_store_environment env f =
     res_bind (map_err (\<lambda>_. ''TRUST_STORE_CHANNEL_MISMATCH'') (parse_environment (tf_environment f))) (\<lambda>stored.
     fail_if (stored \<noteq> env) ''TRUST_STORE_CHANNEL_MISMATCH'')"

definition check_store_lkg :: "trust_crypto \<Rightarrow> u64 \<Rightarrow> product_trust_root list \<Rightarrow> trust_store_file \<Rightarrow> string + unit" where
  "check_store_lkg c now roots f =
     (case tf_lkg_bundle f of
        Some lkg \<Rightarrow> res_bind (verify_signed_trust_bundle_with_bootstrap c lkg now 0 roots) (\<lambda>_.
          fail_if (tf_lkg_digest f \<noteq> Some (trust_bundle_digest c (sb_bundle lkg))) ''TRUST_STORE_LKG_DIGEST_INVALID'')
      | None \<Rightarrow> fail_if (tf_lkg_digest f \<noteq> None) ''TRUST_STORE_LKG_INVALID'')"

definition opened_store ::
  "trust_crypto \<Rightarrow> string \<Rightarrow> deployment_environment \<Rightarrow> product_trust_root list \<Rightarrow> trust_store_file \<Rightarrow> supervisor_trust_store" where
  "opened_store c path env roots f = \<lparr> st_path = path, st_environment = env, st_schema_version = tf_schema_version f,
     st_trust_store_id = tf_trust_store_id f,
     st_authority_binding = opt_or (tf_authority_binding f) (Some (authority_binding (tf_bundle f))),
     st_bundle = Some (tf_bundle f), st_current_epoch = tf_current_epoch f,
     st_digest = Some (trust_bundle_digest c (sb_bundle (tf_bundle f))), st_lkg_bundle = tf_lkg_bundle f,
     st_lkg_digest = tf_lkg_digest f, st_bootstrap_roots = roots, st_center_transitions = tf_center_transitions f \<rparr>"

definition empty_store :: "string \<Rightarrow> deployment_environment \<Rightarrow> product_trust_root list \<Rightarrow> supervisor_trust_store" where
  "empty_store path env roots = \<lparr> st_path = path, st_environment = env, st_schema_version = 3, st_trust_store_id = None,
     st_authority_binding = None, st_bundle = None, st_current_epoch = 0, st_digest = None, st_lkg_bundle = None,
     st_lkg_digest = None, st_bootstrap_roots = roots, st_center_transitions = [] \<rparr>"

text \<open>The checks of a file that was read, in the order of the code; \<open>now\<close> is the clock.\<close>

definition check_store_file ::
  "trust_crypto \<Rightarrow> store_crates \<Rightarrow> u64 \<Rightarrow> deployment_environment \<Rightarrow> string \<Rightarrow> product_trust_root list \<Rightarrow> trust_store_file
    \<Rightarrow> string + unit" where
  "check_store_file c k now env path roots f =
     res_bind (check_store_schema env path f) (\<lambda>_.
     res_bind (check_store_environment env f) (\<lambda>_.
     res_bind (fail_if (tf_current_epoch f \<noteq> tb_trust_epoch (sb_bundle (tf_bundle f))) ''TRUST_STORE_EPOCH_MISMATCH'') (\<lambda>_.
     res_bind (verify_signed_trust_bundle_with_bootstrap c (tf_bundle f) now (tf_current_epoch f) roots) (\<lambda>_.
     res_bind (check_store_lkg c now roots f) (\<lambda>_.
     res_bind (res_each (\<lambda>t. verify_center_authority_transition c t (tf_bundle f) now) (tf_center_transitions f)) (\<lambda>_.
     check_store_metadata k f))))))"

definition open_for_environment ::
  "trust_crypto \<Rightarrow> store_crates \<Rightarrow> u64 \<Rightarrow> string \<Rightarrow> deployment_environment \<Rightarrow> product_trust_root list \<Rightarrow> disk
    \<Rightarrow> string + supervisor_trust_store" where
  "open_for_environment c k now path env roots d =
     res_bind (validate_trust_store_path env path) (\<lambda>_.
     res_bind (validate_store_permissions k path) (\<lambda>_.
     case d path of
       None \<Rightarrow> Inr (empty_store path env roots)
     | Some bytes \<Rightarrow>
         res_bind (map_err (\<lambda>e. ''TRUST_STORE_INVALID: '' @ e) (sc_read_file k bytes)) (\<lambda>f.
         res_bind (check_store_file c k now env path roots f) (\<lambda>_.
         Inr (opened_store c path env roots f)))))"

definition open_with_channel ::
  "trust_crypto \<Rightarrow> store_crates \<Rightarrow> u64 \<Rightarrow> string \<Rightarrow> string \<Rightarrow> product_trust_root list \<Rightarrow> disk
    \<Rightarrow> string + supervisor_trust_store" where
  "open_with_channel c k now path channel roots d =
     res_bind (normalize_lifecycle_channel (Some channel)) (\<lambda>ch.
     res_bind (parse_environment ch) (\<lambda>env. open_for_environment c k now path env roots d))"

section \<open>Operations\<close>

text \<open>An operation takes the store and the disk and returns both, with a result.\<close>

type_synonym 'a store_result = "(supervisor_trust_store \<times> disk) \<times> (string + 'a)"

definition store_verify_release_manifest ::
  "trust_crypto \<Rightarrow> signed_release_manifest \<Rightarrow> u64 \<Rightarrow> supervisor_trust_store \<Rightarrow> string + unit" where
  "store_verify_release_manifest c m now s =
     res_bind (ok_or (st_bundle s) ''TRUST_BUNDLE_UNAVAILABLE'') (\<lambda>sb.
     verify_signed_release_manifest_with_bootstrap c m sb now (st_current_epoch s) (st_bootstrap_roots s))"

text \<open>Write the file of a new store, and replace the store when the write succeeds.\<close>

definition commit_store ::
  "store_crates \<Rightarrow> store_world \<Rightarrow> trust_store_file \<Rightarrow> supervisor_trust_store \<Rightarrow> supervisor_trust_store \<Rightarrow> disk
    \<Rightarrow> trust_store_status store_result" where
  "commit_store k w f next s d =
     (case write_file k w (st_path s) f d of
        (d', Inl e) \<Rightarrow> ((s, d'), Inl e)
      | (d', Inr _) \<Rightarrow> ((next, d'), Inr (store_status next)))"

definition migrate_environment_metadata ::
  "store_crates \<Rightarrow> store_world \<Rightarrow> supervisor_trust_store \<times> disk \<Rightarrow> trust_store_status store_result" where
  "migrate_environment_metadata k w sd =
     (case sd of (s, d) \<Rightarrow>
      if st_schema_version s = 3 then (sd, Inr (store_status s))
      else if st_schema_version s = 1 \<and> st_environment s \<noteq> Stable then (sd, Inl ''TRUST_STORE_CHANNEL_MISMATCH'')
      else case st_bundle s of
        None \<Rightarrow> (sd, Inl ''TRUST_STORE_METADATA_REQUIRED'')
      | Some sb \<Rightarrow>
          let (next, f) = file_for_bundle (wd_uuid w) sb (st_current_epoch s) (st_lkg_bundle s) (st_lkg_digest s) s in
          commit_store k w f next s d)"

text \<open>The last known good bundle is written before the file of the store.\<close>

definition write_lkg ::
  "trust_crypto \<Rightarrow> store_crates \<Rightarrow> store_world \<Rightarrow> string \<Rightarrow> signed_trust_bundle option \<Rightarrow> string option \<Rightarrow> disk
    \<Rightarrow> disk \<times> (string + unit)" where
  "write_lkg c k w path lkg lkg_digest d =
     (case (lkg, lkg_digest) of
        (Some sb, Some digest) \<Rightarrow>
          (case sc_bundle_text k sb of
             Inl e \<Rightarrow> (d, Inl (''TRUST_STORE_LKG_SERIALIZE_FAILED: '' @ e))
           | Inr bytes \<Rightarrow> (case write_atomic (wd_lkg_fault w) path bytes d of
               (d', Inl e) \<Rightarrow> (d', Inl e)
             | (d', Inr _) \<Rightarrow> (d', fail_if (trust_bundle_digest c (sb_bundle sb) \<noteq> digest) ''TRUST_STORE_LKG_DIGEST_INVALID'')))
      | _ \<Rightarrow> (d, Inr ()))"

definition lkg_path :: "supervisor_trust_store \<Rightarrow> string" where
  "lkg_path s = with_file_name (st_path s) ''trust-bundle.lkg.json''"

definition may_install :: "trust_crypto \<Rightarrow> signed_trust_bundle \<Rightarrow> u64 \<Rightarrow> supervisor_trust_store \<Rightarrow> string + unit" where
  "may_install c sb now s =
     res_bind (verify_signed_trust_bundle_with_bootstrap c sb now (st_current_epoch s) (st_bootstrap_roots s)) (\<lambda>_.
     res_bind (fail_if (tb_trust_epoch (sb_bundle sb) = st_current_epoch s
       \<and> st_digest s \<noteq> Some (trust_bundle_digest c (sb_bundle sb))) ''TRUST_EPOCH_SAME_DIGEST_MISMATCH'') (\<lambda>_.
     fail_if (tb_trust_epoch (sb_bundle sb) < st_current_epoch s) ''TRUST_EPOCH_ROLLBACK''))"

definition installed_store ::
  "trust_crypto \<Rightarrow> signed_trust_bundle \<Rightarrow> signed_trust_bundle option \<Rightarrow> string option \<Rightarrow> supervisor_trust_store
    \<Rightarrow> supervisor_trust_store" where
  "installed_store c sb lkg lkg_digest s = s\<lparr>st_current_epoch := tb_trust_epoch (sb_bundle sb),
     st_digest := Some (trust_bundle_digest c (sb_bundle sb)), st_bundle := Some sb, st_lkg_bundle := lkg,
     st_lkg_digest := lkg_digest\<rparr>"

definition install ::
  "trust_crypto \<Rightarrow> store_crates \<Rightarrow> store_world \<Rightarrow> signed_trust_bundle \<Rightarrow> u64 \<Rightarrow> supervisor_trust_store \<times> disk
    \<Rightarrow> trust_store_status store_result" where
  "install c k w sb now sd =
     (case sd of (s, d) \<Rightarrow> (case may_install c sb now s of
        Inl e \<Rightarrow> (sd, Inl e)
      | Inr _ \<Rightarrow>
          let lkg = opt_or (st_bundle s) (st_lkg_bundle s); lkg_digest = opt_or (st_digest s) (st_lkg_digest s) in
          (case write_lkg c k w (lkg_path s) lkg lkg_digest d of
             (d', Inl e) \<Rightarrow> ((s, d'), Inl e)
           | (d', Inr _) \<Rightarrow>
               let (next, f) = file_for_bundle (wd_uuid w) sb (tb_trust_epoch (sb_bundle sb)) lkg lkg_digest s in
               commit_store k w f (installed_store c sb lkg lkg_digest next) s d')))"

text \<open>What \<open>activate_successor\<close> checks before it installs; whether the candidate is served already.\<close>

definition already_served :: "trust_crypto \<Rightarrow> refresh_request \<Rightarrow> supervisor_trust_store \<Rightarrow> bool" where
  "already_served c r s \<longleftrightarrow> st_digest s = Some (trust_bundle_digest c (sb_bundle (hr_bundle r)))
     \<and> st_current_epoch s = tb_trust_epoch (sb_bundle (hr_bundle r))"

definition may_activate ::
  "trust_crypto \<Rightarrow> refresh_request \<Rightarrow> u64 \<Rightarrow> supervisor_trust_store \<Rightarrow> string + string \<times> signed_trust_bundle \<times> string" where
  "may_activate c r now s =
     res_bind (fail_if (hr_contract r \<noteq> host_trust_convergence_contract \<or> hr_authority_generation r = 0
       \<or> hr_activation_generation r = 0) ''HOST_TRUST_CONVERGENCE_CONTRACT_INVALID'') (\<lambda>_.
     res_bind (normalize_lifecycle_channel (Some (hr_channel r))) (\<lambda>channel.
     res_bind (ok_or (st_bundle s) ''AUTHORITY_SUCCESSOR_PREDECESSOR_NOT_SERVED'') (\<lambda>previous.
     res_bind (ok_or (st_digest s) ''TRUST_STORE_DIGEST_MISSING'') (\<lambda>previous_digest.
     res_bind (fail_if (hr_expected_digest r \<noteq> trust_bundle_digest c (sb_bundle (hr_bundle r)))
       ''HOST_TRUST_CONVERGENCE_DIGEST_MISMATCH'') (\<lambda>_.
     res_bind (verify_center_authority_transition c (hr_transition r) previous now) (\<lambda>_.
     res_bind (verify_signed_trust_bundle_with_bootstrap c (hr_bundle r) now (st_current_epoch s) (st_bootstrap_roots s)) (\<lambda>_.
     res_bind (if already_served c r s then Inr ()
       else validate_successor_activation_lineage (hr_transition r) previous (hr_bundle r)) (\<lambda>_.
     Inr (channel, previous, previous_digest)))))))))"

definition activation_receipt_of ::
  "trust_crypto \<Rightarrow> refresh_request \<Rightarrow> store_world \<Rightarrow> bool \<Rightarrow> string \<Rightarrow> signed_trust_bundle \<Rightarrow> string \<Rightarrow> string
    \<Rightarrow> activation_receipt" where
  "activation_receipt_of c r w served channel previous previous_digest path = with_receipt_digest c
     \<lparr> ar_contract = host_trust_convergence_contract, ar_phase = PhaseServedReady,
       ar_transition_id = ct_transition_id (hr_transition r),
       ar_predecessor_authority_id = ct_predecessor_authority_id (hr_transition r),
       ar_successor_authority_id = ct_successor_authority_id (hr_transition r), ar_previous_digest = previous_digest,
       ar_served_digest = trust_bundle_digest c (sb_bundle (hr_bundle r)),
       ar_previous_trust_epoch = tb_trust_epoch (sb_bundle previous),
       ar_trust_epoch = tb_trust_epoch (sb_bundle (hr_bundle r)), ar_authority_generation = hr_authority_generation r,
       ar_activation_generation = hr_activation_generation r, ar_started_at = wd_started w,
       ar_completed_at = wd_completed w, ar_result = (if served then ''ALREADY_SERVED'' else ''ACTIVATED''),
       ar_lkg_path = path, ar_receipt_digest = [], ar_channel = channel \<rparr>"

definition activate_successor ::
  "trust_crypto \<Rightarrow> store_crates \<Rightarrow> store_world \<Rightarrow> refresh_request \<Rightarrow> u64 \<Rightarrow> supervisor_trust_store \<times> disk
    \<Rightarrow> (trust_store_status \<times> activation_receipt) store_result" where
  "activate_successor c k w r now sd =
     (case may_activate c r now (fst sd) of
        Inl e \<Rightarrow> (sd, Inl e)
      | Inr (channel, previous, previous_digest) \<Rightarrow>
          let served = already_served c r (fst sd) in
          (case (if served then (sd, Inr (store_status (fst sd))) else install c k w (hr_bundle r) now sd) of
             (sd', Inl e) \<Rightarrow> (sd', Inl e)
           | (sd', Inr _) \<Rightarrow> (sd', Inr (store_status (fst sd'),
               activation_receipt_of c r w served channel previous previous_digest (lkg_path (fst sd'))))))"

text \<open>What a new transition is compared with: one with its identifier, with its epoch, with a later epoch.\<close>

definition accept_center_authority_transition ::
  "trust_crypto \<Rightarrow> store_crates \<Rightarrow> store_world \<Rightarrow> center_transition \<Rightarrow> u64 \<Rightarrow> supervisor_trust_store \<times> disk
    \<Rightarrow> trust_store_status store_result" where
  "accept_center_authority_transition c k w t now sd =
     (case sd of (s, d) \<Rightarrow>
      case res_bind (ok_or (st_bundle s) ''TRUST_BOOTSTRAP_ANCHOR_UNAVAILABLE'') (\<lambda>sb.
         res_bind (verify_center_authority_transition c t sb now) (\<lambda>_. Inr sb)) of
        Inl e \<Rightarrow> (sd, Inl e)
      | Inr sb \<Rightarrow>
          let digest = center_authority_transition_digest c t; ts = st_center_transitions s in
          (case find (\<lambda>x. ct_transition_id x = ct_transition_id t) ts of
             Some existing \<Rightarrow>
               if center_authority_transition_digest c existing \<noteq> digest then (sd, Inl ''TRUST_CENTER_TRANSITION_REPLAY'')
               else (sd, Inr (store_status s))
           | None \<Rightarrow>
               if is_some_and (find (\<lambda>x. ct_activation_epoch x = ct_activation_epoch t) ts)
                 (\<lambda>x. center_authority_transition_digest c x \<noteq> digest)
               then (sd, Inl ''TRUST_CENTER_TRANSITION_SAME_EPOCH_MISMATCH'')
               else if list_ex (\<lambda>x. ct_activation_epoch x > ct_activation_epoch t) ts
               then (sd, Inl ''TRUST_CENTER_TRANSITION_ROLLBACK'')
               else let (next, f) = file_for_bundle (wd_uuid w) sb (st_current_epoch s) (st_lkg_bundle s) (st_lkg_digest s)
                     (s\<lparr>st_center_transitions := ts @ [t]\<rparr>) in
                 commit_store k w f next s d))"

definition install_from_owner_ceremony ::
  "trust_crypto \<Rightarrow> store_crates \<Rightarrow> store_world \<Rightarrow> signed_trust_bundle \<Rightarrow> string \<Rightarrow> bool \<Rightarrow> u64
    \<Rightarrow> supervisor_trust_store \<times> disk \<Rightarrow> trust_store_status store_result" where
  "install_from_owner_ceremony c k w sb fingerprint owner_confirmed now sd =
     (case sd of (s, d) \<Rightarrow>
      let expected = trim fingerprint; digest = trust_bundle_digest c (sb_bundle sb); epoch = tb_trust_epoch (sb_bundle sb) in
      if \<not> owner_confirmed then (sd, Inl ''TRUST_OWNER_CONFIRMATION_REQUIRED'')
      else if expected = [] then (sd, Inl ''TRUST_ROOT_FINGERPRINT_REQUIRED'')
      else case st_bundle s of
        Some existing \<Rightarrow>
          if trust_bundle_digest c (sb_bundle existing) = digest \<and> tb_trust_epoch (sb_bundle existing) = epoch
          then (sd, Inr (store_status s)) else (sd, Inl ''TRUST_STORE_ALREADY_INITIALIZED'')
      | None \<Rightarrow>
          if st_current_epoch s \<noteq> 0 then (sd, Inl ''TRUST_STORE_ALREADY_INITIALIZED'')
          else case res_bind (verify_signed_trust_bundle c sb now 0) (\<lambda>_.
              res_bind (ok_or (find_root (sb_bundle sb) (sb_signing_key_id sb)) ''TRUST_BUNDLE_ROOT_UNKNOWN'') (\<lambda>root.
              res_bind (fail_if (ad_fingerprint (pt_authority root) \<noteq> expected) ''TRUST_ROOT_FINGERPRINT_MISMATCH'') (\<lambda>_.
              fail_if (epoch = 0) ''TRUST_EPOCH_INVALID''))) of
            Inl e \<Rightarrow> (sd, Inl e)
          | Inr _ \<Rightarrow>
              let (next, f) = file_for_bundle (wd_uuid w) sb epoch None None s in
              commit_store k w f (next\<lparr>st_current_epoch := epoch, st_digest := Some digest, st_bundle := Some sb\<rparr>) s d)"

text \<open>
  The anchor of an installation from before there were anchors: the root of the stored bundle, when
  an entry of the ceremony's journal names it and the bundle. An entry that is no JSON is skipped,
  one that cannot be listed (\<open>Inl\<close>) is an error.
\<close>

definition journal_confirms :: "trust_crypto \<Rightarrow> product_trust_root \<Rightarrow> trust_bundle \<Rightarrow> json \<Rightarrow> bool" where
  "journal_confirms c root b j \<longleftrightarrow>
     (get_str ''state'' j = Some ''EXECUTED'' \<or> get_str ''state'' j = Some ''ACTIVATED'')
     \<and> get_str ''recoveryStatus'' j = Some ''VERIFIED''
     \<and> get_str ''rootFingerprint'' j = Some (ad_fingerprint (pt_authority root))
     \<and> get_str ''trustBundleDigest'' j = Some (trust_bundle_digest c b)"

fun scan_journal :: "trust_crypto \<Rightarrow> product_trust_root \<Rightarrow> trust_bundle \<Rightarrow> (unit + json option) list \<Rightarrow> string + product_trust_root option" where
  "scan_journal c root b [] = Inr None"
| "scan_journal c root b (Inl _ # es) = Inl ''TRUST_BOOTSTRAP_JOURNAL_UNAVAILABLE''"
| "scan_journal c root b (Inr e # es) =
     (if is_some_and e (journal_confirms c root b) then Inr (Some root) else scan_journal c root b es)"

definition owner_ceremony_bootstrap_anchor ::
  "trust_crypto \<Rightarrow> store_crates \<Rightarrow> u64 \<Rightarrow> string \<Rightarrow> (unit + json option) list option \<Rightarrow> disk
    \<Rightarrow> string + product_trust_root option" where
  "owner_ceremony_bootstrap_anchor c k now path journal d =
     (case d path of
        None \<Rightarrow> Inr None
      | Some bytes \<Rightarrow>
          res_bind (map_err (\<lambda>_. ''TRUST_STORE_INVALID'') (sc_read_file k bytes)) (\<lambda>f.
          res_bind (map_err (\<lambda>_. ''TRUST_STORE_INVALID'') (verify_signed_trust_bundle c (tf_bundle f) now 0)) (\<lambda>_.
          res_bind (ok_or (find_root (sb_bundle (tf_bundle f)) (sb_signing_key_id (tf_bundle f))) ''TRUST_BUNDLE_ROOT_UNKNOWN'') (\<lambda>root.
          case journal of None \<Rightarrow> Inr None
          | Some entries \<Rightarrow> scan_journal c root (sb_bundle (tf_bundle f)) entries))))"

section \<open>Sequences of calls\<close>

datatype store_call =
    CallMigrate store_world
  | CallInstall store_world signed_trust_bundle u64
  | CallActivate store_world refresh_request u64
  | CallAccept store_world center_transition u64
  | CallCeremony store_world signed_trust_bundle string bool u64

fun call_world :: "store_call \<Rightarrow> store_world" where
  "call_world (CallMigrate w) = w"
| "call_world (CallInstall w sb now) = w"
| "call_world (CallActivate w r now) = w"
| "call_world (CallAccept w t now) = w"
| "call_world (CallCeremony w sb fp owner now) = w"

fun call_effect :: "trust_crypto \<Rightarrow> store_crates \<Rightarrow> supervisor_trust_store \<times> disk \<Rightarrow> store_call \<Rightarrow> supervisor_trust_store \<times> disk" where
  "call_effect c k sd (CallMigrate w) = fst (migrate_environment_metadata k w sd)"
| "call_effect c k sd (CallInstall w sb now) = fst (install c k w sb now sd)"
| "call_effect c k sd (CallActivate w r now) = fst (activate_successor c k w r now sd)"
| "call_effect c k sd (CallAccept w t now) = fst (accept_center_authority_transition c k w t now sd)"
| "call_effect c k sd (CallCeremony w sb fp owner now) = fst (install_from_owner_ceremony c k w sb fp owner now sd)"

definition run_calls ::
  "trust_crypto \<Rightarrow> store_crates \<Rightarrow> store_call list \<Rightarrow> supervisor_trust_store \<times> disk \<Rightarrow> supervisor_trust_store \<times> disk" where
  "run_calls c k calls sd = foldl (call_effect c k) sd calls"

section \<open>The ledger of trust\<close>

text \<open>
  What a host owes its owner: once it trusts something, the epoch of what it trusts only grows, and
  what it trusts does not change within an epoch. The first trust has a positive epoch.
\<close>

type_synonym ledger = "(u64 \<times> string) option"

inductive ledger_step :: "ledger \<Rightarrow> ledger \<Rightarrow> bool" where
  first_trust: "0 < e \<Longrightarrow> ledger_step None (Some (e, h))"
| later_epoch: "e < e' \<Longrightarrow> ledger_step (Some (e, h)) (Some (e', h'))"

inductive_simps ledger_step_simps: "ledger_step l (Some (e, h))"

definition ledger_of :: "trust_crypto \<Rightarrow> supervisor_trust_store \<Rightarrow> ledger" where
  "ledger_of c s = map_option (\<lambda>sb. (st_current_epoch s, trust_bundle_digest c (sb_bundle sb))) (st_bundle s)"

definition disk_ledger :: "trust_crypto \<Rightarrow> store_crates \<Rightarrow> string \<Rightarrow> disk \<Rightarrow> ledger" where
  "disk_ledger c k path d = (case d path of None \<Rightarrow> None
     | Some bytes \<Rightarrow> (case sc_read_file k bytes of Inl _ \<Rightarrow> None
       | Inr f \<Rightarrow> Some (tf_current_epoch f, trust_bundle_digest c (sb_bundle (tf_bundle f)))))"

text \<open>A store knows the epoch and the digest of its bundle, and has no predecessor before the first one.\<close>

definition store_ok :: "trust_crypto \<Rightarrow> supervisor_trust_store \<Rightarrow> bool" where
  "store_ok c s \<longleftrightarrow> (case st_bundle s of
     None \<Rightarrow> st_current_epoch s = 0 \<and> st_digest s = None \<and> st_lkg_bundle s = None \<and> st_lkg_digest s = None
   | Some sb \<Rightarrow> st_current_epoch s = tb_trust_epoch (sb_bundle sb) \<and> st_digest s = Some (trust_bundle_digest c (sb_bundle sb)))"

text \<open>
  The effect of one call: the store stays and the disk changes at most where the predecessor is kept,
  or a file is on disk and the store is the one that opens from it.
\<close>

definition store_effect ::
  "trust_crypto \<Rightarrow> store_crates \<Rightarrow> store_world \<Rightarrow> supervisor_trust_store \<times> disk \<Rightarrow> supervisor_trust_store \<times> disk \<Rightarrow> bool" where
  "store_effect c k w sd sd' \<longleftrightarrow> (case (sd, sd') of ((s, d), (s', d')) \<Rightarrow>
     (s' = s \<and> (wd_fault w \<noteq> DirectorySyncFails \<longrightarrow> (\<forall>p. p \<noteq> lkg_path s \<longrightarrow> d' p = d p)))
     \<or> (\<exists>f bytes. sc_file_text k f = Inr bytes \<and> d' (st_path s) = Some bytes
         \<and> s' = opened_store c (st_path s) (st_environment s) (st_bootstrap_roots s) f
         \<and> tf_environment f = environment_text (st_environment s)
         \<and> tf_current_epoch f = tb_trust_epoch (sb_bundle (tf_bundle f))
         \<and> (ledger_of c s' = ledger_of c s \<or> ledger_step (ledger_of c s) (ledger_of c s'))))"

lemma write_atomic_Inr: "write_atomic fault path bytes d = (d', Inr u) \<Longrightarrow> d' = d(path \<mapsto> bytes)"
  by (cases fault) auto

lemma write_atomic_Inl:
  "write_atomic fault path bytes d = (d', Inl e) \<Longrightarrow> fault \<noteq> DirectorySyncFails \<Longrightarrow> d' = d"
  by (cases fault) auto

lemma write_atomic_elsewhere: "write_atomic fault path bytes d = (d', r) \<Longrightarrow> p \<noteq> path \<Longrightarrow> d' p = d p"
  by (cases fault) auto

lemma write_lkg_elsewhere: "write_lkg c k w path lkg h d = (d', r) \<Longrightarrow> p \<noteq> path \<Longrightarrow> d' p = d p"
  by (auto simp: write_lkg_def dest: write_atomic_elsewhere split: option.splits sum.splits prod.splits)

text \<open>Every operation ends in a commit of a file from which the new store opens.\<close>

lemma commit_effect:
  assumes "\<forall>p. p \<noteq> lkg_path s \<longrightarrow> d p = d0 p"
    and "next = opened_store c (st_path s) (st_environment s) (st_bootstrap_roots s) f"
    and "tf_environment f = environment_text (st_environment s)" "tf_current_epoch f = tb_trust_epoch (sb_bundle (tf_bundle f))"
    and "ledger_of c next = ledger_of c s \<or> ledger_step (ledger_of c s) (ledger_of c next)"
  shows "store_effect c k w (s, d0) (fst (commit_store k w f next s d))"
proof (cases "sc_file_text k f")
  case (Inr bytes)
  obtain d' r where w: "write_atomic (wd_fault w) (st_path s) bytes d = (d', r)" by force
  show ?thesis
  proof (cases r)
    case (Inl e)
    then show ?thesis using w assms(1) Inr
      by (auto simp: commit_store_def write_file_def store_effect_def dest: write_atomic_Inl)
  next
    case (Inr u)
    have "\<exists>f bytes. sc_file_text k f = Inr bytes \<and> d' (st_path s) = Some bytes
         \<and> next = opened_store c (st_path s) (st_environment s) (st_bootstrap_roots s) f
         \<and> tf_environment f = environment_text (st_environment s)
         \<and> tf_current_epoch f = tb_trust_epoch (sb_bundle (tf_bundle f))"
      using \<open>sc_file_text k f = Inr bytes\<close> write_atomic_Inr [OF w [unfolded Inr]] assms(2-4) by auto
    with assms(5) show ?thesis using w Inr \<open>sc_file_text k f = Inr bytes\<close>
      by (simp add: commit_store_def write_file_def store_effect_def)
  qed
qed (use assms(1) in \<open>simp add: commit_store_def write_file_def store_effect_def\<close>)

lemma unchanged_effect: "store_effect c k w sd sd"
  by (simp add: store_effect_def split: prod.split)

lemma file_for_bundle_parts:
  assumes "file_for_bundle uuid sb epoch lkg h s = (n, f)"
  shows "n = s\<lparr>st_trust_store_id := tf_trust_store_id f, st_authority_binding := Some (authority_binding sb), st_schema_version := 3\<rparr>"
    "tf_schema_version f = 3" "tf_environment f = environment_text (st_environment s)" "tf_current_epoch f = epoch"
    "tf_authority_binding f = Some (authority_binding sb)" "tf_bundle f = sb" "tf_lkg_bundle f = lkg" "tf_lkg_digest f = h"
    "tf_center_transitions f = st_center_transitions s"
  using assms by (auto simp: file_for_bundle_def Let_def)

lemma opt_or_Some [simp]: "opt_or (Some x) y = Some x"
  by (simp add: opt_or_def)

lemma opened_from_file:
  assumes "file_for_bundle uuid sb (tb_trust_epoch (sb_bundle sb)) lkg h s = (n, f)"
  shows "installed_store c sb lkg h n = opened_store c (st_path s) (st_environment s) (st_bootstrap_roots s) f"
  by (simp add: file_for_bundle_parts [OF assms] installed_store_def opened_store_def)

lemma migrate_effect:
  assumes "store_ok c s"
  shows "store_effect c k w (s, d) (fst (migrate_environment_metadata k w (s, d)))"
proof (cases "st_bundle s")
  case (Some sb)
  obtain n f where f: "file_for_bundle (wd_uuid w) sb (st_current_epoch s) (st_lkg_bundle s) (st_lkg_digest s) s = (n, f)"
    by force
  note p = file_for_bundle_parts [OF f]
  have e: "st_current_epoch s = tb_trust_epoch (sb_bundle sb)" "st_digest s = Some (trust_bundle_digest c (sb_bundle sb))"
    using assms Some by (simp_all add: store_ok_def)
  have "store_effect c k w (s, d) (fst (commit_store k w f n s d))"
    by (rule commit_effect) (use e Some in \<open>simp_all add: p opened_store_def ledger_of_def\<close>)
  with Some f show ?thesis by (simp add: migrate_environment_metadata_def unchanged_effect)
qed (simp add: migrate_environment_metadata_def unchanged_effect)

lemma install_effect:
  assumes "store_ok c s"
  shows "store_effect c k w (s, d) (fst (install c k w sb now (s, d)))"
proof (cases "may_install c sb now s")
  case (Inr u)
  let ?lkg = "opt_or (st_bundle s) (st_lkg_bundle s)" and ?h = "opt_or (st_digest s) (st_lkg_digest s)"
  obtain d' r where l: "write_lkg c k w (lkg_path s) ?lkg ?h d = (d', r)" by force
  have same: "\<forall>p. p \<noteq> lkg_path s \<longrightarrow> d' p = d p" using write_lkg_elsewhere [OF l] by blast
  show ?thesis
  proof (cases r)
    case (Inl e)
    with l \<open>may_install c sb now s = Inr u\<close> same show ?thesis by (simp add: install_def Let_def store_effect_def)
  next
    case r: (Inr v)
    obtain n f where f: "file_for_bundle (wd_uuid w) sb (tb_trust_epoch (sb_bundle sb)) ?lkg ?h s = (n, f)" by force
    note p = file_for_bundle_parts [OF f]
    from Inr have m: "\<not> tb_trust_epoch (sb_bundle sb) < st_current_epoch s"
      "tb_trust_epoch (sb_bundle sb) = st_current_epoch s \<longrightarrow> st_digest s = Some (trust_bundle_digest c (sb_bundle sb))"
      by (auto simp: may_install_def result_simps)
    have "ledger_of c (installed_store c sb ?lkg ?h n) = ledger_of c s
      \<or> ledger_step (ledger_of c s) (ledger_of c (installed_store c sb ?lkg ?h n))"
      using assms m
      by (cases "st_bundle s") (auto simp: ledger_of_def installed_store_def store_ok_def ledger_step_simps not_less
          le_less word_gt_0)
    then have "store_effect c k w (s, d) (fst (commit_store k w f (installed_store c sb ?lkg ?h n) s d'))"
      by (intro commit_effect same opened_from_file [OF f]) (simp_all add: p)
    with l r f Inr show ?thesis by (simp add: install_def Let_def)
  qed
qed (simp add: install_def unchanged_effect)

lemma activate_effect:
  assumes "store_ok c s"
  shows "store_effect c k w (s, d) (fst (activate_successor c k w r now (s, d)))"
proof (cases "may_activate c r now s")
  case (Inr x)
  have "fst (activate_successor c k w r now (s, d))
    = (if already_served c r s then (s, d) else fst (install c k w (hr_bundle r) now (s, d)))"
    by (simp add: activate_successor_def Inr Let_def split: prod.split sum.split)
  with install_effect [OF assms] unchanged_effect show ?thesis by simp
qed (simp add: activate_successor_def unchanged_effect)

lemma accept_effect:
  assumes "store_ok c s"
  shows "store_effect c k w (s, d) (fst (accept_center_authority_transition c k w t now (s, d)))"
proof (cases "st_bundle s")
  case (Some sb)
  let ?s = "s\<lparr>st_center_transitions := st_center_transitions s @ [t]\<rparr>"
  obtain n f where f: "file_for_bundle (wd_uuid w) sb (st_current_epoch s) (st_lkg_bundle s) (st_lkg_digest s) ?s = (n, f)"
    by force
  note p = file_for_bundle_parts [OF f]
  have e: "st_current_epoch s = tb_trust_epoch (sb_bundle sb)" "st_digest s = Some (trust_bundle_digest c (sb_bundle sb))"
    using assms Some by (simp_all add: store_ok_def)
  have "store_effect c k w (s, d) (fst (commit_store k w f n s d))"
    by (rule commit_effect) (use e Some in \<open>simp_all add: p opened_store_def ledger_of_def\<close>)
  with Some f show ?thesis
    by (auto simp: accept_center_authority_transition_def Let_def unchanged_effect result_simps split: option.splits sum.splits)
qed (simp add: accept_center_authority_transition_def unchanged_effect)

lemma ceremony_effect:
  assumes "store_ok c s"
  shows "store_effect c k w (s, d) (fst (install_from_owner_ceremony c k w sb fp owner now (s, d)))"
proof (cases "st_bundle s")
  case None
  obtain n f where f: "file_for_bundle (wd_uuid w) sb (tb_trust_epoch (sb_bundle sb)) None None s = (n, f)" by force
  note p = file_for_bundle_parts [OF f]
  let ?n = "n\<lparr>st_current_epoch := tb_trust_epoch (sb_bundle sb), st_digest := Some (trust_bundle_digest c (sb_bundle sb)),
      st_bundle := Some sb\<rparr>"
  have l: "st_lkg_bundle s = None" "st_lkg_digest s = None" using assms None by (simp_all add: store_ok_def)
  have "store_effect c k w (s, d) (fst (commit_store k w f ?n s d))" if "tb_trust_epoch (sb_bundle sb) \<noteq> 0"
    by (rule commit_effect)
      (use l None that in \<open>simp_all add: p opened_store_def ledger_of_def ledger_step_simps word_neq_0_conv\<close>)
  with None f show ?thesis
    by (auto simp: install_from_owner_ceremony_def Let_def unchanged_effect result_simps split: sum.splits)
qed (simp add: install_from_owner_ceremony_def Let_def unchanged_effect)

lemma call_has_effect:
  assumes "store_ok c s"
  shows "store_effect c k (call_world x) (s, d) (call_effect c k (s, d) x)"
  by (cases x) (simp_all add: assms migrate_effect install_effect activate_effect accept_effect ceremony_effect)

section \<open>Invariants of a sequence of calls\<close>

lemma effect_keeps_ok: "store_effect c k w (s, d) (s', d') \<Longrightarrow> store_ok c s \<Longrightarrow> store_ok c s'"
  by (auto simp: store_effect_def store_ok_def opened_store_def)

lemma effect_ledger:
  "store_effect c k w (s, d) (s', d') \<Longrightarrow> rtranclp ledger_step (ledger_of c s) (ledger_of c s')"
  by (auto simp: store_effect_def)

lemma empty_store_ok: "store_ok c (empty_store path env roots)"
  by (simp add: store_ok_def empty_store_def)

lemma open_cases:
  assumes "open_for_environment c k now path env roots d = Inr s"
  obtains (fresh) "d path = None" "s = empty_store path env roots"
    | (read) bytes f where "d path = Some bytes" "sc_read_file k bytes = Inr f"
        "check_store_file c k now env path roots f = Inr ()" "s = opened_store c path env roots f"
  using assms by (auto simp: open_for_environment_def result_simps split: option.splits)

text \<open>A store never opens through a link, nor from a file or a directory that others can use.\<close>

lemma opened_store_is_private:
  assumes "open_for_environment c k now path env roots d = Inr s" "sc_metadata k (take n (path_components path)) = Inr (Some m)"
  shows "\<not> fm_symlink m
    \<and> (length (path_components path) - 1 \<le> n \<longrightarrow> fm_owner m = sc_owner k \<and> fm_mode m AND 0x3F = 0)"
proof -
  let ?p = "path_components path"
  have p: "?p \<noteq> []" "\<forall>i \<le> length ?p. check_ancestor k ?p (take i ?p) = Inr ()"
    using assms(1) by (auto simp: open_for_environment_def validate_store_permissions_def Let_def result_simps less_Suc_eq_le split: if_splits)
  have t: "take n ?p = take (min n (length ?p)) ?p" by (simp add: min_def)
  have ok: "\<not> ancestor_invalid k ?p (take n ?p) m"
    using spec [OF p(2), of "min n (length ?p)"] assms(2) unfolding t by (simp add: check_ancestor_def result_simps)
  have "take n ?p = ?p \<or> take n ?p = butlast ?p" if "length ?p - 1 \<le> n"
  proof (cases "length ?p \<le> n")
    case False
    with that have "n = length ?p - 1" by simp
    then show ?thesis by (simp add: butlast_conv_take)
  qed simp
  with ok show ?thesis by (auto simp: ancestor_invalid_def split: if_splits)
qed

lemma check_store_file_Inr:
  assumes "check_store_file c k now env path roots f = Inr ()"
  shows "tf_current_epoch f = tb_trust_epoch (sb_bundle (tf_bundle f))" "check_store_environment env f = Inr ()"
    "verify_signed_trust_bundle_with_bootstrap c (tf_bundle f) now (tf_current_epoch f) roots = Inr ()"
    "check_store_lkg c now roots f = Inr ()"
    "t \<in> set (tf_center_transitions f) \<Longrightarrow> verify_center_authority_transition c t (tf_bundle f) now = Inr ()"
  using assms by (auto simp: check_store_file_def result_simps res_each_Inr)

lemma opened_ok:
  assumes "open_for_environment c k now path env roots d = Inr s"
  shows "store_ok c s"
  using assms
proof (cases rule: open_cases)
  case (read bytes f)
  then show ?thesis using check_store_file_Inr(1) [OF read(3)] by (simp add: store_ok_def opened_store_def)
qed (simp add: empty_store_ok)

lemma run_calls_step: "run_calls c k (x # xs) sd = run_calls c k xs (call_effect c k sd x)"
  by (simp add: run_calls_def)

lemma run_calls_ok:
  assumes "store_ok c s" "run_calls c k calls (s, d) = (s', d')"
  shows "store_ok c s' \<and> rtranclp ledger_step (ledger_of c s) (ledger_of c s')"
  using assms
proof (induction calls arbitrary: s d)
  case (Cons x xs)
  obtain s1 d1 where e: "call_effect c k (s, d) x = (s1, d1)" by force
  note f = call_has_effect [OF Cons.prems(1), of k x d, unfolded e]
  from Cons.IH [OF effect_keeps_ok [OF f Cons.prems(1)]] Cons.prems(2) e effect_ledger [OF f] show ?case
    by (auto simp: run_calls_step intro: rtranclp_trans)
qed (simp add: run_calls_def)

text \<open>The disk holds the file from which the store opens.\<close>

definition in_sync :: "trust_crypto \<Rightarrow> store_crates \<Rightarrow> supervisor_trust_store \<times> disk \<Rightarrow> bool" where
  "in_sync c k sd \<longleftrightarrow> (case sd of (s, d) \<Rightarrow> (case d (st_path s) of
     None \<Rightarrow> s = empty_store (st_path s) (st_environment s) (st_bootstrap_roots s)
   | Some bytes \<Rightarrow> (\<exists>f. sc_read_file k bytes = Inr f
       \<and> s = opened_store c (st_path s) (st_environment s) (st_bootstrap_roots s) f)))"

lemma opened_fields [simp]:
  "st_path (opened_store c path env roots f) = path" "st_environment (opened_store c path env roots f) = env"
  "st_bootstrap_roots (opened_store c path env roots f) = roots" "st_bundle (opened_store c path env roots f) = Some (tf_bundle f)"
  "st_path (empty_store path env roots) = path" "st_environment (empty_store path env roots) = env"
  "st_bootstrap_roots (empty_store path env roots) = roots" "st_bundle (empty_store path env roots) = None"
  by (simp_all add: opened_store_def empty_store_def)

lemma opened_in_sync: "open_for_environment c k now path env roots d = Inr s \<Longrightarrow> in_sync c k (s, d)"
  by (erule open_cases) (simp_all add: in_sync_def)

lemma effect_keeps_sync:
  assumes "store_crates_ok k" "store_effect c k w (s, d) (s', d')" "in_sync c k (s, d)" "wd_fault w \<noteq> DirectorySyncFails"
    and "lkg_path s \<noteq> st_path s"
  shows "in_sync c k (s', d') \<and> st_path s' = st_path s \<and> st_environment s' = st_environment s
    \<and> st_bootstrap_roots s' = st_bootstrap_roots s"
  using assms(2)
proof (unfold store_effect_def, simp only: prod.case, elim disjE)
  assume "s' = s \<and> (wd_fault w \<noteq> DirectorySyncFails \<longrightarrow> (\<forall>p. p \<noteq> lkg_path s \<longrightarrow> d' p = d p))"
  with assms(3-5) show ?thesis by (simp add: in_sync_def)
qed (use assms(1) in \<open>auto simp: in_sync_def store_crates_ok_def\<close>)

lemma run_calls_sync:
  assumes "store_crates_ok k" "store_ok c s" "in_sync c k (s, d)" "run_calls c k calls (s, d) = (s', d')"
    and "\<forall>x \<in> set calls. wd_fault (call_world x) \<noteq> DirectorySyncFails" "lkg_path s \<noteq> st_path s"
  shows "in_sync c k (s', d') \<and> st_path s' = st_path s \<and> st_environment s' = st_environment s
    \<and> st_bootstrap_roots s' = st_bootstrap_roots s"
  using assms(2-6)
proof (induction calls arbitrary: s d)
  case (Cons x xs)
  obtain s1 d1 where e: "call_effect c k (s, d) x = (s1, d1)" by force
  note f = call_has_effect [OF Cons.prems(1), of k x d, unfolded e]
  have sync: "in_sync c k (s1, d1) \<and> st_path s1 = st_path s \<and> st_environment s1 = st_environment s
      \<and> st_bootstrap_roots s1 = st_bootstrap_roots s"
    by (rule effect_keeps_sync [OF assms(1) f Cons.prems(2)]) (use Cons.prems(4,5) in simp_all)
  then have "lkg_path s1 \<noteq> st_path s1" using Cons.prems(5) by (simp add: lkg_path_def)
  from Cons.IH [OF effect_keeps_ok [OF f Cons.prems(1)] conjunct1 [OF sync] _ _ this] sync Cons.prems(3,4) e show ?case
    by (simp add: run_calls_step)
qed (simp add: run_calls_def)

lemma in_sync_reopens:
  assumes "in_sync c k (s, d)" "open_for_environment c k now (st_path s) (st_environment s) (st_bootstrap_roots s) d = Inr s2"
  shows "s2 = s"
  using assms(2) by (cases rule: open_cases) (use assms(1) in \<open>auto simp: in_sync_def\<close>)

lemma opened_ledger [simp]:
  "ledger_of c (opened_store c path env roots f) = Some (tf_current_epoch f, trust_bundle_digest c (sb_bundle (tf_bundle f)))"
  "ledger_of c (empty_store path env roots) = None"
  by (simp_all add: ledger_of_def opened_store_def empty_store_def)

lemma in_sync_ledger:
  assumes "in_sync c k (s, d)"
  shows "disk_ledger c k (st_path s) d = ledger_of c s"
proof (cases "d (st_path s)")
  case None
  then have "s = empty_store (st_path s) (st_environment s) (st_bootstrap_roots s)" using assms by (simp add: in_sync_def)
  then have "ledger_of c s = None" by (metis opened_ledger(2))
  with None show ?thesis by (simp add: disk_ledger_def)
next
  case (Some bytes)
  then obtain f where f: "sc_read_file k bytes = Inr f"
    "s = opened_store c (st_path s) (st_environment s) (st_bootstrap_roots s) f" using assms by (auto simp: in_sync_def)
  from f(2) have "ledger_of c s = Some (tf_current_epoch f, trust_bundle_digest c (sb_bundle (tf_bundle f)))"
    by (metis opened_ledger(1))
  with Some f(1) show ?thesis by (simp add: disk_ledger_def)
qed

section \<open>Installing\<close>

lemma commit_Inr:
  "commit_store k w f n s d = ((s', d'), Inr x) \<Longrightarrow>
     s' = n \<and> (\<exists>bytes. sc_file_text k f = Inr bytes \<and> d' = d(st_path s \<mapsto> bytes))"
  by (auto simp: commit_store_def write_file_def dest: write_atomic_Inr split: sum.splits prod.splits)

lemma commit_Inl:
  assumes "commit_store k w f n s d = ((s', d'), Inl e)"
  shows "s' = s \<and> (d' = d \<or> (\<exists>bytes. sc_file_text k f = Inr bytes \<and> d' = d(st_path s \<mapsto> bytes)))"
  using assms by (cases "wd_fault w") (auto simp: commit_store_def write_file_def split: sum.splits)

text \<open>An install that ends, well or not, after the predecessor was written: it commits this file.\<close>

lemma install_commits:
  assumes "install c k w sb now (s, d) = ((s', d'), res)" "\<not> isl res \<or> d' (st_path s) \<noteq> d (st_path s)"
    and "lkg_path s \<noteq> st_path s \<or> \<not> isl res"
  obtains n f dd where "may_install c sb now s = Inr ()"
    "file_for_bundle (wd_uuid w) sb (tb_trust_epoch (sb_bundle sb)) (opt_or (st_bundle s) (st_lkg_bundle s))
      (opt_or (st_digest s) (st_lkg_digest s)) s = (n, f)"
    "commit_store k w f (installed_store c sb (opt_or (st_bundle s) (st_lkg_bundle s))
      (opt_or (st_digest s) (st_lkg_digest s)) n) s dd = ((s', d'), res)"
    "\<forall>p. p \<noteq> lkg_path s \<longrightarrow> dd p = d p"
proof -
  let ?lkg = "opt_or (st_bundle s) (st_lkg_bundle s)" and ?h = "opt_or (st_digest s) (st_lkg_digest s)"
  have m: "may_install c sb now s = Inr ()"
    using assms(1,2) by (cases "may_install c sb now s") (auto simp: install_def)
  obtain dd q where l: "write_lkg c k w (lkg_path s) ?lkg ?h d = (dd, q)" by force
  have same: "\<forall>p. p \<noteq> lkg_path s \<longrightarrow> dd p = d p" using write_lkg_elsewhere [OF l] by blast
  obtain n f where f: "file_for_bundle (wd_uuid w) sb (tb_trust_epoch (sb_bundle sb)) ?lkg ?h s = (n, f)" by force
  have "q = Inr ()" using assms m l same by (cases q) (auto simp: install_def Let_def)
  then have "commit_store k w f (installed_store c sb ?lkg ?h n) s dd = ((s', d'), res)"
    using assms(1) m l f by (simp add: install_def Let_def)
  then show thesis by (rule that [OF m f _ same])
qed

lemma installed_fields [simp]:
  "st_bundle (installed_store c sb lkg h n) = Some sb" "st_current_epoch (installed_store c sb lkg h n) = tb_trust_epoch (sb_bundle sb)"
  "st_digest (installed_store c sb lkg h n) = Some (trust_bundle_digest c (sb_bundle sb))"
  "st_lkg_bundle (installed_store c sb lkg h n) = lkg" "st_path (installed_store c sb lkg h n) = st_path n"
  by (simp_all add: installed_store_def)

lemma installed_state:
  assumes "install c k w sb now sd = ((s', d'), Inr status)"
  shows "st_bundle s' = Some sb" "st_current_epoch s' = tb_trust_epoch (sb_bundle sb)"
    "st_digest s' = Some (trust_bundle_digest c (sb_bundle sb))"
    "st_lkg_bundle s' = opt_or (st_bundle (fst sd)) (st_lkg_bundle (fst sd))"
proof -
  obtain s d where sd: "sd = (s, d)" by force
  obtain n f dd where "commit_store k w f (installed_store c sb (opt_or (st_bundle s) (st_lkg_bundle s))
      (opt_or (st_digest s) (st_lkg_digest s)) n) s dd = ((s', d'), Inr status)"
    by (rule install_commits [OF assms [unfolded sd]]) simp_all
  note c = commit_Inr [OF this]
  then show "st_bundle s' = Some sb" "st_current_epoch s' = tb_trust_epoch (sb_bundle sb)"
    "st_digest s' = Some (trust_bundle_digest c (sb_bundle sb))"
    "st_lkg_bundle s' = opt_or (st_bundle (fst sd)) (st_lkg_bundle (fst sd))" by (simp_all add: sd)
qed

lemma install_writes:
  assumes "store_crates_ok k" "install c k w sb now (s, d) = ((s', d'), res)"
    and "\<not> isl res \<or> d' (st_path s) \<noteq> d (st_path s)" "lkg_path s \<noteq> st_path s"
  shows "disk_ledger c k (st_path s) d' = Some (tb_trust_epoch (sb_bundle sb), trust_bundle_digest c (sb_bundle sb))"
proof -
  obtain n f dd where f: "file_for_bundle (wd_uuid w) sb (tb_trust_epoch (sb_bundle sb)) (opt_or (st_bundle s) (st_lkg_bundle s))
      (opt_or (st_digest s) (st_lkg_digest s)) s = (n, f)"
    and com: "commit_store k w f (installed_store c sb (opt_or (st_bundle s) (st_lkg_bundle s))
      (opt_or (st_digest s) (st_lkg_digest s)) n) s dd = ((s', d'), res)" and same: "\<forall>p. p \<noteq> lkg_path s \<longrightarrow> dd p = d p"
    by (rule install_commits [OF assms(2,3)]) (use assms(4) in simp_all)
  have "\<exists>bytes. sc_file_text k f = Inr bytes \<and> d' (st_path s) = Some bytes"
  proof (cases res)
    case (Inl e)
    then show ?thesis using commit_Inl [OF com [unfolded Inl]] assms(3,4) same by auto
  next
    case (Inr x)
    then show ?thesis using commit_Inr [OF com [unfolded Inr]] by auto
  qed
  with assms(1) show ?thesis by (auto simp: disk_ledger_def store_crates_ok_def file_for_bundle_parts [OF f])
qed

text \<open>An install that goes through: what it needs of the predecessor's file, and its result.\<close>

lemma install_wrote_lkg:
  assumes "install c k w sb now (s, d) = ((s', d'), res)" "d' (st_path s) \<noteq> d (st_path s)" "lkg_path s \<noteq> st_path s"
  shows "\<exists>dd. write_lkg c k w (lkg_path s) (opt_or (st_bundle s) (st_lkg_bundle s))
    (opt_or (st_digest s) (st_lkg_digest s)) d = (dd, Inr ())"
proof -
  let ?lkg = "opt_or (st_bundle s) (st_lkg_bundle s)" and ?h = "opt_or (st_digest s) (st_lkg_digest s)"
  obtain dd q where l: "write_lkg c k w (lkg_path s) ?lkg ?h d = (dd, q)" by force
  have "q = Inr ()"
    using assms l write_lkg_elsewhere [OF l, of "st_path s"]
    by (cases q) (auto simp: install_def Let_def split: sum.splits)
  with l show ?thesis by blast
qed

lemma write_lkg_again:
  assumes "write_lkg c k w path lkg h d = (dd, Inr ())" "wd_lkg_fault w' = NoStoreFault"
  shows "\<exists>dd'. write_lkg c k w' path lkg h d' = (dd', Inr ())"
  using assms by (auto simp: write_lkg_def split: option.splits sum.splits prod.splits)

lemma install_goes_through:
  assumes "may_install c sb now s = Inr ()" "wd_fault w = NoStoreFault"
    and "write_lkg c k w (lkg_path s) (opt_or (st_bundle s) (st_lkg_bundle s))
      (opt_or (st_digest s) (st_lkg_digest s)) d = (dd, Inr ())"
    and "file_for_bundle (wd_uuid w) sb (tb_trust_epoch (sb_bundle sb)) (opt_or (st_bundle s) (st_lkg_bundle s))
      (opt_or (st_digest s) (st_lkg_digest s)) s = (n, f)" "sc_file_text k f = Inr bytes"
  shows "\<exists>s' d'. install c k w sb now (s, d) = ((s', d'), Inr (store_status s'))
    \<and> ledger_of c s' = Some (tb_trust_epoch (sb_bundle sb), trust_bundle_digest c (sb_bundle sb))"
  using assms by (simp add: install_def Let_def commit_store_def write_file_def ledger_of_def)

lemma bootstrap_verifies:
  "verify_signed_trust_bundle_with_bootstrap c sb now epoch roots = Inr () \<Longrightarrow> verify_signed_trust_bundle c sb now epoch = Inr ()"
  by (auto simp: verify_signed_trust_bundle_with_bootstrap_def result_simps split: if_splits)

text \<open>A transition does not verify against a bundle of an epoch after its own.\<close>

lemma transition_of_the_past:
  "ct_activation_epoch t < tb_trust_epoch (sb_bundle sb) \<Longrightarrow> \<exists>e. verify_center_authority_transition c t sb now = Inl e"
  by (simp add: verify_center_authority_transition_def Let_def)

lemma opened_place:
  assumes "open_for_environment c k now path env roots d = Inr s"
  shows "st_path s = path" "st_environment s = env" "st_bootstrap_roots s = roots"
  using assms by (cases rule: open_cases; simp)+

lemma run_from_open:
  assumes "store_crates_ok k" "open_for_environment c k now path env roots d = Inr s"
    and "run_calls c k calls (s, d) = (s', d')" "\<forall>x \<in> set calls. wd_fault (call_world x) \<noteq> DirectorySyncFails"
    and "with_file_name path ''trust-bundle.lkg.json'' \<noteq> path"
  shows "in_sync c k (s', d') \<and> st_path s' = path \<and> st_environment s' = env \<and> st_bootstrap_roots s' = roots"
  using run_calls_sync [OF assms(1) opened_ok [OF assms(2)] opened_in_sync [OF assms(2)] assms(3,4)] assms(5)
  by (simp add: opened_place [OF assms(2)] lkg_path_def)

lemma reopened_store:
  assumes "store_crates_ok k" "open_for_environment c k now path env roots d = Inr s"
    and "run_calls c k calls (s, d) = (s', d')" "\<forall>x \<in> set calls. wd_fault (call_world x) \<noteq> DirectorySyncFails"
    and "with_file_name path ''trust-bundle.lkg.json'' \<noteq> path"
    and "open_for_environment c k later path env roots d' = Inr s2"
  shows "s2 = s'"
  using run_from_open [OF assms(1-5)] in_sync_reopens [of c k s' d'] assms(6) by auto

section \<open>Properties\<close>

text \<open>
  C26. The store refines a ledger of trust: whatever sequence of calls is made on a store that was
  opened, with failing writes at any step, its epoch and digest move only by first trust and to later
  epochs; within an epoch they stay.
\<close>

theorem store_refines_ledger:
  assumes "open_for_environment c k now path env roots d = Inr s" "run_calls c k calls (s, d) = (s', d')"
  shows "rtranclp ledger_step (ledger_of c s) (ledger_of c s')"
  using run_calls_ok [OF opened_ok [OF assms(1)] assms(2)] ..

text \<open>
  C27. The disk follows the store: unless the synchronisation of the directory fails after the file
  was replaced, the disk holds the epoch and the digest of the store after any sequence of calls, and
  a store that opens from it again is the same store.
\<close>

theorem disk_follows_store:
  assumes "store_crates_ok k" "open_for_environment c k now path env roots d = Inr s"
    and "run_calls c k calls (s, d) = (s', d')" "\<forall>x \<in> set calls. wd_fault (call_world x) \<noteq> DirectorySyncFails"
    and "with_file_name path ''trust-bundle.lkg.json'' \<noteq> path"
  shows "disk_ledger c k path d' = ledger_of c s'
    \<and> (\<forall>later s2. open_for_environment c k later path env roots d' = Inr s2 \<longrightarrow> s2 = s')"
proof -
  note sync = run_from_open [OF assms]
  have "disk_ledger c k path d' = ledger_of c s'" using in_sync_ledger [of c k s' d'] sync by simp
  then show ?thesis using reopened_store [OF assms] by blast
qed

text \<open>
  C29. A failed synchronisation rolls the disk back: when an install replaced the file and then failed
  to synchronise the directory, the store in memory is the one from before, and any bundle that
  verifies against it is taken next, also one of an earlier epoch than the one on disk: the install
  succeeds when nothing fails in it, and writes its bundle over the later one. What is on disk plays
  no part in it.
\<close>

theorem failed_sync_rolls_disk_back:
  assumes "store_crates_ok k" "lkg_path s \<noteq> st_path s"
    and "install c k w1 sb1 now1 (s, d) = ((s1, d1), Inl e)" "d1 (st_path s) \<noteq> d (st_path s)"
    and "verify_signed_trust_bundle_with_bootstrap c sb2 now2 (st_current_epoch s) (st_bootstrap_roots s) = Inr ()"
    and "st_current_epoch s < tb_trust_epoch (sb_bundle sb2)"
      "tb_trust_epoch (sb_bundle sb2) < tb_trust_epoch (sb_bundle sb1)"
    and "wd_fault w2 = NoStoreFault" "wd_lkg_fault w2 = NoStoreFault"
    and "file_for_bundle (wd_uuid w2) sb2 (tb_trust_epoch (sb_bundle sb2)) (opt_or (st_bundle s) (st_lkg_bundle s))
      (opt_or (st_digest s) (st_lkg_digest s)) s = (n, f)" "sc_file_text k f = Inr bytes"
  shows "s1 = s
    \<and> disk_ledger c k (st_path s) d1 = Some (tb_trust_epoch (sb_bundle sb1), trust_bundle_digest c (sb_bundle sb1))
    \<and> (\<exists>s2 d2. install c k w2 sb2 now2 (s1, d1) = ((s2, d2), Inr (store_status s2))
        \<and> ledger_of c s2 = Some (tb_trust_epoch (sb_bundle sb2), trust_bundle_digest c (sb_bundle sb2))
        \<and> disk_ledger c k (st_path s) d2 = Some (tb_trust_epoch (sb_bundle sb2), trust_bundle_digest c (sb_bundle sb2)))"
proof -
  have s1: "s1 = s"
  proof (rule install_commits [OF assms(3)])
    show "\<not> isl (Inl e) \<or> d1 (st_path s) \<noteq> d (st_path s)" "lkg_path s \<noteq> st_path s \<or> \<not> isl (Inl e)" using assms(2,4) by simp_all
  qed (auto dest: commit_Inl)
  have d1: "disk_ledger c k (st_path s) d1 = Some (tb_trust_epoch (sb_bundle sb1), trust_bundle_digest c (sb_bundle sb1))"
    by (rule install_writes [OF assms(1,3)]) (use assms(2,4) in simp_all)
  have may: "may_install c sb2 now2 s = Inr ()"
    using assms(5,6) by (auto simp: may_install_def fail_if_def)
  obtain dd where "write_lkg c k w2 (lkg_path s) (opt_or (st_bundle s) (st_lkg_bundle s))
      (opt_or (st_digest s) (st_lkg_digest s)) d1 = (dd, Inr ())"
    using install_wrote_lkg [OF assms(3,4,2)] write_lkg_again [OF _ assms(9)] by blast
  from install_goes_through [OF may assms(8) this assms(10,11)] obtain s2 d2 where
    i: "install c k w2 sb2 now2 (s, d1) = ((s2, d2), Inr (store_status s2))"
    "ledger_of c s2 = Some (tb_trust_epoch (sb_bundle sb2), trust_bundle_digest c (sb_bundle sb2))" by blast
  have "disk_ledger c k (st_path s) d2 = Some (tb_trust_epoch (sb_bundle sb2), trust_bundle_digest c (sb_bundle sb2))"
    by (rule install_writes [OF assms(1) i(1)]) (use assms(2) in simp_all)
  with i show ?thesis unfolding s1 using d1 by blast
qed

text \<open>
  C28. First trust comes from an anchor or from the owner: the only calls that give a store its first
  bundle are an install of a bundle that an anchor of the host vouches for, and the owner's ceremony,
  confirmed, with the fingerprint of the root that signed the bundle.
\<close>

theorem first_trust_is_anchored:
  assumes "st_bundle s = None" "call_effect c k (s, d) x = (s', d')" "st_bundle s' = Some sb"
  shows "(\<exists>w now. x = CallInstall w sb now
      \<and> verify_signed_trust_bundle_with_bootstrap c sb now (st_current_epoch s) (st_bootstrap_roots s) = Inr ())
    \<or> (\<exists>w fp now root. x = CallCeremony w sb fp True now \<and> verify_signed_trust_bundle c sb now 0 = Inr ()
      \<and> find_root (sb_bundle sb) (sb_signing_key_id sb) = Some root \<and> ad_fingerprint (pt_authority root) = trim fp)"
proof (cases x)
  case (CallInstall w sb' now)
  then have i: "fst (install c k w sb' now (s, d)) = (s', d')" using assms(2) by simp
  have "may_install c sb' now s = Inr ()"
    using i assms(1,3) by (cases "may_install c sb' now s") (auto simp: install_def)
  then have v: "verify_signed_trust_bundle_with_bootstrap c sb' now (st_current_epoch s) (st_bootstrap_roots s) = Inr ()"
    by (simp add: may_install_def result_simps)
  have "sb' = sb"
    using i assms(1,3) \<open>may_install c sb' now s = Inr ()\<close>
    by (auto simp: install_def Let_def commit_store_def split: prod.splits sum.splits)
  with v CallInstall show ?thesis by blast
next
  case (CallCeremony w sb' fp owner now)
  with assms have "sb' = sb \<and> owner \<and> verify_signed_trust_bundle c sb now 0 = Inr ()
      \<and> (\<exists>root. find_root (sb_bundle sb) (sb_signing_key_id sb) = Some root \<and> ad_fingerprint (pt_authority root) = trim fp)"
    by (auto simp: install_from_owner_ceremony_def Let_def commit_store_def result_simps split: if_splits sum.splits prod.splits)
  with CallCeremony show ?thesis by blast
next
  case (CallMigrate w)
  with assms show ?thesis by (auto simp: migrate_environment_metadata_def split: if_splits)
next
  case (CallActivate w r now)
  with assms show ?thesis by (auto simp: activate_successor_def may_activate_def result_simps split: sum.splits)
next
  case (CallAccept w t now)
  with assms show ?thesis by (auto simp: accept_center_authority_transition_def)
qed

text \<open>
  A repeated activation changes nothing: after a request was activated, or found served, the same
  request leaves the store and the disk as they are at any later time. It is refused, though, and not
  reported as served, once the bundle is of a later epoch than the activation epoch.
\<close>

theorem repeated_activation_changes_nothing:
  assumes "activate_successor c k w r now sd = (sd1, Inr x)" "store_ok c (fst sd)"
  shows "fst (activate_successor c k w' r later sd1) = sd1
    \<and> (ct_activation_epoch (hr_transition r) < tb_trust_epoch (sb_bundle (hr_bundle r)) \<longrightarrow>
        (\<exists>e. snd (activate_successor c k w' r later sd1) = Inl e))"
proof -
  obtain y where y: "may_activate c r now (fst sd) = Inr y"
    using assms by (cases "may_activate c r now (fst sd)") (auto simp: activate_successor_def)
  obtain sb where served: "already_served c r (fst sd1)" and sb: "st_bundle (fst sd1) = Some sb"
    and epoch: "tb_trust_epoch (sb_bundle sb) = tb_trust_epoch (sb_bundle (hr_bundle r))"
  proof (cases "already_served c r (fst sd)")
    case True
    then have "sd1 = sd" using assms(1) y by (auto simp: activate_successor_def Let_def split: prod.splits)
    moreover obtain sb where "st_bundle (fst sd) = Some sb" using y by (auto simp: may_activate_def result_simps)
    ultimately show thesis using True assms(2) by (intro that [of sb]) (simp_all add: already_served_def store_ok_def)
  next
    case False
    then obtain status where "install c k w (hr_bundle r) now sd = (sd1, Inr status)"
      using assms(1) y by (auto simp: activate_successor_def Let_def split: prod.splits sum.splits)
    then have "install c k w (hr_bundle r) now sd = ((fst sd1, snd sd1), Inr status)" by simp
    note i = installed_state [OF this]
    show thesis by (rule that [of "hr_bundle r"]) (simp_all add: i already_served_def)
  qed
  then have "fst (activate_successor c k w' r later sd1) = sd1"
    by (cases "may_activate c r later (fst sd1)") (auto simp: activate_successor_def Let_def split: prod.split)
  moreover have "\<exists>e. snd (activate_successor c k w' r later sd1) = Inl e"
    if "ct_activation_epoch (hr_transition r) < tb_trust_epoch (sb_bundle (hr_bundle r))"
  proof -
    obtain e where "verify_center_authority_transition c (hr_transition r) sb later = Inl e"
      using transition_of_the_past [of "hr_transition r" sb] \<open>ct_activation_epoch (hr_transition r) < _\<close> epoch by auto
    then have "\<exists>e. may_activate c r later (fst sd1) = Inl e"
      by (cases "may_activate c r later (fst sd1)") (auto simp: may_activate_def result_simps sb)
    then show ?thesis by (auto simp: activate_successor_def)
  qed
  ultimately show ?thesis by blast
qed

text \<open>
  C30. Stale material blocks the next start: a store whose predecessor has expired, or that accepted a
  transition of an epoch it has passed, does not open again, although its bundle is in force.
\<close>

theorem stale_material_blocks_reopen:
  assumes "store_crates_ok k" "open_for_environment c k now path env roots d = Inr s"
    and "run_calls c k calls (s, d) = (s', d')" "\<forall>x \<in> set calls. wd_fault (call_world x) \<noteq> DirectorySyncFails"
    and "with_file_name path ''trust-bundle.lkg.json'' \<noteq> path"
    and "(\<exists>lkg v. st_lkg_bundle s' = Some lkg \<and> tb_expires_at (sb_bundle lkg) = Some v \<and> v < later)
      \<or> (\<exists>t \<in> set (st_center_transitions s'). ct_activation_epoch t < st_current_epoch s')"
  shows "\<exists>e. open_for_environment c k later path env roots d' = Inl e"
proof (rule ccontr)
  assume "\<not> (\<exists>e. open_for_environment c k later path env roots d' = Inl e)"
  then obtain s2 where o: "open_for_environment c k later path env roots d' = Inr s2"
    by (cases "open_for_environment c k later path env roots d'") auto
  have s2: "s2 = s'" by (rule reopened_store [OF assms(1-5) o])
  from o show False
  proof (cases rule: open_cases)
    case fresh
    show False using assms(6) unfolding s2 [symmetric] fresh(2) by (simp add: empty_store_def)
  next
    case (read bytes f)
    note ch = check_store_file_Inr [OF read(3)]
    have f: "st_lkg_bundle s' = tf_lkg_bundle f" "st_center_transitions s' = tf_center_transitions f"
      "st_current_epoch s' = tf_current_epoch f"
      unfolding s2 [symmetric] read(4) by (simp_all add: opened_store_def)
    from assms(6) show False
    proof (elim disjE exE conjE bexE)
      fix lkg v assume l: "st_lkg_bundle s' = Some lkg" "tb_expires_at (sb_bundle lkg) = Some v" "v < later"
      then have "verify_signed_trust_bundle_with_bootstrap c lkg later 0 roots = Inr ()"
        using ch(4) f(1) by (simp add: check_store_lkg_def result_simps)
      then have "verify_signed_trust_bundle c lkg later 0 = Inr ()" by (rule bootstrap_verifies)
      with l(2,3) show False by (simp add: verify_signed_trust_bundle_def Let_def split: if_splits)
    next
      fix t assume t: "t \<in> set (st_center_transitions s')" "ct_activation_epoch t < st_current_epoch s'"
      then have "verify_center_authority_transition c t (tf_bundle f) later = Inr ()" using ch(5) f(2) by simp
      moreover have "ct_activation_epoch t < tb_trust_epoch (sb_bundle (tf_bundle f))" using t(2) f(3) ch(1) by simp
      ultimately show False using transition_of_the_past by (metis sum.distinct(1))
    qed
  qed
qed

text \<open>
  A repeated install loses the predecessor: installing the bundle that is already served succeeds
  and makes it its own predecessor, so that nothing is left to return to.
\<close>

theorem reinstall_loses_predecessor:
  assumes "install c k w1 sb now1 sd = ((s1, d1), Inr status1)" "install c k w2 sb now2 (s1, d1) = ((s2, d2), Inr status2)"
  shows "st_lkg_bundle s1 = opt_or (st_bundle (fst sd)) (st_lkg_bundle (fst sd)) \<and> st_lkg_bundle s2 = Some sb \<and> st_bundle s2 = Some sb"
  using installed_state [OF assms(1)] installed_state [OF assms(2)] by (simp add: opt_or_def)

end
