(* ===== verification/Host_Enrollment.thy ===== *)
theory Host_Enrollment
  imports Trust_Store
begin

text \<open>
  How a host becomes part of a deployment (\<^verbatim>\<open>authority.rs\<close> and the enrolment commands of
  \<^verbatim>\<open>actium-node-supervisor/src/main.rs\<close>): the supervisor proves its key for a challenge of the centre,
  the centre answers with two signed envelopes, and the supervisor checks them against the trust
  bundle it serves, records the authorities that enrolled it and signs an acknowledgement.
\<close>

section \<open>Data\<close>

record signed_envelope =
  se_payload :: string
  se_signature :: string

record center_bundle =
  cb_issuer_id :: string
  cb_kid :: string
  cb_center_public_key :: string
  cb_issued_at :: u64
  cb_expires_at :: u64
  cb_binding_epoch :: u64
  cb_trust_bundle_digest :: "string option"

record authority_identity =
  ai_authority_id :: string
  ai_kind :: authority_kind
  ai_key_id :: string
  ai_public_key :: string
  ai_fingerprint :: string

record enrollment_package =
  ep_issuer_id :: string
  ep_kid :: string
  ep_host_installation_id :: string
  ep_enrollment_nonce :: string
  ep_node_public_key :: string
  ep_supervisor_public_key :: "string option"
  ep_client_id :: "string option"
  ep_organization_id :: string
  ep_site_id :: "string option"
  ep_host_id :: "string option"
  ep_deployment_id :: "string option"
  ep_binding_epoch :: u64
  ep_expires_at :: u64

record enrolled_authority =
  ea_center :: center_bundle
  ea_enrollment :: enrollment_package
  ea_center_identity :: "authority_identity option"
  ea_enrollment_identity :: "authority_identity option"

record host_binding =
  hb_source :: string
  hb_verified :: bool
  hb_client_id :: "string option"
  hb_organization_id :: string
  hb_site_id :: "string option"
  hb_host_id :: "string option"
  hb_host_installation_id :: string
  hb_deployment_id :: "string option"
  hb_binding_epoch :: u64
  hb_center_identity :: "authority_identity option"
  hb_enrollment_identity :: "authority_identity option"
  hb_center_key_id :: string
  hb_center_fingerprint :: string

record proof_claims =
  pc_schema_version :: u8
  pc_purpose :: string
  pc_ticket_hash :: string
  pc_client_id :: string
  pc_organization_id :: string
  pc_site_id :: string
  pc_host_id :: string
  pc_host_installation_id :: string
  pc_supervisor_public_key :: string
  pc_binding_epoch :: u64
  pc_nonce :: string
  pc_environment :: string
  pc_issued_at :: u64
  pc_expires_at :: u64

record ack_claims =
  ac_schema_version :: u8
  ac_purpose :: string
  ac_ticket_hash :: string
  ac_client_id :: string
  ac_organization_id :: string
  ac_site_id :: string
  ac_host_id :: string
  ac_host_installation_id :: string
  ac_supervisor_public_key :: string
  ac_supervisor_key_id :: string
  ac_binding_epoch :: u64
  ac_enrollment_nonce :: string
  ac_package_digest :: string
  ac_applied_at :: u64
  ac_status :: string

record enrollment_challenge =
  eh_schema_version :: u8
  eh_purpose :: string
  eh_ticket_hash :: string
  eh_client_id :: string
  eh_organization_id :: string
  eh_site_id :: string
  eh_host_id :: string
  eh_host_installation_id :: string
  eh_binding_epoch :: u64
  eh_nonce :: string
  eh_issued_at :: u64
  eh_expires_at :: u64
  eh_environment :: string

text \<open>The derived deserialisers of what travels in an envelope.\<close>

record enrollment_crates =
  ec_center :: "string \<Rightarrow> center_bundle option"
  ec_package :: "string \<Rightarrow> enrollment_package option"
  ec_proof :: "string \<Rightarrow> proof_claims option"
  ec_ack :: "string \<Rightarrow> ack_claims option"

text \<open>The claims as the supervisor writes them with \<open>json!\<close>.\<close>

definition proof_json :: "proof_claims \<Rightarrow> json" where
  "proof_json p = JObject
     [(''schemaVersion'', json_nat_word (pc_schema_version p)), (''purpose'', JString (pc_purpose p)),
      (''ticketHash'', JString (pc_ticket_hash p)), (''clientId'', JString (pc_client_id p)),
      (''organizationId'', JString (pc_organization_id p)), (''siteId'', JString (pc_site_id p)),
      (''hostId'', JString (pc_host_id p)), (''hostInstallationId'', JString (pc_host_installation_id p)),
      (''supervisorPublicKey'', JString (pc_supervisor_public_key p)),
      (''bindingEpoch'', json_nat_word (pc_binding_epoch p)), (''nonce'', JString (pc_nonce p)),
      (''environment'', JString (pc_environment p)), (''issuedAt'', json_nat_word (pc_issued_at p)),
      (''expiresAt'', json_nat_word (pc_expires_at p))]"

definition ack_json :: "ack_claims \<Rightarrow> json" where
  "ack_json a = JObject
     [(''schemaVersion'', json_nat_word (ac_schema_version a)), (''purpose'', JString (ac_purpose a)),
      (''ticketHash'', JString (ac_ticket_hash a)), (''clientId'', JString (ac_client_id a)),
      (''organizationId'', JString (ac_organization_id a)), (''siteId'', JString (ac_site_id a)),
      (''hostId'', JString (ac_host_id a)), (''hostInstallationId'', JString (ac_host_installation_id a)),
      (''supervisorPublicKey'', JString (ac_supervisor_public_key a)),
      (''supervisorKeyId'', JString (ac_supervisor_key_id a)),
      (''bindingEpoch'', json_nat_word (ac_binding_epoch a)), (''enrollmentNonce'', JString (ac_enrollment_nonce a)),
      (''packageDigest'', JString (ac_package_digest a)), (''appliedAt'', json_nat_word (ac_applied_at a)),
      (''status'', JString (ac_status a))]"

text \<open>A deserialiser reads what the canonical text of claims says.\<close>

definition reads_proof :: "trust_crypto \<Rightarrow> enrollment_crates \<Rightarrow> proof_claims \<Rightarrow> bool" where
  "reads_proof c k p \<longleftrightarrow> ec_proof k (canonical_json (tc_esc c) (proof_json p)) = Some p"

definition reads_ack :: "trust_crypto \<Rightarrow> enrollment_crates \<Rightarrow> ack_claims \<Rightarrow> bool" where
  "reads_ack c k a \<longleftrightarrow> ec_ack k (canonical_json (tc_esc c) (ack_json a)) = Some a"

section \<open>Identities\<close>

definition identity_from_descriptor :: "authority_kind \<Rightarrow> authority_descriptor \<Rightarrow> string + authority_identity" where
  "identity_from_descriptor expected_kind a =
     (if ad_kind a \<noteq> expected_kind then Inl ''AUTHORITY_KIND_MISMATCH''
      else if is_blank (ad_authority_id a) \<or> is_blank (ad_key_id a) \<or> is_blank (ad_public_key a) \<or> is_blank (ad_fingerprint a)
      then Inl ''AUTHORITY_IDENTITY_INVALID''
      else Inr \<lparr> ai_authority_id = ad_authority_id a, ai_kind = ad_kind a, ai_key_id = ad_key_id a,
        ai_public_key = ad_public_key a, ai_fingerprint = ad_fingerprint a \<rparr>)"

definition is_valid_for_role :: "authority_kind \<Rightarrow> authority_identity \<Rightarrow> bool" where
  "is_valid_for_role expected_kind i \<longleftrightarrow> ai_kind i = expected_kind \<and> \<not> is_blank (ai_authority_id i)
     \<and> \<not> is_blank (ai_key_id i) \<and> \<not> is_blank (ai_public_key i) \<and> \<not> is_blank (ai_fingerprint i)"

definition canonical_center_authority :: "enrolled_authority \<Rightarrow> string + authority_identity" where
  "canonical_center_authority e =
     res_bind (ok_or (ea_center_identity e) ''AUTHORITY_IDENTITY_UNAVAILABLE'') (\<lambda>i.
     if \<not> is_valid_for_role CenterAuthority i then Inl ''CENTER_AUTHORITY_IDENTITY_INVALID'' else Inr i)"

definition center_signing_public_key :: "enrolled_authority \<Rightarrow> string + string" where
  "center_signing_public_key e = res_bind (canonical_center_authority e) (\<lambda>i. Inr (ai_public_key i))"

definition host_binding_of :: "enrolled_authority \<Rightarrow> host_binding" where
  "host_binding_of e =
     (let center = ea_center_identity e; p = ea_enrollment e;
          role_center = (case center of Some i \<Rightarrow> if is_valid_for_role CenterAuthority i then Some i else None | None \<Rightarrow> None) in
      \<lparr> hb_source = ''enrollment_signed'',
        hb_verified = (is_some_and center (is_valid_for_role CenterAuthority)
          \<and> is_some_and (ea_enrollment_identity e) (is_valid_for_role EnrollmentAuthority)),
        hb_client_id = ep_client_id p, hb_organization_id = ep_organization_id p, hb_site_id = ep_site_id p,
        hb_host_id = ep_host_id p, hb_host_installation_id = ep_host_installation_id p,
        hb_deployment_id = ep_deployment_id p, hb_binding_epoch = ep_binding_epoch p, hb_center_identity = center,
        hb_enrollment_identity = ea_enrollment_identity e,
        hb_center_key_id = unwrap_or (map_option ai_key_id role_center) [],
        hb_center_fingerprint = unwrap_or (map_option ai_fingerprint role_center) [] \<rparr>)"

section \<open>Envelopes\<close>

definition center_public_key_fingerprint :: "trust_crypto \<Rightarrow> string \<Rightarrow> string + string" where
  "center_public_key_fingerprint c public_key =
     res_bind (ok_or (tc_b64_decode c public_key) ''AUTHORITY_KEY_INVALID'') (\<lambda>bytes.
     if length bytes \<noteq> 32 then Inl ''AUTHORITY_KEY_INVALID'' else Inr (fingerprint_for_raw c bytes))"

definition verify_authority_envelope :: "trust_crypto \<Rightarrow> string \<Rightarrow> signed_envelope \<Rightarrow> string + string" where
  "verify_authority_envelope c key e =
     res_bind (ok_or (tc_b64_decode c key) ''AUTHORITY_KEY_INVALID'') (\<lambda>raw.
     res_bind (fail_if (length raw \<noteq> 32 \<or> \<not> tc_key_ok c raw) ''AUTHORITY_KEY_INVALID'') (\<lambda>_.
     res_bind (ok_or (tc_b64_decode c (se_payload e)) ''AUTHORITY_ENVELOPE_INVALID'') (\<lambda>payload.
     res_bind (ok_or (tc_b64_decode c (se_signature e)) ''AUTHORITY_SIGNATURE_INVALID'') (\<lambda>sig.
     if \<not> tc_signature_ok c sig \<or> \<not> tc_verify c raw payload sig then Inl ''AUTHORITY_SIGNATURE_INVALID''
     else Inr payload))))"

definition decode_payload :: "trust_crypto \<Rightarrow> signed_envelope \<Rightarrow> string \<Rightarrow> string + string" where
  "decode_payload c e error = ok_or (tc_b64_decode c (se_payload e)) error"

definition envelope_json :: "signed_envelope \<Rightarrow> json" where
  "envelope_json e = JObject [(''payload'', JString (se_payload e)), (''signature'', JString (se_signature e))]"

definition signed_envelope_digest :: "trust_crypto \<Rightarrow> signed_envelope \<Rightarrow> string" where
  "signed_envelope_digest c e = hex_bytes (tc_sha c (canonical_json (tc_esc c) (envelope_json e)))"

section \<open>Enrolment\<close>

definition verify_enrollment_proof ::
  "trust_crypto \<Rightarrow> enrollment_crates \<Rightarrow> signed_envelope \<Rightarrow> string \<Rightarrow> proof_claims \<Rightarrow> u64 \<Rightarrow> string + unit" where
  "verify_enrollment_proof c k proof supervisor_public_key expected now =
     res_bind (verify_authority_envelope c supervisor_public_key proof) (\<lambda>payload.
     res_bind (ok_or (ec_proof k payload) ''ENROLLMENT_PROOF_INVALID'') (\<lambda>claims.
     res_bind (fail_if (claims \<noteq> expected) ''ENROLLMENT_PROOF_SCOPE_INVALID'') (\<lambda>_.
     res_bind (fail_if (pc_purpose claims \<noteq> ''HOST_ENROLL'') ''ENROLLMENT_PROOF_PURPOSE_INVALID'') (\<lambda>_.
     fail_if (pc_expires_at claims \<le> now \<or> now + 60 < pc_issued_at claims \<or> pc_issued_at claims + 300 < pc_expires_at claims)
       ''ENROLLMENT_PROOF_EXPIRED''))))"

text \<open>The checks that bind a package to the host that asked for it, and to the centre's bundle.\<close>

definition check_package ::
  "center_bundle \<Rightarrow> enrollment_package \<Rightarrow> string \<Rightarrow> string \<Rightarrow> string \<Rightarrow> string + unit" where
  "check_package center p expected_host expected_nonce node_public_key =
     (if ep_host_installation_id p \<noteq> expected_host \<or> ep_enrollment_nonce p \<noteq> expected_nonce
         \<or> ep_node_public_key p \<noteq> node_public_key
      then Inl ''ENROLLMENT_BINDING_MISMATCH''
      else fail_if (ep_binding_epoch p \<noteq> cb_binding_epoch center) ''ENROLLMENT_EPOCH_MISMATCH'')"

definition enroll_verified ::
  "trust_crypto \<Rightarrow> enrollment_crates \<Rightarrow> string \<Rightarrow> signed_envelope \<Rightarrow> signed_envelope \<Rightarrow> string \<Rightarrow> string \<Rightarrow> string \<Rightarrow> u64
    \<Rightarrow> string + enrolled_authority" where
  "enroll_verified c k root_public_key center_envelope enrollment_envelope expected_host expected_nonce node_public_key now =
     res_bind (verify_authority_envelope c root_public_key center_envelope) (\<lambda>center_payload.
     res_bind (ok_or (ec_center k center_payload) ''CENTER_BUNDLE_INVALID'') (\<lambda>center.
     res_bind (fail_if (cb_expires_at center \<le> now) ''CENTER_BUNDLE_EXPIRED'') (\<lambda>_.
     res_bind (verify_authority_envelope c (cb_center_public_key center) enrollment_envelope) (\<lambda>payload.
     res_bind (ok_or (ec_package k payload) ''ENROLLMENT_PACKAGE_INVALID'') (\<lambda>p.
     res_bind (fail_if (ep_issuer_id p \<noteq> cb_issuer_id center \<or> ep_kid p \<noteq> cb_kid center \<or> ep_expires_at p \<le> now)
       ''ENROLLMENT_UNTRUSTED_OR_EXPIRED'') (\<lambda>_.
     res_bind (check_package center p expected_host expected_nonce node_public_key) (\<lambda>_.
     Inr \<lparr> ea_center = center, ea_enrollment = p, ea_center_identity = None, ea_enrollment_identity = None \<rparr>)))))))"

definition enroll_with_proof ::
  "trust_crypto \<Rightarrow> enrollment_crates \<Rightarrow> string \<Rightarrow> signed_envelope \<Rightarrow> signed_envelope \<Rightarrow> signed_envelope \<Rightarrow> string \<Rightarrow> string
    \<Rightarrow> string \<Rightarrow> proof_claims \<Rightarrow> u64 \<Rightarrow> string + enrolled_authority" where
  "enroll_with_proof c k root_public_key center_envelope enrollment_envelope proof expected_host expected_nonce
     node_public_key expected_proof now =
     res_bind (verify_enrollment_proof c k proof node_public_key expected_proof now) (\<lambda>_.
     res_bind (enroll_verified c k root_public_key center_envelope enrollment_envelope expected_host expected_nonce
       node_public_key now) (\<lambda>enrolled.
     if is_some_and (ep_supervisor_public_key (ea_enrollment enrolled)) (\<lambda>key. key \<noteq> node_public_key)
     then Inl ''ENROLLMENT_PROOF_KEY_MISMATCH'' else Inr enrolled))"

text \<open>The authorities of the served bundle that a centre's bundle and a package may come from.\<close>

definition served_center :: "signed_trust_bundle \<Rightarrow> center_bundle \<Rightarrow> authority_descriptor option" where
  "served_center sb center = (case tb_center_authority (sb_bundle sb) of None \<Rightarrow> None
     | Some a \<Rightarrow> if ad_authority_id a = cb_issuer_id center \<and> ad_key_id a = cb_kid center
         \<and> ad_kind a = CenterAuthority \<and> ad_status a = Active then Some a else None)"

definition served_enroller :: "signed_trust_bundle \<Rightarrow> enrollment_package \<Rightarrow> authority_descriptor option" where
  "served_enroller sb p = find (\<lambda>a. ad_authority_id a = ep_issuer_id p \<and> ad_key_id a = ep_kid p
     \<and> ad_kind a = EnrollmentAuthority \<and> ad_status a = Active) (tb_enrollment_authorities (sb_bundle sb))"

definition enroll_with_trust_bundle ::
  "trust_crypto \<Rightarrow> enrollment_crates \<Rightarrow> signed_trust_bundle \<Rightarrow> signed_envelope \<Rightarrow> signed_envelope \<Rightarrow> signed_envelope
    \<Rightarrow> string \<Rightarrow> string \<Rightarrow> string \<Rightarrow> proof_claims \<Rightarrow> u64 \<Rightarrow> string + enrolled_authority" where
  "enroll_with_trust_bundle c k sb center_envelope enrollment_envelope proof expected_host expected_nonce
     node_public_key expected_proof now =
     res_bind (verify_enrollment_proof c k proof node_public_key expected_proof now) (\<lambda>_.
     res_bind (decode_payload c center_envelope ''CENTER_BUNDLE_INVALID'') (\<lambda>center_payload.
     res_bind (ok_or (ec_center k center_payload) ''CENTER_BUNDLE_INVALID'') (\<lambda>center.
     res_bind (fail_if (cb_expires_at center \<le> now) ''CENTER_BUNDLE_EXPIRED'') (\<lambda>_.
     res_bind (ok_or (served_center sb center) ''CENTER_AUTHORITY_UNTRUSTED'') (\<lambda>center_authority.
     res_bind (verify_authority_envelope c (ad_public_key center_authority) center_envelope) (\<lambda>_.
     res_bind (decode_payload c enrollment_envelope ''ENROLLMENT_PACKAGE_INVALID'') (\<lambda>payload.
     res_bind (ok_or (ec_package k payload) ''ENROLLMENT_PACKAGE_INVALID'') (\<lambda>p.
     res_bind (ok_or (served_enroller sb p) ''ENROLLMENT_AUTHORITY_UNTRUSTED'') (\<lambda>enroller.
     res_bind (verify_authority_envelope c (ad_public_key enroller) enrollment_envelope) (\<lambda>_.
     res_bind (fail_if (cb_center_public_key center \<noteq> ad_public_key enroller) ''ENROLLMENT_AUTHORITY_KEY_MISMATCH'') (\<lambda>_.
     res_bind (fail_if (ep_expires_at p \<le> now) ''ENROLLMENT_UNTRUSTED_OR_EXPIRED'') (\<lambda>_.
     res_bind (check_package center p expected_host expected_nonce node_public_key) (\<lambda>_.
     res_bind (fail_if (is_some_and (cb_trust_bundle_digest center) (\<lambda>d. trust_bundle_digest c (sb_bundle sb) \<noteq> d))
       ''ENROLLMENT_TRUST_BUNDLE_MISMATCH'') (\<lambda>_.
     res_bind (identity_from_descriptor CenterAuthority center_authority) (\<lambda>center_identity.
     res_bind (identity_from_descriptor EnrollmentAuthority enroller) (\<lambda>enrollment_identity.
     Inr \<lparr> ea_center = center, ea_enrollment = p, ea_center_identity = Some center_identity,
       ea_enrollment_identity = Some enrollment_identity \<rparr>))))))))))))))))"

definition verify_enrollment_ack ::
  "trust_crypto \<Rightarrow> enrollment_crates \<Rightarrow> signed_envelope \<Rightarrow> string \<Rightarrow> ack_claims \<Rightarrow> u64 \<Rightarrow> string + unit" where
  "verify_enrollment_ack c k ack supervisor_public_key expected now =
     res_bind (verify_authority_envelope c supervisor_public_key ack) (\<lambda>payload.
     res_bind (ok_or (ec_ack k payload) ''ENROLLMENT_ACK_INVALID'') (\<lambda>claims.
     res_bind (fail_if (claims \<noteq> expected) ''ENROLLMENT_ACK_SCOPE_INVALID'') (\<lambda>_.
     fail_if (ac_purpose claims \<noteq> ''HOST_ENROLL_ACK'' \<or> ac_status claims \<noteq> ''applied'' \<or> now + 60 < ac_applied_at claims)
       ''ENROLLMENT_ACK_INVALID'')))"

section \<open>The supervisor's commands\<close>

text \<open>The enrolment a host keeps, with the nonces and approvals it has used.\<close>

record enrollment_state =
  es_enrolled :: "enrolled_authority option"
  es_consumed_nonces :: "string list"
  es_consumed_jtis :: "string list"

definition enrollment_state_new :: enrollment_state where
  "enrollment_state_new = \<lparr> es_enrolled = None, es_consumed_nonces = [], es_consumed_jtis = [] \<rparr>"

text \<open>The signer of a host, by its secret.\<close>

definition signer_public_key :: "trust_crypto \<Rightarrow> string \<Rightarrow> string" where
  "signer_public_key c secret = tc_b64_encode c (tc_public c secret)"

definition signer_key_id :: "trust_crypto \<Rightarrow> string \<Rightarrow> string" where
  "signer_key_id c secret = fingerprint_for_raw c (tc_public c secret)"

definition sign_canonical_value :: "trust_crypto \<Rightarrow> string \<Rightarrow> json \<Rightarrow> string" where
  "sign_canonical_value c secret v = tc_b64_encode c (tc_sign c secret (canonical_json (tc_esc c) v))"

definition supervisor_envelope :: "trust_crypto \<Rightarrow> string \<Rightarrow> json \<Rightarrow> signed_envelope" where
  "supervisor_envelope c secret v = \<lparr> se_payload = tc_b64_encode c (canonical_json (tc_esc c) v),
     se_signature = sign_canonical_value c secret v \<rparr>"

definition claims_for :: "enrollment_challenge \<Rightarrow> string \<Rightarrow> proof_claims" where
  "claims_for h public_key = \<lparr> pc_schema_version = eh_schema_version h, pc_purpose = eh_purpose h,
     pc_ticket_hash = eh_ticket_hash h, pc_client_id = eh_client_id h, pc_organization_id = eh_organization_id h,
     pc_site_id = eh_site_id h, pc_host_id = eh_host_id h, pc_host_installation_id = eh_host_installation_id h,
     pc_supervisor_public_key = public_key, pc_binding_epoch = eh_binding_epoch h, pc_nonce = eh_nonce h,
     pc_environment = eh_environment h, pc_issued_at = eh_issued_at h, pc_expires_at = eh_expires_at h \<rparr>"

definition ticket_malformed :: "string \<Rightarrow> bool" where
  "ticket_malformed ticket \<longleftrightarrow> length ticket \<noteq> 47 \<or> take 4 ticket \<noteq> ''hen_''
     \<or> \<not> list_all (\<lambda>x. is_ascii_alphanumeric x \<or> x = CHR ''_'' \<or> x = CHR ''-'') (drop 4 ticket)"

definition challenge_invalid :: "enrollment_challenge \<Rightarrow> string \<Rightarrow> string \<Rightarrow> u64 \<Rightarrow> bool" where
  "challenge_invalid h ticket_hash installation now \<longleftrightarrow> eh_schema_version h \<noteq> 1 \<or> eh_purpose h \<noteq> ''HOST_ENROLL''
     \<or> eh_ticket_hash h \<noteq> ticket_hash \<or> eh_host_installation_id h \<noteq> installation \<or> eh_binding_epoch h = 0
     \<or> is_blank (eh_environment h) \<or> length (trim (eh_nonce h)) < 16 \<or> now + 60 < eh_issued_at h
     \<or> eh_expires_at h \<le> now \<or> eh_issued_at h + 300 < eh_expires_at h"

record proof_response =
  pr_proof :: signed_envelope
  pr_host_installation_id :: string
  pr_supervisor_public_key :: string
  pr_supervisor_key_id :: string
  pr_binding_epoch :: u64

text \<open>\<open>host\<close> is what loading the identity of the host gives: its installation, none, or an error.\<close>

definition enrollment_proof ::
  "trust_crypto \<Rightarrow> string \<Rightarrow> string + string option \<Rightarrow> string \<Rightarrow> enrollment_challenge \<Rightarrow> u64 \<Rightarrow> string + proof_response" where
  "enrollment_proof c secret host ticket_text h now =
     (let ticket = trim ticket_text in
      if ticket_malformed ticket then Inl ''HOST_ENROLLMENT_TICKET_INVALID''
      else res_bind host (\<lambda>loaded.
        res_bind (ok_or loaded ''ENROLLMENT_REQUIRED: identidad de host ausente'') (\<lambda>installation.
        if challenge_invalid h (hex_bytes (tc_sha c ticket)) installation now then Inl ''HOST_ENROLLMENT_CHALLENGE_INVALID''
        else Inr \<lparr> pr_proof = supervisor_envelope c secret (proof_json (claims_for h (signer_public_key c secret))),
          pr_host_installation_id = installation, pr_supervisor_public_key = signer_public_key c secret,
          pr_supervisor_key_id = signer_key_id c secret, pr_binding_epoch = eh_binding_epoch h \<rparr>)))"

record apply_request =
  ar_center_bundle :: signed_envelope
  ar_enrollment_package :: signed_envelope
  ar_enrollment_nonce :: string
  ar_node_public_key :: string
  ar_challenge :: enrollment_challenge
  ar_proof :: "signed_envelope option"

text \<open>
  What surrounds an application: the served bundle, the identity of the host, the clock when the
  package is checked and when it is acknowledged, and the outcome of reading and of writing the state.
\<close>

record apply_world =
  aw_bundle :: "signed_trust_bundle option"
  aw_host :: "string + string option"
  aw_now :: u64
  aw_applied_at :: u64
  aw_read :: "string + unit"
  aw_save :: "string + unit"

record ack_response =
  kr_ack :: signed_envelope
  kr_supervisor_public_key :: string
  kr_supervisor_key_id :: string
  kr_enrollment_nonce :: string
  kr_package_digest :: string
  kr_binding_epoch :: u64

definition ack_for :: "trust_crypto \<Rightarrow> string \<Rightarrow> proof_claims \<Rightarrow> string \<Rightarrow> string \<Rightarrow> u64 \<Rightarrow> ack_claims" where
  "ack_for c secret p enrollment_nonce digest applied_at = \<lparr> ac_schema_version = 1, ac_purpose = ''HOST_ENROLL_ACK'',
     ac_ticket_hash = pc_ticket_hash p, ac_client_id = pc_client_id p, ac_organization_id = pc_organization_id p,
     ac_site_id = pc_site_id p, ac_host_id = pc_host_id p, ac_host_installation_id = pc_host_installation_id p,
     ac_supervisor_public_key = signer_public_key c secret, ac_supervisor_key_id = signer_key_id c secret,
     ac_binding_epoch = pc_binding_epoch p, ac_enrollment_nonce = enrollment_nonce, ac_package_digest = digest,
     ac_applied_at = applied_at, ac_status = ''applied'' \<rparr>"

text \<open>What \<open>enrollment_apply\<close> checks before it reads the state: the served bundle and the proof.\<close>

definition read_application ::
  "trust_crypto \<Rightarrow> enrollment_crates \<Rightarrow> string \<Rightarrow> apply_world \<Rightarrow> apply_request
    \<Rightarrow> string + signed_trust_bundle \<times> string \<times> signed_envelope \<times> proof_claims" where
  "read_application c k secret w r =
     res_bind (ok_or (aw_bundle w) ''ENROLLMENT_REQUIRED: Trust Bundle no instalado'') (\<lambda>sb.
     res_bind (aw_host w) (\<lambda>loaded.
     res_bind (ok_or loaded ''ENROLLMENT_REQUIRED: identidad de host ausente'') (\<lambda>installation.
     res_bind (fail_if (ar_node_public_key r \<noteq> signer_public_key c secret
         \<or> eh_host_installation_id (ar_challenge r) \<noteq> installation)
       ''HOST_ENROLLMENT_SUPERVISOR_KEY_OR_HOST_MISMATCH'') (\<lambda>_.
     res_bind (ok_or (ar_proof r) ''HOST_ENROLLMENT_PROOF_REQUIRED'') (\<lambda>proof.
     res_bind (decode_payload c (ar_enrollment_package r) ''ENROLLMENT_PACKAGE_INVALID'') (\<lambda>payload.
     res_bind (ok_or (ec_package k payload) ''ENROLLMENT_PACKAGE_INVALID'') (\<lambda>p.
     res_bind (decode_payload c proof ''HOST_ENROLLMENT_PROOF_INVALID'') (\<lambda>proof_payload.
     res_bind (ok_or (ec_proof k proof_payload) ''HOST_ENROLLMENT_PROOF_INVALID'') (\<lambda>claims.
     if claims \<noteq> claims_for (ar_challenge r) (ar_node_public_key r) \<or> ep_enrollment_nonce p \<noteq> ar_enrollment_nonce r
       \<or> ep_node_public_key p \<noteq> ar_node_public_key r
     then Inl ''HOST_ENROLLMENT_PROOF_SCOPE_INVALID''
     else Inr (sb, installation, proof, claims))))))))))"

definition enrollment_apply ::
  "trust_crypto \<Rightarrow> enrollment_crates \<Rightarrow> string \<Rightarrow> apply_world \<Rightarrow> apply_request \<Rightarrow> enrollment_state
    \<Rightarrow> enrollment_state \<times> (string + ack_response)" where
  "enrollment_apply c k secret w r es =
     (case res_bind (read_application c k secret w r) (\<lambda>(sb, installation, proof, claims).
        res_bind (aw_read w) (\<lambda>_.
        res_bind (fail_if (es_enrolled es \<noteq> None \<or> ar_enrollment_nonce r \<in> set (es_consumed_nonces es)) ''ENROLLMENT_REPLAY'') (\<lambda>_.
        res_bind (enroll_with_trust_bundle c k sb (ar_center_bundle r) (ar_enrollment_package r) proof installation
          (ar_enrollment_nonce r) (ar_node_public_key r) claims (aw_now w)) (\<lambda>enrolled. Inr (claims, enrolled))))) of
        Inl e \<Rightarrow> (es, Inl e)
      | Inr (claims, enrolled) \<Rightarrow>
          let digest = signed_envelope_digest c (ar_enrollment_package r);
              ack = ack_for c secret claims (ar_enrollment_nonce r) digest (aw_applied_at w) in
          (case aw_save w of
             Inl e \<Rightarrow> (es, Inl e)
           | Inr _ \<Rightarrow> (es\<lparr>es_consumed_nonces := es_consumed_nonces es @ [ar_enrollment_nonce r], es_enrolled := Some enrolled\<rparr>,
               Inr \<lparr> kr_ack = supervisor_envelope c secret (ack_json ack), kr_supervisor_public_key = signer_public_key c secret,
                 kr_supervisor_key_id = signer_key_id c secret, kr_enrollment_nonce = ar_enrollment_nonce r,
                 kr_package_digest = digest, kr_binding_epoch = pc_binding_epoch claims \<rparr>)))"

section \<open>Envelopes of the supervisor\<close>

lemma supervisor_envelope_verifies:
  "crypto_ok c \<Longrightarrow> verify_authority_envelope c (signer_public_key c secret) (supervisor_envelope c secret v)
     = Inr (canonical_json (tc_esc c) v)"
  by (simp add: verify_authority_envelope_def supervisor_envelope_def signer_public_key_def sign_canonical_value_def crypto_ok_def)

lemma verify_envelope_payload:
  "verify_authority_envelope c key e = Inr payload \<Longrightarrow> tc_b64_decode c (se_payload e) = Some payload"
  by (auto simp: verify_authority_envelope_def result_simps split: if_splits)

lemma identity_from_descriptor_Inr [result_simps]:
  "identity_from_descriptor kind a = Inr i \<longleftrightarrow> ad_kind a = kind \<and> is_valid_for_role kind i
     \<and> i = \<lparr> ai_authority_id = ad_authority_id a, ai_kind = ad_kind a, ai_key_id = ad_key_id a,
        ai_public_key = ad_public_key a, ai_fingerprint = ad_fingerprint a \<rparr>"
  by (auto simp: identity_from_descriptor_def is_valid_for_role_def)

lemma served_center_Some:
  "served_center sb center = Some a \<longleftrightarrow> tb_center_authority (sb_bundle sb) = Some a \<and> ad_authority_id a = cb_issuer_id center
     \<and> ad_key_id a = cb_kid center \<and> ad_kind a = CenterAuthority \<and> ad_status a = Active"
  by (auto simp: served_center_def split: option.splits if_splits)

lemma served_enroller_Some:
  "served_enroller sb p = Some a \<Longrightarrow> a \<in> set (tb_enrollment_authorities (sb_bundle sb)) \<and> ad_authority_id a = ep_issuer_id p
     \<and> ad_key_id a = ep_kid p \<and> ad_kind a = EnrollmentAuthority \<and> ad_status a = Active"
  by (auto simp: served_enroller_def find_Some_iff)

section \<open>Who enrolled a host\<close>

text \<open>
  An enrolment is vouched for by a bundle: the centre of the bundle, active, signed the centre's
  bundle, an active enrolment authority of the bundle, the one the centre delegates to, signed the
  package, both are in force at the time, and the package is for this host, nonce and key.
\<close>

definition vouched ::
  "trust_crypto \<Rightarrow> enrollment_crates \<Rightarrow> signed_trust_bundle \<Rightarrow> signed_envelope \<Rightarrow> signed_envelope \<Rightarrow> string \<Rightarrow> string
    \<Rightarrow> string \<Rightarrow> u64 \<Rightarrow> enrolled_authority \<Rightarrow> bool" where
  "vouched c k sb center_env package_env installation nonce node_key now e \<longleftrightarrow>
     (\<exists>ca en cp pp. tb_center_authority (sb_bundle sb) = Some ca
       \<and> ad_kind ca = CenterAuthority \<and> ad_status ca = Active
       \<and> en \<in> set (tb_enrollment_authorities (sb_bundle sb)) \<and> ad_kind en = EnrollmentAuthority \<and> ad_status en = Active
       \<and> verify_authority_envelope c (ad_public_key ca) center_env = Inr cp \<and> ec_center k cp = Some (ea_center e)
       \<and> verify_authority_envelope c (ad_public_key en) package_env = Inr pp \<and> ec_package k pp = Some (ea_enrollment e)
       \<and> cb_center_public_key (ea_center e) = ad_public_key en
       \<and> now < cb_expires_at (ea_center e) \<and> now < ep_expires_at (ea_enrollment e)
       \<and> ep_host_installation_id (ea_enrollment e) = installation \<and> ep_enrollment_nonce (ea_enrollment e) = nonce
       \<and> ep_node_public_key (ea_enrollment e) = node_key
       \<and> ep_binding_epoch (ea_enrollment e) = cb_binding_epoch (ea_center e)
       \<and> (\<forall>d. cb_trust_bundle_digest (ea_center e) = Some d \<longrightarrow> d = trust_bundle_digest c (sb_bundle sb))
       \<and> (\<exists>i. ea_center_identity e = Some i \<and> is_valid_for_role CenterAuthority i
            \<and> ai_authority_id i = ad_authority_id ca \<and> ai_key_id i = ad_key_id ca
            \<and> ai_public_key i = ad_public_key ca \<and> ai_fingerprint i = ad_fingerprint ca)
       \<and> (\<exists>i. ea_enrollment_identity e = Some i \<and> is_valid_for_role EnrollmentAuthority i
            \<and> ai_authority_id i = ad_authority_id en \<and> ai_key_id i = ad_key_id en
            \<and> ai_public_key i = ad_public_key en \<and> ai_fingerprint i = ad_fingerprint en))"

lemma enrollment_vouched:
  assumes "enroll_with_trust_bundle c k sb center_env package_env proof installation nonce node_key expected now = Inr e"
  shows "vouched c k sb center_env package_env installation nonce node_key now e"
    and "verify_enrollment_proof c k proof node_key expected now = Inr ()"
proof -
  from assms obtain cp center ca cp' pp p en pp' ci ei where
    v: "verify_enrollment_proof c k proof node_key expected now = Inr ()"
    and center: "decode_payload c center_env ''CENTER_BUNDLE_INVALID'' = Inr cp" "ec_center k cp = Some center" "now < cb_expires_at center"
    and ca: "served_center sb center = Some ca" "verify_authority_envelope c (ad_public_key ca) center_env = Inr cp'"
    and package: "decode_payload c package_env ''ENROLLMENT_PACKAGE_INVALID'' = Inr pp" "ec_package k pp = Some p"
    and en: "served_enroller sb p = Some en" "verify_authority_envelope c (ad_public_key en) package_env = Inr pp'"
      "cb_center_public_key center = ad_public_key en" "now < ep_expires_at p"
    and bound: "check_package center p installation nonce node_key = Inr ()"
    and digest: "\<forall>d. cb_trust_bundle_digest center = Some d \<longrightarrow> trust_bundle_digest c (sb_bundle sb) = d"
    and ids: "identity_from_descriptor CenterAuthority ca = Inr ci" "identity_from_descriptor EnrollmentAuthority en = Inr ei"
    and e: "e = \<lparr> ea_center = center, ea_enrollment = p, ea_center_identity = Some ci, ea_enrollment_identity = Some ei \<rparr>"
    unfolding enroll_with_trust_bundle_def res_bind_Inr_iff fail_if_Inr ok_or_Inr is_some_and_iff not_le not_ex sum.inject
    by (elim exE conjE) (rule that, auto)
  show "verify_enrollment_proof c k proof node_key expected now = Inr ()" by (rule v)
  have "cp' = cp" "pp' = pp"
    using verify_envelope_payload [OF ca(2)] verify_envelope_payload [OF en(2)] center(1) package(1)
    by (simp_all add: decode_payload_def)
  then show "vouched c k sb center_env package_env installation nonce node_key now e"
    unfolding vouched_def e using ca en center package bound digest ids served_enroller_Some [OF en(1)]
    by (intro exI [of _ ca] exI [of _ en] exI [of _ cp] exI [of _ pp])
      (auto simp: served_center_Some check_package_def result_simps split: if_splits)
qed

lemma apply_cases:
  assumes "enrollment_apply c k secret w r es = (es', res)"
  obtains (refused) "es' = es" "isl res"
    | (enrolled) sb installation pf e where "aw_bundle w = Some sb" "aw_host w = Inr (Some installation)"
        "es_enrolled es = None" "ar_enrollment_nonce r \<notin> set (es_consumed_nonces es)"
        "ar_node_public_key r = signer_public_key c secret" "eh_host_installation_id (ar_challenge r) = installation"
        "enroll_with_trust_bundle c k sb (ar_center_bundle r) (ar_enrollment_package r) pf installation
          (ar_enrollment_nonce r) (ar_node_public_key r) (claims_for (ar_challenge r) (ar_node_public_key r)) (aw_now w) = Inr e"
        "es' = es\<lparr>es_consumed_nonces := es_consumed_nonces es @ [ar_enrollment_nonce r], es_enrolled := Some e\<rparr>"
        "res = Inr \<lparr> kr_ack = supervisor_envelope c secret (ack_json (ack_for c secret
            (claims_for (ar_challenge r) (ar_node_public_key r)) (ar_enrollment_nonce r)
            (signed_envelope_digest c (ar_enrollment_package r)) (aw_applied_at w))),
          kr_supervisor_public_key = signer_public_key c secret, kr_supervisor_key_id = signer_key_id c secret,
          kr_enrollment_nonce = ar_enrollment_nonce r, kr_package_digest = signed_envelope_digest c (ar_enrollment_package r),
          kr_binding_epoch = eh_binding_epoch (ar_challenge r) \<rparr>"
proof -
  let ?enrolled = "\<lambda>sb installation pf claims. res_bind (aw_read w) (\<lambda>_.
        res_bind (fail_if (es_enrolled es \<noteq> None \<or> ar_enrollment_nonce r \<in> set (es_consumed_nonces es)) ''ENROLLMENT_REPLAY'') (\<lambda>_.
        res_bind (enroll_with_trust_bundle c k sb (ar_center_bundle r) (ar_enrollment_package r) pf installation
          (ar_enrollment_nonce r) (ar_node_public_key r) claims (aw_now w)) (\<lambda>enrolled. Inr (claims, enrolled))))"
  show thesis
  proof (cases "read_application c k secret w r")
    case (Inl x)
    then show thesis using assms by (intro refused) (auto simp: enrollment_apply_def)
  next
    case (Inr q)
    obtain sb installation pf claims where q: "q = (sb, installation, pf, claims)" by (cases q) auto
    note read = Inr [unfolded q]
    then have parts: "aw_bundle w = Some sb" "aw_host w = Inr (Some installation)"
      "ar_node_public_key r = signer_public_key c secret" "eh_host_installation_id (ar_challenge r) = installation"
      "claims = claims_for (ar_challenge r) (ar_node_public_key r)"
      by (auto simp: read_application_def result_simps split: if_splits)
    show thesis
    proof (cases "?enrolled sb installation pf claims")
      case (Inl x)
      then show thesis using assms read by (intro refused) (auto simp: enrollment_apply_def)
    next
      case ok: (Inr y)
      then obtain e where y: "y = (claims, e)" and e: "es_enrolled es = None" "ar_enrollment_nonce r \<notin> set (es_consumed_nonces es)"
        "enroll_with_trust_bundle c k sb (ar_center_bundle r) (ar_enrollment_package r) pf installation
          (ar_enrollment_nonce r) (ar_node_public_key r) claims (aw_now w) = Inr e"
        by (auto simp: result_simps)
      show thesis
      proof (cases "aw_save w")
        case (Inl x)
        then show thesis using assms read ok by (intro refused) (auto simp: enrollment_apply_def y Let_def)
      next
        case (Inr u)
        show thesis
          by (rule enrolled [OF parts(1,2) e(1,2) parts(3,4) e(3) [unfolded parts(5)]])
            (use assms read ok Inr in \<open>simp_all add: enrollment_apply_def y Let_def parts(5)\<close>,
              simp_all add: claims_for_def)
      qed
    qed
  qed
qed

definition run_applications ::
  "trust_crypto \<Rightarrow> enrollment_crates \<Rightarrow> string \<Rightarrow> (apply_world \<times> apply_request) list \<Rightarrow> enrollment_state \<Rightarrow> enrollment_state" where
  "run_applications c k secret xs es = foldl (\<lambda>es (w, r). fst (enrollment_apply c k secret w r es)) es xs"

lemma enrolled_stays:
  "es_enrolled es = Some e \<Longrightarrow> fst (enrollment_apply c k secret w r es) = es"
  by (cases "enrollment_apply c k secret w r es") (auto elim: apply_cases)

lemma run_applications_enrolled: "es_enrolled es = Some e \<Longrightarrow> run_applications c k secret xs es = es"
  by (induction xs) (auto simp: run_applications_def enrolled_stays)

lemma run_applications_new:
  assumes "run_applications c k secret xs es = es'" "es_enrolled es = None" "es_consumed_nonces es = []" "es_enrolled es' = Some e"
  shows "\<exists>w r sb installation. (w, r) \<in> set xs \<and> aw_bundle w = Some sb \<and> aw_host w = Inr (Some installation)
     \<and> vouched c k sb (ar_center_bundle r) (ar_enrollment_package r) installation (ar_enrollment_nonce r)
         (signer_public_key c secret) (aw_now w) e
     \<and> es_consumed_nonces es' = [ar_enrollment_nonce r]"
  using assms
proof (induction xs arbitrary: es)
  case Nil
  then show ?case by (simp add: run_applications_def)
next
  case (Cons x xs)
  obtain w r where x: "x = (w, r)" by (cases x)
  obtain es1 res where a: "enrollment_apply c k secret w r es = (es1, res)" by (cases "enrollment_apply c k secret w r es")
  have rest: "run_applications c k secret xs es1 = es'" using Cons.prems(1) a by (simp add: run_applications_def x)
  from a show ?case
  proof (cases rule: apply_cases)
    case refused
    then show ?thesis using Cons.IH [OF rest] Cons.prems(2-4) by auto
  next
    case (enrolled sb installation pf e1)
    have "es' = es1" using rest run_applications_enrolled [of es1 e1] enrolled(8) by simp
    then have "e1 = e" "es_consumed_nonces es' = [ar_enrollment_nonce r]" using enrolled(8) Cons.prems(3,4) by auto
    then show ?thesis using enrolled enrollment_vouched(1) [OF enrolled(7)] x by auto
  qed
qed

section \<open>Properties\<close>

text \<open>
  C31. A host is enrolled once, by those its bundle names: whatever applications reach a new host,
  with reads and writes that fail, if it is enrolled then one of them was for its own key and
  installation and was vouched for by the centre and by the enrolment authority of the bundle it
  served at that time; one nonce was used, and no later application changes anything.
\<close>

theorem enrolled_once_and_vouched:
  assumes "run_applications c k secret xs enrollment_state_new = es" "es_enrolled es = Some e"
  shows "(\<exists>w r sb installation. (w, r) \<in> set xs \<and> aw_bundle w = Some sb \<and> aw_host w = Inr (Some installation)
       \<and> vouched c k sb (ar_center_bundle r) (ar_enrollment_package r) installation (ar_enrollment_nonce r)
         (signer_public_key c secret) (aw_now w) e
       \<and> es_consumed_nonces es = [ar_enrollment_nonce r])
     \<and> (\<forall>ys. run_applications c k secret ys es = es)"
  using run_applications_new [OF assms(1) _ _ assms(2)] run_applications_enrolled [OF assms(2)]
  by (simp add: enrollment_state_new_def)

text \<open>
  The proof of a supervisor is accepted: what it signs for a challenge passes the verification
  with its own key, for the claims of that challenge, until the challenge expires.
\<close>

theorem own_proof_is_accepted:
  assumes "crypto_ok c" "reads_proof c k (claims_for h (signer_public_key c secret))"
    and "enrollment_proof c secret host ticket h now = Inr resp"
    and "eh_issued_at h \<le> later + 60" "later < eh_expires_at h"
  shows "verify_enrollment_proof c k (pr_proof resp) (pr_supervisor_public_key resp)
    (claims_for h (pr_supervisor_public_key resp)) later = Inr ()"
proof -
  from assms(3) have resp: "pr_proof resp = supervisor_envelope c secret (proof_json (claims_for h (signer_public_key c secret)))"
      "pr_supervisor_public_key resp = signer_public_key c secret"
    and h: "eh_purpose h = ''HOST_ENROLL''" "eh_expires_at h \<le> eh_issued_at h + 300"
    by (auto simp: enrollment_proof_def Let_def result_simps challenge_invalid_def split: if_splits)
  show ?thesis
    using assms(1,2,4,5) h
    by (simp add: verify_enrollment_proof_def resp supervisor_envelope_verifies reads_proof_def)
      (simp add: claims_for_def fail_if_def not_le not_less)
qed

text \<open>
  C32. The acknowledgement is of the challenge, the binding is of the package: a successful
  application gives an acknowledgement that verifies for the client, organisation, site, host and
  epoch of the challenge, while the binding the host keeps has those of the package, and nothing
  compares them.
\<close>

theorem acknowledged_scope_is_the_challenge:
  assumes "crypto_ok c" "enrollment_apply c k secret w r es = (es', Inr resp)"
    and "reads_ack c k (ack_for c secret (claims_for (ar_challenge r) (signer_public_key c secret)) (ar_enrollment_nonce r)
        (kr_package_digest resp) (aw_applied_at w))"
    and "aw_applied_at w \<le> later + 60"
  shows "verify_enrollment_ack c k (kr_ack resp) (kr_supervisor_public_key resp)
      (ack_for c secret (claims_for (ar_challenge r) (signer_public_key c secret)) (ar_enrollment_nonce r)
        (kr_package_digest resp) (aw_applied_at w)) later = Inr ()
    \<and> (\<exists>e p payload. es_enrolled es' = Some e \<and> tc_b64_decode c (se_payload (ar_enrollment_package r)) = Some payload
        \<and> ec_package k payload = Some p \<and> hb_organization_id (host_binding_of e) = ep_organization_id p
        \<and> hb_client_id (host_binding_of e) = ep_client_id p \<and> hb_site_id (host_binding_of e) = ep_site_id p
        \<and> hb_host_id (host_binding_of e) = ep_host_id p \<and> hb_binding_epoch (host_binding_of e) = ep_binding_epoch p)"
  using assms(2)
proof (cases rule: apply_cases)
  case (enrolled sb installation pf e)
  from enrolled(7) obtain payload p where "tc_b64_decode c (se_payload (ar_enrollment_package r)) = Some payload"
    "ec_package k payload = Some p" "ea_enrollment e = p"
    by (auto simp: enroll_with_trust_bundle_def result_simps decode_payload_def)
  then show ?thesis using assms(1,3,4) enrolled
    by (auto simp: verify_enrollment_ack_def supervisor_envelope_verifies reads_ack_def host_binding_of_def Let_def)
      (simp add: ack_for_def fail_if_def)
qed simp

end
