(* ===== verification/Connectivity_Trust.thy ===== *)
theory Connectivity_Trust
  imports Host_Enrollment
begin

text \<open>
  Whether a host may be reached (\<^verbatim>\<open>canonical_scope.rs\<close>, \<^verbatim>\<open>connectivity_trust.rs\<close> and \<^verbatim>\<open>relay_trust.rs\<close>):
  the scope a binding gives, the trust that follows from the binding and the served bundle, and the
  signed snapshots of that trust which a relay verifies.
\<close>

section \<open>Scopes\<close>

definition canonical_scope_contract :: string where
  "canonical_scope_contract = ''actium.connectivity.canonical-scope.v1''"

record connectivity_scope =
  sp_contract :: string
  sp_client_id :: string
  sp_organization_id :: string
  sp_site_id :: string
  sp_host_id :: string
  sp_binding_epoch :: u64
  sp_policy_generation :: u64

record requested_scope =
  rs_client_id :: string
  rs_organization_id :: string
  rs_site_id :: string
  rs_host_id :: string
  rs_binding_epoch :: "u64 option"
  rs_policy_generation :: "u64 option"

definition required_id :: "string option \<Rightarrow> string \<Rightarrow> string + string" where
  "required_id value code = (let trimmed = unwrap_or (map_option trim value) [] in
     if trimmed = [] then Inl code else Inr trimmed)"

definition scope_from_binding :: "host_binding \<Rightarrow> u64 \<Rightarrow> string + connectivity_scope" where
  "scope_from_binding b policy_generation =
     (if \<not> hb_verified b then Inl ''SCOPE_UNRESOLVED''
      else res_bind (required_id (hb_client_id b) ''SCOPE_UNRESOLVED'') (\<lambda>client.
        res_bind (required_id (Some (hb_organization_id b)) ''SCOPE_UNRESOLVED'') (\<lambda>organization.
        res_bind (required_id (hb_site_id b) ''SCOPE_UNRESOLVED'') (\<lambda>site.
        res_bind (required_id (hb_host_id b) ''SCOPE_UNRESOLVED'') (\<lambda>host.
        Inr \<lparr> sp_contract = canonical_scope_contract, sp_client_id = client, sp_organization_id = organization,
          sp_site_id = site, sp_host_id = host, sp_binding_epoch = hb_binding_epoch b,
          sp_policy_generation = policy_generation \<rparr>)))))"

definition validate_scope :: "connectivity_scope \<Rightarrow> string + unit" where
  "validate_scope s =
     (if sp_contract s \<noteq> canonical_scope_contract then Inl ''SCOPE_UNRESOLVED''
      else res_bind (required_id (Some (sp_client_id s)) ''SCOPE_UNRESOLVED'') (\<lambda>_.
        res_bind (required_id (Some (sp_organization_id s)) ''SCOPE_UNRESOLVED'') (\<lambda>_.
        res_bind (required_id (Some (sp_site_id s)) ''SCOPE_UNRESOLVED'') (\<lambda>_.
        res_bind (required_id (Some (sp_host_id s)) ''SCOPE_UNRESOLVED'') (\<lambda>_. Inr ())))))"

definition matches_request :: "connectivity_scope \<Rightarrow> requested_scope \<Rightarrow> string + unit" where
  "matches_request s q =
     res_bind (validate_scope s) (\<lambda>_.
     if trim (rs_client_id q) \<noteq> sp_client_id s \<or> trim (rs_organization_id q) \<noteq> sp_organization_id s
       \<or> trim (rs_site_id q) \<noteq> sp_site_id s \<or> trim (rs_host_id q) \<noteq> sp_host_id s
     then Inl ''SCOPE_MISMATCH''
     else if is_some_and (rs_binding_epoch q) (\<lambda>e. e \<noteq> sp_binding_epoch s) then Inl ''BINDING_EPOCH_MISMATCH''
     else if is_some_and (rs_policy_generation q) (\<lambda>g. g \<noteq> sp_policy_generation s) then Inl ''CONFIGURATION_STALE''
     else Inr ())"

definition same_place :: "connectivity_scope \<Rightarrow> connectivity_scope \<Rightarrow> bool" where
  "same_place s t \<longleftrightarrow> sp_client_id s = sp_client_id t \<and> sp_organization_id s = sp_organization_id t
     \<and> sp_site_id s = sp_site_id t \<and> sp_host_id s = sp_host_id t"

definition isolates :: "connectivity_scope \<Rightarrow> connectivity_scope \<Rightarrow> string + unit" where
  "isolates s t = res_bind (validate_scope s) (\<lambda>_. res_bind (validate_scope t) (\<lambda>_.
     fail_if (\<not> same_place s t) ''SCOPE_MISMATCH''))"

section \<open>Trust of a host\<close>

datatype canonical_trust_state = TrustTrusted | TrustUntrusted | TrustUnknown

definition parse_trust_state :: "string \<Rightarrow> canonical_trust_state" where
  "parse_trust_state value = (let v = to_ascii_uppercase (trim value) in
     if v \<in> {''TRUSTED'', ''AUTHORIZED'', ''ENROLLED''} then TrustTrusted
     else if v \<in> {''UNTRUSTED'', ''UNAUTHORIZED'', ''REVOKED''} then TrustUntrusted
     else TrustUnknown)"

fun trust_state_text :: "canonical_trust_state \<Rightarrow> string" where
  "trust_state_text TrustTrusted = ''TRUSTED''"
| "trust_state_text TrustUntrusted = ''UNTRUSTED''"
| "trust_state_text TrustUnknown = ''UNKNOWN''"

text \<open>The policy generation of the file: its bytes may be unreadable, or no JSON (\<open>None\<close>).\<close>

definition file_policy_generation :: "json option \<Rightarrow> string + u64" where
  "file_policy_generation file =
     res_bind (ok_or file ''CONFIGURATION_UNAVAILABLE'') (\<lambda>v.
     case opt_or (json_get ''policyGeneration'' v) (json_get ''policy_generation'' v) of
       Some (JNumber n) \<Rightarrow> ok_or (as_u64 n) ''CONFIGURATION_UNAVAILABLE''
     | _ \<Rightarrow> Inl ''CONFIGURATION_UNAVAILABLE'')"

record trust_view =
  tv_ready :: bool
  tv_bundle_id :: "string option"
  tv_trust_epoch :: "u64 option"
  tv_expires_at :: "u64 option"
  tv_authorities :: "authority_descriptor list"
  tv_revocations :: "trust_revocation list"

definition view_of_bundle :: "signed_trust_bundle \<Rightarrow> trust_view" where
  "view_of_bundle sb = (let b = sb_bundle sb in
     \<lparr> tv_ready = True, tv_bundle_id = Some (tb_trust_bundle_id b), tv_trust_epoch = Some (tb_trust_epoch b),
       tv_expires_at = tb_expires_at b,
       tv_authorities = case_option [] (\<lambda>a. [a]) (tb_center_authority b) @ tb_predecessor_center_authorities b
         @ tb_enrollment_authorities b @ tb_product_signing_authorities b,
       tv_revocations = tb_revocations b \<rparr>)"

definition unavailable_view :: trust_view where
  "unavailable_view = \<lparr> tv_ready = False, tv_bundle_id = None, tv_trust_epoch = None, tv_expires_at = None,
     tv_authorities = [], tv_revocations = [] \<rparr>"

definition status_for :: "trust_view \<Rightarrow> string \<Rightarrow> authority_status option" where
  "status_for v key_id = (if revoked_key (tv_revocations v) key_id then Some Revoked
     else map_option ad_status (find (\<lambda>a. ad_key_id a = key_id) (tv_authorities v)))"

datatype authority_resolution = AuthorityValid | AuthorityUnknown | AuthorityUntrusted

definition same_identity :: "authority_kind \<Rightarrow> authority_identity \<Rightarrow> authority_descriptor \<Rightarrow> bool" where
  "same_identity kind i a \<longleftrightarrow> ad_kind a = kind \<and> ad_key_id a = ai_key_id i \<and> ad_public_key a = ai_public_key i
     \<and> ad_fingerprint a = ai_fingerprint i"

definition resolve_role_authority :: "trust_view \<Rightarrow> authority_identity option \<Rightarrow> authority_kind \<Rightarrow> authority_resolution" where
  "resolve_role_authority v identity kind =
     (case identity of None \<Rightarrow> AuthorityUnknown
      | Some i \<Rightarrow>
          if \<not> is_valid_for_role kind i then AuthorityUntrusted
          else if revoked_key (tv_revocations v) (ai_key_id i) then AuthorityUntrusted
          else let by_id = filter (\<lambda>a. ad_authority_id a = ai_authority_id i) (tv_authorities v);
                   exact = filter (same_identity kind i) by_id in
            case exact of
              [] \<Rightarrow>
                if list_ex (\<lambda>a. ad_kind a = kind \<or> ad_key_id a = ai_key_id i \<or> ad_fingerprint a = ai_fingerprint i) by_id
                  \<or> list_ex (\<lambda>a. ad_key_id a = ai_key_id i \<and> ad_fingerprint a = ai_fingerprint i) (tv_authorities v)
                then AuthorityUntrusted else AuthorityUnknown
            | [a] \<Rightarrow> if ad_status a = Active \<or> ad_status a = Rotating then AuthorityValid else AuthorityUntrusted
            | _ \<Rightarrow> AuthorityUnknown)"

record derived_trust =
  dt_trust_state :: canonical_trust_state
  dt_policy_generation :: u64
  dt_bundle_id :: "string option"
  dt_binding_epoch :: u64

text \<open>\<open>policy\<close> is what the provider of the policy generation returns.\<close>

definition evaluate_canonical_connectivity_trust ::
  "host_binding \<Rightarrow> trust_view \<Rightarrow> string + u64 \<Rightarrow> u64 option \<Rightarrow> u64 \<Rightarrow> string + derived_trust" where
  "evaluate_canonical_connectivity_trust b v policy expected_binding_epoch now =
     res_bind policy (\<lambda>policy_generation.
     if is_some_and expected_binding_epoch (\<lambda>e. e \<noteq> hb_binding_epoch b) then Inl ''BINDING_EPOCH_MISMATCH''
     else if \<not> tv_ready v \<or> is_blank (unwrap_or (tv_bundle_id v) []) then Inl ''TRUST_STORE_UNAVAILABLE''
     else Inr \<lparr> dt_trust_state =
         (if is_some_and (tv_expires_at v) (\<lambda>x. x < now) then TrustUntrusted
          else if \<not> hb_verified b then TrustUnknown
          else (case (resolve_role_authority v (hb_center_identity b) CenterAuthority,
                      resolve_role_authority v (hb_enrollment_identity b) EnrollmentAuthority) of
              (AuthorityValid, AuthorityValid) \<Rightarrow> TrustTrusted
            | (AuthorityUntrusted, _) \<Rightarrow> TrustUntrusted
            | (_, AuthorityUntrusted) \<Rightarrow> TrustUntrusted
            | _ \<Rightarrow> TrustUnknown)),
       dt_policy_generation = policy_generation, dt_bundle_id = tv_bundle_id v, dt_binding_epoch = hb_binding_epoch b \<rparr>)"

definition require_trusted_connectivity :: "derived_trust \<Rightarrow> string + unit" where
  "require_trusted_connectivity d = (case dt_trust_state d of
     TrustTrusted \<Rightarrow> Inr () | TrustUntrusted \<Rightarrow> Inl ''TRUST_REJECTED'' | TrustUnknown \<Rightarrow> Inl ''TRUST_UNKNOWN'')"

section \<open>When a host is trusted\<close>

text \<open>
  An authority in its role: the view has exactly one authority with the identity and the role, it is
  active or rotating, and its key is not revoked.
\<close>

definition role_in_force :: "trust_view \<Rightarrow> authority_identity option \<Rightarrow> authority_kind \<Rightarrow> bool" where
  "role_in_force v identity kind \<longleftrightarrow> (\<exists>i a. identity = Some i \<and> is_valid_for_role kind i
     \<and> \<not> revoked_key (tv_revocations v) (ai_key_id i)
     \<and> filter (\<lambda>a. ad_authority_id a = ai_authority_id i \<and> same_identity kind i a) (tv_authorities v) = [a]
     \<and> (ad_status a = Active \<or> ad_status a = Rotating))"

lemma role_valid_iff: "resolve_role_authority v identity kind = AuthorityValid \<longleftrightarrow> role_in_force v identity kind"
proof (cases identity)
  case (Some i)
  have f: "filter (same_identity kind i) (filter (\<lambda>a. ad_authority_id a = ai_authority_id i) (tv_authorities v))
      = filter (\<lambda>a. ad_authority_id a = ai_authority_id i \<and> same_identity kind i a) (tv_authorities v)"
    by simp
  show ?thesis unfolding Some resolve_role_authority_def role_in_force_def option.case Let_def f
    by (auto split: list.split if_splits)
qed (simp add: resolve_role_authority_def role_in_force_def)

lemma filter_key_distinct: "distinct (map f xs) \<Longrightarrow> x \<in> set xs \<Longrightarrow> f x = y \<Longrightarrow> filter (\<lambda>a. f a = y) xs = [x]"
proof (induction xs)
  case (Cons z zs)
  show ?case
  proof (cases "z = x")
    case True
    then have "filter (\<lambda>a. f a = y) zs = []" using Cons.prems by (auto simp: filter_empty_conv image_iff)
    with True Cons.prems show ?thesis by simp
  next
    case False
    then have "f z \<noteq> y" using Cons.prems by (auto simp: image_iff)
    with False Cons show ?thesis by simp
  qed
qed simp

lemma view_authorities_distinct:
  assumes "distinct (map ad_authority_id (bundle_authorities b))"
  shows "distinct (map ad_authority_id (tv_authorities (view_of_bundle (sb\<lparr>sb_bundle := b\<rparr>))))"
  using assms by (auto simp: view_of_bundle_def Let_def bundle_authorities_def)

lemma filter_conj_single: "filter P xs = [x] \<Longrightarrow> Q x \<Longrightarrow> filter (\<lambda>a. P a \<and> Q a) xs = [x]"
proof -
  assume "filter P xs = [x]" "Q x"
  then have "filter Q (filter P xs) = [x]" by simp
  then show ?thesis by (simp add: conj_commute)
qed

text \<open>An active authority of a verified bundle is in force in the view of that bundle.\<close>

lemma listed_in_force:
  assumes "acceptable_bundle c sb time epoch" "a \<in> set (tv_authorities (view_of_bundle sb))" "ad_status a = Active"
    and "is_valid_for_role (ad_kind a) i" "ai_authority_id i = ad_authority_id a" "ai_key_id i = ad_key_id a"
      "ai_public_key i = ad_public_key a" "ai_fingerprint i = ad_fingerprint a"
  shows "role_in_force (view_of_bundle sb) (Some i) (ad_kind a)"
proof -
  let ?b = "sb_bundle sb"
  have b: "distinct (map ad_authority_id (bundle_authorities ?b))"
    "\<forall>x \<in> set (bundle_authorities ?b). trusted c (bundle_authorities ?b) (tb_revocations ?b) time x"
    using assms(1) by (simp_all add: acceptable_bundle_def Let_def)
  have "distinct (map ad_authority_id (tv_authorities (view_of_bundle sb)))"
    using view_authorities_distinct [OF b(1), of sb] by simp
  then have "filter (\<lambda>x. ad_authority_id x = ai_authority_id i) (tv_authorities (view_of_bundle sb)) = [a]"
    by (rule filter_key_distinct) (simp_all add: assms(2,5))
  then have f: "filter (\<lambda>x. ad_authority_id x = ai_authority_id i \<and> same_identity (ad_kind a) i x)
      (tv_authorities (view_of_bundle sb)) = [a]"
    by (rule filter_conj_single) (simp add: same_identity_def assms(6-8))
  have "a \<in> set (bundle_authorities ?b)"
    using assms(2) by (auto simp: view_of_bundle_def Let_def bundle_authorities_def)
  then have "\<not> revoked_key (tb_revocations ?b) (ad_key_id a)"
    using b(2) trusted_in_force by (fastforce simp: descriptor_rejected_def)
  then show ?thesis using f assms(3,4,6) by (auto simp: role_in_force_def view_of_bundle_def Let_def)
qed

section \<open>Properties\<close>

text \<open>
  C33. A host is trusted exactly while its authorities are in force: the answer is trusted if and only
  if the policy has a generation, the epoch is the expected one, the bundle is there and not expired,
  the binding has evidence of both roles, and each of the two authorities is in force in the bundle.
\<close>

theorem trusted_connectivity_iff:
  "(\<exists>d. evaluate_canonical_connectivity_trust b v policy expected now = Inr d \<and> dt_trust_state d = TrustTrusted)
   \<longleftrightarrow> (\<exists>g. policy = Inr g) \<and> (\<forall>e. expected = Some e \<longrightarrow> e = hb_binding_epoch b) \<and> tv_ready v
      \<and> (\<exists>i. tv_bundle_id v = Some i \<and> \<not> is_blank i) \<and> (\<forall>x. tv_expires_at v = Some x \<longrightarrow> now \<le> x) \<and> hb_verified b
      \<and> role_in_force v (hb_center_identity b) CenterAuthority
      \<and> role_in_force v (hb_enrollment_identity b) EnrollmentAuthority"
proof -
  have blank: "is_blank (unwrap_or (tv_bundle_id v) []) \<longleftrightarrow> \<not> (\<exists>i. tv_bundle_id v = Some i \<and> \<not> is_blank i)"
    by (cases "tv_bundle_id v") simp_all
  show ?thesis
    unfolding evaluate_canonical_connectivity_trust_def role_valid_iff [symmetric] blank
    by (cases policy) (auto simp: result_simps not_less split: authority_resolution.splits if_splits)
qed

text \<open>
  C34. A host that is enrolled with a bundle is trusted with it: when a bundle that verified enrols a
  host, the evaluation of the binding against the same bundle answers trusted, with the epoch of the
  package, until the bundle expires.
\<close>

theorem enrolled_host_is_trusted:
  assumes "verify_signed_trust_bundle_with_bootstrap c sb verified_at epoch roots = Inr ()"
    and "enroll_with_trust_bundle c k sb center_env package_env pf installation nonce node_key expected now = Inr e"
    and "\<not> is_blank (tb_trust_bundle_id (sb_bundle sb))" "\<forall>v. tb_expires_at (sb_bundle sb) = Some v \<longrightarrow> later \<le> v"
  shows "\<exists>d. evaluate_canonical_connectivity_trust (host_binding_of e) (view_of_bundle sb) (Inr g)
      (Some (ep_binding_epoch (ea_enrollment e))) later = Inr d \<and> dt_trust_state d = TrustTrusted"
proof -
  have acc: "acceptable_bundle c sb verified_at epoch" by (rule accepted_bundle_anchored [OF assms(1)])
  from enrollment_vouched(1) [OF assms(2)] obtain ca en ci ei where
    ca: "tb_center_authority (sb_bundle sb) = Some ca" "ad_kind ca = CenterAuthority" "ad_status ca = Active"
      "ea_center_identity e = Some ci" "is_valid_for_role CenterAuthority ci" "ai_authority_id ci = ad_authority_id ca"
      "ai_key_id ci = ad_key_id ca" "ai_public_key ci = ad_public_key ca" "ai_fingerprint ci = ad_fingerprint ca"
    and en: "en \<in> set (tb_enrollment_authorities (sb_bundle sb))" "ad_kind en = EnrollmentAuthority" "ad_status en = Active"
      "ea_enrollment_identity e = Some ei" "is_valid_for_role EnrollmentAuthority ei" "ai_authority_id ei = ad_authority_id en"
      "ai_key_id ei = ad_key_id en" "ai_public_key ei = ad_public_key en" "ai_fingerprint ei = ad_fingerprint en"
    unfolding vouched_def by blast
  have c: "role_in_force (view_of_bundle sb) (Some ci) CenterAuthority"
    using listed_in_force [OF acc, of ca ci] ca by (simp add: view_of_bundle_def Let_def)
  have e: "role_in_force (view_of_bundle sb) (Some ei) EnrollmentAuthority"
    using listed_in_force [OF acc, of en ei] en by (simp add: view_of_bundle_def Let_def)
  have b: "hb_verified (host_binding_of e)" "hb_center_identity (host_binding_of e) = Some ci"
    "hb_enrollment_identity (host_binding_of e) = Some ei" "hb_binding_epoch (host_binding_of e) = ep_binding_epoch (ea_enrollment e)"
    using ca(4,5) en(4,5) by (simp_all add: host_binding_of_def Let_def)
  show ?thesis
    unfolding trusted_connectivity_iff using assms(3,4) b c e by (simp add: view_of_bundle_def Let_def)
qed

end
