(* ===== verification/Relay_Trust.thy ===== *)
theory Relay_Trust
  imports Connectivity_Trust
begin

text \<open>
  Snapshots of trust for relays (\<^verbatim>\<open>relay_trust.rs\<close>): a host signs what is trusted of it, and a relay
  verifies the snapshot with an issuer it trusts, within the validity and only once.
\<close>

section \<open>Snapshots\<close>

definition relay_snapshot_contract :: string where
  "relay_snapshot_contract = ''actium.connectivity.relay-trust-snapshot.v1''"

definition relay_snapshot_domain :: string where
  "relay_snapshot_domain = ''actium.connectivity.relay-trust-snapshot.v1''"

definition relay_snapshot_v2_contract :: string where
  "relay_snapshot_v2_contract = ''actium.connectivity.relay-trust-snapshot.v2''"

definition relay_snapshot_v2_domain :: string where
  "relay_snapshot_v2_domain = ''actium.connectivity.relay-trust-snapshot.v2''"

record relay_body =
  rb_contract :: string
  rb_snapshot_id :: string
  rb_relay_identity :: string
  rb_scope :: connectivity_scope
  rb_trust_state :: canonical_trust_state
  rb_binding_epoch :: u64
  rb_policy_generation :: u64
  rb_not_before :: u64
  rb_not_after :: u64
  rb_nonce :: string
  rb_issuer_public_identity :: string
  rb_issuer_key_id :: string
  rb_issuer_public_key :: string

record relay_snapshot =
  sn_body :: relay_body
  sn_payload_digest :: string
  sn_signature :: string

record subject_identity =
  su_key_id :: string
  su_public_key :: string
  su_fingerprint :: string

record snapshot_issuer =
  si_authority_id :: string
  si_key_id :: string
  si_public_key :: string
  si_fingerprint :: string

record relay_body_v2 =
  rv_contract :: string
  rv_snapshot_id :: string
  rv_relay_identity :: string
  rv_scope :: connectivity_scope
  rv_trust_state :: canonical_trust_state
  rv_binding_epoch :: u64
  rv_policy_generation :: u64
  rv_not_before :: u64
  rv_not_after :: u64
  rv_nonce :: string
  rv_subject :: subject_identity
  rv_issuer :: snapshot_issuer

record relay_snapshot_v2 =
  sw_body :: relay_body_v2
  sw_payload_digest :: string
  sw_signature :: string

record host_trust =
  ht_client_id :: string
  ht_organization_id :: string
  ht_site_id :: string
  ht_host_id :: string
  ht_key_id :: string
  ht_fingerprint :: string
  ht_public_key :: string
  ht_binding_epoch :: u64
  ht_policy_generation :: u64
  ht_trust_state :: canonical_trust_state
  ht_snapshot_id :: string

record relay_issuer =
  ri_key_id :: string
  ri_public_key :: string
  ri_public_identity :: string
  ri_purpose :: string
  ri_status :: string

record relay_issuer_v2 =
  rj_authority_id :: string
  rj_key_id :: string
  rj_public_key :: string
  rj_fingerprint :: string
  rj_purpose :: string
  rj_status :: string

definition scope_json :: "connectivity_scope \<Rightarrow> json" where
  "scope_json s = JObject
     [(''contract'', JString (sp_contract s)), (''clientId'', JString (sp_client_id s)),
      (''organizationId'', JString (sp_organization_id s)), (''siteId'', JString (sp_site_id s)),
      (''hostId'', JString (sp_host_id s)), (''bindingEpoch'', json_nat_word (sp_binding_epoch s)),
      (''policyGeneration'', json_nat_word (sp_policy_generation s))]"

definition relay_body_json :: "relay_body \<Rightarrow> json" where
  "relay_body_json b = JObject
     [(''contract'', JString (rb_contract b)), (''snapshotId'', JString (rb_snapshot_id b)),
      (''relayIdentity'', JString (rb_relay_identity b)), (''scope'', scope_json (rb_scope b)),
      (''trustState'', JString (trust_state_text (rb_trust_state b))),
      (''bindingEpoch'', json_nat_word (rb_binding_epoch b)),
      (''policyGeneration'', json_nat_word (rb_policy_generation b)),
      (''notBeforeUnix'', json_nat_word (rb_not_before b)), (''notAfterUnix'', json_nat_word (rb_not_after b)),
      (''nonce'', JString (rb_nonce b)), (''issuerPublicIdentity'', JString (rb_issuer_public_identity b)),
      (''issuerKeyId'', JString (rb_issuer_key_id b)), (''issuerPublicKey'', JString (rb_issuer_public_key b))]"

definition subject_json :: "subject_identity \<Rightarrow> json" where
  "subject_json i = JObject [(''keyId'', JString (su_key_id i)), (''publicKey'', JString (su_public_key i)),
     (''fingerprint'', JString (su_fingerprint i))]"

definition issuer_json :: "snapshot_issuer \<Rightarrow> json" where
  "issuer_json i = JObject [(''authorityId'', JString (si_authority_id i)), (''keyId'', JString (si_key_id i)),
     (''publicKey'', JString (si_public_key i)), (''fingerprint'', JString (si_fingerprint i))]"

definition relay_body_v2_json :: "relay_body_v2 \<Rightarrow> json" where
  "relay_body_v2_json b = JObject
     [(''contract'', JString (rv_contract b)), (''snapshotId'', JString (rv_snapshot_id b)),
      (''relayIdentity'', JString (rv_relay_identity b)), (''scope'', scope_json (rv_scope b)),
      (''trustState'', JString (trust_state_text (rv_trust_state b))),
      (''bindingEpoch'', json_nat_word (rv_binding_epoch b)),
      (''policyGeneration'', json_nat_word (rv_policy_generation b)),
      (''notBeforeUnix'', json_nat_word (rv_not_before b)), (''notAfterUnix'', json_nat_word (rv_not_after b)),
      (''nonce'', JString (rv_nonce b)), (''subjectHostIdentity'', subject_json (rv_subject b)),
      (''issuer'', issuer_json (rv_issuer b))]"

section \<open>Texts, digests and signatures\<close>

definition domain_separated_envelope :: "string \<Rightarrow> json \<Rightarrow> string + json" where
  "domain_separated_envelope domain payload =
     (if is_blank domain then Inl ''SIGNING_DOMAIN_REQUIRED''
      else Inr (JObject [(''domain'', JString domain), (''payload'', payload)]))"

definition domain_separated_canonical :: "trust_crypto \<Rightarrow> string \<Rightarrow> json \<Rightarrow> string + string" where
  "domain_separated_canonical c domain payload =
     res_bind (domain_separated_envelope domain payload) (\<lambda>v. Inr (canonical_json (tc_esc c) v))"

definition sign_domain_separated :: "trust_crypto \<Rightarrow> string \<Rightarrow> string \<Rightarrow> json \<Rightarrow> string + string" where
  "sign_domain_separated c secret domain payload =
     res_bind (domain_separated_envelope domain payload) (\<lambda>v. Inr (sign_canonical_value c secret v))"

definition snapshot_payload_digest :: "trust_crypto \<Rightarrow> relay_body \<Rightarrow> string" where
  "snapshot_payload_digest c b = fingerprint_for_raw c (canonical_json (tc_esc c) (relay_body_json b))"

definition snapshot_payload_digest_v2 :: "trust_crypto \<Rightarrow> relay_body_v2 \<Rightarrow> string" where
  "snapshot_payload_digest_v2 c b = fingerprint_for_raw c (canonical_json (tc_esc c) (relay_body_v2_json b))"

definition public_identity_from_key :: "trust_crypto \<Rightarrow> string \<Rightarrow> string + string" where
  "public_identity_from_key c public_key =
     res_bind (ok_or (tc_b64_decode c (trim public_key)) ''RELAY_TRUST_SNAPSHOT_ISSUER_KEY_INVALID'') (\<lambda>raw.
     if length raw \<noteq> 32 then Inl ''RELAY_TRUST_SNAPSHOT_ISSUER_KEY_INVALID'' else Inr (fingerprint_for_raw c raw))"

text \<open>The two versions differ in the domain and in the body that is signed.\<close>

definition verify_signature_in_domain :: "trust_crypto \<Rightarrow> string \<Rightarrow> json \<Rightarrow> string \<Rightarrow> string \<Rightarrow> string + unit" where
  "verify_signature_in_domain c domain payload signature public_key =
     res_bind (ok_or (tc_b64_decode c (trim public_key)) ''RELAY_TRUST_SNAPSHOT_ISSUER_KEY_INVALID'') (\<lambda>raw.
     res_bind (fail_if (length raw \<noteq> 32 \<or> \<not> tc_key_ok c raw) ''RELAY_TRUST_SNAPSHOT_ISSUER_KEY_INVALID'') (\<lambda>_.
     res_bind (domain_separated_canonical c domain payload) (\<lambda>text.
     res_bind (ok_or (tc_b64_decode c (trim signature)) ''RELAY_TRUST_SNAPSHOT_SIGNATURE_INVALID'') (\<lambda>sig.
     fail_if (\<not> tc_signature_ok c sig \<or> \<not> tc_verify c raw text sig) ''RELAY_TRUST_SNAPSHOT_SIGNATURE_INVALID''))))"

definition verify_snapshot_signature_with_key :: "trust_crypto \<Rightarrow> relay_snapshot \<Rightarrow> string \<Rightarrow> string + unit" where
  "verify_snapshot_signature_with_key c s public_key =
     verify_signature_in_domain c relay_snapshot_domain (relay_body_json (sn_body s)) (sn_signature s) public_key"

definition verify_snapshot_signature_v2 :: "trust_crypto \<Rightarrow> relay_snapshot_v2 \<Rightarrow> string \<Rightarrow> string + unit" where
  "verify_snapshot_signature_v2 c s public_key =
     verify_signature_in_domain c relay_snapshot_v2_domain (relay_body_v2_json (sw_body s)) (sw_signature s) public_key"

section \<open>Issuers\<close>

definition relay_snapshot_issuer_purpose :: string where
  "relay_snapshot_issuer_purpose = ''relay_trust_snapshot''"

text \<open>What an issuer's status allows.\<close>

definition issuer_status :: "string \<Rightarrow> 'a \<Rightarrow> string + 'a" where
  "issuer_status status issuer = (let s = to_ascii_uppercase status in
     if s \<in> {''ACTIVE'', ''TRUSTED''} then Inr issuer
     else if s \<in> {''REVOKED'', ''UNTRUSTED'', ''RETIRED''} then Inl ''RELAY_TRUST_SNAPSHOT_ISSUER_UNTRUSTED''
     else Inl ''RELAY_TRUST_SNAPSHOT_ISSUER_UNKNOWN'')"

definition memory_resolve :: "relay_issuer list \<Rightarrow> string \<Rightarrow> string + relay_issuer" where
  "memory_resolve known key_text = (let key_id = trim key_text in
     if key_id = [] then Inl ''RELAY_TRUST_SNAPSHOT_ISSUER_UNKNOWN''
     else case filter (\<lambda>i. ri_key_id i = key_id) known of
       [] \<Rightarrow> Inl ''RELAY_TRUST_SNAPSHOT_ISSUER_UNKNOWN''
     | [i] \<Rightarrow> if ri_purpose i \<noteq> relay_snapshot_issuer_purpose then Inl ''RELAY_TRUST_SNAPSHOT_ISSUER_PURPOSE_INVALID''
         else issuer_status (ri_status i) i
     | _ \<Rightarrow> Inl ''RELAY_TRUST_SNAPSHOT_ISSUER_AMBIGUOUS'')"

definition memory_resolve_v2 :: "relay_issuer_v2 list \<Rightarrow> string \<Rightarrow> string \<Rightarrow> string + relay_issuer_v2" where
  "memory_resolve_v2 known authority_text key_text = (let authority_id = trim authority_text; key_id = trim key_text in
     if authority_id = [] \<or> key_id = [] then Inl ''RELAY_TRUST_SNAPSHOT_ISSUER_UNKNOWN''
     else case filter (\<lambda>i. rj_authority_id i = authority_id \<and> rj_key_id i = key_id) known of
       [] \<Rightarrow> Inl ''RELAY_TRUST_SNAPSHOT_ISSUER_UNKNOWN''
     | [i] \<Rightarrow> if rj_purpose i \<noteq> relay_snapshot_issuer_purpose then Inl ''RELAY_TRUST_SNAPSHOT_ISSUER_PURPOSE_INVALID''
         else issuer_status (rj_status i) i
     | _ \<Rightarrow> Inl ''RELAY_TRUST_SNAPSHOT_ISSUER_AMBIGUOUS'')"

definition unavailable_resolve :: "string \<Rightarrow> string + relay_issuer" where
  "unavailable_resolve key_id = Inl ''RELAY_TRUST_SNAPSHOT_TRUST_UNAVAILABLE''"

definition unavailable_resolve_v2 :: "string \<Rightarrow> string \<Rightarrow> string + relay_issuer_v2" where
  "unavailable_resolve_v2 authority_id key_id = Inl ''RELAY_TRUST_SNAPSHOT_TRUST_UNAVAILABLE''"

text \<open>The authorities of the served bundle as issuers.\<close>

definition issuer_of :: "authority_descriptor \<Rightarrow> relay_issuer" where
  "issuer_of a = \<lparr> ri_key_id = ad_key_id a, ri_public_key = ad_public_key a, ri_public_identity = ad_fingerprint a,
     ri_purpose = relay_snapshot_issuer_purpose, ri_status = ''ACTIVE'' \<rparr>"

definition view_resolve :: "trust_view \<Rightarrow> string \<Rightarrow> string + relay_issuer" where
  "view_resolve v key_text =
     (if \<not> tv_ready v then Inl ''RELAY_TRUST_SNAPSHOT_TRUST_UNAVAILABLE''
      else let key_id = trim key_text in
        if key_id = [] then Inl ''RELAY_TRUST_SNAPSHOT_ISSUER_UNKNOWN''
        else if status_for v key_id = Some Revoked \<or> status_for v key_id = Some Retired
        then Inl ''RELAY_TRUST_SNAPSHOT_ISSUER_UNTRUSTED''
        else res_bind (ok_or (find (\<lambda>a. ad_key_id a = key_id) (tv_authorities v)) ''RELAY_TRUST_SNAPSHOT_ISSUER_UNKNOWN'') (\<lambda>a.
          if ad_status a = Active \<or> ad_status a = Rotating then Inr (issuer_of a)
          else Inl ''RELAY_TRUST_SNAPSHOT_ISSUER_UNTRUSTED''))"

section \<open>Publishing\<close>

record sign_intent =
  in_relay_identity :: string
  in_nonce :: string
  in_not_before :: u64
  in_not_after :: u64
  in_snapshot_id :: "string option"

text \<open>The checks of a body before it is signed, up to those that only the second version has.\<close>

definition check_publishable ::
  "string \<Rightarrow> string \<Rightarrow> connectivity_scope \<Rightarrow> string \<Rightarrow> string \<Rightarrow> string \<Rightarrow> u64 \<Rightarrow> u64 \<Rightarrow> u64 \<Rightarrow> u64 \<Rightarrow> string + unit" where
  "check_publishable expected_contract contract scope relay_identity snapshot_id nonce not_before not_after epoch generation =
     res_bind (validate_scope scope) (\<lambda>_.
     if contract \<noteq> expected_contract then Inl ''RELAY_TRUST_SNAPSHOT_CONTRACT_INVALID''
     else if is_blank relay_identity \<or> is_blank snapshot_id \<or> is_blank nonce then Inl ''RELAY_TRUST_SNAPSHOT_INVALID''
     else if not_after \<le> not_before then Inl ''RELAY_TRUST_SNAPSHOT_VALIDITY_INVALID''
     else fail_if (epoch \<noteq> sp_binding_epoch scope \<or> generation \<noteq> sp_policy_generation scope)
       ''RELAY_TRUST_SNAPSHOT_EPOCH_INVALID'')"

definition publish_relay_trust_snapshot :: "trust_crypto \<Rightarrow> string \<Rightarrow> relay_body \<Rightarrow> string + relay_snapshot" where
  "publish_relay_trust_snapshot c secret body =
     res_bind (check_publishable relay_snapshot_contract (rb_contract body) (rb_scope body) (rb_relay_identity body)
       (rb_snapshot_id body) (rb_nonce body) (rb_not_before body) (rb_not_after body) (rb_binding_epoch body)
       (rb_policy_generation body)) (\<lambda>_.
     res_bind (public_identity_from_key c (signer_public_key c secret)) (\<lambda>identity.
     let b = body\<lparr>rb_issuer_key_id := signer_key_id c secret, rb_issuer_public_key := signer_public_key c secret,
           rb_issuer_public_identity := identity\<rparr> in
     res_bind (sign_domain_separated c secret relay_snapshot_domain (relay_body_json b)) (\<lambda>signature.
     Inr \<lparr> sn_body = b, sn_payload_digest = snapshot_payload_digest c b, sn_signature = signature \<rparr>)))"

definition intent_snapshot_id :: "sign_intent \<Rightarrow> string" where
  "intent_snapshot_id i = (case in_snapshot_id i of
     Some s \<Rightarrow> if is_blank s then ''snap-'' @ in_nonce i else s
   | None \<Rightarrow> ''snap-'' @ in_nonce i)"

definition check_intent :: "sign_intent \<Rightarrow> u64 \<Rightarrow> string + unit" where
  "check_intent i now =
     (if is_blank (in_relay_identity i) \<or> is_blank (in_nonce i) then Inl ''RELAY_TRUST_SNAPSHOT_INTENT_INVALID''
      else fail_if (in_not_after i \<le> in_not_before i \<or> in_not_after i \<le> now) ''RELAY_TRUST_SNAPSHOT_VALIDITY_INVALID'')"

definition derive_relay_trust_snapshot ::
  "trust_crypto \<Rightarrow> string \<Rightarrow> host_binding \<Rightarrow> sign_intent \<Rightarrow> u64 \<Rightarrow> canonical_trust_state \<Rightarrow> u64 \<Rightarrow> string + relay_snapshot" where
  "derive_relay_trust_snapshot c secret b i policy_generation trust_state now =
     res_bind (scope_from_binding b policy_generation) (\<lambda>scope.
     res_bind (check_intent i now) (\<lambda>_.
     publish_relay_trust_snapshot c secret
       \<lparr> rb_contract = relay_snapshot_contract, rb_snapshot_id = intent_snapshot_id i,
         rb_relay_identity = trim (in_relay_identity i), rb_scope = scope, rb_trust_state = trust_state,
         rb_binding_epoch = hb_binding_epoch b, rb_policy_generation = policy_generation,
         rb_not_before = in_not_before i, rb_not_after = in_not_after i, rb_nonce = trim (in_nonce i),
         rb_issuer_public_identity = [], rb_issuer_key_id = [], rb_issuer_public_key = [] \<rparr>))"

definition validate_v2_body :: "trust_crypto \<Rightarrow> relay_body_v2 \<Rightarrow> string + unit" where
  "validate_v2_body c b =
     res_bind (check_publishable relay_snapshot_v2_contract (rv_contract b) (rv_scope b) (rv_relay_identity b)
       (rv_snapshot_id b) (rv_nonce b) (rv_not_before b) (rv_not_after b) (rv_binding_epoch b)
       (rv_policy_generation b)) (\<lambda>_.
     res_bind (fail_if (is_blank (su_key_id (rv_subject b)) \<or> is_blank (su_public_key (rv_subject b))
       \<or> is_blank (su_fingerprint (rv_subject b))) ''RELAY_TRUST_SNAPSHOT_SUBJECT_INVALID'') (\<lambda>_.
     res_bind (public_identity_from_key c (su_public_key (rv_subject b))) (\<lambda>subject.
     res_bind (fail_if (subject \<noteq> su_fingerprint (rv_subject b)) ''RELAY_TRUST_SNAPSHOT_SUBJECT_MISMATCH'') (\<lambda>_.
     res_bind (fail_if (is_blank (si_authority_id (rv_issuer b)) \<or> is_blank (si_key_id (rv_issuer b))
       \<or> is_blank (si_public_key (rv_issuer b)) \<or> is_blank (si_fingerprint (rv_issuer b)))
       ''RELAY_TRUST_SNAPSHOT_ISSUER_INVALID'') (\<lambda>_.
     res_bind (public_identity_from_key c (si_public_key (rv_issuer b))) (\<lambda>issuer.
     fail_if (issuer \<noteq> si_fingerprint (rv_issuer b)) ''RELAY_TRUST_SNAPSHOT_ISSUER_MISMATCH''))))))"

text \<open>A signer of the second version: its identity, and its signature of a body.\<close>

record snapshot_signer =
  sg_identity :: "string + snapshot_issuer"
  sg_sign :: "relay_body_v2 \<Rightarrow> string + string"

definition unavailable_signer :: snapshot_signer where
  "unavailable_signer = \<lparr> sg_identity = Inl ''RELAY_TRUST_SNAPSHOT_SIGNER_UNAVAILABLE'',
     sg_sign = (\<lambda>b. Inl ''RELAY_TRUST_SNAPSHOT_SIGNER_UNAVAILABLE'') \<rparr>"

definition publish_relay_trust_snapshot_v2 ::
  "trust_crypto \<Rightarrow> snapshot_signer \<Rightarrow> relay_body_v2 \<Rightarrow> string + relay_snapshot_v2" where
  "publish_relay_trust_snapshot_v2 c signer body =
     res_bind (sg_identity signer) (\<lambda>identity.
     let b = body\<lparr>rv_issuer := identity\<rparr> in
     res_bind (validate_v2_body c b) (\<lambda>_.
     res_bind (sg_sign signer b) (\<lambda>signature.
     Inr \<lparr> sw_body = b, sw_payload_digest = snapshot_payload_digest_v2 c b, sw_signature = signature \<rparr>)))"

text \<open>The identity a host signs with (\<^verbatim>\<open>host_identity_signing.rs\<close>).\<close>

definition public_key_fingerprint :: "trust_crypto \<Rightarrow> string \<Rightarrow> string + string" where
  "public_key_fingerprint c public_key =
     res_bind (ok_or (tc_b64_decode c public_key) ''HOST_IDENTITY_PUBLIC_KEY_INVALID'') (\<lambda>raw. Inr (hex_bytes (tc_sha c raw)))"

definition validate_signing_identity :: "trust_crypto \<Rightarrow> subject_identity \<Rightarrow> string + unit" where
  "validate_signing_identity c i =
     (if is_blank (su_key_id i) \<or> is_blank (su_public_key i) \<or> is_blank (su_fingerprint i)
      then Inl ''HOST_IDENTITY_SIGNER_NOT_AVAILABLE''
      else res_bind (public_key_fingerprint c (su_public_key i)) (\<lambda>fp.
        fail_if (trim (su_fingerprint i) \<noteq> ''sha256:'' @ fp) ''HOST_IDENTITY_FINGERPRINT_MISMATCH''))"

definition host_admission_signing_identity :: "trust_crypto \<Rightarrow> string \<Rightarrow> string + subject_identity" where
  "host_admission_signing_identity c secret =
     res_bind (public_key_fingerprint c (signer_public_key c secret)) (\<lambda>fp.
     let i = \<lparr> su_key_id = signer_key_id c secret, su_public_key = signer_public_key c secret,
           su_fingerprint = ''sha256:'' @ fp \<rparr> in
     res_bind (validate_signing_identity c i) (\<lambda>_. Inr i))"

definition derive_relay_trust_snapshot_v2 ::
  "trust_crypto \<Rightarrow> snapshot_signer \<Rightarrow> host_binding \<Rightarrow> string + subject_identity \<Rightarrow> sign_intent \<Rightarrow> u64
    \<Rightarrow> canonical_trust_state \<Rightarrow> u64 \<Rightarrow> string + relay_snapshot_v2" where
  "derive_relay_trust_snapshot_v2 c signer b host_identity i policy_generation trust_state now =
     res_bind (scope_from_binding b policy_generation) (\<lambda>scope.
     res_bind host_identity (\<lambda>subject.
     res_bind (validate_signing_identity c subject) (\<lambda>_.
     res_bind (check_intent i now) (\<lambda>_.
     publish_relay_trust_snapshot_v2 c signer
       \<lparr> rv_contract = relay_snapshot_v2_contract, rv_snapshot_id = intent_snapshot_id i,
         rv_relay_identity = trim (in_relay_identity i), rv_scope = scope, rv_trust_state = trust_state,
         rv_binding_epoch = hb_binding_epoch b, rv_policy_generation = policy_generation,
         rv_not_before = in_not_before i, rv_not_after = in_not_after i, rv_nonce = trim (in_nonce i),
         rv_subject = subject,
         rv_issuer = \<lparr> si_authority_id = [], si_key_id = [], si_public_key = [], si_fingerprint = [] \<rparr> \<rparr>))))"

section \<open>Verifying\<close>

text \<open>
  A verifier keeps the nonces it has seen. Its clock and the ends of the validity are added with the
  skew in 64 bits: a build without overflow checks wraps, one with them panics.
\<close>

definition check_window :: "u64 \<Rightarrow> u64 \<Rightarrow> u64 \<Rightarrow> u64 \<Rightarrow> string + unit" where
  "check_window skew now not_before not_after =
     (if now + skew < not_before then Inl ''RELAY_TRUST_SNAPSHOT_NOT_YET_VALID''
      else fail_if (not_after + skew < now) ''RELAY_TRUST_SNAPSHOT_STALE'')"

definition spend_nonce :: "string \<Rightarrow> canonical_trust_state \<Rightarrow> 'a \<Rightarrow> string set \<Rightarrow> string set \<times> (string + 'a)" where
  "spend_nonce nonce trust_state host seen =
     (if is_blank nonce then (seen, Inl ''RELAY_TRUST_SNAPSHOT_NONCE_INVALID'')
      else if nonce \<in> seen then (seen, Inl ''RELAY_TRUST_SNAPSHOT_NONCE_REPLAY'')
      else (insert nonce seen, (case trust_state of
          TrustTrusted \<Rightarrow> Inr host | TrustUnknown \<Rightarrow> Inl ''TRUST_UNKNOWN'' | TrustUntrusted \<Rightarrow> Inl ''TRUST_REJECTED'')))"

definition check_snapshot :: "trust_crypto \<Rightarrow> (string \<Rightarrow> string + relay_issuer) \<Rightarrow> relay_snapshot \<Rightarrow> string + unit" where
  "check_snapshot c resolve s = (let b = sn_body s in
     res_bind (validate_scope (rb_scope b)) (\<lambda>_.
     res_bind (fail_if (rb_contract b \<noteq> relay_snapshot_contract) ''RELAY_TRUST_SNAPSHOT_CONTRACT_INVALID'') (\<lambda>_.
     res_bind (fail_if (sn_payload_digest s \<noteq> snapshot_payload_digest c b) ''RELAY_TRUST_SNAPSHOT_DIGEST_MISMATCH'') (\<lambda>_.
     res_bind (resolve (rb_issuer_key_id b)) (\<lambda>i.
     res_bind (fail_if (ri_public_key i \<noteq> rb_issuer_public_key b \<or> ri_public_identity i \<noteq> rb_issuer_public_identity b
       \<or> ri_key_id i \<noteq> rb_issuer_key_id b) ''RELAY_TRUST_SNAPSHOT_ISSUER_MISMATCH'') (\<lambda>_.
     res_bind (public_identity_from_key c (ri_public_key i)) (\<lambda>identity.
     res_bind (fail_if (rb_issuer_public_identity b \<noteq> identity \<or> ri_public_identity i \<noteq> identity)
       ''RELAY_TRUST_SNAPSHOT_ISSUER_MISMATCH'') (\<lambda>_.
     verify_snapshot_signature_with_key c s (ri_public_key i)))))))))"

definition host_of_snapshot :: "relay_snapshot \<Rightarrow> host_trust" where
  "host_of_snapshot s = (let b = sn_body s in
     \<lparr> ht_client_id = sp_client_id (rb_scope b), ht_organization_id = sp_organization_id (rb_scope b),
       ht_site_id = sp_site_id (rb_scope b), ht_host_id = sp_host_id (rb_scope b), ht_key_id = rb_issuer_key_id b,
       ht_fingerprint = rb_issuer_public_identity b, ht_public_key = rb_issuer_public_key b,
       ht_binding_epoch = rb_binding_epoch b, ht_policy_generation = rb_policy_generation b,
       ht_trust_state = rb_trust_state b, ht_snapshot_id = rb_snapshot_id b \<rparr>)"

definition verify_snapshot ::
  "trust_crypto \<Rightarrow> (string \<Rightarrow> string + relay_issuer) \<Rightarrow> u64 \<Rightarrow> relay_snapshot \<Rightarrow> u64 \<Rightarrow> string set
    \<Rightarrow> string set \<times> (string + host_trust)" where
  "verify_snapshot c resolve skew s now seen =
     (case res_bind (check_snapshot c resolve s) (\<lambda>_.
          check_window skew now (rb_not_before (sn_body s)) (rb_not_after (sn_body s))) of
        Inl e \<Rightarrow> (seen, Inl e)
      | Inr _ \<Rightarrow> spend_nonce (rb_nonce (sn_body s)) (rb_trust_state (sn_body s)) (host_of_snapshot s) seen)"

definition check_snapshot_v2 ::
  "trust_crypto \<Rightarrow> (string \<Rightarrow> string \<Rightarrow> string + relay_issuer_v2) \<Rightarrow> relay_snapshot_v2 \<Rightarrow> string + unit" where
  "check_snapshot_v2 c resolve s = (let b = sw_body s; n = rv_issuer b in
     res_bind (validate_v2_body c b) (\<lambda>_.
     res_bind (fail_if (sw_payload_digest s \<noteq> snapshot_payload_digest_v2 c b) ''RELAY_TRUST_SNAPSHOT_DIGEST_MISMATCH'') (\<lambda>_.
     res_bind (resolve (si_authority_id n) (si_key_id n)) (\<lambda>i.
     res_bind (fail_if (rj_authority_id i \<noteq> si_authority_id n \<or> rj_key_id i \<noteq> si_key_id n
       \<or> rj_public_key i \<noteq> si_public_key n \<or> rj_fingerprint i \<noteq> si_fingerprint n)
       ''RELAY_TRUST_SNAPSHOT_ISSUER_MISMATCH'') (\<lambda>_.
     res_bind (public_identity_from_key c (rj_public_key i)) (\<lambda>identity.
     res_bind (fail_if (identity \<noteq> rj_fingerprint i) ''RELAY_TRUST_SNAPSHOT_ISSUER_MISMATCH'') (\<lambda>_.
     verify_snapshot_signature_v2 c s (rj_public_key i))))))))"

definition host_of_snapshot_v2 :: "relay_snapshot_v2 \<Rightarrow> host_trust" where
  "host_of_snapshot_v2 s = (let b = sw_body s in
     \<lparr> ht_client_id = sp_client_id (rv_scope b), ht_organization_id = sp_organization_id (rv_scope b),
       ht_site_id = sp_site_id (rv_scope b), ht_host_id = sp_host_id (rv_scope b), ht_key_id = su_key_id (rv_subject b),
       ht_fingerprint = su_fingerprint (rv_subject b), ht_public_key = su_public_key (rv_subject b),
       ht_binding_epoch = rv_binding_epoch b, ht_policy_generation = rv_policy_generation b,
       ht_trust_state = rv_trust_state b, ht_snapshot_id = rv_snapshot_id b \<rparr>)"

definition verify_snapshot_v2 ::
  "trust_crypto \<Rightarrow> (string \<Rightarrow> string \<Rightarrow> string + relay_issuer_v2) \<Rightarrow> u64 \<Rightarrow> relay_snapshot_v2 \<Rightarrow> u64 \<Rightarrow> string set
    \<Rightarrow> string set \<times> (string + host_trust)" where
  "verify_snapshot_v2 c resolve skew s now seen =
     (case res_bind (check_snapshot_v2 c resolve s) (\<lambda>_.
          check_window skew now (rv_not_before (sw_body s)) (rv_not_after (sw_body s))) of
        Inl e \<Rightarrow> (seen, Inl e)
      | Inr _ \<Rightarrow> spend_nonce (rv_nonce (sw_body s)) (rv_trust_state (sw_body s)) (host_of_snapshot_v2 s) seen)"

section \<open>Providers\<close>

definition same_host :: "host_trust \<Rightarrow> host_trust \<Rightarrow> bool" where
  "same_host x y \<longleftrightarrow> ht_client_id x = ht_client_id y \<and> ht_organization_id x = ht_organization_id y
     \<and> ht_site_id x = ht_site_id y \<and> ht_host_id x = ht_host_id y"

text \<open>From snapshots that are taken as verified; only their scopes are checked.\<close>

fun collect_hosts :: "host_trust list \<Rightarrow> relay_snapshot list \<Rightarrow> string + host_trust list" where
  "collect_hosts hosts [] = Inr hosts"
| "collect_hosts hosts (s # ss) =
     res_bind (validate_scope (rb_scope (sn_body s))) (\<lambda>_.
     let host = host_of_snapshot s in
     if list_ex (\<lambda>x. same_host x host) hosts then Inl ''R3_CLIENT_SCOPE_RESOLUTION_AMBIGUOUS''
     else collect_hosts (hosts @ [host]) ss)"

definition from_verified_snapshots :: "relay_snapshot list \<Rightarrow> string + host_trust list" where
  "from_verified_snapshots ss = collect_hosts [] ss"

definition max_clock_skew :: u64 where
  "max_clock_skew = 60"

fun verify_all_v2 ::
  "trust_crypto \<Rightarrow> (string \<Rightarrow> string \<Rightarrow> string + relay_issuer_v2) \<Rightarrow> u64 \<Rightarrow> string set \<Rightarrow> relay_snapshot_v2 list
    \<Rightarrow> string + host_trust list" where
  "verify_all_v2 c resolve now seen [] = Inr []"
| "verify_all_v2 c resolve now seen (s # ss) =
     (case verify_snapshot_v2 c resolve max_clock_skew s now seen of
        (seen', Inl e) \<Rightarrow> Inl e
      | (seen', Inr h) \<Rightarrow> res_bind (verify_all_v2 c resolve now seen' ss) (\<lambda>hs. Inr (h # hs)))"

fun hosts_ambiguous :: "host_trust list \<Rightarrow> host_trust list \<Rightarrow> bool" where
  "hosts_ambiguous before [] = False"
| "hosts_ambiguous before (h # hs) = (list_ex (\<lambda>x. same_host x h) before \<or> hosts_ambiguous (before @ [h]) hs)"

definition from_snapshots_v2 ::
  "trust_crypto \<Rightarrow> (string \<Rightarrow> string \<Rightarrow> string + relay_issuer_v2) \<Rightarrow> u64 \<Rightarrow> relay_snapshot_v2 list \<Rightarrow> string + host_trust list" where
  "from_snapshots_v2 c resolve now ss =
     res_bind (verify_all_v2 c resolve now {} ss) (\<lambda>hosts.
     if hosts_ambiguous [] hosts then Inl ''R3_CLIENT_SCOPE_RESOLUTION_AMBIGUOUS'' else Inr hosts)"

definition in_scope :: "connectivity_scope \<Rightarrow> host_trust \<Rightarrow> bool" where
  "in_scope s h \<longleftrightarrow> ht_client_id h = sp_client_id s \<and> ht_organization_id h = sp_organization_id s
     \<and> ht_site_id h = sp_site_id s \<and> ht_host_id h = sp_host_id s"

definition resolve_canonical_host_scope :: "host_trust list \<Rightarrow> connectivity_scope \<Rightarrow> string + host_trust option" where
  "resolve_canonical_host_scope hosts s =
     res_bind (validate_scope s) (\<lambda>_. case filter (in_scope s) hosts of
       [] \<Rightarrow> Inr None | [h] \<Rightarrow> Inr (Some h) | _ \<Rightarrow> Inl ''R3_CLIENT_SCOPE_RESOLUTION_AMBIGUOUS'')"

section \<open>What a verifier accepts\<close>

lemma check_snapshot_Inr:
  assumes "check_snapshot c resolve s = Inr ()"
  obtains i where "resolve (rb_issuer_key_id (sn_body s)) = Inr i" "ri_key_id i = rb_issuer_key_id (sn_body s)"
    "ri_public_key i = rb_issuer_public_key (sn_body s)" "verify_snapshot_signature_with_key c s (ri_public_key i) = Inr ()"
  using assms by (auto simp: check_snapshot_def Let_def result_simps)

lemma spend_nonce_Inr:
  "spend_nonce nonce state host seen = (seen', Inr h) \<longleftrightarrow>
     \<not> is_blank nonce \<and> nonce \<notin> seen \<and> seen' = insert nonce seen \<and> state = TrustTrusted \<and> h = host"
  by (auto simp: spend_nonce_def split: canonical_trust_state.splits if_splits)

lemma spend_nonce_grows: "spend_nonce nonce state host seen = (seen', r) \<Longrightarrow> seen \<subseteq> seen'"
  by (auto simp: spend_nonce_def split: if_splits)

lemma verify_snapshot_Inr:
  "verify_snapshot c resolve skew s now seen = (seen', Inr h) \<longleftrightarrow> check_snapshot c resolve s = Inr ()
     \<and> rb_not_before (sn_body s) \<le> now + skew \<and> now \<le> rb_not_after (sn_body s) + skew
     \<and> \<not> is_blank (rb_nonce (sn_body s)) \<and> rb_nonce (sn_body s) \<notin> seen \<and> seen' = insert (rb_nonce (sn_body s)) seen
     \<and> rb_trust_state (sn_body s) = TrustTrusted \<and> h = host_of_snapshot s"
  by (cases "check_snapshot c resolve s")
    (auto simp: verify_snapshot_def check_window_def fail_if_def spend_nonce_Inr not_less split: sum.splits)

lemma verify_snapshot_v2_Inr:
  "verify_snapshot_v2 c resolve skew s now seen = (seen', Inr h) \<longleftrightarrow> check_snapshot_v2 c resolve s = Inr ()
     \<and> rv_not_before (sw_body s) \<le> now + skew \<and> now \<le> rv_not_after (sw_body s) + skew
     \<and> \<not> is_blank (rv_nonce (sw_body s)) \<and> rv_nonce (sw_body s) \<notin> seen \<and> seen' = insert (rv_nonce (sw_body s)) seen
     \<and> rv_trust_state (sw_body s) = TrustTrusted \<and> h = host_of_snapshot_v2 s"
  by (cases "check_snapshot_v2 c resolve s")
    (auto simp: verify_snapshot_v2_def check_window_def fail_if_def spend_nonce_Inr not_less split: sum.splits)

lemma verify_snapshot_grows: "verify_snapshot c resolve skew s now seen = (seen', r) \<Longrightarrow> seen \<subseteq> seen'"
  by (auto simp: verify_snapshot_def split: sum.splits dest: spend_nonce_grows)

fun run_verifier ::
  "trust_crypto \<Rightarrow> (string \<Rightarrow> string + relay_issuer) \<Rightarrow> u64 \<Rightarrow> string set \<Rightarrow> (relay_snapshot \<times> u64) list
    \<Rightarrow> ((relay_snapshot \<times> u64) \<times> (string + host_trust)) list" where
  "run_verifier c resolve skew seen [] = []"
| "run_verifier c resolve skew seen ((s, now) # xs) =
     (case verify_snapshot c resolve skew s now seen of
        (seen', r) \<Rightarrow> ((s, now), r) # run_verifier c resolve skew seen' xs)"

definition accepted_nonces :: "((relay_snapshot \<times> u64) \<times> (string + host_trust)) list \<Rightarrow> string list" where
  "accepted_nonces rs = map (\<lambda>((s, now), r). rb_nonce (sn_body s)) (filter (\<lambda>(x, r). \<not> isl r) rs)"

lemma run_verifier_nonces:
  "distinct (accepted_nonces (run_verifier c resolve skew seen xs))
   \<and> set (accepted_nonces (run_verifier c resolve skew seen xs)) \<inter> seen = {}"
proof (induction xs arbitrary: seen)
  case (Cons x xs)
  obtain s now where x: "x = (s, now)" by (cases x)
  obtain seen' r where v: "verify_snapshot c resolve skew s now seen = (seen', r)" by fastforce
  note rest = Cons.IH [of seen']
  show ?case
  proof (cases r)
    case (Inl e)
    then show ?thesis using rest verify_snapshot_grows [OF v] by (auto simp: x v accepted_nonces_def)
  next
    case (Inr h)
    then have "rb_nonce (sn_body s) \<notin> seen" "seen' = insert (rb_nonce (sn_body s)) seen"
      using v by (auto simp: verify_snapshot_Inr)
    then show ?thesis using rest Inr by (auto simp: x v accepted_nonces_def)
  qed
qed (simp add: accepted_nonces_def)

lemma run_verifier_accepted:
  "((s, now), Inr h) \<in> set (run_verifier c resolve skew seen xs) \<Longrightarrow>
     (s, now) \<in> set xs \<and> (\<exists>before seen'. verify_snapshot c resolve skew s now before = (seen', Inr h))"
proof (induction xs arbitrary: seen)
  case (Cons x xs)
  obtain s' now' where x: "x = (s', now')" by (cases x)
  obtain seen' r where v: "verify_snapshot c resolve skew s' now' seen = (seen', r)" by fastforce
  from Cons.prems have "s = s' \<and> now = now' \<and> Inr h = r \<or> ((s, now), Inr h) \<in> set (run_verifier c resolve skew seen' xs)"
    by (simp add: x v)
  then show ?case
  proof
    assume "s = s' \<and> now = now' \<and> Inr h = r"
    then show ?thesis using v by (auto simp: x)
  next
    assume "((s, now), Inr h) \<in> set (run_verifier c resolve skew seen' xs)"
    from Cons.IH [OF this] show ?thesis by simp
  qed
qed simp

text \<open>
  The contract of a provider of issuers: whatever it resolves is one of its issuers, has the key that
  was asked for, the purpose, and is in force.
\<close>

locale issuer_resolver =
  fixes resolve :: "string \<Rightarrow> string + relay_issuer" and listed :: "relay_issuer \<Rightarrow> bool"
  assumes resolved: "resolve k = Inr i \<Longrightarrow> listed i \<and> ri_key_id i = trim k \<and> ri_purpose i = relay_snapshot_issuer_purpose
    \<and> to_ascii_uppercase (ri_status i) \<in> {''ACTIVE'', ''TRUSTED''}"
begin

lemma accepted_by_listed:
  assumes "verify_snapshot c resolve skew s now seen = (seen', Inr h)"
  shows "\<exists>i. listed i \<and> ri_purpose i = relay_snapshot_issuer_purpose \<and> ri_key_id i = rb_issuer_key_id (sn_body s)
    \<and> verify_snapshot_signature_with_key c s (ri_public_key i) = Inr ()"
proof -
  from assms have "check_snapshot c resolve s = Inr ()" by (simp add: verify_snapshot_Inr)
  then show ?thesis by (rule check_snapshot_Inr) (use resolved in blast)
qed

lemma run_accepts_listed:
  assumes "((s, now), Inr h) \<in> set (run_verifier c resolve skew seen xs)"
  shows "(\<exists>i. listed i \<and> ri_key_id i = rb_issuer_key_id (sn_body s)
      \<and> verify_snapshot_signature_with_key c s (ri_public_key i) = Inr ())
    \<and> rb_not_before (sn_body s) \<le> now + skew \<and> now \<le> rb_not_after (sn_body s) + skew
    \<and> rb_trust_state (sn_body s) = TrustTrusted \<and> h = host_of_snapshot s"
proof -
  from run_verifier_accepted [OF assms] obtain before seen' where
    v: "verify_snapshot c resolve skew s now before = (seen', Inr h)" by blast
  from accepted_by_listed [OF v] v show ?thesis by (auto simp: verify_snapshot_Inr)
qed

end

lemma issuer_status_Inr: "issuer_status status x = Inr y \<longleftrightarrow> to_ascii_uppercase status \<in> {''ACTIVE'', ''TRUSTED''} \<and> y = x"
  by (auto simp: issuer_status_def Let_def)

interpretation memory: issuer_resolver "memory_resolve known" "\<lambda>i. i \<in> set known" for known
proof unfold_locales
  fix k i assume r: "memory_resolve known k = Inr i"
  then obtain j where "filter (\<lambda>i. ri_key_id i = trim k) known = [j]" "ri_purpose j = relay_snapshot_issuer_purpose"
    "issuer_status (ri_status j) j = Inr i"
    by (auto simp: memory_resolve_def Let_def split: if_splits list.splits)
  moreover from this(1) have "j \<in> set known" "ri_key_id j = trim k" by (auto simp: filter_eq_Cons_iff)
  ultimately show "i \<in> set known \<and> ri_key_id i = trim k \<and> ri_purpose i = relay_snapshot_issuer_purpose
      \<and> to_ascii_uppercase (ri_status i) \<in> {''ACTIVE'', ''TRUSTED''}" by (auto simp: issuer_status_Inr)
qed

text \<open>The issuers of a view: its authorities in force, by a key that is not revoked.\<close>

definition view_lists :: "trust_view \<Rightarrow> relay_issuer \<Rightarrow> bool" where
  "view_lists v i \<longleftrightarrow> (\<exists>a \<in> set (tv_authorities v). i = issuer_of a \<and> (ad_status a = Active \<or> ad_status a = Rotating)
     \<and> \<not> revoked_key (tv_revocations v) (ad_key_id a))"

interpretation view: issuer_resolver "view_resolve v" "view_lists v" for v
proof unfold_locales
  fix k i assume r: "view_resolve v k = Inr i"
  then obtain a where a: "find (\<lambda>a. ad_key_id a = trim k) (tv_authorities v) = Some a" "i = issuer_of a"
    "ad_status a = Active \<or> ad_status a = Rotating" and s: "status_for v (trim k) \<noteq> Some Revoked"
    by (auto simp: view_resolve_def Let_def result_simps split: if_splits)
  from a(1) have in_view: "a \<in> set (tv_authorities v)" "ad_key_id a = trim k" by (auto simp: find_Some_iff)
  have "\<not> revoked_key (tv_revocations v) (ad_key_id a)" using s in_view(2) by (auto simp: status_for_def)
  then have listed: "view_lists v i" unfolding view_lists_def using a(2,3) in_view(1) by blast
  have "to_ascii_uppercase ''ACTIVE'' = ''ACTIVE''" by code_simp
  with listed show "view_lists v i \<and> ri_key_id i = trim k \<and> ri_purpose i = relay_snapshot_issuer_purpose
      \<and> to_ascii_uppercase (ri_status i) \<in> {''ACTIVE'', ''TRUSTED''}"
    using a(2) in_view(2) by (simp add: issuer_of_def)
qed

section \<open>A snapshot through both ends\<close>

text \<open>The alphabet of the encoding has no white space.\<close>

definition b64_plain :: "trust_crypto \<Rightarrow> bool" where
  "b64_plain c \<longleftrightarrow> (\<forall>x. trim (tc_b64_encode c x) = tc_b64_encode c x)"

lemma signer_identity:
  "crypto_ok c \<Longrightarrow> b64_plain c \<Longrightarrow> public_identity_from_key c (signer_public_key c secret) = Inr (signer_key_id c secret)"
  by (simp add: public_identity_from_key_def signer_public_key_def b64_plain_def crypto_ok_def signer_key_id_def)

lemma signed_in_domain_verifies:
  assumes "crypto_ok c" "b64_plain c" "sign_domain_separated c secret domain payload = Inr signature"
  shows "verify_signature_in_domain c domain payload signature (signer_public_key c secret) = Inr ()"
proof -
  from assms(3) obtain v where v: "domain_separated_envelope domain payload = Inr v" "signature = sign_canonical_value c secret v"
    unfolding sign_domain_separated_def by (cases "domain_separated_envelope domain payload") simp_all
  let ?text = "canonical_json (tc_esc c) v"
  have decoded: "tc_b64_decode c (trim signature) = Some (tc_sign c secret ?text)"
    "tc_b64_decode c (trim (signer_public_key c secret)) = Some (tc_public c secret)"
    using assms(1,2) by (simp_all add: v(2) sign_canonical_value_def signer_public_key_def b64_plain_def crypto_ok_def)
  have good: "length (tc_public c secret) = 32" "tc_key_ok c (tc_public c secret)" "tc_signature_ok c (tc_sign c secret ?text)"
    "tc_verify c (tc_public c secret) ?text (tc_sign c secret ?text)"
    using assms(1) by (simp_all add: crypto_ok_def)
  show ?thesis
    by (simp add: verify_signature_in_domain_def decoded domain_separated_canonical_def v(1) good fail_if_def)
qed

lemma required_id_Inr: "required_id v code = Inr x \<longleftrightarrow> (\<exists>y. v = Some y \<and> x = trim y \<and> \<not> is_blank y)"
  by (cases v) (auto simp: required_id_def Let_def is_blank_def)

lemma scope_from_binding_Inr:
  assumes "scope_from_binding b g = Inr s"
  shows "hb_verified b" "hb_client_id b \<noteq> None" "sp_client_id s = trim (the (hb_client_id b))"
    "sp_organization_id s = trim (hb_organization_id b)"
    "sp_site_id s = trim (the (hb_site_id b))" "sp_host_id s = trim (the (hb_host_id b))"
    "sp_binding_epoch s = hb_binding_epoch b" "sp_policy_generation s = g"
  using assms by (auto simp: scope_from_binding_def result_simps required_id_Inr split: if_splits)

lemma derived_snapshot:
  assumes "derive_relay_trust_snapshot c secret b i g state now = Inr s"
  obtains scope identity where "scope_from_binding b g = Inr scope" "validate_scope scope = Inr ()"
    "public_identity_from_key c (signer_public_key c secret) = Inr identity" "\<not> is_blank (trim (in_nonce i))"
    "rb_contract (sn_body s) = relay_snapshot_contract" "rb_scope (sn_body s) = scope" "rb_trust_state (sn_body s) = state"
    "rb_nonce (sn_body s) = trim (in_nonce i)" "rb_not_before (sn_body s) = in_not_before i"
    "rb_not_after (sn_body s) = in_not_after i" "rb_issuer_key_id (sn_body s) = signer_key_id c secret"
    "rb_issuer_public_key (sn_body s) = signer_public_key c secret" "rb_issuer_public_identity (sn_body s) = identity"
    "sn_payload_digest s = snapshot_payload_digest c (sn_body s)"
    "sign_domain_separated c secret relay_snapshot_domain (relay_body_json (sn_body s)) = Inr (sn_signature s)"
  using assms
  by (auto simp: derive_relay_trust_snapshot_def publish_relay_trust_snapshot_def result_simps Let_def check_publishable_def
      split: if_splits)

lemma derived_verifies:
  assumes "crypto_ok c" "b64_plain c" "derive_relay_trust_snapshot c secret b i g TrustTrusted issued = Inr s"
    and "resolve (signer_key_id c secret) = Inr issuer" "ri_key_id issuer = signer_key_id c secret"
      "ri_public_key issuer = signer_public_key c secret" "ri_public_identity issuer = signer_key_id c secret"
    and "in_not_before i \<le> now + skew" "now \<le> in_not_after i + skew" "trim (in_nonce i) \<notin> seen"
  shows "verify_snapshot c resolve skew s now seen = (insert (trim (in_nonce i)) seen, Inr (host_of_snapshot s))"
proof -
  obtain scope identity where scope: "scope_from_binding b g = Inr scope" "validate_scope scope = Inr ()"
    and identity: "public_identity_from_key c (signer_public_key c secret) = Inr identity" and nonce: "\<not> is_blank (trim (in_nonce i))"
    and body: "rb_contract (sn_body s) = relay_snapshot_contract" "rb_scope (sn_body s) = scope" "rb_trust_state (sn_body s) = TrustTrusted"
      "rb_nonce (sn_body s) = trim (in_nonce i)" "rb_not_before (sn_body s) = in_not_before i"
      "rb_not_after (sn_body s) = in_not_after i" "rb_issuer_key_id (sn_body s) = signer_key_id c secret"
      "rb_issuer_public_key (sn_body s) = signer_public_key c secret" "rb_issuer_public_identity (sn_body s) = identity"
    and digest: "sn_payload_digest s = snapshot_payload_digest c (sn_body s)"
    and signed: "sign_domain_separated c secret relay_snapshot_domain (relay_body_json (sn_body s)) = Inr (sn_signature s)"
    by (rule derived_snapshot [OF assms(3)])
  have id: "identity = signer_key_id c secret" using identity signer_identity [OF assms(1,2), of secret] by simp
  have "verify_snapshot_signature_with_key c s (signer_public_key c secret) = Inr ()"
    unfolding verify_snapshot_signature_with_key_def by (rule signed_in_domain_verifies [OF assms(1,2) signed])
  then have "check_snapshot c resolve s = Inr ()"
    using scope(2) body digest assms(4-7) id identity by (simp add: check_snapshot_def Let_def)
  then show ?thesis using body nonce assms(8-10) by (simp add: verify_snapshot_Inr)
qed

section \<open>Providers of hosts\<close>

lemma verify_all_v2_Inr:
  "verify_all_v2 c resolve now seen ss = Inr hosts \<Longrightarrow>
   \<forall>h \<in> set hosts. \<exists>s \<in> set ss. h = host_of_snapshot_v2 s \<and> check_snapshot_v2 c resolve s = Inr ()
     \<and> rv_trust_state (sw_body s) = TrustTrusted"
proof (induction ss arbitrary: seen hosts)
  case (Cons s ss)
  then obtain seen' h hs where v: "verify_snapshot_v2 c resolve max_clock_skew s now seen = (seen', Inr h)"
    and hs: "verify_all_v2 c resolve now seen' ss = Inr hs" "hosts = h # hs"
    by (auto simp: result_simps split: prod.splits sum.splits)
  from v have "h = host_of_snapshot_v2 s \<and> check_snapshot_v2 c resolve s = Inr () \<and> rv_trust_state (sw_body s) = TrustTrusted"
    by (simp add: verify_snapshot_v2_Inr)
  then show ?case using Cons.IH [OF hs(1)] hs(2) by auto
qed simp

lemma hosts_unambiguous:
  "\<not> hosts_ambiguous before hs \<Longrightarrow> filter (in_scope s) before = [] \<or> filter (in_scope s) hs = []"
proof (induction hs arbitrary: before)
  case (Cons h hs)
  then have h: "\<not> list_ex (\<lambda>x. same_host x h) before" and rest: "filter (in_scope s) (before @ [h]) = [] \<or> filter (in_scope s) hs = []"
    using Cons.IH [of "before @ [h]"] by auto
  show ?case
  proof (cases "in_scope s h")
    case True
    then have "filter (in_scope s) before = []"
      using h by (auto simp: filter_empty_conv list_ex_iff in_scope_def same_host_def)
    then show ?thesis ..
  next
    case False
    then show ?thesis using rest by auto
  qed
qed simp

lemma at_most_one_in_scope: "\<not> hosts_ambiguous before hs \<Longrightarrow> length (filter (in_scope s) hs) \<le> 1"
proof (induction hs arbitrary: before)
  case (Cons h hs)
  then have rest: "\<not> hosts_ambiguous (before @ [h]) hs" by simp
  show ?case
  proof (cases "in_scope s h")
    case True
    then have "filter (in_scope s) hs = []" using hosts_unambiguous [OF rest, of s] by auto
    with True show ?thesis by simp
  next
    case False
    then show ?thesis using Cons.IH [OF rest] by simp
  qed
qed simp

section \<open>Properties\<close>

text \<open>
  C35. A relay accepts a snapshot once, from an authority in force: over any sequence of snapshots the
  accepted ones have different nonces, and each is signed with the key of an authority of the view
  that is active or rotating and not revoked, is within its validity up to the skew, and says trusted.
\<close>

theorem relay_accepts_fresh_vouched:
  "distinct (accepted_nonces (run_verifier c (view_resolve v) skew {} xs))
   \<and> (\<forall>s now h. ((s, now), Inr h) \<in> set (run_verifier c (view_resolve v) skew {} xs) \<longrightarrow>
      (\<exists>a \<in> set (tv_authorities v). ad_key_id a = rb_issuer_key_id (sn_body s)
        \<and> (ad_status a = Active \<or> ad_status a = Rotating) \<and> \<not> revoked_key (tv_revocations v) (ad_key_id a)
        \<and> verify_snapshot_signature_with_key c s (ad_public_key a) = Inr ())
      \<and> rb_not_before (sn_body s) \<le> now + skew \<and> now \<le> rb_not_after (sn_body s) + skew
      \<and> rb_trust_state (sn_body s) = TrustTrusted \<and> h = host_of_snapshot s)"
proof (intro conjI allI impI)
  show "distinct (accepted_nonces (run_verifier c (view_resolve v) skew {} xs))" using run_verifier_nonces by blast
  fix s now h assume "((s, now), Inr h) \<in> set (run_verifier c (view_resolve v) skew {} xs)"
  note accepted = view.run_accepts_listed [OF this]
  then show "\<exists>a \<in> set (tv_authorities v). ad_key_id a = rb_issuer_key_id (sn_body s)
        \<and> (ad_status a = Active \<or> ad_status a = Rotating) \<and> \<not> revoked_key (tv_revocations v) (ad_key_id a)
        \<and> verify_snapshot_signature_with_key c s (ad_public_key a) = Inr ()"
    by (auto simp: view_lists_def issuer_of_def)
  from accepted show "rb_not_before (sn_body s) \<le> now + skew" "now \<le> rb_not_after (sn_body s) + skew"
    "rb_trust_state (sn_body s) = TrustTrusted" "h = host_of_snapshot s" by blast+
qed

text \<open>
  C36. What a host derives, a relay accepts: the snapshot a trusted host derives from its binding is
  accepted by every relay that has the host's key as an issuer, within the validity of the intent, and
  gives the relay the client, organisation, site, host, epoch and generation of the binding.
\<close>

theorem derived_snapshot_is_accepted:
  assumes "crypto_ok c" "b64_plain c" "derive_relay_trust_snapshot c secret b i g TrustTrusted issued = Inr s"
    and "resolve (signer_key_id c secret) = Inr issuer" "ri_key_id issuer = signer_key_id c secret"
      "ri_public_key issuer = signer_public_key c secret" "ri_public_identity issuer = signer_key_id c secret"
    and "in_not_before i \<le> now + skew" "now \<le> in_not_after i + skew" "trim (in_nonce i) \<notin> seen"
  shows "verify_snapshot c resolve skew s now seen = (insert (trim (in_nonce i)) seen, Inr (host_of_snapshot s))
    \<and> hb_verified b \<and> ht_client_id (host_of_snapshot s) = trim (the (hb_client_id b))
    \<and> ht_organization_id (host_of_snapshot s) = trim (hb_organization_id b)
    \<and> ht_site_id (host_of_snapshot s) = trim (the (hb_site_id b)) \<and> ht_host_id (host_of_snapshot s) = trim (the (hb_host_id b))
    \<and> sp_binding_epoch (rb_scope (sn_body s)) = hb_binding_epoch b \<and> sp_policy_generation (rb_scope (sn_body s)) = g"
proof -
  obtain scope where scope: "scope_from_binding b g = Inr scope" "rb_scope (sn_body s) = scope"
    by (rule derived_snapshot [OF assms(3)])
  show ?thesis using derived_verifies [where resolve = resolve and skew = skew and now = now and seen = seen, OF assms] scope_from_binding_Inr [OF scope(1)] scope(2)
    by (simp add: host_of_snapshot_def Let_def)
qed

text \<open>
  A snapshot that ends too late is never accepted: when the end of the validity and the skew do
  not fit 64 bits, the sum wraps and the verifier calls the snapshot stale at any time from the skew on.
\<close>

theorem far_future_snapshot_is_stale:
  assumes "2 ^ 64 \<le> unat (rb_not_after (sn_body s)) + unat skew" "skew \<le> now"
  shows "\<exists>e. verify_snapshot c resolve skew s now seen = (seen, Inl e)"
proof -
  let ?n = "rb_not_after (sn_body s)"
  have b: "unat ?n < 2 ^ 64" "unat skew < 2 ^ 64" using unsigned_less [of ?n] unsigned_less [of skew] by simp_all
  have "unat (?n + skew) = unat ?n + unat skew - 2 ^ 64"
    using assms(1) b by (simp add: unat_word_ariths mod_if)
  also have "\<dots> < unat skew" using b assms(1) by linarith
  finally have "?n + skew < now" using assms(2) by (simp add: word_less_nat_alt word_le_nat_alt)
  then have "\<exists>e. check_window skew now (rb_not_before (sn_body s)) ?n = Inl e" by (simp add: check_window_def)
  then show ?thesis by (cases "check_snapshot c resolve s") (auto simp: verify_snapshot_def)
qed

text \<open>
  A provider of hosts never confuses two: when it is built from snapshots of the second version,
  every valid scope resolves, to at most one host, and that host is the subject of one of the
  snapshots, which verified and says trusted.
\<close>

theorem provider_resolves_uniquely:
  assumes "from_snapshots_v2 c resolve now ss = Inr hosts" "validate_scope scope = Inr ()"
  shows "\<exists>r. resolve_canonical_host_scope hosts scope = Inr r
    \<and> (\<forall>h. r = Some h \<longrightarrow> in_scope scope h \<and> (\<exists>s \<in> set ss. h = host_of_snapshot_v2 s
        \<and> check_snapshot_v2 c resolve s = Inr () \<and> rv_trust_state (sw_body s) = TrustTrusted))"
proof -
  from assms(1) have v: "verify_all_v2 c resolve now {} ss = Inr hosts" and u: "\<not> hosts_ambiguous [] hosts"
    by (auto simp: from_snapshots_v2_def result_simps split: if_splits)
  show ?thesis
  proof (cases "filter (in_scope scope) hosts")
    case Nil
    then show ?thesis using assms(2) by (simp add: resolve_canonical_host_scope_def)
  next
    case (Cons h hs)
    with at_most_one_in_scope [OF u, of scope] have f: "filter (in_scope scope) hosts = [h]" by simp
    then have "h \<in> set hosts" "in_scope scope h" by (auto simp: filter_eq_Cons_iff)
    with f verify_all_v2_Inr [OF v] assms(2) show ?thesis by (auto simp: resolve_canonical_host_scope_def)
  qed
qed

end
