(* ===== verification/Connectivity_Client.thy ===== *)
theory Connectivity_Client
  imports Relay_Trust
begin

text \<open>
  How a product reaches a host: the routes of the fabric and the sessions over them
  (\<^verbatim>\<open>connectivity_fabric.rs\<close>, \<^verbatim>\<open>connectivity_session.rs\<close>), the pipeline that resolves a request to one
  candidate (\<^verbatim>\<open>common_connectivity_client.rs\<close>), the admission a host signs for a product
  (\<^verbatim>\<open>host_identity_signing.rs\<close>) and the two commands of the supervisor that sign.
\<close>

section \<open>Routes of the fabric\<close>

datatype route_place = PlaceLocal | PlacePrivate | PlaceRemote

datatype route_condition = RouteConfigured | RouteReachable | RouteUnreachable | RouteUnauthorized | RouteUnconfigured

record service_route =
  sv_organization_id :: "string option"
  sv_site_id :: "string option"
  sv_host_id :: "string option"
  sv_service_id :: string
  sv_capability :: string
  sv_route_kind :: route_place
  sv_endpoint :: string
  sv_expected_service_identity :: string
  sv_transport :: string
  sv_adapter :: "string option"
  sv_authority_scope :: string
  sv_state :: route_condition
  sv_health :: string
  sv_priority :: u16
  sv_binding_epoch :: u64
  sv_configuration_version :: u64

definition strip_start :: "string \<Rightarrow> string \<Rightarrow> string option" where
  "strip_start p s = (if prefix p s then Some (drop (length p) s) else None)"

definition before_char :: "char \<Rightarrow> string \<Rightarrow> string" where
  "before_char c s = takeWhile (\<lambda>x. x \<noteq> c) s"

definition after_last :: "char \<Rightarrow> string \<Rightarrow> string" where
  "after_last c s = rev (takeWhile (\<lambda>x. x \<noteq> c) (rev s))"

definition before_last :: "char \<Rightarrow> string \<Rightarrow> string" where
  "before_last c s = rev (tl (dropWhile (\<lambda>x. x \<noteq> c) (rev s)))"

text \<open>\<open>str::parse::<u16>\<close>: a sign, then digits.\<close>

definition parses_u16 :: "string \<Rightarrow> bool" where
  "parses_u16 s = (let d = (case s of c # r \<Rightarrow> if c = CHR ''+'' then r else s | [] \<Rightarrow> []) in
     d \<noteq> [] \<and> list_all is_ascii_digit d \<and> foldl (\<lambda>n x. 10 * n + (of_char x - 48)) (0 :: nat) d < 2 ^ 16)"

definition loopback_name :: "string \<Rightarrow> bool" where
  "loopback_name host \<longleftrightarrow> host \<in> {''localhost'', ''127.0.0.1'', ''::1''}"

definition loopback_http_endpoint :: "string \<Rightarrow> bool" where
  "loopback_http_endpoint endpoint =
     (let authority = unwrap_or (map_option (before_char CHR ''/'') (strip_start ''http://'' endpoint)) [] in
      if authority = [] \<or> CHR ''@'' \<in> set authority then False
      else if hd authority = CHR ''['' then
        (if CHR '']'' \<notin> set authority then False
         else let inner = before_char CHR '']'' authority; remainder = drop (Suc (length inner)) authority in
           if remainder \<noteq> [] \<and> (hd remainder \<noteq> CHR '':'' \<or> \<not> parses_u16 (tl remainder)) then False
           else loopback_name (tl inner))
      else if CHR '':'' \<in> set authority then
        (let host = before_last CHR '':'' authority; port = after_last CHR '':'' authority in
         if CHR '':'' \<in> set host \<or> \<not> parses_u16 port then False else loopback_name host)
      else loopback_name authority)"

fun has_whitespace :: "string \<Rightarrow> bool" where
  "has_whitespace [] = False"
| "has_whitespace (c # r) = (0 < ws_len (c # r) \<or> has_whitespace r)"

definition trim_slashes :: "string \<Rightarrow> string" where
  "trim_slashes s = rev (dropWhile (\<lambda>x. x = CHR ''/'') (rev s))"

definition endpoint_authority :: "string \<Rightarrow> string" where
  "endpoint_authority endpoint = unwrap_or (map_option (before_char CHR ''/'')
     (opt_or (strip_start ''https://'' endpoint) (strip_start ''http://'' endpoint))) []"

definition endpoint_invalid :: "string \<Rightarrow> bool" where
  "endpoint_invalid endpoint \<longleftrightarrow> endpoint = [] \<or> endpoint_authority endpoint = []
     \<or> CHR ''@'' \<in> set (endpoint_authority endpoint)
     \<or> \<not> (prefix ''https://'' endpoint \<or> prefix ''http://'' endpoint \<and> loopback_http_endpoint endpoint)
     \<or> has_whitespace endpoint \<or> CHR ''?'' \<in> set endpoint \<or> CHR ''#'' \<in> set endpoint"

definition endpoint_host :: "string \<Rightarrow> string" where
  "endpoint_host authority =
     (if hd authority = CHR ''['' then dropWhile (\<lambda>x. x = CHR ''['') (before_char CHR '']'' authority)
      else before_char CHR '':'' authority)"

definition control_plane_route :: "string \<Rightarrow> u64 \<Rightarrow> string + service_route" where
  "control_plane_route text now = (let endpoint = trim_slashes (trim text) in
     if endpoint_invalid endpoint then Inl ''CONNECTIVITY_CONTROL_PLANE_ENDPOINT_INVALID''
     else let host = endpoint_host (endpoint_authority endpoint) in
       if host = [] then Inl ''CONNECTIVITY_CONTROL_PLANE_ENDPOINT_INVALID''
       else Inr \<lparr> sv_organization_id = None, sv_site_id = None, sv_host_id = None, sv_service_id = ''actium-center'',
         sv_capability = ''host_enrollment'',
         sv_route_kind = (if loopback_name host then PlaceLocal else PlaceRemote), sv_endpoint = endpoint,
         sv_expected_service_identity = ''actium-center-control-plane'',
         sv_transport = (if prefix ''http://'' endpoint \<and> loopback_http_endpoint endpoint then ''local_http_bootstrap''
           else ''https_bootstrap''),
         sv_adapter = None, sv_authority_scope = ''host_enrollment:bootstrap'', sv_state = RouteConfigured,
         sv_health = ''not_probed'', sv_priority = 0, sv_binding_epoch = 0, sv_configuration_version = now \<rparr>)"

definition remote_ops_route :: "string \<Rightarrow> string option \<Rightarrow> route_condition \<Rightarrow> u16 \<Rightarrow> u64 \<Rightarrow> string + service_route" where
  "remote_ops_route endpoint adapter state priority now =
     res_bind (control_plane_route endpoint now) (\<lambda>base.
     Inr (base\<lparr>sv_service_id := ''actium-center'', sv_capability := ''remote_operations'',
       sv_expected_service_identity := ''actium-center-remote-ops'', sv_transport := ''https_bootstrap'', sv_adapter := adapter,
       sv_authority_scope := ''remote_operations:connectivity_job'', sv_priority := priority, sv_state := state,
       sv_health := ''not_probed''\<rparr>))"

definition route_is_eligible :: "service_route \<Rightarrow> bool" where
  "route_is_eligible r \<longleftrightarrow> sv_state r = RouteReachable \<and> \<not> is_blank (sv_endpoint r)
     \<and> \<not> is_blank (sv_expected_service_identity r) \<and> \<not> is_blank (sv_authority_scope r)"

fun place_rank :: "route_place \<Rightarrow> nat" where
  "place_rank PlaceLocal = 0" | "place_rank PlacePrivate = 1" | "place_rank PlaceRemote = 2"

fun condition_rank :: "route_condition \<Rightarrow> nat" where
  "condition_rank RouteReachable = 0" | "condition_rank RouteConfigured = 1" | "condition_rank RouteUnreachable = 2"
| "condition_rank RouteUnauthorized = 3" | "condition_rank RouteUnconfigured = 4"

definition route_order :: "service_route \<Rightarrow> nat \<times> nat \<times> nat \<times> u16" where
  "route_order r = (if route_is_eligible r then 0 else 1, place_rank (sv_route_kind r), condition_rank (sv_state r), sv_priority r)"

definition connectivity_resolution_contract :: string where
  "connectivity_resolution_contract = ''actium-connectivity-service-resolution@1.0.0''"

record service_resolution =
  vr_contract :: string
  vr_environment :: "string option"
  vr_preferred_route :: "service_route option"
  vr_candidates :: "service_route list"
  vr_resolved_at :: u64

definition resolve_service :: "service_route list \<Rightarrow> string \<Rightarrow> string \<Rightarrow> service_resolution" where
  "resolve_service routes service_id capability =
     (let candidates = sort_key route_order (filter (\<lambda>r. sv_service_id r = service_id \<and> sv_capability r = capability) routes) in
      \<lparr> vr_contract = connectivity_resolution_contract, vr_environment = None,
        vr_preferred_route = find route_is_eligible candidates, vr_candidates = candidates, vr_resolved_at = 0 \<rparr>)"

section \<open>Sessions\<close>

definition connectivity_session_contract :: string where
  "connectivity_session_contract = ''actium-connectivity-authenticated-session@1.0.0''"

datatype authentication_method = TlsPeerIdentity | SignedBootstrap | SupervisorProof

record service_session =
  ss_contract :: string
  ss_service_id :: string
  ss_capability :: string
  ss_service_identity :: string
  ss_authority_scope :: string
  ss_binding_epoch :: u64
  ss_transport :: string
  ss_request_id :: string
  ss_authenticated :: bool
  ss_authentication_method :: authentication_method
  ss_established_at :: u64

definition verify_authenticated_session :: "service_route \<Rightarrow> service_session \<Rightarrow> string + unit" where
  "verify_authenticated_session r s =
     (if ss_contract s \<noteq> connectivity_session_contract \<or> \<not> ss_authenticated s
      then Inl ''CONNECTIVITY_SESSION_NOT_AUTHENTICATED''
      else fail_if (is_blank (ss_request_id s) \<or> ss_service_id s \<noteq> sv_service_id r \<or> ss_capability s \<noteq> sv_capability r
        \<or> ss_service_identity s \<noteq> sv_expected_service_identity r \<or> ss_authority_scope s \<noteq> sv_authority_scope r
        \<or> ss_transport s \<noteq> sv_transport r \<or> ss_binding_epoch s < sv_binding_epoch r)
        ''CONNECTIVITY_SESSION_BINDING_INVALID'')"

section \<open>Requests and grants\<close>

definition common_client_contract :: string where
  "common_client_contract = ''actium.connectivity.common-client.v1''"

datatype common_policy = CommonAuto | CommonDirectPreferred | CommonRelayOnly | CommonDisabled

datatype common_transport = TransportLocal | TransportPrivate | TransportDirectWan | TransportRelay

record common_request =
  cq_contract :: string
  cq_client_id :: string
  cq_organization_id :: string
  cq_site_id :: string
  cq_host_id :: string
  cq_product_id :: string
  cq_product_assignment_id :: "string option"
  cq_service_id :: string
  cq_capability :: string
  cq_binding_epoch :: "u64 option"
  cq_policy_generation :: "u64 option"
  cq_route_policy :: common_policy
  cq_expected_service_identity :: "string option"

datatype sharing_scope = HostShared | ProductScoped

record assignment_grant =
  ag_product_assignment_id :: string
  ag_product_id :: string
  ag_client_id :: string
  ag_organization_id :: string
  ag_site_id :: "string option"
  ag_host_id :: "string option"
  ag_capability :: string
  ag_service_id :: "string option"
  ag_authorized :: bool

text \<open>An authorizer answers a request with a grant or with an error.\<close>

type_synonym authorizer = "common_request \<Rightarrow> string + assignment_grant"

definition unavailable_authorizer :: authorizer where
  "unavailable_authorizer q = Inl ''PRODUCT_ASSIGNMENT_UNAVAILABLE''"

definition grant_refuses :: "assignment_grant \<Rightarrow> common_request \<Rightarrow> bool" where
  "grant_refuses g q \<longleftrightarrow> \<not> ag_authorized g \<or> ag_product_id g \<noteq> cq_product_id q \<or> ag_client_id g \<noteq> cq_client_id q
     \<or> ag_organization_id g \<noteq> cq_organization_id q \<or> is_some_and (ag_site_id g) (\<lambda>s. s \<noteq> cq_site_id q)
     \<or> is_some_and (ag_host_id g) (\<lambda>h. h \<noteq> cq_host_id q) \<or> ag_capability g \<noteq> cq_capability q
     \<or> is_some_and (ag_service_id g) (\<lambda>s. s \<noteq> cq_service_id q)"

definition memory_authorizer :: "assignment_grant list \<Rightarrow> authorizer" where
  "memory_authorizer grants q = (let assignment = unwrap_or (map_option trim (cq_product_assignment_id q)) [] in
     if assignment = [] then Inl ''PRODUCT_ASSIGNMENT_UNAVAILABLE''
     else case filter (\<lambda>g. ag_product_assignment_id g = assignment) grants of
       [g] \<Rightarrow> if grant_refuses g q then Inl ''PRODUCT_ASSIGNMENT_UNAUTHORIZED'' else Inr g
     | _ \<Rightarrow> Inl ''PRODUCT_ASSIGNMENT_UNAUTHORIZED'')"

section \<open>The pipeline\<close>

record common_candidate =
  cc_organization_id :: "string option"
  cc_client_id :: "string option"
  cc_site_id :: "string option"
  cc_host_id :: "string option"
  cc_product_id :: "string option"
  cc_service_id :: string
  cc_capability :: string
  cc_route_kind :: route_place
  cc_transport :: common_transport
  cc_endpoint :: string
  cc_expected_service_identity :: string
  cc_authority_scope :: string
  cc_trust_state :: canonical_trust_state
  cc_health :: string
  cc_readiness :: bool
  cc_priority :: u16
  cc_binding_epoch :: u64
  cc_configuration_version :: u64
  cc_sharing_scope :: sharing_scope
  cc_reason :: "string option"

definition common_client_version :: string where
  "common_client_version = ''1.0.0''"

record common_resolution =
  cn_contract :: string
  cn_version :: string
  cn_selected :: "common_candidate option"
  cn_reason_code :: "string option"
  cn_candidates_considered :: nat

definition classify_transport :: "service_route \<Rightarrow> common_transport" where
  "classify_transport r = (let transport = to_ascii_lowercase (trim (sv_transport r)) in
     if transport = ''relay'' then TransportRelay
     else case sv_route_kind r of
       PlaceLocal \<Rightarrow> TransportLocal
     | PlacePrivate \<Rightarrow> TransportPrivate
     | PlaceRemote \<Rightarrow> if str_contains transport ''relay'' then TransportRelay else TransportDirectWan)"

definition route_health_ready :: "string \<Rightarrow> bool" where
  "route_health_ready health \<longleftrightarrow>
     to_ascii_uppercase (trim health) \<notin> {''UNREACHABLE'', ''UNKNOWN'', ''UNHEALTHY'', ''FAILED'', ''DOWN''}"

definition candidate_of_route :: "service_route \<Rightarrow> canonical_trust_state \<Rightarrow> common_candidate" where
  "candidate_of_route r trust_state = \<lparr> cc_organization_id = sv_organization_id r, cc_client_id = None,
     cc_site_id = sv_site_id r, cc_host_id = sv_host_id r, cc_product_id = None, cc_service_id = sv_service_id r,
     cc_capability = sv_capability r, cc_route_kind = sv_route_kind r, cc_transport = classify_transport r,
     cc_endpoint = sv_endpoint r, cc_expected_service_identity = sv_expected_service_identity r,
     cc_authority_scope = sv_authority_scope r, cc_trust_state = trust_state, cc_health = sv_health r,
     cc_readiness = (sv_state r = RouteReachable \<and> route_health_ready (sv_health r)), cc_priority = sv_priority r,
     cc_binding_epoch = sv_binding_epoch r, cc_configuration_version = sv_configuration_version r,
     cc_sharing_scope = HostShared, cc_reason = None \<rparr>"

definition common_policy_allows :: "common_policy \<Rightarrow> common_transport \<Rightarrow> bool" where
  "common_policy_allows policy transport = (case policy of
     CommonDisabled \<Rightarrow> False | CommonRelayOnly \<Rightarrow> transport = TransportRelay | _ \<Rightarrow> True)"

definition transport_rank :: "common_policy \<Rightarrow> common_transport \<Rightarrow> nat" where
  "transport_rank policy transport = (case policy of CommonRelayOnly \<Rightarrow> 0 | _ \<Rightarrow>
     (case transport of TransportLocal \<Rightarrow> 0 | TransportPrivate \<Rightarrow> 1 | TransportDirectWan \<Rightarrow> 2 | TransportRelay \<Rightarrow> 3))"

definition candidate_order :: "common_policy \<Rightarrow> common_candidate \<Rightarrow> nat \<times> u16 \<times> string \<times> string" where
  "candidate_order policy c = (transport_rank policy (cc_transport c), cc_priority c, cc_endpoint c, cc_service_id c)"

definition scope_of_candidate :: "common_candidate \<Rightarrow> connectivity_scope \<Rightarrow> bool" where
  "scope_of_candidate c bound \<longleftrightarrow> cc_organization_id c = Some (sp_organization_id bound)
     \<and> cc_site_id c = Some (sp_site_id bound) \<and> cc_host_id c = Some (sp_host_id bound)
     \<and> cc_client_id c = Some (sp_client_id bound)"

definition failed :: "string \<Rightarrow> nat \<Rightarrow> common_resolution" where
  "failed code considered = \<lparr> cn_contract = common_client_contract, cn_version = common_client_version, cn_selected = None, cn_reason_code = Some code, cn_candidates_considered = considered \<rparr>"

definition requested_of :: "common_request \<Rightarrow> requested_scope" where
  "requested_of q = \<lparr> rs_client_id = cq_client_id q, rs_organization_id = cq_organization_id q, rs_site_id = cq_site_id q,
     rs_host_id = cq_host_id q, rs_binding_epoch = cq_binding_epoch q, rs_policy_generation = cq_policy_generation q \<rparr>"

text \<open>The guards before the candidates are looked at: an error is the code and the number considered.\<close>

definition check_common_request ::
  "connectivity_scope \<Rightarrow> common_request \<Rightarrow> nat \<Rightarrow> authorizer option \<Rightarrow> (string \<times> nat) + unit" where
  "check_common_request bound q n assignment =
     (if cq_contract q \<noteq> common_client_contract then Inl (''NO_ROUTE_AVAILABLE'', 0)
      else if validate_scope bound \<noteq> Inr () then Inl (''SCOPE_UNRESOLVED'', 0)
      else res_bind (map_err (\<lambda>code. (code, 0)) (matches_request bound (requested_of q))) (\<lambda>_.
        if cq_route_policy q = CommonDisabled then Inl (''POLICY_BLOCKED'', n)
        else case assignment of
          Some authorize \<Rightarrow> (case authorize q of Inl code \<Rightarrow> Inl (code, n) | Inr _ \<Rightarrow> Inr ())
        | None \<Rightarrow> fail_if (is_some_and (cq_product_assignment_id q) (\<lambda>v. \<not> is_blank v)) (''PRODUCT_ASSIGNMENT_UNAVAILABLE'', n)))"

definition shared_with :: "common_request \<Rightarrow> common_candidate \<Rightarrow> bool" where
  "shared_with q c = (case cc_sharing_scope c of HostShared \<Rightarrow> True | ProductScoped \<Rightarrow> cc_product_id c = Some (cq_product_id q))"

definition identity_expected :: "common_request \<Rightarrow> common_candidate \<Rightarrow> bool" where
  "identity_expected q c = (let expected = unwrap_or (map_option trim (cq_expected_service_identity q)) [] in
     if expected \<noteq> [] then cc_expected_service_identity c = expected else \<not> is_blank (cc_expected_service_identity c))"

definition candidate_ready :: "common_candidate \<Rightarrow> bool" where
  "candidate_ready c \<longleftrightarrow> cc_readiness c \<and> route_health_ready (cc_health c)"

text \<open>One stage keeps the candidates with a property; when none is left the resolution fails.\<close>

definition keep :: "(common_candidate \<Rightarrow> bool) \<Rightarrow> (common_candidate list \<Rightarrow> string) \<Rightarrow> common_candidate list \<Rightarrow> string + common_candidate list" where
  "keep P code cs = (let kept = filter P cs in if kept = [] then Inl (code cs) else Inr kept)"

definition trust_code :: "common_candidate list \<Rightarrow> string" where
  "trust_code cs = (if list_ex (\<lambda>c. cc_trust_state c = TrustUnknown) cs \<and> \<not> list_ex (\<lambda>c. cc_trust_state c = TrustUntrusted) cs
     then ''TRUST_UNKNOWN'' else ''TRUST_REJECTED'')"

definition policy_code :: "common_request \<Rightarrow> common_candidate list \<Rightarrow> string" where
  "policy_code q cs =
     (if cq_route_policy q = CommonRelayOnly \<and> \<not> list_ex (\<lambda>c. cc_transport c = TransportRelay) cs then ''RELAY_UNAVAILABLE''
      else if \<not> list_ex (\<lambda>c. cc_transport c \<noteq> TransportRelay) cs then ''DIRECT_UNAVAILABLE'' else ''POLICY_BLOCKED'')"

definition usable_candidates :: "connectivity_scope \<Rightarrow> common_request \<Rightarrow> common_candidate list \<Rightarrow> string + common_candidate list" where
  "usable_candidates bound q cs =
     res_bind (keep (\<lambda>c. scope_of_candidate c bound) (\<lambda>_. ''SCOPE_MISMATCH'') cs) (\<lambda>cs.
     res_bind (keep (shared_with q) (\<lambda>_. ''PRODUCT_SCOPE_MISMATCH'') cs) (\<lambda>cs.
     res_bind (keep (identity_expected q) (\<lambda>_. ''SERVICE_IDENTITY_MISMATCH'') cs) (\<lambda>cs.
     res_bind (keep (\<lambda>c. cc_trust_state c = TrustTrusted) trust_code cs) (\<lambda>cs.
     res_bind (keep (\<lambda>c. cc_binding_epoch c = sp_binding_epoch bound) (\<lambda>_. ''BINDING_EPOCH_MISMATCH'') cs) (\<lambda>cs.
     res_bind (keep (\<lambda>c. cc_configuration_version c = sp_policy_generation bound) (\<lambda>_. ''CONFIGURATION_STALE'') cs) (\<lambda>cs.
     res_bind (keep (\<lambda>c. common_policy_allows (cq_route_policy q) (cc_transport c)) (policy_code q) cs) (\<lambda>cs.
     keep candidate_ready (\<lambda>_. ''ROUTE_UNHEALTHY'') cs)))))))"

definition resolve_common_connectivity ::
  "connectivity_scope \<Rightarrow> common_request \<Rightarrow> common_candidate list \<Rightarrow> authorizer option \<Rightarrow> common_resolution" where
  "resolve_common_connectivity bound q candidates assignment =
     (case check_common_request bound q (length candidates) assignment of
        Inl (code, n) \<Rightarrow> failed code n
      | Inr _ \<Rightarrow>
          let capable = filter (\<lambda>c. cc_service_id c = cq_service_id q \<and> cc_capability c = cq_capability q) candidates in
          if capable = [] then failed ''NO_ROUTE_AVAILABLE'' 0
          else case usable_candidates bound q capable of
              Inl code \<Rightarrow> failed code (length capable)
            | Inr cs \<Rightarrow> \<lparr> cn_contract = common_client_contract, cn_version = common_client_version, cn_selected = first_of (sort_key (candidate_order (cq_route_policy q)) cs), cn_reason_code = None,
                cn_candidates_considered = length capable \<rparr>)"

section \<open>Admissions of a host\<close>

definition host_admission_domain :: string where
  "host_admission_domain = ''actium.connectivity.host-identity-admission.v3''"

record admission_request =
  hq_client_id :: string
  hq_organization_id :: string
  hq_site_id :: string
  hq_host_id :: string
  hq_host_identity_key_id :: string
  hq_host_identity_fingerprint :: string
  hq_binding_epoch :: u64
  hq_issued_at :: u64
  hq_expires_at :: u64
  hq_nonce :: string
  hq_product_id :: string
  hq_product_assignment_id :: string
  hq_requested_capabilities :: "string list"
  hq_service_id :: "string option"
  hq_trust_bundle_id :: "string option"

record host_admission =
  ha_protocol_version :: u8
  ha_client_id :: string
  ha_organization_id :: string
  ha_site_id :: string
  ha_host_id :: string
  ha_host_identity_key_id :: string
  ha_host_identity_fingerprint :: string
  ha_binding_epoch :: u64
  ha_issued_at :: u64
  ha_expires_at :: u64
  ha_nonce :: string
  ha_allowed_capabilities :: "string list option"
  ha_trust_bundle_id :: "string option"

record signed_admission =
  hs_admission :: host_admission
  hs_signature :: string
  hs_signer_key_id :: string
  hs_public_key :: string

definition admission_json :: "host_admission \<Rightarrow> json" where
  "admission_json a = JObject
     ([(''protocolVersion'', json_nat_word (ha_protocol_version a)), (''clientId'', JString (ha_client_id a)),
       (''organizationId'', JString (ha_organization_id a)), (''siteId'', JString (ha_site_id a)),
       (''hostId'', JString (ha_host_id a)), (''hostIdentityKeyId'', JString (ha_host_identity_key_id a)),
       (''hostIdentityFingerprint'', JString (ha_host_identity_fingerprint a)),
       (''bindingEpoch'', json_nat_word (ha_binding_epoch a)), (''issuedAtUnix'', json_nat_word (ha_issued_at a)),
       (''expiresAtUnix'', json_nat_word (ha_expires_at a)), (''nonce'', JString (ha_nonce a))]
      @ opt_member ''allowedCapabilities'' json_strings (ha_allowed_capabilities a)
      @ opt_member ''trustBundleId'' JString (ha_trust_bundle_id a))"

text \<open>The request of a product for one capability, as the authorizer sees it.\<close>

definition capability_request :: "admission_request \<Rightarrow> string \<Rightarrow> common_request" where
  "capability_request q capability = \<lparr> cq_contract = common_client_contract, cq_client_id = hq_client_id q,
     cq_organization_id = hq_organization_id q, cq_site_id = hq_site_id q, cq_host_id = hq_host_id q,
     cq_product_id = hq_product_id q, cq_product_assignment_id = Some (hq_product_assignment_id q),
     cq_service_id = (case hq_service_id q of Some s \<Rightarrow> if is_blank s then ''relay-tunnel'' else s | None \<Rightarrow> ''relay-tunnel''),
     cq_capability = capability, cq_binding_epoch = Some (hq_binding_epoch q), cq_policy_generation = None,
     cq_route_policy = CommonAuto, cq_expected_service_identity = None \<rparr>"

definition authorize_requested_capabilities :: "authorizer \<Rightarrow> admission_request \<Rightarrow> string + string list" where
  "authorize_requested_capabilities authorize q =
     (if is_blank (hq_product_id q) \<or> is_blank (hq_product_assignment_id q) then Inl ''PRODUCT_ASSIGNMENT_UNAVAILABLE''
      else if hq_requested_capabilities q = [] then Inl ''CAPABILITY_UNAUTHORIZED''
      else res_map (\<lambda>capability. res_bind (authorize (capability_request q capability)) (\<lambda>_. Inr capability))
        (hq_requested_capabilities q))"

definition non_blank :: "string option \<Rightarrow> string option" where
  "non_blank v = (case map_option trim v of Some t \<Rightarrow> if t = [] then None else Some t | None \<Rightarrow> None)"

definition admission_bundle_id :: "string option \<Rightarrow> string option \<Rightarrow> string + string" where
  "admission_bundle_id requested canonical = (case non_blank canonical of
     None \<Rightarrow> Inl ''TRUST_BUNDLE_ID_UNAVAILABLE''
   | Some b \<Rightarrow> (case non_blank requested of
       None \<Rightarrow> Inr b | Some r \<Rightarrow> if r = b then Inr b else Inl ''TRUST_BUNDLE_ID_MISMATCH''))"

definition check_admission_request :: "subject_identity \<Rightarrow> host_binding \<Rightarrow> admission_request \<Rightarrow> u64 \<Rightarrow> string + unit" where
  "check_admission_request identity b q now =
     (if hq_binding_epoch q \<noteq> hb_binding_epoch b then Inl ''BINDING_EPOCH_MISMATCH''
      else if trim (hq_host_identity_key_id q) \<noteq> su_key_id identity then Inl ''HOST_IDENTITY_KEY_MISMATCH''
      else if trim (hq_host_identity_fingerprint q) \<noteq> su_fingerprint identity then Inl ''HOST_IDENTITY_FINGERPRINT_MISMATCH''
      else if is_blank (hq_nonce q) then Inl ''HOST_IDENTITY_ADMISSION_NONCE_INVALID''
      else if hq_expires_at q \<le> hq_issued_at q \<or> hq_expires_at q \<le> now then Inl ''HOST_IDENTITY_ADMISSION_EXPIRED''
      else fail_if (now + 60 < hq_issued_at q) ''HOST_IDENTITY_ADMISSION_NOT_YET_VALID'')"

definition admission_of ::
  "subject_identity \<Rightarrow> connectivity_scope \<Rightarrow> host_binding \<Rightarrow> admission_request \<Rightarrow> string list \<Rightarrow> string \<Rightarrow> host_admission" where
  "admission_of identity scope b q capabilities bundle_id = \<lparr> ha_protocol_version = 3, ha_client_id = sp_client_id scope,
     ha_organization_id = sp_organization_id scope, ha_site_id = sp_site_id scope, ha_host_id = sp_host_id scope,
     ha_host_identity_key_id = su_key_id identity, ha_host_identity_fingerprint = hq_host_identity_fingerprint q,
     ha_binding_epoch = hb_binding_epoch b, ha_issued_at = hq_issued_at q, ha_expires_at = hq_expires_at q,
     ha_nonce = hq_nonce q, ha_allowed_capabilities = Some capabilities, ha_trust_bundle_id = Some bundle_id \<rparr>"

definition sign_host_identity_admission ::
  "trust_crypto \<Rightarrow> string \<Rightarrow> host_binding \<Rightarrow> admission_request \<Rightarrow> u64 \<Rightarrow> u64 \<Rightarrow> authorizer \<Rightarrow> string option \<Rightarrow> string + signed_admission" where
  "sign_host_identity_admission c secret b q policy_generation now authorize canonical_bundle =
     res_bind (host_admission_signing_identity c secret) (\<lambda>identity.
     res_bind (scope_from_binding b policy_generation) (\<lambda>scope.
     res_bind (matches_request scope \<lparr> rs_client_id = hq_client_id q, rs_organization_id = hq_organization_id q,
       rs_site_id = hq_site_id q, rs_host_id = hq_host_id q, rs_binding_epoch = Some (hb_binding_epoch b),
       rs_policy_generation = None \<rparr>) (\<lambda>_.
     res_bind (check_admission_request identity b q now) (\<lambda>_.
     res_bind (authorize_requested_capabilities authorize q) (\<lambda>capabilities.
     res_bind (admission_bundle_id (hq_trust_bundle_id q) canonical_bundle) (\<lambda>bundle_id.
     let admission = admission_of identity scope b q capabilities bundle_id in
     res_bind (sign_domain_separated c secret host_admission_domain (admission_json admission)) (\<lambda>signature.
     Inr \<lparr> hs_admission = admission, hs_signature = signature, hs_signer_key_id = su_key_id identity,
       hs_public_key = su_public_key identity \<rparr>)))))))"

section \<open>The commands of the supervisor\<close>

text \<open>
  What a command finds: the stored enrolment, the served bundle (none when the lock is poisoned), the
  file with the policy generation, and the clock at the evaluation and at the signature.
\<close>

record connectivity_world =
  cw_enrollment :: "string + enrollment_state"
  cw_bundle :: "signed_trust_bundle option"
  cw_policy_file :: "json option"
  cw_evaluated_at :: u64
  cw_signed_at :: u64

definition enrolled_binding :: "connectivity_world \<Rightarrow> string + host_binding" where
  "enrolled_binding w = res_bind (cw_enrollment w) (\<lambda>es.
     res_bind (ok_or (es_enrolled es) ''HOST_IDENTITY_SIGNER_NOT_AVAILABLE'') (\<lambda>e. Inr (host_binding_of e)))"

definition canonical_trust_view :: "connectivity_world \<Rightarrow> trust_view" where
  "canonical_trust_view w = unwrap_or (map_option view_of_bundle (cw_bundle w)) unavailable_view"

definition sign_host_identity_admission_command ::
  "trust_crypto \<Rightarrow> string \<Rightarrow> connectivity_world \<Rightarrow> admission_request \<Rightarrow> string + signed_admission" where
  "sign_host_identity_admission_command c secret w q =
     res_bind (enrolled_binding w) (\<lambda>b.
     res_bind (evaluate_canonical_connectivity_trust b (canonical_trust_view w) (file_policy_generation (cw_policy_file w))
       (Some (hq_binding_epoch q)) (cw_evaluated_at w)) (\<lambda>d.
     res_bind (require_trusted_connectivity d) (\<lambda>_.
     sign_host_identity_admission c secret b q (dt_policy_generation d) (cw_signed_at w) unavailable_authorizer
       (dt_bundle_id d))))"

definition sign_relay_trust_snapshot_command ::
  "trust_crypto \<Rightarrow> string \<Rightarrow> connectivity_world \<Rightarrow> sign_intent \<Rightarrow> string + relay_snapshot" where
  "sign_relay_trust_snapshot_command c secret w i =
     res_bind (enrolled_binding w) (\<lambda>b.
     res_bind (evaluate_canonical_connectivity_trust b (canonical_trust_view w) (file_policy_generation (cw_policy_file w))
       None (cw_evaluated_at w)) (\<lambda>d.
     derive_relay_trust_snapshot c secret b i (dt_policy_generation d) (dt_trust_state d) (cw_signed_at w)))"

section \<open>What the pipeline selects\<close>

text \<open>
  The specification, without stages: a request is admitted when its contract, its scope and its
  assignment are in order, and a candidate is usable when it serves the request within the bound scope.
\<close>

definition request_admitted :: "connectivity_scope \<Rightarrow> common_request \<Rightarrow> authorizer option \<Rightarrow> bool" where
  "request_admitted bound q assignment \<longleftrightarrow> cq_contract q = common_client_contract
     \<and> matches_request bound (requested_of q) = Inr () \<and> cq_route_policy q \<noteq> CommonDisabled
     \<and> (case assignment of Some authorize \<Rightarrow> \<not> isl (authorize q)
        | None \<Rightarrow> is_none_or (cq_product_assignment_id q) is_blank)"

definition usable :: "connectivity_scope \<Rightarrow> common_request \<Rightarrow> common_candidate \<Rightarrow> bool" where
  "usable bound q c \<longleftrightarrow> cc_service_id c = cq_service_id q \<and> cc_capability c = cq_capability q
     \<and> scope_of_candidate c bound \<and> shared_with q c \<and> identity_expected q c \<and> cc_trust_state c = TrustTrusted
     \<and> cc_binding_epoch c = sp_binding_epoch bound \<and> cc_configuration_version c = sp_policy_generation bound
     \<and> common_policy_allows (cq_route_policy q) (cc_transport c) \<and> candidate_ready c"

lemma matches_request_validates: "matches_request bound q = Inr () \<Longrightarrow> validate_scope bound = Inr ()"
  by (auto simp: matches_request_def result_simps)

lemma check_common_request_Inr: "check_common_request bound q n assignment = Inr () \<longleftrightarrow> request_admitted bound q assignment"
proof (cases assignment)
  case None
  then show ?thesis
    by (auto simp: check_common_request_def request_admitted_def result_simps dest: matches_request_validates)
next
  case (Some authorize)
  then show ?thesis
    by (cases "authorize q") (auto simp: check_common_request_def request_admitted_def result_simps dest: matches_request_validates)
qed

lemma keep_Inr [result_simps]: "keep P code cs = Inr ds \<longleftrightarrow> ds = filter P cs \<and> ds \<noteq> []"
  by (auto simp: keep_def Let_def)

text \<open>The stages together are one filter.\<close>

lemma usable_candidates_Inr:
  assumes "\<forall>c \<in> set cs. cc_service_id c = cq_service_id q \<and> cc_capability c = cq_capability q"
  shows "usable_candidates bound q cs = Inr ds \<longleftrightarrow> ds = filter (usable bound q) cs \<and> ds \<noteq> []"
proof -
  have "filter candidate_ready (filter (\<lambda>c. common_policy_allows (cq_route_policy q) (cc_transport c))
      (filter (\<lambda>c. cc_configuration_version c = sp_policy_generation bound)
      (filter (\<lambda>c. cc_binding_epoch c = sp_binding_epoch bound) (filter (\<lambda>c. cc_trust_state c = TrustTrusted)
      (filter (identity_expected q) (filter (shared_with q) (filter (\<lambda>c. scope_of_candidate c bound) cs)))))))
    = filter (usable bound q) cs"
    unfolding filter_filter by (rule filter_cong) (use assms in \<open>auto simp: usable_def\<close>)
  then show ?thesis unfolding usable_candidates_def res_bind_Inr_iff keep_Inr by (metis filter.simps(1))
qed

lemma usable_capable: "filter (usable bound q) (filter (\<lambda>c. cc_service_id c = cq_service_id q \<and> cc_capability c = cq_capability q) cs)
    = filter (usable bound q) cs"
  unfolding filter_filter by (rule filter_cong) (auto simp: usable_def)

lemma usable_of_capable:
  "usable_candidates bound q (filter (\<lambda>c. cc_service_id c = cq_service_id q \<and> cc_capability c = cq_capability q) cs) = Inr ds
   \<longleftrightarrow> ds = filter (usable bound q) cs \<and> ds \<noteq> []"
  using usable_candidates_Inr [of "filter (\<lambda>c. cc_service_id c = cq_service_id q \<and> cc_capability c = cq_capability q) cs" q bound ds]
  unfolding usable_capable by simp

lemma resolve_common_connectivity_eq:
  "cn_selected (resolve_common_connectivity bound q cs assignment)
   = (if request_admitted bound q assignment
      then first_of (sort_key (candidate_order (cq_route_policy q)) (filter (usable bound q) cs)) else None)"
proof (cases "check_common_request bound q (length cs) assignment")
  case (Inl e)
  then have "\<not> request_admitted bound q assignment" using check_common_request_Inr [of bound q "length cs" assignment] by auto
  with Inl show ?thesis by (cases e) (simp add: resolve_common_connectivity_def failed_def)
next
  case (Inr u)
  let ?capable = "filter (\<lambda>c. cc_service_id c = cq_service_id q \<and> cc_capability c = cq_capability q) cs"
  have adm: "request_admitted bound q assignment" using Inr check_common_request_Inr [of bound q "length cs" assignment] by simp
  show ?thesis
  proof (cases "usable_candidates bound q ?capable")
    case (Inl code)
    have "filter (usable bound q) cs = []"
    proof (rule ccontr)
      assume "filter (usable bound q) cs \<noteq> []"
      then have "usable_candidates bound q ?capable = Inr (filter (usable bound q) cs)"
        by (simp only: usable_of_capable simp_thms not_False_eq_True)
      with Inl show False by simp
    qed
    with Inl Inr adm show ?thesis by (simp add: resolve_common_connectivity_def failed_def first_of_def Let_def)
  next
    case ok: (Inr ds)
    have "ds = filter (usable bound q) cs" "ds \<noteq> []" using iffD1 [OF usable_of_capable ok] by blast+
    moreover from this have "?capable \<noteq> []" using usable_capable [of bound q cs] by (metis filter.simps(1))
    ultimately show ?thesis using ok Inr adm by (simp add: resolve_common_connectivity_def Let_def)
  qed
qed

lemma first_sorted_None: "first_of (sort_key f xs) = None \<longleftrightarrow> xs = []"
  by (cases "sort_key f xs") (auto simp: first_of_def dest: arg_cong [of _ _ length])

lemma first_sorted_Some: "first_of (sort_key f xs) = Some x \<Longrightarrow> x \<in> set xs \<and> (\<forall>y \<in> set xs. f x \<le> f y)"
  by (cases "sort_key f xs") (auto simp: first_of_def dest!: sort_key_hd_min)

section \<open>What a signature binds\<close>

lemma same_signed_text:
  assumes "crypto_ok c" "json_ok v" "json_ok w"
    and "domain_separated_canonical c d v = Inr text" "domain_separated_canonical c d' w = Inr text"
  shows "d = d' \<and> sort_members v = sort_members w"
proof -
  have texts: "canonical_json (tc_esc c) (JObject [(''domain'', JString d), (''payload'', v)]) = text"
    "canonical_json (tc_esc c) (JObject [(''domain'', JString d'), (''payload'', w)]) = text"
    using assms(4,5) by (auto simp: domain_separated_canonical_def domain_separated_envelope_def split: if_splits)
  have "sort_members (JObject [(''domain'', JString d), (''payload'', v)]) = sort_members (JObject [(''domain'', JString d'), (''payload'', w)])"
    using json_text_unique [of "tc_esc c" "sort_members (JObject [(''domain'', JString d), (''payload'', v)])"
        "sort_members (JObject [(''domain'', JString d'), (''payload'', w)])" "[]" "[]"] assms(1-3) texts
    by (simp add: canonical_json_eq crypto_ok_def json_ok_sort_members del: sort_members.simps)
  then show ?thesis by (simp add: same_object del: sort_members.simps) simp
qed

lemma json_ok_admission [simp]: "json_ok (admission_json a)"
  by (cases "ha_allowed_capabilities a"; cases "ha_trust_bundle_id a") (simp_all add: admission_json_def opt_member_def)

lemma json_ok_relay_bodies [simp]: "json_ok (relay_body_json b)" "json_ok (relay_body_v2_json b2)"
  by (simp_all add: relay_body_json_def relay_body_v2_json_def scope_json_def subject_json_def issuer_json_def)

text \<open>The text of a signed admission is that of no relay snapshot: the domains differ.\<close>

lemma admission_is_no_snapshot:
  assumes "crypto_ok c" "verify_signature_in_domain c host_admission_domain (admission_json a) sig key = Inr ()"
  shows "domain_separated_canonical c relay_snapshot_domain (relay_body_json b)
      \<noteq> domain_separated_canonical c host_admission_domain (admission_json a)"
    "domain_separated_canonical c relay_snapshot_v2_domain (relay_body_v2_json b2)
      \<noteq> domain_separated_canonical c host_admission_domain (admission_json a)"
proof -
  obtain t where t: "domain_separated_canonical c host_admission_domain (admission_json a) = Inr t"
    using assms(2) by (auto simp: verify_signature_in_domain_def result_simps)
  have "domain_separated_canonical c d v \<noteq> Inr t" if "json_ok v" "d \<noteq> host_admission_domain" for d v
    using same_signed_text [OF assms(1) that(1) json_ok_admission _ t, of d] that(2) by auto
  then show "domain_separated_canonical c relay_snapshot_domain (relay_body_json b)
      \<noteq> domain_separated_canonical c host_admission_domain (admission_json a)"
    "domain_separated_canonical c relay_snapshot_v2_domain (relay_body_v2_json b2)
      \<noteq> domain_separated_canonical c host_admission_domain (admission_json a)"
    unfolding t by (simp_all add: relay_snapshot_domain_def relay_snapshot_v2_domain_def host_admission_domain_def)
qed

lemma authorized_capabilities:
  "authorize_requested_capabilities authorize q = Inr caps \<Longrightarrow>
   caps = hq_requested_capabilities q \<and> caps \<noteq> [] \<and> (\<forall>x \<in> set caps. \<not> isl (authorize (capability_request q x)))"
proof -
  have map: "res_map (\<lambda>x. res_bind (authorize (capability_request q x)) (\<lambda>_. Inr x)) xs = Inr ys \<Longrightarrow>
      ys = xs \<and> (\<forall>x \<in> set xs. \<not> isl (authorize (capability_request q x)))" for xs ys
    by (induction xs arbitrary: ys) (auto simp: result_simps)
  assume "authorize_requested_capabilities authorize q = Inr caps"
  then show ?thesis using map by (auto simp: authorize_requested_capabilities_def split: if_splits)
qed

section \<open>Properties\<close>

text \<open>
  C37. The pipeline finds a route exactly when there is one: a request that is admitted gets a
  candidate if and only if one is usable, and the one it gets is usable and first in the order of
  transport, priority, endpoint and service among all that are; a request that is not admitted gets none.
\<close>

theorem common_resolution_sound_complete:
  "(cn_selected (resolve_common_connectivity bound q cs assignment) = None
     \<longleftrightarrow> \<not> (request_admitted bound q assignment \<and> (\<exists>c \<in> set cs. usable bound q c)))
   \<and> (\<forall>c. cn_selected (resolve_common_connectivity bound q cs assignment) = Some c \<longrightarrow>
       c \<in> set cs \<and> usable bound q c
       \<and> (\<forall>d \<in> set cs. usable bound q d \<longrightarrow> candidate_order (cq_route_policy q) c \<le> candidate_order (cq_route_policy q) d))"
proof (intro conjI allI impI)
  show "cn_selected (resolve_common_connectivity bound q cs assignment) = None
     \<longleftrightarrow> \<not> (request_admitted bound q assignment \<and> (\<exists>c \<in> set cs. usable bound q c))"
    by (auto simp: resolve_common_connectivity_eq first_sorted_None filter_empty_conv)
  fix c assume "cn_selected (resolve_common_connectivity bound q cs assignment) = Some c"
  then have "c \<in> set (filter (usable bound q) cs)
      \<and> (\<forall>d \<in> set (filter (usable bound q) cs). candidate_order (cq_route_policy q) c \<le> candidate_order (cq_route_policy q) d)"
    by (intro first_sorted_Some) (simp add: resolve_common_connectivity_eq split: if_splits)
  then show "c \<in> set cs" "usable bound q c"
    "\<forall>d \<in> set cs. usable bound q d \<longrightarrow> candidate_order (cq_route_policy q) c \<le> candidate_order (cq_route_policy q) d"
    by auto
qed

text \<open>
  C38. A signed admission is authorised and bound: client, organisation, site and host are those of
  the verified binding of the host, the epoch is the binding's, the key and the fingerprint are its
  own; it is in time, with the times and the nonce of the request, for exactly the requested
  capabilities, each granted by the authorizer, with the identity of the trust bundle. Its signature
  verifies with the key of the host, and its signed text is that of no relay snapshot, of either version.
\<close>

theorem signed_admission_is_authorized:
  assumes "crypto_ok c" "b64_plain c" "sign_host_identity_admission c secret b q g now authorize bundle = Inr s"
  shows "hb_verified b \<and> ha_protocol_version (hs_admission s) = 3
    \<and> ha_client_id (hs_admission s) = trim (the (hb_client_id b))
    \<and> ha_organization_id (hs_admission s) = trim (hb_organization_id b)
    \<and> ha_site_id (hs_admission s) = trim (the (hb_site_id b))
    \<and> ha_host_id (hs_admission s) = trim (the (hb_host_id b)) \<and> ha_binding_epoch (hs_admission s) = hb_binding_epoch b
    \<and> ha_host_identity_key_id (hs_admission s) = signer_key_id c secret
    \<and> (\<exists>identity. host_admission_signing_identity c secret = Inr identity
        \<and> trim (ha_host_identity_fingerprint (hs_admission s)) = su_fingerprint identity)
    \<and> ha_issued_at (hs_admission s) = hq_issued_at q \<and> ha_expires_at (hs_admission s) = hq_expires_at q
    \<and> ha_issued_at (hs_admission s) < ha_expires_at (hs_admission s)
    \<and> now < ha_expires_at (hs_admission s) \<and> ha_issued_at (hs_admission s) \<le> now + 60
    \<and> ha_nonce (hs_admission s) = hq_nonce q \<and> \<not> is_blank (hq_nonce q)
    \<and> ha_allowed_capabilities (hs_admission s) = Some (hq_requested_capabilities q) \<and> hq_requested_capabilities q \<noteq> []
    \<and> (\<forall>x \<in> set (hq_requested_capabilities q). \<not> isl (authorize (capability_request q x)))
    \<and> ha_trust_bundle_id (hs_admission s) = non_blank bundle \<and> non_blank bundle \<noteq> None
    \<and> hs_signer_key_id s = signer_key_id c secret \<and> hs_public_key s = signer_public_key c secret
    \<and> verify_signature_in_domain c host_admission_domain (admission_json (hs_admission s)) (hs_signature s) (hs_public_key s) = Inr ()
    \<and> (\<forall>body. domain_separated_canonical c relay_snapshot_domain (relay_body_json body)
        \<noteq> domain_separated_canonical c host_admission_domain (admission_json (hs_admission s)))
    \<and> (\<forall>body. domain_separated_canonical c relay_snapshot_v2_domain (relay_body_v2_json body)
        \<noteq> domain_separated_canonical c host_admission_domain (admission_json (hs_admission s)))"
proof -
  obtain identity scope caps bundle_id signature where
    identity: "host_admission_signing_identity c secret = Inr identity" and scope: "scope_from_binding b g = Inr scope"
    and check: "check_admission_request identity b q now = Inr ()"
    and caps: "authorize_requested_capabilities authorize q = Inr caps"
    and chosen: "admission_bundle_id (hq_trust_bundle_id q) bundle = Inr bundle_id"
    and signed: "sign_domain_separated c secret host_admission_domain (admission_json (admission_of identity scope b q caps bundle_id)) = Inr signature"
    and s: "s = \<lparr> hs_admission = admission_of identity scope b q caps bundle_id, hs_signature = signature,
        hs_signer_key_id = su_key_id identity, hs_public_key = su_public_key identity \<rparr>"
    using assms(3) unfolding sign_host_identity_admission_def Let_def res_bind_Inr_iff by (elim exE conjE) (rule that, auto)
  have key: "su_key_id identity = signer_key_id c secret" "su_public_key identity = signer_public_key c secret"
    using identity by (auto simp: host_admission_signing_identity_def Let_def result_simps)
  have verified: "verify_signature_in_domain c host_admission_domain (admission_json (hs_admission s)) (hs_signature s) (hs_public_key s) = Inr ()"
    using signed_in_domain_verifies [OF assms(1,2) signed] by (simp add: s key)
  note other = admission_is_no_snapshot [OF assms(1) verified]
  have checked: "now < hq_expires_at q" "hq_issued_at q \<le> now + 60" "hq_issued_at q < hq_expires_at q"
    "\<not> is_blank (hq_nonce q)" "trim (hq_host_identity_fingerprint q) = su_fingerprint identity"
    using check by (auto simp: check_admission_request_def result_simps not_le not_less split: if_splits)
  have b: "non_blank bundle = Some bundle_id"
    using chosen by (auto simp: admission_bundle_id_def split: option.splits if_splits)
  have granted: "caps = hq_requested_capabilities q" "hq_requested_capabilities q \<noteq> []"
    "\<forall>x \<in> set (hq_requested_capabilities q). \<not> isl (authorize (capability_request q x))"
    using authorized_capabilities [OF caps] by blast+
  show ?thesis
    using scope_from_binding_Inr [OF scope] granted checked verified other b identity
    by (simp add: s admission_of_def key)
qed

text \<open>
  C39. The supervisor never signs an admission: its command always asks the authorizer that is not
  available, so every request ends in an error, whatever the host, its trust and the request are.
\<close>

theorem admission_command_never_signs:
  "\<exists>code. sign_host_identity_admission_command c secret w q = Inl code"
proof (cases "sign_host_identity_admission_command c secret w q")
  case (Inr s)
  have none: "authorize_requested_capabilities unavailable_authorizer q \<noteq> Inr caps" for caps
    using authorized_capabilities [of unavailable_authorizer q caps] by (auto simp: unavailable_authorizer_def neq_Nil_conv)
  from Inr none show ?thesis
    by (auto simp: sign_host_identity_admission_command_def sign_host_identity_admission_def result_simps)
qed simp

end
