(* ===== verification/Store_Scenario.thy ===== *)
theory Store_Scenario
  imports Trust_Store
begin

text \<open>
  The properties of the trust store at work: the store of a host that knows the root of the example
  hierarchy starts on an empty disk and installs bundles of several epochs; writes fail, bundles
  expire and activations are repeated.
\<close>

section \<open>The store, its files and the crates\<close>

definition store_path :: string where
  "store_path = ''/var/lib/actium/node-manager/trust/trust-bundle.json''"

text \<open>The file of epoch \<open>e\<close> with a predecessor of epoch \<open>l\<close>; the epoch 0 stands for none.\<close>

definition scenario_lkg :: "u64 \<Rightarrow> signed_trust_bundle option" where
  "scenario_lkg l = (if l = 0 then None else Some (example_signed_at l))"

definition scenario_digest :: "u64 \<Rightarrow> string" where
  "scenario_digest e = trust_bundle_digest example_crypto (sb_bundle (example_signed_at e))"

definition scenario_file :: "u64 \<Rightarrow> u64 \<Rightarrow> trust_store_file" where
  "scenario_file e l = \<lparr> tf_schema_version = 3, tf_environment = environment_text Stable, tf_current_epoch = e,
     tf_trust_store_id = Some ''id'', tf_authority_binding = Some (authority_binding (example_signed_at e)),
     tf_bundle = example_signed_at e, tf_lkg_bundle = scenario_lkg l,
     tf_lkg_digest = (if l = 0 then None else Some (scenario_digest l)), tf_center_transitions = [] \<rparr>"

definition file_lkg_epoch :: "trust_store_file \<Rightarrow> u64" where
  "file_lkg_epoch f = (case tf_lkg_bundle f of None \<Rightarrow> 0 | Some sb \<Rightarrow> tb_trust_epoch (sb_bundle sb))"

definition scenario_store :: "u64 \<Rightarrow> u64 \<Rightarrow> supervisor_trust_store" where
  "scenario_store e l = (if e = 0 then empty_store store_path Stable [example_root]
     else opened_store example_crypto store_path Stable [example_root] (scenario_file e l))"

text \<open>The text of a file is the characters of its two epochs.\<close>

definition epoch_char :: "u64 \<Rightarrow> char" where
  "epoch_char e = char_of (unat e)"

definition char_epoch :: "char \<Rightarrow> u64" where
  "char_epoch x = of_nat (of_char x)"

lemma char_epoch: "e < 256 \<Longrightarrow> char_epoch (epoch_char e) = e"
  by (simp add: char_epoch_def epoch_char_def word_less_nat_alt)

definition scenario_crates :: store_crates where
  "scenario_crates = \<lparr> sc_file_text = (\<lambda>f. let e = tf_current_epoch f; l = file_lkg_epoch f in
       if f = scenario_file e l \<and> e < 256 \<and> l < 256 then Inr [epoch_char e, epoch_char l] else Inl ''unknown''),
     sc_bundle_text = (\<lambda>sb. Inr ''lkg''),
     sc_read_file = (\<lambda>t. case t of [x, y] \<Rightarrow> Inr (scenario_file (char_epoch x) (char_epoch y)) | _ \<Rightarrow> Inl ''no file''),
     sc_uuid_ok = (\<lambda>i. True), sc_metadata = (\<lambda>p. Inr None), sc_owner = 0 \<rparr>"

definition scenario_call :: "store_fault \<Rightarrow> store_world" where
  "scenario_call fault = \<lparr> wd_lkg_fault = NoStoreFault, wd_fault = fault, wd_uuid = ''id'', wd_started = 120, wd_completed = 120 \<rparr>"

lemma scenario_call_fields [simp]:
  "wd_lkg_fault (scenario_call fault) = NoStoreFault" "wd_fault (scenario_call fault) = fault"
  "wd_uuid (scenario_call fault) = ''id''"
  by (simp_all add: scenario_call_def)

lemma scenario_crates_ok: "store_crates_ok scenario_crates"
  by (auto simp: store_crates_ok_def scenario_crates_def Let_def char_epoch split: if_splits)

lemma scenario_bundle_text [simp]: "sc_bundle_text scenario_crates sb = Inr ''lkg''"
  by (simp add: scenario_crates_def)

lemma scenario_place:
  "validate_trust_store_path Stable store_path = Inr ()" "with_file_name store_path ''trust-bundle.lkg.json'' \<noteq> store_path"
  by code_simp+

lemma scenario_open: "open_for_environment example_crypto scenario_crates 120 store_path Stable [example_root] Map.empty
    = Inr (scenario_store 0 0)"
proof -
  have "path_components store_path \<noteq> []" by code_simp
  then have "validate_store_permissions scenario_crates store_path = Inr ()"
    by (simp add: validate_store_permissions_def Let_def res_each_Inr check_ancestor_def scenario_crates_def)
  then show ?thesis by (simp add: open_for_environment_def scenario_place scenario_store_def)
qed

lemma example_epoch [simp]: "tb_trust_epoch (sb_bundle (example_signed_at e)) = e"
  by (simp add: example_signed_at_def example_bundle_at_def)

lemma scenario_text:
  "e < 256 \<Longrightarrow> l < 256 \<Longrightarrow> sc_file_text scenario_crates (scenario_file e l) = Inr [epoch_char e, epoch_char l]"
  by (simp add: scenario_crates_def scenario_file_def file_lkg_epoch_def scenario_lkg_def)

lemma scenario_store_fields [simp]:
  "st_path (scenario_store e l) = store_path" "st_bootstrap_roots (scenario_store e l) = [example_root]"
  "st_environment (scenario_store e l) = Stable"
  "st_current_epoch (scenario_store e l) = e" "st_center_transitions (scenario_store e l) = []"
  "st_bundle (scenario_store e l) = scenario_lkg e"
  "st_digest (scenario_store e l) = (if e = 0 then None else Some (scenario_digest e))"
  "e \<noteq> 0 \<Longrightarrow> st_lkg_bundle (scenario_store e l) = scenario_lkg l"
  "st_lkg_bundle (scenario_store 0 l) = None" "st_lkg_digest (scenario_store 0 l) = None"
  by (simp_all add: scenario_store_def empty_store_def opened_store_def scenario_file_def scenario_digest_def scenario_lkg_def)

lemma scenario_store_ok: "store_ok example_crypto (scenario_store e l)"
  by (simp add: store_ok_def scenario_lkg_def scenario_digest_def)

section \<open>Installing\<close>

lemma scenario_may_install: "0 < e' \<Longrightarrow> e \<le> e' \<Longrightarrow> may_install example_crypto (example_signed_at e') 120 (scenario_store e l) = Inr ()"
  by (auto simp: may_install_def fail_if_def example_bundle_accepted scenario_digest_def)

lemma scenario_next_file:
  assumes "0 < e'"
  shows "\<exists>n. file_for_bundle ''id'' (example_signed_at e') e' (scenario_lkg e) (if e = 0 then None else Some (scenario_digest e))
      (scenario_store e l) = (n, scenario_file e' e)
    \<and> installed_store example_crypto (example_signed_at e') (scenario_lkg e) (if e = 0 then None else Some (scenario_digest e)) n
      = scenario_store e' e"
  using assms
  by (auto simp: file_for_bundle_def Let_def scenario_file_def scenario_store_def installed_store_def opened_store_def
      empty_store_def unwrap_or_def opt_or_def scenario_lkg_def scenario_digest_def)

text \<open>The disk before the file is written: the predecessor is kept beside it.\<close>

definition with_lkg :: "u64 \<Rightarrow> disk \<Rightarrow> disk" where
  "with_lkg e d = (if e = 0 then d else d(with_file_name store_path ''trust-bundle.lkg.json'' \<mapsto> ''lkg''))"

lemma scenario_install:
  assumes "0 < e'" "e \<le> e'" "e' < 256"
  shows "install example_crypto scenario_crates (scenario_call fault) (example_signed_at e') 120 (scenario_store e l, d)
    = (case write_atomic fault store_path [epoch_char e', epoch_char e] (with_lkg e d) of
        (d', Inl x) \<Rightarrow> ((scenario_store e l, d'), Inl x)
      | (d', Inr _) \<Rightarrow> ((scenario_store e' e, d'), Inr (store_status (scenario_store e' e))))"
proof -
  obtain n where n: "file_for_bundle ''id'' (example_signed_at e') e' (scenario_lkg e) (if e = 0 then None else Some (scenario_digest e))
      (scenario_store e l) = (n, scenario_file e' e)"
    "installed_store example_crypto (example_signed_at e') (scenario_lkg e) (if e = 0 then None else Some (scenario_digest e)) n
      = scenario_store e' e"
    using scenario_next_file [OF assms(1)] by blast
  have l: "opt_or (scenario_lkg e) (st_lkg_bundle (scenario_store e l)) = scenario_lkg e"
    "opt_or (if e = 0 then None else Some (scenario_digest e)) (st_lkg_digest (scenario_store e l))
      = (if e = 0 then None else Some (scenario_digest e))"
    by (auto simp: opt_or_def scenario_lkg_def)
  have w: "write_lkg example_crypto scenario_crates (scenario_call fault) (lkg_path (scenario_store e l)) (scenario_lkg e)
      (if e = 0 then None else Some (scenario_digest e)) d = (with_lkg e d, Inr ())"
    by (simp add: write_lkg_def scenario_lkg_def with_lkg_def lkg_path_def scenario_digest_def)
  have t: "sc_file_text scenario_crates (scenario_file e' e) = Inr [epoch_char e', epoch_char e]"
    using assms by (intro scenario_text) auto
  show ?thesis
    by (simp only: install_def prod.case scenario_may_install [OF assms(1,2)] sum.case Let_def scenario_store_fields l w example_epoch
        scenario_call_fields n commit_store_def write_file_def t)
qed

lemmas scenario_steps = scenario_install [of 1 0] scenario_install [of 2 1] scenario_install [of 3 1] scenario_install [of 1 1]

definition scenario_calls :: "store_call list" where
  "scenario_calls = [CallInstall (scenario_call NoStoreFault) (example_signed_at 1) 120,
     CallInstall (scenario_call NoStoreFault) (example_signed_at 3) 120]"

lemma scenario_runs: "\<exists>d. run_calls example_crypto scenario_crates scenario_calls (scenario_store 0 0, Map.empty) = (scenario_store 3 1, d)"
  by (simp add: run_calls_def scenario_calls_def scenario_steps)

lemma scenario_calls_synced: "\<forall>x \<in> set scenario_calls. wd_fault (call_world x) \<noteq> DirectorySyncFails"
  by (simp add: scenario_calls_def)

section \<open>The properties at work\<close>

theorem store_refines_ledger_witness:
  "rtranclp ledger_step None (Some (3, scenario_digest 3))"
proof -
  obtain d where "run_calls example_crypto scenario_crates scenario_calls (scenario_store 0 0, Map.empty) = (scenario_store 3 1, d)"
    using scenario_runs by blast
  from store_refines_ledger [OF scenario_open this] show ?thesis
    by (simp add: ledger_of_def scenario_lkg_def scenario_digest_def)
qed

theorem disk_follows_store_witness:
  "\<exists>d. run_calls example_crypto scenario_crates scenario_calls (scenario_store 0 0, Map.empty) = (scenario_store 3 1, d)
     \<and> disk_ledger example_crypto scenario_crates store_path d = Some (3, scenario_digest 3)"
proof -
  obtain d where d: "run_calls example_crypto scenario_crates scenario_calls (scenario_store 0 0, Map.empty) = (scenario_store 3 1, d)"
    using scenario_runs by blast
  from disk_follows_store [OF scenario_crates_ok scenario_open d scenario_calls_synced scenario_place(2)] d show ?thesis
    by (auto simp: ledger_of_def scenario_lkg_def scenario_digest_def)
qed

theorem stale_material_blocks_reopen_witness:
  "\<exists>d e. run_calls example_crypto scenario_crates scenario_calls (scenario_store 0 0, Map.empty) = (scenario_store 3 1, d)
     \<and> open_for_environment example_crypto scenario_crates 2000 store_path Stable [example_root] d = Inl e"
proof -
  obtain d where d: "run_calls example_crypto scenario_crates scenario_calls (scenario_store 0 0, Map.empty) = (scenario_store 3 1, d)"
    using scenario_runs by blast
  have "tb_expires_at (sb_bundle (example_signed_at 1)) = Some 1000" by (simp add: example_signed_at_def example_bundle_at_def)
  then have "\<exists>lkg v. st_lkg_bundle (scenario_store 3 1) = Some lkg \<and> tb_expires_at (sb_bundle lkg) = Some v \<and> v < (2000 :: u64)"
    by (simp add: scenario_lkg_def)
  from stale_material_blocks_reopen [OF scenario_crates_ok scenario_open d scenario_calls_synced scenario_place(2) disjI1 [OF this]] d
  show ?thesis by blast
qed

theorem failed_sync_rolls_disk_back_witness:
  "\<exists>d s2 d2. install example_crypto scenario_crates (scenario_call DirectorySyncFails) (example_signed_at 3) 120
      (scenario_store 1 0, Map.empty) = ((scenario_store 1 0, d), Inl ''TRUST_STORE_SYNC_FAILED'')
    \<and> disk_ledger example_crypto scenario_crates store_path d = Some (3, scenario_digest 3)
    \<and> install example_crypto scenario_crates (scenario_call NoStoreFault) (example_signed_at 2) 120
        (scenario_store 1 0, d) = ((s2, d2), Inr (store_status s2))
    \<and> disk_ledger example_crypto scenario_crates store_path d2 = Some (2, scenario_digest 2)"
proof -
  obtain d where d: "install example_crypto scenario_crates (scenario_call DirectorySyncFails) (example_signed_at 3) 120
      (scenario_store 1 0, Map.empty) = ((scenario_store 1 0, d), Inl ''TRUST_STORE_SYNC_FAILED'')" "d store_path \<noteq> None"
    by (simp add: scenario_steps)
  obtain n where n: "file_for_bundle ''id'' (example_signed_at 2) 2 (scenario_lkg 1) (Some (scenario_digest 1))
      (scenario_store 1 0) = (n, scenario_file 2 1)"
    using scenario_next_file [of 2 1 0] by auto
  have l: "opt_or (scenario_lkg 1) x = scenario_lkg 1" for x by (simp add: opt_or_def scenario_lkg_def)
  have t: "sc_file_text scenario_crates (scenario_file 2 1) = Inr [epoch_char 2, epoch_char 1]" by (intro scenario_text) auto
  have v: "verify_signed_trust_bundle_with_bootstrap example_crypto (example_signed_at 2) 120 1 [example_root] = Inr ()"
    by (rule example_bundle_accepted) simp_all
  from failed_sync_rolls_disk_back [OF scenario_crates_ok _ d(1), of "example_signed_at 2" 120
      "scenario_call NoStoreFault" n "scenario_file 2 1"] d n l t v scenario_place(2)
  show ?thesis by (simp add: lkg_path_def scenario_digest_def) blast
qed

theorem first_trust_is_anchored_witness:
  "verify_signed_trust_bundle_with_bootstrap example_crypto (example_signed_at 1) 120 0 [example_root] = Inr ()"
proof -
  obtain d where d: "call_effect example_crypto scenario_crates (scenario_store 0 0, Map.empty)
      (CallInstall (scenario_call NoStoreFault) (example_signed_at 1) 120) = (scenario_store 1 0, d)"
    by (simp add: scenario_steps)
  from first_trust_is_anchored [OF _ d] show ?thesis by (simp add: scenario_lkg_def)
qed

theorem reinstall_loses_predecessor_witness:
  "\<exists>d. fst (install example_crypto scenario_crates (scenario_call NoStoreFault) (example_signed_at 1) 120 (scenario_store 1 0, Map.empty)) = (scenario_store 1 1, d)
     \<and> st_lkg_bundle (scenario_store 1 1) = Some (example_signed_at 1)"
proof -
  obtain d status where d: "install example_crypto scenario_crates (scenario_call NoStoreFault) (example_signed_at 1) 120
      (scenario_store 0 0, Map.empty) = ((scenario_store 1 0, d), Inr status)"
    by (simp add: scenario_steps)
  obtain d' status' where d': "install example_crypto scenario_crates (scenario_call NoStoreFault) (example_signed_at 1) 120
      (scenario_store 1 0, d) = ((scenario_store 1 1, d'), Inr status')"
    by (simp add: scenario_steps)
  from reinstall_loses_predecessor [OF d d'] show ?thesis by (simp add: scenario_steps)
qed

section \<open>A repeated activation\<close>

definition served_store :: "signed_trust_bundle \<Rightarrow> supervisor_trust_store" where
  "served_store sb = opened_store example_crypto store_path Stable [example_root]
     ((scenario_file 1 0)\<lparr>tf_bundle := sb, tf_current_epoch := tb_trust_epoch (sb_bundle sb)\<rparr>)"

definition activation_request :: "signed_trust_bundle \<Rightarrow> center_transition \<Rightarrow> refresh_request" where
  "activation_request sb t = \<lparr> hr_contract = host_trust_convergence_contract, hr_transition = t, hr_bundle = sb,
     hr_expected_digest = trust_bundle_digest example_crypto (sb_bundle sb), hr_authority_generation = 1,
     hr_activation_generation = 1, hr_channel = ''stable'' \<rparr>"

lemma served_fields [simp]:
  "st_bundle (served_store sb) = Some sb" "st_current_epoch (served_store sb) = tb_trust_epoch (sb_bundle sb)"
  "st_digest (served_store sb) = Some (trust_bundle_digest example_crypto (sb_bundle sb))"
  "st_bootstrap_roots (served_store sb) = [example_root]"
  by (simp_all add: served_store_def opened_store_def)

lemma scenario_bundle_at_epoch:
  assumes "scenario_bundle = (s, Inr sb)"
  shows "verify_signed_trust_bundle_with_bootstrap example_crypto sb 120 (tb_trust_epoch (sb_bundle sb)) [example_root] = Inr ()"
proof -
  have e: "tb_trust_epoch (sb_bundle sb) = au_trust_epoch scenario"
    using assms by (auto simp: scenario_bundle_def service_trust_bundle_def Let_def result_simps assemble_bundle_def
        split: sum.splits if_splits)
  show ?thesis unfolding e
    by (rule reached_bundle_verifies [where s = scenario and root = example_root_authority and anchor = example_root,
          OF example_crypto_ok scenario_ok scenario_fits _ _ _ _ _ assms [unfolded scenario_bundle_def]])
      (simp_all add: scenario_found example_statuses example_members example_root_def anchor_reaches_def)
qed

theorem repeated_activation_changes_nothing_witness:
  "\<exists>sb s t. snd scenario_bundle = Inr sb \<and> scenario_reissue = Some (s, Inr t)
     \<and> fst (activate_successor example_crypto scenario_crates (scenario_call NoStoreFault) (activation_request sb t) 500
         (served_store sb, Map.empty)) = (served_store sb, Map.empty)"
proof -
  obtain s sb where b: "scenario_bundle = (s, Inr sb)" using scenario_bundle_issued by blast
  obtain s2 t where t: "scenario_reissue = Some (s2, Inr t)" "ct_successor_key_id t = kd_key_id scenario_new_key"
    using scenario_reissued by blast
  have v: "verify_center_authority_transition example_crypto t sb 120 = Inr ()"
    using reissue_on_earlier_bundle [where s = scenario and root = example_root_authority and later = 120,
        OF example_crypto_ok scenario_world_ok scenario_ok scenario_fits _ _ b [unfolded scenario_bundle_def]
        scenario_self_run t(1) [unfolded scenario_reissue_def]] scenario_new_key_fresh t(2)
    by (simp add: scenario_found example_statuses example_members scenario_request_def)
  have channel: "normalize_lifecycle_channel (Some ''stable'') = Inr ''stable''" by code_simp
  have a: "\<exists>x. activate_successor example_crypto scenario_crates (scenario_call NoStoreFault) (activation_request sb t) 120
      (served_store sb, Map.empty) = ((served_store sb, Map.empty), Inr x)"
    using v scenario_bundle_at_epoch [OF b]
    by (simp add: activate_successor_def may_activate_def activation_request_def channel already_served_def result_simps fail_if_def)
  then obtain x where x: "activate_successor example_crypto scenario_crates (scenario_call NoStoreFault) (activation_request sb t) 120
      (served_store sb, Map.empty) = ((served_store sb, Map.empty), Inr x)" ..
  have "store_ok example_crypto (fst (served_store sb, Map.empty :: disk))" by (simp add: store_ok_def)
  from repeated_activation_changes_nothing [OF x this, of "scenario_call NoStoreFault" 500] have "fst (activate_successor
      example_crypto scenario_crates (scenario_call NoStoreFault) (activation_request sb t) 500 (served_store sb, Map.empty))
      = (served_store sb, Map.empty)" ..
  then show ?thesis using b t(1) by (metis snd_conv)
qed

end
