(* ===== verification/Connectivity_Scenario.thy ===== *)
theory Connectivity_Scenario
  imports Connectivity_Client Store_Scenario
begin

text \<open>
  A concrete deployment that enrols a host and evaluates its trust: the hierarchy of the examples
  with an enrolment authority, the two envelopes it answers with, and the host's own claims. The
  theorems of enrolment, of connectivity trust and of the relay's snapshots are applied to it.
\<close>

section \<open>A bundle with an enrolment authority\<close>

definition example_enroller :: authority_descriptor where
  "example_enroller = example_issue example_center ''enroller'' EnrollmentAuthority
     [authority_capability EnrollmentAuthority]"

definition enrolling_bundle :: trust_bundle where
  "enrolling_bundle = (example_bundle_at 1)\<lparr>tb_enrollment_authorities := [example_enroller]\<rparr>"

definition enrolling_signed :: signed_trust_bundle where
  "enrolling_signed = \<lparr> sb_bundle = enrolling_bundle,
     sb_signature = tc_sign example_crypto ''root'' (trust_bundle_payload example_crypto enrolling_bundle),
     sb_signing_key_id = ''key-root'', sb_algorithm = trust_fabric_algorithm \<rparr>"

lemma enrolling_authorities: "bundle_authorities enrolling_bundle = [example_root_authority, example_deployment,
    example_deployment_root, example_center, example_enroller, example_release, example_signer]"
  by (simp add: bundle_authorities_def enrolling_bundle_def example_bundle_at_def example_root_def)

lemma enrolling_members: "set (bundle_authorities enrolling_bundle) = insert example_enroller (set example_hierarchy)"
  by (auto simp: enrolling_authorities example_hierarchy_def)

lemma enroller_fields [simp]:
  "ad_authority_id example_enroller = ''enroller''" "ad_key_id example_enroller = ''key-enroller''"
  "ad_kind example_enroller = EnrollmentAuthority" "ad_status example_enroller = Active"
  "ad_public_key example_enroller = tc_public example_crypto ''enroller''" "ad_fingerprint example_enroller = ''fp''"
  by (simp_all add: example_enroller_def example_issue_def)

lemma center_fields [simp]:
  "ad_authority_id example_center = ''center''" "ad_key_id example_center = ''key-center''"
  "ad_kind example_center = CenterAuthority" "ad_status example_center = Active"
  "ad_public_key example_center = tc_public example_crypto ''center''" "ad_fingerprint example_center = ''fp''"
  by (simp_all add: example_center_def example_issue_def)

lemma enrolling_distinct: "distinct (map ad_authority_id (bundle_authorities enrolling_bundle))"
proof -
  have "map ad_authority_id (bundle_authorities enrolling_bundle)
      = map ad_authority_id (take 4 example_hierarchy) @ [''enroller''] @ map ad_authority_id (drop 4 example_hierarchy)"
    by (simp add: enrolling_authorities example_hierarchy_def)
  then show ?thesis by (simp only: take_map [symmetric] drop_map [symmetric] example_ids) simp
qed

lemma enrolling_found: "a \<in> set (bundle_authorities enrolling_bundle) \<Longrightarrow>
    find_authority (bundle_authorities enrolling_bundle) (ad_authority_id a) = Some a"
  unfolding find_authority_def by (rule find_key_distinct) (simp add: enrolling_distinct)

lemma enrolling_trusted:
  "\<forall>a \<in> set (bundle_authorities enrolling_bundle). trusted example_crypto (bundle_authorities enrolling_bundle) [] 120 a"
proof -
  have chain: "\<forall>a \<in> set example_hierarchy. trusted example_crypto (bundle_authorities enrolling_bundle) [] 120 a"
    by (rule example_hierarchy_trusted_in) (simp add: enrolling_found enrolling_members)
  have center: "example_center \<in> set example_hierarchy" by (simp add: example_hierarchy_def)
  then have found: "find_authority (bundle_authorities enrolling_bundle) (ad_authority_id example_center) = Some example_center"
    by (intro enrolling_found) (simp add: enrolling_members)
  have may: "may_issue example_center EnrollmentAuthority" "ad_public_key example_center = tc_public example_crypto (ad_authority_id example_center)"
    by (simp_all add: may_issue_def example_center_def example_issue_def)
  have "trusted example_crypto (bundle_authorities enrolling_bundle) [] 120 example_enroller"
    unfolding example_enroller_def
    by (rule example_issue_trusted [OF bspec [OF chain center] found may]) simp
  then show ?thesis using chain by (simp add: enrolling_members)
qed

lemma enrolling_accepted:
  "verify_signed_trust_bundle_with_bootstrap example_crypto enrolling_signed 120 1 [example_root] = Inr ()"
proof -
  have root: "find_root enrolling_bundle ''key-root'' = Some example_root"
    using example_find_root [of 1] by (simp add: find_root_def enrolling_bundle_def)
  have "signed_by example_crypto (ad_public_key example_root_authority)
      (trust_bundle_payload example_crypto enrolling_bundle) (sb_signature enrolling_signed)"
    by (simp add: example_root_authority_def enrolling_signed_def example_signature)
  then have "acceptable_bundle example_crypto enrolling_signed 120 1"
    using enrolling_trusted enrolling_distinct root
    unfolding acceptable_bundle_def Let_def
    by (simp add: enrolling_signed_def)
      (simp add: enrolling_bundle_def example_bundle_at_def example_root_def example_root_authority_def)
  then have "verify_signed_trust_bundle example_crypto enrolling_signed 120 1 = Inr ()"
    by (simp add: verify_bundle_acceptable)
  then show ?thesis
    by (simp add: verify_signed_trust_bundle_with_bootstrap_def enrolling_signed_def root directly_anchored_def)
qed

section \<open>The enrolment of a host\<close>

text \<open>What the two envelopes carry; only the readers look inside.\<close>

definition center_document :: json where
  "center_document = JString ''center''"

definition package_document :: json where
  "package_document = JString ''package''"

definition example_challenge :: enrollment_challenge where
  "example_challenge = \<lparr> eh_schema_version = 1, eh_purpose = ''HOST_ENROLL'',
     eh_ticket_hash = hex_bytes (''hen_'' @ replicate 43 CHR ''a''), eh_client_id = ''client'', eh_organization_id = ''org'',
     eh_site_id = ''site'', eh_host_id = ''host'', eh_host_installation_id = ''installation'', eh_binding_epoch = 7,
     eh_nonce = ''nonce-of-sixteen'', eh_issued_at = 100, eh_expires_at = 400, eh_environment = ''test'' \<rparr>"

definition example_claims :: proof_claims where
  "example_claims = claims_for example_challenge (signer_public_key example_crypto ''host'')"

definition example_ack :: ack_claims where
  "example_ack = ack_for example_crypto ''host'' example_claims ''n1''
     (signed_envelope_digest example_crypto (supervisor_envelope example_crypto ''enroller'' package_document)) 130"

definition example_center_bundle :: center_bundle where
  "example_center_bundle = \<lparr> cb_issuer_id = ''center'', cb_kid = ''key-center'',
     cb_center_public_key = tc_public example_crypto ''enroller'', cb_issued_at = 110, cb_expires_at = 900,
     cb_binding_epoch = 9, cb_trust_bundle_digest = None \<rparr>"

text \<open>The package is for another organisation and epoch than the challenge.\<close>

definition example_package :: enrollment_package where
  "example_package = \<lparr> ep_issuer_id = ''enroller'', ep_kid = ''key-enroller'', ep_host_installation_id = ''installation'',
     ep_enrollment_nonce = ''n1'', ep_node_public_key = signer_public_key example_crypto ''host'',
     ep_supervisor_public_key = None, ep_client_id = Some ''client'', ep_organization_id = ''other-org'',
     ep_site_id = Some ''site'', ep_host_id = Some ''host'', ep_deployment_id = None, ep_binding_epoch = 9,
     ep_expires_at = 900 \<rparr>"

definition enrolling_crates :: enrollment_crates where
  "enrolling_crates = \<lparr>
     ec_center = (\<lambda>t. if t = canonical_json quote_escape center_document then Some example_center_bundle else None),
     ec_package = (\<lambda>t. if t = canonical_json quote_escape package_document then Some example_package else None),
     ec_proof = (\<lambda>t. if t = canonical_json quote_escape (proof_json example_claims) then Some example_claims else None),
     ec_ack = (\<lambda>t. if t = canonical_json quote_escape (ack_json example_ack) then Some example_ack else None) \<rparr>"

definition example_proof :: signed_envelope where
  "example_proof = supervisor_envelope example_crypto ''host'' (proof_json example_claims)"

definition example_application :: apply_request where
  "example_application = \<lparr> ar_center_bundle = supervisor_envelope example_crypto ''center'' center_document,
     ar_enrollment_package = supervisor_envelope example_crypto ''enroller'' package_document,
     ar_enrollment_nonce = ''n1'', ar_node_public_key = signer_public_key example_crypto ''host'',
     ar_challenge = example_challenge, ar_proof = Some example_proof \<rparr>"

definition example_apply_world :: apply_world where
  "example_apply_world = \<lparr> aw_bundle = Some enrolling_signed, aw_host = Inr (Some ''installation''), aw_now = 120,
     aw_applied_at = 130, aw_read = Inr (), aw_save = Inr () \<rparr>"

lemma example_esc [simp]: "tc_esc example_crypto = quote_escape" "tc_b64_encode example_crypto s = s"
  "tc_b64_decode example_crypto s = Some s"
  by (simp_all add: example_crypto_def)

lemma example_keys [simp]: "signer_public_key example_crypto s = tc_public example_crypto s"
  by (simp add: signer_public_key_def)

lemma example_envelope_verifies [simp]:
  "verify_authority_envelope example_crypto (tc_public example_crypto s) (supervisor_envelope example_crypto s v)
     = Inr (canonical_json quote_escape v)"
  using supervisor_envelope_verifies [OF example_crypto_ok, of s v] by simp

lemma example_payload [simp]: "se_payload (supervisor_envelope example_crypto s v) = canonical_json quote_escape v"
  by (simp add: supervisor_envelope_def)

lemma enrolling_reads [simp]: "ec_center enrolling_crates (canonical_json quote_escape center_document) = Some example_center_bundle"
  "ec_package enrolling_crates (canonical_json quote_escape package_document) = Some example_package"
  "ec_proof enrolling_crates (canonical_json quote_escape (proof_json example_claims)) = Some example_claims"
  "ec_ack enrolling_crates (canonical_json quote_escape (ack_json example_ack)) = Some example_ack"
  by (simp_all add: enrolling_crates_def)

lemma example_claims_fields: "pc_purpose example_claims = ''HOST_ENROLL''" "pc_issued_at example_claims = 100"
  "pc_expires_at example_claims = 400"
  by (simp_all add: example_claims_def claims_for_def example_challenge_def)

lemma example_proof_verified:
  "verify_enrollment_proof example_crypto enrolling_crates example_proof (tc_public example_crypto ''host'') example_claims 120 = Inr ()"
  by (simp add: verify_enrollment_proof_def example_proof_def example_claims_fields)

definition example_enrolled :: enrolled_authority where
  "example_enrolled = \<lparr> ea_center = example_center_bundle, ea_enrollment = example_package,
     ea_center_identity = Some \<lparr> ai_authority_id = ''center'', ai_kind = CenterAuthority, ai_key_id = ''key-center'',
       ai_public_key = tc_public example_crypto ''center'', ai_fingerprint = ''fp'' \<rparr>,
     ea_enrollment_identity = Some \<lparr> ai_authority_id = ''enroller'', ai_kind = EnrollmentAuthority, ai_key_id = ''key-enroller'',
       ai_public_key = tc_public example_crypto ''enroller'', ai_fingerprint = ''fp'' \<rparr> \<rparr>"

lemma example_public_not_blank: "\<not> is_blank (tc_public example_crypto ''center'')" "\<not> is_blank (tc_public example_crypto ''enroller'')"
  by code_simp+

lemma enrolling_served: "served_center enrolling_signed example_center_bundle = Some example_center"
  "served_enroller enrolling_signed example_package = Some example_enroller"
  by (simp_all add: served_center_def served_enroller_def enrolling_signed_def enrolling_bundle_def
      example_bundle_at_def example_center_bundle_def example_package_def)

lemma example_identities:
  "identity_from_descriptor CenterAuthority example_center = Inr (the (ea_center_identity example_enrolled))"
  "identity_from_descriptor EnrollmentAuthority example_enroller = Inr (the (ea_enrollment_identity example_enrolled))"
proof -
  have "\<not> is_blank ''center''" "\<not> is_blank ''key-center''" "\<not> is_blank ''fp''" "\<not> is_blank ''enroller''"
    "\<not> is_blank ''key-enroller''" by code_simp+
  then show "identity_from_descriptor CenterAuthority example_center = Inr (the (ea_center_identity example_enrolled))"
    "identity_from_descriptor EnrollmentAuthority example_enroller = Inr (the (ea_enrollment_identity example_enrolled))"
    by (simp_all add: identity_from_descriptor_def example_enrolled_def example_public_not_blank)
qed

lemma example_enrolls:
  "enroll_with_trust_bundle example_crypto enrolling_crates enrolling_signed (ar_center_bundle example_application)
     (ar_enrollment_package example_application) example_proof ''installation'' ''n1'' (tc_public example_crypto ''host'')
     example_claims 120 = Inr example_enrolled"
proof -
  have envelopes: "ar_center_bundle example_application = supervisor_envelope example_crypto ''center'' center_document"
    "ar_enrollment_package example_application = supervisor_envelope example_crypto ''enroller'' package_document"
    by (simp_all add: example_application_def)
  have center: "cb_expires_at example_center_bundle = 900" "cb_binding_epoch example_center_bundle = 9"
    "cb_center_public_key example_center_bundle = tc_public example_crypto ''enroller''"
    "cb_trust_bundle_digest example_center_bundle = None"
    by (simp_all add: example_center_bundle_def)
  have package: "ep_expires_at example_package = 900" "ep_binding_epoch example_package = 9"
    "ep_host_installation_id example_package = ''installation''" "ep_enrollment_nonce example_package = ''n1''"
    "ep_node_public_key example_package = tc_public example_crypto ''host''"
    by (simp_all add: example_package_def)
  show ?thesis
    by (simp add: enroll_with_trust_bundle_def example_proof_verified envelopes decode_payload_def enrolling_served
        check_package_def example_identities center package)
      (simp add: example_enrolled_def)
qed

definition example_state_after :: enrollment_state where
  "example_state_after = \<lparr> es_enrolled = Some example_enrolled, es_consumed_nonces = [''n1''], es_consumed_jtis = [] \<rparr>"

definition example_response :: ack_response where
  "example_response = \<lparr> kr_ack = supervisor_envelope example_crypto ''host'' (ack_json example_ack),
     kr_supervisor_public_key = tc_public example_crypto ''host'', kr_supervisor_key_id = signer_key_id example_crypto ''host'',
     kr_enrollment_nonce = ''n1'',
     kr_package_digest = signed_envelope_digest example_crypto (ar_enrollment_package example_application),
     kr_binding_epoch = pc_binding_epoch example_claims \<rparr>"

lemma example_applies:
  "enrollment_apply example_crypto enrolling_crates ''host'' example_apply_world example_application enrollment_state_new
    = (example_state_after, Inr example_response)"
proof -
  have request: "ar_enrollment_nonce example_application = ''n1''"
    "ar_node_public_key example_application = tc_public example_crypto ''host''"
    "ar_challenge example_application = example_challenge" "ar_proof example_application = Some example_proof"
    "eh_host_installation_id example_challenge = ''installation''"
    by (simp_all add: example_application_def example_challenge_def)
  have w: "aw_bundle example_apply_world = Some enrolling_signed" "aw_host example_apply_world = Inr (Some ''installation'')"
    "aw_now example_apply_world = 120" "aw_read example_apply_world = Inr ()" "aw_save example_apply_world = Inr ()"
    by (simp_all add: example_apply_world_def)
  have claims: "claims_for example_challenge (tc_public example_crypto ''host'') = example_claims"
    by (simp add: example_claims_def)
  have payloads: "decode_payload example_crypto (ar_enrollment_package example_application) e = Inr (canonical_json quote_escape package_document)"
    "decode_payload example_crypto example_proof e = Inr (canonical_json quote_escape (proof_json example_claims))" for e
    by (simp_all add: decode_payload_def example_application_def example_proof_def)
  have fields: "ep_enrollment_nonce example_package = ''n1''" "ep_node_public_key example_package = tc_public example_crypto ''host''"
    by (simp_all add: example_package_def)
  have read: "read_application example_crypto enrolling_crates ''host'' example_apply_world example_application
    = Inr (enrolling_signed, ''installation'', example_proof, example_claims)"
    by (simp add: read_application_def w request payloads claims fields)
  have ack: "ack_for example_crypto ''host'' example_claims ''n1''
      (signed_envelope_digest example_crypto (ar_enrollment_package example_application)) (aw_applied_at example_apply_world) = example_ack"
    by (simp add: example_ack_def example_application_def example_apply_world_def)
  show ?thesis
    by (simp add: enrollment_apply_def read w request example_enrolls enrollment_state_new_def ack)
      (simp add: example_state_after_def example_response_def)
qed

section \<open>The theorems at the scenario\<close>

theorem enrolled_once_and_vouched_witness:
  "\<exists>es e. run_applications example_crypto enrolling_crates ''host'' [(example_apply_world, example_application)] enrollment_state_new = es
     \<and> es_enrolled es = Some e \<and> es_consumed_nonces es = [''n1'']
     \<and> run_applications example_crypto enrolling_crates ''host'' [(example_apply_world, example_application)] es = es"
proof -
  have run: "run_applications example_crypto enrolling_crates ''host'' [(example_apply_world, example_application)] enrollment_state_new
      = example_state_after"
    by (simp add: run_applications_def example_applies)
  have enrolled: "es_enrolled example_state_after = Some example_enrolled" "es_consumed_nonces example_state_after = [''n1'']"
    by (simp_all add: example_state_after_def)
  from enrolled_once_and_vouched [OF run enrolled(1)] run enrolled show ?thesis by blast
qed

definition example_ticket :: string where
  "example_ticket = ''hen_'' @ replicate 43 CHR ''a''"

lemma example_proves:
  obtains resp where "enrollment_proof example_crypto ''host'' (Inr (Some ''installation'')) example_ticket example_challenge 120 = Inr resp"
    "pr_supervisor_public_key resp = tc_public example_crypto ''host''"
proof -
  have "trim example_ticket = example_ticket" "\<not> ticket_malformed example_ticket"
    unfolding example_ticket_def by code_simp+
  moreover have "\<not> challenge_invalid example_challenge (hex_bytes example_ticket) ''installation'' 120"
    unfolding example_ticket_def example_challenge_def by code_simp
  moreover have "tc_sha example_crypto x = x" for x by (simp add: example_crypto_def)
  ultimately show thesis using that by (simp add: enrollment_proof_def Let_def)
qed

theorem own_proof_is_accepted_witness:
  "\<exists>resp :: proof_response. verify_enrollment_proof example_crypto enrolling_crates (pr_proof resp) (pr_supervisor_public_key resp)
     example_claims 399 = Inr ()"
proof -
  obtain resp where resp: "enrollment_proof example_crypto ''host'' (Inr (Some ''installation'')) example_ticket example_challenge 120 = Inr resp"
    "pr_supervisor_public_key resp = tc_public example_crypto ''host''" by (rule example_proves)
  have claims: "claims_for example_challenge (tc_public example_crypto ''host'') = example_claims" by (simp add: example_claims_def)
  then have "reads_proof example_crypto enrolling_crates (claims_for example_challenge (signer_public_key example_crypto ''host''))"
    by (simp add: reads_proof_def)
  moreover have "eh_issued_at example_challenge \<le> 399 + 60" "399 < eh_expires_at example_challenge"
    by (simp_all add: example_challenge_def)
  ultimately have "verify_enrollment_proof example_crypto enrolling_crates (pr_proof resp) (pr_supervisor_public_key resp)
      example_claims 399 = Inr ()"
    using own_proof_is_accepted [OF example_crypto_ok _ resp(1), of enrolling_crates 399] resp(2) claims by auto
  then show ?thesis by blast
qed

theorem acknowledged_scope_is_the_challenge_witness:
  "ac_organization_id example_ack = ''org'' \<and> hb_organization_id (host_binding_of example_enrolled) = ''other-org''
   \<and> verify_enrollment_ack example_crypto enrolling_crates (kr_ack example_response)
       (kr_supervisor_public_key example_response) example_ack 200 = Inr ()"
proof -
  have parts: "ar_challenge example_application = example_challenge" "ar_enrollment_nonce example_application = ''n1''"
    "aw_applied_at example_apply_world = 130"
    by (simp_all add: example_application_def example_apply_world_def)
  have ack: "ack_for example_crypto ''host'' (claims_for (ar_challenge example_application) (signer_public_key example_crypto ''host''))
      (ar_enrollment_nonce example_application) (kr_package_digest example_response) (aw_applied_at example_apply_world) = example_ack"
    by (simp add: parts example_response_def example_ack_def example_claims_def)
      (simp add: example_application_def)
  have "reads_ack example_crypto enrolling_crates example_ack" by (simp add: reads_ack_def)
  with acknowledged_scope_is_the_challenge [OF example_crypto_ok example_applies, of 200]
  have "verify_enrollment_ack example_crypto enrolling_crates (kr_ack example_response)
       (kr_supervisor_public_key example_response) example_ack 200 = Inr ()"
    unfolding ack by (simp add: parts)
  moreover have "ac_organization_id example_ack = ''org''"
    by (simp add: example_ack_def ack_for_def example_claims_def claims_for_def example_challenge_def)
  moreover have "hb_organization_id (host_binding_of example_enrolled) = ''other-org''"
    by (simp add: host_binding_of_def example_enrolled_def example_package_def Let_def)
  ultimately show ?thesis by blast
qed

theorem enrolled_host_is_trusted_witness:
  "\<exists>d. evaluate_canonical_connectivity_trust (host_binding_of example_enrolled) (view_of_bundle enrolling_signed) (Inr 3)
     (Some 9) 1000 = Inr d \<and> dt_trust_state d = TrustTrusted"
proof -
  have "\<not> is_blank ''set-120''" by code_simp
  then have "\<not> is_blank (tb_trust_bundle_id (sb_bundle enrolling_signed))"
    "\<forall>v. tb_expires_at (sb_bundle enrolling_signed) = Some v \<longrightarrow> 1000 \<le> v"
    by (simp_all add: enrolling_signed_def enrolling_bundle_def example_bundle_at_def)
  moreover have "ep_binding_epoch (ea_enrollment example_enrolled) = 9" by (simp add: example_enrolled_def example_package_def)
  ultimately show ?thesis using enrolled_host_is_trusted [OF enrolling_accepted example_enrolls, of 1000 3] by simp
qed

theorem trusted_connectivity_iff_witness:
  "\<not> (\<exists>d. evaluate_canonical_connectivity_trust (host_binding_of example_enrolled) (view_of_bundle enrolling_signed) (Inr 3)
     (Some 9) 1001 = Inr d \<and> dt_trust_state d = TrustTrusted)"
proof -
  have "tv_expires_at (view_of_bundle enrolling_signed) = Some 1000"
    by (simp add: view_of_bundle_def enrolling_signed_def enrolling_bundle_def example_bundle_at_def Let_def)
  then show ?thesis by (simp add: trusted_connectivity_iff)
qed

section \<open>A relay\<close>

text \<open>An encoding whose alphabet has no white space at the ends of a word.\<close>

definition plain_crypto :: trust_crypto where
  "plain_crypto = example_crypto\<lparr>tc_b64_encode := \<lambda>x. CHR ''b'' # x @ ''b'',
     tc_b64_decode := \<lambda>x. if x = [] then None else Some (butlast (tl x))\<rparr>"

lemma plain_crypto_ok: "crypto_ok plain_crypto"
  using example_crypto_ok by (simp add: crypto_ok_def plain_crypto_def butlast_append)

lemma plain_b64: "b64_plain plain_crypto"
proof -
  have "trim (CHR ''b'' # x @ ''b'') = CHR ''b'' # x @ ''b''" for x
  proof (rule trim_id)
    show "ws_len (CHR ''b'' # x @ ''b'') = 0"
      by (auto simp: ws_len_def is_ascii_ws_def ws_pair_def ws_triple_def split: list.split)
    show "ws_len_rev (rev (CHR ''b'' # x @ ''b'')) = 0"
      by (auto simp: ws_len_rev_def is_ascii_ws_def ws_pair_def ws_triple_def e2_80_ws_def split: list.split)
  qed
  then show ?thesis by (simp add: b64_plain_def plain_crypto_def)
qed

definition example_intent :: sign_intent where
  "example_intent = \<lparr> in_relay_identity = ''relay'', in_nonce = ''n'', in_not_before = 100, in_not_after = 400,
     in_snapshot_id = None \<rparr>"

definition host_key_id :: string where
  "host_key_id = signer_key_id plain_crypto ''host''"

definition host_issuer :: relay_issuer where
  "host_issuer = \<lparr> ri_key_id = host_key_id, ri_public_key = signer_public_key plain_crypto ''host'',
     ri_public_identity = host_key_id, ri_purpose = relay_snapshot_issuer_purpose, ri_status = ''ACTIVE'' \<rparr>"

definition enrolled_scope :: connectivity_scope where
  "enrolled_scope = \<lparr> sp_contract = canonical_scope_contract,
     sp_client_id = ''client'', sp_organization_id = ''other-org'', sp_site_id = ''site'', sp_host_id = ''host'',
     sp_binding_epoch = 9, sp_policy_generation = 3 \<rparr>"

lemma example_scope: "scope_from_binding (host_binding_of example_enrolled) 3 = Inr enrolled_scope"
proof -
  have trims: "trim ''client'' = ''client''" "trim ''other-org'' = ''other-org''" "trim ''site'' = ''site''" "trim ''host'' = ''host''"
    by code_simp+
  have valid: "is_valid_for_role CenterAuthority (the (ea_center_identity example_enrolled))"
    "is_valid_for_role EnrollmentAuthority (the (ea_enrollment_identity example_enrolled))"
    using example_identities by (auto simp: identity_from_descriptor_Inr)
  then show ?thesis
    by (simp add: scope_from_binding_def host_binding_of_def required_id_def trims Let_def)
      (simp add: example_enrolled_def example_package_def required_id_def trims enrolled_scope_def)
qed

lemma enrolled_scope_valid: "validate_scope enrolled_scope = Inr ()"
  unfolding canonical_scope_contract_def validate_scope_def enrolled_scope_def by code_simp

lemma example_binding_epoch: "hb_binding_epoch (host_binding_of example_enrolled) = 9"
  by (simp add: host_binding_of_def example_enrolled_def example_package_def Let_def)

lemma example_derives:
  obtains s where "derive_relay_trust_snapshot plain_crypto ''host'' (host_binding_of example_enrolled) example_intent 3 TrustTrusted 120 = Inr s"
proof -
  have intent: "check_intent example_intent 120 = Inr ()" unfolding example_intent_def by code_simp
  have blank: "\<not> is_blank (trim (in_relay_identity example_intent))" "\<not> is_blank (intent_snapshot_id example_intent)"
    "\<not> is_blank (trim (in_nonce example_intent))" "in_not_before example_intent < in_not_after example_intent"
    unfolding example_intent_def by code_simp+
  have domain: "\<not> is_blank relay_snapshot_domain" by code_simp
  have scope: "sp_binding_epoch enrolled_scope = 9" "sp_policy_generation enrolled_scope = 3" by (simp_all add: enrolled_scope_def)
  show thesis
    by (rule that) (simp add: derive_relay_trust_snapshot_def example_scope intent publish_relay_trust_snapshot_def check_publishable_def
      enrolled_scope_valid blank not_le signer_identity [OF plain_crypto_ok plain_b64] sign_domain_separated_def
      domain_separated_envelope_def domain example_binding_epoch scope fail_if_def Let_def)
qed

lemma host_issuer_resolved: "memory_resolve [host_issuer] (signer_key_id plain_crypto ''host'') = Inr host_issuer"
proof -
  have "trim host_key_id = host_key_id" "host_key_id \<noteq> []" unfolding host_key_id_def by code_simp+
  moreover have "issuer_status ''ACTIVE'' host_issuer = Inr host_issuer" by (simp add: issuer_status_def) code_simp
  ultimately show ?thesis by (simp add: memory_resolve_def host_key_id_def [symmetric] Let_def) (simp add: host_issuer_def)
qed

lemma host_issuer_fields: "ri_key_id host_issuer = signer_key_id plain_crypto ''host''"
  "ri_public_key host_issuer = signer_public_key plain_crypto ''host''"
  "ri_public_identity host_issuer = signer_key_id plain_crypto ''host''"
  by (simp_all add: host_issuer_def host_key_id_def)

lemma example_intent_window: "in_not_before example_intent \<le> 430 + 60" "430 \<le> in_not_after example_intent + 60"
  "trim (in_nonce example_intent) = ''n''"
proof -
  have "trim ''n'' = ''n''" by code_simp
  then show "in_not_before example_intent \<le> 430 + 60" "430 \<le> in_not_after example_intent + 60"
    "trim (in_nonce example_intent) = ''n''" by (simp_all add: example_intent_def)
qed

theorem derived_snapshot_is_accepted_witness:
  "\<exists>s. verify_snapshot plain_crypto (memory_resolve [host_issuer]) 60 s 430 {} = ({''n''}, Inr (host_of_snapshot s))
     \<and> ht_organization_id (host_of_snapshot s) = trim ''other-org''"
proof -
  obtain s where s: "derive_relay_trust_snapshot plain_crypto ''host'' (host_binding_of example_enrolled) example_intent 3 TrustTrusted 120 = Inr s"
    by (rule example_derives)
  have "hb_organization_id (host_binding_of example_enrolled) = ''other-org''"
    by (simp add: host_binding_of_def example_enrolled_def example_package_def Let_def)
  with derived_snapshot_is_accepted [where resolve = "memory_resolve [host_issuer]" and now = 430 and skew = 60 and seen = "{}",
      OF plain_crypto_ok plain_b64 s host_issuer_resolved host_issuer_fields]
  show ?thesis using example_intent_window by (intro exI [of _ s]) simp
qed

text \<open>A view whose centre signs with the key of the scenario's host.\<close>

definition relay_authority :: authority_descriptor where
  "relay_authority = example_center\<lparr>ad_key_id := host_key_id, ad_public_key := signer_public_key plain_crypto ''host'',
     ad_fingerprint := host_key_id\<rparr>"

definition relay_view :: trust_view where
  "relay_view = \<lparr> tv_ready = True, tv_bundle_id = Some ''b'', tv_trust_epoch = Some 1, tv_expires_at = None,
     tv_authorities = [relay_authority], tv_revocations = [] \<rparr>"

lemma relay_view_resolved: "view_resolve relay_view (signer_key_id plain_crypto ''host'') = Inr host_issuer"
proof -
  have "trim host_key_id = host_key_id" "host_key_id \<noteq> []" unfolding host_key_id_def by code_simp+
  moreover have "ad_key_id relay_authority = host_key_id" "ad_status relay_authority = Active"
    "issuer_of relay_authority = host_issuer"
    by (simp_all add: relay_authority_def issuer_of_def host_issuer_def)
  ultimately show ?thesis
    by (simp add: view_resolve_def host_key_id_def [symmetric] status_for_def relay_view_def revoked_key_def Let_def)
qed

text \<open>The same snapshot twice: the first is accepted, the second is a replay.\<close>

theorem relay_accepts_fresh_vouched_witness:
  "\<exists>s h. ((s, 430), Inr h) \<in> set (run_verifier plain_crypto (view_resolve relay_view) 60 {} [(s, 430), (s, 430)])
     \<and> accepted_nonces (run_verifier plain_crypto (view_resolve relay_view) 60 {} [(s, 430), (s, 430)]) = [''n'']
     \<and> verify_snapshot_signature_with_key plain_crypto s (ad_public_key relay_authority) = Inr ()"
proof -
  obtain s where s: "derive_relay_trust_snapshot plain_crypto ''host'' (host_binding_of example_enrolled) example_intent 3 TrustTrusted 120 = Inr s"
    by (rule example_derives)
  from derived_verifies [where resolve = "view_resolve relay_view" and now = 430 and skew = 60 and seen = "{}",
      OF plain_crypto_ok plain_b64 s relay_view_resolved host_issuer_fields]
  have first: "verify_snapshot plain_crypto (view_resolve relay_view) 60 s 430 {} = ({''n''}, Inr (host_of_snapshot s))"
    using example_intent_window by simp
  then have nonce: "rb_nonce (sn_body s) = ''n''" by (auto simp: verify_snapshot_Inr)
  let ?run = "run_verifier plain_crypto (view_resolve relay_view) 60 {} [(s, 430), (s, 430)]"
  have accepted: "((s, 430), Inr (host_of_snapshot s)) \<in> set ?run" by (simp add: first split: prod.split)
  obtain r where r: "verify_snapshot plain_crypto (view_resolve relay_view) 60 s 430 {''n''} = r" by blast
  have "isl (snd r)"
    using verify_snapshot_Inr [of plain_crypto "view_resolve relay_view" 60 s 430 "{''n''}" "fst r"] nonce r
    by (cases "snd r") (auto simp: prod_eq_iff)
  then have "accepted_nonces ?run = [''n'']"
    using nonce by (cases r) (simp add: accepted_nonces_def first r)
  moreover have "tv_authorities relay_view = [relay_authority]" by (simp add: relay_view_def)
  with conjunct2 [OF relay_accepts_fresh_vouched, rule_format, OF accepted]
  have "verify_snapshot_signature_with_key plain_crypto s (ad_public_key relay_authority) = Inr ()" by simp
  ultimately show ?thesis using accepted by blast
qed

theorem far_future_snapshot_is_stale_witness:
  "\<exists>s :: relay_snapshot. rb_not_after (sn_body s) = 2 ^ 64 - 1
     \<and> (\<exists>e. verify_snapshot plain_crypto unavailable_resolve 60 s 100 {} = ({}, Inl e))"
proof -
  obtain s where "derive_relay_trust_snapshot plain_crypto ''host'' (host_binding_of example_enrolled) example_intent 3 TrustTrusted 120 = Inr s"
    by (rule example_derives)
  let ?s = "s\<lparr>sn_body := (sn_body s)\<lparr>rb_not_after := 2 ^ 64 - 1\<rparr>\<rparr>"
  have end_of_time: "rb_not_after (sn_body ?s) = 2 ^ 64 - 1" by simp
  have "2 ^ 64 \<le> unat (rb_not_after (sn_body ?s)) + unat (60 :: u64)" unfolding end_of_time by simp
  from far_future_snapshot_is_stale [OF this, of 100 plain_crypto unavailable_resolve "{}"] end_of_time
  show ?thesis by (intro exI [of _ ?s]) simp
qed

section \<open>A provider of hosts\<close>

definition center_issuer :: relay_issuer_v2 where
  "center_issuer = \<lparr> rj_authority_id = ''center'', rj_key_id = signer_key_id plain_crypto ''center'',
     rj_public_key = signer_public_key plain_crypto ''center'', rj_fingerprint = signer_key_id plain_crypto ''center'',
     rj_purpose = relay_snapshot_issuer_purpose, rj_status = ''TRUSTED'' \<rparr>"

definition snapshot_scope :: connectivity_scope where
  "snapshot_scope = \<lparr> sp_contract = canonical_scope_contract, sp_client_id = ''client'', sp_organization_id = ''org'',
     sp_site_id = ''site'', sp_host_id = ''host'', sp_binding_epoch = 9, sp_policy_generation = 3 \<rparr>"

definition example_body_v2 :: relay_body_v2 where
  "example_body_v2 = \<lparr> rv_contract = relay_snapshot_v2_contract, rv_snapshot_id = ''snap'', rv_relay_identity = ''relay'',
     rv_scope = snapshot_scope, rv_trust_state = TrustTrusted, rv_binding_epoch = 9, rv_policy_generation = 3,
     rv_not_before = 100, rv_not_after = 400, rv_nonce = ''n'',
     rv_subject = \<lparr> su_key_id = host_key_id, su_public_key = signer_public_key plain_crypto ''host'', su_fingerprint = host_key_id \<rparr>,
     rv_issuer = \<lparr> si_authority_id = ''center'', si_key_id = signer_key_id plain_crypto ''center'',
       si_public_key = signer_public_key plain_crypto ''center'', si_fingerprint = signer_key_id plain_crypto ''center'' \<rparr> \<rparr>"

definition example_snapshot_v2 :: relay_snapshot_v2 where
  "example_snapshot_v2 = \<lparr> sw_body = example_body_v2, sw_payload_digest = snapshot_payload_digest_v2 plain_crypto example_body_v2,
     sw_signature = (case sign_domain_separated plain_crypto ''center'' relay_snapshot_v2_domain (relay_body_v2_json example_body_v2) of
       Inr signature \<Rightarrow> signature | Inl e \<Rightarrow> []) \<rparr>"

lemma example_snapshot_v2_checked: "check_snapshot_v2 plain_crypto (memory_resolve_v2 [center_issuer]) example_snapshot_v2 = Inr ()"
proof -
  have body: "validate_v2_body plain_crypto example_body_v2 = Inr ()"
  proof -
    have blank: "\<not> is_blank ''relay''" "\<not> is_blank ''snap''" "\<not> is_blank ''n''" "\<not> is_blank ''center''" by code_simp+
    have valid: "validate_scope snapshot_scope = Inr ()"
      unfolding canonical_scope_contract_def validate_scope_def snapshot_scope_def by code_simp
    have keys: "\<not> is_blank (signer_key_id plain_crypto ''host'')" "\<not> is_blank (signer_public_key plain_crypto ''host'')"
      "\<not> is_blank (signer_key_id plain_crypto ''center'')" "\<not> is_blank (signer_public_key plain_crypto ''center'')"
      by code_simp+
    show ?thesis
      by (simp add: validate_v2_body_def example_body_v2_def check_publishable_def valid blank keys fail_if_def host_key_id_def
          signer_identity [OF plain_crypto_ok plain_b64])
        (simp add: snapshot_scope_def)
  qed
  have resolved: "memory_resolve_v2 [center_issuer] ''center'' (signer_key_id plain_crypto ''center'') = Inr center_issuer"
  proof -
    have "trim (signer_key_id plain_crypto ''center'') = signer_key_id plain_crypto ''center''" "trim ''center'' = ''center''"
      "signer_key_id plain_crypto ''center'' \<noteq> []" by code_simp+
    moreover have "issuer_status ''TRUSTED'' center_issuer = Inr center_issuer" by (simp add: issuer_status_def) code_simp
    ultimately show ?thesis by (simp add: memory_resolve_v2_def Let_def) (simp add: center_issuer_def)
  qed
  have domain: "\<not> is_blank relay_snapshot_v2_domain" by code_simp
  then have "sign_domain_separated plain_crypto ''center'' relay_snapshot_v2_domain (relay_body_v2_json example_body_v2)
      = Inr (sw_signature example_snapshot_v2)"
    by (simp add: example_snapshot_v2_def sign_domain_separated_def domain_separated_envelope_def)
  then have "verify_snapshot_signature_v2 plain_crypto example_snapshot_v2 (signer_public_key plain_crypto ''center'') = Inr ()"
    unfolding verify_snapshot_signature_v2_def
    by (intro signed_in_domain_verifies [OF plain_crypto_ok plain_b64]) (simp add: example_snapshot_v2_def)
  moreover have "sw_body example_snapshot_v2 = example_body_v2"
    "sw_payload_digest example_snapshot_v2 = snapshot_payload_digest_v2 plain_crypto example_body_v2"
    "rv_issuer example_body_v2 = \<lparr> si_authority_id = ''center'', si_key_id = signer_key_id plain_crypto ''center'',
       si_public_key = signer_public_key plain_crypto ''center'', si_fingerprint = signer_key_id plain_crypto ''center'' \<rparr>"
    by (simp_all add: example_snapshot_v2_def) (simp add: example_body_v2_def)
  ultimately show ?thesis
    by (simp add: check_snapshot_v2_def Let_def body resolved signer_identity [OF plain_crypto_ok plain_b64])
      (simp add: center_issuer_def signer_identity [OF plain_crypto_ok plain_b64])
qed

theorem provider_resolves_uniquely_witness:
  "\<exists>hosts. from_snapshots_v2 plain_crypto (memory_resolve_v2 [center_issuer]) 430 [example_snapshot_v2] = Inr hosts
     \<and> resolve_canonical_host_scope hosts snapshot_scope = Inr (Some (host_of_snapshot_v2 example_snapshot_v2))"
proof -
  have body: "sw_body example_snapshot_v2 = example_body_v2" by (simp add: example_snapshot_v2_def)
  have blank: "\<not> is_blank ''n''" by code_simp
  have "verify_snapshot_v2 plain_crypto (memory_resolve_v2 [center_issuer]) max_clock_skew example_snapshot_v2 430 {}
      = ({''n''}, Inr (host_of_snapshot_v2 example_snapshot_v2))"
    unfolding verify_snapshot_v2_Inr using blank
    by (simp add: example_snapshot_v2_checked body) (simp add: example_body_v2_def max_clock_skew_def)
  then have hosts: "from_snapshots_v2 plain_crypto (memory_resolve_v2 [center_issuer]) 430 [example_snapshot_v2]
      = Inr [host_of_snapshot_v2 example_snapshot_v2]"
    by (simp add: from_snapshots_v2_def)
  have valid: "validate_scope snapshot_scope = Inr ()"
    unfolding canonical_scope_contract_def validate_scope_def snapshot_scope_def by code_simp
  have "in_scope snapshot_scope (host_of_snapshot_v2 example_snapshot_v2)"
    by (simp add: in_scope_def host_of_snapshot_v2_def body Let_def) (simp add: example_body_v2_def)
  then have found: "resolve_canonical_host_scope [host_of_snapshot_v2 example_snapshot_v2] snapshot_scope
      = Inr (Some (host_of_snapshot_v2 example_snapshot_v2))"
    by (simp add: resolve_canonical_host_scope_def valid)
  from provider_resolves_uniquely [OF hosts valid] hosts found show ?thesis by simp
qed

section \<open>A product\<close>

definition example_grant :: assignment_grant where
  "example_grant = \<lparr> ag_product_assignment_id = ''assignment'', ag_product_id = ''product'', ag_client_id = ''client'',
     ag_organization_id = ''other-org'', ag_site_id = None, ag_host_id = Some ''host'', ag_capability = ''video'',
     ag_service_id = None, ag_authorized = True \<rparr>"

definition example_common_request :: common_request where
  "example_common_request = \<lparr> cq_contract = common_client_contract, cq_client_id = ''client'', cq_organization_id = ''other-org'',
     cq_site_id = ''site'', cq_host_id = ''host'', cq_product_id = ''product'', cq_product_assignment_id = Some ''assignment'',
     cq_service_id = ''camera'', cq_capability = ''video'', cq_binding_epoch = Some 9, cq_policy_generation = None,
     cq_route_policy = CommonAuto, cq_expected_service_identity = None \<rparr>"

definition example_candidate :: "common_transport \<Rightarrow> u16 \<Rightarrow> common_candidate" where
  "example_candidate transport priority = \<lparr> cc_organization_id = Some ''other-org'', cc_client_id = Some ''client'',
     cc_site_id = Some ''site'', cc_host_id = Some ''host'', cc_product_id = None, cc_service_id = ''camera'',
     cc_capability = ''video'', cc_route_kind = PlaceRemote, cc_transport = transport, cc_endpoint = ''e'',
     cc_expected_service_identity = ''camera-1'', cc_authority_scope = ''s'', cc_trust_state = TrustTrusted,
     cc_health = ''ok'', cc_readiness = True, cc_priority = priority, cc_binding_epoch = 9, cc_configuration_version = 3,
     cc_sharing_scope = HostShared, cc_reason = None \<rparr>"

lemma assignment_trim: "trim ''assignment'' = ''assignment''"
  by code_simp

lemma example_request_admitted:
  "request_admitted enrolled_scope example_common_request (Some (memory_authorizer [example_grant]))"
proof -
  have "matches_request enrolled_scope (requested_of example_common_request) = Inr ()"
    unfolding matches_request_def enrolled_scope_valid requested_of_def enrolled_scope_def example_common_request_def by code_simp
  moreover have "memory_authorizer [example_grant] example_common_request = Inr example_grant"
    by (simp add: memory_authorizer_def grant_refuses_def assignment_trim example_grant_def example_common_request_def)
  ultimately show ?thesis by (simp add: request_admitted_def) (simp add: example_common_request_def)
qed

lemma example_candidate_usable: "usable enrolled_scope example_common_request (example_candidate transport priority)"
proof -
  have "\<not> is_blank ''camera-1''" "route_health_ready ''ok''" by code_simp+
  then show ?thesis
    by (simp add: usable_def scope_of_candidate_def shared_with_def identity_expected_def candidate_ready_def common_policy_allows_def
        example_candidate_def example_common_request_def enrolled_scope_def)
qed

text \<open>A relay of the best priority and a direct route of a worse one: the direct route is selected.\<close>

theorem common_resolution_sound_complete_witness:
  "\<exists>c. cn_selected (resolve_common_connectivity enrolled_scope example_common_request
      [example_candidate TransportRelay 1, example_candidate TransportDirectWan 5] (Some (memory_authorizer [example_grant]))) = Some c
     \<and> cc_transport c = TransportDirectWan"
proof -
  let ?cs = "[example_candidate TransportRelay 1, example_candidate TransportDirectWan 5]"
  let ?r = "cn_selected (resolve_common_connectivity enrolled_scope example_common_request ?cs (Some (memory_authorizer [example_grant])))"
  note resolved = common_resolution_sound_complete [of enrolled_scope example_common_request ?cs "Some (memory_authorizer [example_grant])"]
  obtain c where c: "?r = Some c"
    using conjunct1 [OF resolved] example_request_admitted example_candidate_usable by (cases ?r) auto
  with conjunct2 [OF resolved] have "c \<in> set ?cs"
    "candidate_order CommonAuto c \<le> candidate_order CommonAuto (example_candidate TransportDirectWan 5)"
    using example_candidate_usable by (auto simp: example_common_request_def)
  then have "c = example_candidate TransportDirectWan 5"
    by (auto simp: candidate_order_def transport_rank_def example_candidate_def)
  with c show ?thesis by (simp add: example_candidate_def)
qed

definition example_admission_request :: admission_request where
  "example_admission_request = \<lparr> hq_client_id = ''client'', hq_organization_id = ''other-org'', hq_site_id = ''site'',
     hq_host_id = ''host'', hq_host_identity_key_id = host_key_id, hq_host_identity_fingerprint = host_key_id,
     hq_binding_epoch = 9, hq_issued_at = 100, hq_expires_at = 400, hq_nonce = ''n'', hq_product_id = ''product'',
     hq_product_assignment_id = ''assignment'', hq_requested_capabilities = [''video''], hq_service_id = None,
     hq_trust_bundle_id = None \<rparr>"

lemma host_signing_identity: "host_admission_signing_identity plain_crypto ''host''
    = Inr \<lparr> su_key_id = host_key_id, su_public_key = signer_public_key plain_crypto ''host'', su_fingerprint = host_key_id \<rparr>"
  unfolding host_key_id_def by code_simp

lemma example_admits:
  obtains s where "sign_host_identity_admission plain_crypto ''host'' (host_binding_of example_enrolled) example_admission_request 3 120
    (memory_authorizer [example_grant]) (Some ''set-120'') = Inr s"
proof -
  let ?i = "\<lparr> su_key_id = host_key_id, su_public_key = signer_public_key plain_crypto ''host'', su_fingerprint = host_key_id \<rparr>"
  have "trim host_key_id = host_key_id" unfolding host_key_id_def by code_simp
  moreover have "\<not> is_blank ''n''" by code_simp
  ultimately have check: "check_admission_request ?i (host_binding_of example_enrolled) example_admission_request 120 = Inr ()"
    by (simp add: check_admission_request_def example_binding_epoch example_admission_request_def)
  have matches: "matches_request enrolled_scope \<lparr> rs_client_id = hq_client_id example_admission_request,
      rs_organization_id = hq_organization_id example_admission_request, rs_site_id = hq_site_id example_admission_request,
      rs_host_id = hq_host_id example_admission_request, rs_binding_epoch = Some 9, rs_policy_generation = None \<rparr> = Inr ()"
  proof -
    have "trim ''client'' = ''client''" "trim ''other-org'' = ''other-org''" "trim ''site'' = ''site''" "trim ''host'' = ''host''"
      by code_simp+
    then show ?thesis
      by (simp add: matches_request_def enrolled_scope_valid) (simp add: enrolled_scope_def example_admission_request_def)
  qed
  have "memory_authorizer [example_grant] (capability_request example_admission_request ''video'') = Inr example_grant"
    by (simp add: memory_authorizer_def grant_refuses_def assignment_trim example_grant_def capability_request_def example_admission_request_def)
  moreover have "\<not> is_blank ''product''" "\<not> is_blank ''assignment''" by code_simp+
  ultimately have caps: "authorize_requested_capabilities (memory_authorizer [example_grant]) example_admission_request = Inr [''video'']"
    by (simp add: authorize_requested_capabilities_def) (simp add: example_admission_request_def)
  have chosen: "admission_bundle_id (hq_trust_bundle_id example_admission_request) (Some ''set-120'') = Inr ''set-120''"
    unfolding example_admission_request_def by code_simp
  have domain: "\<not> is_blank host_admission_domain" by code_simp
  show thesis
    by (rule that) (simp add: sign_host_identity_admission_def host_signing_identity example_scope example_binding_epoch matches check caps
        chosen sign_domain_separated_def domain_separated_envelope_def domain Let_def)
qed

theorem signed_admission_is_authorized_witness:
  "\<exists>s :: signed_admission. ha_allowed_capabilities (hs_admission s) = Some [''video'']
     \<and> ha_organization_id (hs_admission s) = trim (hb_organization_id (host_binding_of example_enrolled))
     \<and> ha_trust_bundle_id (hs_admission s) = non_blank (Some ''set-120'')
     \<and> verify_signature_in_domain plain_crypto host_admission_domain (admission_json (hs_admission s)) (hs_signature s)
         (hs_public_key s) = Inr ()"
proof -
  obtain s where s: "sign_host_identity_admission plain_crypto ''host'' (host_binding_of example_enrolled) example_admission_request 3 120
    (memory_authorizer [example_grant]) (Some ''set-120'') = Inr s" by (rule example_admits)
  from signed_admission_is_authorized [OF plain_crypto_ok plain_b64 s] show ?thesis
    by (intro exI [of _ s]) (auto simp: example_admission_request_def)
qed

end
