(* ===== verification/Spec2Isabelle.thy ===== *)
theory Spec2Isabelle
  imports Control_State Path_Resolver Workload_Command Operation_Journal Connectivity_Scenario
begin

text \<open>
  Verification development for Actium Node Manager.

  The program runs on a host as a supervisor daemon (\<^verbatim>\<open>actium-node-supervisor\<close>) around a
  library (\<^verbatim>\<open>actium-node-core\<close>); a desktop application talks to the supervisor over IPC. The
  library decides what may run on the host: it admits and supervises the runtime units of a node,
  turns signed desired states into container projects, chooses connectivity routes, and keeps the
  queues and stores from which a host recovers after a crash. It also decides whom the host
  believes: the authority service issues authorities and trust bundles, a host stores the bundle
  it was anchored to, is enrolled by the authorities in it, and proves its trust to relays. The
  development models these decisions and the state they keep. Unless said otherwise source files are those of
  \<^verbatim>\<open>src/src-tauri/actium-node-core/src\<close>.

  \<^bold>\<open>Conventions.\<close> A \<open>u32\<close> or \<open>u64\<close> is a word, with the wrapping or saturation the code has; SQL
  integers are \<open>int\<close>. A \<open>String\<close> is its bytes. \<open>Result\<close> is a sum, \<open>Inl\<close> the error, and
  every early return is a branch. Text that reaches a store, a digest or a reply is modelled as it
  is built. What is not code of the repository (SQLite, Docker, the file system, the clock, the
  crates for JSON text, SHA-256, Base64, Ed25519 and regular expressions) is a parameter, with
  what is used of it as a named hypothesis.

  \<^bold>\<open>Theories.\<close>

  \<^item> \<open>Rust_Prelude\<close>: machine integers with saturating operations, strings, \<open>Option\<close> and \<open>Result\<close>
    combinators, list facts that components share (\<open>rust_arith\<close>, \<open>result_simps\<close>).

  \<^item> \<open>Circuit_Breaker\<close>, \<open>Control_Plane\<close> (\<^verbatim>\<open>runtime_control_plane.rs\<close>): classification of
    failures, the circuit breaker as a step relation with its reachable states, backoff;
    admission of a runtime unit from authority evidence, resources and health, leases, host
    pressure, watchdog, and the reconciler's choice of action.

  \<^item> \<open>Topology\<close> (\<^verbatim>\<open>topology.rs\<close>): from a profile to runtime units with identities, dependencies
    and Compose project names; \<open>Control_State\<close> (\<^verbatim>\<open>runtime.rs\<close>, the runtime control state): the
    records, events and receipts of the units, the control gate of one run and the permission to
    start, composed from admission and breaker.

  \<^item> \<open>Canonical_Json\<close> (\<^verbatim>\<open>workload_runtime/canonical.rs\<close>, \<^verbatim>\<open>attestation.rs\<close>): JSON values,
    their canonical text, which is injective, semantic normalisation, digests. Every signature
    and digest is over such a text.

  \<^item> \<open>Workload_Error\<close>, \<open>Workload_Types\<close>, \<open>Dependency_Order\<close>, \<open>Planner\<close>
    (\<^verbatim>\<open>workload_runtime/mod.rs\<close>, \<^verbatim>\<open>planner.rs\<close>): a desired state and a profile become a plan
    or an error; the order of components by Kahn's algorithm.

  \<^item> \<open>Workload_Store\<close>, \<open>Profile_Registry\<close> (\<^verbatim>\<open>workload_runtime/state.rs\<close>, \<^verbatim>\<open>registry.rs\<close>): the
    tables and transactions of the workload store, the published profiles.

  \<^item> \<open>Reconciler\<close> (\<^verbatim>\<open>workload_runtime/reconciler.rs\<close>): one run from a desired state to a signed
    receipt, a rollback or a call for the operator, over planner, registry and store and over the
    providers of containers, volumes, secrets and ingress.

  \<^item> \<open>Workload_Command\<close> (\<^verbatim>\<open>workload_runtime/ipc_boundary.rs\<close> and
    \<^verbatim>\<open>actium-node-supervisor/src/main.rs\<close>): the signed envelope and the two workload commands
    of the supervisor; the composition of everything workload.

  \<^item> \<open>Path_Resolver\<close> (\<^verbatim>\<open>path_resolver.rs\<close>): eligibility of routes and the choice among them with
    hysteresis, hold time and backoff.

  \<^item> \<open>Operation_Journal\<close> (\<^verbatim>\<open>journal.rs\<close>, \<^verbatim>\<open>redaction.rs\<close>): the durable queue of mutations with
    claims under a lease.

  \<^item> \<open>Json_Members\<close>, \<open>Trust_Types\<close> (\<^verbatim>\<open>trust_fabric.rs\<close>): encoders of records as JSON that are
    faithful, the data of the trust fabric, and the crates it uses as the record \<open>trust_crypto\<close>
    with the promises \<open>crypto_ok\<close>.

  \<^item> \<open>Key_Provider\<close>: the two key providers, the sealed one with its files and failing writes.

  \<^item> \<open>Trust_Verification\<close>: what a host checks of bundles, transitions and release manifests; the
    inductive predicate \<open>trusted\<close> is the specification that the checks are equivalent to.

  \<^item> \<open>Authority_Service\<close>: the service that issues, revokes, rotates, reissues the centre, signs
    bundles and reloads its durable state; \<open>Authority_Runs\<close>: the runs of its issuing steps, what they
    keep, and that hosts accept what a service with such a history issues.

  \<^item> \<open>Authority_Lifecycle\<close> (\<^verbatim>\<open>authority_lifecycle.rs\<close>): the plan that follows from the durable
    state and the served bundle.

  \<^item> \<open>Trust_Store\<close> (\<^verbatim>\<open>actium-node-supervisor/src/trust_store.rs\<close>): the store of a host with its
    disk and the failures of its writes; it refines a ledger of trust.

  \<^item> \<open>Host_Enrollment\<close> (\<^verbatim>\<open>authority.rs\<close> and the enrolment commands of
    \<^verbatim>\<open>actium-node-supervisor/src/main.rs\<close>): the proof of a host, the application of a package, the
    acknowledgement.

  \<^item> \<open>Connectivity_Trust\<close>, \<open>Relay_Trust\<close>, \<open>Connectivity_Client\<close> (\<^verbatim>\<open>canonical_scope.rs\<close>,
    \<^verbatim>\<open>connectivity_trust.rs\<close>, \<^verbatim>\<open>relay_trust.rs\<close>, \<^verbatim>\<open>connectivity_fabric.rs\<close>,
    \<^verbatim>\<open>connectivity_session.rs\<close>, \<^verbatim>\<open>common_connectivity_client.rs\<close>, \<^verbatim>\<open>host_identity_signing.rs\<close>):
    whether a host is trusted, the snapshots it signs and relays verify, the pipeline that resolves
    a request of a product, the admissions a host signs.

  \<^item> \<open>Trust_Scenario\<close>, \<open>Store_Scenario\<close>, \<open>Connectivity_Scenario\<close>: one concrete deployment at which
    the theorems of the trust group are applied.

  \<^bold>\<open>Interfaces.\<close> Locales state what one component promises another, each interpreted on the model:
  \<open>keyed_table\<close> and \<open>once_ledger\<close> (\<open>Workload_Store\<close>: rows under a primary key, nonces),
  \<open>run_invariant\<close> (\<open>Reconciler\<close>: what a run's bookkeeping keeps of the store), interpreted for the
  published tables, for the operations of other runs and (\<open>Workload_Command\<close>) for spent nonces;
  \<open>key_provider_contract\<close> (\<open>Key_Provider\<close>: what signing and revocation promise the authority
  service), interpreted for the provider in memory and for the sealed one; \<open>issuer_resolver\<close>
  (\<open>Relay_Trust\<close>: what a relay may rely on of the issuers it is given), interpreted for the list in
  memory and for the served bundle.

  \<^bold>\<open>Bounds.\<close> Nothing is bounded by fuel. The wait for convergence is \<open>partial_function (option)\<close>,
  and is proved to return when the clock does not go back (at most 150 rounds of 200 ms). The
  walk up a chain of authorities in the service is one too, and \<open>verify_chain_returns\<close> shows that it ends; the
  walk of a host is a terminating function. Word
  bounds are stated where a property needs them. Times in the journal stay below \<open>2 ^ 62\<close>.

  \<^bold>\<open>Not modelled.\<close> Input and output proper: sockets and IPC framing, Docker and Compose calls, the
  file system with its durability and permissions, the installer, logging and the desktop
  application with its TypeScript front end. The inner working of cryptography. The manifest lists
  the parts of the repository one by one with the reason for each.
\<close>

end
